(* ===== verification/Prelude.thy ===== *)
theory Prelude
  imports Main "HOL-Library.Char_ord" "HOL-Library.List_Lexorder"
begin

text \<open>
  What every component of the development shares: API errors as values, durations, the pieces of
  Go's standard library the modelled code uses on strings and sorted string sets, and the JSON
  trees behind \<^verbatim>\<open>map[string]any\<close> and \<^verbatim>\<open>unstructured.Unstructured\<close>.

  Strings are byte lists; \<open>strings.TrimSpace\<close> is modelled on the ASCII white space. A
  \<^verbatim>\<open>time.Duration\<close> or \<^verbatim>\<open>time.Time\<close> is an integer number of nanoseconds.
\<close>

subsection \<open>Durations\<close>

type_synonym duration = int
type_synonym gotime = int

definition second :: duration where
  "second = 1000000000"

subsection \<open>API errors\<close>

text \<open>
  An error is the reason that \<^verbatim>\<open>apierrors.IsNotFound\<close> and its kin read off it, and its
  message. \<open>NoMatch\<close> is \<^verbatim>\<open>meta.IsNoMatchError\<close>; \<open>StoreNotFound\<close> is the error of an OpenFGA store that
  does not exist (\<^verbatim>\<open>IsStoreNotFound\<close>). \<open>wrap\<close> is \<^verbatim>\<open>fmt.Errorf("s: %w", err)\<close>: the reason stays visible through the
  wrapping. \<open>join_errs\<close> is \<^verbatim>\<open>errors.Join\<close> of two possibly nil errors: the first member of the
  tree that carries an API reason decides it.
\<close>

datatype reason = NotFound | Conflict | AlreadyExists | Forbidden | NoMatch | StoreNotFound | OtherReason

datatype err = Err (err_reason: reason) (err_msg: string)

definition errorf :: "string \<Rightarrow> err" where
  "errorf s = Err OtherReason s"

definition wrap :: "string \<Rightarrow> err \<Rightarrow> err" where
  "wrap s e = Err (err_reason e) (s @ '': '' @ err_msg e)"

fun join_errs :: "err option \<Rightarrow> err option \<Rightarrow> err option" where
  "join_errs None e = e"
| "join_errs (Some e) None = Some e"
| "join_errs (Some a) (Some b) =
     Some (Err (if err_reason a = OtherReason then err_reason b else err_reason a)
               (err_msg a @ [CHR 0x0A] @ err_msg b))"

definition is_not_found :: "err \<Rightarrow> bool" where
  "is_not_found e \<longleftrightarrow> err_reason e = NotFound"

definition is_conflict :: "err \<Rightarrow> bool" where
  "is_conflict e \<longleftrightarrow> err_reason e = Conflict"

definition is_forbidden :: "err \<Rightarrow> bool" where
  "is_forbidden e \<longleftrightarrow> err_reason e = Forbidden"

definition is_no_match :: "err \<Rightarrow> bool" where
  "is_no_match e \<longleftrightarrow> err_reason e = NoMatch"

definition is_already_exists :: "err \<Rightarrow> bool" where
  "is_already_exists e \<longleftrightarrow> err_reason e = AlreadyExists"

text \<open>\<^verbatim>\<open>ctrlruntimeclient.IgnoreNotFound\<close>.\<close>

definition ignore_not_found :: "err option \<Rightarrow> err option" where
  "ignore_not_found e = (case e of Some x \<Rightarrow> (if is_not_found x then None else Some x) | None \<Rightarrow> None)"

lemma wrap_reason [simp]: "err_reason (wrap s e) = err_reason e"
  by (simp add: wrap_def)

lemma is_not_found_wrap [simp]: "is_not_found (wrap s e) = is_not_found e"
  by (simp add: is_not_found_def)

lemma is_conflict_wrap [simp]: "is_conflict (wrap s e) = is_conflict e"
  by (simp add: is_conflict_def)

lemma join_errs_None_iff [simp]: "join_errs a b = None \<longleftrightarrow> a = None \<and> b = None"
  by (cases a; cases b) auto

subsection \<open>Strings\<close>

definition quoted :: "string \<Rightarrow> string" where
  "quoted s = [CHR 0x22] @ s @ [CHR 0x22]"

definition is_space :: "char \<Rightarrow> bool" where
  "is_space c \<longleftrightarrow> c \<in> {CHR 0x09, CHR 0x0A, CHR 0x0B, CHR 0x0C, CHR 0x0D, CHR '' ''}"

definition trim_space :: "string \<Rightarrow> string" where
  "trim_space s = rev (dropWhile is_space (rev (dropWhile is_space s)))"

definition has_prefix :: "string \<Rightarrow> string \<Rightarrow> bool" where
  "has_prefix s p \<longleftrightarrow> take (length p) s = p"

definition has_suffix :: "string \<Rightarrow> string \<Rightarrow> bool" where
  "has_suffix s p \<longleftrightarrow> has_prefix (rev s) (rev p)"

definition trim_prefix :: "string \<Rightarrow> string \<Rightarrow> string" where
  "trim_prefix s p = (if has_prefix s p then drop (length p) s else s)"

definition trim_suffix :: "string \<Rightarrow> string \<Rightarrow> string" where
  "trim_suffix s p = (if has_suffix s p then take (length s - length p) s else s)"

text \<open>\<^verbatim>\<open>strings.Split\<close> and \<^verbatim>\<open>strings.ReplaceAll\<close> for a separator of one byte.\<close>

fun split_on :: "char \<Rightarrow> string \<Rightarrow> string list" where
  "split_on c [] = [[]]"
| "split_on c (x # xs) =
     (if x = c then [] # split_on c xs
      else (case split_on c xs of [] \<Rightarrow> [[x]] | y # ys \<Rightarrow> (x # y) # ys))"

fun join_with :: "string \<Rightarrow> string list \<Rightarrow> string" where
  "join_with sep [] = []"
| "join_with sep [x] = x"
| "join_with sep (x # y # ys) = x @ sep @ join_with sep (y # ys)"

definition replace_char :: "char \<Rightarrow> char \<Rightarrow> string \<Rightarrow> string" where
  "replace_char a b s = map (\<lambda>c. if c = a then b else c) s"

text \<open>\<^verbatim>\<open>strings.ToLower\<close> on ASCII letters and \<^verbatim>\<open>strings.Trim\<close> of one byte.\<close>

definition to_lower :: "string \<Rightarrow> string" where
  "to_lower s = map (\<lambda>c. let n = (of_char c :: nat) in if 65 \<le> n \<and> n \<le> 90 then char_of (n + 32) else c) s"

definition trim_char :: "char \<Rightarrow> string \<Rightarrow> string" where
  "trim_char c s = rev (dropWhile (\<lambda>x. x = c) (rev (dropWhile (\<lambda>x. x = c) s)))"

lemma has_prefix_append [simp]: "has_prefix (p @ s) p"
  by (simp add: has_prefix_def)

lemma has_prefix_iff: "has_prefix s p \<longleftrightarrow> (\<exists>t. s = p @ t)"
  by (metis append_eq_conv_conj append_take_drop_id has_prefix_def)

lemma trim_prefix_append [simp]: "trim_prefix (p @ s) p = s"
  by (simp add: trim_prefix_def)

lemma has_suffix_append [simp]: "has_suffix (s @ p) p"
  by (simp add: has_suffix_def)

lemma trim_suffix_append [simp]: "trim_suffix (s @ p) p = s"
  by (simp add: trim_suffix_def)

lemma length_replace_char [simp]: "length (replace_char a b s) = length s"
  by (simp add: replace_char_def)

lemma replace_char_gone: "a \<noteq> b \<Longrightarrow> a \<notin> set (replace_char a b s)"
  by (auto simp: replace_char_def split: if_splits)

lemma split_on_nonempty [simp]: "split_on c s \<noteq> []"
  by (induction s) (auto split: list.splits)

lemma join_split_on: "join_with [c] (split_on c s) = s"
proof (induction s)
  case Nil
  show ?case by simp
next
  case (Cons x xs)
  obtain y ys where s: "split_on c xs = y # ys"
    by (metis list.exhaust split_on_nonempty)
  show ?case
    using Cons s by (cases ys) (auto)
qed

text \<open>
  \<^verbatim>\<open>strings.Cut\<close> at one byte: what comes before its first occurrence and what comes after it. Without
  an occurrence the first part is the whole string.
\<close>

definition upto_char :: "char \<Rightarrow> string \<Rightarrow> string" where
  "upto_char c s = takeWhile (\<lambda>x. x \<noteq> c) s"

definition from_char :: "char \<Rightarrow> string \<Rightarrow> string" where
  "from_char c s = drop 1 (dropWhile (\<lambda>x. x \<noteq> c) s)"

lemma upto_char_append [simp]: "c \<notin> set a \<Longrightarrow> upto_char c (a @ c # b) = a"
  and from_char_append [simp]: "c \<notin> set a \<Longrightarrow> from_char c (a @ c # b) = b"
  and upto_char_none [simp]: "c \<notin> set a \<Longrightarrow> upto_char c a = a"
  unfolding upto_char_def from_char_def by (induction a) auto

lemma upto_from_char: "c \<in> set s \<Longrightarrow> s = upto_char c s @ c # from_char c s"
  unfolding upto_char_def from_char_def by (induction s) auto

lemma upto_char_free [simp]: "c \<notin> set (upto_char c s)"
  unfolding upto_char_def by (metis (mono_tags, lifting) set_takeWhileD)

lemma set_upto_char: "set (upto_char c s) \<subseteq> set s"
  unfolding upto_char_def by (auto dest: set_takeWhileD)

lemma split_on_append [simp]: "c \<notin> set a \<Longrightarrow> split_on c (a @ c # b) = a # split_on c b"
  by (induction a) auto

lemma split_on_free [simp]: "c \<notin> set a \<Longrightarrow> split_on c a = [a]"
  by (induction a) auto

lemma split_on_parts: "x \<in> set (split_on c s) \<Longrightarrow> c \<notin> set x \<and> set x \<subseteq> set s"
  by (induction s arbitrary: x) (force split: list.splits if_splits)+

lemma trim_space_idem_aux: "xs = [] \<or> \<not> P (hd xs) \<Longrightarrow> dropWhile P xs = xs"
  by (cases xs) auto

lemma hd_dropWhile_not: "dropWhile P xs = [] \<or> \<not> P (hd (dropWhile P xs))"
  by (induction xs) auto

lemma dropWhile_rev_hd:
  assumes "ys = dropWhile P xs"
  shows "rev (dropWhile P (rev ys)) = [] \<or> \<not> P (hd (rev (dropWhile P (rev ys))))"
proof -
  obtain zs where z: "rev ys = zs @ dropWhile P (rev ys)"
    by (metis takeWhile_dropWhile_id)
  hence "ys = rev (dropWhile P (rev ys)) @ rev zs"
    by (metis rev_append rev_rev_ident)
  moreover have "ys = [] \<or> \<not> P (hd ys)"
    using assms hd_dropWhile_not by metis
  ultimately show ?thesis
    by (metis hd_append2 append_is_Nil_conv)
qed

lemma trim_space_idem [simp]: "trim_space (trim_space s) = trim_space s"
proof -
  let ?d = "dropWhile is_space s"
  let ?t = "rev (dropWhile is_space (rev ?d))"
  have t: "trim_space s = ?t" by (simp add: trim_space_def)
  have a: "dropWhile is_space ?t = ?t"
    by (rule trim_space_idem_aux) (rule dropWhile_rev_hd [OF refl])
  have b: "dropWhile is_space (rev ?t) = rev ?t"
    using hd_dropWhile_not [of is_space "rev ?d"] by (simp add: trim_space_idem_aux)
  have "trim_space ?t = rev (dropWhile is_space (rev ?t))"
    unfolding trim_space_def by (subst a) (rule refl)
  also have "\<dots> = ?t" by (subst b) simp
  finally show ?thesis by (simp only: t)
qed

lemma set_trim_space: "set (trim_space s) \<subseteq> set s"
  unfolding trim_space_def by (auto dest!: set_dropWhileD)

lemma trim_space_Nil [simp]: "trim_space [] = []"
  by (simp add: trim_space_def)

text \<open>What follows the last occurrence of a text.\<close>

fun after_last :: "string \<Rightarrow> string \<Rightarrow> string option" where
  "after_last p [] = (if p = [] then Some [] else None)"
| "after_last p (c # cs) =
     (case after_last p cs of
        Some r \<Rightarrow> Some r
      | None \<Rightarrow> if has_prefix (c # cs) p then Some (drop (length p) (c # cs)) else None)"

subsection \<open>Decimal numbers\<close>

text \<open>\<^verbatim>\<open>strconv.Itoa\<close> and \<^verbatim>\<open>strconv.Atoi\<close> (which fails outside the 64-bit range).\<close>

definition digit_char :: "nat \<Rightarrow> char" where
  "digit_char d = char_of (48 + d)"

definition char_digit :: "char \<Rightarrow> nat option" where
  "char_digit c = (let n = (of_char c :: nat) in if 48 \<le> n \<and> n \<le> 57 then Some (n - 48) else None)"

fun nat_digits :: "nat \<Rightarrow> string" where
  "nat_digits n = (if n < 10 then [digit_char n] else nat_digits (n div 10) @ [digit_char (n mod 10)])"

declare nat_digits.simps [simp del]

definition itoa :: "int \<Rightarrow> string" where
  "itoa i = (if i < 0 then ''-'' @ nat_digits (nat (- i)) else nat_digits (nat i))"

fun digits_val :: "string \<Rightarrow> nat \<Rightarrow> nat option" where
  "digits_val [] acc = Some acc"
| "digits_val (c # cs) acc =
     (case char_digit c of None \<Rightarrow> None | Some d \<Rightarrow> digits_val cs (10 * acc + d))"

definition parse_nat :: "string \<Rightarrow> nat option" where
  "parse_nat s = (if s = [] then None else digits_val s 0)"

definition int64_of :: "int \<Rightarrow> int option" where
  "int64_of i = (if - (2 ^ 63) \<le> i \<and> i < 2 ^ 63 then Some i else None)"

definition atoi :: "string \<Rightarrow> int option" where
  "atoi s = (case s of
      [] \<Rightarrow> None
    | c # cs \<Rightarrow>
        (if c = CHR ''-'' then Option.bind (parse_nat cs) (\<lambda>n. int64_of (- int n))
         else if c = CHR ''+'' then Option.bind (parse_nat cs) (\<lambda>n. int64_of (int n))
         else Option.bind (parse_nat s) (\<lambda>n. int64_of (int n))))"

lemma char_digit_digit_char [simp]: "d < 10 \<Longrightarrow> char_digit (digit_char d) = Some d"
  by (simp add: char_digit_def digit_char_def)

lemma digits_val_append:
  "digits_val (xs @ ys) acc = Option.bind (digits_val xs acc) (digits_val ys)"
  by (induction xs arbitrary: acc) (auto split: option.splits)

lemma digits_val_nat_digits: "digits_val (nat_digits n) 0 = Some n"
proof (induction n rule: nat_digits.induct)
  case (1 n)
  show ?case
  proof (cases "n < 10")
    case True
    then show ?thesis by (simp add: nat_digits.simps [of n])
  next
    case False
    with 1 have "digits_val (nat_digits (n div 10)) 0 = Some (n div 10)" by simp
    with False show ?thesis
      by (simp add: nat_digits.simps [of n] digits_val_append)
  qed
qed

lemma nat_digits_nonempty [simp]: "nat_digits n \<noteq> []"
  by (subst nat_digits.simps) simp

lemma nat_digits_hd: "hd (nat_digits n) \<in> digit_char ` {0..<10}"
proof (induction n rule: nat_digits.induct)
  case (1 n)
  show ?case
  proof (cases "n < 10")
    case True
    then show ?thesis by (simp add: nat_digits.simps [of n])
  next
    case False
    with 1 show ?thesis by (simp add: nat_digits.simps [of n])
  qed
qed

lemma digit_char_neq: "d < 10 \<Longrightarrow> digit_char d \<noteq> CHR ''-'' \<and> digit_char d \<noteq> CHR ''+''"
proof -
  assume d: "d < 10"
  hence "char_digit (digit_char d) = Some d" by simp
  moreover have "char_digit (CHR ''-'') = None" "char_digit (CHR ''+'') = None"
    by (simp_all add: char_digit_def)
  ultimately show ?thesis by (metis option.distinct(1))
qed

lemma atoi_itoa: "- (2 ^ 63) \<le> i \<Longrightarrow> i < 2 ^ 63 \<Longrightarrow> atoi (itoa i) = Some i"
proof -
  assume b: "- (2 ^ 63) \<le> i" "i < 2 ^ 63"
  show ?thesis
  proof (cases "i < 0")
    case True
    with b show ?thesis
      by (simp add: atoi_def itoa_def parse_nat_def digits_val_nat_digits int64_of_def)
  next
    case False
    let ?s = "nat_digits (nat i)"
    obtain c cs where s: "?s = c # cs"
      by (metis list.exhaust nat_digits_nonempty)
    have "c \<in> digit_char ` {0..<10}"
      using nat_digits_hd [of "nat i"] s by simp
    hence "c \<noteq> CHR ''-''" "c \<noteq> CHR ''+''" using digit_char_neq by auto
    moreover have "digits_val (c # cs) 0 = Some (nat i)"
      using digits_val_nat_digits [of "nat i"] s by simp
    ultimately show ?thesis using False b s
      by (simp add: atoi_def itoa_def parse_nat_def int64_of_def)
  qed
qed

subsection \<open>Sorted string sets\<close>

text \<open>\<^verbatim>\<open>slices.Sorted(maps.Keys(m))\<close> and \<^verbatim>\<open>sets.List\<close> list a string set in byte order.\<close>

definition sorted_set :: "string list \<Rightarrow> string list" where
  "sorted_set xs = sort (remdups xs)"

lemma set_sorted_set [simp]: "set (sorted_set xs) = set xs"
  by (simp add: sorted_set_def)

lemma distinct_sorted_set [simp]: "distinct (sorted_set xs)"
  by (simp add: sorted_set_def)

lemma sorted_sorted_set [simp]: "sorted (sorted_set xs)"
  by (simp add: sorted_set_def)

subsection \<open>JSON trees\<close>

text \<open>
  The value of a Go \<^verbatim>\<open>any\<close> that came out of a JSON decoder. An object lists its entries in the
  order one iteration of the map yields them. A floating-point number is kept as the text
  \<^verbatim>\<open>fmt\<close>'s \<^verbatim>\<open>%v\<close> prints for it.
\<close>

datatype json =
    JNull
  | JBool bool
  | JInt int
  | JFloat string
  | JStr string
  | JArr "json list"
  | JObj "(string \<times> json) list"

fun json_get :: "json \<Rightarrow> string \<Rightarrow> json option" where
  "json_get (JObj kvs) k = map_of kvs k"
| "json_get _ k = None"

text \<open>
  The accessors of the \<^verbatim>\<open>unstructured\<close> package on nested fields are parameters: an error, a missing
  field (\<open>Inr None\<close>) or the value. The code relies on nothing but their results.
\<close>

record unstructured_api =
  nested_field_no_copy :: "json \<Rightarrow> string list \<Rightarrow> err + json option"
  nested_string :: "json \<Rightarrow> string list \<Rightarrow> err + string option"
  nested_map :: "json \<Rightarrow> string list \<Rightarrow> err + (string \<times> json) list option"

text \<open>An instance for closed examples, which walks the fields from the root.\<close>

fun walk_fields :: "json \<Rightarrow> string list \<Rightarrow> err + json option" where
  "walk_fields v [] = Inr (Some v)"
| "walk_fields (JObj kvs) (f # fs) =
     (case map_of kvs f of None \<Rightarrow> Inr None | Some v \<Rightarrow> walk_fields v fs)"
| "walk_fields v (f # fs) = Inl (errorf ''accessor error'')"

definition walk_string :: "json \<Rightarrow> string list \<Rightarrow> err + string option" where
  "walk_string v fs = (case walk_fields v fs of
      Inl e \<Rightarrow> Inl e
    | Inr None \<Rightarrow> Inr None
    | Inr (Some (JStr s)) \<Rightarrow> Inr (Some s)
    | Inr (Some _) \<Rightarrow> Inl (errorf ''accessor error''))"

definition walk_map :: "json \<Rightarrow> string list \<Rightarrow> err + (string \<times> json) list option" where
  "walk_map v fs = (case walk_fields v fs of
      Inl e \<Rightarrow> Inl e
    | Inr None \<Rightarrow> Inr None
    | Inr (Some (JObj kvs)) \<Rightarrow> Inr (Some kvs)
    | Inr (Some _) \<Rightarrow> Inl (errorf ''accessor error''))"

definition walk_api :: unstructured_api where
  "walk_api = \<lparr>nested_field_no_copy = walk_fields, nested_string = walk_string, nested_map = walk_map\<rparr>"

text \<open>Association-list update and deletion, for writes to a \<^verbatim>\<open>map[string]any\<close>.\<close>

definition obj_delete :: "string \<Rightarrow> (string \<times> 'a) list \<Rightarrow> (string \<times> 'a) list" where
  "obj_delete k kvs = filter (\<lambda>kv. fst kv \<noteq> k) kvs"

fun obj_put :: "string \<Rightarrow> 'a \<Rightarrow> (string \<times> 'a) list \<Rightarrow> (string \<times> 'a) list" where
  "obj_put k v [] = [(k, v)]"
| "obj_put k v ((k', v') # kvs) = (if k' = k then (k, v) # kvs else (k', v') # obj_put k v kvs)"

lemma map_of_obj_delete [simp]: "map_of (obj_delete k kvs) = (map_of kvs)(k := None)"
  by (induction kvs) (auto simp: obj_delete_def fun_eq_iff)

lemma set_obj_put: "set (obj_put k v kvs) \<subseteq> insert (k, v) (set kvs)"
  by (induction kvs) (auto split: if_splits)

lemma map_of_obj_put [simp]: "map_of (obj_put k v kvs) = (map_of kvs)(k \<mapsto> v)"
  by (induction kvs) (auto simp: fun_eq_iff)

end
