(* ===== verification/Objects.thy ===== *)
theory Objects
  imports Prelude
begin

text \<open>
  The Go interfaces an API object satisfies: \<^verbatim>\<open>ctrlruntimeclient.Object\<close>, and the optional
  \<^verbatim>\<open>conditions.ConditionAccessor\<close> and \<^verbatim>\<open>spread.SpreadReconcileStatus\<close>, which a type either
  implements or not. An interface value is a record of its methods over the object type, so that
  the lifecycle engine is written once for every object type. The library functions on objects
  the engine calls (\<^verbatim>\<open>controllerutil\<close>'s finalizer helpers, the unstructured converter) are
  fields as well: they are not code of the repository. The locale \<open>object_laws\<close> states what
  an implementation promises.
\<close>

subsection \<open>Conditions\<close>

datatype cstatus = CTrue | CFalse | CUnknown

text \<open>\<^verbatim>\<open>metav1.Condition\<close>, without the transition time, which no code here reads or writes.\<close>

record condition =
  cond_type :: string
  cond_status :: cstatus
  cond_reason :: string
  cond_message :: string
  cond_generation :: int

record 'o cond_accessor =
  get_conditions :: "'o \<Rightarrow> condition list"
  set_conditions :: "condition list \<Rightarrow> 'o \<Rightarrow> 'o"

text \<open>\<^verbatim>\<open>subroutines/spread/status.go\<close>; the zero time is \<open>None\<close>.\<close>

record 'o spread_status =
  get_observed_generation :: "'o \<Rightarrow> int"
  set_observed_generation :: "int \<Rightarrow> 'o \<Rightarrow> 'o"
  get_next_reconcile_time :: "'o \<Rightarrow> gotime option"
  set_next_reconcile_time :: "gotime \<Rightarrow> 'o \<Rightarrow> 'o"

subsection \<open>The object interface\<close>

record 'o obj_iface =
  obj_name :: "'o \<Rightarrow> string"
  obj_namespace :: "'o \<Rightarrow> string"
  obj_generation :: "'o \<Rightarrow> int"
  obj_deletion :: "'o \<Rightarrow> gotime option"
  obj_finalizers :: "'o \<Rightarrow> string list"
  set_finalizers :: "string list \<Rightarrow> 'o \<Rightarrow> 'o"
  remove_finalizer :: "'o \<Rightarrow> string \<Rightarrow> 'o"
  obj_labels :: "'o \<Rightarrow> (string \<rightharpoonup> string) option"
  set_labels :: "(string \<rightharpoonup> string) option \<Rightarrow> 'o \<Rightarrow> 'o"
  obj_version :: "'o \<Rightarrow> string"
  set_version :: "string \<Rightarrow> 'o \<Rightarrow> 'o"
  cond_acc :: "'o cond_accessor option"
  spread_acc :: "'o spread_status option"
  to_unstructured :: "'o \<Rightarrow> err + json"
  from_unstructured :: "json \<Rightarrow> 'o \<Rightarrow> err option \<times> 'o"

text \<open>
  The laws: every setter is read back by its getter, and none changes the deletion timestamp or
  the generation; nothing but the finalizer setters changes the finalizers.
\<close>

locale object_laws =
  fixes I :: "'o obj_iface"
  assumes finalizers_set [simp]: "obj_finalizers I (set_finalizers I fs ob) = fs"
    and deletion_set_finalizers [simp]: "obj_deletion I (set_finalizers I fs ob) = obj_deletion I ob"
    and generation_set_finalizers [simp]:
      "obj_generation I (set_finalizers I fs ob) = obj_generation I ob"
    and finalizers_remove [simp]:
      "obj_finalizers I (remove_finalizer I ob f) = removeAll f (obj_finalizers I ob)"
    and deletion_remove [simp]: "obj_deletion I (remove_finalizer I ob f) = obj_deletion I ob"
    and generation_remove [simp]: "obj_generation I (remove_finalizer I ob f) = obj_generation I ob"
    and conditions_get_set:
      "cond_acc I = Some a \<Longrightarrow> get_conditions a (set_conditions a cs ob) = cs"
    and finalizers_set_conditions:
      "cond_acc I = Some a \<Longrightarrow> obj_finalizers I (set_conditions a cs ob) = obj_finalizers I ob"
    and deletion_set_conditions:
      "cond_acc I = Some a \<Longrightarrow> obj_deletion I (set_conditions a cs ob) = obj_deletion I ob"
    and generation_set_conditions:
      "cond_acc I = Some a \<Longrightarrow> obj_generation I (set_conditions a cs ob) = obj_generation I ob"
    and observed_get_set:
      "spread_acc I = Some s \<Longrightarrow> get_observed_generation s (set_observed_generation s g ob) = g"
    and observed_set_next:
      "spread_acc I = Some s \<Longrightarrow>
         get_observed_generation s (set_next_reconcile_time s t ob) = get_observed_generation s ob"
    and next_get_set:
      "spread_acc I = Some s \<Longrightarrow> get_next_reconcile_time s (set_next_reconcile_time s t ob) = Some t"
    and finalizers_set_observed:
      "spread_acc I = Some s \<Longrightarrow> obj_finalizers I (set_observed_generation s g ob) = obj_finalizers I ob"
    and finalizers_set_next:
      "spread_acc I = Some s \<Longrightarrow> obj_finalizers I (set_next_reconcile_time s t ob) = obj_finalizers I ob"
    and deletion_set_observed:
      "spread_acc I = Some s \<Longrightarrow> obj_deletion I (set_observed_generation s g ob) = obj_deletion I ob"
    and deletion_set_next:
      "spread_acc I = Some s \<Longrightarrow> obj_deletion I (set_next_reconcile_time s t ob) = obj_deletion I ob"
    and generation_set_observed:
      "spread_acc I = Some s \<Longrightarrow> obj_generation I (set_observed_generation s g ob) = obj_generation I ob"
    and generation_set_next:
      "spread_acc I = Some s \<Longrightarrow> obj_generation I (set_next_reconcile_time s t ob) = obj_generation I ob"
    and labels_get_set [simp]: "obj_labels I (set_labels I l ob) = l"
    and labels_set_next:
      "spread_acc I = Some s \<Longrightarrow> obj_labels I (set_next_reconcile_time s t ob) = obj_labels I ob"
    and labels_set_observed:
      "spread_acc I = Some s \<Longrightarrow> obj_labels I (set_observed_generation s g ob) = obj_labels I ob"
    and finalizers_set_labels [simp]: "obj_finalizers I (set_labels I l ob) = obj_finalizers I ob"
    and deletion_set_labels [simp]: "obj_deletion I (set_labels I l ob) = obj_deletion I ob"
    and generation_set_labels [simp]: "obj_generation I (set_labels I l ob) = obj_generation I ob"
    and observed_set_labels:
      "spread_acc I = Some s \<Longrightarrow>
         get_observed_generation s (set_labels I l ob) = get_observed_generation s ob"
    and next_set_labels:
      "spread_acc I = Some s \<Longrightarrow>
         get_next_reconcile_time s (set_labels I l ob) = get_next_reconcile_time s ob"
begin

lemmas condition_frame_laws =
  conditions_get_set finalizers_set_conditions deletion_set_conditions generation_set_conditions

lemmas spread_frame_laws =
  observed_get_set observed_set_next next_get_set finalizers_set_observed finalizers_set_next
  deletion_set_observed deletion_set_next generation_set_observed generation_set_next
  labels_set_next labels_set_observed observed_set_labels next_set_labels

lemma finalizers_foldl_remove:
  "obj_finalizers I (foldl (remove_finalizer I) ob fs) = filter (\<lambda>f. f \<notin> set fs) (obj_finalizers I ob)"
proof (induction fs arbitrary: ob)
  case Nil
  show ?case by simp
next
  case (Cons f fs)
  then show ?case by (simp add: removeAll_filter_not_eq conj_commute) (rule filter_cong, auto)
qed

lemma deletion_foldl_remove [simp]:
  "obj_deletion I (foldl (remove_finalizer I) ob fs) = obj_deletion I ob"
  by (induction fs arbitrary: ob) auto

end

end
