(* ===== verification/Subroutines.thy ===== *)
theory Subroutines
  imports Objects
begin

text \<open>
  \<^verbatim>\<open>subroutines/result.go\<close>, \<^verbatim>\<open>subroutine.go\<close> and \<^verbatim>\<open>context.go\<close>: the result a subroutine hands to the
  lifecycle engine, the four interfaces a subroutine may implement, and the client a context
  carries. \<open>Pending\<close> panics on a non-positive duration, so an outcome is either a returned
  pair of a result and an error, or a panic.
\<close>

subsection \<open>Results\<close>

datatype raction =
  ActContinue | ActPending | ActStopWithRequeue | ActStop | ActSkipAll | ActSkip

record result =
  res_action :: raction
  res_requeue :: duration
  res_message :: string
  res_ready :: bool

definition zero_result :: result where
  "zero_result = \<lparr>res_action = ActContinue, res_requeue = 0, res_message = [], res_ready = False\<rparr>"

definition OK :: result where
  "OK = zero_result"

definition OKWithRequeue :: "duration \<Rightarrow> result" where
  "OKWithRequeue d = zero_result\<lparr>res_action := ActContinue, res_requeue := d\<rparr>"

definition Pending :: "duration \<Rightarrow> string \<Rightarrow> string + result" where
  "Pending d msg =
     (if d \<le> 0 then Inl ''subroutines: Pending requires a positive requeue duration''
      else Inr (zero_result\<lparr>res_action := ActPending, res_requeue := d, res_message := msg\<rparr>))"

definition StopWithRequeue :: "duration \<Rightarrow> string \<Rightarrow> result" where
  "StopWithRequeue d msg =
     zero_result\<lparr>res_action := ActStopWithRequeue, res_requeue := d, res_message := msg\<rparr>"

definition Stop :: "string \<Rightarrow> result" where
  "Stop msg = zero_result\<lparr>res_action := ActStop, res_message := msg\<rparr>"

definition SkipAll :: "bool \<Rightarrow> string \<Rightarrow> result" where
  "SkipAll ready msg = zero_result\<lparr>res_action := ActSkipAll, res_message := msg, res_ready := ready\<rparr>"

definition Skip :: "string \<Rightarrow> result" where
  "Skip msg = zero_result\<lparr>res_action := ActSkip, res_message := msg\<rparr>"

definition is_continue :: "result \<Rightarrow> bool" where
  "is_continue r \<longleftrightarrow> res_action r = ActContinue"

definition is_pending :: "result \<Rightarrow> bool" where
  "is_pending r \<longleftrightarrow> res_action r = ActPending"

definition is_stop_with_requeue :: "result \<Rightarrow> bool" where
  "is_stop_with_requeue r \<longleftrightarrow> res_action r = ActStopWithRequeue"

definition is_stop :: "result \<Rightarrow> bool" where
  "is_stop r \<longleftrightarrow> res_action r = ActStop"

definition is_skip_all :: "result \<Rightarrow> bool" where
  "is_skip_all r \<longleftrightarrow> res_action r = ActSkipAll"

definition is_skip :: "result \<Rightarrow> bool" where
  "is_skip r \<longleftrightarrow> res_action r = ActSkip"

lemmas result_preds =
  is_continue_def is_pending_def is_stop_with_requeue_def is_stop_def is_skip_all_def is_skip_def

lemmas result_makers =
  OK_def OKWithRequeue_def Pending_def StopWithRequeue_def Stop_def SkipAll_def Skip_def zero_result_def

subsection \<open>Outcomes\<close>

datatype outcome = Ret result "err option" | Panic string

text \<open>\<^verbatim>\<open>return r, nil\<close>, \<^verbatim>\<open>return subroutines.Pending(d, msg), nil\<close> and \<^verbatim>\<open>return Result{}, err\<close>.\<close>

definition ret :: "result \<Rightarrow> outcome" where
  "ret r = Ret r None"

definition ret_pending :: "duration \<Rightarrow> string \<Rightarrow> outcome" where
  "ret_pending d msg = (case Pending d msg of Inl p \<Rightarrow> Panic p | Inr r \<Rightarrow> Ret r None)"

definition ret_err :: "err \<Rightarrow> outcome" where
  "ret_err e = Ret zero_result (Some e)"

lemmas outcome_makers = ret_def ret_pending_def ret_err_def

subsection \<open>Contexts\<close>

text \<open>
  A context carries the cluster name (\<^verbatim>\<open>mccontext.WithCluster\<close>), the client
  (\<^verbatim>\<open>subroutines.WithClient\<close>) and whatever else a controller puts in it.
\<close>

record ('cl, 'v) ctx =
  ctx_cluster :: "string option"
  ctx_client :: "'cl option"
  ctx_values :: 'v

definition WithClient :: "('cl, 'v) ctx \<Rightarrow> 'cl \<Rightarrow> ('cl, 'v) ctx" where
  "WithClient c cl = c\<lparr>ctx_client := Some cl\<rparr>"

definition ClientFromContext :: "('cl, 'v) ctx \<Rightarrow> err + 'cl" where
  "ClientFromContext c =
     (case ctx_client c of None \<Rightarrow> Inl (errorf ''no client in context'') | Some cl \<Rightarrow> Inr cl)"

text \<open>\<open>None\<close> is the panic.\<close>

definition MustClientFromContext :: "('cl, 'v) ctx \<Rightarrow> 'cl option" where
  "MustClientFromContext c = (case ClientFromContext c of Inl e \<Rightarrow> None | Inr cl \<Rightarrow> Some cl)"

lemma client_round_trip [simp]: "ClientFromContext (WithClient c cl) = Inr cl"
  by (simp add: ClientFromContext_def WithClient_def)

subsection \<open>Subroutines\<close>

text \<open>
  A subroutine's operation gets the context, the object and the state of the world (the API
  servers and everything else outside the process); it returns an outcome, the object it may
  have changed in place, and the new world. An operation the subroutine does not implement is
  \<open>None\<close>.
\<close>

type_synonym ('cl, 'v, 'o, 'w) sub_action = "('cl, 'v) ctx \<Rightarrow> 'o \<Rightarrow> 'w \<Rightarrow> outcome \<times> 'o \<times> 'w"

record ('cl, 'v, 'o, 'w) finalizer_impl =
  Finalize :: "('cl, 'v, 'o, 'w) sub_action"
  Finalizers :: "'o \<Rightarrow> string list"

record ('cl, 'v, 'o, 'w) subroutine =
  sub_name :: string
  as_processor :: "('cl, 'v, 'o, 'w) sub_action option"
  as_finalizer :: "('cl, 'v, 'o, 'w) finalizer_impl option"
  as_initializer :: "('cl, 'v, 'o, 'w) sub_action option"
  as_terminator :: "('cl, 'v, 'o, 'w) sub_action option"

end
