(* ===== verification/Conditions.thy ===== *)
theory Conditions
  imports Subroutines
begin

text \<open>
  \<^verbatim>\<open>subroutines/conditions/manager.go\<close>: the manager that records subroutine outcomes and the
  aggregate Ready as conditions. The two helpers of the \<^verbatim>\<open>meta\<close> package it calls are the
  parameter \<open>meta_api\<close>; \<open>meta_laws\<close> is their documented behaviour.
  \<^verbatim>\<open>subroutines/lifecycle/interfaces.go\<close> declares what the engine needs from a manager: the record
  \<open>condition_manager\<close> and the locale \<open>condition_frame\<close>, whose laws say that a manager
  changes conditions only.
\<close>

record meta_api =
  set_status_condition :: "condition list \<Rightarrow> condition \<Rightarrow> condition list"
  find_status_condition :: "condition list \<Rightarrow> string \<Rightarrow> condition option"

text \<open>\<^verbatim>\<open>meta.SetStatusCondition\<close> adds or replaces the condition of the given type.\<close>

definition meta_laws :: "meta_api \<Rightarrow> bool" where
  "meta_laws M \<longleftrightarrow>
     (\<forall>cs c t. find_status_condition M (set_status_condition M cs c) t =
        (if t = cond_type c then Some c else find_status_condition M cs t))"

definition ReadyCondition :: string where "ReadyCondition = ''Ready''"
definition ReasonComplete :: string where "ReasonComplete = ''Complete''"
definition ReasonPending :: string where "ReasonPending = ''Pending''"
definition ReasonStopped :: string where "ReasonStopped = ''Stopped''"
definition ReasonSkipped :: string where "ReasonSkipped = ''Skipped''"
definition ReasonError :: string where "ReasonError = ''Error''"
definition ReasonUnknown :: string where "ReasonUnknown = ''Unknown''"

lemmas reason_defs =
  ReadyCondition_def ReasonComplete_def ReasonPending_def ReasonStopped_def ReasonSkipped_def
  ReasonError_def ReasonUnknown_def

subsection \<open>The manager\<close>

definition ensure_condition ::
  "meta_api \<Rightarrow> 'o cond_accessor \<Rightarrow> 'o \<Rightarrow> string \<Rightarrow> int \<Rightarrow> 'o" where
  "ensure_condition M a ob name gen =
     (let conditions = get_conditions a ob in
      if find_status_condition M conditions name \<noteq> None then ob
      else set_conditions a (set_status_condition M conditions
             \<lparr>cond_type = name, cond_status = CUnknown, cond_reason = ReasonUnknown,
              cond_message = ''awaiting first reconciliation for '' @ name,
              cond_generation = gen\<rparr>) ob)"

definition init_unknown_conditions ::
  "meta_api \<Rightarrow> 'o obj_iface \<Rightarrow> 'o \<Rightarrow> string list \<Rightarrow> 'o" where
  "init_unknown_conditions M I ob names =
     (case cond_acc I of None \<Rightarrow> ob
      | Some a \<Rightarrow>
          (let gen = obj_generation I ob;
               ob' = foldl (\<lambda>x name. ensure_condition M a x name gen) ob names
           in ensure_condition M a ob' ReadyCondition gen))"

text \<open>The status, reason and message an outcome maps to, in the source's case order.\<close>

definition subroutine_verdict :: "result \<Rightarrow> err option \<Rightarrow> cstatus \<times> string \<times> string" where
  "subroutine_verdict r e =
     (case e of
        Some x \<Rightarrow> (CFalse, ReasonError, err_msg x)
      | None \<Rightarrow>
          (if is_pending r then (CUnknown, ReasonPending, res_message r)
           else if is_stop_with_requeue r \<or> is_stop r then (CFalse, ReasonStopped, res_message r)
           else if is_skip r then (CTrue, ReasonSkipped, res_message r)
           else (CTrue, ReasonComplete, res_message r)))"

definition condition_name :: "string \<Rightarrow> bool \<Rightarrow> string" where
  "condition_name name is_finalize = (if is_finalize then name @ ''Finalize'' else name)"

definition set_subroutine_condition ::
  "meta_api \<Rightarrow> 'o obj_iface \<Rightarrow> 'o \<Rightarrow> string \<Rightarrow> result \<Rightarrow> err option \<Rightarrow> bool \<Rightarrow> 'o" where
  "set_subroutine_condition M I ob name r e is_finalize =
     (case cond_acc I of None \<Rightarrow> ob
      | Some a \<Rightarrow>
          (let (status, reason, message) = subroutine_verdict r e;
               cond = \<lparr>cond_type = condition_name name is_finalize, cond_status = status,
                       cond_reason = reason, cond_message = message,
                       cond_generation = obj_generation I ob\<rparr>
           in set_conditions a (set_status_condition M (get_conditions a ob) cond) ob))"

definition set_skipped_conditions ::
  "meta_api \<Rightarrow> 'o obj_iface \<Rightarrow> 'o \<Rightarrow> string list \<Rightarrow> bool \<Rightarrow> string \<Rightarrow> 'o" where
  "set_skipped_conditions M I ob names ready msg =
     (case cond_acc I of None \<Rightarrow> ob
      | Some a \<Rightarrow>
          (let status = (if ready then CTrue else CFalse);
               gen = obj_generation I ob;
               conditions = foldl (\<lambda>cs name. set_status_condition M cs
                   \<lparr>cond_type = name, cond_status = status, cond_reason = ReasonSkipped,
                    cond_message = msg, cond_generation = gen\<rparr>) (get_conditions a ob) names
           in set_conditions a conditions ob))"

definition ready_verdict :: "string \<Rightarrow> cstatus \<times> string" where
  "ready_verdict reason =
     (if reason = ReasonError then (CFalse, ''one or more subroutines encountered an error'')
      else if reason = ReasonStopped then (CFalse, ''one or more subroutines stopped the chain'')
      else if reason = ReasonPending then (CUnknown, ''one or more subroutines are pending'')
      else (CTrue, ''all subroutines completed successfully''))"

definition set_ready_condition :: "meta_api \<Rightarrow> 'o obj_iface \<Rightarrow> 'o \<Rightarrow> string \<Rightarrow> 'o" where
  "set_ready_condition M I ob reason =
     (case cond_acc I of None \<Rightarrow> ob
      | Some a \<Rightarrow>
          (let (status, message) = ready_verdict reason;
               cond = \<lparr>cond_type = ReadyCondition, cond_status = status, cond_reason = reason,
                       cond_message = message, cond_generation = obj_generation I ob\<rparr>
           in set_conditions a (set_status_condition M (get_conditions a ob) cond) ob))"

subsection \<open>The interface the engine uses\<close>

record 'o condition_manager =
  cm_init :: "'o \<Rightarrow> string list \<Rightarrow> 'o"
  cm_subroutine :: "'o \<Rightarrow> string \<Rightarrow> result \<Rightarrow> err option \<Rightarrow> bool \<Rightarrow> 'o"
  cm_skipped :: "'o \<Rightarrow> string list \<Rightarrow> bool \<Rightarrow> string \<Rightarrow> 'o"
  cm_ready :: "'o \<Rightarrow> string \<Rightarrow> 'o"

definition conditions_manager :: "meta_api \<Rightarrow> 'o obj_iface \<Rightarrow> 'o condition_manager" where
  "conditions_manager M I =
     \<lparr>cm_init = init_unknown_conditions M I,
      cm_subroutine = set_subroutine_condition M I,
      cm_skipped = set_skipped_conditions M I,
      cm_ready = set_ready_condition M I\<rparr>"

locale condition_frame =
  fixes I :: "'o obj_iface" and cm :: "'o condition_manager"
  assumes finalizers_init [simp]: "obj_finalizers I (cm_init cm ob ns) = obj_finalizers I ob"
    and finalizers_subroutine [simp]:
      "obj_finalizers I (cm_subroutine cm ob n r e b) = obj_finalizers I ob"
    and finalizers_skipped [simp]: "obj_finalizers I (cm_skipped cm ob ns b m) = obj_finalizers I ob"
    and finalizers_ready [simp]: "obj_finalizers I (cm_ready cm ob s) = obj_finalizers I ob"
    and deletion_init [simp]: "obj_deletion I (cm_init cm ob ns) = obj_deletion I ob"
    and deletion_subroutine [simp]:
      "obj_deletion I (cm_subroutine cm ob n r e b) = obj_deletion I ob"
    and deletion_skipped [simp]: "obj_deletion I (cm_skipped cm ob ns b m) = obj_deletion I ob"
    and deletion_ready [simp]: "obj_deletion I (cm_ready cm ob s) = obj_deletion I ob"

context object_laws
begin

lemma ensure_condition_frame:
  assumes "cond_acc I = Some a"
  shows "obj_finalizers I (ensure_condition M a ob n g) = obj_finalizers I ob"
    and "obj_deletion I (ensure_condition M a ob n g) = obj_deletion I ob"
    and "obj_generation I (ensure_condition M a ob n g) = obj_generation I ob"
  using assms by (simp_all add: ensure_condition_def Let_def condition_frame_laws)

lemma foldl_ensure_frame:
  assumes "cond_acc I = Some a"
  shows "obj_finalizers I (foldl (\<lambda>x n. ensure_condition M a x n g) ob ns) = obj_finalizers I ob
    \<and> obj_deletion I (foldl (\<lambda>x n. ensure_condition M a x n g) ob ns) = obj_deletion I ob"
  by (induction ns arbitrary: ob) (simp_all add: ensure_condition_frame [OF assms])

end

sublocale object_laws \<subseteq> std_conditions: condition_frame I "conditions_manager M I" for M
  by unfold_locales
    (auto simp: conditions_manager_def init_unknown_conditions_def set_subroutine_condition_def
      set_skipped_conditions_def set_ready_condition_def Let_def ensure_condition_frame
      foldl_ensure_frame condition_frame_laws split: option.splits prod.splits)

context object_laws
begin

lemma conditions_manager_frame: "condition_frame I (conditions_manager M I)"
  by unfold_locales

end

subsection \<open>What the manager records\<close>

lemma find_set_status:
  "meta_laws M \<Longrightarrow> find_status_condition M (set_status_condition M cs c) t =
     (if t = cond_type c then Some c else find_status_condition M cs t)"
  by (simp add: meta_laws_def)

lemma find_foldl_skipped:
  assumes "meta_laws M"
  shows "find_status_condition M (foldl (\<lambda>cs n. set_status_condition M cs (mk n)) cs ns) t =
    (case find (\<lambda>n. cond_type (mk n) = t) (rev ns) of
       Some n \<Rightarrow> Some (mk n) | None \<Rightarrow> find_status_condition M cs t)"
proof (induction ns rule: rev_induct)
  case Nil
  show ?case by simp
next
  case (snoc n ns)
  then show ?case using assms by (auto simp: find_set_status)
qed

end
