(* ===== verification/Spread.thy ===== *)
theory Spread
  imports Subroutines
begin

text \<open>
  \<^verbatim>\<open>subroutines/spread/manager.go\<close>: reconciliation spreading. The clock and the random source are
  the world's: \<open>env_now\<close> is \<^verbatim>\<open>time.Now\<close>, \<open>env_draw w n\<close> is what \<^verbatim>\<open>rand.Int64N(n)\<close> returns,
  which Go promises to lie in \<open>[0, n)\<close>.
\<close>

record 'w time_env =
  env_now :: "'w \<Rightarrow> gotime"
  env_draw :: "'w \<Rightarrow> int \<Rightarrow> int"

definition draw_laws :: "'w time_env \<Rightarrow> bool" where
  "draw_laws E \<longleftrightarrow> (\<forall>w n. 0 < n \<longrightarrow> 0 \<le> env_draw E w n \<and> env_draw E w n < n)"

definition RefreshLabel :: string where
  "RefreshLabel = ''platform-mesh.io/refresh-reconcile''"

definition defaultMinDuration :: duration where
  "defaultMinDuration = 12 * 3600 * second"

definition defaultMaxDuration :: duration where
  "defaultMaxDuration = 24 * 3600 * second"

record spread_cfg =
  min_duration :: duration
  max_duration :: duration

definition WithMinDuration :: "duration \<Rightarrow> spread_cfg \<Rightarrow> spread_cfg" where
  "WithMinDuration d m = m\<lparr>min_duration := d\<rparr>"

definition WithMaxDuration :: "duration \<Rightarrow> spread_cfg \<Rightarrow> spread_cfg" where
  "WithMaxDuration d m = m\<lparr>max_duration := d\<rparr>"

text \<open>\<^verbatim>\<open>NewManager\<close>; \<open>None\<close> is the panic.\<close>

definition NewManager :: "(spread_cfg \<Rightarrow> spread_cfg) list \<Rightarrow> spread_cfg option" where
  "NewManager opts =
     (let m = foldl (\<lambda>m opt. opt m)
                \<lparr>min_duration = defaultMinDuration, max_duration = defaultMaxDuration\<rparr> opts
      in if min_duration m > max_duration m then None else Some m)"

definition ReconcileRequired :: "'w time_env \<Rightarrow> 'o obj_iface \<Rightarrow> 'w \<Rightarrow> 'o \<Rightarrow> bool" where
  "ReconcileRequired E I w ob =
     (case spread_acc I of None \<Rightarrow> True
      | Some s \<Rightarrow>
          if obj_generation I ob \<noteq> get_observed_generation s ob then True
          else if (case obj_labels I ob of None \<Rightarrow> False | Some l \<Rightarrow> l RefreshLabel \<noteq> None) then True
          else (case get_next_reconcile_time s ob of
                  None \<Rightarrow> True
                | Some t \<Rightarrow> env_now E w > t))"

definition RequeueDelay :: "'w time_env \<Rightarrow> 'o obj_iface \<Rightarrow> 'w \<Rightarrow> 'o \<Rightarrow> duration" where
  "RequeueDelay E I w ob =
     (case spread_acc I of None \<Rightarrow> 0
      | Some s \<Rightarrow>
          (case get_next_reconcile_time s ob of
             None \<Rightarrow> 0
           | Some t \<Rightarrow> (let remaining = t - env_now E w in if remaining < 0 then 0 else remaining)))"

definition SetNextReconcileTime ::
  "'w time_env \<Rightarrow> spread_cfg \<Rightarrow> 'o obj_iface \<Rightarrow> 'w \<Rightarrow> 'o \<Rightarrow> 'o" where
  "SetNextReconcileTime E m I w ob =
     (case spread_acc I of None \<Rightarrow> ob
      | Some s \<Rightarrow>
          (let jitter_range = max_duration m - min_duration m;
               jitter = (if jitter_range > 0 then env_draw E w jitter_range else 0)
           in set_next_reconcile_time s (env_now E w + (min_duration m + jitter)) ob))"

definition UpdateObservedGeneration :: "'o obj_iface \<Rightarrow> 'o \<Rightarrow> 'o" where
  "UpdateObservedGeneration I ob =
     (case spread_acc I of None \<Rightarrow> ob
      | Some s \<Rightarrow> set_observed_generation s (obj_generation I ob) ob)"

definition RemoveRefreshLabel :: "'o obj_iface \<Rightarrow> 'o \<Rightarrow> bool \<times> 'o" where
  "RemoveRefreshLabel I ob =
     (case obj_labels I ob of None \<Rightarrow> (False, ob)
      | Some l \<Rightarrow>
          if l RefreshLabel = None then (False, ob)
          else (True, set_labels I (Some (l(RefreshLabel := None))) ob))"

subsection \<open>The interface the engine uses\<close>

text \<open>
  \<^verbatim>\<open>SpreadManager\<close> in \<^verbatim>\<open>subroutines/lifecycle/interfaces.go\<close>. What the engine relies on: the
  manager leaves finalizers and the deletion timestamp alone, and after the three updates the
  engine makes at the end of a complete run, the object is not due before its next time.
\<close>

record ('o, 'w) spread_manager =
  sm_required :: "'w \<Rightarrow> 'o \<Rightarrow> bool"
  sm_delay :: "'w \<Rightarrow> 'o \<Rightarrow> duration"
  sm_set_next :: "'w \<Rightarrow> 'o \<Rightarrow> 'o"
  sm_observe :: "'o \<Rightarrow> 'o"
  sm_remove_label :: "'o \<Rightarrow> bool \<times> 'o"

definition spread_manager_of ::
  "'w time_env \<Rightarrow> spread_cfg \<Rightarrow> 'o obj_iface \<Rightarrow> ('o, 'w) spread_manager" where
  "spread_manager_of E m I =
     \<lparr>sm_required = ReconcileRequired E I,
      sm_delay = RequeueDelay E I,
      sm_set_next = SetNextReconcileTime E m I,
      sm_observe = UpdateObservedGeneration I,
      sm_remove_label = RemoveRefreshLabel I\<rparr>"

locale spread_frame =
  fixes I :: "'o obj_iface" and sm :: "('o, 'w) spread_manager"
  assumes finalizers_set_next_time [simp]: "obj_finalizers I (sm_set_next sm w ob) = obj_finalizers I ob"
    and finalizers_observe [simp]: "obj_finalizers I (sm_observe sm ob) = obj_finalizers I ob"
    and finalizers_remove_label [simp]:
      "obj_finalizers I (snd (sm_remove_label sm ob)) = obj_finalizers I ob"
    and deletion_set_next_time [simp]: "obj_deletion I (sm_set_next sm w ob) = obj_deletion I ob"
    and deletion_observe [simp]: "obj_deletion I (sm_observe sm ob) = obj_deletion I ob"
    and deletion_remove_label [simp]:
      "obj_deletion I (snd (sm_remove_label sm ob)) = obj_deletion I ob"
    and delay_nonneg: "0 \<le> sm_delay sm w ob"
begin

text \<open>What the engine does to the object at the end of a complete run.\<close>

lemma finish_frame:
  "obj_finalizers I (snd (sm_remove_label sm (sm_set_next sm w (sm_observe sm ob)))) =
     obj_finalizers I ob
   \<and> obj_deletion I (snd (sm_remove_label sm (sm_set_next sm w (sm_observe sm ob)))) =
     obj_deletion I ob"
  by simp

end

sublocale object_laws \<subseteq> std_spread: spread_frame I "spread_manager_of E m I" for E m
  by unfold_locales
    (auto simp: spread_manager_of_def SetNextReconcileTime_def UpdateObservedGeneration_def
      RemoveRefreshLabel_def RequeueDelay_def Let_def spread_frame_laws
      split: option.splits)

subsection \<open>The schedule\<close>

context object_laws
begin

lemma finished_not_required:
  assumes acc: "spread_acc I = Some s"
    and now: "env_now E w' \<le> env_now E w + min_duration m"
    and draw: "draw_laws E"
  shows "\<not> ReconcileRequired E I w'
    (snd (RemoveRefreshLabel I (SetNextReconcileTime E m I w (UpdateObservedGeneration I ob))))"
proof -
  let ?ob = "SetNextReconcileTime E m I w (UpdateObservedGeneration I ob)"
  let ?last = "snd (RemoveRefreshLabel I ?ob)"
  let ?j = "if max_duration m - min_duration m > 0
            then env_draw E w (max_duration m - min_duration m) else 0"
  have gen: "obj_generation I ?last = obj_generation I ob"
    and obs: "get_observed_generation s ?last = obj_generation I ob"
    and nxt: "get_next_reconcile_time s ?last = Some (env_now E w + (min_duration m + ?j))"
    using acc by (auto simp: RemoveRefreshLabel_def SetNextReconcileTime_def
        UpdateObservedGeneration_def Let_def spread_frame_laws split: option.splits)
  have lbl: "\<not> (case obj_labels I ?last of None \<Rightarrow> False | Some l \<Rightarrow> l RefreshLabel \<noteq> None)"
    by (auto simp: RemoveRefreshLabel_def split: option.splits)
  have "0 \<le> ?j" using draw by (auto simp: draw_laws_def)
  with now have "\<not> env_now E w' > env_now E w + (min_duration m + ?j)" by linarith
  with acc gen obs nxt lbl show ?thesis by (simp add: ReconcileRequired_def)
qed

lemma next_time_window:
  assumes acc: "spread_acc I = Some s" and draw: "draw_laws E"
    and le: "min_duration m \<le> max_duration m"
  shows "\<exists>t. get_next_reconcile_time s (SetNextReconcileTime E m I w ob) = Some t
    \<and> env_now E w + min_duration m \<le> t \<and> t \<le> env_now E w + max_duration m"
proof -
  let ?r = "max_duration m - min_duration m"
  have "?r > 0 \<Longrightarrow> 0 \<le> env_draw E w ?r \<and> env_draw E w ?r < ?r"
    using draw by (simp add: draw_laws_def)
  with le acc show ?thesis
    by (auto simp: SetNextReconcileTime_def Let_def next_get_set)
qed

end

end
