(* ===== verification/Lifecycle.thy ===== *)
theory Lifecycle
  imports Conditions Spread
begin

text \<open>
  \<^verbatim>\<open>subroutines/lifecycle/lifecycle.go\<close>: the engine that runs a controller's subroutines on one
  object. A \<open>lifecycle\<close> record is the Go struct; \<open>reconcile\<close> is \<^verbatim>\<open>Reconcile\<close>, composed of one
  definition per phase. Logging, tracing and metrics are left out. The API client of the
  cluster, \<^verbatim>\<open>equality.Semantic.DeepEqual\<close> and the unstructured converter are parameters.

  The lemmas show what the loop over the subroutines leaves behind (\<open>summary\<close>), which
  finalizers it can drop, and what each early exit does.
\<close>

datatype action = ActionProcess | ActionFinalize | ActionInitialize | ActionTerminate

definition action_is_finalize :: "action \<Rightarrow> bool" where
  "action_is_finalize a \<longleftrightarrow> a = ActionFinalize \<or> a = ActionTerminate"

text \<open>
  The part of \<^verbatim>\<open>ctrlruntimeclient.Client\<close> the engine uses. A patch gets the current object and
  the base of the merge patch, and writes the server's answer into the current object.
\<close>

record ('cl, 'o, 'w) engine_api =
  api_get :: "'cl \<Rightarrow> string \<times> string \<Rightarrow> 'w \<Rightarrow> err + 'o"
  api_patch :: "'cl \<Rightarrow> 'o \<Rightarrow> 'o \<Rightarrow> 'w \<Rightarrow> err option \<times> 'o \<times> 'w"
  api_status_patch :: "'cl \<Rightarrow> 'o \<Rightarrow> 'o \<Rightarrow> 'w \<Rightarrow> err option \<times> 'o \<times> 'w"

type_synonym ('cl, 'v, 'o, 'w) error_reporter =
  "('cl, 'v) ctx \<Rightarrow> err \<Rightarrow> string \<Rightarrow> action \<Rightarrow> 'o \<Rightarrow> 'w \<Rightarrow> 'w"

record ('cl, 'v, 'o, 'w) lifecycle =
  lc_iface :: "'o obj_iface"
  lc_api :: "('cl, 'o, 'w) engine_api"
  lc_deep_equal :: "json option \<Rightarrow> json option \<Rightarrow> bool"
  lc_cluster_client :: "('cl, 'v) ctx \<Rightarrow> err + 'cl"
  lc_subroutines :: "('cl, 'v, 'o, 'w) subroutine list"
  lc_conditions :: "'o condition_manager option"
  lc_spread :: "('o, 'w) spread_manager option"
  lc_reporters :: "('cl, 'v, 'o, 'w) error_reporter list"
  lc_prepare :: "(('cl, 'v) ctx \<Rightarrow> 'o \<Rightarrow> err + ('cl, 'v) ctx) option"
  lc_read_only :: bool
  lc_spec_patch :: bool
  lc_initializer :: string
  lc_terminator :: string

subsection \<open>Construction\<close>

definition new_lifecycle ::
  "'o obj_iface \<Rightarrow> ('cl, 'o, 'w) engine_api \<Rightarrow> (json option \<Rightarrow> json option \<Rightarrow> bool) \<Rightarrow>
   (('cl, 'v) ctx \<Rightarrow> err + 'cl) \<Rightarrow> ('cl, 'v, 'o, 'w) subroutine list \<Rightarrow> ('cl, 'v, 'o, 'w) lifecycle" where
  "new_lifecycle I api deep_equal cluster_client subs =
     \<lparr>lc_iface = I, lc_api = api, lc_deep_equal = deep_equal, lc_cluster_client = cluster_client,
      lc_subroutines = subs, lc_conditions = None, lc_spread = None, lc_reporters = [],
      lc_prepare = None, lc_read_only = False, lc_spec_patch = False,
      lc_initializer = [], lc_terminator = []\<rparr>"

text \<open>\<open>None\<close> is the panic of \<^verbatim>\<open>mustImplement\<close>.\<close>

definition with_conditions ::
  "'o condition_manager \<Rightarrow> ('cl, 'v, 'o, 'w) lifecycle \<Rightarrow> ('cl, 'v, 'o, 'w) lifecycle option" where
  "with_conditions cm L =
     (if cond_acc (lc_iface L) = None then None else Some (L\<lparr>lc_conditions := Some cm\<rparr>))"

definition with_spread ::
  "('o, 'w) spread_manager \<Rightarrow> ('cl, 'v, 'o, 'w) lifecycle \<Rightarrow> ('cl, 'v, 'o, 'w) lifecycle option" where
  "with_spread sm L =
     (if spread_acc (lc_iface L) = None then None else Some (L\<lparr>lc_spread := Some sm\<rparr>))"

definition with_error_reporters ::
  "('cl, 'v, 'o, 'w) error_reporter list \<Rightarrow> ('cl, 'v, 'o, 'w) lifecycle \<Rightarrow> ('cl, 'v, 'o, 'w) lifecycle" where
  "with_error_reporters rs L = L\<lparr>lc_reporters := lc_reporters L @ rs\<rparr>"

definition with_prepare_context ::
  "(('cl, 'v) ctx \<Rightarrow> 'o \<Rightarrow> err + ('cl, 'v) ctx) \<Rightarrow> ('cl, 'v, 'o, 'w) lifecycle \<Rightarrow> ('cl, 'v, 'o, 'w) lifecycle" where
  "with_prepare_context fn L = L\<lparr>lc_prepare := Some fn\<rparr>"

definition with_read_only :: "('cl, 'v, 'o, 'w) lifecycle \<Rightarrow> ('cl, 'v, 'o, 'w) lifecycle" where
  "with_read_only L = L\<lparr>lc_read_only := True\<rparr>"

definition with_spec_patch :: "('cl, 'v, 'o, 'w) lifecycle \<Rightarrow> ('cl, 'v, 'o, 'w) lifecycle" where
  "with_spec_patch L = L\<lparr>lc_spec_patch := True\<rparr>"

definition with_initializer :: "string \<Rightarrow> ('cl, 'v, 'o, 'w) lifecycle \<Rightarrow> ('cl, 'v, 'o, 'w) lifecycle" where
  "with_initializer name L = L\<lparr>lc_initializer := name\<rparr>"

definition with_terminator :: "string \<Rightarrow> ('cl, 'v, 'o, 'w) lifecycle \<Rightarrow> ('cl, 'v, 'o, 'w) lifecycle" where
  "with_terminator name L = L\<lparr>lc_terminator := name\<rparr>"

subsection \<open>Markers in the status\<close>

definition statusFieldInitializers :: string where
  "statusFieldInitializers = ''initializers''"

definition statusFieldTerminators :: string where
  "statusFieldTerminators = ''terminators''"

definition marker_present :: "json \<Rightarrow> string \<Rightarrow> bool" where
  "marker_present v name =
     (case v of JStr s \<Rightarrow> s = name | JArr ms \<Rightarrow> JStr name \<in> set ms | _ \<Rightarrow> False)"

definition has_marker_in_status :: "'o obj_iface \<Rightarrow> 'o \<Rightarrow> string \<Rightarrow> string \<Rightarrow> bool" where
  "has_marker_in_status I ob field name =
     (case to_unstructured I ob of
        Inl e \<Rightarrow> False
      | Inr data \<Rightarrow>
          (case json_get data ''status'' of
             Some (JObj status) \<Rightarrow>
               (case map_of status field of None \<Rightarrow> False | Some markers \<Rightarrow> marker_present markers name)
           | _ \<Rightarrow> False))"

text \<open>The new entries of the status, \<open>None\<close> when nothing was removed.\<close>

definition strip_marker ::
  "(string \<times> json) list \<Rightarrow> string \<Rightarrow> string \<Rightarrow> (string \<times> json) list option" where
  "strip_marker status field name =
     (case map_of status field of
        None \<Rightarrow> None
      | Some (JStr s) \<Rightarrow> (if s = name then Some (obj_delete field status) else None)
      | Some (JArr ms) \<Rightarrow>
          (let filtered = filter (\<lambda>m. m \<noteq> JStr name) ms in
           if JStr name \<in> set ms
           then Some (if filtered = [] then obj_delete field status
                      else obj_put field (JArr filtered) status)
           else None)
      | Some _ \<Rightarrow> None)"

fun json_put :: "string \<Rightarrow> json \<Rightarrow> json \<Rightarrow> json" where
  "json_put k v (JObj kvs) = JObj (obj_put k v kvs)"
| "json_put k v j = j"

definition remove_marker_from_status :: "'o obj_iface \<Rightarrow> 'o \<Rightarrow> string \<Rightarrow> string \<Rightarrow> bool \<times> 'o" where
  "remove_marker_from_status I ob field name =
     (case to_unstructured I ob of
        Inl e \<Rightarrow> (False, ob)
      | Inr data \<Rightarrow>
          (case json_get data ''status'' of
             Some (JObj status) \<Rightarrow>
               (case strip_marker status field name of
                  None \<Rightarrow> (False, ob)
                | Some status' \<Rightarrow>
                    (case from_unstructured I (json_put ''status'' (JObj status') data) ob of
                       (Some e, ob') \<Rightarrow> (False, ob')
                     | (None, ob') \<Rightarrow> (True, ob')))
           | _ \<Rightarrow> (False, ob)))"

subsection \<open>Choosing the action of a subroutine\<close>

definition has_any_finalizer :: "'o obj_iface \<Rightarrow> 'o \<Rightarrow> string list \<Rightarrow> bool" where
  "has_any_finalizer I ob fins \<longleftrightarrow> (\<exists>f\<in>set fins. f \<in> set (obj_finalizers I ob))"

definition finalize_action ::
  "('cl, 'v, 'o, 'w) lifecycle \<Rightarrow> ('cl, 'v, 'o, 'w) subroutine \<Rightarrow> 'o \<Rightarrow>
   (('cl, 'v, 'o, 'w) sub_action \<times> action) option" where
  "finalize_action L sub ob =
     (case as_finalizer sub of
        None \<Rightarrow> None
      | Some f \<Rightarrow>
          if has_any_finalizer (lc_iface L) ob (Finalizers f ob)
          then Some (Finalize f, ActionFinalize) else None)"

definition process_action ::
  "('cl, 'v, 'o, 'w) subroutine \<Rightarrow> (('cl, 'v, 'o, 'w) sub_action \<times> action) option" where
  "process_action sub = map_option (\<lambda>p. (p, ActionProcess)) (as_processor sub)"

definition resolve_action ::
  "('cl, 'v, 'o, 'w) lifecycle \<Rightarrow> ('cl, 'v, 'o, 'w) subroutine \<Rightarrow> 'o \<Rightarrow> bool \<Rightarrow>
   (('cl, 'v, 'o, 'w) sub_action \<times> action) option" where
  "resolve_action L sub ob deleting =
     (if deleting then
        (if lc_terminator L \<noteq> [] \<and>
            has_marker_in_status (lc_iface L) ob statusFieldTerminators (lc_terminator L)
         then (case as_terminator sub of
                 Some t \<Rightarrow> Some (t, ActionTerminate)
               | None \<Rightarrow> finalize_action L sub ob)
         else finalize_action L sub ob)
      else
        (if lc_initializer L \<noteq> [] \<and>
            has_marker_in_status (lc_iface L) ob statusFieldInitializers (lc_initializer L)
         then (case as_initializer sub of
                 Some i \<Rightarrow> Some (i, ActionInitialize)
               | None \<Rightarrow> process_action sub)
         else process_action sub))"

subsection \<open>The loop over the subroutines\<close>

record ('o, 'w) run_state =
  rs_obj :: 'o
  rs_world :: 'w
  rs_err :: "err option"
  rs_pending :: bool
  rs_stopped :: bool
  rs_skip_all :: bool
  rs_skip_ready :: bool
  rs_min :: duration
  rs_panic :: "string option"

definition start_run :: "'o \<Rightarrow> 'w \<Rightarrow> ('o, 'w) run_state" where
  "start_run ob w =
     \<lparr>rs_obj = ob, rs_world = w, rs_err = None, rs_pending = False, rs_stopped = False,
      rs_skip_all = False, rs_skip_ready = False, rs_min = 0, rs_panic = None\<rparr>"

definition set_sub_condition ::
  "('cl, 'v, 'o, 'w) lifecycle \<Rightarrow> 'o \<Rightarrow> string \<Rightarrow> result \<Rightarrow> err option \<Rightarrow> action \<Rightarrow> 'o" where
  "set_sub_condition L ob name r e act =
     (case lc_conditions L of None \<Rightarrow> ob
      | Some cm \<Rightarrow> cm_subroutine cm ob name r e (action_is_finalize act))"

definition on_error ::
  "('cl, 'v, 'o, 'w) lifecycle \<Rightarrow> ('cl, 'v) ctx \<Rightarrow> string \<Rightarrow> action \<Rightarrow> result \<Rightarrow> err \<Rightarrow>
   ('o, 'w) run_state \<Rightarrow> ('o, 'w) run_state" where
  "on_error L c name act r e st =
     (let ob = set_sub_condition L (rs_obj st) name r (Some e) act;
          w = foldl (\<lambda>w report. report c e name act ob w) (rs_world st) (lc_reporters L)
      in st\<lparr>rs_obj := ob, rs_world := w, rs_err := Some e\<rparr>)"

definition min_requeue :: "duration \<Rightarrow> duration \<Rightarrow> duration" where
  "min_requeue m d = (if d > 0 \<and> (m = 0 \<or> d < m) then d else m)"

definition drop_finalizers ::
  "('cl, 'v, 'o, 'w) lifecycle \<Rightarrow> ('cl, 'v, 'o, 'w) subroutine \<Rightarrow> action \<Rightarrow> result \<Rightarrow> 'o \<Rightarrow> 'o" where
  "drop_finalizers L sub act r ob =
     (if act = ActionFinalize \<and> is_continue r \<and> res_requeue r = 0
      then (case as_finalizer sub of
              None \<Rightarrow> ob
            | Some f \<Rightarrow> foldl (remove_finalizer (lc_iface L)) ob (Finalizers f ob))
      else ob)"

text \<open>\<open>rest\<close> are the subroutines after this one; the flag says whether the loop goes on.\<close>

definition on_result ::
  "('cl, 'v, 'o, 'w) lifecycle \<Rightarrow> ('cl, 'v, 'o, 'w) subroutine \<Rightarrow> ('cl, 'v, 'o, 'w) subroutine list \<Rightarrow>
   action \<Rightarrow> result \<Rightarrow> ('o, 'w) run_state \<Rightarrow> ('o, 'w) run_state \<times> bool" where
  "on_result L sub rest act r st =
     (let ob = drop_finalizers L sub act r
                 (set_sub_condition L (rs_obj st) (sub_name sub) r None act);
          st = st\<lparr>rs_obj := ob, rs_min := min_requeue (rs_min st) (res_requeue r),
                  rs_pending := rs_pending st \<or> is_pending r\<rparr>
      in if is_stop_with_requeue r \<or> is_stop r then (st\<lparr>rs_stopped := True\<rparr>, False)
         else if is_skip_all r then
           (let ob = (case lc_conditions L of None \<Rightarrow> ob
                      | Some cm \<Rightarrow>
                          if rest = [] then ob
                          else cm_skipped cm ob (map sub_name rest) (res_ready r) (res_message r))
            in (st\<lparr>rs_obj := ob, rs_skip_all := True, rs_skip_ready := res_ready r\<rparr>, False))
         else (st, True))"

definition run_sub ::
  "('cl, 'v, 'o, 'w) lifecycle \<Rightarrow> ('cl, 'v) ctx \<Rightarrow> bool \<Rightarrow> ('cl, 'v, 'o, 'w) subroutine \<Rightarrow>
   ('cl, 'v, 'o, 'w) subroutine list \<Rightarrow> ('o, 'w) run_state \<Rightarrow> ('o, 'w) run_state \<times> bool" where
  "run_sub L c deleting sub rest st =
     (case resolve_action L sub (rs_obj st) deleting of
        None \<Rightarrow> (st, True)
      | Some (f, act) \<Rightarrow>
          (case f c (rs_obj st) (rs_world st) of
             (out, ob, w) \<Rightarrow>
               (let st = st\<lparr>rs_obj := ob, rs_world := w\<rparr> in
                case out of
                  Panic p \<Rightarrow> (st\<lparr>rs_panic := Some p\<rparr>, False)
                | Ret r (Some e) \<Rightarrow> (on_error L c (sub_name sub) act r e st, False)
                | Ret r None \<Rightarrow> on_result L sub rest act r st)))"

fun run_subs ::
  "('cl, 'v, 'o, 'w) lifecycle \<Rightarrow> ('cl, 'v) ctx \<Rightarrow> bool \<Rightarrow> ('cl, 'v, 'o, 'w) subroutine list \<Rightarrow>
   ('o, 'w) run_state \<Rightarrow> ('o, 'w) run_state" where
  "run_subs L c deleting [] st = st"
| "run_subs L c deleting (sub # rest) st =
     (case run_sub L c deleting sub rest st of
        (st', True) \<Rightarrow> run_subs L c deleting rest st'
      | (st', False) \<Rightarrow> st')"

subsection \<open>After the loop\<close>

definition remove_markers :: "('cl, 'v, 'o, 'w) lifecycle \<Rightarrow> bool \<Rightarrow> ('o, 'w) run_state \<Rightarrow> 'o" where
  "remove_markers L deleting st =
     (if rs_err st = None \<and> \<not> rs_stopped st \<and> \<not> rs_skip_all st \<and> \<not> rs_pending st \<and> rs_min st = 0
      then
        (let ob = rs_obj st;
             ob = (if lc_initializer L \<noteq> [] \<and> \<not> deleting
                   then snd (remove_marker_from_status (lc_iface L) ob statusFieldInitializers (lc_initializer L))
                   else ob)
         in (if lc_terminator L \<noteq> [] \<and> deleting
             then snd (remove_marker_from_status (lc_iface L) ob statusFieldTerminators (lc_terminator L))
             else ob))
      else rs_obj st)"

definition ready_reason :: "('o, 'w) run_state \<Rightarrow> string" where
  "ready_reason st =
     (if rs_err st \<noteq> None then ReasonError
      else if rs_stopped st then ReasonStopped
      else if rs_skip_all st \<and> \<not> rs_skip_ready st then ReasonStopped
      else if rs_pending st then ReasonPending
      else ReasonComplete)"

definition set_ready :: "('cl, 'v, 'o, 'w) lifecycle \<Rightarrow> ('o, 'w) run_state \<Rightarrow> 'o \<Rightarrow> 'o" where
  "set_ready L st ob =
     (case lc_conditions L of None \<Rightarrow> ob | Some cm \<Rightarrow> cm_ready cm ob (ready_reason st))"

definition update_spread ::
  "('cl, 'v, 'o, 'w) lifecycle \<Rightarrow> bool \<Rightarrow> ('o, 'w) run_state \<Rightarrow> 'o \<Rightarrow> 'o" where
  "update_spread L deleting st ob =
     (case lc_spread L of
        None \<Rightarrow> ob
      | Some sm \<Rightarrow>
          if \<not> deleting \<and> rs_err st = None \<and> \<not> rs_stopped st \<and> rs_min st = 0
          then snd (sm_remove_label sm (sm_set_next sm (rs_world st) (sm_observe sm ob)))
          else ob)"

definition get_map :: "json \<Rightarrow> string \<Rightarrow> json option" where
  "get_map data key = (case json_get data key of Some (JObj m) \<Rightarrow> Some (JObj m) | _ \<Rightarrow> None)"

definition differs :: "('cl, 'v, 'o, 'w) lifecycle \<Rightarrow> string \<Rightarrow> json \<Rightarrow> json \<Rightarrow> bool" where
  "differs L key a b \<longleftrightarrow> \<not> lc_deep_equal L (get_map a key) (get_map b key)"

text \<open>The status half of \<^verbatim>\<open>patchChanges\<close>.\<close>

definition patch_status ::
  "('cl, 'v, 'o, 'w) lifecycle \<Rightarrow> 'cl \<Rightarrow> 'o \<Rightarrow> json \<Rightarrow> 'o \<Rightarrow> json \<Rightarrow> 'w \<Rightarrow> err option \<times> 'w" where
  "patch_status L cl orig orig_data cur curr_data w =
     (let I = lc_iface L in
      if obj_deletion I cur \<noteq> None \<and> obj_finalizers I cur = [] then (None, w)
      else if differs L ''status'' orig_data curr_data
        then (case api_status_patch (lc_api L) cl cur orig w of
                (Some e, _, w') \<Rightarrow> (Some (wrap ''patching status'' e), w')
              | (None, _, w') \<Rightarrow> (None, w'))
        else (None, w))"

definition patch_changes ::
  "('cl, 'v, 'o, 'w) lifecycle \<Rightarrow> 'cl \<Rightarrow> 'o \<Rightarrow> 'o \<Rightarrow> 'w \<Rightarrow> err option \<times> 'w" where
  "patch_changes L cl orig cur w =
     (let I = lc_iface L in
      case to_unstructured I orig of
        Inl e \<Rightarrow> (Some (wrap ''converting original to unstructured'' e), w)
      | Inr orig_data \<Rightarrow>
      case to_unstructured I cur of
        Inl e \<Rightarrow> (Some (wrap ''converting current to unstructured'' e), w)
      | Inr curr_data \<Rightarrow>
          if differs L ''metadata'' orig_data curr_data
             \<or> (lc_spec_patch L \<and> differs L ''spec'' orig_data curr_data)
          then
            (case api_patch (lc_api L) cl cur orig w of
               (Some e, _, w') \<Rightarrow> (Some (wrap ''patching object'' e), w')
             | (None, cur', w') \<Rightarrow>
                 (let orig' = set_version I (obj_version I cur') orig in
                  case to_unstructured I orig' of
                    Inl e \<Rightarrow> (Some (wrap ''converting original to unstructured after patch'' e), w')
                  | Inr orig_data' \<Rightarrow>
                  case to_unstructured I cur' of
                    Inl e \<Rightarrow> (Some (wrap ''converting current to unstructured after patch'' e), w')
                  | Inr curr_data' \<Rightarrow> patch_status L cl orig' orig_data' cur' curr_data' w'))
          else patch_status L cl orig orig_data cur curr_data w)"

subsection \<open>Finalizers\<close>

definition wanted_finalizers :: "('cl, 'v, 'o, 'w) lifecycle \<Rightarrow> 'o \<Rightarrow> string list" where
  "wanted_finalizers L ob =
     concat (map (\<lambda>sub. case as_finalizer sub of None \<Rightarrow> [] | Some f \<Rightarrow> Finalizers f ob)
               (lc_subroutines L))"

definition missing_finalizers :: "('cl, 'v, 'o, 'w) lifecycle \<Rightarrow> 'o \<Rightarrow> string list" where
  "missing_finalizers L ob =
     filter (\<lambda>fin. fin \<notin> set (obj_finalizers (lc_iface L) ob)) (wanted_finalizers L ob)"

text \<open>The flag, the error of the patch, the object after it, and the world.\<close>

definition add_finalizers ::
  "('cl, 'v, 'o, 'w) lifecycle \<Rightarrow> 'cl \<Rightarrow> 'o \<Rightarrow> 'w \<Rightarrow> bool \<times> err option \<times> 'o \<times> 'w" where
  "add_finalizers L cl ob w =
     (let missing = missing_finalizers L ob in
      if missing = [] then (False, None, ob, w)
      else (let I = lc_iface L;
                ob' = set_finalizers I (obj_finalizers I ob @ missing) ob
            in case api_patch (lc_api L) cl ob' ob w of (e, ob'', w') \<Rightarrow> (True, e, ob'', w')))"

subsection \<open>Reconcile\<close>

datatype reconcile_out =
    Reconciled duration "err option"
  | Reconcile_panic string

text \<open>From the conditions' initialisation to the end, for an object that is to be processed.\<close>

definition run_phase ::
  "('cl, 'v, 'o, 'w) lifecycle \<Rightarrow> ('cl, 'v) ctx \<Rightarrow> bool \<Rightarrow> 'o \<Rightarrow> 'w \<Rightarrow> ('o, 'w) run_state" where
  "run_phase L c deleting ob w =
     (let ob = (case lc_conditions L of None \<Rightarrow> ob
                | Some cm \<Rightarrow> cm_init cm ob (map sub_name (lc_subroutines L)));
          subs = (if deleting then rev (lc_subroutines L) else lc_subroutines L)
      in run_subs L c deleting subs (start_run ob w))"

definition finish_object :: "('cl, 'v, 'o, 'w) lifecycle \<Rightarrow> bool \<Rightarrow> ('o, 'w) run_state \<Rightarrow> 'o" where
  "finish_object L deleting st =
     update_spread L deleting st (set_ready L st (remove_markers L deleting st))"

definition finish ::
  "('cl, 'v, 'o, 'w) lifecycle \<Rightarrow> 'cl \<Rightarrow> bool \<Rightarrow> 'o \<Rightarrow> ('o, 'w) run_state \<Rightarrow> reconcile_out \<times> 'w" where
  "finish L cl deleting orig st =
     (case rs_panic st of
        Some p \<Rightarrow> (Reconcile_panic p, rs_world st)
      | None \<Rightarrow>
          if lc_read_only L then (Reconciled (rs_min st) (rs_err st), rs_world st)
          else
            (case patch_changes L cl orig (finish_object L deleting st) (rs_world st) of
               (Some e, w) \<Rightarrow>
                 if is_conflict e then (Reconciled second None, w)
                 else (Reconciled 0 (join_errs (rs_err st) (Some e)), w)
             | (None, w) \<Rightarrow> (Reconciled (rs_min st) (rs_err st), w)))"

definition process_object ::
  "('cl, 'v, 'o, 'w) lifecycle \<Rightarrow> ('cl, 'v) ctx \<Rightarrow> 'cl \<Rightarrow> bool \<Rightarrow> 'o \<Rightarrow> 'o \<Rightarrow> 'w \<Rightarrow> reconcile_out \<times> 'w" where
  "process_object L c cl deleting orig ob w =
     (case (case lc_prepare L of None \<Rightarrow> Inr c | Some fn \<Rightarrow> fn c ob) of
        Inl e \<Rightarrow> (Reconciled 0 (Some (wrap ''preparing context'' e)), w)
      | Inr c \<Rightarrow> finish L cl deleting orig (run_phase L c deleting ob w))"

definition reconcile_object ::
  "('cl, 'v, 'o, 'w) lifecycle \<Rightarrow> ('cl, 'v) ctx \<Rightarrow> 'cl \<Rightarrow> 'o \<Rightarrow> 'w \<Rightarrow> reconcile_out \<times> 'w" where
  "reconcile_object L c cl ob w =
     (let deleting = (obj_deletion (lc_iface L) ob \<noteq> None) in
      case (if deleting then None
            else Option.bind (lc_spread L)
              (\<lambda>sm. if sm_required sm w ob then None else Some (sm_delay sm w ob))) of
        Some delay \<Rightarrow> (Reconciled delay None, w)
      | None \<Rightarrow>
          if \<not> deleting \<and> \<not> lc_read_only L
          then (case add_finalizers L cl ob w of
                  (_, Some e, _, w') \<Rightarrow> (Reconciled 0 (Some (wrap ''adding finalizers'' e)), w')
                | (True, None, _, w') \<Rightarrow> (Reconciled 0 None, w')
                | (False, None, ob', w') \<Rightarrow> process_object L c cl deleting ob ob' w')
          else process_object L c cl deleting ob ob w)"

record request =
  req_cluster :: string
  req_name :: "string \<times> string"

definition reconcile ::
  "('cl, 'v, 'o, 'w) lifecycle \<Rightarrow> ('cl, 'v) ctx \<Rightarrow> request \<Rightarrow> 'w \<Rightarrow> reconcile_out \<times> 'w" where
  "reconcile L c req w =
     (let c = c\<lparr>ctx_cluster := Some (req_cluster req)\<rparr> in
      case lc_cluster_client L c of
        Inl e \<Rightarrow> (Reconciled 0 (Some (wrap ''resolving cluster client'' e)), w)
      | Inr cl \<Rightarrow>
          (case api_get (lc_api L) cl (req_name req) w of
             Inl e \<Rightarrow>
               if is_not_found e then (Reconciled 0 None, w)
               else (Reconciled 0 (Some (wrap ''fetching object'' e)), w)
           | Inr ob \<Rightarrow> reconcile_object L (WithClient c cl) cl ob w))"

end
