(* ===== verification/Engine.thy ===== *)
theory Engine
  imports Lifecycle
begin

text \<open>
  What the lifecycle engine guarantees. The locale \<open>engine\<close> is the contract between the engine
  and a controller: the object type obeys \<open>object_laws\<close>, the condition and spread managers keep
  to their frames, and the subroutines leave the finalizer list to the engine. Its lemmas follow
  one pass over the subroutines through \<open>run_trace\<close>, the list of operations the pass ran.
\<close>

subsection \<open>The trace of a pass\<close>

fun run_trace ::
  "('cl, 'v, 'o, 'w) lifecycle \<Rightarrow> ('cl, 'v) ctx \<Rightarrow> bool \<Rightarrow> ('cl, 'v, 'o, 'w) subroutine list \<Rightarrow>
   ('o, 'w) run_state \<Rightarrow> (('cl, 'v, 'o, 'w) subroutine \<times> action \<times> outcome) list" where
  "run_trace L c deleting [] st = []"
| "run_trace L c deleting (sub # rest) st =
     (case resolve_action L sub (rs_obj st) deleting of
        None \<Rightarrow> run_trace L c deleting rest st
      | Some (f, act) \<Rightarrow>
          (sub, act, fst (f c (rs_obj st) (rs_world st))) #
          (case run_sub L c deleting sub rest st of
             (st', True) \<Rightarrow> run_trace L c deleting rest st'
           | (st', False) \<Rightarrow> []))"

definition outcomes :: "(('cl, 'v, 'o, 'w) subroutine \<times> action \<times> outcome) list \<Rightarrow> outcome list" where
  "outcomes tr = map (\<lambda>(s, a, out). out) tr"

lemma outcomes_simps [simp]:
  "outcomes [] = []" "outcomes ((s, a, out) # tr) = out # outcomes tr"
  by (simp_all add: outcomes_def)

text \<open>An outcome after which the pass goes on to the next subroutine.\<close>

definition continues :: "outcome \<Rightarrow> bool" where
  "continues out =
     (case out of Ret r None \<Rightarrow> \<not> is_stop_with_requeue r \<and> \<not> is_stop r \<and> \<not> is_skip_all r
      | _ \<Rightarrow> False)"

fun results_of :: "outcome list \<Rightarrow> result list" where
  "results_of [] = []"
| "results_of (Ret r None # os) = r # results_of os"
| "results_of (_ # os) = results_of os"

definition requeues :: "outcome list \<Rightarrow> duration list" where
  "requeues os = filter (\<lambda>d. d > 0) (map res_requeue (results_of os))"

text \<open>The aggregate of a pass, read off the outcomes it produced.\<close>

definition summary_requeue :: "outcome list \<Rightarrow> duration" where
  "summary_requeue os = (if requeues os = [] then 0 else Min (set (requeues os)))"

definition summary_err :: "outcome list \<Rightarrow> err option" where
  "summary_err os = (if os = [] then None else (case last os of Ret r (Some e) \<Rightarrow> Some e | _ \<Rightarrow> None))"

definition summary_pending :: "outcome list \<Rightarrow> bool" where
  "summary_pending os \<longleftrightarrow> (\<exists>r\<in>set (results_of os). is_pending r)"

definition summary_stopped :: "outcome list \<Rightarrow> bool" where
  "summary_stopped os \<longleftrightarrow> (\<exists>r\<in>set (results_of os). is_stop_with_requeue r \<or> is_stop r)"

definition summary_skip_all :: "outcome list \<Rightarrow> bool" where
  "summary_skip_all os \<longleftrightarrow> (\<exists>r\<in>set (results_of os). is_skip_all r)"

lemmas summary_defs =
  summary_requeue_def summary_err_def summary_pending_def summary_stopped_def summary_skip_all_def

subsection \<open>The pass computes the summary\<close>

lemma foldl_min_requeue:
  assumes "0 \<le> m"
  shows "foldl min_requeue m ds =
    (let ps = filter (\<lambda>d. d > 0) ds in
     if m = 0 then (if ps = [] then 0 else Min (set ps))
     else Min (insert m (set ps)))"
  using assms
proof (induction ds arbitrary: m)
  case Nil
  then show ?case by simp
next
  case (Cons d ds)
  have nn: "0 \<le> min_requeue m d" using Cons.prems by (simp add: min_requeue_def)
  show ?case
  proof (cases "filter (\<lambda>d. d > 0) ds = []")
    case True
    with Cons.IH [OF nn] Cons.prems show ?thesis
      by (auto simp: Let_def min_requeue_def min_def)
  next
    case False
    hence ne: "{x \<in> set ds. 0 < x} \<noteq> {}" by (auto simp: filter_empty_conv)
    with False Cons.IH [OF nn] Cons.prems show ?thesis
      by (auto simp: Let_def min_requeue_def min_def)
  qed
qed

text \<open>What one subroutine does to the flags of the run.\<close>

lemma run_sub_flags:
  assumes "resolve_action L sub (rs_obj st) deleting = Some (f, act)"
    and "fst (f c (rs_obj st) (rs_world st)) = out"
    and "run_sub L c deleting sub rest st = (st', go)"
  shows "go \<longleftrightarrow> continues out"
    and "rs_err st' = (case out of Ret r (Some e) \<Rightarrow> Some e | _ \<Rightarrow> rs_err st)"
    and "rs_min st' = foldl min_requeue (rs_min st) (map res_requeue (results_of [out]))"
    and "rs_pending st' \<longleftrightarrow> rs_pending st \<or> summary_pending [out]"
    and "rs_stopped st' \<longleftrightarrow> rs_stopped st \<or> summary_stopped [out]"
    and "rs_skip_all st' \<longleftrightarrow> rs_skip_all st \<or> summary_skip_all [out]"
    and "rs_panic st' = (case out of Panic p \<Rightarrow> Some p | _ \<Rightarrow> rs_panic st)"
  using assms
  by (auto simp: run_sub_def on_error_def on_result_def continues_def Let_def summary_defs
      result_preds split: prod.splits outcome.splits option.splits if_splits)

lemma run_trace_no_error_before:
  "rs_err st = None \<Longrightarrow> rs_err (run_subs L c deleting subs st) = summary_err (outcomes (run_trace L c deleting subs st))
   \<and> (\<forall>out\<in>set (butlast (outcomes (run_trace L c deleting subs st))). continues out)"
proof (induction subs arbitrary: st)
  case Nil
  then show ?case by (simp add: summary_err_def)
next
  case (Cons sub rest)
  show ?case
  proof (cases "resolve_action L sub (rs_obj st) deleting")
    case None
    with Cons show ?thesis by (simp add: run_sub_def)
  next
    case (Some fa)
    obtain f act where fa: "fa = (f, act)" by force
    obtain st' go where r: "run_sub L c deleting sub rest st = (st', go)" by force
    define out where "out = fst (f c (rs_obj st) (rs_world st))"
    note flags = run_sub_flags [OF Some [unfolded fa] out_def [symmetric] r]
    show ?thesis
    proof (cases go)
      case False
      with Some fa r flags(2) Cons.prems show ?thesis
        by (auto simp: out_def [symmetric] summary_err_def split: outcome.splits option.splits)
    next
      case True
      with flags(1,2) Cons.prems have "rs_err st' = None"
        by (auto simp: continues_def split: outcome.splits option.splits)
      from Cons.IH [OF this] True Some fa r flags(1) show ?thesis
        by (auto simp: out_def [symmetric] summary_err_def continues_def
            split: outcome.splits option.splits)
    qed
  qed
qed

lemma results_of_append: "results_of (xs @ ys) = results_of xs @ results_of ys"
  by (induction xs rule: results_of.induct) auto

lemma results_of_Cons: "results_of (x # xs) = results_of [x] @ results_of xs"
  using results_of_append [of "[x]" xs] by simp

lemma run_trace_flags:
  fixes L :: "('cl, 'v, 'o, 'w) lifecycle" and c deleting
  defines "os subs st \<equiv> outcomes (run_trace L c deleting subs st)"
  shows "rs_min (run_subs L c deleting subs st) =
           foldl min_requeue (rs_min st) (map res_requeue (results_of (os subs st)))
    \<and> (rs_pending (run_subs L c deleting subs st) \<longleftrightarrow> rs_pending st \<or> summary_pending (os subs st))
    \<and> (rs_stopped (run_subs L c deleting subs st) \<longleftrightarrow> rs_stopped st \<or> summary_stopped (os subs st))
    \<and> (rs_skip_all (run_subs L c deleting subs st) \<longleftrightarrow> rs_skip_all st \<or> summary_skip_all (os subs st))"
proof (induction subs arbitrary: st)
  case Nil
  show ?case by (simp add: os_def summary_defs)
next
  case (Cons sub rest)
  show ?case
  proof (cases "resolve_action L sub (rs_obj st) deleting")
    case None
    with Cons show ?thesis by (simp add: run_sub_def os_def)
  next
    case (Some fa)
    obtain f act where fa: "fa = (f, act)" by force
    obtain st' go where r: "run_sub L c deleting sub rest st = (st', go)" by force
    define out where "out = fst (f c (rs_obj st) (rs_world st))"
    note flags = run_sub_flags [OF Some [unfolded fa] out_def [symmetric] r]
    show ?thesis
    proof (cases go)
      case False
      with Some fa r flags show ?thesis
        by (simp add: out_def [symmetric] os_def)
    next
      case True
      have os: "os (sub # rest) st = out # os rest st'"
        using Some fa r True by (simp add: os_def out_def)
      from True Some fa r have "run_subs L c deleting (sub # rest) st = run_subs L c deleting rest st'"
        by simp
      moreover note os
      moreover have "results_of (out # os rest st') = results_of [out] @ results_of (os rest st')"
        by (rule results_of_Cons)
      ultimately show ?thesis
        using Cons.IH [of st'] flags(3-6)
        by (simp only: summary_pending_def summary_stopped_def summary_skip_all_def set_append
            bex_Un map_append foldl_append disj_assoc simp_thms)
    qed
  qed
qed

lemma run_phase_summary:
  assumes "os = outcomes (run_trace L c deleting subs (start_run ob w))"
    and "st = run_subs L c deleting subs (start_run ob w)"
  shows "rs_err st = summary_err os" and "rs_min st = summary_requeue os"
    and "rs_pending st \<longleftrightarrow> summary_pending os" and "rs_stopped st \<longleftrightarrow> summary_stopped os"
    and "rs_skip_all st \<longleftrightarrow> summary_skip_all os"
    and "\<forall>out\<in>set (butlast os). continues out"
  using run_trace_flags [of L c deleting subs "start_run ob w"]
    run_trace_no_error_before [of "start_run ob w" L c deleting subs] assms
  by (auto simp: start_run_def summary_requeue_def requeues_def foldl_min_requeue Let_def)

subsection \<open>Finalizers\<close>

definition keeps_finalizers :: "'o obj_iface \<Rightarrow> ('cl, 'v, 'o, 'w) sub_action \<Rightarrow> bool" where
  "keeps_finalizers I f \<longleftrightarrow>
     (\<forall>c ob w. obj_finalizers I (fst (snd (f c ob w))) = obj_finalizers I ob)"

definition sub_keeps_finalizers :: "'o obj_iface \<Rightarrow> ('cl, 'v, 'o, 'w) subroutine \<Rightarrow> bool" where
  "sub_keeps_finalizers I sub \<longleftrightarrow>
     pred_option (keeps_finalizers I) (as_processor sub)
   \<and> pred_option (\<lambda>fi. keeps_finalizers I (Finalize fi)) (as_finalizer sub)
   \<and> pred_option (keeps_finalizers I) (as_initializer sub)
   \<and> pred_option (keeps_finalizers I) (as_terminator sub)"

text \<open>The finalizers a subroutine reports do not depend on the state of the object.\<close>

definition sub_finalizers :: "('cl, 'v, 'o, 'w) subroutine \<Rightarrow> 'o \<Rightarrow> string list" where
  "sub_finalizers sub ob = (case as_finalizer sub of None \<Rightarrow> [] | Some fi \<Rightarrow> Finalizers fi ob)"

lemma resolve_action_keeps:
  assumes "sub_keeps_finalizers (lc_iface L) sub"
    and "resolve_action L sub ob deleting = Some (f, act)"
  shows "keeps_finalizers (lc_iface L) f"
  using assms
  by (auto simp: resolve_action_def finalize_action_def process_action_def
      sub_keeps_finalizers_def split: if_splits option.splits)

lemma resolve_action_deleting:
  assumes "resolve_action L sub ob deleting = Some (f, act)"
  shows "action_is_finalize act = deleting"
    and "act = ActionFinalize \<Longrightarrow>
           \<exists>fi. as_finalizer sub = Some fi \<and> f = Finalize fi
              \<and> has_any_finalizer (lc_iface L) ob (Finalizers fi ob)"
  using assms
  by (auto simp: resolve_action_def finalize_action_def process_action_def action_is_finalize_def
      split: if_splits option.splits)

text \<open>An operation that releases finalizers: a Finalize that is done.\<close>

definition finalize_done :: "action \<Rightarrow> outcome \<Rightarrow> bool" where
  "finalize_done act out =
     (case out of Ret r None \<Rightarrow> act = ActionFinalize \<and> is_continue r \<and> res_requeue r = 0 | _ \<Rightarrow> False)"

locale engine = object_laws I for I :: "'o obj_iface" +
  fixes L :: "('cl, 'v, 'o, 'w) lifecycle"
  assumes iface [simp]: "lc_iface L = I"
    and conditions_frame: "lc_conditions L = Some cm \<Longrightarrow> condition_frame I cm"
    and spread_frame: "lc_spread L = Some sm \<Longrightarrow> spread_frame I sm"
    and subs_keep: "sub \<in> set (lc_subroutines L) \<Longrightarrow> sub_keeps_finalizers I sub"
begin

lemma cond_finalizers [simp]:
  assumes "lc_conditions L = Some cm"
  shows "obj_finalizers I (cm_init cm ob ns) = obj_finalizers I ob"
    and "obj_finalizers I (cm_subroutine cm ob n r e b) = obj_finalizers I ob"
    and "obj_finalizers I (cm_skipped cm ob ns b m) = obj_finalizers I ob"
    and "obj_finalizers I (cm_ready cm ob reason) = obj_finalizers I ob"
  using conditions_frame [OF assms]
  by (simp_all add: condition_frame.finalizers_init condition_frame.finalizers_subroutine
      condition_frame.finalizers_skipped condition_frame.finalizers_ready)

lemma set_sub_condition_finalizers [simp]:
  "obj_finalizers I (set_sub_condition L ob n r e act) = obj_finalizers I ob"
  by (auto simp: set_sub_condition_def split: option.split)

lemma drop_finalizers_finalizers:
  "obj_finalizers I (drop_finalizers L sub act r ob) =
     (if finalize_done act (Ret r None)
      then filter (\<lambda>f. f \<notin> set (sub_finalizers sub ob)) (obj_finalizers I ob)
      else obj_finalizers I ob)"
  by (auto simp: drop_finalizers_def finalize_done_def sub_finalizers_def finalizers_foldl_remove
      split: option.splits)

lemma run_sub_finalizers:
  assumes sub: "sub \<in> set (lc_subroutines L)"
    and act: "resolve_action L sub (rs_obj st) deleting = Some (f, act)"
    and r: "run_sub L c deleting sub rest st = (st', go)"
  shows "\<exists>ob. obj_finalizers I (rs_obj st') =
    (if finalize_done act (fst (f c (rs_obj st) (rs_world st)))
     then filter (\<lambda>g. g \<notin> set (sub_finalizers sub ob)) (obj_finalizers I (rs_obj st))
     else obj_finalizers I (rs_obj st))"
proof -
  have "keeps_finalizers I f"
    using resolve_action_keeps [of L sub] subs_keep [OF sub] act by simp
  hence keep: "obj_finalizers I (fst (snd (f c (rs_obj st) (rs_world st)))) = obj_finalizers I (rs_obj st)"
    by (simp add: keeps_finalizers_def)
  obtain out ob w where f: "f c (rs_obj st) (rs_world st) = (out, ob, w)" by (metis prod_cases3)
  have keep: "obj_finalizers I ob = obj_finalizers I (rs_obj st)" using keep f by simp
  show ?thesis
  proof (cases out)
    case (Panic p)
    with act r f keep show ?thesis by (auto simp: run_sub_def finalize_done_def)
  next
    case (Ret res e)
    show ?thesis
    proof (cases e)
      case (Some x)
      with Ret act r f keep show ?thesis
        by (auto simp: run_sub_def finalize_done_def on_error_def Let_def)
    next
      case None
      let ?ob = "set_sub_condition L ob (sub_name sub) res None act"
      have "obj_finalizers I (rs_obj st') = obj_finalizers I (drop_finalizers L sub act res ?ob)"
        using r act f Ret None
        by (auto simp: run_sub_def on_result_def Let_def split: if_splits option.splits)
      then have "obj_finalizers I (rs_obj st') =
          (if finalize_done act out
           then filter (\<lambda>g. g \<notin> set (sub_finalizers sub ?ob)) (obj_finalizers I (rs_obj st))
           else obj_finalizers I (rs_obj st))"
        using drop_finalizers_finalizers [of sub act res ?ob] keep Ret None by simp
      then show ?thesis using f by auto
    qed
  qed
qed

text \<open>A finalizer leaves the list only in a Finalize that is done, and none is added.\<close>

lemma run_subs_finalizers:
  assumes "set subs \<subseteq> set (lc_subroutines L)"
  shows "set (obj_finalizers I (rs_obj (run_subs L c deleting subs st))) \<subseteq> set (obj_finalizers I (rs_obj st))
   \<and> (\<forall>g\<in>set (obj_finalizers I (rs_obj st)).
        g \<notin> set (obj_finalizers I (rs_obj (run_subs L c deleting subs st))) \<longrightarrow>
        (\<exists>sub act out ob. (sub, act, out) \<in> set (run_trace L c deleting subs st)
           \<and> finalize_done act out \<and> g \<in> set (sub_finalizers sub ob)))"
  using assms
proof (induction subs arbitrary: st)
  case Nil
  then show ?case by simp
next
  case (Cons sub rest)
  show ?case
  proof (cases "resolve_action L sub (rs_obj st) deleting")
    case None
    with Cons show ?thesis by (simp add: run_sub_def)
  next
    case (Some fa)
    obtain f act where fa: "fa = (f, act)" by force
    obtain st' go where r: "run_sub L c deleting sub rest st = (st', go)" by force
    let ?out = "fst (f c (rs_obj st) (rs_world st))"
    from run_sub_finalizers [OF _ Some [unfolded fa] r] Cons.prems
    obtain ob where fins: "obj_finalizers I (rs_obj st') =
      (if finalize_done act ?out
       then filter (\<lambda>g. g \<notin> set (sub_finalizers sub ob)) (obj_finalizers I (rs_obj st))
       else obj_finalizers I (rs_obj st))" by auto
    have sub: "set (obj_finalizers I (rs_obj st')) \<subseteq> set (obj_finalizers I (rs_obj st))"
      by (simp add: fins)
    show ?thesis
    proof (cases go)
      case False
      with Some fa r have "run_subs L c deleting (sub # rest) st = st'"
        and "run_trace L c deleting (sub # rest) st = [(sub, act, ?out)]" by auto
      with sub fins show ?thesis by (auto split: if_splits)
    next
      case True
      with Some fa r have run: "run_subs L c deleting (sub # rest) st = run_subs L c deleting rest st'"
        and tr: "run_trace L c deleting (sub # rest) st = (sub, act, ?out) # run_trace L c deleting rest st'"
        by auto
      have IH: "set (obj_finalizers I (rs_obj (run_subs L c deleting rest st'))) \<subseteq> set (obj_finalizers I (rs_obj st'))"
        "\<forall>g\<in>set (obj_finalizers I (rs_obj st')).
           g \<notin> set (obj_finalizers I (rs_obj (run_subs L c deleting rest st'))) \<longrightarrow>
           (\<exists>sub act out ob. (sub, act, out) \<in> set (run_trace L c deleting rest st')
              \<and> finalize_done act out \<and> g \<in> set (sub_finalizers sub ob))"
        using Cons.IH [of st'] Cons.prems by auto
      show ?thesis
      proof (intro conjI ballI impI)
        show "set (obj_finalizers I (rs_obj (run_subs L c deleting (sub # rest) st))) \<subseteq> set (obj_finalizers I (rs_obj st))"
          using IH(1) sub run by auto
        fix g
        assume g: "g \<in> set (obj_finalizers I (rs_obj st))"
          and gone: "g \<notin> set (obj_finalizers I (rs_obj (run_subs L c deleting (sub # rest) st)))"
        show "\<exists>s a out ob. (s, a, out) \<in> set (run_trace L c deleting (sub # rest) st)
           \<and> finalize_done a out \<and> g \<in> set (sub_finalizers s ob)"
        proof (cases "g \<in> set (obj_finalizers I (rs_obj st'))")
          case True
          with IH(2) gone run tr show ?thesis by fastforce
        next
          case False
          with g fins have "finalize_done act ?out" "g \<in> set (sub_finalizers sub ob)"
            by (auto split: if_splits)
          with tr show ?thesis by auto
        qed
      qed
    qed
  qed
qed

text \<open>When every operation of a deletion pass is a Finalize that is done, their finalizers are gone.\<close>

lemma run_subs_releases:
  assumes "set subs \<subseteq> set (lc_subroutines L)"
    and "\<forall>(s, a, out)\<in>set (run_trace L c True subs st). finalize_done a out"
    and "sub \<in> set subs" and "\<And>ob. g \<in> set (sub_finalizers sub ob)"
  shows "g \<notin> set (obj_finalizers I (rs_obj (run_subs L c True subs st)))"
  using assms(1-3)
proof (induction subs arbitrary: st)
  case Nil
  then show ?case by simp
next
  case (Cons s rest)
  show ?case
  proof (cases "resolve_action L s (rs_obj st) True")
    case None
    show ?thesis
    proof (cases "sub \<in> set rest")
      case True
      with None Cons show ?thesis by (auto simp: run_sub_def)
    next
      case False
      with Cons.prems have s: "s = sub" by simp
      have "as_finalizer sub \<noteq> None"
        using assms(4) [of "rs_obj st"] by (cases "as_finalizer sub") (auto simp: sub_finalizers_def)
      with None s have "\<not> has_any_finalizer I (rs_obj st) (sub_finalizers sub (rs_obj st))"
        by (auto simp: resolve_action_def finalize_action_def sub_finalizers_def
            split: if_splits option.splits)
      with assms(4) have "g \<notin> set (obj_finalizers I (rs_obj st))"
        by (auto simp: has_any_finalizer_def)
      with run_subs_finalizers [of rest c True st] Cons.prems None show ?thesis
        by (auto simp: run_sub_def)
    qed
  next
    case (Some fa)
    obtain f act where fa: "fa = (f, act)" by force
    obtain st' go where r: "run_sub L c True s rest st = (st', go)" by force
    let ?out = "fst (f c (rs_obj st) (rs_world st))"
    have dn: "finalize_done act ?out" using Cons.prems(2) Some fa r by auto
    hence go: "go"
      using dn run_sub_flags(1) [OF Some [unfolded fa] refl r]
      by (auto simp: finalize_done_def continues_def result_preds split: outcome.splits option.splits)
    have run: "run_subs L c True (s # rest) st = run_subs L c True rest st'"
      and tr: "run_trace L c True (s # rest) st = (s, act, ?out) # run_trace L c True rest st'"
      using Some fa r go by auto
    show ?thesis
    proof (cases "sub \<in> set rest")
      case True
      with Cons.IH [of st'] Cons.prems run tr show ?thesis by auto
    next
      case False
      with Cons.prems have s: "s = sub" by simp
      from run_sub_finalizers [OF _ Some [unfolded fa] r] Cons.prems(1) dn
      obtain ob where "obj_finalizers I (rs_obj st') =
        filter (\<lambda>g. g \<notin> set (sub_finalizers s ob)) (obj_finalizers I (rs_obj st))" by auto
      with assms(4) s have "g \<notin> set (obj_finalizers I (rs_obj st'))" by auto
      with run_subs_finalizers [of rest c True st'] Cons.prems run show ?thesis by auto
    qed
  qed
qed

end

end
