(* ===== verification/Api_Types.thy ===== *)
theory Api_Types
  imports Conditions Spread
begin

text \<open>
  The API types under \<^verbatim>\<open>apis/\<close> the modelled controllers work on, with the accessor methods their
  Go types declare: Account (\<^verbatim>\<open>core\<close>), AcceptAPI (\<^verbatim>\<open>broker\<close>), and Assignment, Migration,
  MigrationConfiguration and StagingWorkspace (\<^verbatim>\<open>coordbroker\<close>). Each type's interface value is
  built from a lens on its metadata and is shown to obey \<open>object_laws\<close>. The converter to and
  from unstructured data is a parameter of every interface value.
\<close>

subsection \<open>Metadata\<close>

record objmeta =
  m_name :: string
  m_namespace :: string
  m_generation :: int
  m_deletion :: "gotime option"
  m_finalizers :: "string list"
  m_labels :: "(string \<rightharpoonup> string) option"
  m_annotations :: "(string \<rightharpoonup> string) option"
  m_version :: string

definition new_meta :: "string \<Rightarrow> objmeta" where
  "new_meta name =
     \<lparr>m_name = name, m_namespace = [], m_generation = 0, m_deletion = None, m_finalizers = [],
      m_labels = None, m_annotations = None, m_version = []\<rparr>"

definition typed_iface ::
  "('o \<Rightarrow> objmeta) \<Rightarrow> ((objmeta \<Rightarrow> objmeta) \<Rightarrow> 'o \<Rightarrow> 'o) \<Rightarrow> 'o cond_accessor option \<Rightarrow>
   'o spread_status option \<Rightarrow> ('o \<Rightarrow> err + json) \<Rightarrow> (json \<Rightarrow> 'o \<Rightarrow> err option \<times> 'o) \<Rightarrow> 'o obj_iface" where
  "typed_iface meta upd ca sa tu fu =
     \<lparr>obj_name = (\<lambda>x. m_name (meta x)),
      obj_namespace = (\<lambda>x. m_namespace (meta x)),
      obj_generation = (\<lambda>x. m_generation (meta x)),
      obj_deletion = (\<lambda>x. m_deletion (meta x)),
      obj_finalizers = (\<lambda>x. m_finalizers (meta x)),
      set_finalizers = (\<lambda>fs. upd (\<lambda>m. m\<lparr>m_finalizers := fs\<rparr>)),
      remove_finalizer = (\<lambda>x f. upd (\<lambda>m. m\<lparr>m_finalizers := removeAll f (m_finalizers m)\<rparr>) x),
      obj_labels = (\<lambda>x. m_labels (meta x)),
      set_labels = (\<lambda>l. upd (\<lambda>m. m\<lparr>m_labels := l\<rparr>)),
      obj_version = (\<lambda>x. m_version (meta x)),
      set_version = (\<lambda>v. upd (\<lambda>m. m\<lparr>m_version := v\<rparr>)),
      cond_acc = ca, spread_acc = sa, to_unstructured = tu, from_unstructured = fu\<rparr>"

lemma object_laws_typed:
  assumes "\<And>h x. meta (upd h x) = h (meta x)"
    and "\<And>a cs x. ca = Some a \<Longrightarrow> get_conditions a (set_conditions a cs x) = cs"
    and "\<And>a cs x. ca = Some a \<Longrightarrow> meta (set_conditions a cs x) = meta x"
    and "\<And>s g x. sa = Some s \<Longrightarrow> get_observed_generation s (set_observed_generation s g x) = g"
    and "\<And>s t x. sa = Some s \<Longrightarrow>
           get_observed_generation s (set_next_reconcile_time s t x) = get_observed_generation s x"
    and "\<And>s t x. sa = Some s \<Longrightarrow> get_next_reconcile_time s (set_next_reconcile_time s t x) = Some t"
    and "\<And>s g x. sa = Some s \<Longrightarrow> meta (set_observed_generation s g x) = meta x"
    and "\<And>s t x. sa = Some s \<Longrightarrow> meta (set_next_reconcile_time s t x) = meta x"
    and "\<And>s h x. sa = Some s \<Longrightarrow> get_observed_generation s (upd h x) = get_observed_generation s x"
    and "\<And>s h x. sa = Some s \<Longrightarrow> get_next_reconcile_time s (upd h x) = get_next_reconcile_time s x"
  shows "object_laws (typed_iface meta upd ca sa tu fu)"
  by unfold_locales (simp_all add: typed_iface_def assms)

subsection \<open>Account\<close>

text \<open>\<^verbatim>\<open>apis/core/v1alpha1/account_types.go\<close>: the types and the accessors of the status.\<close>

definition AccountTypeOrg :: string where
  "AccountTypeOrg = ''org''"

definition AccountTypeAccount :: string where
  "AccountTypeAccount = ''account''"

record account_spec =
  aspec_type :: string
  aspec_display :: string
  aspec_description :: "string option"
  aspec_creator :: "string option"
  aspec_extensions :: "json list"
  aspec_data :: "json option"

record account_status =
  acc_conditions :: "condition list"
  acc_observed_generation :: int
  acc_next_reconcile_time :: "gotime option"

record account =
  acc_meta :: objmeta
  acc_spec :: account_spec
  acc_status :: account_status

definition account_conditions :: "account cond_accessor" where
  "account_conditions =
     \<lparr>get_conditions = (\<lambda>i. acc_conditions (acc_status i)),
      set_conditions = (\<lambda>cs i. i\<lparr>acc_status := (acc_status i)\<lparr>acc_conditions := cs\<rparr>\<rparr>)\<rparr>"

definition account_spread :: "account spread_status" where
  "account_spread =
     \<lparr>get_observed_generation = (\<lambda>i. acc_observed_generation (acc_status i)),
      set_observed_generation =
        (\<lambda>g i. i\<lparr>acc_status := (acc_status i)\<lparr>acc_observed_generation := g\<rparr>\<rparr>),
      get_next_reconcile_time = (\<lambda>i. acc_next_reconcile_time (acc_status i)),
      set_next_reconcile_time =
        (\<lambda>t i. i\<lparr>acc_status := (acc_status i)\<lparr>acc_next_reconcile_time := Some t\<rparr>\<rparr>)\<rparr>"

definition account_iface ::
  "(account \<Rightarrow> err + json) \<Rightarrow> (json \<Rightarrow> account \<Rightarrow> err option \<times> account) \<Rightarrow> account obj_iface" where
  "account_iface = typed_iface acc_meta acc_meta_update (Some account_conditions) (Some account_spread)"

interpretation account_obj: object_laws "account_iface tu fu" for tu fu
  unfolding account_iface_def
  by (rule object_laws_typed) (auto simp: account_conditions_def account_spread_def)

subsection \<open>Group, version, kind\<close>

record gvk =
  gvk_group :: string
  gvk_version :: string
  gvk_kind :: string

record gvr =
  gvr_group :: string
  gvr_version :: string
  gvr_resource :: string

subsection \<open>StagingWorkspace\<close>

datatype staging_phase = SPhaseNone | SPhasePending | SPhaseReady | SPhaseTerminating

record staging_spec =
  ss_consumer_cluster :: string
  ss_provider_cluster :: string
  ss_api_export_name :: string

record staging_status =
  st_phase :: staging_phase
  st_cluster_name :: string
  st_conditions :: "condition list"

record staging_workspace =
  sw_meta :: objmeta
  sw_spec :: staging_spec
  sw_status :: staging_status

definition staging_conditions :: "staging_workspace cond_accessor" where
  "staging_conditions =
     \<lparr>get_conditions = (\<lambda>x. st_conditions (sw_status x)),
      set_conditions = (\<lambda>cs x. x\<lparr>sw_status := (sw_status x)\<lparr>st_conditions := cs\<rparr>\<rparr>)\<rparr>"

definition staging_iface ::
  "(staging_workspace \<Rightarrow> err + json) \<Rightarrow> (json \<Rightarrow> staging_workspace \<Rightarrow> err option \<times> staging_workspace) \<Rightarrow>
   staging_workspace obj_iface" where
  "staging_iface = typed_iface sw_meta sw_meta_update (Some staging_conditions) None"

interpretation staging_obj: object_laws "staging_iface tu fu" for tu fu
  unfolding staging_iface_def
  by (rule object_laws_typed) (auto simp: staging_conditions_def)

definition empty_staging_status :: staging_status where
  "empty_staging_status = \<lparr>st_phase = SPhaseNone, st_cluster_name = [], st_conditions = []\<rparr>"

subsection \<open>Assignment\<close>

datatype assignment_phase = APhaseNone | APhasePending | APhaseBound | APhaseTerminating

record assignment_spec =
  as_consumer_cluster :: string
  as_gvr :: gvr
  as_namespace :: string
  as_name :: string
  as_provider_cluster :: string
  as_accept_api_name :: string

record assignment_status =
  ast_provider_cluster :: string
  ast_accept_api_name :: string
  ast_api_export_name :: string
  ast_staging_workspace :: string
  ast_phase :: assignment_phase
  ast_conditions :: "condition list"

record assignment =
  asg_meta :: objmeta
  asg_spec :: assignment_spec
  asg_status :: assignment_status

definition empty_assignment_status :: assignment_status where
  "empty_assignment_status =
     \<lparr>ast_provider_cluster = [], ast_accept_api_name = [], ast_api_export_name = [],
      ast_staging_workspace = [], ast_phase = APhaseNone, ast_conditions = []\<rparr>"

subsection \<open>Migration\<close>

datatype migration_state =
    MStateUnknown
  | MStatePending
  | MStateInitialInProgress
  | MStateInitialCompleted
  | MStateCutoverInProgress
  | MStateCutoverCompleted

record migration_target =
  mt_gvk :: gvk
  mt_provider_cluster :: string
  mt_accept_api_name :: string

record migration_spec =
  ms_assignment :: string
  ms_namespace :: string
  ms_name :: string
  ms_from_staging_workspace :: string
  ms_staging_workspace :: string
  ms_from :: migration_target
  ms_to :: migration_target

record migration_status =
  mst_state :: migration_state
  mst_stage :: string
  mst_conditions :: "condition list"

record migration =
  mig_meta :: objmeta
  mig_spec :: migration_spec
  mig_status :: migration_status

definition migration_conditions :: "migration cond_accessor" where
  "migration_conditions =
     \<lparr>get_conditions = (\<lambda>x. mst_conditions (mig_status x)),
      set_conditions = (\<lambda>cs x. x\<lparr>mig_status := (mig_status x)\<lparr>mst_conditions := cs\<rparr>\<rparr>)\<rparr>"

definition migration_iface ::
  "(migration \<Rightarrow> err + json) \<Rightarrow> (json \<Rightarrow> migration \<Rightarrow> err option \<times> migration) \<Rightarrow> migration obj_iface" where
  "migration_iface = typed_iface mig_meta mig_meta_update (Some migration_conditions) None"

interpretation migration_obj: object_laws "migration_iface tu fu" for tu fu
  unfolding migration_iface_def
  by (rule object_laws_typed) (auto simp: migration_conditions_def)

definition empty_migration_status :: migration_status where
  "empty_migration_status = \<lparr>mst_state = MStateUnknown, mst_stage = [], mst_conditions = []\<rparr>"

subsection \<open>MigrationConfiguration\<close>

text \<open>A template is the raw JSON text of the resource; entries in one iteration's order.\<close>

record migration_stage =
  stg_name :: string
  stg_preconditions :: "string list"
  stg_success_conditions :: "string list"
  stg_templates :: "(string \<times> string) list"
  stg_progress :: bool

record migration_configuration =
  mc_name :: string
  mc_from :: gvk
  mc_to :: gvk
  mc_stages :: "migration_stage list"

subsection \<open>AcceptAPI\<close>

record boundary =
  bnd_min :: "int option"
  bnd_max :: "int option"

record accept_filter =
  flt_key :: string
  flt_value_in :: "string list"
  flt_boundary :: boundary
  flt_suffix :: string

record accept_api =
  aa_name :: string
  aa_gvr :: gvr
  aa_api_export_name :: string
  aa_filters :: "accept_filter list"

record deny_reason =
  dr_key :: string
  dr_reason :: string
  dr_value :: string
  dr_rule :: string

text \<open>\<^verbatim>\<open>fmt.Sprintf("%v", v)\<close> on a JSON value; a map prints its keys sorted.\<close>

fun sprint_v :: "json \<Rightarrow> string" where
  "sprint_v JNull = ''<nil>''"
| "sprint_v (JBool b) = (if b then ''true'' else ''false'')"
| "sprint_v (JInt i) = itoa i"
| "sprint_v (JFloat t) = t"
| "sprint_v (JStr s) = s"
| "sprint_v (JArr vs) = ''['' @ join_with '' '' (map sprint_v vs) @ '']''"
| "sprint_v (JObj kvs) =
     ''map['' @ join_with '' ''
        (map (\<lambda>(k, t). k @ '':'' @ t)
          (sort_key fst (map (\<lambda>(k, v). (k, sprint_v v)) kvs))) @ '']''"

definition deny :: "string \<Rightarrow> string \<Rightarrow> string \<Rightarrow> string \<Rightarrow> deny_reason" where
  "deny key reason rule val = \<lparr>dr_key = key, dr_reason = reason, dr_value = val, dr_rule = rule\<rparr>"

text \<open>The reasons one filter gives for the value \<open>val\<close> of its key.\<close>

definition filter_reasons :: "accept_filter \<Rightarrow> string \<Rightarrow> deny_reason list" where
  "filter_reasons f val =
     (if flt_value_in f \<noteq> [] \<and> val \<notin> set (flt_value_in f)
      then [deny (flt_key f) ''Value not in allowed set'' (join_with '','' (flt_value_in f)) val] else [])
   @ (case bnd_min (flt_boundary f) of
        None \<Rightarrow> []
      | Some lo \<Rightarrow>
          if lo \<ge> 0 \<and> (case atoi val of None \<Rightarrow> True | Some n \<Rightarrow> n < lo)
          then [deny (flt_key f) ''Value below minimum boundary'' (itoa lo) val] else [])
   @ (case bnd_max (flt_boundary f) of
        None \<Rightarrow> []
      | Some hi \<Rightarrow>
          if hi \<ge> 0 \<and> (case atoi val of None \<Rightarrow> True | Some n \<Rightarrow> n > hi)
          then [deny (flt_key f) ''Value above maximum boundary'' (itoa hi) val] else [])
   @ (if flt_suffix f \<noteq> [] \<and> \<not> has_suffix val (flt_suffix f)
      then [deny (flt_key f) ''Value does not have required suffix'' (flt_suffix f) val] else [])"

definition filter_value :: "unstructured_api \<Rightarrow> json \<Rightarrow> accept_filter \<Rightarrow> string option" where
  "filter_value U ob f =
     (case nested_field_no_copy U ob (''spec'' # split_on (CHR ''.'') (flt_key f)) of
        Inr (Some v) \<Rightarrow> Some (sprint_v v) | _ \<Rightarrow> None)"

text \<open>\<open>gs\<close> is the \<^verbatim>\<open>String\<close> method of \<^verbatim>\<open>metav1.GroupVersionResource\<close>.\<close>

definition applies_to ::
  "unstructured_api \<Rightarrow> (gvr \<Rightarrow> string) \<Rightarrow> accept_api \<Rightarrow> gvr \<Rightarrow> json \<Rightarrow> bool \<times> deny_reason list" where
  "applies_to U gs api g ob =
     (if gs (aa_gvr api) \<noteq> gs g
      then (False, [deny ''gvr'' ''GVR does not match'' (gs (aa_gvr api)) (gs g)])
      else
        (let reasons = concat (map (\<lambda>f. case filter_value U ob f of
                                          None \<Rightarrow> [] | Some val \<Rightarrow> filter_reasons f val)
                               (aa_filters api))
         in (reasons = [], reasons)))"

text \<open>
  What a filter asks of a value: it is in the allowed set, a number not below the minimum and not above the maximum,
  and ends with the suffix, where each is given. An AcceptAPI matches an object of its resource that has what
  its filters ask of the keys the object's spec has.
\<close>

definition filter_accepts :: "accept_filter \<Rightarrow> string \<Rightarrow> bool" where
  "filter_accepts f val \<longleftrightarrow>
     (flt_value_in f = [] \<or> val \<in> set (flt_value_in f))
   \<and> (\<forall>lo. bnd_min (flt_boundary f) = Some lo \<longrightarrow> (\<exists>n. atoi val = Some n \<and> lo \<le> n))
   \<and> (\<forall>hi. bnd_max (flt_boundary f) = Some hi \<longrightarrow> (\<exists>n. atoi val = Some n \<and> n \<le> hi))
   \<and> (flt_suffix f = [] \<or> has_suffix val (flt_suffix f))"

definition api_matches :: "unstructured_api \<Rightarrow> (gvr \<Rightarrow> string) \<Rightarrow> accept_api \<Rightarrow> gvr \<Rightarrow> json \<Rightarrow> bool" where
  "api_matches U gs api g ob \<longleftrightarrow>
     gs (aa_gvr api) = gs g
   \<and> (\<forall>f\<in>set (aa_filters api). \<forall>val. filter_value U ob f = Some val \<longrightarrow> filter_accepts f val)"

text \<open>The code takes a negative boundary for none.\<close>

definition counted_boundaries :: "accept_api \<Rightarrow> bool" where
  "counted_boundaries api \<longleftrightarrow>
     (\<forall>f\<in>set (aa_filters api). \<forall>b. bnd_min (flt_boundary f) = Some b \<or> bnd_max (flt_boundary f) = Some b \<longrightarrow> 0 \<le> b)"

lemma filter_accepts_reasons: "filter_accepts f val \<Longrightarrow> filter_reasons f val = []"
  by (fastforce simp: filter_reasons_def filter_accepts_def split: option.splits)

lemma filter_reasons_Nil_iff:
  "(\<And>b. bnd_min (flt_boundary f) = Some b \<or> bnd_max (flt_boundary f) = Some b \<Longrightarrow> 0 \<le> b) \<Longrightarrow>
     filter_reasons f val = [] \<longleftrightarrow> filter_accepts f val"
  by (auto simp: filter_reasons_def filter_accepts_def not_less split: option.splits if_splits)

lemma concat_map_Nil_iff: "concat (map h xs) = [] \<longleftrightarrow> (\<forall>x\<in>set xs. h x = [])"
  by (induction xs) auto

lemma applies_to_no_reasons:
  "fst (applies_to U gs api g ob) \<longleftrightarrow>
     gs (aa_gvr api) = gs g
   \<and> (\<forall>f\<in>set (aa_filters api). \<forall>val. filter_value U ob f = Some val \<longrightarrow> filter_reasons f val = [])"
  by (auto simp: applies_to_def Let_def split: option.splits)

lemma applies_to_iff: "counted_boundaries api \<Longrightarrow> fst (applies_to U gs api g ob) \<longleftrightarrow> api_matches U gs api g ob"
  unfolding applies_to_no_reasons api_matches_def counted_boundaries_def using filter_reasons_Nil_iff by blast

text \<open>A match is accepted whatever the boundaries; a negative one lets other values in as well.\<close>

lemma match_accepted: "api_matches U gs api g ob \<Longrightarrow> fst (applies_to U gs api g ob)"
  unfolding applies_to_no_reasons api_matches_def using filter_accepts_reasons by blast

lemma negative_boundary_ignored:
  "hi < 0 \<Longrightarrow> filter_reasons \<lparr>flt_key = k, flt_value_in = [], flt_boundary = \<lparr>bnd_min = None, bnd_max = Some hi\<rparr>, flt_suffix = []\<rparr> val = []
     \<and> (0 \<le> n \<longrightarrow> atoi val = Some n \<longrightarrow>
          \<not> filter_accepts \<lparr>flt_key = k, flt_value_in = [], flt_boundary = \<lparr>bnd_min = None, bnd_max = Some hi\<rparr>, flt_suffix = []\<rparr> val)"
  by (simp add: filter_reasons_def filter_accepts_def)

end
