(* ===== verification/Lifecycle_Props.thy ===== *)
theory Lifecycle_Props
  imports Engine Api_Types "HOL-Library.Sublist"
begin

text \<open>
  The properties of the lifecycle engine and of its condition and spread managers, over
  \<open>Lifecycle\<close>, \<open>Conditions\<close> and \<open>Spread\<close>, each with a closed instance on a small Account
  controller.
\<close>

subsection \<open>A small controller\<close>

definition null_accounts :: "account obj_iface" where
  "null_accounts = account_iface (\<lambda>_. Inr JNull) (\<lambda>_ x. (None, x))"

definition null_api :: "(unit, account, int) engine_api" where
  "null_api = \<lparr>api_get = (\<lambda>_ _ _. Inl (Err NotFound ''gone'')),
               api_patch = (\<lambda>_ cur _ w. (None, cur, w)),
               api_status_patch = (\<lambda>_ cur _ w. (None, cur, w))\<rparr>"

text \<open>A subroutine with one finalizer whose two operations return given results.\<close>

definition const_sub ::
  "string \<Rightarrow> string \<Rightarrow> outcome \<Rightarrow> outcome \<Rightarrow> (unit, unit, account, int) subroutine" where
  "const_sub name fin p f =
     \<lparr>sub_name = name,
      as_processor = Some (\<lambda>c ob w. (p, ob, w + 1)),
      as_finalizer = Some \<lparr>Finalize = (\<lambda>c ob w. (f, ob, w + 1)), Finalizers = (\<lambda>_. [fin])\<rparr>,
      as_initializer = None, as_terminator = None\<rparr>"

definition small_controller ::
  "(unit, unit, account, int) subroutine list \<Rightarrow> (unit, unit, account, int) lifecycle" where
  "small_controller subs =
     new_lifecycle null_accounts null_api (=) (\<lambda>_. Inr ()) subs"

definition small_ctx :: "(unit, unit) ctx" where
  "small_ctx = \<lparr>ctx_cluster = None, ctx_client = Some (), ctx_values = ()\<rparr>"

definition small_spec :: account_spec where
  "small_spec = \<lparr>aspec_type = AccountTypeAccount, aspec_display = [], aspec_description = None, aspec_creator = None,
     aspec_extensions = [], aspec_data = None\<rparr>"

definition small_account :: "gotime option \<Rightarrow> string list \<Rightarrow> account" where
  "small_account del fins =
     \<lparr>acc_meta = (new_meta ''a'')\<lparr>m_deletion := del, m_finalizers := fins\<rparr>, acc_spec = small_spec,
      acc_status = \<lparr>acc_conditions = [], acc_observed_generation = 0,
                    acc_next_reconcile_time = None\<rparr>\<rparr>"

interpretation null_accounts: object_laws null_accounts
  unfolding null_accounts_def by (rule account_obj.object_laws_axioms)

lemma const_sub_keeps: "sub_keeps_finalizers I (const_sub n fin p f)"
  by (simp add: sub_keeps_finalizers_def keeps_finalizers_def const_sub_def)

lemma small_controller_engine:
  assumes "set subs \<subseteq> {const_sub n fin p f | n fin p f. True}"
  shows "engine null_accounts (small_controller subs)"
  using assms
  by unfold_locales (auto simp: small_controller_def new_lifecycle_def const_sub_keeps)

lemmas account_simps =
  null_accounts_def account_iface_def typed_iface_def small_account_def new_meta_def
  account_conditions_def account_spread_def

lemmas small_simps =
  account_simps small_controller_def new_lifecycle_def const_sub_def

lemmas pass_simps =
  run_sub_def resolve_action_def finalize_action_def process_action_def has_any_finalizer_def
  on_result_def on_error_def set_sub_condition_def drop_finalizers_def start_run_def min_requeue_def
  result_preds outcome_makers result_makers

subsection \<open>A pass over the subroutines\<close>

definition phase_subs :: "('cl, 'v, 'o, 'w) lifecycle \<Rightarrow> bool \<Rightarrow> ('cl, 'v, 'o, 'w) subroutine list" where
  "phase_subs L deleting = (if deleting then rev (lc_subroutines L) else lc_subroutines L)"

definition phase_object :: "('cl, 'v, 'o, 'w) lifecycle \<Rightarrow> 'o \<Rightarrow> 'o" where
  "phase_object L ob =
     (case lc_conditions L of None \<Rightarrow> ob
      | Some cm \<Rightarrow> cm_init cm ob (map sub_name (lc_subroutines L)))"

definition phase_trace ::
  "('cl, 'v, 'o, 'w) lifecycle \<Rightarrow> ('cl, 'v) ctx \<Rightarrow> bool \<Rightarrow> 'o \<Rightarrow> 'w \<Rightarrow>
   (('cl, 'v, 'o, 'w) subroutine \<times> action \<times> outcome) list" where
  "phase_trace L c deleting ob w =
     run_trace L c deleting (phase_subs L deleting) (start_run (phase_object L ob) w)"

lemma run_phase_unfold:
  "run_phase L c deleting ob w =
     run_subs L c deleting (phase_subs L deleting) (start_run (phase_object L ob) w)"
  by (simp add: run_phase_def phase_subs_def phase_object_def Let_def)

lemma run_phase_flags:
  "rs_err (run_phase L c deleting ob w) = summary_err (outcomes (phase_trace L c deleting ob w))"
  "rs_min (run_phase L c deleting ob w) = summary_requeue (outcomes (phase_trace L c deleting ob w))"
  using run_phase_summary [OF refl refl, of L c deleting "phase_subs L deleting" "phase_object L ob" w]
  by (simp_all add: run_phase_unfold phase_trace_def)

text \<open>
  C1. The flags of a run are the summary of the outcomes its subroutines returned: the error is that
  of the last operation, the requeue is the smallest positive one asked for, and every operation
  but the last returned a result that lets the chain go on.
\<close>

theorem run_phase_summarises:
  "rs_err (run_phase L c deleting ob w) = summary_err (outcomes (phase_trace L c deleting ob w))
 \<and> rs_min (run_phase L c deleting ob w) = summary_requeue (outcomes (phase_trace L c deleting ob w))
 \<and> rs_pending (run_phase L c deleting ob w) = summary_pending (outcomes (phase_trace L c deleting ob w))
 \<and> rs_stopped (run_phase L c deleting ob w) = summary_stopped (outcomes (phase_trace L c deleting ob w))
 \<and> rs_skip_all (run_phase L c deleting ob w) = summary_skip_all (outcomes (phase_trace L c deleting ob w))
 \<and> list_all continues (butlast (outcomes (phase_trace L c deleting ob w)))"
  using run_phase_summary [OF refl refl, of L c deleting "phase_subs L deleting" "phase_object L ob" w]
  by (simp add: run_phase_unfold phase_trace_def list_all_iff)


text \<open>
  Which operations a pass runs: on a live object only Process and Initialize, on an object under
  deletion only Finalize and Terminate, and of the subroutines of the chain in its order, which
  deletion reverses.
\<close>

lemma run_trace_subseq:
  "subseq (map fst (run_trace L c deleting subs st)) subs
   \<and> list_all (\<lambda>(s, act, out). action_is_finalize act = deleting) (run_trace L c deleting subs st)"
proof (induction subs arbitrary: st)
  case Nil
  show ?case by simp
next
  case (Cons sub rest)
  show ?case
  proof (cases "resolve_action L sub (rs_obj st) deleting")
    case None
    with Cons.IH [of st] show ?thesis by (auto intro: subseq_Cons')
  next
    case (Some fa)
    obtain f act where fa: "fa = (f, act)" by force
    obtain st' go where r: "run_sub L c deleting sub rest st = (st', go)" by force
    have "action_is_finalize act = deleting"
      using resolve_action_deleting(1) [OF Some [unfolded fa]] .
    with Cons.IH [of st'] Some fa r show ?thesis by (cases go) auto
  qed
qed

theorem phase_runs_matching_actions:
  "subseq (map fst (phase_trace L c deleting ob w)) (phase_subs L deleting)
 \<and> list_all (\<lambda>(s, act, out). action_is_finalize act = deleting) (phase_trace L c deleting ob w)"
  unfolding phase_trace_def by (rule run_trace_subseq)

subsection \<open>Finalizers\<close>

lemma engine_phase_object:
  assumes "engine I L"
  shows "obj_finalizers I (phase_object L ob) = obj_finalizers I ob"
  using engine.cond_finalizers(1) [OF assms]
  by (simp add: phase_object_def split: option.split)

lemma phase_subs_subset: "set (phase_subs L deleting) \<subseteq> set (lc_subroutines L)"
  by (simp add: phase_subs_def)

lemma phase_dropped_finalizer:
  assumes "engine I L" and "f \<in> set (obj_finalizers I ob)"
    and "f \<notin> set (obj_finalizers I (rs_obj (run_phase L c deleting ob w)))"
  shows "\<exists>sub act out ob'. (sub, act, out) \<in> set (phase_trace L c deleting ob w)
      \<and> finalize_done act out \<and> f \<in> set (sub_finalizers sub ob')"
  using engine.run_subs_finalizers [OF assms(1) phase_subs_subset,
      of c deleting deleting "start_run (phase_object L ob) w"] assms(2,3)
  by (simp add: phase_trace_def run_phase_unfold start_run_def engine_phase_object [OF assms(1)])

text \<open>
  C2. A pass never adds a finalizer, and drops one only after a Finalize of a subroutine that owns it
  returned without error, asking neither to stop, wait or skip nor to come back.
\<close>

theorem finalizers_dropped_only_when_done:
  assumes "engine I L"
    and "f \<in> set (obj_finalizers I ob)"
    and "f \<notin> set (obj_finalizers I (rs_obj (run_phase L c deleting ob w)))"
  shows "\<exists>sub r ob'. (sub, ActionFinalize, Ret r None) \<in> set (phase_trace L c deleting ob w)
    \<and> is_continue r \<and> res_requeue r = 0 \<and> f \<in> set (sub_finalizers sub ob')"
  using phase_dropped_finalizer [OF assms]
  by (fastforce simp: finalize_done_def split: outcome.splits option.splits)

theorem finalizers_dropped_only_when_done_witness:
  "let L = small_controller [const_sub ''s'' ''f'' (ret OK) (ret OK)]; ob = small_account (Some 1) [''f'', ''g''] in
   \<exists>sub r ob'. (sub, ActionFinalize, Ret r None) \<in> set (phase_trace L small_ctx True ob 0)
     \<and> is_continue r \<and> res_requeue r = 0 \<and> ''f'' \<in> set (sub_finalizers sub ob')"
proof -
  let ?L = "small_controller [const_sub ''s'' ''f'' (ret OK) (ret OK)]"
  let ?ob = "small_account (Some 1) [''f'', ''g'']"
  have e: "engine null_accounts ?L" by (rule small_controller_engine) auto
  have a: "''f'' \<in> set (obj_finalizers null_accounts ?ob)" by (simp add: account_simps)
  have g: "''f'' \<notin> set (obj_finalizers null_accounts (rs_obj (run_phase ?L small_ctx True ?ob 0)))"
    by (simp add: run_phase_def small_simps pass_simps)
  show ?thesis unfolding Let_def by (rule finalizers_dropped_only_when_done [OF e a g])
qed

text \<open>
  C3. When every operation of a deletion pass is a Finalize that is done, the finalizers of every
  subroutine of the controller are gone, so the API server may drop the object.
\<close>

theorem complete_deletion_releases:
  assumes "engine I L"
    and "\<forall>(s, act, out)\<in>set (phase_trace L c True ob w). finalize_done act out"
    and "sub \<in> set (lc_subroutines L)"
    and "\<And>ob'. f \<in> set (sub_finalizers sub ob')"
  shows "f \<notin> set (obj_finalizers I (rs_obj (run_phase L c True ob w)))"
  using engine.run_subs_releases [OF assms(1) phase_subs_subset, of c True
      "start_run (phase_object L ob) w" sub f] assms(2-4)
  by (simp add: phase_trace_def run_phase_unfold phase_subs_def)

theorem complete_deletion_releases_witness:
  "let L = small_controller [const_sub ''s'' ''f'' (ret OK) (ret OK), const_sub ''t'' ''g'' (ret OK) (ret OK)];
       ob = small_account (Some 1) [''f'', ''g'']
   in ''g'' \<notin> set (obj_finalizers null_accounts (rs_obj (run_phase L small_ctx True ob 0)))"
proof -
  let ?t = "const_sub ''t'' ''g'' (ret OK) (ret OK)"
  let ?L = "small_controller [const_sub ''s'' ''f'' (ret OK) (ret OK), ?t]"
  let ?ob = "small_account (Some 1) [''f'', ''g'']"
  have e: "engine null_accounts ?L" by (rule small_controller_engine) auto
  have d: "\<forall>(s, act, out)\<in>set (phase_trace ?L small_ctx True ?ob 0). finalize_done act out"
    by (simp add: phase_trace_def phase_subs_def phase_object_def small_simps pass_simps
        finalize_done_def)
  have m: "?t \<in> set (lc_subroutines ?L)" by (simp add: small_simps)
  have o: "''g'' \<in> set (sub_finalizers ?t ob')" for ob'
    by (simp add: sub_finalizers_def const_sub_def)
  show ?thesis unfolding Let_def by (rule complete_deletion_releases [OF e d m o])
qed


lemma missing_after_add:
  assumes "object_laws I" and "lc_iface L = I"
    and "\<And>sub ob ob'. sub \<in> set (lc_subroutines L) \<Longrightarrow> sub_finalizers sub ob = sub_finalizers sub ob'"
  shows "missing_finalizers L (set_finalizers I (obj_finalizers I ob @ missing_finalizers L ob) ob) = []"
proof -
  let ?ob = "set_finalizers I (obj_finalizers I ob @ missing_finalizers L ob) ob"
  have w: "wanted_finalizers L x = concat (map (\<lambda>sub. sub_finalizers sub x) (lc_subroutines L))" for x
    by (simp add: wanted_finalizers_def sub_finalizers_def)
  have "wanted_finalizers L ?ob = wanted_finalizers L ob"
    unfolding w using assms(3) by (intro arg_cong [where f = concat] map_cong) auto
  then show ?thesis
    using assms(2) object_laws.finalizers_set [OF assms(1)]
    by (auto simp: missing_finalizers_def filter_empty_conv)
qed

text \<open>
  C4. No subroutine runs before the object carries every finalizer of the controller: while one is
  missing, a due reconcile only patches the finalizers in and returns, and the object it patches is
  missing none.
\<close>

theorem finalizers_before_work:
  assumes "object_laws I" and "lc_iface L = I"
    and "\<And>sub ob ob'. sub \<in> set (lc_subroutines L) \<Longrightarrow> sub_finalizers sub ob = sub_finalizers sub ob'"
    and "obj_deletion I ob = None" and "\<not> lc_read_only L"
    and "\<And>sm. lc_spread L = Some sm \<Longrightarrow> sm_required sm w ob"
    and "missing_finalizers L ob \<noteq> []"
  shows "\<exists>ob'. missing_finalizers L ob' = []
    \<and> reconcile_object L c cl ob w =
        (case api_patch (lc_api L) cl ob' ob w of
           (e, _, w') \<Rightarrow> (Reconciled 0 (map_option (wrap ''adding finalizers'') e), w'))"
proof (intro exI conjI)
  let ?ob = "set_finalizers I (obj_finalizers I ob @ missing_finalizers L ob) ob"
  show "missing_finalizers L ?ob = []" by (rule missing_after_add [OF assms(1-3)])
  show "reconcile_object L c cl ob w = (case api_patch (lc_api L) cl ?ob ob w of
      (e, _, w') \<Rightarrow> (Reconciled 0 (map_option (wrap ''adding finalizers'') e), w'))"
    using assms(2,4-7)
    by (auto simp: reconcile_object_def add_finalizers_def Let_def
        split: prod.splits option.splits Option.bind_splits)
qed

theorem finalizers_before_work_witness:
  "\<exists>ob'. missing_finalizers (small_controller [const_sub ''s'' ''f'' (ret OK) (ret OK)]) ob' = []
    \<and> reconcile_object (small_controller [const_sub ''s'' ''f'' (ret OK) (ret OK)]) small_ctx ()
        (small_account None []) 0 =
        (case api_patch (lc_api (small_controller [const_sub ''s'' ''f'' (ret OK) (ret OK)])) () ob'
                (small_account None []) 0 of
           (e, _, w') \<Rightarrow> (Reconciled 0 (map_option (wrap ''adding finalizers'') e), w'))"
proof (rule finalizers_before_work [where I = null_accounts])
  show "object_laws null_accounts" by (rule null_accounts.object_laws_axioms)
qed (simp_all add: small_simps sub_finalizers_def missing_finalizers_def wanted_finalizers_def)

subsection \<open>Read-only controllers\<close>

text \<open>The phases that do not mention the API calls.\<close>

lemma api_frame:
  "lc_iface (L\<lparr>lc_api := a\<rparr>) = lc_iface L" "lc_conditions (L\<lparr>lc_api := a\<rparr>) = lc_conditions L"
  "lc_spread (L\<lparr>lc_api := a\<rparr>) = lc_spread L" "lc_reporters (L\<lparr>lc_api := a\<rparr>) = lc_reporters L"
  "lc_initializer (L\<lparr>lc_api := a\<rparr>) = lc_initializer L" "lc_terminator (L\<lparr>lc_api := a\<rparr>) = lc_terminator L"
  "lc_subroutines (L\<lparr>lc_api := a\<rparr>) = lc_subroutines L" "lc_prepare (L\<lparr>lc_api := a\<rparr>) = lc_prepare L"
  "lc_read_only (L\<lparr>lc_api := a\<rparr>) = lc_read_only L"
  "lc_cluster_client (L\<lparr>lc_api := a\<rparr>) = lc_cluster_client L"
  by simp_all

lemma resolve_action_api: "resolve_action (L\<lparr>lc_api := a\<rparr>) = resolve_action L"
  unfolding fun_eq_iff resolve_action_def finalize_action_def api_frame by simp

lemma on_result_api: "on_result (L\<lparr>lc_api := a\<rparr>) = on_result L"
  unfolding fun_eq_iff on_result_def set_sub_condition_def drop_finalizers_def api_frame by simp

lemma on_error_api: "on_error (L\<lparr>lc_api := a\<rparr>) = on_error L"
  unfolding fun_eq_iff on_error_def set_sub_condition_def api_frame by simp

lemma run_sub_api: "run_sub (L\<lparr>lc_api := a\<rparr>) c deleting sub rest st = run_sub L c deleting sub rest st"
  unfolding run_sub_def resolve_action_api on_result_api on_error_api by simp

lemma run_subs_api: "run_subs (L\<lparr>lc_api := a\<rparr>) c deleting subs st = run_subs L c deleting subs st"
  by (induction subs arbitrary: st) (simp_all add: run_sub_api split: prod.split bool.split)

lemma run_phase_api: "run_phase (L\<lparr>lc_api := a\<rparr>) c deleting ob w = run_phase L c deleting ob w"
  unfolding run_phase_def run_subs_api api_frame by simp

text \<open>
  A read-only controller never patches: its reconcile computes the same result and world whatever
  the two patch calls of its client would do.
\<close>

theorem read_only_never_patches:
  "reconcile ((with_read_only L)\<lparr>lc_api := (lc_api L)\<lparr>api_patch := p, api_status_patch := q\<rparr>\<rparr>) c req w =
   reconcile (with_read_only L) c req w"
  by (simp add: reconcile_def with_read_only_def reconcile_object_def process_object_def
      finish_def run_phase_api Let_def split: sum.split option.split)


subsection \<open>Errors\<close>

text \<open>
  What a pass with nothing left to report comes down to: its outcomes end without an error, and the patch of
  the finished object went through, or it met a conflict.
\<close>

definition pass_reported ::
  "('cl, 'v, 'o, 'w) lifecycle \<Rightarrow> ('cl, 'v) ctx \<Rightarrow> 'cl \<Rightarrow> bool \<Rightarrow> 'o \<Rightarrow> 'o \<Rightarrow> 'w \<Rightarrow> duration \<Rightarrow> 'w \<Rightarrow> bool" where
  "pass_reported L c cl deleting orig ob w d w' \<longleftrightarrow>
     (let os = outcomes (phase_trace L c deleting ob w); st = run_phase L c deleting ob w;
          patched = patch_changes L cl orig (finish_object L deleting st) (rs_world st);
          clean = (summary_err os = None \<and> d = summary_requeue os) in
      rs_panic st = None \<and>
      (if lc_read_only L then clean \<and> w' = rs_world st
       else clean \<and> patched = (None, w') \<or> d = second \<and> (\<exists>e. is_conflict e \<and> patched = (Some e, w'))))"

lemma finish_clean_iff:
  "finish L cl deleting orig (run_phase L c deleting ob w) = (Reconciled d None, w') \<longleftrightarrow>
     pass_reported L c cl deleting orig ob w d w'"
  using run_phase_flags [of L c deleting ob w]
  by (auto simp: pass_reported_def finish_def Let_def split: option.splits prod.splits if_splits)

text \<open>
  C5. No failure is lost. A reconcile of an object ends without an error exactly in these cases: the object is
  spread and not yet due; finalizers were missing and the patch that adds them went through; or the context
  was prepared, the pass over the subroutines panicked nowhere and ended without an error, and the patch of
  the finished object went through (a read-only controller makes none), the requeue being the pass's. The one
  exception is a patch that meets a conflict: then the object comes back after a second, with all that
  the pass had to report.
\<close>

theorem finish_reports_every_failure:
  "reconcile_object L c cl ob w = (Reconciled d None, w') \<longleftrightarrow>
   (let deleting = (obj_deletion (lc_iface L) ob \<noteq> None);
        waits = (if deleting then None
                 else Option.bind (lc_spread L) (\<lambda>sm. if sm_required sm w ob then None else Some (sm_delay sm w ob)));
        prepared = (\<lambda>ob1. case lc_prepare L of None \<Rightarrow> Inr c | Some fn \<Rightarrow> fn c ob1);
        passes = (\<lambda>ob1 w1. \<exists>c'. prepared ob1 = Inr c' \<and> pass_reported L c' cl deleting ob ob1 w1 d w') in
    case waits of
      Some delay \<Rightarrow> d = delay \<and> w' = w
    | None \<Rightarrow>
        if deleting \<or> lc_read_only L then passes ob w
        else (case add_finalizers L cl ob w of
                (added, e, ob1, w1) \<Rightarrow> e = None \<and> (if added then d = 0 \<and> w' = w1 else passes ob1 w1)))"
proof -
  have p: "process_object L c cl del orig ob1 w1 = (Reconciled d None, w') \<longleftrightarrow>
      (\<exists>c'. (case lc_prepare L of None \<Rightarrow> Inr c | Some fn \<Rightarrow> fn c ob1) = Inr c' \<and> pass_reported L c' cl del orig ob1 w1 d w')"
    for del orig ob1 w1
    by (auto simp: process_object_def finish_clean_iff split: sum.splits)
  show ?thesis
    unfolding reconcile_object_def Let_def
    by (auto simp: p split: option.splits prod.splits bool.splits)
qed

theorem finish_reports_every_failure_witness:
  "let L = small_controller [const_sub ''s'' ''f'' (ret (OKWithRequeue 5)) (ret OK)] in
   reconcile_object L small_ctx () (small_account None [''f'']) 0 = (Reconciled 5 None, 1)
   \<and> summary_err (outcomes (phase_trace L small_ctx False (small_account None [''f'']) 0)) = None"
proof -
  let ?L = "small_controller [const_sub ''s'' ''f'' (ret (OKWithRequeue 5)) (ret OK)]"
  let ?ob = "small_account None [''f'']"
  have m: "missing_finalizers ?L ?ob = []"
    by (simp add: missing_finalizers_def wanted_finalizers_def small_simps)
  then have ad: "add_finalizers ?L () ?ob 0 = (False, None, ?ob, 0)" by (simp add: add_finalizers_def)
  have "process_object ?L small_ctx () False ?ob ?ob 0 = (Reconciled 5 None, 1)"
    by (simp add: process_object_def finish_def finish_object_def update_spread_def set_ready_def remove_markers_def
        patch_changes_def patch_status_def differs_def Let_def run_phase_def small_simps pass_simps)
  then have r: "reconcile_object ?L small_ctx () ?ob 0 = (Reconciled 5 None, 1)"
    using ad by (simp add: reconcile_object_def small_simps)
  from r [unfolded finish_reports_every_failure] have "summary_err (outcomes (phase_trace ?L small_ctx False ?ob 0)) = None"
    using ad by (auto simp: pass_reported_def Let_def second_def small_simps split: if_splits)
  with r show ?thesis by (simp add: Let_def)
qed

subsection \<open>Spreading\<close>

text \<open>
  \<^verbatim>\<open>NewManager\<close> panics exactly on an empty window, and a manager it returns schedules the next
  reconcile inside the window, for every draw the random source may make.
\<close>

theorem spread_window:
  assumes "object_laws I" and "spread_acc I = Some s" and "draw_laws E"
  shows "(NewManager opts = None \<longleftrightarrow>
           (let m = foldl (\<lambda>m opt. opt m) \<lparr>min_duration = defaultMinDuration, max_duration = defaultMaxDuration\<rparr> opts
            in max_duration m < min_duration m))
   \<and> (\<forall>m. NewManager opts = Some m \<longrightarrow>
        (\<exists>t. get_next_reconcile_time s (SetNextReconcileTime E m I w ob) = Some t
           \<and> env_now E w + min_duration m \<le> t \<and> t \<le> env_now E w + max_duration m))"
  using object_laws.next_time_window [OF assms(1-3)]
  by (auto simp: NewManager_def Let_def split: if_splits)

definition int_clock :: "int time_env" where
  "int_clock = \<lparr>env_now = (\<lambda>w. w), env_draw = (\<lambda>w n. w mod n)\<rparr>"

lemma int_clock_laws: "draw_laws int_clock"
  by (simp add: draw_laws_def int_clock_def)

theorem spread_window_witness:
  "NewManager [WithMinDuration 3, WithMaxDuration 9] = Some \<lparr>min_duration = 3, max_duration = 9\<rparr>
   \<and> (\<exists>t. get_next_reconcile_time account_spread
             (SetNextReconcileTime int_clock \<lparr>min_duration = 3, max_duration = 9\<rparr> null_accounts 100
               (small_account None [])) = Some t \<and> 103 \<le> t \<and> t \<le> 109)"
proof -
  have m: "NewManager [WithMinDuration 3, WithMaxDuration 9] = Some \<lparr>min_duration = 3, max_duration = 9\<rparr>"
    by (simp add: NewManager_def WithMinDuration_def WithMaxDuration_def)
  have s: "spread_acc null_accounts = Some account_spread" by (simp add: account_simps)
  from m spread_window [OF null_accounts.object_laws_axioms s int_clock_laws,
      of "[WithMinDuration 3, WithMaxDuration 9]" 100 "small_account None []"]
  show ?thesis by (simp add: int_clock_def)
qed

lemma update_spread_run:
  assumes "lc_spread L = Some (spread_manager_of E m I)"
  shows "update_spread L False st ob =
    (if rs_err st = None \<and> \<not> rs_stopped st \<and> rs_min st = 0
     then snd (RemoveRefreshLabel I (SetNextReconcileTime E m I (rs_world st) (UpdateObservedGeneration I ob)))
     else ob)"
  using assms by (simp add: update_spread_def spread_manager_of_def)

text \<open>
  After a run of a spread controller that ended without error, stop or requeue, the object is
  left alone: until the shortest spreading interval has passed, a reconcile of an object that keeps
  its generation and gets no refresh label calls no API and no subroutine, and comes back no later
  than the window allows.
\<close>

theorem spread_skips_until_due:
  assumes "object_laws I" and "lc_iface L = I" and "spread_acc I = Some s" and "draw_laws E"
    and "lc_spread L = Some (spread_manager_of E m I)" and "min_duration m \<le> max_duration m"
    and "rs_err st = None" and "\<not> rs_stopped st" and "rs_min st = 0"
    and "ob' = update_spread L False st ob" and "obj_deletion I ob' = None"
    and "env_now E (rs_world st) \<le> env_now E w" and "env_now E w \<le> env_now E (rs_world st) + min_duration m"
  shows "\<exists>d. reconcile_object L c cl ob' w = (Reconciled d None, w) \<and> 0 \<le> d \<and> d \<le> max_duration m"
proof -
  let ?ob = "SetNextReconcileTime E m I (rs_world st) (UpdateObservedGeneration I ob)"
  have ob': "ob' = snd (RemoveRefreshLabel I ?ob)"
    using assms(7-10) by (simp add: update_spread_run [OF assms(5)])
  have nr: "\<not> ReconcileRequired E I w ob'"
    unfolding ob' by (rule object_laws.finished_not_required [OF assms(1,3,13,4)])
  obtain t where t: "get_next_reconcile_time s ?ob = Some t"
    "env_now E (rs_world st) + min_duration m \<le> t" "t \<le> env_now E (rs_world st) + max_duration m"
    using object_laws.next_time_window [OF assms(1,3,4,6)] by blast
  have "get_next_reconcile_time s ob' = get_next_reconcile_time s ?ob"
    using object_laws.next_set_labels [OF assms(1,3)]
    by (auto simp: ob' RemoveRefreshLabel_def split: option.split)
  then have d: "0 \<le> RequeueDelay E I w ob' \<and> RequeueDelay E I w ob' \<le> max_duration m"
    using t assms(3,12,13) by (auto simp: RequeueDelay_def Let_def)
  have "reconcile_object L c cl ob' w = (Reconciled (RequeueDelay E I w ob') None, w)"
    using nr assms(2,5,11) by (simp add: reconcile_object_def spread_manager_of_def)
  with d show ?thesis by blast
qed

theorem spread_skips_until_due_witness:
  "\<exists>d. reconcile_object ((small_controller [])\<lparr>lc_spread := Some (spread_manager_of int_clock \<lparr>min_duration = 3, max_duration = 9\<rparr> null_accounts)\<rparr>)
      small_ctx ()
      (update_spread ((small_controller [])\<lparr>lc_spread := Some (spread_manager_of int_clock \<lparr>min_duration = 3, max_duration = 9\<rparr> null_accounts)\<rparr>)
         False (start_run (small_account None []) 100) (small_account None [])) 102
    = (Reconciled d None, 102) \<and> 0 \<le> d \<and> d \<le> max_duration \<lparr>min_duration = 3, max_duration = 9\<rparr>"
  by (rule spread_skips_until_due [where I = null_accounts and s = account_spread and E = int_clock
        and st = "start_run (small_account None []) 100" and ob = "small_account None []",
        OF null_accounts.object_laws_axioms])
     (simp_all add: draw_laws_def int_clock_def start_run_def small_simps update_spread_def
      spread_manager_of_def RemoveRefreshLabel_def SetNextReconcileTime_def UpdateObservedGeneration_def)

subsection \<open>Markers\<close>

lemma marker_in_status_iff:
  assumes "to_unstructured I ob = Inr (JObj data)" and "map_of data ''status'' = Some (JObj status)"
  shows "has_marker_in_status I ob field name \<longleftrightarrow>
           (case map_of status field of None \<Rightarrow> False | Some v \<Rightarrow> marker_present v name)"
  using assms by (simp add: has_marker_in_status_def)

lemma strip_marker_present:
  "(strip_marker status field name = None \<longleftrightarrow>
      \<not> (case map_of status field of None \<Rightarrow> False | Some v \<Rightarrow> marker_present v name))
   \<and> (\<forall>status'. strip_marker status field name = Some status' \<longrightarrow>
        \<not> (case map_of status' field of None \<Rightarrow> False | Some v \<Rightarrow> marker_present v name)
        \<and> (\<forall>k. k \<noteq> field \<longrightarrow> map_of status' k = map_of status k))"
  by (auto simp: strip_marker_def marker_present_def Let_def split: option.splits json.splits if_splits)

text \<open>
  Removing an initializer or terminator marker removes exactly it: when the converter round-trips,
  the removal reports success just when the marker was there, the marker is gone afterwards, and
  every other field of the status is the same.
\<close>

theorem marker_removal:
  assumes "\<And>j x. \<exists>x'. from_unstructured I j x = (None, x') \<and> to_unstructured I x' = Inr j"
    and "to_unstructured I ob = Inr (JObj data)" and "map_of data ''status'' = Some (JObj status)"
    and "remove_marker_from_status I ob field name = (removed, ob')"
  shows "removed = has_marker_in_status I ob field name
    \<and> \<not> has_marker_in_status I ob' field name
    \<and> (\<exists>data' status'. to_unstructured I ob' = Inr (JObj data') \<and> map_of data' ''status'' = Some (JObj status')
         \<and> (\<forall>k. k \<noteq> field \<longrightarrow> map_of status' k = map_of status k)
         \<and> (\<forall>k. k \<noteq> ''status'' \<longrightarrow> map_of data' k = map_of data k))"
proof (cases "strip_marker status field name")
  case None
  with assms(2-4) have "removed = False" "ob' = ob"
    by (auto simp: remove_marker_from_status_def)
  with None strip_marker_present [of status field name] assms(2,3) show ?thesis
    by (auto simp: marker_in_status_iff [OF assms(2,3)])
next
  case (Some status')
  let ?data = "obj_put ''status'' (JObj status') data"
  obtain x' where x': "from_unstructured I (JObj ?data) ob = (None, x')" "to_unstructured I x' = Inr (JObj ?data)"
    using assms(1) by blast
  with Some assms(2-4) have r: "removed = True" "ob' = x'"
    by (auto simp: remove_marker_from_status_def)
  have st: "map_of ?data ''status'' = Some (JObj status')" by simp
  from Some strip_marker_present [of status field name]
  have "(case map_of status field of None \<Rightarrow> False | Some v \<Rightarrow> marker_present v name)"
    and gone: "\<not> (case map_of status' field of None \<Rightarrow> False | Some v \<Rightarrow> marker_present v name)"
    and oth: "\<forall>k. k \<noteq> field \<longrightarrow> map_of status' k = map_of status k" by auto
  then have "has_marker_in_status I ob field name" "\<not> has_marker_in_status I x' field name"
    by (simp_all add: marker_in_status_iff [OF assms(2,3)] marker_in_status_iff [OF x'(2) st])
  moreover have "\<forall>k. k \<noteq> ''status'' \<longrightarrow> map_of ?data k = map_of data k" by simp
  ultimately show ?thesis using r x'(2) st oth by blast
qed

text \<open>Objects that are their own unstructured data.\<close>

definition json_iface :: "json obj_iface" where
  "json_iface = typed_iface (\<lambda>_. new_meta []) (\<lambda>_ x. x) None None Inr (\<lambda>j _. (None, j))"

theorem marker_removal_witness:
  "has_marker_in_status json_iface
      (JObj [(''status'', JObj [(''initializers'', JArr [JStr ''a'', JStr ''b'']), (''phase'', JStr ''x'')])])
      ''initializers'' ''a''
   \<and> \<not> has_marker_in_status json_iface
      (JObj [(''status'', JObj [(''initializers'', JArr [JStr ''b'']), (''phase'', JStr ''x'')])])
      ''initializers'' ''a''"
proof -
  let ?s = "\<lambda>ms. [(''initializers'', JArr ms), (''phase'', JStr ''x'')]"
  let ?d = "\<lambda>ms. [(''status'', JObj (?s ms))]"
  have r: "remove_marker_from_status json_iface (JObj (?d [JStr ''a'', JStr ''b''])) ''initializers'' ''a'' =
      (True, JObj (?d [JStr ''b'']))"
    by (simp add: json_iface_def typed_iface_def remove_marker_from_status_def strip_marker_def Let_def)
  have c: "\<exists>x'. from_unstructured json_iface j x = (None, x') \<and> to_unstructured json_iface x' = Inr j" for j x
    by (simp add: json_iface_def typed_iface_def)
  have u: "to_unstructured json_iface (JObj (?d [JStr ''a'', JStr ''b''])) = Inr (JObj (?d [JStr ''a'', JStr ''b'']))"
    by (simp add: json_iface_def typed_iface_def)
  have m: "map_of (?d [JStr ''a'', JStr ''b'']) ''status'' = Some (JObj (?s [JStr ''a'', JStr ''b'']))"
    by simp
  from marker_removal [OF c u m r] show ?thesis by blast
qed

subsection \<open>Conditions\<close>

definition summary_not_ready :: "outcome list \<Rightarrow> bool" where
  "summary_not_ready os \<longleftrightarrow> (\<exists>r\<in>set (results_of os). is_skip_all r \<and> \<not> res_ready r)"

lemma run_sub_skip_ready:
  assumes "resolve_action L sub (rs_obj st) deleting = Some (f, act)"
    and "fst (f c (rs_obj st) (rs_world st)) = out"
    and "run_sub L c deleting sub rest st = (st', go)" and "\<not> rs_skip_all st"
  shows "rs_skip_all st' \<and> \<not> rs_skip_ready st' \<longleftrightarrow> summary_not_ready [out]"
    and "go \<Longrightarrow> \<not> rs_skip_all st' \<and> \<not> summary_not_ready [out]"
  using assms
  by (auto simp: run_sub_def on_error_def on_result_def Let_def summary_not_ready_def
      result_preds split: prod.splits outcome.splits option.splits if_splits)

lemma run_trace_skip_ready:
  assumes "\<not> rs_skip_all st"
  shows "rs_skip_all (run_subs L c deleting subs st) \<and> \<not> rs_skip_ready (run_subs L c deleting subs st)
     \<longleftrightarrow> summary_not_ready (outcomes (run_trace L c deleting subs st))"
  using assms
proof (induction subs arbitrary: st)
  case Nil
  then show ?case by (simp add: summary_not_ready_def)
next
  case (Cons sub rest)
  show ?case
  proof (cases "resolve_action L sub (rs_obj st) deleting")
    case None
    with Cons show ?thesis by (simp add: run_sub_def)
  next
    case (Some fa)
    obtain f act where fa: "fa = (f, act)" by force
    obtain st' go where r: "run_sub L c deleting sub rest st = (st', go)" by force
    let ?out = "fst (f c (rs_obj st) (rs_world st))"
    note flags = run_sub_skip_ready [OF Some [unfolded fa] refl r Cons.prems]
    show ?thesis
    proof (cases go)
      case False
      with Some fa r flags(1) show ?thesis by simp
    next
      case True
      have "summary_not_ready (?out # outcomes (run_trace L c deleting rest st')) \<longleftrightarrow>
          summary_not_ready (outcomes (run_trace L c deleting rest st'))"
        using flags(2) [OF True] results_of_Cons [of ?out "outcomes (run_trace L c deleting rest st')"]
        by (auto simp: summary_not_ready_def)
      with Cons.IH [of st'] flags(2) [OF True] Some fa r True show ?thesis by simp
    qed
  qed
qed

text \<open>The status the Ready condition should have after a pass with these outcomes.\<close>

definition summary_status :: "outcome list \<Rightarrow> cstatus" where
  "summary_status os =
     (if summary_err os \<noteq> None \<or> summary_stopped os \<or> summary_not_ready os then CFalse
      else if summary_pending os then CUnknown else CTrue)"

text \<open>
  The Ready condition tells how the run went: it is False after an error, a stop or a skip of the
  chain that asked for it, else Unknown when a subroutine is pending, else True; it carries the
  object's generation, and every other condition is as the run left it.
\<close>

theorem ready_reflects_outcomes:
  assumes "object_laws I" and "lc_iface L = I" and "meta_laws M" and "cond_acc I = Some a"
    and "lc_conditions L = Some (conditions_manager M I)"
    and "os = outcomes (phase_trace L c deleting ob w)"
    and "ob' = set_ready L (run_phase L c deleting ob w) x"
  shows "(\<exists>cond. find_status_condition M (get_conditions a ob') ReadyCondition = Some cond
     \<and> cond_status cond = summary_status os \<and> cond_generation cond = obj_generation I x)
   \<and> (\<forall>t. t \<noteq> ReadyCondition \<longrightarrow>
      find_status_condition M (get_conditions a ob') t = find_status_condition M (get_conditions a x) t)"
proof -
  let ?st = "run_phase L c deleting ob w"
  have "rs_skip_all ?st \<and> \<not> rs_skip_ready ?st \<longleftrightarrow> summary_not_ready os"
    unfolding run_phase_unfold assms(6) phase_trace_def
    by (rule run_trace_skip_ready) (simp add: start_run_def)
  then have v: "fst (ready_verdict (ready_reason ?st)) = summary_status os"
    using run_phase_summarises [of L c deleting ob w] assms(6)
    by (auto simp: ready_verdict_def ready_reason_def summary_status_def reason_defs)
  have ob': "ob' = set_ready_condition M I x (ready_reason ?st)"
    using assms(5,7) by (simp add: set_ready_def conditions_manager_def)
  obtain s m where sm: "ready_verdict (ready_reason ?st) = (s, m)" by force
  show ?thesis
    using v sm assms(4) object_laws.conditions_get_set [OF assms(1,4)]
    by (simp add: ob' set_ready_condition_def Let_def find_set_status [OF assms(3)])
qed

text \<open>The meta package's helpers on the list itself.\<close>

definition list_meta :: meta_api where
  "list_meta = \<lparr>set_status_condition = (\<lambda>cs c. c # filter (\<lambda>d. cond_type d \<noteq> cond_type c) cs),
                find_status_condition = (\<lambda>cs t. find (\<lambda>c. cond_type c = t) cs)\<rparr>"

lemma list_meta_laws: "meta_laws list_meta"
proof -
  have "find (\<lambda>d. cond_type d = t) (filter (\<lambda>d. cond_type d \<noteq> u) cs) = find (\<lambda>d. cond_type d = t) cs"
    if "t \<noteq> u" for cs t u
    using that by (induction cs) auto
  then show ?thesis by (auto simp: meta_laws_def list_meta_def)
qed

theorem ready_reflects_outcomes_witness:
  "let L = (small_controller [const_sub ''s'' ''f'' (ret (Stop ''no'')) (ret OK)])
             \<lparr>lc_conditions := Some (conditions_manager list_meta null_accounts)\<rparr>;
       ob = small_account None [''f''];
       cs = get_conditions account_conditions (set_ready L (run_phase L small_ctx False ob 0) ob)
   in \<exists>cond. find_status_condition list_meta cs ReadyCondition = Some cond
     \<and> cond_status cond = summary_status (outcomes (phase_trace L small_ctx False ob 0))
     \<and> cond_generation cond = obj_generation null_accounts ob"
proof -
  let ?L = "(small_controller [const_sub ''s'' ''f'' (ret (Stop ''no'')) (ret OK)])
             \<lparr>lc_conditions := Some (conditions_manager list_meta null_accounts)\<rparr>"
  have "lc_iface ?L = null_accounts" "cond_acc null_accounts = Some account_conditions"
    "lc_conditions ?L = Some (conditions_manager list_meta null_accounts)"
    by (simp_all add: small_simps)
  from ready_reflects_outcomes [OF null_accounts.object_laws_axioms this(1) list_meta_laws this(2,3) refl refl]
  show ?thesis unfolding Let_def by blast
qed

text \<open>
  A subroutine's outcome is recorded under its own name, with the suffix Finalize on the way
  out, and nothing else changes: error, stop, skip, pending and completion map to their status
  and reason. A skipped chain marks each remaining name, True or False as asked.
\<close>

theorem conditions_record_outcomes:
  assumes "object_laws I" and "meta_laws M" and "cond_acc I = Some a"
  shows "find_status_condition M
      (get_conditions a (set_subroutine_condition M I ob name r e fin)) t =
      (if t = condition_name name fin
       then Some \<lparr>cond_type = t, cond_status = fst (subroutine_verdict r e),
                  cond_reason = fst (snd (subroutine_verdict r e)),
                  cond_message = snd (snd (subroutine_verdict r e)),
                  cond_generation = obj_generation I ob\<rparr>
       else find_status_condition M (get_conditions a ob) t)
   \<and> find_status_condition M (get_conditions a (set_skipped_conditions M I ob names ready msg)) t =
      (if t \<in> set names
       then Some \<lparr>cond_type = t, cond_status = (if ready then CTrue else CFalse),
                  cond_reason = ReasonSkipped, cond_message = msg, cond_generation = obj_generation I ob\<rparr>
       else find_status_condition M (get_conditions a ob) t)"
proof -
  have f: "find (\<lambda>n. n = t) (rev names) = (if t \<in> set names then Some t else None)"
    by (induction names rule: rev_induct) auto
  show ?thesis
    using assms(3) object_laws.conditions_get_set [OF assms(1,3)]
    by (auto simp: set_subroutine_condition_def set_skipped_conditions_def Let_def f
        find_set_status [OF assms(2)] find_foldl_skipped [OF assms(2)] split: prod.split)
qed

theorem conditions_record_outcomes_witness:
  "find_status_condition list_meta
      (get_conditions account_conditions
        (set_subroutine_condition list_meta null_accounts (small_account None []) ''s'' OK None True)) ''sFinalize'' =
      (if ''sFinalize'' = condition_name ''s'' True
       then Some \<lparr>cond_type = ''sFinalize'', cond_status = fst (subroutine_verdict OK None),
                  cond_reason = fst (snd (subroutine_verdict OK None)),
                  cond_message = snd (snd (subroutine_verdict OK None)),
                  cond_generation = obj_generation null_accounts (small_account None [])\<rparr>
       else find_status_condition list_meta (get_conditions account_conditions (small_account None [])) ''sFinalize'')
   \<and> find_status_condition list_meta (get_conditions account_conditions
        (set_skipped_conditions list_meta null_accounts (small_account None []) [''a''] True ''m'')) ''sFinalize'' =
      (if ''sFinalize'' \<in> set [''a'']
       then Some \<lparr>cond_type = ''sFinalize'', cond_status = (if True then CTrue else CFalse),
                  cond_reason = ReasonSkipped, cond_message = ''m'',
                  cond_generation = obj_generation null_accounts (small_account None [])\<rparr>
       else find_status_condition list_meta (get_conditions account_conditions (small_account None [])) ''sFinalize'')"
  by (rule conditions_record_outcomes [OF null_accounts.object_laws_axioms list_meta_laws])
     (simp add: account_simps)

end
