(* ===== verification/Clients.thy ===== *)
theory Clients
  imports Api_Types
begin

text \<open>
  What the controllers rely on of the Kubernetes client libraries: a client for one kind of object,
  the finalizer helpers of controller-runtime and \<^verbatim>\<open>retry.RetryOnConflict\<close>. API servers are not
  code of the repository; the named predicates state what the libraries document.
\<close>

subsection \<open>Clients of one kind\<close>

text \<open>A key is a namespace and a name. Writes return the object as the server answered it.\<close>

record ('o, 'w) kind_client =
  k_get :: "string \<times> string \<Rightarrow> 'w \<Rightarrow> err + 'o"
  k_list :: "'w \<Rightarrow> err + 'o list"
  k_create :: "'o \<Rightarrow> 'w \<Rightarrow> err option \<times> 'o \<times> 'w"
  k_update :: "'o \<Rightarrow> 'w \<Rightarrow> err option \<times> 'o \<times> 'w"
  k_status_update :: "'o \<Rightarrow> 'w \<Rightarrow> err option \<times> 'o \<times> 'w"
  k_delete :: "'o \<Rightarrow> 'w \<Rightarrow> err option \<times> 'w"

text \<open>
  \<^verbatim>\<open>controllerutil.AddFinalizer\<close> and \<^verbatim>\<open>RemoveFinalizer\<close> on a finalizer list: whether it changed,
  and the new list.
\<close>

record finalizer_lib =
  fl_add :: "string \<Rightarrow> string list \<Rightarrow> bool \<times> string list"
  fl_remove :: "string \<Rightarrow> string list \<Rightarrow> bool \<times> string list"

definition finalizer_laws :: "finalizer_lib \<Rightarrow> bool" where
  "finalizer_laws F \<longleftrightarrow>
     (\<forall>f fs. fst (fl_add F f fs) = (f \<notin> set fs) \<and> set (snd (fl_add F f fs)) = insert f (set fs)
       \<and> fst (fl_remove F f fs) = (f \<in> set fs) \<and> set (snd (fl_remove F f fs)) = set fs - {f})"

text \<open>
  \<^verbatim>\<open>retry.RetryOnConflict\<close> runs its body at least once and again only after a conflict; what it
  returns is what the last run returned.
\<close>

type_synonym 's body = "'s \<Rightarrow> err option \<times> 's"

inductive retries :: "'s body \<Rightarrow> 's \<Rightarrow> err option \<Rightarrow> 's \<Rightarrow> bool" for body where
  last_try: "body s = (e, s') \<Longrightarrow> retries body s e s'"
| conflict_try: "body s = (Some x, s1) \<Longrightarrow> is_conflict x \<Longrightarrow> retries body s1 e s' \<Longrightarrow> retries body s e s'"

inductive_cases retriesE: "retries body s e s'"

definition retry_laws :: "('s body \<Rightarrow> 's body) \<Rightarrow> bool" where
  "retry_laws retry \<longleftrightarrow> (\<forall>body s. retries body s (fst (retry body s)) (snd (retry body s)))"

text \<open>Whatever the last run establishes on success holds of the result.\<close>

lemma retries_result:
  assumes "retries body s e s'" and "P s"
    and "\<And>s x s1. P s \<Longrightarrow> body s = (Some x, s1) \<Longrightarrow> P s1"
  shows "\<exists>s0. P s0 \<and> body s0 = (e, s')"
  using assms by (induction rule: retries.induct) blast+

end
