(* ===== verification/Broker_Options.thy ===== *)
theory Broker_Options
  imports Clients
begin

text \<open>
  What the resource broker's controllers share (\<^verbatim>\<open>operators/resource-broker\<close>): their options, the
  API clients they talk to, the deterministic names of the objects they create
  (\<^verbatim>\<open>pkg/names/names.go\<close>), and the options' validation in \<^verbatim>\<open>NewReconciler\<close>.

  API servers are not code of the repository. A client for one kind of object is a record of the
  calls the broker makes on it, over an arbitrary state of the world; the named predicates below
  state what the broker relies on of the libraries it calls.
\<close>

subsection \<open>Unstructured objects\<close>

text \<open>
  \<open>un_gvk\<close> holds \<^verbatim>\<open>apiVersion\<close> and \<^verbatim>\<open>kind\<close>, \<open>un_meta\<close> the metadata, and \<open>un_fields\<close> the other
  top-level fields; the server-side fields \<^verbatim>\<open>uid\<close>,
  \<^verbatim>\<open>creationTimestamp\<close>, \<^verbatim>\<open>managedFields\<close> and \<^verbatim>\<open>ownerReferences\<close> are not represented.
\<close>

record uobj =
  un_gvk :: gvk
  un_meta :: objmeta
  un_fields :: "(string \<times> json) list"

definition un_object :: "uobj \<Rightarrow> json" where
  "un_object u = JObj (un_fields u)"

definition un_namespace :: "uobj \<Rightarrow> string" where
  "un_namespace u = m_namespace (un_meta u)"

definition un_name :: "uobj \<Rightarrow> string" where
  "un_name u = m_name (un_meta u)"

definition un_key :: "uobj \<Rightarrow> string \<times> string" where
  "un_key u = (un_namespace u, un_name u)"

text \<open>Reading a missing key of a Go map gives the empty string.\<close>

definition annotation :: "uobj \<Rightarrow> string \<Rightarrow> string" where
  "annotation u key =
     (case m_annotations (un_meta u) of
        None \<Rightarrow> [] | Some m \<Rightarrow> (case m key of None \<Rightarrow> [] | Some v \<Rightarrow> v))"

definition uobj_iface ::
  "(uobj \<Rightarrow> err + json) \<Rightarrow> (json \<Rightarrow> uobj \<Rightarrow> err option \<times> uobj) \<Rightarrow> uobj obj_iface" where
  "uobj_iface = typed_iface un_meta un_meta_update None None"

interpretation unstructured_obj: object_laws "uobj_iface tu fu" for tu fu
  unfolding uobj_iface_def by (rule object_laws_typed) auto

subsection \<open>Options\<close>

record accept_api_ref =
  ref_cluster :: string
  ref_accept_api :: accept_api

record ('cl, 'w) broker_options =
  o_gvk :: gvk
  o_gvr :: gvr
  o_staging_root :: string
  o_workspace_client :: "string \<Rightarrow> err + 'cl"
  o_list_accept_apis :: "'w \<Rightarrow> err + accept_api_ref list"
  o_pick :: "'w \<Rightarrow> accept_api_ref list \<Rightarrow> accept_api_ref"
  o_interval :: duration
  o_assignments :: "(assignment, 'w) kind_client"
  o_migrations :: "(migration, 'w) kind_client"
  o_stagings :: "(staging_workspace, 'w) kind_client"
  o_accept_apis :: "'cl \<Rightarrow> (accept_api, 'w) kind_client"
  o_objects :: "'cl \<Rightarrow> gvk \<Rightarrow> (uobj, 'w) kind_client"
  o_create_namespace :: "'cl \<Rightarrow> string \<Rightarrow> 'w \<Rightarrow> err option \<times> 'w"
  o_finalizer_lib :: finalizer_lib
  o_retry_staging :: "(staging_workspace \<times> 'w) body \<Rightarrow> (staging_workspace \<times> 'w) body"
  o_retry_object :: "(uobj \<times> 'w) body \<Rightarrow> (uobj \<times> 'w) body"
  o_status_equal :: "assignment_status \<Rightarrow> assignment_status \<Rightarrow> bool"
  o_cmp_equal :: "uobj \<Rightarrow> uobj \<Rightarrow> bool"
  o_json_equal :: "json option \<Rightarrow> json option \<Rightarrow> bool"
  o_unstructured :: unstructured_api
  o_gvr_string :: "gvr \<Rightarrow> string"
  o_related :: "json \<Rightarrow> err + (gvk \<times> (string \<times> string))"
  o_sha256 :: "string \<Rightarrow> nat list"

definition DefaultRequeueInterval :: duration where
  "DefaultRequeueInterval = 10 * second"

text \<open>
  \<^verbatim>\<open>brokeredresource.NewReconciler\<close>: the required options, the defaulted poll interval and the
  controller name. The functions and clients, which Go checks against nil, are always present in
  the record.
\<close>

definition ControllerNamePrefix :: string where
  "ControllerNamePrefix = ''brokeredresource-''"

definition controller_name :: "gvr \<Rightarrow> string" where
  "controller_name g =
     (let name = ControllerNamePrefix @ gvr_resource g
      in if gvr_group g \<noteq> [] then name @ ''.'' @ gvr_group g else name)"

definition gvk_empty :: "gvk \<Rightarrow> bool" where
  "gvk_empty g \<longleftrightarrow> gvk_group g = [] \<and> gvk_version g = [] \<and> gvk_kind g = []"

definition validate_options :: "('cl, 'w) broker_options \<Rightarrow> err + ('cl, 'w) broker_options" where
  "validate_options B =
     (if gvk_empty (o_gvk B) then Inl (errorf ''options: GVK is required'')
      else if gvr_resource (o_gvr B) = [] \<or> gvr_version (o_gvr B) = []
        then Inl (errorf ''options: GVR is required'')
      else if o_staging_root B = [] then Inl (errorf ''options: StagingTreeRoot is required'')
      else Inr (if o_interval B \<le> 0 then B\<lparr>o_interval := DefaultRequeueInterval\<rparr> else B))"

lemma validate_options_interval: "validate_options B = Inr B' \<Longrightarrow> 0 < o_interval B'"
  by (auto simp: validate_options_def DefaultRequeueInterval_def second_def split: if_splits)

subsection \<open>Names\<close>

definition hex_digit :: "nat \<Rightarrow> char" where
  "hex_digit n = (if n < 10 then char_of (48 + n) else char_of (87 + n))"

definition hex_encode :: "nat list \<Rightarrow> string" where
  "hex_encode bs = concat (map (\<lambda>b. [hex_digit (b div 16), hex_digit (b mod 16)]) bs)"

text \<open>The parts joined by a null byte; \<open>o_sha256\<close> is the digest of the standard library.\<close>

definition hash_input :: "string list \<Rightarrow> string" where
  "hash_input parts = join_with [CHR 0x00] parts"

definition names_hash :: "('cl, 'w) broker_options \<Rightarrow> string list \<Rightarrow> string" where
  "names_hash B parts = take 16 (hex_encode (o_sha256 B (hash_input parts)))"

definition assignment_name :: "('cl, 'w) broker_options \<Rightarrow> string \<Rightarrow> string \<Rightarrow> string \<Rightarrow> string" where
  "assignment_name B consumer ns name =
     ''assignment-'' @ names_hash B
       [consumer, gvr_group (o_gvr B), gvr_version (o_gvr B), gvr_resource (o_gvr B), ns, name]"

definition migration_name :: "('cl, 'w) broker_options \<Rightarrow> string \<Rightarrow> string \<Rightarrow> string \<Rightarrow> string" where
  "migration_name B consumer ns name =
     ''migration-'' @ names_hash B
       [consumer, gvr_group (o_gvr B), gvr_version (o_gvr B), gvr_resource (o_gvr B), ns, name]"

definition staging_workspace_name ::
  "('cl, 'w) broker_options \<Rightarrow> string \<Rightarrow> string \<Rightarrow> string \<Rightarrow> string" where
  "staging_workspace_name B consumer provider export =
     ''staging-'' @ names_hash B [consumer, provider, export]"

definition RefFinalizerPrefix :: string where
  "RefFinalizerPrefix = ''broker.platform-mesh.io/ref-''"

definition staging_ref_finalizer :: "string \<Rightarrow> string" where
  "staging_ref_finalizer owner = RefFinalizerPrefix @ owner"

text \<open>
  Joining with a null byte is injective on tuples of the same length without null bytes, which is
  why the hash input separates \<^verbatim>\<open>"ab","c"\<close> from \<^verbatim>\<open>"a","bc"\<close>.
\<close>

lemma join_with_sep_inj:
  assumes "length xs = length ys" and "join_with [c] xs = join_with [c] ys"
    and "\<forall>x\<in>set xs. c \<notin> set x" and "\<forall>y\<in>set ys. c \<notin> set y"
  shows "xs = ys"
  using assms
proof (induction xs ys rule: list_induct2)
  case Nil
  show ?case by simp
next
  case (Cons x xs y ys)
  show ?case
  proof (cases "xs = []")
    case True
    with Cons show ?thesis by simp
  next
    case False
    with Cons.hyps have ne: "xs \<noteq> []" "ys \<noteq> []" by auto
    then have j: "join_with [c] (x # xs) = x @ c # join_with [c] xs"
      "join_with [c] (y # ys) = y @ c # join_with [c] ys"
      by (cases xs, simp, simp, cases ys, simp, simp)
    have tw: "takeWhile (\<lambda>z. z \<noteq> c) (x @ c # r) = x" if "c \<notin> set x" for x r
      using that by (metis (mono_tags, lifting) takeWhile_append2 takeWhile.simps(2) append_Nil2)
    have "x = y"
      using tw [of x "join_with [c] xs"] tw [of y "join_with [c] ys"] Cons.prems j by auto
    with j Cons.prems Cons.IH show ?thesis by auto
  qed
qed

end
