(* ===== verification/Broker_Assignment.thy ===== *)
theory Broker_Assignment
  imports Broker_Options
begin

text \<open>
  \<^verbatim>\<open>operators/resource-broker/pkg/controller/brokeredresource/assignment.go\<close>: the subroutine that
  keeps the Assignment of a consumer object, the StagingWorkspace it is served through, and the
  Migration to another provider when the current one no longer accepts the object. Every
  function takes the world and returns the new one; an Assignment changed in place is returned.
\<close>

definition AssignmentFinalizer :: string where
  "AssignmentFinalizer = ''broker.platform-mesh.io/assignment-ref''"

abbreviation set_status :: "(assignment_status \<Rightarrow> assignment_status) \<Rightarrow> assignment \<Rightarrow> assignment" where
  "set_status f a \<equiv> a\<lparr>asg_status := f (asg_status a)\<rparr>"

abbreviation set_phase :: "assignment_phase \<Rightarrow> assignment \<Rightarrow> assignment" where
  "set_phase p \<equiv> set_status (\<lambda>s. s\<lparr>ast_phase := p\<rparr>)"

subsection \<open>References on staging workspaces\<close>

definition add_ref_body ::
  "('cl, 'w) broker_options \<Rightarrow> string \<Rightarrow> string \<Rightarrow> (staging_workspace \<times> 'w) body" where
  "add_ref_body B ws finalizer = (\<lambda>(sw, w).
     case k_get (o_stagings B) ([], ws) w of
       Inl e \<Rightarrow> (Some e, (sw, w))
     | Inr sw \<Rightarrow>
         (case fl_add (o_finalizer_lib B) finalizer (m_finalizers (sw_meta sw)) of
            (False, _) \<Rightarrow> (None, (sw, w))
          | (True, fs) \<Rightarrow>
              (case k_update (o_stagings B) (sw\<lparr>sw_meta := (sw_meta sw)\<lparr>m_finalizers := fs\<rparr>\<rparr>) w of
                 (e, sw', w') \<Rightarrow> (e, (sw', w')))))"

definition zero_staging :: staging_workspace where
  "zero_staging =
     \<lparr>sw_meta = new_meta [],
      sw_spec = \<lparr>ss_consumer_cluster = [], ss_provider_cluster = [], ss_api_export_name = []\<rparr>,
      sw_status = empty_staging_status\<rparr>"

definition add_staging_ref ::
  "('cl, 'w) broker_options \<Rightarrow> string \<Rightarrow> string \<Rightarrow> 'w \<Rightarrow> err option \<times> 'w" where
  "add_staging_ref B ws owner w =
     (case o_retry_staging B (add_ref_body B ws (staging_ref_finalizer owner)) (zero_staging, w) of
        (Some e, (_, w')) \<Rightarrow>
          (Some (wrap (''adding reference finalizer to StagingWorkspace '' @ quoted ws) e), w')
      | (None, (_, w')) \<Rightarrow> (None, w'))"

definition release_body ::
  "('cl, 'w) broker_options \<Rightarrow> string \<Rightarrow> string \<Rightarrow> (staging_workspace \<times> 'w) body" where
  "release_body B ws finalizer = (\<lambda>(sw, w).
     case k_get (o_stagings B) ([], ws) w of
       Inl e \<Rightarrow> (Some e, (sw, w))
     | Inr sw \<Rightarrow>
         (case fl_remove (o_finalizer_lib B) finalizer (m_finalizers (sw_meta sw)) of
            (False, _) \<Rightarrow> (None, (sw, w))
          | (True, fs) \<Rightarrow>
              (case k_update (o_stagings B) (sw\<lparr>sw_meta := (sw_meta sw)\<lparr>m_finalizers := fs\<rparr>\<rparr>) w of
                 (e, sw', w') \<Rightarrow> (e, (sw', w')))))"

definition referenced :: "staging_workspace \<Rightarrow> bool" where
  "referenced sw \<longleftrightarrow> (\<exists>f\<in>set (m_finalizers (sw_meta sw)). has_prefix f RefFinalizerPrefix)"

definition release_staging ::
  "('cl, 'w) broker_options \<Rightarrow> string \<Rightarrow> string \<Rightarrow> 'w \<Rightarrow> err option \<times> 'w" where
  "release_staging B ws owner w =
     (case o_retry_staging B (release_body B ws (staging_ref_finalizer owner)) (zero_staging, w) of
        (Some e, (_, w')) \<Rightarrow>
          if is_not_found e then (None, w')
          else (Some (wrap (''removing reference finalizer from StagingWorkspace '' @ quoted ws) e), w')
      | (None, (sw, w')) \<Rightarrow>
          if referenced sw then (None, w')
          else (case k_delete (o_stagings B) sw w' of
                  (e, w'') \<Rightarrow>
                    (case ignore_not_found e of
                       Some x \<Rightarrow> (Some (wrap (''deleting unreferenced StagingWorkspace '' @ quoted ws) x), w'')
                     | None \<Rightarrow> (None, w''))))"

subsection \<open>Creating the Assignment\<close>

definition matching_refs ::
  "('cl, 'w) broker_options \<Rightarrow> uobj \<Rightarrow> accept_api_ref list \<Rightarrow> accept_api_ref list" where
  "matching_refs B u refs =
     filter (\<lambda>r. fst (applies_to (o_unstructured B) (o_gvr_string B) (ref_accept_api r) (o_gvr B) (un_object u)))
       refs"

definition create_assignment ::
  "('cl, 'w) broker_options \<Rightarrow> string \<Rightarrow> string \<Rightarrow> uobj \<Rightarrow> 'w \<Rightarrow> outcome \<times> 'w" where
  "create_assignment B name consumer u w =
     (case o_list_accept_apis B w of
        Inl e \<Rightarrow> (ret_err (wrap ''listing AcceptAPIs'' e), w)
      | Inr refs \<Rightarrow>
          (let matching = matching_refs B u refs in
           if matching = [] then (ret_pending (o_interval B) ''no matching AcceptAPI'', w)
           else
             (let pick = o_pick B w matching;
                  assignment =
                    \<lparr>asg_meta = new_meta name,
                     asg_spec =
                       \<lparr>as_consumer_cluster = consumer, as_gvr = o_gvr B,
                        as_namespace = un_namespace u, as_name = un_name u,
                        as_provider_cluster = ref_cluster pick,
                        as_accept_api_name = aa_name (ref_accept_api pick)\<rparr>,
                     asg_status = empty_assignment_status\<rparr>
              in case k_create (o_assignments B) assignment w of
                   (Some e, _, w') \<Rightarrow> (ret_err (wrap (''creating Assignment '' @ quoted name) e), w')
                 | (None, _, w') \<Rightarrow> (ret_pending (o_interval B) ''created assignment'', w'))))"

definition resolve_api_export_name ::
  "('cl, 'w) broker_options \<Rightarrow> string \<Rightarrow> string \<Rightarrow> 'w \<Rightarrow> err + string" where
  "resolve_api_export_name B provider accept_name w =
     (case o_workspace_client B provider of
        Inl e \<Rightarrow> Inl (wrap (''building client for provider cluster '' @ quoted provider) e)
      | Inr cl \<Rightarrow>
          (case k_get (o_accept_apis B cl) ([], accept_name) w of
             Inl e \<Rightarrow> Inl (wrap (''getting AcceptAPI '' @ quoted accept_name @ '' in provider cluster ''
                              @ quoted provider) e)
           | Inr api \<Rightarrow> Inr (aa_api_export_name api)))"

subsection \<open>Binding the Assignment to its staging workspace\<close>

definition new_staging ::
  "string \<Rightarrow> string \<Rightarrow> string \<Rightarrow> string \<Rightarrow> string \<Rightarrow> staging_workspace" where
  "new_staging ws owner consumer provider export =
     \<lparr>sw_meta = (new_meta ws)\<lparr>m_finalizers := [staging_ref_finalizer owner]\<rparr>,
      sw_spec = \<lparr>ss_consumer_cluster = consumer, ss_provider_cluster = provider,
                 ss_api_export_name = export\<rparr>,
      sw_status = empty_staging_status\<rparr>"

text \<open>The first two steps of \<^verbatim>\<open>ensureBound\<close>: the provider fields of the status.\<close>

definition default_provider :: "assignment \<Rightarrow> assignment" where
  "default_provider a =
     (if ast_provider_cluster (asg_status a) = [] \<or> ast_accept_api_name (asg_status a) = []
      then set_status (\<lambda>s. s\<lparr>ast_provider_cluster := as_provider_cluster (asg_spec a),
                            ast_accept_api_name := as_accept_api_name (asg_spec a),
                            ast_api_export_name := []\<rparr>) a
      else a)"

definition resolve_export ::
  "('cl, 'w) broker_options \<Rightarrow> assignment \<Rightarrow> 'w \<Rightarrow> err + assignment" where
  "resolve_export B a w =
     (if ast_api_export_name (asg_status a) = []
      then (case resolve_api_export_name B (ast_provider_cluster (asg_status a))
                   (ast_accept_api_name (asg_status a)) w of
              Inl e \<Rightarrow> Inl e
            | Inr export \<Rightarrow> Inr (set_status (\<lambda>s. s\<lparr>ast_api_export_name := export\<rparr>) a))
      else Inr a)"

text \<open>The rest of \<^verbatim>\<open>ensureBound\<close>: the staging workspace \<open>ws\<close>.\<close>

definition bind_staging ::
  "('cl, 'w) broker_options \<Rightarrow> assignment \<Rightarrow> string \<Rightarrow> 'w \<Rightarrow> outcome \<times> assignment \<times> 'w" where
  "bind_staging B a ws w =
     (let name = m_name (asg_meta a) in
      case k_get (o_stagings B) ([], ws) w of
        Inl e \<Rightarrow>
          if is_not_found e then
            (case k_create (o_stagings B)
                    (new_staging ws name (as_consumer_cluster (asg_spec a))
                       (ast_provider_cluster (asg_status a)) (ast_api_export_name (asg_status a))) w of
               (Some e, _, w') \<Rightarrow> (ret_err (wrap (''creating StagingWorkspace '' @ quoted ws) e), a, w')
             | (None, _, w') \<Rightarrow>
                 (ret_pending (o_interval B) ''created staging workspace'', set_phase APhasePending a, w'))
          else (ret_err (wrap (''getting StagingWorkspace '' @ quoted ws) e), a, w)
      | Inr sw \<Rightarrow>
          if m_deletion (sw_meta sw) \<noteq> None then
            (case release_staging B ws name w of
               (Some e, w') \<Rightarrow> (ret_err e, a, w')
             | (None, w') \<Rightarrow>
                 (ret_pending (o_interval B) ''staging workspace is terminating'', set_phase APhasePending a, w'))
          else
            (case add_staging_ref B ws name w of
               (Some e, w') \<Rightarrow> (ret_err e, a, w')
             | (None, w') \<Rightarrow>
                 if st_phase (sw_status sw) \<noteq> SPhaseReady
                 then (ret_pending (o_interval B) ''waiting for staging workspace to become ready'',
                       set_phase APhasePending a, w')
                 else (ret OK, set_phase APhaseBound a, w')))"

definition ensure_bound ::
  "('cl, 'w) broker_options \<Rightarrow> assignment \<Rightarrow> 'w \<Rightarrow> outcome \<times> assignment \<times> 'w" where
  "ensure_bound B a w =
     (let a = default_provider a in
      case resolve_export B a w of
        Inl e \<Rightarrow> (ret_err e, a, w)
      | Inr a \<Rightarrow>
          (let ws = staging_workspace_name B (as_consumer_cluster (asg_spec a))
                      (ast_provider_cluster (asg_status a)) (ast_api_export_name (asg_status a));
               a = set_status (\<lambda>s. s\<lparr>ast_staging_workspace := ws\<rparr>) a
           in bind_staging B a ws w))"

subsection \<open>Starting a migration\<close>

text \<open>The destination's staging workspace: \<open>None\<close> when it is in place, else the early return.\<close>

definition prepare_destination ::
  "('cl, 'w) broker_options \<Rightarrow> assignment \<Rightarrow> accept_api_ref \<Rightarrow> string \<Rightarrow> 'w \<Rightarrow> outcome option \<times> 'w" where
  "prepare_destination B a pick dest w =
     (let name = m_name (asg_meta a) in
      case k_get (o_stagings B) ([], dest) w of
        Inl e \<Rightarrow>
          if is_not_found e then
            (case k_create (o_stagings B)
                    (new_staging dest name (as_consumer_cluster (asg_spec a)) (ref_cluster pick)
                       (aa_api_export_name (ref_accept_api pick))) w of
               (Some e, _, w') \<Rightarrow>
                 if is_already_exists e then (None, w')
                 else (Some (ret_err (wrap (''creating StagingWorkspace '' @ quoted dest) e)), w')
             | (None, _, w') \<Rightarrow> (None, w'))
          else (Some (ret_err (wrap (''getting StagingWorkspace '' @ quoted dest) e)), w)
      | Inr sw \<Rightarrow>
          if m_deletion (sw_meta sw) \<noteq> None
          then (Some (ret_pending (o_interval B) ''waiting for previous staging workspace to terminate''), w)
          else (case add_staging_ref B dest name w of
                  (Some e, w') \<Rightarrow> (Some (ret_err e), w')
                | (None, w') \<Rightarrow> (None, w')))"

definition new_migration ::
  "('cl, 'w) broker_options \<Rightarrow> string \<Rightarrow> assignment \<Rightarrow> uobj \<Rightarrow> accept_api_ref \<Rightarrow> string \<Rightarrow> migration" where
  "new_migration B mname a u pick dest =
     \<lparr>mig_meta = new_meta mname,
      mig_spec =
        \<lparr>ms_assignment = m_name (asg_meta a),
         ms_namespace = un_namespace u, ms_name = un_name u,
         ms_from_staging_workspace = ast_staging_workspace (asg_status a),
         ms_staging_workspace = dest,
         ms_from = \<lparr>mt_gvk = o_gvk B, mt_provider_cluster = ast_provider_cluster (asg_status a),
                    mt_accept_api_name = ast_accept_api_name (asg_status a)\<rparr>,
         ms_to = \<lparr>mt_gvk = o_gvk B, mt_provider_cluster = ref_cluster pick,
                  mt_accept_api_name = aa_name (ref_accept_api pick)\<rparr>\<rparr>,
      mig_status = empty_migration_status\<rparr>"

text \<open>
  The Assignment's spec is repointed when the pick differs; the update writes the server's answer
  into the Assignment.
\<close>

definition repoint ::
  "('cl, 'w) broker_options \<Rightarrow> assignment \<Rightarrow> accept_api_ref \<Rightarrow> 'w \<Rightarrow> err option \<times> assignment \<times> 'w" where
  "repoint B a pick w =
     (if as_provider_cluster (asg_spec a) \<noteq> ref_cluster pick
         \<or> as_accept_api_name (asg_spec a) \<noteq> aa_name (ref_accept_api pick)
      then k_update (o_assignments B)
             (a\<lparr>asg_spec := (asg_spec a)\<lparr>as_provider_cluster := ref_cluster pick,
                                        as_accept_api_name := aa_name (ref_accept_api pick)\<rparr>\<rparr>) w
      else (None, a, w))"

definition start_migration ::
  "('cl, 'w) broker_options \<Rightarrow> string \<Rightarrow> assignment \<Rightarrow> uobj \<Rightarrow> 'w \<Rightarrow> outcome \<times> assignment \<times> 'w" where
  "start_migration B consumer a u w =
     (case o_list_accept_apis B w of
        Inl e \<Rightarrow> (ret_err (wrap ''listing AcceptAPIs'' e), a, w)
      | Inr refs \<Rightarrow>
          (let matching = matching_refs B u
                 (filter (\<lambda>r. \<not> (ref_cluster r = ast_provider_cluster (asg_status a)
                                 \<and> aa_name (ref_accept_api r) = ast_accept_api_name (asg_status a))) refs)
           in if matching = [] then (ret_pending (o_interval B) ''no matching AcceptAPI to migrate to'', a, w)
           else
             (let pick = o_pick B w matching in
              case repoint B a pick w of
                (Some e, a, w') \<Rightarrow> (ret_err (wrap (''repointing Assignment '' @ quoted (m_name (asg_meta a))) e), a, w')
              | (None, a, w') \<Rightarrow>
                  (let dest = staging_workspace_name B (as_consumer_cluster (asg_spec a)) (ref_cluster pick)
                                (aa_api_export_name (ref_accept_api pick));
                       mname = migration_name B consumer (un_namespace u) (un_name u)
                   in case prepare_destination B a pick dest w' of
                        (Some out, w'') \<Rightarrow> (out, a, w'')
                      | (None, w'') \<Rightarrow>
                          (case k_create (o_migrations B) (new_migration B mname a u pick dest) w'' of
                             (Some e, _, w3) \<Rightarrow> (ret_err (wrap (''creating Migration '' @ quoted mname) e), a, w3)
                           | (None, _, w3) \<Rightarrow> (ret_pending (o_interval B) ''created migration'', a, w3))))))"

definition validate_provider ::
  "('cl, 'w) broker_options \<Rightarrow> string \<Rightarrow> assignment \<Rightarrow> uobj \<Rightarrow> 'w \<Rightarrow> outcome \<times> assignment \<times> 'w" where
  "validate_provider B consumer a u w =
     (let provider = ast_provider_cluster (asg_status a);
          accept_name = ast_accept_api_name (asg_status a)
      in case o_workspace_client B provider of
           Inl e \<Rightarrow> (ret_err (wrap (''building client for provider cluster '' @ quoted provider) e), a, w)
         | Inr cl \<Rightarrow>
             (case k_get (o_accept_apis B cl) ([], accept_name) w of
                Inl e \<Rightarrow>
                  if is_not_found e then start_migration B consumer a u w
                  else (ret_err (wrap (''getting AcceptAPI '' @ quoted accept_name) e), a, w)
              | Inr api \<Rightarrow>
                  if fst (applies_to (o_unstructured B) (o_gvr_string B) api (o_gvr B) (un_object u))
                  then (ret OK, a, w)
                  else start_migration B consumer a u w))"

subsection \<open>Finishing a migration\<close>

text \<open>The old copy: \<open>None\<close> when it is gone and its workspace released, else the early return.\<close>

definition retire_source ::
  "('cl, 'w) broker_options \<Rightarrow> assignment \<Rightarrow> migration \<Rightarrow> uobj \<Rightarrow> 'w \<Rightarrow> outcome option \<times> 'w" where
  "retire_source B a m u w =
     (let from = ms_from_staging_workspace (mig_spec m) in
      if from \<noteq> [] \<and> from \<noteq> ms_staging_workspace (mig_spec m) then
        (case o_workspace_client B (o_staging_root B @ '':'' @ from) of
           Inl e \<Rightarrow> (Some (ret_err (wrap (''building client for staging workspace '' @ quoted from) e)), w)
         | Inr cl \<Rightarrow>
             (let objects = o_objects B cl (mt_gvk (ms_from (mig_spec m))) in
              case k_get objects (un_key u) w of
                Inl e \<Rightarrow>
                  if is_not_found e then
                    (case release_staging B from (m_name (asg_meta a)) w of
                       (Some e, w') \<Rightarrow> (Some (ret_err e), w')
                     | (None, w') \<Rightarrow> (None, w'))
                  else (Some (ret_err (wrap ''getting old staging copy'' e)), w)
              | Inr old \<Rightarrow>
                  (case (if m_deletion (un_meta old) = None then k_delete objects old w else (None, w)) of
                     (e, w') \<Rightarrow>
                       (case ignore_not_found e of
                          Some x \<Rightarrow> (Some (ret_err (wrap ''deleting old staging copy'' x)), w')
                        | None \<Rightarrow>
                            (Some (ret_pending (o_interval B) ''waiting for old staging copy to be deleted''), w')))))
      else (None, w))"

definition finish_migration ::
  "('cl, 'w) broker_options \<Rightarrow> assignment \<Rightarrow> migration \<Rightarrow> uobj \<Rightarrow> 'w \<Rightarrow> outcome \<times> assignment \<times> 'w" where
  "finish_migration B a m u w =
     (let a = set_status (\<lambda>s. s\<lparr>ast_provider_cluster := mt_provider_cluster (ms_to (mig_spec m)),
                               ast_accept_api_name := mt_accept_api_name (ms_to (mig_spec m)),
                               ast_api_export_name := [],
                               ast_staging_workspace := ms_staging_workspace (mig_spec m),
                               ast_phase := APhaseBound\<rparr>) a
      in case retire_source B a m u w of
           (Some out, w') \<Rightarrow> (out, a, w')
         | (None, w') \<Rightarrow>
             (case k_delete (o_migrations B) m w' of
                (e, w'') \<Rightarrow>
                  (case ignore_not_found e of
                     Some x \<Rightarrow> (ret_err (wrap (''deleting Migration '' @ quoted (m_name (mig_meta m))) x), a, w'')
                   | None \<Rightarrow> (ret_pending (o_interval B) ''waiting for migration to be deleted'', a, w''))))"

subsection \<open>Process and Finalize\<close>

text \<open>\<open>then_if_done\<close> is the caller's \<^verbatim>\<open>if err != nil || result.Requeue() > 0 { return }\<close>.\<close>

definition then_if_done ::
  "outcome \<times> 'a \<times> 'w \<Rightarrow> ('a \<Rightarrow> 'w \<Rightarrow> outcome \<times> 'a \<times> 'w) \<Rightarrow> outcome \<times> 'a \<times> 'w" where
  "then_if_done res k =
     (case res of
        (Ret r None, a, w) \<Rightarrow> if res_requeue r > 0 then res else k a w
      | _ \<Rightarrow> res)"

definition reconcile_assignment ::
  "('cl, 'w) broker_options \<Rightarrow> string \<Rightarrow> assignment \<Rightarrow> uobj \<Rightarrow> 'w \<Rightarrow> outcome \<times> assignment \<times> 'w" where
  "reconcile_assignment B consumer a u w =
     (case k_get (o_migrations B) ([], migration_name B consumer (un_namespace u) (un_name u)) w of
        Inr m \<Rightarrow>
          if m_deletion (mig_meta m) \<noteq> None
          then (ret_pending (o_interval B) ''migration is terminating'', a, w)
          else if mst_state (mig_status m) \<noteq> MStateCutoverCompleted
          then (ret_pending (o_interval B) ''waiting for migration to complete'', a, w)
          else finish_migration B a m u w
      | Inl e \<Rightarrow>
          if is_not_found e
          then then_if_done (ensure_bound B a w) (\<lambda>a w. validate_provider B consumer a u w)
          else (ret_err (wrap (''getting Migration '' @ quoted []) e), a, w))"

definition assignment_process ::
  "('cl, 'w) broker_options \<Rightarrow> ('cl, 'v) ctx \<Rightarrow> uobj \<Rightarrow> 'w \<Rightarrow> outcome \<times> uobj \<times> 'w" where
  "assignment_process B c u w =
     (case ctx_cluster c of
        None \<Rightarrow> (ret_err (errorf ''no cluster name in context''), u, w)
      | Some consumer \<Rightarrow>
          (let name = assignment_name B consumer (un_namespace u) (un_name u) in
           case k_get (o_assignments B) ([], name) w of
             Inl e \<Rightarrow>
               if is_not_found e
               then (case create_assignment B name consumer u w of (out, w') \<Rightarrow> (out, u, w'))
               else (ret_err (wrap (''getting Assignment '' @ quoted name) e), u, w)
           | Inr a \<Rightarrow>
               if m_deletion (asg_meta a) \<noteq> None
               then (ret_pending (o_interval B) ''assignment is terminating'', u, w)
               else
                 (case reconcile_assignment B consumer a u w of
                    (Panic p, _, w') \<Rightarrow> (Panic p, u, w')
                  | (out, a', w') \<Rightarrow>
                      if o_status_equal B (asg_status a) (asg_status a') then (out, u, w')
                      else (case k_status_update (o_assignments B) a' w' of
                              (Some e, _, w'') \<Rightarrow>
                                (ret_err (wrap (''updating Assignment status '' @ quoted name) e), u, w'')
                            | (None, _, w'') \<Rightarrow> (out, u, w'')))))"

text \<open>Finalize: the migration first, then the Assignment.\<close>

definition finalize_migration ::
  "('cl, 'w) broker_options \<Rightarrow> string \<Rightarrow> migration \<Rightarrow> 'w \<Rightarrow> outcome \<times> 'w" where
  "finalize_migration B aname m w =
     (let ws = ms_staging_workspace (mig_spec m) in
      case (if ws \<noteq> [] then release_staging B ws aname w else (None, w)) of
        (Some e, w') \<Rightarrow> (ret_err e, w')
      | (None, w') \<Rightarrow>
          (case (if m_deletion (mig_meta m) = None then k_delete (o_migrations B) m w' else (None, w')) of
             (e, w'') \<Rightarrow>
               (case ignore_not_found e of
                  Some x \<Rightarrow> (ret_err (wrap (''deleting Migration '' @ quoted (m_name (mig_meta m))) x), w'')
                | None \<Rightarrow> (ret_pending (o_interval B) ''waiting for migration to be deleted'', w''))))"

definition finalize_assignment ::
  "('cl, 'w) broker_options \<Rightarrow> string \<Rightarrow> assignment \<Rightarrow> 'w \<Rightarrow> outcome \<times> 'w" where
  "finalize_assignment B aname a w =
     (let ws = ast_staging_workspace (asg_status a) in
      case (if ws \<noteq> [] then release_staging B ws (m_name (asg_meta a)) w else (None, w)) of
        (Some e, w') \<Rightarrow> (ret_err e, w')
      | (None, w') \<Rightarrow>
          (case (if m_deletion (asg_meta a) = None then k_delete (o_assignments B) a w' else (None, w')) of
             (e, w'') \<Rightarrow>
               (case ignore_not_found e of
                  Some x \<Rightarrow> (ret_err (wrap (''deleting Assignment '' @ quoted aname) x), w'')
                | None \<Rightarrow> (ret_pending (o_interval B) ''waiting for assignment to be deleted'', w''))))"

definition assignment_finalize ::
  "('cl, 'w) broker_options \<Rightarrow> ('cl, 'v) ctx \<Rightarrow> uobj \<Rightarrow> 'w \<Rightarrow> outcome \<times> uobj \<times> 'w" where
  "assignment_finalize B c u w =
     (case ctx_cluster c of
        None \<Rightarrow> (ret_err (errorf ''no cluster name in context''), u, w)
      | Some consumer \<Rightarrow>
          (let aname = assignment_name B consumer (un_namespace u) (un_name u) in
           case k_get (o_migrations B) ([], migration_name B consumer (un_namespace u) (un_name u)) w of
             Inr m \<Rightarrow> (case finalize_migration B aname m w of (out, w') \<Rightarrow> (out, u, w'))
           | Inl e \<Rightarrow>
               if is_not_found e then
                 (case k_get (o_assignments B) ([], aname) w of
                    Inl e \<Rightarrow>
                      if is_not_found e then (ret OK, u, w)
                      else (ret_err (wrap (''getting Assignment '' @ quoted aname) e), u, w)
                  | Inr a \<Rightarrow> (case finalize_assignment B aname a w of (out, w') \<Rightarrow> (out, u, w')))
               else (ret_err (wrap ''getting Migration'' e), u, w)))"

definition assignment_subroutine :: "('cl, 'w) broker_options \<Rightarrow> ('cl, 'v, uobj, 'w) subroutine" where
  "assignment_subroutine B =
     \<lparr>sub_name = ''Assignment'',
      as_processor = Some (assignment_process B),
      as_finalizer = Some \<lparr>Finalize = assignment_finalize B, Finalizers = (\<lambda>_. [AssignmentFinalizer])\<rparr>,
      as_initializer = None, as_terminator = None\<rparr>"

end
