(* ===== verification/Broker_Copy.thy ===== *)
theory Broker_Copy
  imports Broker_Assignment Engine
begin

text \<open>
  The copies of a consumer object: \<^verbatim>\<open>golang-commons/controller/transfer\<close>, which writes an object to
  another cluster and reflects its status back; \<^verbatim>\<open>pkg/relatedresources\<close>; and the two subroutines
  \<^verbatim>\<open>brokeredresource/copy.go\<close> and \<^verbatim>\<open>brokeredresource/related_resources.go\<close> built on them.
\<close>

subsection \<open>Transfer\<close>

record 'w ref =
  ref_client :: "(uobj, 'w) kind_client"
  ref_name :: "string \<times> string"

text \<open>\<^verbatim>\<open>types.NamespacedName\<close> printed.\<close>

definition key_string :: "string \<times> string \<Rightarrow> string" where
  "key_string nn = fst nn @ ''/'' @ snd nn"

text \<open>The library functions \<^verbatim>\<open>transfer\<close> calls: \<^verbatim>\<open>cmp.Equal\<close> and \<^verbatim>\<open>retry.RetryOnConflict\<close>.\<close>

record 'w transfer_lib =
  t_cmp :: "uobj \<Rightarrow> uobj \<Rightarrow> bool"
  t_status_cmp :: "json option \<Rightarrow> json option \<Rightarrow> bool"
  t_retry :: "(uobj \<times> 'w) body \<Rightarrow> (uobj \<times> 'w) body"

definition strip_cluster_metadata :: "uobj \<Rightarrow> uobj" where
  "strip_cluster_metadata u =
     u\<lparr>un_meta := (un_meta u)\<lparr>m_version := [], m_generation := 0, m_finalizers := [],
                             m_annotations := None, m_labels := None\<rparr>,
       un_fields := obj_delete ''status'' (un_fields u)\<rparr>"

definition equal_objects :: "'w transfer_lib \<Rightarrow> uobj \<Rightarrow> uobj \<Rightarrow> bool" where
  "equal_objects T a b = t_cmp T (strip_cluster_metadata a) (strip_cluster_metadata b)"

definition set_name :: "string \<times> string \<Rightarrow> uobj \<Rightarrow> uobj" where
  "set_name nn u = u\<lparr>un_meta := (un_meta u)\<lparr>m_namespace := fst nn, m_name := snd nn\<rparr>\<rparr>"

text \<open>The update of the target's fields: fields the source lacks go, the source's are set.\<close>

definition merge_fields ::
  "(string \<times> json) list \<Rightarrow> (string \<times> json) list \<Rightarrow> (string \<times> json) list" where
  "merge_fields source existing =
     foldl (\<lambda>fs (k, v). if k = ''status'' then fs else obj_put k v fs)
       (filter (\<lambda>(k, v). k = ''status'' \<or> k \<in> fst ` set source) existing) source"

definition spec_body :: "uobj \<Rightarrow> 'w ref \<Rightarrow> (uobj \<times> 'w) body" where
  "spec_body source to = (\<lambda>(existing, w).
     case k_get (ref_client to) (ref_name to) w of
       Inl e \<Rightarrow> (Some e, (existing, w))
     | Inr existing \<Rightarrow>
         (case k_update (ref_client to)
                 (existing\<lparr>un_gvk := un_gvk source,
                           un_fields := merge_fields (un_fields source) (un_fields existing)\<rparr>) w of
            (e, _, w') \<Rightarrow> (e, (existing, w'))))"

definition transfer_spec ::
  "'w transfer_lib \<Rightarrow> 'w ref \<Rightarrow> 'w ref \<Rightarrow> 'w \<Rightarrow> err option \<times> 'w" where
  "transfer_spec T from to w =
     (case k_get (ref_client from) (ref_name from) w of
        Inl e \<Rightarrow> (Some (wrap (''get '' @ key_string (ref_name from)) e), w)
      | Inr source \<Rightarrow>
          (case k_get (ref_client to) (ref_name to) w of
             Inl e \<Rightarrow>
               if \<not> is_not_found e then (Some (wrap (''get '' @ key_string (ref_name to)) e), w)
               else
                 (case k_create (ref_client to)
                         (set_name (ref_name to) (strip_cluster_metadata source)) w of
                    (Some e, _, w') \<Rightarrow> (Some (wrap (''create '' @ key_string (ref_name to)) e), w')
                  | (None, _, w') \<Rightarrow> (None, w'))
           | Inr existing \<Rightarrow>
               if equal_objects T source existing then (None, w)
               else
                 (case t_retry T (spec_body source to) (existing, w) of
                    (Some e, (_, w')) \<Rightarrow> (Some (wrap (''update '' @ key_string (ref_name to)) e), w')
                  | (None, (_, w')) \<Rightarrow> (None, w'))))"

definition transfer_status ::
  "'w transfer_lib \<Rightarrow> 'w ref \<Rightarrow> 'w ref \<Rightarrow> 'w \<Rightarrow> err option \<times> 'w" where
  "transfer_status T from to w =
     (case k_get (ref_client from) (ref_name from) w of
        Inl e \<Rightarrow> (Some (wrap (''get '' @ key_string (ref_name from)) e), w)
      | Inr source \<Rightarrow>
          (case map_of (un_fields source) ''status'' of
             None \<Rightarrow> (None, w)
           | Some status \<Rightarrow>
               (case k_get (ref_client to) (ref_name to) w of
                  Inl e \<Rightarrow> (Some (wrap (''get '' @ key_string (ref_name to)) e), w)
                | Inr target \<Rightarrow>
                    if t_status_cmp T (map_of (un_fields target) ''status'') (Some status) then (None, w)
                    else
                      (case k_status_update (ref_client to)
                              (target\<lparr>un_fields := obj_put ''status'' status (un_fields target)\<rparr>) w of
                         (Some e, _, w') \<Rightarrow>
                           (Some (wrap (''update status of '' @ key_string (ref_name to)) e), w')
                       | (None, _, w') \<Rightarrow> (None, w')))))"

definition transfer_resource ::
  "'w transfer_lib \<Rightarrow> 'w ref \<Rightarrow> 'w ref \<Rightarrow> 'w \<Rightarrow> err option \<times> 'w" where
  "transfer_resource T from to w =
     (case transfer_spec T from to w of
        (Some e, w') \<Rightarrow> (Some e, w')
      | (None, w') \<Rightarrow> transfer_status T to from w')"

definition broker_transfer :: "('cl, 'w) broker_options \<Rightarrow> 'w transfer_lib" where
  "broker_transfer B = \<lparr>t_cmp = o_cmp_equal B, t_status_cmp = o_json_equal B, t_retry = o_retry_object B\<rparr>"

subsection \<open>Related resources\<close>

type_synonym related = "gvk \<times> (string \<times> string)"

definition schema_gvk :: "related \<Rightarrow> gvk" where
  "schema_gvk rr =
     (let g = fst rr in if gvk_group g = ''core'' then g\<lparr>gvk_group := []\<rparr> else g)"

fun convert_related ::
  "(json \<Rightarrow> err + related) \<Rightarrow> (string \<times> json) list \<Rightarrow> err + (string \<times> related) list" where
  "convert_related conv [] = Inr []"
| "convert_related conv ((key, v) # rest) =
     (case v of
        JObj m \<Rightarrow>
          (case conv v of
             Inl e \<Rightarrow> Inl (wrap (''failed to convert related resource '' @ quoted key
                             @ '' from synced resource status'') e)
           | Inr rr \<Rightarrow>
               (case convert_related conv rest of
                  Inl e \<Rightarrow> Inl e | Inr rrs \<Rightarrow> Inr ((key, rr) # rrs)))
      | _ \<Rightarrow> Inl (errorf (''failed to cast related resource '' @ quoted key
                    @ '' from synced resource status'')))"

text \<open>The entries come in the order of one iteration over the map.\<close>

definition collect ::
  "unstructured_api \<Rightarrow> (json \<Rightarrow> err + related) \<Rightarrow> (uobj, 'w) kind_client \<Rightarrow> string \<times> string \<Rightarrow> 'w \<Rightarrow>
   err + (string \<times> related) list" where
  "collect U conv cl nn w =
     (case k_get cl nn w of
        Inl e \<Rightarrow> Inl (wrap ''failed to get resource'' e)
      | Inr ob \<Rightarrow>
          (case nested_map U (un_object ob) [''status'', ''relatedResources''] of
             Inl e \<Rightarrow> Inl (wrap ''failed to get related resources from synced resource status'' e)
           | Inr None \<Rightarrow> Inr []
           | Inr (Some m) \<Rightarrow> convert_related conv m))"

text \<open>The entries in the order of their sorted keys.\<close>

definition by_key :: "(string \<times> 'a) list \<Rightarrow> (string \<times> 'a) list" where
  "by_key m = map (\<lambda>k. (k, the (map_of m k))) (sorted_set (map fst m))"

subsection \<open>The staging client\<close>

text \<open>\<open>Inl\<close> is the outcome to return when the assignment is not bound.\<close>

definition staging_client ::
  "('cl, 'w) broker_options \<Rightarrow> string \<Rightarrow> uobj \<Rightarrow> 'w \<Rightarrow> outcome + 'cl" where
  "staging_client B consumer u w =
     (let name = assignment_name B consumer (un_namespace u) (un_name u) in
      case k_get (o_assignments B) ([], name) w of
        Inl e \<Rightarrow>
          if is_not_found e then Inl (ret_pending (o_interval B) ''waiting for assignment'')
          else Inl (ret_err (wrap (''getting Assignment '' @ quoted name) e))
      | Inr a \<Rightarrow>
          (let ws = ast_staging_workspace (asg_status a) in
           if ast_phase (asg_status a) \<noteq> APhaseBound \<or> ws = []
           then Inl (ret_pending (o_interval B) ''waiting for assignment to be bound'')
           else
             (case o_workspace_client B (o_staging_root B @ '':'' @ ws) of
                Inl e \<Rightarrow> Inl (ret_err (wrap (''building client for staging workspace '' @ quoted ws) e))
              | Inr cl \<Rightarrow> Inr cl)))"

text \<open>In Finalize, an assignment that is not bound means nothing is staged.\<close>

definition not_staged :: "outcome \<Rightarrow> outcome" where
  "not_staged out = (case out of Ret r None \<Rightarrow> ret OK | _ \<Rightarrow> out)"

subsection \<open>The copy subroutine\<close>

definition CopyFinalizer :: string where
  "CopyFinalizer = ''broker.platform-mesh.io/staging-copy''"

definition ConsumerClusterAnnotation :: string where
  "ConsumerClusterAnnotation = ''broker.platform-mesh.io/consumer-cluster''"

definition ConsumerNameAnnotation :: string where
  "ConsumerNameAnnotation = ''broker.platform-mesh.io/consumer-name''"

definition set_annotation :: "string \<Rightarrow> string \<Rightarrow> uobj \<Rightarrow> uobj" where
  "set_annotation key val u =
     (let anns = (case m_annotations (un_meta u) of None \<Rightarrow> Map.empty | Some m \<Rightarrow> m)
      in u\<lparr>un_meta := (un_meta u)\<lparr>m_annotations := Some (anns(key \<mapsto> val))\<rparr>\<rparr>)"

definition annotate_copy ::
  "(uobj, 'w) kind_client \<Rightarrow> string \<times> string \<Rightarrow> string \<Rightarrow> 'w \<Rightarrow> err option \<times> 'w" where
  "annotate_copy objects nn consumer w =
     (case k_get objects nn w of
        Inl e \<Rightarrow> (Some (wrap ''getting staging copy'' e), w)
      | Inr u \<Rightarrow>
          if annotation u ConsumerClusterAnnotation = consumer \<and> annotation u ConsumerNameAnnotation = snd nn
          then (None, w)
          else
            (case k_update objects
                    (set_annotation ConsumerNameAnnotation (snd nn)
                      (set_annotation ConsumerClusterAnnotation consumer u)) w of
               (Some e, _, w') \<Rightarrow> (Some (wrap ''annotating staging copy'' e), w')
             | (None, _, w') \<Rightarrow> (None, w')))"

definition active_migration ::
  "('cl, 'w) broker_options \<Rightarrow> string \<Rightarrow> uobj \<Rightarrow> 'w \<Rightarrow> err + migration option" where
  "active_migration B consumer u w =
     (let name = migration_name B consumer (un_namespace u) (un_name u) in
      case k_get (o_migrations B) ([], name) w of
        Inl e \<Rightarrow>
          if is_not_found e then Inr None
          else Inl (wrap (''getting Migration '' @ quoted name) e)
      | Inr m \<Rightarrow> if mst_state (mig_status m) = MStateCutoverCompleted then Inr None else Inr (Some m))"

text \<open>The namespace of the object in the workspace, when it has one.\<close>

definition ensure_namespace ::
  "('cl, 'w) broker_options \<Rightarrow> 'cl \<Rightarrow> uobj \<Rightarrow> 'w \<Rightarrow> err option \<times> 'w" where
  "ensure_namespace B cl u w =
     (if un_namespace u \<noteq> []
      then (case o_create_namespace B cl (un_namespace u) w of
              (Some e, w') \<Rightarrow>
                if is_already_exists e then (None, w')
                else (Some (wrap (''creating namespace '' @ quoted (un_namespace u)
                              @ '' in staging workspace'') e), w')
            | (None, w') \<Rightarrow> (None, w'))
      else (None, w))"

definition copy_to_migration_target ::
  "('cl, 'w) broker_options \<Rightarrow> migration \<Rightarrow> uobj \<Rightarrow> 'cl \<Rightarrow> string \<Rightarrow> 'w \<Rightarrow> outcome \<times> 'w" where
  "copy_to_migration_target B m u consumer_client consumer w =
     (let ws = ms_staging_workspace (mig_spec m);
          waiting = ret_pending (o_interval B) ''waiting for migration target staging workspace''
      in case k_get (o_stagings B) ([], ws) w of
           Inl e \<Rightarrow>
             if is_not_found e then (waiting, w)
             else (ret_err (wrap (''getting StagingWorkspace '' @ quoted ws) e), w)
         | Inr sw \<Rightarrow>
             if st_phase (sw_status sw) \<noteq> SPhaseReady then (waiting, w)
             else
               (case o_workspace_client B (o_staging_root B @ '':'' @ ws) of
                  Inl e \<Rightarrow> (ret_err (wrap (''building client for staging workspace '' @ quoted ws) e), w)
                | Inr cl \<Rightarrow>
                    (case ensure_namespace B cl u w of
                       (Some e, w') \<Rightarrow> (ret_err e, w')
                     | (None, w') \<Rightarrow>
                         (case transfer_spec (broker_transfer B)
                                 \<lparr>ref_client = o_objects B consumer_client (o_gvk B), ref_name = un_key u\<rparr>
                                 \<lparr>ref_client = o_objects B cl (o_gvk B), ref_name = un_key u\<rparr> w' of
                            (Some e, w'') \<Rightarrow> (ret_err (wrap ''copying resource to migration target'' e), w'')
                          | (None, w'') \<Rightarrow>
                              (case annotate_copy (o_objects B cl (o_gvk B)) (un_key u) consumer w'' of
                                 (Some e, w3) \<Rightarrow> (ret_err e, w3)
                               | (None, w3) \<Rightarrow> (ret (OKWithRequeue (o_interval B)), w3))))))"

text \<open>The rest of Process, for a staging client.\<close>

definition copy_to_staging ::
  "('cl, 'w) broker_options \<Rightarrow> 'cl \<Rightarrow> uobj \<Rightarrow> 'cl \<Rightarrow> string \<Rightarrow> 'w \<Rightarrow> outcome \<times> 'w" where
  "copy_to_staging B cl u consumer_client consumer w =
     (case ensure_namespace B cl u w of
        (Some e, w') \<Rightarrow> (ret_err e, w')
      | (None, w') \<Rightarrow>
          (case transfer_resource (broker_transfer B)
                  \<lparr>ref_client = o_objects B consumer_client (o_gvk B), ref_name = un_key u\<rparr>
                  \<lparr>ref_client = o_objects B cl (o_gvk B), ref_name = un_key u\<rparr> w' of
             (Some e, w'') \<Rightarrow> (ret_err (wrap ''copying resource to staging workspace'' e), w'')
           | (None, w'') \<Rightarrow>
               (case annotate_copy (o_objects B cl (o_gvk B)) (un_key u) consumer w'' of
                  (Some e, w3) \<Rightarrow> (ret_err e, w3)
                | (None, w3) \<Rightarrow> (ret (OKWithRequeue (o_interval B)), w3))))"

definition copy_process ::
  "('cl, 'w) broker_options \<Rightarrow> ('cl, 'v) ctx \<Rightarrow> uobj \<Rightarrow> 'w \<Rightarrow> outcome \<times> uobj \<times> 'w" where
  "copy_process B c u w =
     (case ctx_cluster c of
        None \<Rightarrow> (ret_err (errorf ''no cluster name in context''), u, w)
      | Some consumer \<Rightarrow>
          (case ClientFromContext c of
             Inl e \<Rightarrow> (ret_err e, u, w)
           | Inr consumer_client \<Rightarrow>
               (case active_migration B consumer u w of
                  Inl e \<Rightarrow> (ret_err e, u, w)
                | Inr (Some m) \<Rightarrow>
                    (case copy_to_migration_target B m u consumer_client consumer w of
                       (out, w') \<Rightarrow> (out, u, w'))
                | Inr None \<Rightarrow>
                    (case staging_client B consumer u w of
                       Inl out \<Rightarrow> (out, u, w)
                     | Inr cl \<Rightarrow>
                         (case copy_to_staging B cl u consumer_client consumer w of
                            (out, w') \<Rightarrow> (out, u, w'))))))"

definition copy_finalize ::
  "('cl, 'w) broker_options \<Rightarrow> ('cl, 'v) ctx \<Rightarrow> uobj \<Rightarrow> 'w \<Rightarrow> outcome \<times> uobj \<times> 'w" where
  "copy_finalize B c u w =
     (case ctx_cluster c of
        None \<Rightarrow> (ret_err (errorf ''no cluster name in context''), u, w)
      | Some consumer \<Rightarrow>
          (case staging_client B consumer u w of
             Inl out \<Rightarrow> (not_staged out, u, w)
           | Inr cl \<Rightarrow>
               (let objects = o_objects B cl (o_gvk B) in
                case k_get objects (un_key u) w of
                  Inl e \<Rightarrow>
                    if is_not_found e then (ret OK, u, w)
                    else (ret_err (wrap ''getting staging copy'' e), u, w)
                | Inr copied \<Rightarrow>
                    (case (if m_deletion (un_meta copied) = None then k_delete objects copied w else (None, w)) of
                       (e, w') \<Rightarrow>
                         (case ignore_not_found e of
                            Some x \<Rightarrow> (ret_err (wrap ''deleting staging copy'' x), u, w')
                          | None \<Rightarrow>
                              (ret (StopWithRequeue (o_interval B) ''waiting for staging copy to be deleted''),
                               u, w'))))))"

definition copy_subroutine :: "('cl, 'w) broker_options \<Rightarrow> ('cl, 'v, uobj, 'w) subroutine" where
  "copy_subroutine B =
     \<lparr>sub_name = ''Copy'',
      as_processor = Some (copy_process B),
      as_finalizer = Some \<lparr>Finalize = copy_finalize B, Finalizers = (\<lambda>_. [CopyFinalizer])\<rparr>,
      as_initializer = None, as_terminator = None\<rparr>"

subsection \<open>The related-resources subroutine\<close>

definition RelatedResourcesFinalizer :: string where
  "RelatedResourcesFinalizer = ''broker.platform-mesh.io/related-resources''"

fun copy_related ::
  "('cl, 'w) broker_options \<Rightarrow> 'cl \<Rightarrow> 'cl \<Rightarrow> (string \<times> related) list \<Rightarrow> 'w \<Rightarrow> err option \<times> 'w" where
  "copy_related B staging consumer [] w = (None, w)"
| "copy_related B staging consumer ((key, rr) # rest) w =
     (case transfer_resource (broker_transfer B)
             \<lparr>ref_client = o_objects B staging (schema_gvk rr), ref_name = snd rr\<rparr>
             \<lparr>ref_client = o_objects B consumer (schema_gvk rr), ref_name = snd rr\<rparr> w of
        (Some e, w') \<Rightarrow> (Some (wrap (''copying related resource '' @ quoted key) e), w')
      | (None, w') \<Rightarrow> copy_related B staging consumer rest w')"

definition related_process ::
  "('cl, 'w) broker_options \<Rightarrow> ('cl, 'v) ctx \<Rightarrow> uobj \<Rightarrow> 'w \<Rightarrow> outcome \<times> uobj \<times> 'w" where
  "related_process B c u w =
     (case ctx_cluster c of
        None \<Rightarrow> (ret_err (errorf ''no cluster name in context''), u, w)
      | Some cluster \<Rightarrow>
          (case ClientFromContext c of
             Inl e \<Rightarrow> (ret_err e, u, w)
           | Inr consumer_client \<Rightarrow>
               (case staging_client B cluster u w of
                  Inl out \<Rightarrow> (out, u, w)
                | Inr cl \<Rightarrow>
                    (case collect (o_unstructured B) (o_related B) (o_objects B cl (o_gvk B)) (un_key u) w of
                       Inl e \<Rightarrow>
                         if is_not_found e then (ret_pending (o_interval B) ''waiting for staging copy'', u, w)
                         else (ret_err (wrap ''collecting related resources'' e), u, w)
                     | Inr related \<Rightarrow>
                         (case copy_related B cl consumer_client (by_key related) w of
                            (Some e, w') \<Rightarrow> (ret_err e, u, w')
                          | (None, w') \<Rightarrow> (ret OK, u, w'))))))"

text \<open>Deleting the copies; the flag says whether one of them is still there.\<close>

fun delete_related ::
  "('cl, 'w) broker_options \<Rightarrow> 'cl \<Rightarrow> (string \<times> related) list \<Rightarrow> bool \<Rightarrow> 'w \<Rightarrow> (err + bool) \<times> 'w" where
  "delete_related B consumer [] remaining w = (Inr remaining, w)"
| "delete_related B consumer ((key, rr) # rest) remaining w =
     (let objects = o_objects B consumer (schema_gvk rr) in
      case k_get objects (snd rr) w of
        Inl e \<Rightarrow>
          if is_not_found e then delete_related B consumer rest remaining w
          else (Inl (wrap (''getting related resource '' @ quoted key) e), w)
      | Inr ob \<Rightarrow>
          (case (if m_deletion (un_meta ob) = None then k_delete objects ob w else (None, w)) of
             (e, w') \<Rightarrow>
               (case ignore_not_found e of
                  Some x \<Rightarrow> (Inl (wrap (''deleting related resource '' @ quoted key) x), w')
                | None \<Rightarrow> delete_related B consumer rest True w')))"

definition related_finalize ::
  "('cl, 'w) broker_options \<Rightarrow> ('cl, 'v) ctx \<Rightarrow> uobj \<Rightarrow> 'w \<Rightarrow> outcome \<times> uobj \<times> 'w" where
  "related_finalize B c u w =
     (case ctx_cluster c of
        None \<Rightarrow> (ret_err (errorf ''no cluster name in context''), u, w)
      | Some cluster \<Rightarrow>
          (case ClientFromContext c of
             Inl e \<Rightarrow> (ret_err e, u, w)
           | Inr consumer_client \<Rightarrow>
               (case staging_client B cluster u w of
                  Inl out \<Rightarrow> (not_staged out, u, w)
                | Inr cl \<Rightarrow>
                    (case collect (o_unstructured B) (o_related B) (o_objects B cl (o_gvk B)) (un_key u) w of
                       Inl e \<Rightarrow>
                         if is_not_found e then (ret OK, u, w)
                         else (ret_err (wrap ''collecting related resources'' e), u, w)
                     | Inr related \<Rightarrow>
                         (case delete_related B consumer_client (by_key related) False w of
                            (Inl e, w') \<Rightarrow> (ret_err e, u, w')
                          | (Inr remaining, w') \<Rightarrow>
                              if remaining
                              then (ret (StopWithRequeue (o_interval B)
                                      ''waiting for related resources to be deleted''), u, w')
                              else (ret OK, u, w'))))))"

definition related_subroutine :: "('cl, 'w) broker_options \<Rightarrow> ('cl, 'v, uobj, 'w) subroutine" where
  "related_subroutine B =
     \<lparr>sub_name = ''RelatedResources'',
      as_processor = Some (related_process B),
      as_finalizer = Some \<lparr>Finalize = related_finalize B, Finalizers = (\<lambda>_. [RelatedResourcesFinalizer])\<rparr>,
      as_initializer = None, as_terminator = None\<rparr>"

subsection \<open>The brokered-resource controller\<close>

text \<open>\<^verbatim>\<open>NewReconciler\<close>'s chain; the controller has no conditions.\<close>

definition brokered_subroutines :: "('cl, 'w) broker_options \<Rightarrow> ('cl, 'v, uobj, 'w) subroutine list" where
  "brokered_subroutines B = [assignment_subroutine B, copy_subroutine B, related_subroutine B]"

definition brokered_lifecycle ::
  "uobj obj_iface \<Rightarrow> ('cl, uobj, 'w) engine_api \<Rightarrow> (json option \<Rightarrow> json option \<Rightarrow> bool) \<Rightarrow>
   (('cl, 'v) ctx \<Rightarrow> err + 'cl) \<Rightarrow> ('cl, 'w) broker_options \<Rightarrow> ('cl, 'v, uobj, 'w) lifecycle" where
  "brokered_lifecycle I api deep_equal cluster_client B =
     new_lifecycle I api deep_equal cluster_client (brokered_subroutines B)"


text \<open>The subroutines work on other objects and leave the consumer object to the engine.\<close>

lemma broker_keeps_object:
  "fst (snd (assignment_process B c u w)) = u" "fst (snd (assignment_finalize B c u w)) = u"
  "fst (snd (copy_process B c u w)) = u" "fst (snd (copy_finalize B c u w)) = u"
  "fst (snd (related_process B c u w)) = u" "fst (snd (related_finalize B c u w)) = u"
  by (auto simp: assignment_process_def assignment_finalize_def copy_process_def copy_finalize_def
      related_process_def related_finalize_def Let_def
      split: option.splits sum.splits prod.splits outcome.splits if_splits)

interpretation brokered: engine "uobj_iface tu fu"
    "brokered_lifecycle (uobj_iface tu fu) api deep_equal cluster_client B"
  for tu fu api deep_equal cluster_client B
  by unfold_locales
    (auto simp: brokered_lifecycle_def new_lifecycle_def brokered_subroutines_def
      assignment_subroutine_def copy_subroutine_def related_subroutine_def
      sub_keeps_finalizers_def keeps_finalizers_def broker_keeps_object)

end
