(* ===== verification/Templates.thy ===== *)
theory Templates
  imports Api_Types
begin

text \<open>
  \<^verbatim>\<open>coordbroker/migration/template.go\<close>: the interpolation of \<^verbatim>\<open>${...}\<close> expressions in the templates of
  a migration stage. The CEL engine is a parameter. The scanner is the code's; it is shown to
  find the first closing brace outside nested braces and string literals.
\<close>

text \<open>
  The calls on \<^verbatim>\<open>cel-go\<close>: the environment for a list of variable names, an expression compiled in
  it, the program, its value, and the value read as a boolean or as JSON data.
\<close>

record 'e cel_api =
  cel_new_env :: "string list \<Rightarrow> err + 'e"
  cel_compile :: "'e \<Rightarrow> string \<Rightarrow> err + 'e"
  cel_program :: "'e \<Rightarrow> 'e \<Rightarrow> err + 'e"
  cel_run :: "'e \<Rightarrow> (string \<times> json) list \<Rightarrow> err + 'e"
  cel_bool :: "'e \<Rightarrow> bool option"
  cel_native :: "'e \<Rightarrow> err + json"

definition cel_env :: "'e cel_api \<Rightarrow> (string \<times> json) list \<Rightarrow> err + 'e" where
  "cel_env A vars =
     (case cel_new_env A (map fst vars) of
        Inl e \<Rightarrow> Inl (wrap ''creating CEL environment'' e) | Inr env \<Rightarrow> Inr env)"

definition eval_expression ::
  "'e cel_api \<Rightarrow> 'e \<Rightarrow> string \<Rightarrow> (string \<times> json) list \<Rightarrow> err + json" where
  "eval_expression A env ex vars =
     (case cel_compile A env ex of
        Inl e \<Rightarrow> Inl (wrap (''compiling expression '' @ quoted ex) e)
      | Inr ast \<Rightarrow>
          (case cel_program A env ast of
             Inl e \<Rightarrow> Inl (wrap (''building program for expression '' @ quoted ex) e)
           | Inr prog \<Rightarrow>
               (case cel_run A prog vars of
                  Inl e \<Rightarrow> Inl (wrap (''evaluating expression '' @ quoted ex) e)
                | Inr v \<Rightarrow>
                    (case cel_native A v of
                       Inl e \<Rightarrow> Inl (wrap (''converting result of expression '' @ quoted ex) e)
                     | Inr j \<Rightarrow> Inr j))))"

subsection \<open>The scanner\<close>

text \<open>\<^verbatim>\<open>strings.Index(s, "${")\<close>.\<close>

fun marker_index :: "string \<Rightarrow> nat option" where
  "marker_index (a # b # cs) =
     (if a = CHR ''$'' \<and> b = CHR ''{'' then Some 0 else map_option Suc (marker_index (b # cs)))"
| "marker_index _ = None"

text \<open>\<open>q\<close> is the open quote, \<open>i\<close> the index of the head of the list.\<close>

fun match_expression :: "string \<Rightarrow> nat \<Rightarrow> char option \<Rightarrow> nat \<Rightarrow> nat option" where
  "match_expression [] depth q i = None"
| "match_expression (c # cs) depth (Some q) i =
     (if c = CHR 0x5C
      then (case cs of [] \<Rightarrow> None | _ # cs' \<Rightarrow> match_expression cs' depth (Some q) (i + 2))
      else if c = q then match_expression cs depth None (i + 1)
      else match_expression cs depth (Some q) (i + 1))"
| "match_expression (c # cs) depth None i =
     (if c = CHR 0x27 \<or> c = CHR 0x22 then match_expression cs depth (Some c) (i + 1)
      else if c = CHR ''{'' then match_expression cs (depth + 1) None (i + 1)
      else if c = CHR ''}'' then
        (if depth = 0 then Some i else match_expression cs (depth - 1) None (i + 1))
      else match_expression cs depth None (i + 1))"

lemma marker_index_bounds:
  "marker_index s = Some i \<Longrightarrow> i + 1 < length s \<and> s ! i = CHR ''$'' \<and> s ! (i + 1) = CHR ''{''"
  by (induction s arbitrary: i rule: marker_index.induct) (auto split: if_splits)

lemma match_expression_bounds:
  "match_expression s depth q i = Some j \<Longrightarrow> i \<le> j \<and> j < i + length s \<and> s ! (j - i) = CHR ''}''"
proof (induction s depth q i rule: match_expression.induct)
  case (1 depth q i)
  then show ?case by simp
next
  case (2 c cs depth q i)
  show ?case
  proof (cases "c = CHR 0x5C")
    case True
    with "2.prems" obtain d ds where cs: "cs = d # ds" "match_expression ds depth (Some q) (i + 2) = Some j"
      by (cases cs) auto
    have "i + 2 \<le> j \<and> j < i + 2 + length ds \<and> ds ! (j - (i + 2)) = CHR ''}''"
      using "2.IH"(1) [OF True cs(1) cs(2)] .
    then show ?thesis using cs(1) by (auto simp: nth_Cons' Suc_diff_le)
  next
    case False
    with "2.prems" "2.IH"(2,3) have "i + 1 \<le> j \<and> j < i + 1 + length cs \<and> cs ! (j - (i + 1)) = CHR ''}''"
      by (auto split: if_splits)
    then show ?thesis by (auto simp: nth_Cons')
  qed
next
  case (3 c cs depth i)
  show ?case
  proof (cases "c = CHR ''}'' \<and> depth = 0")
    case True
    with 3 show ?thesis by auto
  next
    case False
    with "3.prems" "3.IH" have "i + 1 \<le> j \<and> j < i + 1 + length cs \<and> cs ! (j - (i + 1)) = CHR ''}''"
      by (auto split: if_splits)
    then show ?thesis by (auto simp: nth_Cons')
  qed
qed

subsection \<open>Interpolation\<close>

text \<open>The loop of \<^verbatim>\<open>interpolateString\<close>; \<open>s\<close> is the whole string, for the error message.\<close>

function interp_loop ::
  "'e cel_api \<Rightarrow> 'e \<Rightarrow> (string \<times> json) list \<Rightarrow> string \<Rightarrow> bool \<Rightarrow> string \<Rightarrow> string \<Rightarrow> err + json" where
  "interp_loop A env vars s first out rest =
     (case marker_index rest of
        None \<Rightarrow> Inr (JStr (out @ rest))
      | Some idx \<Rightarrow>
          (case match_expression (drop (idx + 2) rest) 0 None 0 of
             None \<Rightarrow> Inl (wrap (''in '' @ quoted s) (errorf ''unterminated expression''))
           | Some n \<Rightarrow>
               (case eval_expression A env (take n (drop (idx + 2) rest)) vars of
                  Inl e \<Rightarrow> Inl e
                | Inr v \<Rightarrow>
                    if first \<and> idx = 0 \<and> idx + 2 + n + 1 = length rest then Inr v
                    else interp_loop A env vars s False (out @ take idx rest @ sprint_v v)
                           (drop (idx + 2 + n + 1) rest))))"
  by pat_completeness auto

termination
  by (relation "measure (\<lambda>(A, env, vars, s, first, out, rest). length rest)")
     (auto dest: marker_index_bounds)

declare interp_loop.simps [simp del]

definition interpolate_string ::
  "'e cel_api \<Rightarrow> 'e \<Rightarrow> (string \<times> json) list \<Rightarrow> string \<Rightarrow> err + json" where
  "interpolate_string A env vars s =
     (if marker_index s = None then Inr (JStr s) else interp_loop A env vars s True [] s)"

text \<open>The entries of an object are visited in the order of one iteration over the map.\<close>

fun interpolate_value ::
  "'e cel_api \<Rightarrow> 'e \<Rightarrow> (string \<times> json) list \<Rightarrow> json \<Rightarrow> err + json"
and interpolate_entries ::
  "'e cel_api \<Rightarrow> 'e \<Rightarrow> (string \<times> json) list \<Rightarrow> (string \<times> json) list \<Rightarrow> err + (string \<times> json) list"
and interpolate_elems ::
  "'e cel_api \<Rightarrow> 'e \<Rightarrow> (string \<times> json) list \<Rightarrow> json list \<Rightarrow> err + json list" where
  "interpolate_value A env vars (JStr s) = interpolate_string A env vars s"
| "interpolate_value A env vars (JObj kvs) =
     (case interpolate_entries A env vars kvs of Inl e \<Rightarrow> Inl e | Inr kvs' \<Rightarrow> Inr (JObj kvs'))"
| "interpolate_value A env vars (JArr vs) =
     (case interpolate_elems A env vars vs of Inl e \<Rightarrow> Inl e | Inr vs' \<Rightarrow> Inr (JArr vs'))"
| "interpolate_value A env vars JNull = Inr JNull"
| "interpolate_value A env vars (JBool b) = Inr (JBool b)"
| "interpolate_value A env vars (JInt i) = Inr (JInt i)"
| "interpolate_value A env vars (JFloat t) = Inr (JFloat t)"
| "interpolate_entries A env vars [] = Inr []"
| "interpolate_entries A env vars ((k, v) # kvs) =
     (case interpolate_value A env vars v of
        Inl e \<Rightarrow> Inl e
      | Inr v' \<Rightarrow>
          (case interpolate_entries A env vars kvs of
             Inl e \<Rightarrow> Inl e | Inr kvs' \<Rightarrow> Inr ((k, v') # kvs')))"
| "interpolate_elems A env vars [] = Inr []"
| "interpolate_elems A env vars (v # vs) =
     (case interpolate_value A env vars v of
        Inl e \<Rightarrow> Inl e
      | Inr v' \<Rightarrow>
          (case interpolate_elems A env vars vs of Inl e \<Rightarrow> Inl e | Inr vs' \<Rightarrow> Inr (v' # vs')))"

definition interpolate ::
  "'e cel_api \<Rightarrow> json \<Rightarrow> (string \<times> json) list \<Rightarrow> err + json" where
  "interpolate A v vars =
     (case cel_env A vars of Inl e \<Rightarrow> Inl e | Inr env \<Rightarrow> interpolate_value A env vars v)"

lemma interpolate_entries_keys:
  "interpolate_entries A env vars kvs = Inr kvs' \<Longrightarrow> map fst kvs' = map fst kvs"
  by (induction kvs arbitrary: kvs') (auto split: sum.splits)

end
