(* ===== verification/Broker_Migration.thy ===== *)
theory Broker_Migration
  imports Broker_Copy Templates
begin

text \<open>
  \<^verbatim>\<open>operators/resource-broker/pkg/controller/coordbroker/migration\<close>: the controller of a Migration.
  \<^verbatim>\<open>stages.go\<close> runs the stages of the matching MigrationConfiguration, \<^verbatim>\<open>cutover.go\<close> completes the
  migration once the target copy is available, \<^verbatim>\<open>reconciler.go\<close> composes them. Maps of templates,
  resources and related resources are lists in the order of one iteration.
\<close>

text \<open>
  \<open>mo_unmarshal\<close> is \<^verbatim>\<open>UnmarshalJSON\<close> to the raw object; \<open>mo_view\<close> and \<open>mo_raw\<close> pass between the raw
  object and its record.
\<close>

record ('cl, 'w, 'e) migration_options =
  mo_compute :: "gvk \<Rightarrow> (uobj, 'w) kind_client"
  mo_workspace_client :: "string \<Rightarrow> err + 'cl"
  mo_staging_root :: string
  mo_stage_namespace :: string
  mo_interval :: duration
  mo_objects :: "'cl \<Rightarrow> gvk \<Rightarrow> (uobj, 'w) kind_client"
  mo_list_configs :: "'cl \<Rightarrow> 'w \<Rightarrow> err + migration_configuration list"
  mo_unstructured :: unstructured_api
  mo_related :: "json \<Rightarrow> err + related"
  mo_cel :: "'e cel_api"
  mo_unmarshal :: "string \<Rightarrow> err + json"
  mo_view :: "json \<Rightarrow> uobj"
  mo_raw :: "uobj \<Rightarrow> json"

definition DefaultStageNamespace :: string where
  "DefaultStageNamespace = ''default''"

definition StagesFinalizer :: string where
  "StagesFinalizer = ''broker.platform-mesh.io/migration-stages''"

definition MigrationStageLabel :: string where
  "MigrationStageLabel = ''broker.platform-mesh.io/migration-stage''"

definition MigrationNameLabel :: string where
  "MigrationNameLabel = ''broker.platform-mesh.io/migration-name''"

definition StagesCompleted :: string where
  "StagesCompleted = ''StagesCompleted''"

definition CutoverCompleted :: string where
  "CutoverCompleted = ''CutoverCompleted''"

definition StatusAvailable :: string where
  "StatusAvailable = ''Available''"

abbreviation set_mstate :: "migration_state \<Rightarrow> migration \<Rightarrow> migration" where
  "set_mstate s m \<equiv> m\<lparr>mig_status := (mig_status m)\<lparr>mst_state := s\<rparr>\<rparr>"

definition migration_key :: "migration \<Rightarrow> string \<times> string" where
  "migration_key m = (ms_namespace (mig_spec m), ms_name (mig_spec m))"

subsection \<open>Conditions of a stage\<close>

fun eval_all ::
  "'e cel_api \<Rightarrow> 'e \<Rightarrow> string \<Rightarrow> string list \<Rightarrow> (string \<times> json) list \<Rightarrow> err + bool" where
  "eval_all A env label [] vars = Inr True"
| "eval_all A env label (ex # exs) vars =
     (case cel_compile A env ex of
        Inl e \<Rightarrow> Inl (wrap (''compiling '' @ label @ '' '' @ quoted ex) e)
      | Inr ast \<Rightarrow>
          (case cel_program A env ast of
             Inl e \<Rightarrow> Inl (wrap (''building program for '' @ label @ '' '' @ quoted ex) e)
           | Inr prog \<Rightarrow>
               (case cel_run A prog vars of
                  Inl e \<Rightarrow> Inl (wrap (''evaluating '' @ label @ '' '' @ quoted ex) e)
                | Inr v \<Rightarrow>
                    (case cel_bool A v of
                       None \<Rightarrow> Inl (errorf (label @ '' '' @ quoted ex @ '' did not evaluate to a boolean''))
                     | Some False \<Rightarrow> Inr False
                     | Some True \<Rightarrow> eval_all A env label exs vars))))"

definition eval_conditions ::
  "'e cel_api \<Rightarrow> string \<Rightarrow> string list \<Rightarrow> (string \<times> json) list \<Rightarrow> err + bool" where
  "eval_conditions A label exs vars =
     (case cel_env A vars of Inl e \<Rightarrow> Inl e | Inr env \<Rightarrow> eval_all A env label exs vars)"

definition check_success_conditions ::
  "('cl, 'w, 'e) migration_options \<Rightarrow> migration_stage \<Rightarrow> (string \<times> uobj) list \<Rightarrow> (string \<times> json) list \<Rightarrow>
   err + bool" where
  "check_success_conditions Q stage resources copies =
     eval_conditions (mo_cel Q) ''success condition'' (stg_success_conditions stage)
       (foldl (\<lambda>args (name, r). obj_put name (mo_raw Q r) args) copies resources)"

subsection \<open>Related resources in the compute cluster\<close>

definition copy_related_resource ::
  "('cl, 'w, 'e) migration_options \<Rightarrow> 'cl \<Rightarrow> gvk \<Rightarrow> string \<times> string \<Rightarrow> string \<Rightarrow> 'w \<Rightarrow> err option \<times> 'w" where
  "copy_related_resource Q cl g nn prefix w =
     (case k_get (mo_objects Q cl g) nn w of
        Inl e \<Rightarrow> (Some (wrap (''getting related resource '' @ quoted (key_string nn)) e), w)
      | Inr source \<Rightarrow>
          (let target = set_name (fst nn, prefix @ snd nn) (strip_cluster_metadata source);
               compute = mo_compute Q g
           in case k_get compute (un_key target) w of
                Inl e \<Rightarrow>
                  if is_not_found e then
                    (case k_create compute target w of
                       (Some e, _, w') \<Rightarrow>
                         (Some (wrap (''creating related resource copy '' @ quoted (un_name target)) e), w')
                     | (None, _, w') \<Rightarrow> (None, w'))
                  else (Some (wrap (''getting related resource copy '' @ quoted (un_name target)) e), w)
              | Inr existing \<Rightarrow>
                  (case k_update compute
                          (target\<lparr>un_meta := (un_meta target)\<lparr>m_version := m_version (un_meta existing)\<rparr>\<rparr>) w of
                     (Some e, _, w') \<Rightarrow>
                       (Some (wrap (''updating related resource copy '' @ quoted (un_name target)) e), w')
                   | (None, _, w') \<Rightarrow> (None, w'))))"

fun copy_all_related ::
  "('cl, 'w, 'e) migration_options \<Rightarrow> 'cl \<Rightarrow> (string \<times> related) list \<Rightarrow> string \<Rightarrow> 'w \<Rightarrow> err option \<times> 'w" where
  "copy_all_related Q cl [] prefix w = (None, w)"
| "copy_all_related Q cl ((key, rr) # rest) prefix w =
     (case copy_related_resource Q cl (schema_gvk rr) (snd rr) prefix w of
        (Some e, w') \<Rightarrow> (Some e, w')
      | (None, w') \<Rightarrow> copy_all_related Q cl rest prefix w')"

definition copy_related_resources ::
  "('cl, 'w, 'e) migration_options \<Rightarrow> string \<Rightarrow> migration_target \<Rightarrow> string \<times> string \<Rightarrow> string \<Rightarrow> 'w \<Rightarrow>
   outcome \<times> 'w" where
  "copy_related_resources Q ws target nn prefix w =
     (if ws = [] then (ret OK, w)
      else
        (case mo_workspace_client Q (mo_staging_root Q @ '':'' @ ws) of
           Inl e \<Rightarrow> (ret_err (wrap (''building client for staging workspace '' @ quoted ws) e), w)
         | Inr cl \<Rightarrow>
             (case collect (mo_unstructured Q) (mo_related Q) (mo_objects Q cl (mt_gvk target)) nn w of
                Inl e \<Rightarrow>
                  if is_not_found e
                  then (ret_pending (mo_interval Q) (''waiting for staging copy in workspace '' @ quoted ws), w)
                  else (ret_err e, w)
              | Inr related \<Rightarrow>
                  (case copy_all_related Q cl related prefix w of
                     (Some e, w') \<Rightarrow> (ret_err e, w')
                   | (None, w') \<Rightarrow> (ret OK, w')))))"

subsection \<open>The configuration, the templates and the copies\<close>

definition find_configuration ::
  "('cl, 'w, 'e) migration_options \<Rightarrow> 'cl \<Rightarrow> migration \<Rightarrow> 'w \<Rightarrow> err + migration_configuration option" where
  "find_configuration Q cl m w =
     (case mo_list_configs Q cl w of
        Inl e \<Rightarrow> Inl (wrap ''listing MigrationConfigurations'' e)
      | Inr configs \<Rightarrow>
          Inr (find (\<lambda>c. mc_from c = mt_gvk (ms_from (mig_spec m)) \<and> mc_to c = mt_gvk (ms_to (mig_spec m)))
                 configs))"

definition stage_resource_name :: "string \<Rightarrow> string \<Rightarrow> string" where
  "stage_resource_name migration template = migration @ ''-'' @ template"

definition place_resource :: "('cl, 'w, 'e) migration_options \<Rightarrow> string \<Rightarrow> string \<Rightarrow> uobj \<Rightarrow> uobj" where
  "place_resource Q mname tname u = set_name (mo_stage_namespace Q, stage_resource_name mname tname) u"

definition build_resource ::
  "('cl, 'w, 'e) migration_options \<Rightarrow> string \<Rightarrow> migration_stage \<Rightarrow> (string \<times> json) list \<Rightarrow> string \<Rightarrow> string \<Rightarrow>
   err + uobj" where
  "build_resource Q mname stage copies tname raw =
     (case mo_unmarshal Q raw of
        Inl e \<Rightarrow> Inl (wrap (''unmarshaling template '' @ quoted tname @ '' of stage '' @ quoted (stg_name stage)) e)
      | Inr ob \<Rightarrow>
          (case interpolate (mo_cel Q) ob copies of
             Inl e \<Rightarrow> Inl (wrap (''interpolating template '' @ quoted tname @ '' of stage '' @ quoted (stg_name stage)) e)
           | Inr ob' \<Rightarrow>
               (let u = place_resource Q mname tname (mo_view Q ob')
                in Inr (u\<lparr>un_meta := (un_meta u)
                   \<lparr>m_labels := Some [MigrationStageLabel \<mapsto> stg_name stage, MigrationNameLabel \<mapsto> mname]\<rparr>\<rparr>))))"

fun deploy_templates ::
  "('cl, 'w, 'e) migration_options \<Rightarrow> string \<Rightarrow> migration_stage \<Rightarrow> (string \<times> json) list \<Rightarrow>
   (string \<times> string) list \<Rightarrow> 'w \<Rightarrow> (err + (string \<times> uobj) list) \<times> 'w" where
  "deploy_templates Q mname stage copies [] w = (Inr [], w)"
| "deploy_templates Q mname stage copies ((tname, raw) # rest) w =
     (case build_resource Q mname stage copies tname raw of
        Inl e \<Rightarrow> (Inl e, w)
      | Inr u \<Rightarrow>
          (let compute = mo_compute Q (un_gvk u);
               (res, w) =
                 (case k_get compute (un_key u) w of
                    Inl e \<Rightarrow>
                      if is_not_found e then
                        (case k_create compute u w of
                           (Some e, _, w') \<Rightarrow> (Inl (wrap (''creating stage resource '' @ quoted (un_name u)) e), w')
                         | (None, u', w') \<Rightarrow> (Inr u', w'))
                      else (Inl (wrap (''getting stage resource '' @ quoted (un_name u)) e), w)
                  | Inr existing \<Rightarrow> (Inr existing, w))
           in case res of
                Inl e \<Rightarrow> (Inl e, w)
              | Inr r \<Rightarrow>
                  (case deploy_templates Q mname stage copies rest w of
                     (Inl e, w') \<Rightarrow> (Inl e, w')
                   | (Inr rs, w') \<Rightarrow> (Inr ((tname, r) # rs), w'))))"

definition deploy_stage ::
  "('cl, 'w, 'e) migration_options \<Rightarrow> string \<Rightarrow> migration_stage \<Rightarrow> (string \<times> json) list \<Rightarrow> 'w \<Rightarrow>
   (err + (string \<times> uobj) list) \<times> 'w" where
  "deploy_stage Q mname stage copies w = deploy_templates Q mname stage copies (stg_templates stage) w"

fun copies_of ::
  "('cl, 'w, 'e) migration_options \<Rightarrow> string \<times> string \<Rightarrow> (string \<times> string \<times> migration_target) list \<Rightarrow> 'w \<Rightarrow>
   err + (string \<times> json) list" where
  "copies_of Q nn [] w = Inr []"
| "copies_of Q nn ((name, ws, target) # rest) w =
     (if ws = [] then copies_of Q nn rest w
      else
        (case mo_workspace_client Q (mo_staging_root Q @ '':'' @ ws) of
           Inl e \<Rightarrow> Inl (wrap (''building client for staging workspace '' @ quoted ws) e)
         | Inr cl \<Rightarrow>
             (case k_get (mo_objects Q cl (mt_gvk target)) nn w of
                Inl e \<Rightarrow>
                  if is_not_found e then copies_of Q nn rest w
                  else Inl (wrap (''getting staging copy in workspace '' @ quoted ws) e)
              | Inr u \<Rightarrow>
                  (case copies_of Q nn rest w of
                     Inl e \<Rightarrow> Inl e | Inr vars \<Rightarrow> Inr ((name, mo_raw Q u) # vars)))))"

definition staging_copies ::
  "('cl, 'w, 'e) migration_options \<Rightarrow> migration \<Rightarrow> 'w \<Rightarrow> err + (string \<times> json) list" where
  "staging_copies Q m w =
     copies_of Q (migration_key m)
       [(''from'', ms_from_staging_workspace (mig_spec m), ms_from (mig_spec m)),
        (''to'', ms_staging_workspace (mig_spec m), ms_to (mig_spec m))] w"

fun delete_resources ::
  "('cl, 'w, 'e) migration_options \<Rightarrow> uobj list \<Rightarrow> 'w \<Rightarrow> err option \<times> 'w" where
  "delete_resources Q [] w = (None, w)"
| "delete_resources Q (u # us) w =
     (case k_delete (mo_compute Q (un_gvk u)) u w of
        (e, w') \<Rightarrow>
          (case ignore_not_found e of
             Some x \<Rightarrow> (Some (wrap (''deleting stage resource '' @ quoted (un_name u)) x), w')
           | None \<Rightarrow> delete_resources Q us w'))"

subsection \<open>The stages\<close>

text \<open>The index of the current stage; the first when none is recorded.\<close>

fun index_of :: "string \<Rightarrow> migration_stage list \<Rightarrow> nat option" where
  "index_of name [] = None"
| "index_of name (s # ss) = (if stg_name s = name then Some 0 else map_option Suc (index_of name ss))"

definition stage_index :: "migration_configuration \<Rightarrow> migration \<Rightarrow> err + nat" where
  "stage_index config m =
     (if mst_stage (mig_status m) = [] then Inr 0
      else (case index_of (mst_stage (mig_status m)) (mc_stages config) of
              None \<Rightarrow> Inl (errorf (''stage '' @ quoted (mst_stage (mig_status m))
                             @ '' not found in MigrationConfiguration '' @ quoted (mc_name config)))
            | Some i \<Rightarrow> Inr i))"

text \<open>The end of Process, once the stage's success conditions hold.\<close>

definition complete_stage ::
  "('cl, 'w, 'e) migration_options \<Rightarrow> migration_configuration \<Rightarrow> nat \<Rightarrow> migration_stage \<Rightarrow>
   uobj list \<Rightarrow> migration \<Rightarrow> 'w \<Rightarrow> outcome \<times> migration \<times> 'w" where
  "complete_stage Q config i stage resources m w =
     (case delete_resources Q resources w of
        (Some e, w') \<Rightarrow> (ret_err e, m, w')
      | (None, w') \<Rightarrow>
          if length (mc_stages config) \<le> i + 1
          then (ret OK, set_mstate MStateCutoverInProgress m, w')
          else
            (let m = m\<lparr>mig_status := (mig_status m)\<lparr>mst_stage := stg_name (mc_stages config ! (i + 1))\<rparr>\<rparr>;
                 m = (if stg_progress stage \<and> mst_state (mig_status m) = MStateInitialInProgress
                      then set_mstate MStateInitialCompleted m else m)
             in (ret_pending (mo_interval Q) (''stage '' @ quoted (stg_name stage) @ '' completed''), m, w')))"

text \<open>From the copies to the success conditions.\<close>

definition run_stage ::
  "('cl, 'w, 'e) migration_options \<Rightarrow> migration_configuration \<Rightarrow> nat \<Rightarrow> migration \<Rightarrow> 'w \<Rightarrow>
   outcome \<times> migration \<times> 'w" where
  "run_stage Q config i m w =
     (let stage = mc_stages config ! i in
      case staging_copies Q m w of
        Inl e \<Rightarrow> (ret_err e, m, w)
      | Inr copies \<Rightarrow>
      case eval_conditions (mo_cel Q) ''precondition'' (stg_preconditions stage) copies of
        Inl e \<Rightarrow> (ret_err e, m, w)
      | Inr False \<Rightarrow>
          (ret_pending (mo_interval Q) (''waiting for stage '' @ quoted (stg_name stage) @ '' preconditions''), m, w)
      | Inr True \<Rightarrow>
          (let m = (if mst_state (mig_status m) = MStatePending then set_mstate MStateInitialInProgress m else m) in
           case deploy_stage Q (m_name (mig_meta m)) stage copies w of
             (Inl e, w') \<Rightarrow> (ret_err e, m, w')
           | (Inr resources, w') \<Rightarrow>
               (case check_success_conditions Q stage resources copies of
                  Inl e \<Rightarrow> (ret_err e, m, w')
                | Inr False \<Rightarrow>
                    (ret_pending (mo_interval Q) (''waiting for stage '' @ quoted (stg_name stage)
                       @ '' success conditions''), m, w')
                | Inr True \<Rightarrow> complete_stage Q config i stage (map snd resources) m w')))"

definition run_configuration ::
  "('cl, 'w, 'e) migration_options \<Rightarrow> 'cl \<Rightarrow> migration \<Rightarrow> 'w \<Rightarrow> outcome \<times> migration \<times> 'w" where
  "run_configuration Q cl m w =
     (case find_configuration Q cl m w of
        Inl e \<Rightarrow> (ret_err e, m, w)
      | Inr None \<Rightarrow> (ret OK, set_mstate MStateCutoverInProgress m, w)
      | Inr (Some config) \<Rightarrow>
          if mc_stages config = [] then (ret OK, set_mstate MStateCutoverInProgress m, w)
          else (case stage_index config m of
                  Inl e \<Rightarrow> (ret_err e, m, w)
                | Inr i \<Rightarrow> run_stage Q config i m w))"

text \<open>Both copies' related resources are mirrored before the configuration runs.\<close>

definition mirror_related ::
  "('cl, 'w, 'e) migration_options \<Rightarrow> string \<Rightarrow> migration_target \<Rightarrow> string \<Rightarrow> migration \<Rightarrow> 'w \<Rightarrow>
   outcome \<times> migration \<times> 'w" where
  "mirror_related Q ws target prefix m w =
     (case copy_related_resources Q ws target (migration_key m) prefix w of (out, w') \<Rightarrow> (out, m, w'))"

definition run_migration ::
  "('cl, 'w, 'e) migration_options \<Rightarrow> 'cl \<Rightarrow> migration \<Rightarrow> 'w \<Rightarrow> outcome \<times> migration \<times> 'w" where
  "run_migration Q cl m w =
     then_if_done
       (mirror_related Q (ms_from_staging_workspace (mig_spec m)) (ms_from (mig_spec m)) ''from-'' m w)
       (\<lambda>m w. then_if_done
          (mirror_related Q (ms_staging_workspace (mig_spec m)) (ms_to (mig_spec m)) ''to-'' m w)
          (run_configuration Q cl))"

definition stages_process ::
  "('cl, 'w, 'e) migration_options \<Rightarrow> ('cl, 'v) ctx \<Rightarrow> migration \<Rightarrow> 'w \<Rightarrow> outcome \<times> migration \<times> 'w" where
  "stages_process Q c m w =
     (if mst_state (mig_status m) = MStateCutoverInProgress
         \<or> mst_state (mig_status m) = MStateCutoverCompleted
      then (ret OK, m, w)
      else
        (let m = (if mst_state (mig_status m) = MStateUnknown then set_mstate MStatePending m else m) in
         case ClientFromContext c of
           Inl e \<Rightarrow> (ret_err e, m, w)
         | Inr cl \<Rightarrow> run_migration Q cl m w))"

fun delete_templates ::
  "('cl, 'w, 'e) migration_options \<Rightarrow> string \<Rightarrow> string \<Rightarrow> (string \<times> string) list \<Rightarrow> 'w \<Rightarrow> err option \<times> 'w" where
  "delete_templates Q mname sname [] w = (None, w)"
| "delete_templates Q mname sname ((tname, raw) # rest) w =
     (case mo_unmarshal Q raw of
        Inl e \<Rightarrow> (Some (wrap (''unmarshaling template '' @ quoted tname @ '' of stage '' @ quoted sname) e), w)
      | Inr ob \<Rightarrow>
          (case delete_resources Q [place_resource Q mname tname (mo_view Q ob)] w of
             (Some e, w') \<Rightarrow> (Some e, w')
           | (None, w') \<Rightarrow> delete_templates Q mname sname rest w'))"

fun delete_stages ::
  "('cl, 'w, 'e) migration_options \<Rightarrow> string \<Rightarrow> migration_stage list \<Rightarrow> 'w \<Rightarrow> err option \<times> 'w" where
  "delete_stages Q mname [] w = (None, w)"
| "delete_stages Q mname (s # ss) w =
     (case delete_templates Q mname (stg_name s) (stg_templates s) w of
        (Some e, w') \<Rightarrow> (Some e, w')
      | (None, w') \<Rightarrow> delete_stages Q mname ss w')"

definition stages_finalize ::
  "('cl, 'w, 'e) migration_options \<Rightarrow> ('cl, 'v) ctx \<Rightarrow> migration \<Rightarrow> 'w \<Rightarrow> outcome \<times> migration \<times> 'w" where
  "stages_finalize Q c m w =
     (case ClientFromContext c of
        Inl e \<Rightarrow> (ret_err e, m, w)
      | Inr cl \<Rightarrow>
          (case find_configuration Q cl m w of
             Inl e \<Rightarrow> (ret_err e, m, w)
           | Inr None \<Rightarrow> (ret OK, m, w)
           | Inr (Some config) \<Rightarrow>
               (case delete_stages Q (m_name (mig_meta m)) (mc_stages config) w of
                  (Some e, w') \<Rightarrow> (ret_err e, m, w')
                | (None, w') \<Rightarrow> (ret OK, m, w'))))"

definition stages_subroutine ::
  "('cl, 'w, 'e) migration_options \<Rightarrow> ('cl, 'v, migration, 'w) subroutine" where
  "stages_subroutine Q =
     \<lparr>sub_name = StagesCompleted,
      as_processor = Some (stages_process Q),
      as_finalizer = Some \<lparr>Finalize = stages_finalize Q, Finalizers = (\<lambda>_. [StagesFinalizer])\<rparr>,
      as_initializer = None, as_terminator = None\<rparr>"

subsection \<open>Cutover\<close>

definition cutover_process ::
  "('cl, 'w, 'e) migration_options \<Rightarrow> ('cl, 'v) ctx \<Rightarrow> migration \<Rightarrow> 'w \<Rightarrow> outcome \<times> migration \<times> 'w" where
  "cutover_process Q c m w =
     (if mst_state (mig_status m) = MStateCutoverCompleted then (ret OK, m, w)
      else if mst_state (mig_status m) \<noteq> MStateCutoverInProgress
      then (ret_pending (mo_interval Q) ''waiting for stages to complete'', m, w)
      else
        (let ws = ms_staging_workspace (mig_spec m); nn = migration_key m in
         case mo_workspace_client Q (mo_staging_root Q @ '':'' @ ws) of
           Inl e \<Rightarrow> (ret_err (wrap (''building client for staging workspace '' @ quoted ws) e), m, w)
         | Inr cl \<Rightarrow>
             (case k_get (mo_objects Q cl (mt_gvk (ms_to (mig_spec m)))) nn w of
                Inl e \<Rightarrow>
                  if is_not_found e
                  then (ret_pending (mo_interval Q) ''waiting for staging copy in target workspace'', m, w)
                  else (ret_err (wrap (''getting staging copy '' @ quoted (key_string nn)) e), m, w)
              | Inr target \<Rightarrow>
                  (case nested_string (mo_unstructured Q) (un_object target) [''status'', ''status''] of
                     Inl e \<Rightarrow> (ret_err (wrap (''reading status of staging copy '' @ quoted (key_string nn)) e), m, w)
                   | Inr found \<Rightarrow>
                       (let status = (case found of None \<Rightarrow> [] | Some s \<Rightarrow> s) in
                        if status \<noteq> StatusAvailable
                        then (ret_pending (mo_interval Q)
                                (''waiting for staging copy to become available, currently '' @ quoted status), m, w)
                        else (ret OK, set_mstate MStateCutoverCompleted m, w))))))"

definition cutover_subroutine ::
  "('cl, 'w, 'e) migration_options \<Rightarrow> ('cl, 'v, migration, 'w) subroutine" where
  "cutover_subroutine Q =
     \<lparr>sub_name = CutoverCompleted, as_processor = Some (cutover_process Q), as_finalizer = None,
      as_initializer = None, as_terminator = None\<rparr>"

subsection \<open>The controller\<close>

definition validate_migration_options ::
  "('cl, 'w, 'e) migration_options \<Rightarrow> err + ('cl, 'w, 'e) migration_options" where
  "validate_migration_options Q =
     (if mo_staging_root Q = [] then Inl (errorf ''options: StagingTreeRoot is required'')
      else
        (let Q = (if mo_stage_namespace Q = [] then Q\<lparr>mo_stage_namespace := DefaultStageNamespace\<rparr> else Q)
         in Inr (if mo_interval Q \<le> 0 then Q\<lparr>mo_interval := DefaultRequeueInterval\<rparr> else Q)))"

definition migration_controller ::
  "meta_api \<Rightarrow> migration obj_iface \<Rightarrow> ('cl, migration, 'w) engine_api \<Rightarrow>
   (json option \<Rightarrow> json option \<Rightarrow> bool) \<Rightarrow> (('cl, 'v) ctx \<Rightarrow> err + 'cl) \<Rightarrow>
   ('cl, 'w, 'e) migration_options \<Rightarrow> ('cl, 'v, migration, 'w) lifecycle option" where
  "migration_controller M I api deep_equal cluster_client Q =
     with_conditions (conditions_manager M I)
       (new_lifecycle I api deep_equal cluster_client [stages_subroutine Q, cutover_subroutine Q])"

text \<open>The subroutines change the status of the Migration only.\<close>

lemma complete_stage_frame:
  "mig_meta (fst (snd (complete_stage Q config i stage rs m w))) = mig_meta m
   \<and> mig_spec (fst (snd (complete_stage Q config i stage rs m w))) = mig_spec m"
  by (auto simp: complete_stage_def Let_def split: prod.splits option.splits)

lemma run_stage_frame:
  "mig_meta (fst (snd (run_stage Q config i m w))) = mig_meta m
   \<and> mig_spec (fst (snd (run_stage Q config i m w))) = mig_spec m"
  by (auto simp: run_stage_def Let_def complete_stage_frame
      split: sum.split prod.split bool.split)

lemma run_configuration_frame:
  "mig_meta (fst (snd (run_configuration Q cl m w))) = mig_meta m
   \<and> mig_spec (fst (snd (run_configuration Q cl m w))) = mig_spec m"
  by (auto simp: run_configuration_def run_stage_frame split: sum.split option.split)

lemma then_if_done_inv:
  assumes "P (fst (snd res))" and "\<And>a w. P a \<Longrightarrow> P (fst (snd (k a w)))"
  shows "P (fst (snd (then_if_done res k)))"
  using assms by (auto simp: then_if_done_def split: prod.split outcome.split option.split)

lemma mirror_related_same [simp]: "fst (snd (mirror_related Q ws target prefix m w)) = m"
  by (simp add: mirror_related_def split: prod.split)

text \<open>What every configuration run preserves, the whole run preserves.\<close>

lemma run_migration_inv:
  assumes "P m" and "\<And>x w. P x \<Longrightarrow> P (fst (snd (run_configuration Q cl x w)))"
  shows "P (fst (snd (run_migration Q cl m w)))"
proof -
  have inner: "P (fst (snd (then_if_done (mirror_related Q ws target prefix x w) (run_configuration Q cl))))"
    if "P x" for ws target prefix x w
    using that assms(2) by (intro then_if_done_inv [where P = P]) simp_all
  show ?thesis
    unfolding run_migration_def using assms(1)
    by (intro then_if_done_inv [where P = P] inner) simp_all
qed

lemma stages_process_inv:
  assumes "P (if mst_state (mig_status m) = MStateUnknown then set_mstate MStatePending m else m)"
    and "\<And>x cl w. P x \<Longrightarrow> P (fst (snd (run_configuration Q cl x w)))"
    and "P m"
  shows "P (fst (snd (stages_process Q c m w)))"
proof (cases "ClientFromContext c")
  case (Inl e)
  with assms show ?thesis by (simp add: stages_process_def)
next
  case (Inr cl)
  have "P (fst (snd (run_migration Q cl
      (if mst_state (mig_status m) = MStateUnknown then set_mstate MStatePending m else m) w)))"
    by (rule run_migration_inv [where P = P]) (rule assms(1), erule assms(2))
  with Inr assms(3) show ?thesis by (simp add: stages_process_def)
qed

lemma stages_process_frame:
  "mig_meta (fst (snd (stages_process Q c m w))) = mig_meta m
   \<and> mig_spec (fst (snd (stages_process Q c m w))) = mig_spec m"
  by (rule stages_process_inv [where P = "\<lambda>x. mig_meta x = mig_meta m \<and> mig_spec x = mig_spec m"])
     (simp_all add: run_configuration_frame)

lemma migration_keeps_meta:
  "mig_meta (fst (snd (stages_process Q c m w))) = mig_meta m"
  "mig_meta (fst (snd (stages_finalize Q c m w))) = mig_meta m"
  "mig_meta (fst (snd (cutover_process Q c m w))) = mig_meta m"
  by (auto simp: stages_process_frame stages_finalize_def cutover_process_def Let_def
      split: sum.splits option.splits prod.splits if_splits)

lemma migration_iface_finalizers: "obj_finalizers (migration_iface tu fu) x = m_finalizers (mig_meta x)"
  by (simp add: migration_iface_def typed_iface_def)

lemma migration_controller_Some:
  "migration_controller M (migration_iface tu fu) api deep_equal cluster_client Q =
     Some ((new_lifecycle (migration_iface tu fu) api deep_equal cluster_client
              [stages_subroutine Q, cutover_subroutine Q])
           \<lparr>lc_conditions := Some (conditions_manager M (migration_iface tu fu))\<rparr>)"
  by (simp add: migration_controller_def with_conditions_def new_lifecycle_def migration_iface_def
      typed_iface_def)

interpretation migrating: engine "migration_iface tu fu"
    "the (migration_controller M (migration_iface tu fu) api deep_equal cluster_client Q)"
  for tu fu M api deep_equal cluster_client Q
  by (intro engine.intro engine_axioms.intro migration_obj.object_laws_axioms)
    (auto simp: migration_controller_Some new_lifecycle_def migration_obj.conditions_manager_frame
      stages_subroutine_def cutover_subroutine_def sub_keeps_finalizers_def keeps_finalizers_def
      migration_iface_finalizers migration_keeps_meta)

end
