(* ===== verification/Broker_Staging.thy ===== *)
theory Broker_Staging
  imports Broker_Options Engine
begin

text \<open>
  \<^verbatim>\<open>operators/resource-broker/pkg/controller/coordbroker/stagingworkspace\<close>: the controller that backs
  a StagingWorkspace with a kcp workspace (\<^verbatim>\<open>workspace_ready.go\<close>) and binds the provider's APIExport
  in it (\<^verbatim>\<open>binding_ready.go\<close>), composed as \<^verbatim>\<open>reconciler.go\<close> does.

  The kcp types are not code of the repository: of a Workspace and an APIBinding only what the
  controller reads is kept, the comparison of their phase with kcp's constant being a flag.
\<close>

record kcp_workspace =
  kw_name :: string
  kw_deletion :: "gotime option"
  kw_cluster :: string
  kw_ready :: bool

record accepted_claim =
  ac_claim :: json
  ac_match_all :: bool
  ac_accepted :: bool

record api_export =
  ex_name :: string
  ex_claims :: "json list"

record api_binding =
  bd_name :: string
  bd_path :: string
  bd_export :: string
  bd_claims :: "accepted_claim list"
  bd_bound :: bool

text \<open>
  \<open>so_create_or_update\<close> is \<^verbatim>\<open>controllerutil.CreateOrUpdate\<close>: it gets the mutation and the object, and
  returns whether anything was written, and the object.
\<close>

record ('cl, 'w) staging_options =
  so_root :: string
  so_workspace_client :: "string \<Rightarrow> err + 'cl"
  so_interval :: duration
  so_workspaces :: "'cl \<Rightarrow> (kcp_workspace, 'w) kind_client"
  so_exports :: "'cl \<Rightarrow> (api_export, 'w) kind_client"
  so_create_or_update ::
    "'cl \<Rightarrow> (api_binding \<Rightarrow> api_binding) \<Rightarrow> api_binding \<Rightarrow> 'w \<Rightarrow> (err + bool \<times> api_binding) \<times> 'w"

definition StagingFinalizer :: string where
  "StagingFinalizer = ''broker.platform-mesh.io/staging''"

definition WorkspaceReady :: string where
  "WorkspaceReady = ''WorkspaceReady''"

definition BindingReady :: string where
  "BindingReady = ''BindingReady''"

abbreviation set_sw_phase :: "staging_phase \<Rightarrow> staging_workspace \<Rightarrow> staging_workspace" where
  "set_sw_phase p x \<equiv> x\<lparr>sw_status := (sw_status x)\<lparr>st_phase := p\<rparr>\<rparr>"

subsection \<open>The workspace\<close>

definition tree_root_client :: "('cl, 'w) staging_options \<Rightarrow> err + 'cl" where
  "tree_root_client P =
     (case so_workspace_client P (so_root P) of
        Inl e \<Rightarrow> Inl (wrap (''building client for tree root '' @ quoted (so_root P)) e)
      | Inr cl \<Rightarrow> Inr cl)"

definition new_workspace :: "string \<Rightarrow> kcp_workspace" where
  "new_workspace name = \<lparr>kw_name = name, kw_deletion = None, kw_cluster = [], kw_ready = False\<rparr>"

definition workspace_process ::
  "('cl, 'w) staging_options \<Rightarrow> ('cl, 'v) ctx \<Rightarrow> staging_workspace \<Rightarrow> 'w \<Rightarrow> outcome \<times> staging_workspace \<times> 'w" where
  "workspace_process P c sw w =
     (let name = m_name (sw_meta sw) in
      case tree_root_client P of
        Inl e \<Rightarrow> (ret_err e, sw, w)
      | Inr cl \<Rightarrow>
          (case k_get (so_workspaces P cl) ([], name) w of
             Inl e \<Rightarrow>
               if is_not_found e then
                 (case k_create (so_workspaces P cl) (new_workspace name) w of
                    (Some e, _, w') \<Rightarrow> (ret_err (wrap (''creating staging workspace '' @ quoted name) e), sw, w')
                  | (None, _, w') \<Rightarrow>
                      (ret (StopWithRequeue (so_interval P) ''created staging workspace''),
                       set_sw_phase SPhasePending sw, w'))
               else (ret_err (wrap (''getting staging workspace '' @ quoted name) e), sw, w)
           | Inr ws \<Rightarrow>
               if kw_deletion ws \<noteq> None then
                 (ret (StopWithRequeue (so_interval P) ''staging workspace is terminating''),
                  set_sw_phase SPhasePending sw, w)
               else
                 (let sw = sw\<lparr>sw_status := (sw_status sw)\<lparr>st_cluster_name := kw_cluster ws\<rparr>\<rparr> in
                  if \<not> kw_ready ws then
                    (ret (StopWithRequeue (so_interval P) ''waiting for staging workspace to become ready''),
                     set_sw_phase SPhasePending sw, w)
                  else (ret OK, sw, w))))"

definition has_reference :: "staging_workspace \<Rightarrow> bool" where
  "has_reference sw \<longleftrightarrow> (\<exists>f\<in>set (m_finalizers (sw_meta sw)). has_prefix f RefFinalizerPrefix)"

definition workspace_finalize ::
  "('cl, 'w) staging_options \<Rightarrow> ('cl, 'v) ctx \<Rightarrow> staging_workspace \<Rightarrow> 'w \<Rightarrow> outcome \<times> staging_workspace \<times> 'w" where
  "workspace_finalize P c sw w =
     (if has_reference sw
      then (ret_pending (so_interval P) ''waiting for references to be released'', sw, w)
      else
        (let sw = set_sw_phase SPhaseTerminating sw; name = m_name (sw_meta sw) in
         case tree_root_client P of
           Inl e \<Rightarrow> (ret_err e, sw, w)
         | Inr cl \<Rightarrow>
             (case k_get (so_workspaces P cl) ([], name) w of
                Inl e \<Rightarrow>
                  if is_not_found e then (ret OK, sw, w)
                  else (ret_err (wrap (''getting staging workspace '' @ quoted name) e), sw, w)
              | Inr ws \<Rightarrow>
                  (case (if kw_deletion ws = None then k_delete (so_workspaces P cl) ws w else (None, w)) of
                     (e, w') \<Rightarrow>
                       (case ignore_not_found e of
                          Some x \<Rightarrow> (ret_err (wrap (''deleting staging workspace '' @ quoted name) x), sw, w')
                        | None \<Rightarrow>
                            (ret_pending (so_interval P) ''waiting for staging workspace to be deleted'', sw, w'))))))"

definition workspace_subroutine ::
  "('cl, 'w) staging_options \<Rightarrow> ('cl, 'v, staging_workspace, 'w) subroutine" where
  "workspace_subroutine P =
     \<lparr>sub_name = WorkspaceReady,
      as_processor = Some (workspace_process P),
      as_finalizer = Some \<lparr>Finalize = workspace_finalize P, Finalizers = (\<lambda>_. [StagingFinalizer])\<rparr>,
      as_initializer = None, as_terminator = None\<rparr>"

subsection \<open>The binding\<close>

definition accept_claim :: "json \<Rightarrow> accepted_claim" where
  "accept_claim pc = \<lparr>ac_claim = pc, ac_match_all = True, ac_accepted = True\<rparr>"

definition provider_permission_claims ::
  "('cl, 'w) staging_options \<Rightarrow> staging_workspace \<Rightarrow> 'w \<Rightarrow> err + accepted_claim list" where
  "provider_permission_claims P sw w =
     (let provider = ss_provider_cluster (sw_spec sw); export = ss_api_export_name (sw_spec sw) in
      case so_workspace_client P provider of
        Inl e \<Rightarrow> Inl (wrap (''building client for provider cluster '' @ quoted provider) e)
      | Inr cl \<Rightarrow>
          (case k_get (so_exports P cl) ([], export) w of
             Inl e \<Rightarrow> Inl (wrap (''getting APIExport '' @ quoted export @ '' from provider cluster ''
                              @ quoted provider) e)
           | Inr ex \<Rightarrow> Inr (map accept_claim (ex_claims ex))))"

definition binding_mutation ::
  "staging_workspace \<Rightarrow> accepted_claim list \<Rightarrow> api_binding \<Rightarrow> api_binding" where
  "binding_mutation sw claims b =
     b\<lparr>bd_path := ss_provider_cluster (sw_spec sw), bd_export := ss_api_export_name (sw_spec sw),
       bd_claims := claims\<rparr>"

definition new_binding :: "string \<Rightarrow> api_binding" where
  "new_binding name = \<lparr>bd_name = name, bd_path = [], bd_export = [], bd_claims = [], bd_bound = False\<rparr>"

definition binding_process ::
  "('cl, 'w) staging_options \<Rightarrow> ('cl, 'v) ctx \<Rightarrow> staging_workspace \<Rightarrow> 'w \<Rightarrow> outcome \<times> staging_workspace \<times> 'w" where
  "binding_process P c sw w =
     (case provider_permission_claims P sw w of
        Inl e \<Rightarrow> (ret_err e, sw, w)
      | Inr claims \<Rightarrow>
          (let path = so_root P @ '':'' @ m_name (sw_meta sw);
               export = ss_api_export_name (sw_spec sw)
           in case so_workspace_client P path of
                Inl e \<Rightarrow> (ret_err (wrap (''building client for workspace '' @ quoted path) e), sw, w)
              | Inr cl \<Rightarrow>
                  (case so_create_or_update P cl (binding_mutation sw claims) (new_binding export) w of
                     (Inl e, w') \<Rightarrow> (ret_err (wrap (''ensuring staging binding '' @ quoted export) e), sw, w')
                   | (Inr (changed, b), w') \<Rightarrow>
                       if changed
                       then (ret_pending (so_interval P) ''configured staging binding'',
                             set_sw_phase SPhasePending sw, w')
                       else if \<not> bd_bound b
                       then (ret_pending (so_interval P) ''waiting for staging binding to become bound'',
                             set_sw_phase SPhasePending sw, w')
                       else (ret OK, set_sw_phase SPhaseReady sw, w'))))"

definition binding_subroutine ::
  "('cl, 'w) staging_options \<Rightarrow> ('cl, 'v, staging_workspace, 'w) subroutine" where
  "binding_subroutine P =
     \<lparr>sub_name = BindingReady, as_processor = Some (binding_process P), as_finalizer = None,
      as_initializer = None, as_terminator = None\<rparr>"

subsection \<open>The controller\<close>

definition validate_staging_options ::
  "('cl, 'w) staging_options \<Rightarrow> err + ('cl, 'w) staging_options" where
  "validate_staging_options P =
     (if so_root P = [] then Inl (errorf ''options: StagingTreeRoot is required'')
      else Inr (if so_interval P \<le> 0 then P\<lparr>so_interval := DefaultRequeueInterval\<rparr> else P))"

text \<open>\<open>None\<close> is the panic of \<^verbatim>\<open>WithConditions\<close>.\<close>

definition staging_controller ::
  "meta_api \<Rightarrow> staging_workspace obj_iface \<Rightarrow> ('cl, staging_workspace, 'w) engine_api \<Rightarrow>
   (json option \<Rightarrow> json option \<Rightarrow> bool) \<Rightarrow> (('cl, 'v) ctx \<Rightarrow> err + 'cl) \<Rightarrow>
   ('cl, 'w) staging_options \<Rightarrow> ('cl, 'v, staging_workspace, 'w) lifecycle option" where
  "staging_controller M I api deep_equal cluster_client P =
     with_conditions (conditions_manager M I)
       (new_lifecycle I api deep_equal cluster_client [workspace_subroutine P, binding_subroutine P])"

lemma staging_keeps_meta:
  "sw_meta (fst (snd (workspace_process P c sw w))) = sw_meta sw"
  "sw_meta (fst (snd (workspace_finalize P c sw w))) = sw_meta sw"
  "sw_meta (fst (snd (binding_process P c sw w))) = sw_meta sw"
  by (auto simp: workspace_process_def workspace_finalize_def binding_process_def Let_def
      split: option.splits sum.splits prod.splits if_splits)

lemma staging_iface_finalizers: "obj_finalizers (staging_iface tu fu) x = m_finalizers (sw_meta x)"
  by (simp add: staging_iface_def typed_iface_def)

lemma staging_controller_Some:
  "staging_controller M (staging_iface tu fu) api deep_equal cluster_client P =
     Some ((new_lifecycle (staging_iface tu fu) api deep_equal cluster_client
              [workspace_subroutine P, binding_subroutine P])
           \<lparr>lc_conditions := Some (conditions_manager M (staging_iface tu fu))\<rparr>)"
  by (simp add: staging_controller_def with_conditions_def new_lifecycle_def staging_iface_def
      typed_iface_def)

interpretation staging: engine "staging_iface tu fu"
    "the (staging_controller M (staging_iface tu fu) api deep_equal cluster_client P)"
  for tu fu M api deep_equal cluster_client P
  by (intro engine.intro engine_axioms.intro staging_obj.object_laws_axioms)
    (auto simp: staging_controller_Some new_lifecycle_def staging_obj.conditions_manager_frame
      workspace_subroutine_def binding_subroutine_def sub_keeps_finalizers_def keeps_finalizers_def
      staging_iface_finalizers staging_keeps_meta)

end
