(* ===== verification/Broker_Example.thy ===== *)
theory Broker_Example
  imports Broker_Migration Broker_Staging
begin

text \<open>
  A small world to run the broker's controllers on: one API server per workspace path that keeps its
  objects in lists and answers at once. The closed instances of the broker's properties use it.
\<close>

definition list_client ::
  "('w \<Rightarrow> 'o list) \<Rightarrow> ('o list \<Rightarrow> 'w \<Rightarrow> 'w) \<Rightarrow> ('o \<Rightarrow> string \<times> string) \<Rightarrow> ('o, 'w) kind_client" where
  "list_client sel upd nm =
     \<lparr>k_get = (\<lambda>key w. case find (\<lambda>x. nm x = key) (sel w) of
                        None \<Rightarrow> Inl (Err NotFound ''not found'') | Some x \<Rightarrow> Inr x),
      k_list = (\<lambda>w. Inr (sel w)),
      k_create = (\<lambda>x w. if nm x \<in> nm ` set (sel w) then (Some (Err AlreadyExists ''exists''), x, w)
                         else (None, x, upd (x # sel w) w)),
      k_update = (\<lambda>x w. if nm x \<in> nm ` set (sel w)
                         then (None, x, upd (map (\<lambda>y. if nm y = nm x then x else y) (sel w)) w)
                         else (Some (Err NotFound ''not found''), x, w)),
      k_status_update = (\<lambda>x w. if nm x \<in> nm ` set (sel w)
                         then (None, x, upd (map (\<lambda>y. if nm y = nm x then x else y) (sel w)) w)
                         else (Some (Err NotFound ''not found''), x, w)),
      k_delete = (\<lambda>x w. if nm x \<in> nm ` set (sel w) then (None, upd (filter (\<lambda>y. nm y \<noteq> nm x) (sel w)) w)
                         else (Some (Err NotFound ''not found''), w))\<rparr>"

record small_world =
  sw_assignments :: "assignment list"
  sw_migrations :: "migration list"
  sw_stagings :: "staging_workspace list"
  sw_accept_apis :: "(string \<times> accept_api) list"
  sw_objects :: "(string \<times> uobj) list"

definition empty_world :: small_world where
  "empty_world = \<lparr>sw_assignments = [], sw_migrations = [], sw_stagings = [], sw_accept_apis = [],
                  sw_objects = []\<rparr>"

definition meta_key :: "objmeta \<Rightarrow> string \<times> string" where
  "meta_key m = (m_namespace m, m_name m)"

definition objects_at :: "string \<Rightarrow> gvk \<Rightarrow> (uobj, small_world) kind_client" where
  "objects_at cl g =
     list_client (\<lambda>w. map snd (filter (\<lambda>(p, u). p = cl \<and> un_gvk u = g) (sw_objects w)))
       (\<lambda>us w. w\<lparr>sw_objects := map (Pair cl) us @ filter (\<lambda>(p, u). \<not> (p = cl \<and> un_gvk u = g)) (sw_objects w)\<rparr>)
       un_key"

definition small_gvk :: gvk where
  "small_gvk = \<lparr>gvk_group = ''g'', gvk_version = ''v1'', gvk_kind = ''Thing''\<rparr>"

definition small_gvr :: gvr where
  "small_gvr = \<lparr>gvr_group = ''g'', gvr_version = ''v1'', gvr_resource = ''things''\<rparr>"

definition list_finalizers :: finalizer_lib where
  "list_finalizers =
     \<lparr>fl_add = (\<lambda>f fs. if f \<in> set fs then (False, fs) else (True, fs @ [f])),
      fl_remove = (\<lambda>f fs. if f \<in> set fs then (True, removeAll f fs) else (False, fs))\<rparr>"

lemma list_finalizers_laws: "finalizer_laws list_finalizers"
  by (auto simp: finalizer_laws_def list_finalizers_def)

text \<open>A server without conflicts needs one try.\<close>

definition try_once :: "'s body \<Rightarrow> 's body" where
  "try_once body = body"

lemma try_once_laws: "retry_laws try_once"
  by (auto simp: retry_laws_def try_once_def intro: retries.last_try)

definition small_broker :: "(string, small_world) broker_options" where
  "small_broker =
     \<lparr>o_gvk = small_gvk, o_gvr = small_gvr, o_staging_root = ''root:staging'',
      o_workspace_client = Inr,
      o_list_accept_apis = (\<lambda>w. Inr (map (\<lambda>(p, a). \<lparr>ref_cluster = p, ref_accept_api = a\<rparr>) (sw_accept_apis w))),
      o_pick = (\<lambda>w refs. hd refs), o_interval = 10,
      o_assignments = list_client sw_assignments (\<lambda>xs w. w\<lparr>sw_assignments := xs\<rparr>) (\<lambda>x. meta_key (asg_meta x)),
      o_migrations = list_client sw_migrations (\<lambda>xs w. w\<lparr>sw_migrations := xs\<rparr>) (\<lambda>x. meta_key (mig_meta x)),
      o_stagings = list_client sw_stagings (\<lambda>xs w. w\<lparr>sw_stagings := xs\<rparr>) (\<lambda>x. meta_key (sw_meta x)),
      o_accept_apis = (\<lambda>cl. list_client (\<lambda>w. map snd (filter (\<lambda>(p, a). p = cl) (sw_accept_apis w)))
                         (\<lambda>xs w. w) (\<lambda>a. ([], aa_name a))),
      o_objects = objects_at, o_create_namespace = (\<lambda>cl n w. (None, w)),
      o_finalizer_lib = list_finalizers, o_retry_staging = try_once, o_retry_object = try_once,
      o_status_equal = (=), o_cmp_equal = (=), o_json_equal = (=), o_unstructured = walk_api,
      o_gvr_string = (\<lambda>g. gvr_group g @ ''/'' @ gvr_version g @ '', Resource='' @ gvr_resource g),
      o_related = (\<lambda>j. Inr (small_gvk, ([], ''r''))),
      o_sha256 = (\<lambda>s. map of_char s)\<rparr>"

definition small_object :: "string \<Rightarrow> gotime option \<Rightarrow> string list \<Rightarrow> uobj" where
  "small_object name del fins =
     \<lparr>un_gvk = small_gvk, un_meta = (new_meta name)\<lparr>m_deletion := del, m_finalizers := fins\<rparr>,
      un_fields = [(''spec'', JObj [(''size'', JInt 3)])]\<rparr>"

definition size_filter :: accept_filter where
  "size_filter = \<lparr>flt_key = ''size'', flt_value_in = [], flt_boundary = \<lparr>bnd_min = Some 1, bnd_max = Some 5\<rparr>,
                  flt_suffix = []\<rparr>"

definition small_accept_api :: accept_api where
  "small_accept_api =
     \<lparr>aa_name = ''offer'', aa_gvr = small_gvr, aa_api_export_name = ''export'', aa_filters = [size_filter]\<rparr>"

definition offer_world :: small_world where
  "offer_world = empty_world\<lparr>sw_accept_apis := [(''prov'', small_accept_api)]\<rparr>"

lemma list_client_simps [simp]:
  "k_get (list_client sel upd nm) key w =
     (case find (\<lambda>x. nm x = key) (sel w) of None \<Rightarrow> Inl (Err NotFound ''not found'') | Some x \<Rightarrow> Inr x)"
  "k_create (list_client sel upd nm) x w =
     (if nm x \<in> nm ` set (sel w) then (Some (Err AlreadyExists ''exists''), x, w)
      else (None, x, upd (x # sel w) w))"
  "k_update (list_client sel upd nm) x w =
     (if nm x \<in> nm ` set (sel w)
      then (None, x, upd (map (\<lambda>y. if nm y = nm x then x else y) (sel w)) w)
      else (Some (Err NotFound ''not found''), x, w))"
  "k_status_update (list_client sel upd nm) x w =
     (if nm x \<in> nm ` set (sel w)
      then (None, x, upd (map (\<lambda>y. if nm y = nm x then x else y) (sel w)) w)
      else (Some (Err NotFound ''not found''), x, w))"
  "k_delete (list_client sel upd nm) x w =
     (if nm x \<in> nm ` set (sel w) then (None, upd (filter (\<lambda>y. nm y \<noteq> nm x) (sel w)) w)
      else (Some (Err NotFound ''not found''), w))"
  by (simp_all add: list_client_def)

lemma small_broker_sel [simp]:
  "o_gvk small_broker = small_gvk" "o_gvr small_broker = small_gvr"
  "o_staging_root small_broker = ''root:staging''" "o_workspace_client small_broker = Inr"
  "o_list_accept_apis small_broker w =
     Inr (map (\<lambda>(p, a). \<lparr>ref_cluster = p, ref_accept_api = a\<rparr>) (sw_accept_apis w))"
  "o_pick small_broker w refs = hd refs" "o_interval small_broker = 10"
  "o_assignments small_broker =
     list_client sw_assignments (\<lambda>xs w. w\<lparr>sw_assignments := xs\<rparr>) (\<lambda>x. meta_key (asg_meta x))"
  "o_migrations small_broker =
     list_client sw_migrations (\<lambda>xs w. w\<lparr>sw_migrations := xs\<rparr>) (\<lambda>x. meta_key (mig_meta x))"
  "o_stagings small_broker =
     list_client sw_stagings (\<lambda>xs w. w\<lparr>sw_stagings := xs\<rparr>) (\<lambda>x. meta_key (sw_meta x))"
  "o_accept_apis small_broker cl =
     list_client (\<lambda>w. map snd (filter (\<lambda>(p, a). p = cl) (sw_accept_apis w))) (\<lambda>xs w. w) (\<lambda>a. ([], aa_name a))"
  "o_objects small_broker = objects_at" "o_finalizer_lib small_broker = list_finalizers"
  "o_retry_staging small_broker = try_once" "o_retry_object small_broker = try_once"
  "o_status_equal small_broker = (=)" "o_unstructured small_broker = walk_api"
  by (simp_all add: small_broker_def)

lemmas small_world_simps =
  empty_world_def meta_key_def objects_at_def new_meta_def offer_world_def

lemma small_accepts:
  "fst (applies_to walk_api (o_gvr_string small_broker) small_accept_api small_gvr (un_object (small_object n d fs)))"
proof -
  have a: "atoi (itoa 3) = Some 3" by (rule atoi_itoa) auto
  show ?thesis
    by (simp add: small_broker_def applies_to_def small_accept_api_def Let_def filter_value_def walk_api_def un_object_def
        small_object_def size_filter_def filter_reasons_def a)
qed


definition small_staging :: "string \<Rightarrow> staging_phase \<Rightarrow> string list \<Rightarrow> staging_workspace" where
  "small_staging name ph fins =
     (new_staging name ''a'' ''c'' ''prov'' ''export'')
       \<lparr>sw_meta := (new_meta name)\<lparr>m_finalizers := fins\<rparr>, sw_status := empty_staging_status\<lparr>st_phase := ph\<rparr>\<rparr>"

text \<open>An expression engine for literals: an expression is its own value.\<close>

definition literal_cel :: "string cel_api" where
  "literal_cel =
     \<lparr>cel_new_env = (\<lambda>names. Inr []), cel_compile = (\<lambda>env ex. Inr ex), cel_program = (\<lambda>env ast. Inr ast),
      cel_run = (\<lambda>prog vars. Inr prog), cel_bool = (\<lambda>v. Some (v = ''true'')), cel_native = (\<lambda>v. Inr (JStr v))\<rparr>"

definition stage_named :: "string \<Rightarrow> migration_stage" where
  "stage_named n = \<lparr>stg_name = n, stg_preconditions = [], stg_success_conditions = [''true''],
                   stg_templates = [], stg_progress = True\<rparr>"

definition small_configuration :: migration_configuration where
  "small_configuration = \<lparr>mc_name = ''c'', mc_from = small_gvk, mc_to = small_gvk,
                          mc_stages = [stage_named ''one'', stage_named ''two'']\<rparr>"

definition small_migrator :: "(string, small_world, string) migration_options" where
  "small_migrator =
     \<lparr>mo_compute = objects_at ''compute'', mo_workspace_client = Inr, mo_staging_root = ''root:staging'',
      mo_stage_namespace = ''default'', mo_interval = 10, mo_objects = objects_at,
      mo_list_configs = (\<lambda>cl w. Inr [small_configuration]), mo_unstructured = walk_api,
      mo_related = (\<lambda>j. Inr (small_gvk, ([], ''r''))), mo_cel = literal_cel,
      mo_unmarshal = (\<lambda>s. Inr (JObj [])), mo_view = (\<lambda>j. small_object ''v'' None []), mo_raw = un_object\<rparr>"

lemma small_migrator_sel [simp]:
  "mo_compute small_migrator = objects_at ''compute''" "mo_workspace_client small_migrator = Inr"
  "mo_staging_root small_migrator = ''root:staging''" "mo_interval small_migrator = 10"
  "mo_objects small_migrator = objects_at" "mo_list_configs small_migrator cl w = Inr [small_configuration]"
  "mo_unstructured small_migrator = walk_api" "mo_cel small_migrator = literal_cel"
  "mo_raw small_migrator = un_object"
  by (simp_all add: small_migrator_def)

definition small_migration :: "migration_state \<Rightarrow> migration" where
  "small_migration s =
     \<lparr>mig_meta = new_meta ''m'',
      mig_spec = \<lparr>ms_assignment = ''a'', ms_namespace = [], ms_name = ''x'',
                  ms_from_staging_workspace = [], ms_staging_workspace = ''t'',
                  ms_from = \<lparr>mt_gvk = small_gvk, mt_provider_cluster = ''p'', mt_accept_api_name = ''o''\<rparr>,
                  ms_to = \<lparr>mt_gvk = small_gvk, mt_provider_cluster = ''q'', mt_accept_api_name = ''n''\<rparr>\<rparr>,
      mig_status = empty_migration_status\<lparr>mst_state := s\<rparr>\<rparr>"

definition available_copy :: uobj where
  "available_copy = (small_object ''x'' None [])\<lparr>un_fields := [(''status'', JObj [(''status'', JStr ''Available'')])]\<rparr>"

definition target_world :: small_world where
  "target_world = empty_world\<lparr>sw_objects := [(''root:staging:t'', available_copy)]\<rparr>"

lemma target_copy:
  "k_get (objects_at ''root:staging:t'' small_gvk) ([], ''x'') target_world = Inr available_copy"
  by (simp add: target_world_def objects_at_def available_copy_def small_object_def empty_world_def
      un_key_def un_namespace_def un_name_def new_meta_def)

definition small_migration_ctx :: "(string, unit) ctx" where
  "small_migration_ctx = \<lparr>ctx_cluster = Some ''coord'', ctx_client = Some ''coord'', ctx_values = ()\<rparr>"

end
