(* ===== verification/Broker_Props.thy ===== *)
theory Broker_Props
  imports Broker_Example
begin

text \<open>
  The properties of the resource broker: which provider an object is assigned to, how staging
  workspaces are referenced and torn down, what a copy holds, and in which order the cleanup of a
  deleted object releases what it holds.
\<close>

subsection \<open>Choosing a provider\<close>

text \<open>
  C6. A new Assignment goes to a provider that takes the object. Where the boundaries of the filters are not
  negative, the choice is among the listed AcceptAPIs of the object's resource whose filters are met by every
  key they name that the object's spec has: the value is in the allowed set, a number inside the boundaries
  and has the suffix, where each is given. Without such an AcceptAPI nothing is created and the object waits;
  otherwise one Assignment is created, under the given name, for the object and one of them.
\<close>

theorem assignments_go_to_matching_providers:
  assumes "\<And>refs. refs \<noteq> [] \<Longrightarrow> o_pick B w refs \<in> set refs"
    and "o_list_accept_apis B w = Inr refs" and "\<And>r. r \<in> set refs \<Longrightarrow> counted_boundaries (ref_accept_api r)"
  shows "let takes = (\<lambda>r. api_matches (o_unstructured B) (o_gvr_string B) (ref_accept_api r) (o_gvr B) (un_object u)) in
    if \<exists>r\<in>set refs. takes r
    then (\<exists>r\<in>set refs. takes r \<and>
           (let a = \<lparr>asg_meta = new_meta name,
                     asg_spec = \<lparr>as_consumer_cluster = consumer, as_gvr = o_gvr B, as_namespace = un_namespace u,
                                 as_name = un_name u, as_provider_cluster = ref_cluster r,
                                 as_accept_api_name = aa_name (ref_accept_api r)\<rparr>,
                     asg_status = empty_assignment_status\<rparr> in
            \<exists>e a' w'. k_create (o_assignments B) a w = (e, a', w') \<and>
              create_assignment B name consumer u w =
                (case e of
                   Some x \<Rightarrow> ret_err (wrap (''creating Assignment '' @ quoted name) x)
                 | None \<Rightarrow> ret_pending (o_interval B) ''created assignment'', w')))
    else create_assignment B name consumer u w = (ret_pending (o_interval B) ''no matching AcceptAPI'', w)"
proof -
  let ?takes = "\<lambda>r. api_matches (o_unstructured B) (o_gvr_string B) (ref_accept_api r) (o_gvr B) (un_object u)"
  let ?m = "matching_refs B u refs"
  have m: "set ?m = {r \<in> set refs. ?takes r}"
    using assms(3) by (auto simp: matching_refs_def applies_to_iff)
  show ?thesis
  proof (cases "?m = []")
    case True
    then show ?thesis using m assms(2) by (auto simp: create_assignment_def Let_def)
  next
    case False
    have r: "o_pick B w ?m \<in> {r \<in> set refs. ?takes r}" using assms(1) [OF False] m by simp
    show ?thesis using r False assms(2) unfolding Let_def
      by (subst if_P, blast, intro bexI [of _ "o_pick B w ?m"])
        (auto simp: create_assignment_def Let_def split: prod.splits option.splits)
  qed
qed

theorem assignments_go_to_matching_providers_witness:
  "let u = small_object ''x'' None [];
       a = \<lparr>asg_meta = new_meta ''n'',
            asg_spec = \<lparr>as_consumer_cluster = ''c'', as_gvr = o_gvr small_broker, as_namespace = un_namespace u,
                        as_name = un_name u, as_provider_cluster = ''prov'', as_accept_api_name = aa_name small_accept_api\<rparr>,
            asg_status = empty_assignment_status\<rparr> in
   \<exists>e a' w'. k_create (o_assignments small_broker) a offer_world = (e, a', w') \<and>
     create_assignment small_broker ''n'' ''c'' u offer_world =
       (case e of
          Some x \<Rightarrow> ret_err (wrap (''creating Assignment '' @ quoted ''n'') x)
        | None \<Rightarrow> ret_pending (o_interval small_broker) ''created assignment'', w')"
proof -
  let ?u = "small_object ''x'' None []" and ?r = "\<lparr>ref_cluster = ''prov'', ref_accept_api = small_accept_api\<rparr>"
  have p: "\<And>refs. refs \<noteq> [] \<Longrightarrow> o_pick small_broker offer_world refs \<in> set refs" by simp
  have l: "o_list_accept_apis small_broker offer_world = Inr [?r]"
    by (simp add: small_broker_def small_world_simps)
  have c: "\<And>r. r \<in> set [?r] \<Longrightarrow> counted_boundaries (ref_accept_api r)"
    by (simp add: counted_boundaries_def small_accept_api_def size_filter_def)
  have t: "api_matches (o_unstructured small_broker) (o_gvr_string small_broker) small_accept_api (o_gvr small_broker) (un_object ?u)"
    using small_accepts applies_to_iff [OF c [of ?r]] by (simp add: small_broker_def)
  show ?thesis
    using assignments_go_to_matching_providers [OF p l c, of ?u "''n''" "''c''"] t
    unfolding Let_def list.set bex_simps insert_iff empty_iff by simp
qed

text \<open>
  Joining the parts of a name with a null byte keeps different tuples apart, so two objects share an
  Assignment name only if the hash collides.
\<close>

theorem hash_input_injective:
  assumes "length xs = length ys" and "hash_input xs = hash_input ys"
    and "\<forall>x\<in>set xs. CHR 0x00 \<notin> set x" and "\<forall>y\<in>set ys. CHR 0x00 \<notin> set y"
  shows "xs = ys"
  using join_with_sep_inj [OF assms(1) _ assms(3,4)] assms(2) by (simp add: hash_input_def)

theorem hash_input_injective_witness:
  "[''ab'', ''c''] = [''ab'', ''c'']"
  by (rule hash_input_injective) (simp_all add: hash_input_def)

subsection \<open>What a copy holds\<close>

lemma map_of_filter_key:
  "map_of (filter (\<lambda>(k, v). P k) kvs) k = (if P k then map_of kvs k else None)"
  by (induction kvs) (auto split: if_splits)

lemma map_of_foldl_put:
  "map_of (foldl (\<lambda>fs (k, v). if k = s then fs else obj_put k v fs) fs kvs) k =
     (if k = s then map_of fs k
      else case map_of (rev kvs) k of None \<Rightarrow> map_of fs k | Some v \<Rightarrow> Some v)"
proof (induction kvs rule: rev_induct)
  case Nil
  show ?case by simp
next
  case (snoc kv kvs)
  then show ?case by (cases kv) (auto split: option.splits)
qed

lemma map_of_rev_distinct: "distinct (map fst kvs) \<Longrightarrow> map_of (rev kvs) k = map_of kvs k"
  by (induction kvs) (auto simp: map_add_def rev_image_eqI split: option.splits)

text \<open>
  Updating a copy makes every field but the status equal to the source's, removing the ones the
  source does not have, and leaves the copy's own status alone.
\<close>

theorem merge_copies_source:
  assumes "distinct (map fst source)"
  shows "map_of (merge_fields source existing) k =
    (if k = ''status'' then map_of existing k else map_of source k)"
proof -
  have iff: "map_of source k = None \<longleftrightarrow> k \<notin> fst ` set source"
    by (simp add: map_of_eq_None_iff)
  show ?thesis
    by (cases "map_of source k"; use iff in
        \<open>simp add: merge_fields_def map_of_foldl_put map_of_filter_key map_of_rev_distinct [OF assms]\<close>)
qed


theorem merge_copies_source_witness:
  "map_of (merge_fields [(''spec'', JInt 1)] [(''status'', JInt 2), (''old'', JInt 3), (''spec'', JInt 4)]) ''old'' =
    (if ''old'' = ''status'' then map_of [(''status'', JInt 2), (''old'', JInt 3), (''spec'', JInt 4)] ''old''
     else map_of [(''spec'', JInt 1)] ''old'')"
  by (rule merge_copies_source) simp


subsection \<open>Staging workspaces\<close>

lemma retry_last_body:
  assumes "retry_laws retry" and "retry body s = (e, s')"
  shows "retries body s e s'" and "\<exists>s0. body s0 = (e, s')"
proof -
  show r: "retries body s e s'"
    using assms by (simp add: retry_laws_def) (metis fst_conv snd_conv)
  show "\<exists>s0. body s0 = (e, s')"
    using retries_result [OF r, of "\<lambda>_. True"] by simp
qed

text \<open>What the server answers to an update has the finalizers the update had.\<close>

definition update_keeps_finalizers :: "(staging_workspace, 'w) kind_client \<Rightarrow> bool" where
  "update_keeps_finalizers K \<longleftrightarrow>
     (\<forall>x w x' w'. k_update K x w = (None, x', w') \<longrightarrow> m_finalizers (sw_meta x') = m_finalizers (sw_meta x))"

lemma release_body_released:
  assumes "finalizer_laws (o_finalizer_lib B)" and "update_keeps_finalizers (o_stagings B)"
    and "release_body B ws f s0 = (None, (sw, w1))"
  shows "f \<notin> set (m_finalizers (sw_meta sw))"
proof -
  obtain x w where s0: "s0 = (x, w)" by force
  obtain y where y: "k_get (o_stagings B) ([], ws) w = Inr y"
    using assms(3) s0 by (cases "k_get (o_stagings B) ([], ws) w") (auto simp: release_body_def)
  obtain b fs where r: "fl_remove (o_finalizer_lib B) f (m_finalizers (sw_meta y)) = (b, fs)" by force
  have "fst (fl_remove (o_finalizer_lib B) f (m_finalizers (sw_meta y))) = (f \<in> set (m_finalizers (sw_meta y)))"
    "set (snd (fl_remove (o_finalizer_lib B) f (m_finalizers (sw_meta y)))) = set (m_finalizers (sw_meta y)) - {f}"
    using assms(1) by (simp_all add: finalizer_laws_def)
  then have b: "b = (f \<in> set (m_finalizers (sw_meta y)))" "set fs = set (m_finalizers (sw_meta y)) - {f}"
    by (simp_all add: r)
  show ?thesis
  proof (cases b)
    case False
    with assms(3) s0 y r b(1) show ?thesis by (auto simp: release_body_def)
  next
    case True
    with assms(3) s0 y r have "k_update (o_stagings B)
        (y\<lparr>sw_meta := (sw_meta y)\<lparr>m_finalizers := fs\<rparr>\<rparr>) w = (None, sw, w1)"
      by (auto simp: release_body_def split: prod.splits)
    with assms(2) b(2) show ?thesis by (fastforce simp: update_keeps_finalizers_def)
  qed
qed

text \<open>
  Releasing a staging workspace removes the owner's reference, retrying on conflicts only, and
  deletes the workspace exactly when no Assignment or Migration references it any more.
\<close>

theorem release_deletes_unreferenced_only:
  assumes "finalizer_laws (o_finalizer_lib B)" and "update_keeps_finalizers (o_stagings B)"
    and "retry_laws (o_retry_staging B)"
    and "release_staging B ws owner w = (e, w')"
  shows "\<exists>e1 sw w1. retries (release_body B ws (staging_ref_finalizer owner)) (zero_staging, w) e1 (sw, w1)
    \<and> (if e1 = None then staging_ref_finalizer owner \<notin> set (m_finalizers (sw_meta sw)) else w' = w1)
    \<and> (if e1 = None \<and> \<not> referenced sw then w' = snd (k_delete (o_stagings B) sw w1) else w' = w1)"
proof -
  let ?body = "release_body B ws (staging_ref_finalizer owner)"
  obtain e1 sw w1 where r: "o_retry_staging B ?body (zero_staging, w) = (e1, (sw, w1))"
    by (metis prod_cases3)
  obtain s0 where s0: "?body s0 = (e1, (sw, w1))" using retry_last_body(2) [OF assms(3) r] by blast
  have "e1 = None \<Longrightarrow> staging_ref_finalizer owner \<notin> set (m_finalizers (sw_meta sw))"
    using release_body_released [OF assms(1,2)] s0 by blast
  moreover have "retries ?body (zero_staging, w) e1 (sw, w1)" by (rule retry_last_body(1) [OF assms(3) r])
  moreover have "if e1 = None \<and> \<not> referenced sw then w' = snd (k_delete (o_stagings B) sw w1) else w' = w1"
    using assms(4) r by (auto simp: release_staging_def split: option.splits prod.splits if_splits)
  ultimately show ?thesis
    by (intro exI [where x = e1] exI [where x = sw] exI [where x = w1]) auto
qed

definition staged_world :: "string list \<Rightarrow> small_world" where
  "staged_world fins = offer_world\<lparr>sw_stagings := [zero_staging\<lparr>sw_meta := (new_meta ''s'')\<lparr>m_finalizers := fins\<rparr>\<rparr>]\<rparr>"

lemma small_update_keeps: "update_keeps_finalizers (o_stagings small_broker)"
  by (auto simp: update_keeps_finalizers_def split: if_splits)

theorem release_deletes_unreferenced_only_witness:
  "\<exists>e1 sw w1. retries (release_body small_broker ''s'' (staging_ref_finalizer ''a''))
        (zero_staging, staged_world [staging_ref_finalizer ''a'']) e1 (sw, w1)
    \<and> (if e1 = None then staging_ref_finalizer ''a'' \<notin> set (m_finalizers (sw_meta sw))
       else snd (release_staging small_broker ''s'' ''a'' (staged_world [staging_ref_finalizer ''a''])) = w1)
    \<and> (if e1 = None \<and> \<not> referenced sw
       then snd (release_staging small_broker ''s'' ''a'' (staged_world [staging_ref_finalizer ''a''])) =
              snd (k_delete (o_stagings small_broker) sw w1)
       else snd (release_staging small_broker ''s'' ''a'' (staged_world [staging_ref_finalizer ''a''])) = w1)"
proof -
  have l: "finalizer_laws (o_finalizer_lib small_broker)" "retry_laws (o_retry_staging small_broker)"
    by (simp_all add: list_finalizers_laws try_once_laws)
  show ?thesis
    by (rule release_deletes_unreferenced_only [OF l(1) small_update_keeps l(2) surjective_pairing])
qed

text \<open>
  An Assignment becomes Bound only on a staging workspace that exists, is not being deleted and is
  Ready, and it then carries the workspace's name and the reference of the Assignment was added.
\<close>

theorem bound_only_on_ready_workspace:
  assumes "ensure_bound B a w = (out, a', w')"
    and "ast_phase (asg_status a') = APhaseBound" and "ast_phase (asg_status a) \<noteq> APhaseBound"
  shows "\<exists>sw. k_get (o_stagings B) ([], ast_staging_workspace (asg_status a')) w = Inr sw
    \<and> m_deletion (sw_meta sw) = None \<and> st_phase (sw_status sw) = SPhaseReady
    \<and> add_staging_ref B (ast_staging_workspace (asg_status a')) (m_name (asg_meta a)) w = (None, w')"
proof -
  have d: "ast_phase (asg_status (default_provider a)) = ast_phase (asg_status a)"
    "asg_meta (default_provider a) = asg_meta a"
    by (simp_all add: default_provider_def)
  obtain b where b: "resolve_export B (default_provider a) w = Inr b"
    using assms d by (cases "resolve_export B (default_provider a) w") (auto simp: ensure_bound_def Let_def)
  then have bp: "ast_phase (asg_status b) \<noteq> APhaseBound" "asg_meta b = asg_meta a"
    using assms(3) d by (auto simp: resolve_export_def split: if_splits sum.splits)
  let ?ws = "staging_workspace_name B (as_consumer_cluster (asg_spec b))
               (ast_provider_cluster (asg_status b)) (ast_api_export_name (asg_status b))"
  have bs: "bind_staging B (set_status (\<lambda>s. s\<lparr>ast_staging_workspace := ?ws\<rparr>) b) ?ws w = (out, a', w')"
    using assms(1) b by (simp add: ensure_bound_def Let_def)
  then show ?thesis using assms(2) bp
    by (auto simp: bind_staging_def Let_def split: sum.splits option.splits prod.splits if_splits)
qed


definition small_assignment :: assignment where
  "small_assignment =
     \<lparr>asg_meta = new_meta ''a'',
      asg_spec = \<lparr>as_consumer_cluster = ''c'', as_gvr = small_gvr, as_namespace = [], as_name = ''x'',
                  as_provider_cluster = ''prov'', as_accept_api_name = ''offer''\<rparr>,
      asg_status = empty_assignment_status\<lparr>ast_provider_cluster := ''prov'', ast_accept_api_name := ''offer'',
                      ast_api_export_name := ''export''\<rparr>\<rparr>"

definition small_name :: string where
  "small_name = staging_workspace_name small_broker ''c'' ''prov'' ''export''"

definition ready_world :: small_world where
  "ready_world = offer_world\<lparr>sw_stagings := [small_staging small_name SPhaseReady [staging_ref_finalizer ''a'']]\<rparr>"

theorem bound_only_on_ready_workspace_witness:
  "let a' = fst (snd (ensure_bound small_broker small_assignment ready_world));
       w' = snd (snd (ensure_bound small_broker small_assignment ready_world))
   in \<exists>sw. k_get (o_stagings small_broker) ([], ast_staging_workspace (asg_status a')) ready_world = Inr sw
    \<and> m_deletion (sw_meta sw) = None \<and> st_phase (sw_status sw) = SPhaseReady
    \<and> add_staging_ref small_broker (ast_staging_workspace (asg_status a')) (m_name (asg_meta small_assignment))
        ready_world = (None, w')"
proof -
  have "ast_phase (asg_status (fst (snd (ensure_bound small_broker small_assignment ready_world)))) = APhaseBound"
    by (simp add: ensure_bound_def default_provider_def resolve_export_def bind_staging_def Let_def
        small_name_def [symmetric] small_assignment_def empty_assignment_status_def ready_world_def
        small_staging_def small_world_simps add_staging_ref_def try_once_def add_ref_body_def
        list_finalizers_def empty_staging_status_def new_staging_def)
  note bound = this
  have "ast_phase (asg_status small_assignment) \<noteq> APhaseBound"
    by (simp add: small_assignment_def empty_assignment_status_def)
  note free = this
  have e: "ensure_bound small_broker small_assignment ready_world =
      (fst (ensure_bound small_broker small_assignment ready_world),
       fst (snd (ensure_bound small_broker small_assignment ready_world)),
       snd (snd (ensure_bound small_broker small_assignment ready_world)))" by simp
  show ?thesis unfolding Let_def by (rule bound_only_on_ready_workspace [OF e bound free])
qed

subsection \<open>Migrations\<close>

text \<open>
  C7. A finished migration is not forgotten while the old copy is still there: the assignment already
  points at the new provider, the old copy is deleted once, and neither the reference on the old
  workspace nor the Migration is released in that pass.
\<close>

theorem migration_waits_for_old_copy:
  assumes "finish_migration B a m u w = (out, a', w')"
    and "ms_from_staging_workspace (mig_spec m) \<noteq> []"
    and "ms_from_staging_workspace (mig_spec m) \<noteq> ms_staging_workspace (mig_spec m)"
    and "o_workspace_client B (o_staging_root B @ '':'' @ ms_from_staging_workspace (mig_spec m)) = Inr cl"
    and "k_get (o_objects B cl (mt_gvk (ms_from (mig_spec m)))) (un_key u) w = Inr old"
  shows "w' = (if m_deletion (un_meta old) = None
               then snd (k_delete (o_objects B cl (mt_gvk (ms_from (mig_spec m)))) old w) else w)
    \<and> ast_staging_workspace (asg_status a') = ms_staging_workspace (mig_spec m)
    \<and> ast_provider_cluster (asg_status a') = mt_provider_cluster (ms_to (mig_spec m))
    \<and> ast_phase (asg_status a') = APhaseBound
    \<and> out \<noteq> ret OK"
  using assms
  by (auto simp: finish_migration_def retire_source_def Let_def outcome_makers result_makers
      split: prod.splits option.splits if_splits)

definition moving_migration :: migration where
  "moving_migration = (small_migration MStateCutoverCompleted)
     \<lparr>mig_spec := (mig_spec (small_migration MStateUnknown))\<lparr>ms_from_staging_workspace := ''t'', ms_staging_workspace := ''u''\<rparr>\<rparr>"

theorem migration_waits_for_old_copy_witness:
  "let r = finish_migration small_broker small_assignment moving_migration available_copy target_world in
   snd (snd r) = (if m_deletion (un_meta available_copy) = None
       then snd (k_delete (o_objects small_broker ''root:staging:t'' (mt_gvk (ms_from (mig_spec moving_migration))))
              available_copy target_world)
       else target_world)
    \<and> ast_staging_workspace (asg_status (fst (snd r))) = ms_staging_workspace (mig_spec moving_migration)
    \<and> ast_provider_cluster (asg_status (fst (snd r))) = mt_provider_cluster (ms_to (mig_spec moving_migration))
    \<and> ast_phase (asg_status (fst (snd r))) = APhaseBound
    \<and> fst r \<noteq> ret OK"
proof -
  let ?r = "finish_migration small_broker small_assignment moving_migration available_copy target_world"
  have k: "un_key available_copy = ([], ''x'')"
    by (simp add: available_copy_def small_object_def un_key_def un_namespace_def un_name_def new_meta_def)
  have e: "?r = (fst ?r, fst (snd ?r), snd (snd ?r))" by simp
  show ?thesis unfolding Let_def
    by (rule migration_waits_for_old_copy [OF e])
       (simp_all add: moving_migration_def small_migration_def target_copy k)
qed

text \<open>The order of the states of a migration.\<close>

fun state_rank :: "migration_state \<Rightarrow> nat" where
  "state_rank MStateUnknown = 0"
| "state_rank MStatePending = 1"
| "state_rank MStateInitialInProgress = 2"
| "state_rank MStateInitialCompleted = 3"
| "state_rank MStateCutoverInProgress = 4"
| "state_rank MStateCutoverCompleted = 5"

abbreviation mstate :: "migration \<Rightarrow> migration_state" where
  "mstate m \<equiv> mst_state (mig_status m)"

lemma complete_stage_rank:
  "mstate m \<noteq> MStateCutoverCompleted \<Longrightarrow>
   state_rank (mstate m) \<le> state_rank (mstate (fst (snd (complete_stage Q config i stage rs m w))))
   \<and> mstate (fst (snd (complete_stage Q config i stage rs m w))) \<noteq> MStateCutoverCompleted"
  by (cases "mstate m") (auto simp: complete_stage_def Let_def split: prod.splits option.splits)

lemma run_stage_rank:
  assumes "mstate m \<noteq> MStateCutoverCompleted"
  shows "state_rank (mstate m) \<le> state_rank (mstate (fst (snd (run_stage Q config i m w))))
   \<and> mstate (fst (snd (run_stage Q config i m w))) \<noteq> MStateCutoverCompleted"
proof -
  let ?m = "if mstate m = MStatePending then set_mstate MStateInitialInProgress m else m"
  have m: "mstate ?m \<noteq> MStateCutoverCompleted" "state_rank (mstate m) \<le> state_rank (mstate ?m)"
    using assms by auto
  have "state_rank (mstate m) \<le> state_rank (mstate (fst (snd (complete_stage Q config i stage rs ?m w))))
     \<and> mstate (fst (snd (complete_stage Q config i stage rs ?m w))) \<noteq> MStateCutoverCompleted" for stage rs w
    using complete_stage_rank [OF m(1), of Q config i stage rs w] m(2) by auto
  then show ?thesis using assms m
    by (auto simp: run_stage_def Let_def split: sum.split prod.split bool.split)
qed

lemma state_rank_le: "s \<noteq> MStateCutoverCompleted \<Longrightarrow> state_rank s \<le> 4"
  by (cases s) auto

lemma run_configuration_rank:
  assumes "mstate m \<noteq> MStateCutoverCompleted"
  shows "state_rank (mstate m) \<le> state_rank (mstate (fst (snd (run_configuration Q cl m w))))
   \<and> mstate (fst (snd (run_configuration Q cl m w))) \<noteq> MStateCutoverCompleted"
  using assms run_stage_rank [OF assms, of Q] state_rank_le [OF assms]
  by (auto simp: run_configuration_def split: sum.split option.split)

lemma stages_process_rank:
  "state_rank (mstate m) \<le> state_rank (mstate (fst (snd (stages_process Q c m w))))
   \<and> (mstate (fst (snd (stages_process Q c m w))) = MStateCutoverCompleted \<longrightarrow> mstate m = MStateCutoverCompleted)"
proof (cases "mstate m = MStateCutoverCompleted")
  case True
  then show ?thesis by (simp add: stages_process_def)
next
  case False
  define P where "P x \<longleftrightarrow> state_rank (mstate m) \<le> state_rank (mstate x) \<and> mstate x \<noteq> MStateCutoverCompleted" for x
  have "P (fst (snd (run_configuration Q cl x w)))" if "P x" for x cl w
    using run_configuration_rank [of x Q cl w] that by (auto simp: P_def)
  then have "P (fst (snd (stages_process Q c m w)))"
    using False by (intro stages_process_inv [where P = P]) (simp_all add: P_def)
  then show ?thesis by (simp add: P_def)
qed


definition target_available :: "('cl, 'w, 'e) migration_options \<Rightarrow> migration \<Rightarrow> 'w \<Rightarrow> bool" where
  "target_available Q m w \<longleftrightarrow>
     (case mo_workspace_client Q (mo_staging_root Q @ '':'' @ ms_staging_workspace (mig_spec m)) of
        Inl e \<Rightarrow> False
      | Inr cl \<Rightarrow>
          (case k_get (mo_objects Q cl (mt_gvk (ms_to (mig_spec m)))) (migration_key m) w of
             Inl e \<Rightarrow> False
           | Inr u \<Rightarrow>
               nested_string (mo_unstructured Q) (un_object u) [''status'', ''status'']
                 = Inr (Some StatusAvailable)))"

lemma cutover_process_effect:
  "fst (snd (cutover_process Q c m w)) = m
   \<or> (mstate m = MStateCutoverInProgress \<and> target_available Q m w
      \<and> fst (snd (cutover_process Q c m w)) = set_mstate MStateCutoverCompleted m)"
proof (cases "mstate m = MStateCutoverInProgress")
  case False
  then show ?thesis by (simp add: cutover_process_def)
next
  case True
  show ?thesis
  proof (cases "target_available Q m w")
    case False
    with True show ?thesis
      by (simp add: cutover_process_def target_available_def StatusAvailable_def Let_def
          split: sum.splits option.splits)
  next
    case avail: True
    then obtain cl u where "mo_workspace_client Q (mo_staging_root Q @ '':'' @ ms_staging_workspace (mig_spec m)) = Inr cl"
      "k_get (mo_objects Q cl (mt_gvk (ms_to (mig_spec m)))) (migration_key m) w = Inr u"
      "nested_string (mo_unstructured Q) (un_object u) [''status'', ''status''] = Inr (Some StatusAvailable)"
      by (auto simp: target_available_def split: sum.splits)
    with True avail show ?thesis by (simp add: cutover_process_def Let_def)
  qed
qed

text \<open>The passes of the two subroutines over a Migration, with the states and worlds they ran in.\<close>

inductive migration_run ::
  "('cl, 'w, 'e) migration_options \<Rightarrow> ('cl, 'v) ctx \<Rightarrow> migration \<Rightarrow> (migration \<times> 'w) list \<Rightarrow> migration \<Rightarrow> bool"
  for Q c m where
  start: "migration_run Q c m [] m"
| stages: "migration_run Q c m xs x \<Longrightarrow> migration_run Q c m (xs @ [(x, w)]) (fst (snd (stages_process Q c x w)))"
| cutover: "migration_run Q c m xs x \<Longrightarrow> migration_run Q c m (xs @ [(x, w)]) (fst (snd (cutover_process Q c x w)))"

inductive_cases migration_run_emptyE: "migration_run Q c m [] x"

text \<open>
  Whatever passes run over a Migration, in any order and any worlds, its state only moves forward and
  its spec stays; and it is completed only by a pass that found the cutover in progress and the copy
  in the target workspace Available.
\<close>

theorem migration_moves_forward:
  assumes "migration_run Q c m xs m'" and "mstate m \<noteq> MStateCutoverCompleted"
  shows "mig_spec m' = mig_spec m \<and> state_rank (mstate m) \<le> state_rank (mstate m')
    \<and> (mstate m' = MStateCutoverCompleted \<longrightarrow>
         (\<exists>(x, w)\<in>set xs. mstate x = MStateCutoverInProgress \<and> mig_spec x = mig_spec m \<and> target_available Q x w))"
  using assms
proof (induction rule: migration_run.induct)
  case start
  then show ?case by simp
next
  case (stages xs x w)
  have a: "state_rank (mstate x) \<le> state_rank (mstate (fst (snd (stages_process Q c x w))))"
    "mstate (fst (snd (stages_process Q c x w))) = MStateCutoverCompleted \<Longrightarrow> mstate x = MStateCutoverCompleted"
    "mig_spec (fst (snd (stages_process Q c x w))) = mig_spec x"
    using stages_process_rank [of x Q c w] stages_process_frame [of Q c x w] by blast+
  from stages.IH [OF stages.prems] show ?case
    by (auto simp: a(3) dest: a(2) intro: order_trans [OF _ a(1)])
next
  case (cutover xs x w)
  from cutover.IH [OF cutover.prems] cutover_process_effect [of Q c x w] show ?case
    by (elim disjE conjE) auto
qed

theorem migration_moves_forward_witness:
  "\<exists>(x, w)\<in>set [(small_migration MStateCutoverInProgress, target_world)].
     mstate x = MStateCutoverInProgress \<and> mig_spec x = mig_spec (small_migration MStateCutoverInProgress)
     \<and> target_available small_migrator x w"
proof -
  let ?m = "small_migration MStateCutoverInProgress"
  let ?m' = "fst (snd (cutover_process small_migrator small_migration_ctx ?m target_world))"
  have run: "migration_run small_migrator small_migration_ctx ?m ([] @ [(?m, target_world)]) ?m'"
    by (rule migration_run.cutover [OF migration_run.start])
  have "mstate ?m' = MStateCutoverCompleted"
    by (simp add: cutover_process_def small_migration_def empty_migration_status_def migration_key_def
        target_copy [simplified] available_copy_def small_object_def un_object_def walk_api_def
        walk_string_def StatusAvailable_def)
  with migration_moves_forward [OF run] show ?thesis
    by (simp add: small_migration_def empty_migration_status_def)
qed

lemma complete_stage_advances:
  assumes "mst_stage (mig_status (fst (snd (complete_stage Q config i stage rs m w)))) \<noteq> mst_stage (mig_status m)"
  shows "i + 1 < length (mc_stages config)
    \<and> mst_stage (mig_status (fst (snd (complete_stage Q config i stage rs m w)))) = stg_name (mc_stages config ! (i + 1))"
  using assms by (auto simp: complete_stage_def Let_def split: prod.splits option.splits if_splits)

lemma run_stage_advances:
  assumes "mst_stage (mig_status (fst (snd (run_stage Q config i m w)))) \<noteq> mst_stage (mig_status m)"
  shows "\<exists>resources copies. i + 1 < length (mc_stages config)
    \<and> mst_stage (mig_status (fst (snd (run_stage Q config i m w)))) = stg_name (mc_stages config ! (i + 1))
    \<and> check_success_conditions Q (mc_stages config ! i) resources copies = Inr True"
proof -
  let ?m = "if mstate m = MStatePending then set_mstate MStateInitialInProgress m else m"
  have st: "mst_stage (mig_status ?m) = mst_stage (mig_status m)" by simp
  obtain copies where c: "staging_copies Q m w = Inr copies"
    using assms by (cases "staging_copies Q m w") (simp_all add: run_stage_def)
  have p: "eval_conditions (mo_cel Q) ''precondition'' (stg_preconditions (mc_stages config ! i)) copies = Inr True"
    using assms c
    by (cases "eval_conditions (mo_cel Q) ''precondition'' (stg_preconditions (mc_stages config ! i)) copies")
       (auto simp: run_stage_def Let_def split: bool.splits)
  obtain res w1 where d: "deploy_stage Q (m_name (mig_meta ?m)) (mc_stages config ! i) copies w = (Inr res, w1)"
    using assms c p st
    by (cases "deploy_stage Q (m_name (mig_meta ?m)) (mc_stages config ! i) copies w"; cases "fst (deploy_stage Q (m_name (mig_meta ?m)) (mc_stages config ! i) copies w)")
       (simp_all add: run_stage_def Let_def)
  have s: "check_success_conditions Q (mc_stages config ! i) res copies = Inr True"
    using assms c p d st
    by (cases "check_success_conditions Q (mc_stages config ! i) res copies")
       (auto simp: run_stage_def Let_def split: bool.splits)
  have "run_stage Q config i m w = complete_stage Q config i (mc_stages config ! i) (map snd res) ?m w1"
    using c p d s by (simp add: run_stage_def Let_def)
  with complete_stage_advances [of Q config i "mc_stages config ! i" "map snd res" ?m w1] assms st s
  show ?thesis by auto
qed

lemma run_migration_source:
  "fst (snd (run_migration Q cl m w)) = m
   \<or> (\<exists>w1. fst (snd (run_migration Q cl m w)) = fst (snd (run_configuration Q cl m w1)))"
proof -
  have same: "\<exists>out w2. mirror_related Q ws t p m w = (out, m, w2)" for ws t p w
    by (simp add: mirror_related_def split: prod.split)
  obtain out w2 where a: "mirror_related Q (ms_from_staging_workspace (mig_spec m)) (ms_from (mig_spec m)) ''from-'' m w = (out, m, w2)"
    using same by blast
  obtain out' w3 where b: "mirror_related Q (ms_staging_workspace (mig_spec m)) (ms_to (mig_spec m)) ''to-'' m w2 = (out', m, w3)"
    using same by blast
  show ?thesis
    unfolding run_migration_def a then_if_done_def
    using b by (auto simp: then_if_done_def split: outcome.splits option.splits if_splits)
qed

text \<open>
  A Migration leaves a stage only when the stage's success conditions hold, and then for the next
  stage of the configuration that matches its source and target kinds.
\<close>

theorem stages_advance_in_order:
  assumes "stages_process Q c m w = (out, m', w')"
    and "mst_stage (mig_status m') \<noteq> mst_stage (mig_status m)"
  shows "\<exists>cl config i w1 resources copies. ClientFromContext c = Inr cl
    \<and> find_configuration Q cl m w1 = Inr (Some config) \<and> stage_index config m = Inr i
    \<and> i + 1 < length (mc_stages config)
    \<and> mst_stage (mig_status m') = stg_name (mc_stages config ! (i + 1))
    \<and> check_success_conditions Q (mc_stages config ! i) resources copies = Inr True"
proof -
  let ?m = "if mstate m = MStateUnknown then set_mstate MStatePending m else m"
  have m': "m' = fst (snd (stages_process Q c m w))" using assms(1) by simp
  have same: "mst_stage (mig_status ?m) = mst_stage (mig_status m)"
    "find_configuration Q cl ?m w1 = find_configuration Q cl m w1" "stage_index config ?m = stage_index config m"
    for cl w1 config by (simp_all add: find_configuration_def stage_index_def cong: sum.case_cong option.case_cong)
  obtain cl where cl: "ClientFromContext c = Inr cl" "m' = fst (snd (run_migration Q cl ?m w))"
    using assms(2) same(1) m' by (cases "ClientFromContext c") (auto simp: stages_process_def Let_def split: if_splits)
  with run_migration_source [of Q cl ?m w] assms(2) same(1)
  obtain w1 where w1: "m' = fst (snd (run_configuration Q cl ?m w1))" by auto
  with assms(2) same(1) obtain config where f: "find_configuration Q cl ?m w1 = Inr (Some config)" "mc_stages config \<noteq> []"
    by (auto simp: run_configuration_def split: sum.splits option.splits if_splits)
  with w1 assms(2) same(1) obtain i where i: "stage_index config ?m = Inr i" "m' = fst (snd (run_stage Q config i ?m w1))"
    by (auto simp: run_configuration_def split: sum.splits)
  have "mst_stage (mig_status (fst (snd (run_stage Q config i ?m w1)))) \<noteq> mst_stage (mig_status ?m)"
    using assms(2) by (simp only: i(2) [symmetric] same(1) not_False_eq_True)
  note run_stage_advances [OF this, folded i(2)]
  moreover have "find_configuration Q cl m w1 = Inr (Some config)" "stage_index config m = Inr i"
    using f(1) i(1) same(2,3) by (simp_all only:)
  ultimately show ?thesis using cl(1) by blast
qed


theorem stages_advance_in_order_witness:
  "let m = small_migration MStatePending; w = target_world;
       m' = fst (snd (stages_process small_migrator small_migration_ctx m w))
   in \<exists>cl config i w1 resources copies. ClientFromContext small_migration_ctx = Inr cl
    \<and> find_configuration small_migrator cl m w1 = Inr (Some config) \<and> stage_index config m = Inr i
    \<and> i + 1 < length (mc_stages config)
    \<and> mst_stage (mig_status m') = stg_name (mc_stages config ! (i + 1))
    \<and> check_success_conditions small_migrator (mc_stages config ! i) resources copies = Inr True"
proof -
  let ?m = "small_migration MStatePending"
  let ?r = "stages_process small_migrator small_migration_ctx ?m target_world"
  have e: "?r = (fst ?r, fst (snd ?r), snd (snd ?r))" by simp
  have "mst_stage (mig_status (fst (snd ?r))) = ''two''"
    by (simp add: stages_process_def run_migration_def mirror_related_def copy_related_resources_def
        small_migration_def empty_migration_status_def then_if_done_def outcome_makers result_makers
        small_migration_ctx_def ClientFromContext_def migration_key_def collect_def target_copy
        available_copy_def small_object_def un_object_def walk_api_def walk_map_def
        run_configuration_def find_configuration_def small_configuration_def stage_index_def
        run_stage_def staging_copies_def eval_conditions_def cel_env_def literal_cel_def
        deploy_stage_def stage_named_def check_success_conditions_def complete_stage_def)
  then have "mst_stage (mig_status (fst (snd ?r))) \<noteq> mst_stage (mig_status ?m)"
    by (simp add: small_migration_def empty_migration_status_def)
  from stages_advance_in_order [OF e this] show ?thesis by (simp only: Let_def)
qed

end
