(* ===== verification/Broker_Cleanup.thy ===== *)
theory Broker_Cleanup
  imports Broker_Example Lifecycle_Props
begin

text \<open>
  The broker's controllers run by the lifecycle engine: in which order a deleted object lets go of
  what it holds, and that a controller built from validated options never panics.
\<close>

subsection \<open>The operations behind a trace\<close>

lemma run_trace_entry:
  assumes "(sub, act, out) \<in> set (run_trace L c deleting subs st)"
    and "lc_conditions L = None" and "P (rs_obj st)"
    and "\<And>ob f. P ob \<Longrightarrow> P (remove_finalizer (lc_iface L) ob f)"
    and "\<forall>s\<in>set subs. \<forall>f a ob w. resolve_action L s ob deleting = Some (f, a) \<longrightarrow> P ob \<longrightarrow>
           P (fst (snd (f c ob w)))"
  shows "\<exists>f ob w. resolve_action L sub ob deleting = Some (f, act) \<and> sub \<in> set subs
    \<and> out = fst (f c ob w) \<and> P ob"
  using assms(1,3,5)
proof (induction subs arbitrary: st)
  case Nil
  then show ?case by simp
next
  case (Cons s rest)
  have rest: "\<forall>s\<in>set rest. \<forall>f a ob w. resolve_action L s ob deleting = Some (f, a) \<longrightarrow> P ob \<longrightarrow>
      P (fst (snd (f c ob w)))"
    using Cons.prems(3) by simp
  show ?case
  proof (cases "resolve_action L s (rs_obj st) deleting")
    case None
    with Cons.prems(1) have "(sub, act, out) \<in> set (run_trace L c deleting rest st)" by simp
    from Cons.IH [OF this Cons.prems(2) rest] show ?thesis by auto
  next
    case (Some fa)
    obtain f a where fa: "fa = (f, a)" by force
    obtain st' go where r: "run_sub L c deleting s rest st = (st', go)" by force
    obtain o1 ob w where f: "f c (rs_obj st) (rs_world st) = (o1, ob, w)" by (metis prod_cases3)
    have "P (fst (snd (f c (rs_obj st) (rs_world st))))"
      using Cons.prems(2,3) Some fa by simp
    with f have ob: "P ob" by simp
    have fold: "P x \<Longrightarrow> P (foldl (remove_finalizer (lc_iface L)) x fs)" for x fs
      by (induction fs arbitrary: x) (auto intro: assms(4))
    have st': "P (rs_obj st')"
      using r Some fa f ob assms(2) fold
      by (auto simp: run_sub_def on_error_def on_result_def set_sub_condition_def drop_finalizers_def Let_def
          split: outcome.splits option.splits if_splits)
    show ?thesis
    proof (cases "(sub, act, out) = (s, a, o1)")
      case True
      with Some fa f Cons.prems(2) show ?thesis by (metis fst_conv list.set_intros(1) prod.inject)
    next
      case False
      with Cons.prems(1) Some fa f r
      have "(sub, act, out) \<in> set (run_trace L c deleting rest st')"
        by (auto split: bool.splits)
      from Cons.IH [OF this st' rest] show ?thesis by auto
    qed
  qed
qed

subsection \<open>The brokered-resource controller\<close>

lemma brokered_simps [simp]:
  "lc_conditions (brokered_lifecycle I api de cc B) = None"
  "lc_iface (brokered_lifecycle I api de cc B) = I"
  "lc_subroutines (brokered_lifecycle I api de cc B) = brokered_subroutines B"
  "lc_initializer (brokered_lifecycle I api de cc B) = []"
  "lc_terminator (brokered_lifecycle I api de cc B) = []"
  "lc_spread (brokered_lifecycle I api de cc B) = None"
  "lc_prepare (brokered_lifecycle I api de cc B) = None"
  by (simp_all add: brokered_lifecycle_def new_lifecycle_def)

lemma brokered_finalizers [simp]:
  "sub_finalizers (assignment_subroutine B) ob = [AssignmentFinalizer]"
  "sub_finalizers (copy_subroutine B) ob = [CopyFinalizer]"
  "sub_finalizers (related_subroutine B) ob = [RelatedResourcesFinalizer]"
  by (simp_all add: sub_finalizers_def assignment_subroutine_def copy_subroutine_def related_subroutine_def)

lemma broker_finalizers_differ:
  "AssignmentFinalizer \<noteq> CopyFinalizer" "AssignmentFinalizer \<noteq> RelatedResourcesFinalizer"
  "CopyFinalizer \<noteq> RelatedResourcesFinalizer"
  by (simp_all add: AssignmentFinalizer_def CopyFinalizer_def RelatedResourcesFinalizer_def)

lemma brokered_differ:
  "related_subroutine B \<noteq> assignment_subroutine B" "copy_subroutine B \<noteq> assignment_subroutine B"
  "related_subroutine B \<noteq> copy_subroutine B"
  by (simp_all add: related_subroutine_def assignment_subroutine_def copy_subroutine_def)

lemma brokered_resolve_deleting:
  assumes "resolve_action (brokered_lifecycle I api de cc B) sub ob True = Some (f, act)"
  shows "act = ActionFinalize \<and> (\<exists>fi. as_finalizer sub = Some fi \<and> f = Finalize fi)"
  using assms by (auto simp: resolve_action_def finalize_action_def split: option.splits if_splits)

lemma brokered_finalize_keeps:
  assumes "s \<in> set (brokered_subroutines B)"
    and "resolve_action (brokered_lifecycle I api de cc B) s ob True = Some (f, a)"
  shows "fst (snd (f c ob w)) = ob"
  using assms(1) brokered_resolve_deleting [OF assms(2)]
  by (auto simp: brokered_subroutines_def assignment_subroutine_def copy_subroutine_def
      related_subroutine_def broker_keeps_object)

text \<open>An operation of the chain in a deletion pass is the Finalize of its subroutine, on the same key.\<close>

lemma brokered_trace_entry:
  assumes "(sub, act, out) \<in> set (run_trace (brokered_lifecycle (uobj_iface tu fu) api de cc B) c True subs st)"
    and "set subs \<subseteq> set (brokered_subroutines B)" and "un_key (rs_obj st) = key"
  shows "act = ActionFinalize \<and> sub \<in> set subs
    \<and> (\<exists>fi ob w. as_finalizer sub = Some fi \<and> out = fst (Finalize fi c ob w) \<and> un_key ob = key)"
proof -
  let ?L = "brokered_lifecycle (uobj_iface tu fu) api de cc B"
  have "\<exists>f ob w. resolve_action ?L sub ob True = Some (f, act) \<and> sub \<in> set subs
      \<and> out = fst (f c ob w) \<and> un_key ob = key"
  proof (rule run_trace_entry [OF assms(1), where P = "\<lambda>x. un_key x = key"])
    show "un_key (rs_obj st) = key" by (rule assms(3))
    show "un_key (remove_finalizer (lc_iface ?L) ob f) = key" if "un_key ob = key" for ob f
      using that by (simp add: uobj_iface_def typed_iface_def un_key_def un_namespace_def un_name_def)
    show "\<forall>s\<in>set subs. \<forall>f a ob w. resolve_action ?L s ob True = Some (f, a) \<longrightarrow> un_key ob = key \<longrightarrow>
        un_key (fst (snd (f c ob w))) = key"
      using brokered_finalize_keeps assms(2) by (metis subsetD)
  qed simp
  then show ?thesis using brokered_resolve_deleting by blast
qed

text \<open>The staging copy of an object is gone, or was never made: no bound Assignment.\<close>

definition copy_gone :: "('cl, 'w) broker_options \<Rightarrow> string \<Rightarrow> uobj \<Rightarrow> 'w \<Rightarrow> bool" where
  "copy_gone B consumer u w =
     (case staging_client B consumer u w of
        Inl out \<Rightarrow> (case out of Ret r None \<Rightarrow> True | _ \<Rightarrow> False)
      | Inr cl \<Rightarrow>
          (case k_get (o_objects B cl (o_gvk B)) (un_key u) w of Inl e \<Rightarrow> is_not_found e | Inr x \<Rightarrow> False))"

lemma copy_finalize_done:
  assumes "fst (copy_finalize B c u w) = Ret r None" and "is_continue r"
  shows "\<exists>consumer. ctx_cluster c = Some consumer \<and> copy_gone B consumer u w"
  using assms
  by (auto simp: copy_finalize_def copy_gone_def not_staged_def Let_def is_continue_def outcome_makers
      result_makers split: option.splits sum.splits outcome.splits if_splits prod.splits)

text \<open>
  The finalizer that guards the staging copy leaves a consumer object only after the copy subroutine
  saw, for that object's key, that the copy is gone from the bound staging workspace or that no
  Assignment was bound.
\<close>

theorem copy_finalizer_waits_for_copy:
  assumes "L = brokered_lifecycle (uobj_iface tu fu) api de cc B"
    and "CopyFinalizer \<in> set (m_finalizers (un_meta u))"
    and "CopyFinalizer \<notin> set (m_finalizers (un_meta (rs_obj (run_phase L c True u w))))"
  shows "\<exists>consumer u1 w1. ctx_cluster c = Some consumer \<and> un_key u1 = un_key u \<and> copy_gone B consumer u1 w1"
proof -
  let ?I = "uobj_iface tu fu"
  have eng: "engine ?I L" unfolding assms(1) by (rule brokered.engine_axioms)
  have fin: "obj_finalizers ?I x = m_finalizers (un_meta x)" for x
    by (simp add: uobj_iface_def typed_iface_def)
  obtain sub act out ob where e: "(sub, act, out) \<in> set (phase_trace L c True u w)"
    "finalize_done act out" "CopyFinalizer \<in> set (sub_finalizers sub ob)"
    using phase_dropped_finalizer [OF eng, of CopyFinalizer u c True w] assms(2,3) fin by auto
  have key: "un_key (rs_obj (start_run (phase_object L u) w)) = un_key u"
    by (simp add: start_run_def phase_object_def assms(1))
  have sub: "set (phase_subs L True) \<subseteq> set (brokered_subroutines B)"
    by (simp add: phase_subs_def assms(1))
  from brokered_trace_entry [OF e(1) [unfolded phase_trace_def assms(1)] sub [unfolded assms(1)] key [unfolded assms(1)]]
  obtain fi u1 w1 where o: "sub \<in> set (brokered_subroutines B)" "act = ActionFinalize"
    "as_finalizer sub = Some fi" "out = fst (Finalize fi c u1 w1)" "un_key u1 = un_key u"
    using sub [unfolded assms(1)] by auto
  have "sub = copy_subroutine B"
    using o(1) e(3) broker_finalizers_differ by (auto simp: brokered_subroutines_def)
  with o(3,4) have "out = fst (copy_finalize B c u1 w1)" by (auto simp: copy_subroutine_def)
  with e(2) o(5) show ?thesis
    using copy_finalize_done [of B c u1 w1] by (auto simp: finalize_done_def split: outcome.splits option.splits)
qed


lemma brokered_continue_done:
  assumes "out = fst (copy_finalize B c u w) \<or> out = fst (related_finalize B c u w)" and "continues out"
  shows "finalize_done ActionFinalize out"
  using assms
  by (auto simp: copy_finalize_def related_finalize_def not_staged_def Let_def continues_def
      finalize_done_def outcome_makers result_makers result_preds
      split: option.splits sum.splits outcome.splits if_splits prod.splits)

lemma last_of_subseq:
  assumes "subseq xs (ys @ [a])" and "a \<in> set xs" and "a \<notin> set ys"
  shows "last xs = a"
proof -
  obtain us vs where x: "xs = us @ vs" "subseq us ys" "subseq vs [a]"
    using assms(1) by (auto simp: subseq_append_iff)
  have "a \<notin> set us" using x(2) assms(3) by (auto dest: list_emb_set)
  with assms(2) x have a: "a \<in> set vs" by simp
  have "length vs \<le> 1" using list_emb_length [OF x(3)] by simp
  with a have "vs = [a]" by (cases vs) auto
  with x(1) show ?thesis by simp
qed

lemma deletion_entry:
  assumes "L = brokered_lifecycle (uobj_iface tu fu) api de cc B" and "(s, act, o1) \<in> set (phase_trace L c True u w)"
  shows "act = ActionFinalize" and "s \<in> set (brokered_subroutines B)"
    and "\<exists>fi ob w. as_finalizer s = Some fi \<and> o1 = fst (Finalize fi c ob w)"
  using brokered_trace_entry [of s act o1 tu fu api de cc B c "phase_subs L True"
      "start_run (phase_object L u) w" "un_key (rs_obj (start_run (phase_object L u) w))"] assms
  by (auto simp: phase_trace_def phase_subs_def)

lemma assignment_entry_is_last:
  assumes "L = brokered_lifecycle (uobj_iface tu fu) api de cc B"
    and "(assignment_subroutine B, act, out) \<in> set (phase_trace L c True u w)"
  shows "distinct (map fst (phase_trace L c True u w))"
    and "last (phase_trace L c True u w) = (assignment_subroutine B, act, out)"
proof -
  let ?tr = "phase_trace L c True u w"
  have subs: "phase_subs L True = [related_subroutine B, copy_subroutine B, assignment_subroutine B]"
    by (simp add: phase_subs_def assms(1) brokered_subroutines_def)
  have seq: "subseq (map fst ?tr) ([related_subroutine B, copy_subroutine B] @ [assignment_subroutine B])"
    using run_trace_subseq [of L c True "phase_subs L True"] by (simp add: phase_trace_def subs)
  then show dist: "distinct (map fst ?tr)"
    by (auto simp: subseq_conv_nths brokered_differ intro!: distinct_nthsI)
  have ne: "?tr \<noteq> []" using assms(2) by auto
  have "last (map fst ?tr) = assignment_subroutine B"
  proof (rule last_of_subseq [OF seq])
    show "assignment_subroutine B \<in> set (map fst ?tr)" using assms(2) by force
  qed (simp add: brokered_differ brokered_differ [symmetric])
  then have "fst (last ?tr) = assignment_subroutine B" using ne by (simp add: last_map)
  then show "last ?tr = (assignment_subroutine B, act, out)"
    using dist assms(2) ne by (metis (no_types, lifting) distinct_map fst_conv inj_onD last_in_set)
qed

lemma done_before_assignment:
  assumes "L = brokered_lifecycle (uobj_iface tu fu) api de cc B"
    and "(assignment_subroutine B, act, out) \<in> set (phase_trace L c True u w)" and "finalize_done act out"
    and "(s, a, o1) \<in> set (phase_trace L c True u w)"
  shows "finalize_done a o1"
proof (cases "(s, a, o1) = last (phase_trace L c True u w)")
  case True
  with assignment_entry_is_last(2) [OF assms(1,2)] assms(3) show ?thesis by simp
next
  case False
  let ?tr = "phase_trace L c True u w"
  have "(s, a, o1) \<in> set (butlast ?tr)" using False assms(4)
    by (metis Un_iff append_butlast_last_id empty_iff empty_set list.set_intros(1) set_ConsD set_append)
  then have "o1 \<in> set (butlast (outcomes ?tr))" by (force simp: outcomes_def map_butlast [symmetric])
  then have c1: "continues o1"
    using run_phase_summary(6) [OF refl refl, of L c True "phase_subs L True" "phase_object L u" w]
    by (simp add: phase_trace_def list_all_iff)
  have "s \<noteq> assignment_subroutine B"
    using False assms(4) assignment_entry_is_last [OF assms(1,2)]
    by (metis (no_types, lifting) assms(2) distinct_map fst_conv inj_onD)
  with deletion_entry [OF assms(1,4)] obtain fi ob1 w1 where fi: "a = ActionFinalize" "as_finalizer s = Some fi"
    "o1 = fst (Finalize fi c ob1 w1)" "s = copy_subroutine B \<or> s = related_subroutine B"
    by (auto simp: brokered_subroutines_def)
  then have "o1 = fst (copy_finalize B c ob1 w1) \<or> o1 = fst (related_finalize B c ob1 w1)"
    by (auto simp: copy_subroutine_def related_subroutine_def)
  from brokered_continue_done [OF this c1] fi(1) show ?thesis by simp
qed

text \<open>
  C8. The Assignment is released last. When a deletion pass over a consumer object drops the finalizer
  of the assignment subroutine, the finalizers of the copies and of the related resources are gone
  after it as well.
\<close>

theorem assignment_released_last:
  assumes "L = brokered_lifecycle (uobj_iface tu fu) api de cc B"
    and "AssignmentFinalizer \<in> set (m_finalizers (un_meta u))"
    and "st = run_phase L c True u w"
    and "AssignmentFinalizer \<notin> set (m_finalizers (un_meta (rs_obj st)))"
  shows "CopyFinalizer \<notin> set (m_finalizers (un_meta (rs_obj st)))
    \<and> RelatedResourcesFinalizer \<notin> set (m_finalizers (un_meta (rs_obj st)))"
proof -
  let ?I = "uobj_iface tu fu"
  let ?tr = "phase_trace L c True u w"
  have eng: "engine ?I L" unfolding assms(1) by (rule brokered.engine_axioms)
  have fin: "obj_finalizers ?I x = m_finalizers (un_meta x)" for x
    by (simp add: uobj_iface_def typed_iface_def)
  obtain sub act out ob where e: "(sub, act, out) \<in> set ?tr" "finalize_done act out"
    "AssignmentFinalizer \<in> set (sub_finalizers sub ob)"
    using phase_dropped_finalizer [OF eng, of AssignmentFinalizer u c True w] assms(2,3,4) fin by auto
  have "sub = assignment_subroutine B"
    using deletion_entry [OF assms(1) e(1)] e(3) broker_finalizers_differ by (auto simp: brokered_subroutines_def)
  with done_before_assignment [OF assms(1)] e(1,2) have dn: "\<forall>(s, a, o1)\<in>set ?tr. finalize_done a o1" by blast
  have "f \<notin> set (obj_finalizers ?I (rs_obj (run_phase L c True u w)))"
    if "s \<in> set (lc_subroutines L)" "\<And>ob. f \<in> set (sub_finalizers s ob)" for s f
    using engine.run_subs_releases [OF eng phase_subs_subset, of c True
        "start_run (phase_object L u) w" s f] dn that
    by (simp add: phase_trace_def run_phase_unfold phase_subs_def)
  from this [of "copy_subroutine B" CopyFinalizer] this [of "related_subroutine B" RelatedResourcesFinalizer]
  show ?thesis using assms(1,3) fin by (auto simp: brokered_subroutines_def)
qed

text \<open>Deleting a consumer object that no Assignment was made for.\<close>

definition deletion_ctx :: "(string, unit) ctx" where
  "deletion_ctx = \<lparr>ctx_cluster = Some ''c'', ctx_client = Some ''consumer'', ctx_values = ()\<rparr>"

definition small_engine_api :: "(string, uobj, small_world) engine_api" where
  "small_engine_api = \<lparr>api_get = (\<lambda>_ _ _. Inl (Err NotFound ''gone'')),
                      api_patch = (\<lambda>_ cur _ w. (None, cur, w)),
                      api_status_patch = (\<lambda>_ cur _ w. (None, cur, w))\<rparr>"

abbreviation small_controller_of_things :: "(string, unit, uobj, small_world) lifecycle" where
  "small_controller_of_things \<equiv>
     brokered_lifecycle (uobj_iface (\<lambda>_. Inr JNull) (\<lambda>_ x. (None, x))) small_engine_api (=) (\<lambda>_. Inr ''consumer'')
       small_broker"

definition all_finalizers :: "string list" where
  "all_finalizers = [AssignmentFinalizer, CopyFinalizer, RelatedResourcesFinalizer]"

lemmas deletion_simps =
  run_phase_def brokered_subroutines_def related_subroutine_def copy_subroutine_def
  assignment_subroutine_def pass_simps uobj_iface_def typed_iface_def small_object_def
  new_meta_def all_finalizers_def deletion_ctx_def ClientFromContext_def un_namespace_def un_name_def

lemma deletion_of_unassigned:
  "rs_obj (run_phase small_controller_of_things deletion_ctx True (small_object ''x'' (Some 1) all_finalizers) empty_world)
     = small_object ''x'' (Some 1) []"
  by (simp add: deletion_simps related_finalize_def copy_finalize_def assignment_finalize_def
      staging_client_def not_staged_def is_not_found_def empty_world_def
      broker_finalizers_differ broker_finalizers_differ [symmetric] Let_def)


lemma small_finalizers:
  "m_finalizers (un_meta (small_object n d fs)) = fs" "un_key (small_object n d fs) = ([], n)"
  by (simp_all add: small_object_def un_key_def un_namespace_def un_name_def new_meta_def)

lemma all_finalizers_mem:
  "AssignmentFinalizer \<in> set all_finalizers" "CopyFinalizer \<in> set all_finalizers"
  by (simp_all add: all_finalizers_def)

theorem copy_finalizer_waits_for_copy_witness:
  "\<exists>consumer u1 w1. ctx_cluster deletion_ctx = Some consumer
     \<and> un_key u1 = un_key (small_object ''x'' (Some 1) all_finalizers)
     \<and> copy_gone small_broker consumer u1 (w1 :: small_world)"
  by (rule copy_finalizer_waits_for_copy [OF refl [of small_controller_of_things], where w = empty_world])
     (simp_all add: deletion_of_unassigned small_finalizers all_finalizers_mem)

theorem assignment_released_last_witness:
  "CopyFinalizer \<notin> set (m_finalizers (un_meta (rs_obj (run_phase small_controller_of_things deletion_ctx True
       (small_object ''x'' (Some 1) all_finalizers) empty_world))))
   \<and> RelatedResourcesFinalizer \<notin> set (m_finalizers (un_meta (rs_obj (run_phase small_controller_of_things
       deletion_ctx True (small_object ''x'' (Some 1) all_finalizers) empty_world))))"
  by (rule assignment_released_last [OF refl _ refl])
     (simp_all add: deletion_of_unassigned small_finalizers all_finalizers_mem)


subsection \<open>Tearing down a staging workspace\<close>

lemma staging_controller_simps:
  assumes "L = the (staging_controller M (staging_iface tu fu) api de cc P)"
  shows "lc_iface L = staging_iface tu fu" "lc_conditions L = Some (conditions_manager M (staging_iface tu fu))"
    "lc_subroutines L = [workspace_subroutine P, binding_subroutine P]" "lc_reporters L = []"
    "lc_initializer L = []" "lc_terminator L = []" "lc_spread L = None" "lc_prepare L = None"
  by (simp_all add: assms staging_controller_Some new_lifecycle_def)

lemma staging_conditions_keep:
  "m_finalizers (sw_meta (cm_init (conditions_manager M (staging_iface tu fu)) x ns)) = m_finalizers (sw_meta x)"
  "m_finalizers (sw_meta (cm_subroutine (conditions_manager M (staging_iface tu fu)) x n r e b)) = m_finalizers (sw_meta x)"
  using staging_obj.std_conditions.finalizers_init staging_obj.std_conditions.finalizers_subroutine
  by (simp_all add: staging_iface_finalizers)

lemma referenced_pass:
  assumes "L = the (staging_controller M (staging_iface tu fu) api de cc P)" and "has_reference y"
  shows "rs_world (run_subs L c True [workspace_subroutine P] (start_run y w)) = w
    \<and> m_finalizers (sw_meta (rs_obj (run_subs L c True [workspace_subroutine P] (start_run y w))))
        = m_finalizers (sw_meta y)"
proof -
  note L = staging_controller_simps [OF assms(1)]
  have wf: "workspace_finalize P c y w = (ret_pending (so_interval P) ''waiting for references to be released'', y, w)"
    using assms(2) by (simp add: workspace_finalize_def)
  show ?thesis
    by (simp add: run_sub_def resolve_action_def finalize_action_def workspace_subroutine_def L wf
        start_run_def on_result_def set_sub_condition_def drop_finalizers_def staging_conditions_keep
        outcome_makers result_makers result_preds)
qed

text \<open>
  While an Assignment or a Migration still references a staging workspace, a deletion pass of its
  controller touches nothing: no API is called and every finalizer stays, so the kcp workspace
  outlives its last reference.
\<close>

theorem teardown_waits_for_references:
  assumes "L = the (staging_controller M (staging_iface tu fu) api de cc P)"
    and "has_reference sw"
  shows "rs_world (run_phase L c True sw w) = w
    \<and> m_finalizers (sw_meta (rs_obj (run_phase L c True sw w))) = m_finalizers (sw_meta sw)"
proof -
  note L = staging_controller_simps [OF assms(1)]
  let ?x = "cm_init (conditions_manager M (staging_iface tu fu)) sw (map sub_name (lc_subroutines L))"
  have x: "m_finalizers (sw_meta ?x) = m_finalizers (sw_meta sw)" by (rule staging_conditions_keep)
  then have ref: "has_reference ?x" using assms(2) by (simp add: has_reference_def)
  have b: "run_sub L c True (binding_subroutine P) rest st = (st, True)" for rest st
    by (simp add: run_sub_def resolve_action_def finalize_action_def binding_subroutine_def L)
  have "run_phase L c True sw w = run_subs L c True [workspace_subroutine P] (start_run ?x w)"
    unfolding run_phase_def L(2,3) Let_def by (simp add: b)
  with referenced_pass [OF assms(1) ref, of c w] x show ?thesis by simp
qed

text \<open>A server whose only objects are the kcp workspaces.\<close>

definition small_stager :: "(string, kcp_workspace list) staging_options" where
  "small_stager =
     \<lparr>so_root = ''root:staging'', so_workspace_client = Inr, so_interval = 10,
      so_workspaces = (\<lambda>cl. list_client (\<lambda>w. w) (\<lambda>xs w. xs) (\<lambda>k. ([], kw_name k))),
      so_exports = (\<lambda>cl. list_client (\<lambda>w. []) (\<lambda>xs w. w) (\<lambda>x. ([], ex_name x))),
      so_create_or_update = (\<lambda>cl f b w. (Inr (True, f b), w))\<rparr>"

theorem teardown_waits_for_references_witness:
  "let sw = small_staging ''s'' SPhaseReady [staging_ref_finalizer ''a'', StagingFinalizer];
       L = the (staging_controller list_meta (staging_iface (\<lambda>_. Inr JNull) (\<lambda>_ x. (None, x)))
             \<lparr>api_get = (\<lambda>cl k w. Inr sw), api_patch = (\<lambda>cl x o1 w. (None, x, w)),
              api_status_patch = (\<lambda>cl x o1 w. (None, x, w))\<rparr> (=) (\<lambda>c :: (string, unit) ctx. Inr ''coord'') small_stager)
   in rs_world (run_phase L deletion_ctx True sw [new_workspace ''s'']) = [new_workspace ''s'']
    \<and> m_finalizers (sw_meta (rs_obj (run_phase L deletion_ctx True sw [new_workspace ''s'']))) = m_finalizers (sw_meta sw)"
  unfolding Let_def
  by (rule teardown_waits_for_references [OF refl])
     (simp add: small_staging_def has_reference_def staging_ref_finalizer_def)

subsection \<open>No panics\<close>

definition never_panics :: "('cl, 'v, 'o, 'w) sub_action \<Rightarrow> bool" where
  "never_panics f \<longleftrightarrow> (\<forall>c ob w p. fst (f c ob w) \<noteq> Panic p)"

definition sub_never_panics :: "('cl, 'v, 'o, 'w) subroutine \<Rightarrow> bool" where
  "sub_never_panics sub \<longleftrightarrow>
     pred_option never_panics (as_processor sub)
   \<and> pred_option (\<lambda>fi. never_panics (Finalize fi)) (as_finalizer sub)
   \<and> pred_option never_panics (as_initializer sub)
   \<and> pred_option never_panics (as_terminator sub)"

lemma run_subs_no_panic:
  assumes "\<forall>s\<in>set subs. sub_never_panics s"
  shows "rs_panic (run_subs L c deleting subs st) = rs_panic st"
  using assms
proof (induction subs arbitrary: st)
  case Nil
  show ?case by simp
next
  case (Cons s rest)
  show ?case
  proof (cases "resolve_action L s (rs_obj st) deleting")
    case None
    with Cons show ?thesis by (simp add: run_sub_def)
  next
    case (Some fa)
    obtain f a where fa: "fa = (f, a)" by force
    obtain st' go where r: "run_sub L c deleting s rest st = (st', go)" by force
    have "never_panics f" using Some fa Cons.prems
      by (auto simp: resolve_action_def finalize_action_def process_action_def sub_never_panics_def
          split: if_splits option.splits)
    then have "fst (f c (rs_obj st) (rs_world st)) \<noteq> Panic p" for p by (simp add: never_panics_def)
    then have "rs_panic st' = rs_panic st"
      using run_sub_flags(7) [OF Some [unfolded fa] refl r] by (auto split: outcome.splits)
    with Cons r show ?thesis by (cases go) auto
  qed
qed

lemma finish_no_panic: "rs_panic st = None \<Longrightarrow> fst (finish L cl d orig st) \<noteq> Reconcile_panic p"
  by (auto simp: finish_def split: prod.split option.split)

lemma process_object_no_panic:
  assumes "\<forall>s\<in>set (lc_subroutines L). sub_never_panics s"
  shows "fst (process_object L c cl d orig ob w) \<noteq> Reconcile_panic p"
proof -
  have "rs_panic (run_phase L c' d ob w) = None" for c'
    unfolding run_phase_unfold using assms
    by (subst run_subs_no_panic) (auto simp: phase_subs_def start_run_def)
  then show ?thesis
    by (simp add: process_object_def finish_no_panic split: sum.split)
qed

lemma reconcile_object_no_panic:
  assumes "\<forall>s\<in>set (lc_subroutines L). sub_never_panics s"
  shows "fst (reconcile_object L c cl ob w) \<noteq> Reconcile_panic p"
  by (simp add: reconcile_object_def process_object_no_panic [OF assms] Let_def
      split: option.split prod.split bool.split)

lemma reconcile_no_panic:
  assumes "\<forall>s\<in>set (lc_subroutines L). sub_never_panics s"
  shows "fst (reconcile L c req w) \<noteq> Reconcile_panic p"
  by (simp add: reconcile_def reconcile_object_no_panic [OF assms] Let_def split: sum.split)

lemma ret_pending_pos: "0 < d \<Longrightarrow> ret_pending d msg \<noteq> Panic p"
  by (simp add: ret_pending_def Pending_def)

lemma ret_no_panic [simp]: "ret r \<noteq> Panic p" "ret_err e \<noteq> Panic p"
  by (simp_all add: ret_def ret_err_def)

lemma staging_never_panics:
  assumes "0 < so_interval P"
  shows "sub_never_panics (workspace_subroutine P)" "sub_never_panics (binding_subroutine P)"
  using ret_pending_pos [OF assms]
  by (auto simp: sub_never_panics_def never_panics_def workspace_subroutine_def binding_subroutine_def
      workspace_process_def workspace_finalize_def binding_process_def Let_def
      split: sum.split option.split prod.split)

lemma then_if_done_no_panic:
  assumes "fst res \<noteq> Panic p" and "\<And>a w. fst (k a w) \<noteq> Panic p"
  shows "fst (then_if_done res k) \<noteq> Panic p"
  using assms by (auto simp: then_if_done_def split: prod.split outcome.split option.split)


lemma assignment_steps_no_panic:
  assumes "0 < o_interval B"
  shows "fst (create_assignment B name consumer u w) \<noteq> Panic p"
    and "fst (bind_staging B a ws w) \<noteq> Panic p"
    and "fst (start_migration B consumer a u w) \<noteq> Panic p"
    and "fst (finish_migration B a m u w) \<noteq> Panic p"
    and "fst (finalize_migration B name m w) \<noteq> Panic p"
    and "fst (finalize_assignment B name a w) \<noteq> Panic p"
proof -
  note pend = ret_pending_pos [OF assms]
  show "fst (create_assignment B name consumer u w) \<noteq> Panic p"
    by (simp add: create_assignment_def pend Let_def split: sum.split prod.split option.split)
  show "fst (bind_staging B a ws w) \<noteq> Panic p"
    by (simp add: bind_staging_def pend Let_def split: sum.split prod.split option.split)
  have prep: "prepare_destination B a pick dest w1 = (Some out, w2) \<Longrightarrow> out \<noteq> Panic p" for a pick dest w1 out w2
    by (auto simp: prepare_destination_def pend Let_def split: sum.splits prod.splits option.splits if_splits)
  show "fst (start_migration B consumer a u w) \<noteq> Panic p"
    by (simp add: start_migration_def pend prep Let_def split: sum.split prod.split option.split)
  have ret: "retire_source B a m u w1 = (Some out, w2) \<Longrightarrow> out \<noteq> Panic p" for a w1 out w2
    by (auto simp: retire_source_def pend Let_def split: sum.splits prod.splits option.splits if_splits)
  show "fst (finish_migration B a m u w) \<noteq> Panic p"
    by (simp add: finish_migration_def pend ret Let_def split: prod.split option.split)
  show "fst (finalize_migration B name m w) \<noteq> Panic p"
    by (simp add: finalize_migration_def pend Let_def split: prod.split option.split)
  show "fst (finalize_assignment B name a w) \<noteq> Panic p"
    by (simp add: finalize_assignment_def pend Let_def split: prod.split option.split)
qed

lemma reconcile_assignment_no_panic:
  assumes "0 < o_interval B"
  shows "fst (reconcile_assignment B consumer a u w) \<noteq> Panic p"
proof -
  note pend = ret_pending_pos [OF assms] and steps = assignment_steps_no_panic [OF assms]
  have "fst (ensure_bound B a w) \<noteq> Panic p" for a w
    by (simp add: ensure_bound_def steps Let_def split: sum.split)
  moreover have "fst (validate_provider B consumer a u w) \<noteq> Panic p" for a w
    by (simp add: validate_provider_def steps Let_def split: sum.split)
  ultimately have "fst (then_if_done (ensure_bound B a w) (\<lambda>a w. validate_provider B consumer a u w)) \<noteq> Panic p"
    for w by (intro then_if_done_no_panic)
  then show ?thesis
    by (simp add: reconcile_assignment_def pend steps split: sum.split)
qed

lemma assignment_operations_no_panic:
  assumes "0 < o_interval B"
  shows "fst (assignment_process B c u w) \<noteq> Panic p" "fst (assignment_finalize B c u w) \<noteq> Panic p"
proof -
  note pend = ret_pending_pos [OF assms] and steps = assignment_steps_no_panic [OF assms]
  have create: "create_assignment B n c u w = (out, w') \<Longrightarrow> out \<noteq> Panic p" for n c u w out w' p
    using steps(1) [of n c u w p] by auto
  have rec: "reconcile_assignment B c a u w = (out, a', w') \<Longrightarrow> out \<noteq> Panic p" for c a u w out a' w' p
    using reconcile_assignment_no_panic [OF assms, of c a u w p] by auto
  have fm: "finalize_migration B n m w = (out, w') \<Longrightarrow> out \<noteq> Panic p" for n m w out w' p
    using steps(5) [of n m w p] by auto
  have fa: "finalize_assignment B n a w = (out, w') \<Longrightarrow> out \<noteq> Panic p" for n a w out w' p
    using steps(6) [of n a w p] by auto
  show "fst (assignment_process B c u w) \<noteq> Panic p"
    by (auto simp: assignment_process_def pend Let_def dest: create rec
        split: option.split sum.split prod.split outcome.split)
  show "fst (assignment_finalize B c u w) \<noteq> Panic p"
    by (auto simp: assignment_finalize_def Let_def dest: fm fa split: option.split sum.split prod.split)
qed

lemma staging_client_no_panic:
  assumes "0 < o_interval B" and "staging_client B consumer u w = Inl out"
  shows "out \<noteq> Panic p" "not_staged out \<noteq> Panic p"
proof -
  have "out \<noteq> Panic q" for q
    using assms(2) ret_pending_pos [OF assms(1)]
    by (auto simp: staging_client_def Let_def split: sum.splits if_splits)
  then show "out \<noteq> Panic p" "not_staged out \<noteq> Panic p"
    by (auto simp: not_staged_def split: outcome.split option.split)
qed

lemma copy_target_no_panic:
  assumes "0 < o_interval B"
  shows "copy_to_migration_target B m u cc consumer w = (out, w') \<Longrightarrow> out \<noteq> Panic p"
  using ret_pending_pos [OF assms]
  by (auto simp: copy_to_migration_target_def Let_def split: sum.splits prod.splits option.splits if_splits)

lemma copy_to_staging_no_panic: "copy_to_staging B cl u cc consumer w = (out, w') \<Longrightarrow> out \<noteq> Panic p"
  by (auto simp: copy_to_staging_def split: prod.splits option.splits)

lemma copy_operations_no_panic:
  assumes "0 < o_interval B"
  shows "fst (copy_process B c u w) \<noteq> Panic p" "fst (copy_finalize B c u w) \<noteq> Panic p"
proof -
  note client = staging_client_no_panic [OF assms]
  show "fst (copy_process B c u w) \<noteq> Panic p"
    by (auto simp: copy_process_def dest: copy_target_no_panic [OF assms] copy_to_staging_no_panic client
        split: option.split sum.split prod.split)
  show "fst (copy_finalize B c u w) \<noteq> Panic p"
    by (auto simp: copy_finalize_def Let_def dest: client split: option.split sum.split prod.split)
qed

lemma related_operations_no_panic:
  assumes "0 < o_interval B"
  shows "fst (related_process B c u w) \<noteq> Panic p" "fst (related_finalize B c u w) \<noteq> Panic p"
proof -
  note client = staging_client_no_panic [OF assms] and pend = ret_pending_pos [OF assms]
  show "fst (related_process B c u w) \<noteq> Panic p"
    by (auto simp: related_process_def pend dest: client split: option.split sum.split prod.split)
  show "fst (related_finalize B c u w) \<noteq> Panic p"
    by (auto simp: related_finalize_def dest: client split: option.split sum.split prod.split)
qed

lemma stages_no_panic:
  assumes "0 < mo_interval Q"
  shows "fst (complete_stage Q config i stage rs m w) \<noteq> Panic p"
    and "fst (run_stage Q config i m w) \<noteq> Panic p"
    and "fst (run_configuration Q cl m w) \<noteq> Panic p"
    and "fst (mirror_related Q ws t pre m w) \<noteq> Panic p"
proof -
  note pend = ret_pending_pos [OF assms]
  have complete: "fst (complete_stage Q config i stage rs m w) \<noteq> Panic p" for config i stage rs m w p
    by (simp add: complete_stage_def pend Let_def split: prod.split option.split)
  have stage: "fst (run_stage Q config i m w) \<noteq> Panic p" for config i m w p
    by (simp add: run_stage_def pend complete Let_def split: sum.split prod.split bool.split)
  show "fst (complete_stage Q config i stage rs m w) \<noteq> Panic p" by (rule complete)
  show "fst (run_stage Q config i m w) \<noteq> Panic p" by (rule stage)
  show "fst (run_configuration Q cl m w) \<noteq> Panic p"
    by (simp add: run_configuration_def stage split: sum.split option.split)
  show "fst (mirror_related Q ws t pre m w) \<noteq> Panic p"
    by (simp add: mirror_related_def copy_related_resources_def pend split: sum.split prod.split option.split)
qed

lemma run_migration_no_panic:
  assumes "0 < mo_interval Q"
  shows "fst (run_migration Q cl m w) \<noteq> Panic p"
  unfolding run_migration_def by (intro then_if_done_no_panic stages_no_panic [OF assms])

lemma migration_operations_no_panic:
  assumes "0 < mo_interval Q"
  shows "fst (stages_process Q c m w) \<noteq> Panic p" "fst (stages_finalize Q c m w) \<noteq> Panic p"
    and "fst (cutover_process Q c m w) \<noteq> Panic p"
  using ret_pending_pos [OF assms]
  by (simp_all add: stages_process_def stages_finalize_def cutover_process_def run_migration_no_panic [OF assms]
      Let_def split: sum.split option.split prod.split)

lemma broker_never_panics:
  assumes "0 < o_interval B"
  shows "sub_never_panics (assignment_subroutine B)" "sub_never_panics (copy_subroutine B)"
    and "sub_never_panics (related_subroutine B)"
  by (simp_all add: sub_never_panics_def never_panics_def assignment_subroutine_def copy_subroutine_def
      related_subroutine_def assignment_operations_no_panic [OF assms] copy_operations_no_panic [OF assms]
      related_operations_no_panic [OF assms])

lemma migration_never_panics:
  assumes "0 < mo_interval Q"
  shows "sub_never_panics (stages_subroutine Q)" "sub_never_panics (cutover_subroutine Q)"
  by (simp_all add: sub_never_panics_def never_panics_def stages_subroutine_def cutover_subroutine_def
      migration_operations_no_panic [OF assms])

text \<open>
  Controllers built from validated options never panic: the poll interval is defaulted to a positive
  one, so no subroutine asks for a Pending without one, whatever the API servers answer.
\<close>

theorem validated_controllers_never_panic:
  assumes "validate_options B0 = Inr B" and "validate_staging_options P0 = Inr P"
    and "validate_migration_options Q0 = Inr Q"
  shows "fst (reconcile (brokered_lifecycle (uobj_iface tu fu) api de cc B) c req w) \<noteq> Reconcile_panic p
    \<and> fst (reconcile (the (staging_controller M (staging_iface tu1 fu1) api1 de cc1 P)) c1 req w1) \<noteq> Reconcile_panic p
    \<and> fst (reconcile (the (migration_controller M (migration_iface tu2 fu2) api2 de cc2 Q)) c2 req w2) \<noteq> Reconcile_panic p"
proof -
  have b: "0 < o_interval B" by (rule validate_options_interval [OF assms(1)])
  have s: "0 < so_interval P" and m: "0 < mo_interval Q"
    using assms(2,3)
    by (auto simp: validate_staging_options_def validate_migration_options_def DefaultRequeueInterval_def
        second_def Let_def split: if_splits)
  show ?thesis
  proof (intro conjI reconcile_no_panic)
    show "\<forall>s\<in>set (lc_subroutines (brokered_lifecycle (uobj_iface tu fu) api de cc B)). sub_never_panics s"
      using broker_never_panics [OF b] by (simp add: brokered_subroutines_def)
    show "\<forall>s\<in>set (lc_subroutines (the (staging_controller M (staging_iface tu1 fu1) api1 de cc1 P))). sub_never_panics s"
      using staging_never_panics [OF s] by (simp add: staging_controller_simps [OF refl])
    show "\<forall>s\<in>set (lc_subroutines (the (migration_controller M (migration_iface tu2 fu2) api2 de cc2 Q))). sub_never_panics s"
      using migration_never_panics [OF m] by (simp add: migration_controller_Some new_lifecycle_def)
  qed
qed

lemma small_options_valid:
  "validate_options small_broker = Inr small_broker"
  "validate_staging_options small_stager = Inr small_stager"
  "validate_migration_options small_migrator = Inr small_migrator"
  by (simp_all add: validate_options_def validate_staging_options_def validate_migration_options_def
      gvk_empty_def small_gvk_def small_gvr_def small_stager_def small_migrator_def)

theorem validated_controllers_never_panic_witness:
  "fst (reconcile small_controller_of_things deletion_ctx \<lparr>req_cluster = ''c'', req_name = ([], ''x'')\<rparr> empty_world)
     \<noteq> Reconcile_panic ''requeue''"
  by (rule validated_controllers_never_panic
        [OF small_options_valid, where p = "''requeue''", THEN conjunct1])

end
