(* ===== verification/Template_Props.thy ===== *)
theory Template_Props
  imports Templates
begin

text \<open>
  The template language of migration stages. \<open>cel_text\<close> is the grammar of the text between
  \<^verbatim>\<open>${\<close> and \<^verbatim>\<open>}\<close>: braces are balanced and string literals are closed. \<open>template_text\<close> writes a
  template as literal text alternating with expressions, and \<open>render\<close> says what it stands for. The
  scanner recognises the grammar, and the interpolation computes the rendering.
\<close>

subsection \<open>The grammar of an expression\<close>

text \<open>The body of a literal quoted by \<open>q\<close>: a backslash takes the character after it along.\<close>

fun literal_body :: "char \<Rightarrow> string \<Rightarrow> bool" where
  "literal_body q [] = True"
| "literal_body q (c # cs) =
     (if c = CHR 0x5C then (case cs of [] \<Rightarrow> False | _ # cs' \<Rightarrow> literal_body q cs')
      else c \<noteq> q \<and> literal_body q cs)"

definition is_quote :: "char \<Rightarrow> bool" where
  "is_quote c \<longleftrightarrow> c = CHR 0x27 \<or> c = CHR 0x22"

inductive cel_text :: "string \<Rightarrow> bool" where
  nothing: "cel_text []"
| plain: "\<not> is_quote c \<Longrightarrow> c \<noteq> CHR ''{'' \<Longrightarrow> c \<noteq> CHR ''}'' \<Longrightarrow> cel_text t \<Longrightarrow> cel_text (c # t)"
| braces: "cel_text a \<Longrightarrow> cel_text t \<Longrightarrow> cel_text (CHR ''{'' # a @ CHR ''}'' # t)"
| literal: "is_quote q \<Longrightarrow> literal_body q l \<Longrightarrow> cel_text t \<Longrightarrow> cel_text (q # l @ q # t)"

text \<open>Text that closes \<open>d\<close> more braces than it opens.\<close>

fun closing_text :: "nat \<Rightarrow> string \<Rightarrow> bool" where
  "closing_text 0 e = cel_text e"
| "closing_text (Suc d) e = (\<exists>a b. e = a @ CHR ''}'' # b \<and> cel_text a \<and> closing_text d b)"

lemma closing_text_prepend:
  assumes "\<And>t. cel_text t \<Longrightarrow> cel_text (p @ t)" and "closing_text d e"
  shows "closing_text d (p @ e)"
proof (cases d)
  case 0
  with assms show ?thesis by simp
next
  case (Suc d')
  with assms(2) obtain a b where "e = a @ CHR ''}'' # b" "cel_text a" "closing_text d' b" by auto
  with assms(1) [of a] Suc show ?thesis by (auto intro: exI [of _ "p @ a"])
qed

lemma closing_text_plain:
  "\<not> is_quote c \<Longrightarrow> c \<noteq> CHR ''{'' \<Longrightarrow> c \<noteq> CHR ''}'' \<Longrightarrow> closing_text d e \<Longrightarrow> closing_text d (c # e)"
  using closing_text_prepend [of "[c]" d e] by (simp add: cel_text.plain)

lemma closing_text_open: "closing_text (Suc d) e \<Longrightarrow> closing_text d (CHR ''{'' # e)"
  using closing_text_prepend [of "CHR ''{'' # a @ [CHR ''}'']" d for a] by (auto simp: cel_text.braces)

lemma closing_text_close: "closing_text d e \<Longrightarrow> closing_text (Suc d) (CHR ''}'' # e)"
  using cel_text.nothing by (force intro: exI [of _ "[]"])

lemma closing_text_literal:
  "is_quote q \<Longrightarrow> literal_body q l \<Longrightarrow> closing_text d e \<Longrightarrow> closing_text d (q # l @ q # e)"
  using closing_text_prepend [of "q # l @ [q]" d e] by (simp add: cel_text.literal)

subsection \<open>The scanner\<close>

lemma match_literal:
  "literal_body q l \<Longrightarrow> q \<noteq> CHR 0x5C \<Longrightarrow>
     match_expression (l @ q # r) d (Some q) i = match_expression r d None (i + length l + 1)"
  by (induction q l arbitrary: i rule: literal_body.induct) (auto split: list.splits if_splits)

lemma match_passes_text:
  "cel_text e \<Longrightarrow> match_expression (e @ r) d None i = match_expression r d None (i + length e)"
proof (induction arbitrary: r d i rule: cel_text.induct)
  case nothing
  show ?case by simp
next
  case (plain c t)
  then show ?case by (simp add: is_quote_def)
next
  case (braces a t)
  then show ?case by (simp add: add.commute add.left_commute)
next
  case (literal q l t)
  then show ?case by (auto simp: is_quote_def match_literal add.commute add.left_commute)
qed

definition scanned :: "nat \<Rightarrow> char option \<Rightarrow> string \<Rightarrow> bool" where
  "scanned d q e \<longleftrightarrow>
     (case q of None \<Rightarrow> closing_text d e
      | Some c \<Rightarrow> \<exists>l r. e = l @ c # r \<and> literal_body c l \<and> closing_text d r)"

lemma scanned_SomeI: "literal_body c l \<Longrightarrow> closing_text d r \<Longrightarrow> scanned d (Some c) (l @ c # r)"
  by (auto simp: scanned_def)

lemma scanned_SomeE:
  assumes "scanned d (Some c) e"
  obtains l r where "e = l @ c # r" "literal_body c l" "closing_text d r"
  using assms by (auto simp: scanned_def)

lemma scanned_literal_step:
  assumes "c \<noteq> CHR 0x5C" "c \<noteq> q" "scanned d (Some q) e"
  shows "scanned d (Some q) (c # e)"
  using assms(3)
proof (rule scanned_SomeE)
  fix l r
  assume "e = l @ q # r" "literal_body q l" "closing_text d r"
  with assms(1,2) scanned_SomeI [of q "c # l" d r] show ?thesis by simp
qed

lemma scanned_escape:
  assumes "scanned d (Some q) e"
  shows "scanned d (Some q) (CHR 0x5C # c # e)"
  using assms
proof (rule scanned_SomeE)
  fix l r
  assume "e = l @ q # r" "literal_body q l" "closing_text d r"
  with scanned_SomeI [of q "CHR 0x5C # c # l" d r] show ?thesis by simp
qed

lemma scanned_closing_quote: "scanned d None e \<Longrightarrow> scanned d (Some q) (q # e)"
  using scanned_SomeI [of q "[]" d e] by (simp add: scanned_def)

lemma match_reads_text:
  "match_expression s d q i = Some j \<Longrightarrow> q = None \<or> (\<exists>c. q = Some c \<and> is_quote c) \<Longrightarrow>
     scanned d q (take (j - i) s)"
proof (induction s d q i rule: match_expression.induct)
  case (1 d q i)
  then show ?case by simp
next
  case (2 c cs d q i)
  have q: "q \<noteq> CHR 0x5C" using "2.prems"(2) by (auto simp: is_quote_def)
  note le = match_expression_bounds [THEN conjunct1]
  show ?case
  proof (cases "c = CHR 0x5C")
    case True
    with "2.prems" obtain b bs where cs: "cs = b # bs" "match_expression bs d (Some q) (i + 2) = Some j"
      by (cases cs) auto
    have "scanned d (Some q) (take (j - (i + 2)) bs)" using "2.IH"(1) [OF True cs] "2.prems"(2) by simp
    moreover have "take (j - i) (c # cs) = c # b # take (j - (i + 2)) bs"
      using le [OF cs(2)] cs(1) by (auto simp: take_Cons' numeral_2_eq_2)
    ultimately show ?thesis using True by (simp add: scanned_escape)
  next
    case ne: False
    show ?thesis
    proof (cases "c = q")
      case True
      with "2.prems" q have m: "match_expression cs d None (i + 1) = Some j" by simp
      have "scanned d None (take (j - (i + 1)) cs)" using "2.IH"(2) [OF ne True m] by simp
      moreover have "take (j - i) (c # cs) = c # take (j - (i + 1)) cs"
        using le [OF m] by (simp add: take_Cons')
      ultimately show ?thesis using True by (simp add: scanned_closing_quote)
    next
      case False
      with "2.prems" ne have m: "match_expression cs d (Some q) (i + 1) = Some j" by simp
      have "scanned d (Some q) (take (j - (i + 1)) cs)" using "2.IH"(3) [OF ne False m] "2.prems"(2) by simp
      moreover have "take (j - i) (c # cs) = c # take (j - (i + 1)) cs"
        using le [OF m] by (simp add: take_Cons')
      ultimately show ?thesis using ne False by (simp add: scanned_literal_step)
    qed
  qed
next
  case (3 c cs d i)
  have step: "take (j - i) (c # cs) = c # take (j - (i + 1)) cs"
    if "match_expression cs d' q' (i + 1) = Some j" for d' q'
    using match_expression_bounds [OF that] by (simp add: take_Cons')
  consider (quoting) "is_quote c" | (left) "c = CHR ''{''" | (last_brace) "c = CHR ''}''" "d = 0"
    | (right) "c = CHR ''}''" "d \<noteq> 0" | (plain) "\<not> is_quote c" "c \<noteq> CHR ''{''" "c \<noteq> CHR ''}''"
    by (cases "is_quote c"; cases "c = CHR ''{''"; cases "c = CHR ''}''"; cases "d = 0") auto
  then show ?case
  proof cases
    case quoting
    then have q: "c = CHR 0x27 \<or> c = CHR 0x22" by (simp add: is_quote_def)
    with "3.prems" have m: "match_expression cs d (Some c) (i + 1) = Some j" by auto
    have "scanned d (Some c) (take (j - (i + 1)) cs)" using "3.IH"(1) [OF q m] quoting by simp
    then show ?thesis using step [OF m] quoting by (auto simp: scanned_def closing_text_literal)
  next
    case left
    with "3.prems" have m: "match_expression cs (d + 1) None (i + 1) = Some j" by simp
    have "scanned (d + 1) None (take (j - (i + 1)) cs)" using "3.IH"(2) left m by simp
    then show ?thesis
      using step [OF m] left closing_text_open [of d] by (simp add: scanned_def del: closing_text.simps)
  next
    case last_brace
    with "3.prems" show ?thesis by (simp add: scanned_def cel_text.nothing)
  next
    case right
    with "3.prems" have m: "match_expression cs (d - 1) None (i + 1) = Some j" by simp
    have "scanned (d - 1) None (take (j - (i + 1)) cs)" using "3.IH"(3) right m by simp
    then show ?thesis
      using step [OF m] right closing_text_close [of "d - 1"] by (simp add: scanned_def del: closing_text.simps)
  next
    case plain
    with "3.prems" have m: "match_expression cs d None (i + 1) = Some j" by (simp add: is_quote_def)
    have "scanned d None (take (j - (i + 1)) cs)" using "3.IH"(4) plain m by (simp add: is_quote_def)
    then show ?thesis using step [OF m] plain by (simp add: scanned_def closing_text_plain)
  qed
qed

text \<open>
  C9. \<^verbatim>\<open>matchExpression\<close> returns \<open>n\<close> exactly when the \<open>n\<close>-th byte is a closing brace and the text before it
  is a well-formed expression, with its braces balanced and its string literals closed.
\<close>

theorem scanner_recognises_expressions:
  "match_expression s 0 None 0 = Some n \<longleftrightarrow> n < length s \<and> s ! n = CHR ''}'' \<and> cel_text (take n s)"
proof
  assume m: "match_expression s 0 None 0 = Some n"
  then show "n < length s \<and> s ! n = CHR ''}'' \<and> cel_text (take n s)"
    using match_expression_bounds [OF m] match_reads_text [OF m] by (simp add: scanned_def)
next
  assume a: "n < length s \<and> s ! n = CHR ''}'' \<and> cel_text (take n s)"
  then have s: "s = take n s @ CHR ''}'' # drop (Suc n) s" by (metis id_take_nth_drop)
  have "match_expression s 0 None 0 = match_expression (CHR ''}'' # drop (Suc n) s) 0 None (length (take n s))"
    using match_passes_text [of "take n s" "CHR ''}'' # drop (Suc n) s" 0 0] a s by simp
  then show "match_expression s 0 None 0 = Some n" using a by simp
qed

subsection \<open>The rendering of a template\<close>

text \<open>Each expression with the literal text in front of it, then the text after the last one.\<close>

fun template_text :: "(string \<times> string) list \<Rightarrow> string \<Rightarrow> string" where
  "template_text [] tail = tail"
| "template_text ((l, e) # ps) tail = l @ ''${'' @ e @ CHR ''}'' # template_text ps tail"

text \<open>The expressions are evaluated from left to right up to the first failure.\<close>

fun render_pieces ::
  "(string \<Rightarrow> err + json) \<Rightarrow> (string \<times> string) list \<Rightarrow> string \<Rightarrow> err + string" where
  "render_pieces ev [] tail = Inr tail"
| "render_pieces ev ((l, e) # ps) tail =
     (case ev e of
        Inl x \<Rightarrow> Inl x
      | Inr v \<Rightarrow> (case render_pieces ev ps tail of Inl x \<Rightarrow> Inl x | Inr r \<Rightarrow> Inr (l @ sprint_v v @ r)))"

definition render :: "(string \<Rightarrow> err + json) \<Rightarrow> (string \<times> string) list \<Rightarrow> string \<Rightarrow> err + json" where
  "render ev ps tail =
     (case ps of
        [([], e)] \<Rightarrow> (if tail = [] then ev e else map_sum id JStr (render_pieces ev ps tail))
      | _ \<Rightarrow> map_sum id JStr (render_pieces ev ps tail))"

lemma marker_index_append:
  "marker_index l = None \<Longrightarrow> marker_index (l @ CHR ''$'' # CHR ''{'' # r) = Some (length l)"
proof (induction l rule: marker_index.induct)
  case (1 a b cs)
  then show ?case by (auto split: if_splits)
qed simp_all

definition well_formed :: "(string \<times> string) list \<Rightarrow> string \<Rightarrow> bool" where
  "well_formed ps tail \<longleftrightarrow>
     (\<forall>(l, e)\<in>set ps. marker_index l = None \<and> cel_text e) \<and> marker_index tail = None"

lemma well_formed_Cons:
  "well_formed ((l, e) # ps) tail \<longleftrightarrow> marker_index l = None \<and> cel_text e \<and> well_formed ps tail"
  by (auto simp: well_formed_def)

lemma match_end: "cel_text e \<Longrightarrow> match_expression (e @ CHR ''}'' # r) 0 None 0 = Some (length e)"
  using match_passes_text [of e "CHR ''}'' # r" 0 0] by simp

lemma interp_loop_step:
  assumes "marker_index l = None" and "cel_text e"
  shows "interp_loop A env vars s first out (l @ CHR ''$'' # CHR ''{'' # e @ CHR ''}'' # r) =
    (case eval_expression A env e vars of
       Inl x \<Rightarrow> Inl x
     | Inr v \<Rightarrow> if first \<and> l = [] \<and> r = [] then Inr v
               else interp_loop A env vars s False (out @ l @ sprint_v v) r)"
  by (subst interp_loop.simps)
     (auto simp: marker_index_append [OF assms(1)] match_end [OF assms(2)] numeral_3_eq_3 split: sum.split)

lemma interp_loop_tail:
  "marker_index tail = None \<Longrightarrow> interp_loop A env vars s first out tail = Inr (JStr (out @ tail))"
  by (subst interp_loop.simps) simp

lemma interp_loop_pieces:
  "well_formed ps tail \<Longrightarrow>
     interp_loop A env vars s False out (template_text ps tail) =
       map_sum id (\<lambda>r. JStr (out @ r)) (render_pieces (\<lambda>e. eval_expression A env e vars) ps tail)"
proof (induction ps arbitrary: out)
  case Nil
  then show ?case by (simp add: well_formed_def interp_loop_tail)
next
  case (Cons p ps)
  obtain l e where p: "p = (l, e)" by (cases p)
  with Cons.prems have w: "marker_index l = None" "cel_text e" "well_formed ps tail"
    by (simp_all add: well_formed_Cons)
  show ?case
    by (simp add: p interp_loop_step [OF w(1,2)] Cons.IH [OF w(3)] split: sum.split)
qed

lemma template_text_Nil: "template_text ps tail = [] \<longleftrightarrow> ps = [] \<and> tail = []"
  by (cases ps) auto

text \<open>
  C10. Interpolating a template computes its rendering: a single expression keeps the type of its value;
  otherwise the values, from left to right, are written in place of the expressions, the text
  around them is kept, and the first failing expression is the error.
\<close>

theorem interpolation_renders:
  assumes "well_formed ps tail"
  shows "interpolate_string A env vars (template_text ps tail) = render (\<lambda>e. eval_expression A env e vars) ps tail"
proof (cases ps)
  case Nil
  with assms show ?thesis by (simp add: interpolate_string_def render_def well_formed_def)
next
  case (Cons p qs)
  obtain l e where p: "p = (l, e)" by (cases p)
  with assms Cons have w: "marker_index l = None" "cel_text e" "well_formed qs tail"
    by (simp_all add: well_formed_Cons)
  let ?ev = "\<lambda>e. eval_expression A env e vars"
  have loop: "interpolate_string A env vars (template_text ps tail) =
     (case ?ev e of Inl x \<Rightarrow> Inl x
      | Inr v \<Rightarrow> if l = [] \<and> template_text qs tail = [] then Inr v
                else map_sum id (\<lambda>r. JStr (l @ sprint_v v @ r)) (render_pieces ?ev qs tail))"
    by (auto simp: interpolate_string_def Cons p marker_index_append [OF w(1)] interp_loop_step [OF w(1,2)]
        interp_loop_pieces [OF w(3)] split: sum.split)
  show ?thesis
  proof (cases "l = [] \<and> qs = [] \<and> tail = []")
    case True
    then show ?thesis unfolding loop by (simp add: render_def Cons p split: sum.split)
  next
    case False
    then have "render ?ev ps tail = map_sum id JStr (render_pieces ?ev ps tail)"
      by (auto simp: render_def Cons p split: list.split)
    moreover have "\<not> (l = [] \<and> template_text qs tail = [])" using False by (simp add: template_text_Nil)
    ultimately show ?thesis unfolding loop by (simp only: if_False) (simp add: Cons p split: sum.split)
  qed
qed

theorem interpolation_renders_witness:
  "interpolate_string \<lparr>cel_new_env = \<lambda>ns. Inr [], cel_compile = \<lambda>env e. Inr e, cel_program = \<lambda>env a. Inr a,
      cel_run = \<lambda>p vars. Inr p, cel_bool = \<lambda>v. Some True, cel_native = \<lambda>v. Inr (JStr v)\<rparr> [] []
      (template_text [(''a-'', ''x''), ([], ''y'')] ''-z'') =
   Inr (JStr ''a-xy-z'')"
proof -
  have w: "well_formed [(''a-'', ''x''), ([], ''y'')] ''-z''"
    by (auto simp: well_formed_def is_quote_def intro!: cel_text.intros)
  show ?thesis
    by (rule trans [OF interpolation_renders [OF w]]) (simp add: render_def eval_expression_def)
qed

end
