(* ===== verification/Rebac_Names.thy ===== *)
theory Rebac_Names
  imports Api_Types
begin

text \<open>
  The names the authorization webhook gives to Kubernetes objects and verbs in OpenFGA
  (\<^verbatim>\<open>services/rebac-authz-webhook/pkg/util\<close>, \<^verbatim>\<open>pkg/handler/contextual/builder.go\<close>). OpenFGA allows one
  colon in an object, between type and identifier, and at most 50 bytes in a relation.
\<close>

subsection \<open>Identifiers\<close>

text \<open>\<open>strings.NewReplacer\<close> of two single bytes.\<close>

fun encode_name :: "string \<Rightarrow> string" where
  "encode_name [] = []"
| "encode_name (c # cs) =
     (if c = CHR ''%'' then ''%25'' else if c = CHR '':'' then ''%3A'' else [c]) @ encode_name cs"

text \<open>The reading of an encoded name, which the code never needs.\<close>

fun decode_name :: "string \<Rightarrow> string" where
  "decode_name (c # x # y # cs) =
     (if c = CHR ''%'' \<and> x = CHR ''2'' \<and> y = CHR ''5'' then CHR ''%'' # decode_name cs
      else if c = CHR ''%'' \<and> x = CHR ''3'' \<and> y = CHR ''A'' then CHR '':'' # decode_name cs
      else c # decode_name (x # y # cs))"
| "decode_name cs = cs"

lemma decode_Cons: "c \<noteq> CHR ''%'' \<Longrightarrow> decode_name (c # cs) = c # decode_name cs"
  by (cases "(c # cs)" rule: decode_name.cases) auto

lemma decode_encode: "decode_name (encode_name s) = s"
  by (induction s) (auto simp: decode_Cons)

lemma encode_no_colon: "CHR '':'' \<notin> set (encode_name s)"
  by (induction s) auto

lemma encode_name_inject [simp]: "encode_name s = encode_name t \<longleftrightarrow> s = t"
  by (metis decode_encode)

lemma encode_name_same: "CHR ''%'' \<notin> set s \<Longrightarrow> CHR '':'' \<notin> set s \<Longrightarrow> encode_name s = s"
  by (induction s) auto

definition render_object :: "string \<Rightarrow> string \<Rightarrow> string \<Rightarrow> string" where
  "render_object object_type cluster_name name = object_type @ '':'' @ cluster_name @ ''/'' @ encode_name name"

subsection \<open>Relations\<close>

definition resolve_on_parent :: "string \<Rightarrow> bool" where
  "resolve_on_parent verb \<longleftrightarrow> verb = ''create'' \<or> verb = ''list'' \<or> verb = ''watch''"

definition cap_group :: "gvr \<Rightarrow> nat \<Rightarrow> string" where
  "cap_group g max_length =
     (let max_relation = ''create_'' @ gvr_group g @ ''_'' @ gvr_resource g;
          group = (if gvr_group g = [] then ''core'' else gvr_group g)
      in if length max_relation > max_length
         then (let start = length max_relation - max_length
               in if start > length group then [] else drop start group)
         else group)"

definition maxRelationLength :: nat where
  "maxRelationLength = 50"

text \<open>The slice panics when it starts behind the end; \<open>None\<close> is that panic.\<close>

definition build_object_type :: "gvr \<Rightarrow> string \<Rightarrow> (string \<times> string) option" where
  "build_object_type g singular =
     (let group = replace_char (CHR ''.'') (CHR ''_'') (cap_group g maxRelationLength);
          object_type = group @ ''_'' @ singular;
          longest = ''create_'' @ object_type @ ''s''
      in if length longest > maxRelationLength
         then (if length longest - maxRelationLength \<le> length object_type
               then Some (group, drop (length longest - maxRelationLength) object_type) else None)
         else Some (group, object_type))"

lemma build_object_type_Some:
  "\<exists>t. build_object_type g singular = Some (replace_char (CHR ''.'') (CHR ''_'') (cap_group g maxRelationLength), t)
     \<and> length t \<le> 42"
  unfolding build_object_type_def maxRelationLength_def Let_def by (simp, arith)

lemma cap_group_length:
  "gvr_group g \<noteq> [] \<Longrightarrow> length (gvr_resource g) \<le> 42 \<Longrightarrow>
     length (cap_group g 50) + length (gvr_resource g) \<le> 42"
  by (auto simp: cap_group_def Let_def)

lemma cap_group_same:
  "gvr_group g \<noteq> [] \<Longrightarrow> length (gvr_group g) + length (gvr_resource g) \<le> 42 \<Longrightarrow> cap_group g 50 = gvr_group g"
  by (auto simp: cap_group_def Let_def)

end
