(* ===== verification/Rebac_Authz.thy ===== *)
theory Rebac_Authz
  imports Rebac_Names "HOL-Library.Word"
begin

text \<open>
  The authorization webhook (\<^verbatim>\<open>services/rebac-authz-webhook\<close>): responses, the three handlers that
  answer a SubjectAccessReview, their union, the tracker of retries after a cache miss and the HTTP
  handler. The OpenFGA server, the cluster cache's REST mappers and the codecs are parameters.
\<close>

subsection \<open>Requests and responses\<close>

record resource_attributes =
  ra_namespace :: string
  ra_verb :: string
  ra_group :: string
  ra_version :: string
  ra_resource :: string
  ra_name :: string

text \<open>\<open>sar_extra\<close> is \<open>None\<close> for a nil map; \<open>sar_path\<close> is the path of the non-resource attributes.\<close>

record sar =
  sar_name :: string
  sar_uid :: string
  sar_user :: string
  sar_groups :: "string list"
  sar_extra :: "(string \<rightharpoonup> string list) option"
  sar_resource :: "resource_attributes option"
  sar_path :: "string option"

record response =
  rp_uid :: string
  rp_allowed :: bool
  rp_denied :: bool
  rp_reason :: string
  rp_eval_error :: string
  rp_abort :: bool
  rp_retry_after :: duration

definition empty_response :: response where
  "empty_response =
     \<lparr>rp_uid = [], rp_allowed = False, rp_denied = False, rp_reason = [], rp_eval_error = [],
      rp_abort = False, rp_retry_after = 0\<rparr>"

definition Errored :: "err \<Rightarrow> response" where
  "Errored e = empty_response\<lparr>rp_reason := err_msg e, rp_eval_error := err_msg e\<rparr>"

definition NoOpinion :: response where
  "NoOpinion = empty_response\<lparr>rp_reason := ''NoOpinion''\<rparr>"

definition Aborted :: response where
  "Aborted = empty_response\<lparr>rp_reason := ''NoOpinion'', rp_abort := True\<rparr>"

definition Allowed :: response where
  "Allowed = empty_response\<lparr>rp_allowed := True\<rparr>"

definition Denied :: response where
  "Denied = empty_response\<lparr>rp_denied := True\<rparr>"

definition Retry :: "duration \<Rightarrow> response" where
  "Retry after = empty_response\<lparr>rp_retry_after := after\<rparr>"

lemmas response_defs = Errored_def NoOpinion_def Aborted_def Allowed_def Denied_def Retry_def empty_response_def

type_synonym 'w handler = "sar \<Rightarrow> 'w \<Rightarrow> response \<times> 'w"

subsection \<open>The union\<close>

definition decisive :: "response \<Rightarrow> bool" where
  "decisive r \<longleftrightarrow> rp_allowed r \<or> rp_denied r \<or> rp_abort r \<or> rp_retry_after r \<noteq> 0"

fun union_handle :: "'w handler list \<Rightarrow> 'w handler" where
  "union_handle [] req w = (NoOpinion, w)"
| "union_handle (h # hs) req w =
     (case h req w of (r, w') \<Rightarrow> if decisive r then (r, w') else union_handle hs req w')"

definition new_union :: "'w handler list \<Rightarrow> 'w handler" where
  "new_union hs = (case hs of [h] \<Rightarrow> h | _ \<Rightarrow> union_handle hs)"

subsection \<open>Non-resource requests\<close>

definition nonresource_handle :: "string list \<Rightarrow> 'w handler" where
  "nonresource_handle prefixes req w =
     (case sar_path req of
        None \<Rightarrow> (NoOpinion, w)
      | Some path \<Rightarrow> (if \<exists>p\<in>set prefixes. has_prefix path p then (Allowed, w) else (Aborted, w)))"

subsection \<open>OpenFGA\<close>

text \<open>A tuple is its object, relation and user. A check names the store and the contextual tuples.\<close>

record tuple_key =
  tk_object :: string
  tk_relation :: string
  tk_user :: string

record check_request =
  cr_store :: string
  cr_key :: tuple_key
  cr_contextual :: "tuple_key list"

type_synonym 'w fga_check = "check_request \<Rightarrow> 'w \<Rightarrow> (err + bool) \<times> 'w"

subsection \<open>Requests to the orgs workspace\<close>

text \<open>\<open>oa_lookup\<close> gives the annotations of the logical cluster of \<^verbatim>\<open>root:orgs\<close>.\<close>

record 'w orgs_authorizer =
  oa_cluster_key :: string
  oa_store :: string
  oa_check :: "'w fga_check"
  oa_lookup :: "'w \<Rightarrow> err + (string \<rightharpoonup> string)"

definition rootOrgName :: string where
  "rootOrgName = ''tenancy_kcp_io_workspace:orgs''"

definition orgs_workspace_id :: "'w orgs_authorizer \<Rightarrow> 'w \<Rightarrow> err + string" where
  "orgs_workspace_id A w =
     (case oa_lookup A w of
        Inl e \<Rightarrow> Inl e
      | Inr anns \<Rightarrow>
          (case anns ''kcp.io/cluster'' of
             None \<Rightarrow> Inl (errorf ''kcp.io/cluster annotation not found'')
           | Some i \<Rightarrow> Inr i))"

text \<open>The first value under a key of the extra attributes, where there is one.\<close>

definition extra_value :: "string \<Rightarrow> sar \<Rightarrow> string option" where
  "extra_value key req =
     (case sar_extra req of
        None \<Rightarrow> None
      | Some extra \<Rightarrow> (case extra key of None \<Rightarrow> None | Some [] \<Rightarrow> None | Some (v # _) \<Rightarrow> Some v))"

definition orgs_request :: "'w orgs_authorizer \<Rightarrow> string \<Rightarrow> resource_attributes \<Rightarrow> check_request" where
  "orgs_request A user a =
     (let group = replace_char (CHR ''.'') (CHR ''_'')
            (cap_group \<lparr>gvr_group = ra_group a, gvr_version = ra_version a, gvr_resource = ra_resource a\<rparr> 50)
      in \<lparr>cr_store = oa_store A,
          cr_key = \<lparr>tk_object = rootOrgName, tk_relation = ra_verb a @ ''_'' @ group @ ''_'' @ ra_resource a,
                    tk_user = ''user:'' @ user\<rparr>,
          cr_contextual = []\<rparr>)"

definition orgs_handle :: "'w orgs_authorizer \<Rightarrow> 'w handler" where
  "orgs_handle A req w =
     (case extra_value (oa_cluster_key A) req of
        None \<Rightarrow> (NoOpinion, w)
      | Some cluster \<Rightarrow>
          (case sar_resource req of
             None \<Rightarrow> (NoOpinion, w)
           | Some a \<Rightarrow>
               (case orgs_workspace_id A w of
                  Inl e \<Rightarrow> (NoOpinion, w)
                | Inr i \<Rightarrow>
                    if cluster \<noteq> i then (NoOpinion, w)
                    else
                      (case oa_check A (orgs_request A (sar_user req) a) w of
                         (Inl e, w') \<Rightarrow> (NoOpinion, w')
                       | (Inr True, w') \<Rightarrow> (Allowed, w')
                       | (Inr False, w') \<Rightarrow> (Aborted, w')))))"

subsection \<open>Clusters\<close>

text \<open>\<open>restmapper\<close> is the REST mapper of a cluster, whose answers come from its API server.\<close>

record 'w restmapper =
  kind_for :: "gvr \<Rightarrow> 'w \<Rightarrow> err + gvk"
  is_namespaced :: "gvk \<Rightarrow> 'w \<Rightarrow> err + bool"
  singularize :: "string \<Rightarrow> 'w \<Rightarrow> err + string"

record 'w cluster_info =
  ci_store :: string
  ci_mapper :: "'w restmapper"
  ci_account :: string
  ci_parent :: string

text \<open>\<^verbatim>\<open>clustercache.Provider\<close> and \<^verbatim>\<open>retry.Tracker\<close>, as the handlers see them.\<close>

record 'w cluster_provider =
  cp_get :: "string \<Rightarrow> 'w \<Rightarrow> 'w cluster_info option"
  cp_cluster_name :: "string \<Rightarrow> 'w \<Rightarrow> string option"

record 'w tracker =
  should_retry :: "string \<Rightarrow> 'w \<Rightarrow> bool"
  retried :: "string \<Rightarrow> 'w \<Rightarrow> 'w"

subsection \<open>The check a resource request stands for\<close>

record check_input =
  ck_store :: string
  ck_object :: string
  ck_relation :: string
  ck_user :: string
  ck_contextual :: "tuple_key list"

definition account_object :: "'w cluster_info \<Rightarrow> string" where
  "account_object i = ''core_platform-mesh_io_account:'' @ ci_parent i @ ''/'' @ ci_account i"

definition attributes_gvr :: "resource_attributes \<Rightarrow> gvr" where
  "attributes_gvr a =
     \<lparr>gvr_group = ra_group a, gvr_version = (if ra_version a = ''*'' then [] else ra_version a),
      gvr_resource = ra_resource a\<rparr>"

text \<open>What the mapper says of the resource: whether it is namespaced, and its singular name.\<close>

definition map_resource :: "'w restmapper \<Rightarrow> gvr \<Rightarrow> 'w \<Rightarrow> err + bool \<times> string" where
  "map_resource M g w =
     (case kind_for M g w of
        Inl e \<Rightarrow> Inl (wrap ''failed to get GVK for GVR'' e)
      | Inr k \<Rightarrow>
          (case is_namespaced M k w of
             Inl e \<Rightarrow> Inl (wrap ''failed to determine if GVK is namespaced'' e)
           | Inr n \<Rightarrow>
               (case singularize M (gvr_resource g) w of
                  Inl e \<Rightarrow> Inl (wrap (''failed to singularize resource '' @ quoted (gvr_resource g)) e)
                | Inr s \<Rightarrow> Inr (n, s))))"

definition parent_tuple :: "string \<Rightarrow> string \<Rightarrow> tuple_key" where
  "parent_tuple child parent = \<lparr>tk_object = child, tk_relation = ''parent'', tk_user = parent\<rparr>"

definition check_input_for ::
  "resource_attributes \<Rightarrow> string \<Rightarrow> string \<Rightarrow> 'w cluster_info \<Rightarrow> bool \<Rightarrow> string \<Rightarrow> string \<Rightarrow> check_input" where
  "check_input_for a user cluster i namespaced grp object_type =
     (let self = render_object object_type cluster (ra_name a);
          account = account_object i;
          namespace = ''core_namespace:'' @ cluster @ ''/'' @ ra_namespace a;
          has_parent = resolve_on_parent (ra_verb a)
      in \<lparr>ck_store = ci_store i,
          ck_object = (if \<not> has_parent then self else if namespaced then namespace else account),
          ck_relation = (if has_parent then ra_verb a @ ''_'' @ grp @ ''_'' @ ra_resource a else ra_verb a),
          ck_user = ''user:'' @ user,
          ck_contextual =
            (if namespaced
             then parent_tuple namespace account # (if has_parent then [] else [parent_tuple self namespace])
             else [parent_tuple self account])\<rparr>)"

text \<open>\<open>None\<close> is the panic of the slice in \<^verbatim>\<open>BuildObjectType\<close>, which never happens.\<close>

definition build_check_input ::
  "resource_attributes \<Rightarrow> string \<Rightarrow> string \<Rightarrow> 'w cluster_info \<Rightarrow> 'w \<Rightarrow> (err + check_input) option" where
  "build_check_input a user cluster i w =
     (let g = attributes_gvr a in
      case map_resource (ci_mapper i) g w of
        Inl e \<Rightarrow> Some (Inl e)
      | Inr (namespaced, singular) \<Rightarrow>
          map_option (\<lambda>(grp, object_type).
              Inr (check_input_for a user cluster i namespaced grp object_type))
            (build_object_type g singular))"

subsection \<open>Requests to the other workspaces\<close>

record 'w contextual_authorizer =
  xa_cluster_key :: string
  xa_check :: "'w fga_check"
  xa_cache :: "'w cluster_provider"
  xa_tracker :: "'w tracker"
  xa_retry_after :: duration

definition systemClusterPrefix :: string where
  "systemClusterPrefix = ''system:cluster:''"

definition bindVerb :: string where
  "bindVerb = ''bind''"

definition input_request :: "check_input \<Rightarrow> check_request" where
  "input_request c =
     \<lparr>cr_store = ck_store c,
      cr_key = \<lparr>tk_object = ck_object c, tk_relation = ck_relation c, tk_user = ck_user c\<rparr>,
      cr_contextual = ck_contextual c\<rparr>"

definition fga_verdict :: "(err + bool) \<times> 'w \<Rightarrow> response \<times> 'w" where
  "fga_verdict res = (case res of (Inr True, w) \<Rightarrow> (Allowed, w) | (_, w) \<Rightarrow> (NoOpinion, w))"

text \<open>A cache miss asks the caller to come back while the tracker allows it.\<close>

definition cache_miss :: "'w contextual_authorizer \<Rightarrow> string \<Rightarrow> 'w \<Rightarrow> response \<times> 'w" where
  "cache_miss X cluster w =
     (if should_retry (xa_tracker X) cluster w
      then (Retry (xa_retry_after X), retried (xa_tracker X) cluster w)
      else (NoOpinion, w))"

text \<open>The id in the first group \<^verbatim>\<open>system:cluster:<id>\<close>; empty when there is none.\<close>

fun consumer_cluster :: "string list \<Rightarrow> string" where
  "consumer_cluster [] = []"
| "consumer_cluster (g # gs) =
     (if has_prefix g systemClusterPrefix then drop (length systemClusterPrefix) g else consumer_cluster gs)"

definition bind_request ::
  "resource_attributes \<Rightarrow> string \<Rightarrow> 'w cluster_info \<Rightarrow> string \<Rightarrow> check_request option" where
  "bind_request a provider consumer singular =
     map_option (\<lambda>(_, object_type).
        \<lparr>cr_store = ci_store consumer,
         cr_key = \<lparr>tk_object = account_object consumer, tk_relation = bindVerb,
                   tk_user = render_object object_type provider (ra_name a)\<rparr>,
         cr_contextual = []\<rparr>)
       (build_object_type \<lparr>gvr_group = ra_group a, gvr_version = [], gvr_resource = ra_resource a\<rparr> singular)"

definition bind_handle ::
  "'w contextual_authorizer \<Rightarrow> resource_attributes \<Rightarrow> string \<Rightarrow> 'w handler" where
  "bind_handle X a provider req w =
     (let consumer = consumer_cluster (sar_groups req) in
      if consumer = [] then (NoOpinion, w)
      else
        (case cp_get (xa_cache X) consumer w of
           None \<Rightarrow> cache_miss X consumer w
         | Some i \<Rightarrow>
             (case singularize (ci_mapper i) (ra_resource a) w of
                Inl e \<Rightarrow> (NoOpinion, w)
              | Inr singular \<Rightarrow> fga_verdict (xa_check X (the (bind_request a provider i singular)) w))))"

definition contextual_handle :: "'w contextual_authorizer \<Rightarrow> 'w handler" where
  "contextual_handle X req w =
     (case extra_value (xa_cluster_key X) req of
        None \<Rightarrow> (NoOpinion, w)
      | Some cluster \<Rightarrow>
          (case sar_resource req of
             None \<Rightarrow> (NoOpinion, w)
           | Some a \<Rightarrow>
               if ra_verb a = bindVerb \<and> ra_group a = ''apis.kcp.io'' then bind_handle X a cluster req w
               else
                 (case cp_get (xa_cache X) cluster w of
                    None \<Rightarrow> cache_miss X cluster w
                  | Some i \<Rightarrow>
                      (case the (build_check_input a (sar_user req) cluster i w) of
                         Inl e \<Rightarrow> (NoOpinion, w)
                       | Inr c \<Rightarrow> fga_verdict (xa_check X (input_request c) w)))))"

subsection \<open>The server's chain\<close>

definition server_chain ::
  "string list \<Rightarrow> 'w orgs_authorizer \<Rightarrow> 'w contextual_authorizer \<Rightarrow> 'w handler list" where
  "server_chain prefixes A X = [nonresource_handle prefixes, orgs_handle A, contextual_handle X]"

definition server_handle ::
  "string list \<Rightarrow> 'w orgs_authorizer \<Rightarrow> 'w contextual_authorizer \<Rightarrow> 'w handler" where
  "server_handle prefixes A X = new_union (server_chain prefixes A X)"

end
