(* ===== verification/Rebac_Server.thy ===== *)
theory Rebac_Server
  imports Rebac_Authz
begin

text \<open>
  The webhook's HTTP side (\<^verbatim>\<open>pkg/authorization/webhook.go\<close>, \<^verbatim>\<open>pkg/handler/batch/batch.go\<close>) and
  the tracker that bounds the retries after a cache miss (\<^verbatim>\<open>pkg/retry/tracker.go\<close>).
\<close>

subsection \<open>Retries after a cache miss\<close>

text \<open>
  \<^verbatim>\<open>ttlcache\<close> is a library: \<open>tc_get\<close> is the value of a live item, \<open>tc_set\<close> stores a new item,
  \<open>tc_assign\<close> writes through the pointer that a live item holds. A counter is a 64-bit \<^verbatim>\<open>uint\<close>.
\<close>

record 'w ttl_cache =
  tc_get :: "string \<Rightarrow> 'w \<Rightarrow> 64 word option"
  tc_set :: "string \<Rightarrow> 64 word \<Rightarrow> 'w \<Rightarrow> 'w"
  tc_assign :: "string \<Rightarrow> 64 word \<Rightarrow> 'w \<Rightarrow> 'w"

text \<open>Within the lifetime of the items, a cache gives back what was written.\<close>

definition ttl_laws :: "'w ttl_cache \<Rightarrow> bool" where
  "ttl_laws C \<longleftrightarrow>
     (\<forall>k v w k'. tc_get C k' (tc_set C k v w) = (if k' = k then Some v else tc_get C k' w))
   \<and> (\<forall>k v w k'. tc_get C k w \<noteq> None \<longrightarrow>
        tc_get C k' (tc_assign C k v w) = (if k' = k then Some v else tc_get C k' w))"

definition retries_of :: "'w ttl_cache \<Rightarrow> string \<Rightarrow> 'w \<Rightarrow> 64 word" where
  "retries_of C key w = (case tc_get C key w of None \<Rightarrow> 0 | Some n \<Rightarrow> n)"

definition ShouldRetry :: "'w ttl_cache \<Rightarrow> 64 word \<Rightarrow> string \<Rightarrow> 'w \<Rightarrow> bool" where
  "ShouldRetry C limit key w \<longleftrightarrow> retries_of C key w < limit"

definition Retried :: "'w ttl_cache \<Rightarrow> string \<Rightarrow> 'w \<Rightarrow> 'w" where
  "Retried C key w =
     (case tc_get C key w of None \<Rightarrow> tc_set C key 1 w | Some n \<Rightarrow> tc_assign C key (n + 1) w)"

definition expiring_tracker :: "'w ttl_cache \<Rightarrow> 64 word \<Rightarrow> 'w tracker" where
  "expiring_tracker C limit = \<lparr>should_retry = ShouldRetry C limit, retried = Retried C\<rparr>"

text \<open>What a handler relies on: every key has a budget, a retry spends one of its own key's.\<close>

locale retry_tracker =
  fixes T :: "'w tracker" and budget :: "string \<Rightarrow> 'w \<Rightarrow> nat"
  assumes should_iff: "should_retry T k w \<longleftrightarrow> 0 < budget k w"
    and spends: "0 < budget k w \<Longrightarrow> budget k (retried T k w) = budget k w - 1"
    and spends_own: "0 < budget k w \<Longrightarrow> k' \<noteq> k \<Longrightarrow> budget k' (retried T k w) = budget k' w"

text \<open>A run of cache misses on the given clusters: who was asked to come back.\<close>

fun miss_run :: "'w contextual_authorizer \<Rightarrow> string list \<Rightarrow> 'w \<Rightarrow> (string \<times> response) list \<times> 'w" where
  "miss_run X [] w = ([], w)"
| "miss_run X (k # ks) w =
     (case cache_miss X k w of (r, w') \<Rightarrow>
        (case miss_run X ks w' of (rs, w'') \<Rightarrow> ((k, r) # rs, w'')))"

definition retries_in :: "string \<Rightarrow> (string \<times> response) list \<Rightarrow> nat" where
  "retries_in k rs = length (filter (\<lambda>(k', r). k' = k \<and> rp_retry_after r \<noteq> 0) rs)"

context retry_tracker
begin

lemma miss_run_budget:
  assumes "xa_tracker X = T" and "xa_retry_after X \<noteq> 0"
  shows "retries_in k (fst (miss_run X ks w)) = min (count_list ks k) (budget k w)"
    and "budget k (snd (miss_run X ks w)) = budget k w - count_list ks k"
proof (induction ks arbitrary: w)
  case Nil
  case 1
  show ?case by (simp add: retries_in_def)
  case 2
  show ?case by simp
next
  case (Cons x ks)
  have b: "budget k (snd (cache_miss X x w)) = budget k w - (if x = k then 1 else 0)" for w
    using spends [of x w] spends_own [of x w k] should_iff [of x w] assms
    by (auto simp: cache_miss_def)
  have r: "rp_retry_after (fst (cache_miss X x w)) \<noteq> 0 \<longleftrightarrow> 0 < budget x w" for w
    using should_iff [of x w] assms by (simp add: cache_miss_def response_defs)
  have h: "retries_in k (fst (miss_run X (x # ks) w)) =
      (if x = k \<and> 0 < budget x w then 1 else 0) + retries_in k (fst (miss_run X ks (snd (cache_miss X x w))))" for w
    using r [of w] by (auto simp: retries_in_def split: prod.split)
  have t: "budget k (snd (miss_run X (x # ks) w)) = budget k (snd (miss_run X ks (snd (cache_miss X x w))))" for w
    by (simp split: prod.split)
  case 1
  show ?case unfolding h Cons.IH(1) b by (auto simp: min_def)
  case 2
  show ?case unfolding t Cons.IH(2) b by simp
qed

end

definition left_retries :: "'w ttl_cache \<Rightarrow> 64 word \<Rightarrow> string \<Rightarrow> 'w \<Rightarrow> nat" where
  "left_retries C limit k w = unat limit - unat (retries_of C k w)"

lemma retried_count:
  assumes "ttl_laws C"
  shows "retries_of C k' (Retried C k w) = (if k' = k then retries_of C k w + 1 else retries_of C k' w)"
  using assms by (auto simp: ttl_laws_def retries_of_def Retried_def split: option.split)

lemma word_Suc_le: "c < m \<Longrightarrow> unat (c + 1) = unat c + 1" for c m :: "64 word"
proof -
  assume "c < m"
  moreover have "unat m < 2 ^ 64" using unsigned_less [of m] by simp
  ultimately have "unat c + 1 < 2 ^ 64" by (simp add: word_less_nat_alt)
  then show ?thesis by (simp add: unat_word_ariths)
qed

lemma expiring_tracker_laws:
  assumes "ttl_laws C"
  shows "retry_tracker (expiring_tracker C limit) (left_retries C limit)"
proof (unfold_locales, goal_cases)
  case (1 k w)
  show ?case by (simp add: expiring_tracker_def ShouldRetry_def left_retries_def word_less_nat_alt)
next
  case (2 k w)
  then have "retries_of C k w < limit" by (simp add: left_retries_def word_less_nat_alt)
  from word_Suc_le [OF this] show ?case
    by (simp add: expiring_tracker_def left_retries_def retried_count [OF assms])
next
  case (3 k w k')
  then show ?case by (simp add: expiring_tracker_def left_retries_def retried_count [OF assms])
qed

text \<open>A cache that never drops an item.\<close>

definition map_cache :: "(string \<rightharpoonup> 64 word) ttl_cache" where
  "map_cache = \<lparr>tc_get = (\<lambda>k m. m k), tc_set = (\<lambda>k v m. m(k \<mapsto> v)), tc_assign = (\<lambda>k v m. m(k \<mapsto> v))\<rparr>"

lemma map_cache_laws: "ttl_laws map_cache"
  by (simp add: ttl_laws_def map_cache_def)

interpretation expiring: retry_tracker "expiring_tracker map_cache limit" "left_retries map_cache limit" for limit
  by (rule expiring_tracker_laws [OF map_cache_laws])

subsection \<open>The webhook over HTTP\<close>

text \<open>
  A body is missing, cannot be read, or is read. \<^verbatim>\<open>http.MaxBytesReader\<close> makes reading fail behind the
  first mebibyte. Decoding a review and encoding an answer are library calls.
\<close>

record http_request =
  hr_body :: "(err + string) option"
  hr_content_type :: string

record http_response =
  hp_status :: nat
  hp_retry_after :: "string option"
  hp_body :: string

record codec =
  decode_review :: "string \<Rightarrow> err + sar"
  encode_review :: "response \<Rightarrow> err + string"

definition read_limited :: "err + string \<Rightarrow> err + string" where
  "read_limited b =
     (case b of Inl e \<Rightarrow> Inl e
      | Inr s \<Rightarrow> if length s > 2 ^ 20 then Inl (errorf ''http: request body too large'') else Inr s)"

text \<open>Whole seconds, as \<^verbatim>\<open>int(d.Seconds())\<close> gives them: rounded towards zero.\<close>

definition whole_seconds :: "duration \<Rightarrow> int" where
  "whole_seconds d = (if 0 \<le> d then d div second else - (- d div second))"

text \<open>
  When an answer cannot be encoded the error is answered instead; the call need not return
  (\<open>None\<close>) when no error can be encoded either.
\<close>

partial_function (option) write_response :: "codec \<Rightarrow> response \<Rightarrow> http_response option" where
  "write_response D r =
     (if rp_retry_after r \<noteq> 0
      then Some \<lparr>hp_status = 503, hp_retry_after = Some (itoa (whole_seconds (rp_retry_after r))), hp_body = []\<rparr>
      else (case encode_review D r of
              Inl e \<Rightarrow> write_response D (Errored e)
            | Inr body \<Rightarrow> Some \<lparr>hp_status = 200, hp_retry_after = None, hp_body = body\<rparr>))"

text \<open>The review a request carries, or the error that is answered.\<close>

definition read_review :: "codec \<Rightarrow> http_request \<Rightarrow> err + sar" where
  "read_review D h =
     (case hr_body h of
        None \<Rightarrow> Inl (errorf ''request body is empty'')
      | Some b \<Rightarrow>
          if hr_content_type h \<noteq> ''application/json''
          then Inl (errorf (''contentType='' @ hr_content_type h @ '', expected application/json''))
          else (case read_limited b of Inl e \<Rightarrow> Inl e | Inr s \<Rightarrow> decode_review D s))"

definition serve_http :: "codec \<Rightarrow> 'w handler \<Rightarrow> http_request \<Rightarrow> 'w \<Rightarrow> http_response option \<times> 'w" where
  "serve_http D h req w =
     (case read_review D req of
        Inl e \<Rightarrow> (write_response D (Errored e), w)
      | Inr review \<Rightarrow>
          (case h review w of (r, w') \<Rightarrow> (write_response D (r\<lparr>rp_uid := sar_uid review\<rparr>), w')))"

subsection \<open>Batches\<close>

text \<open>The result of one check of a batch: an error message, or the verdict.\<close>

type_synonym check_result = "string + bool"

record batch_item =
  bi_correlation :: string
  bi_key :: tuple_key
  bi_contextual :: "tuple_key list"

text \<open>The results of \<^verbatim>\<open>BatchCheck\<close> come in the order of one iteration over their map.\<close>

record 'w batch_handler =
  bh_check :: "string \<Rightarrow> batch_item list \<Rightarrow> 'w \<Rightarrow> (err + (string \<times> check_result) list) \<times> 'w"
  bh_cache :: "'w cluster_provider"
  bh_path_key :: string

datatype batch_error = StoreIDMismatch string string | NoChecks | BatchFailed err

text \<open>The guard of \<^verbatim>\<open>ServeHTTP\<close> on every item, which makes the index in \<open>build_checks\<close> safe.\<close>

definition valid_item :: "'w batch_handler \<Rightarrow> sar \<Rightarrow> bool" where
  "valid_item H s \<longleftrightarrow>
     sar_name s \<noteq> [] \<and> sar_resource s \<noteq> None \<and> sar_user s \<noteq> [] \<and> extra_value (bh_path_key H) s \<noteq> None"

definition cluster_of :: "'w batch_handler \<Rightarrow> sar \<Rightarrow> 'w \<Rightarrow> (string \<times> 'w cluster_info) option" where
  "cluster_of H s w =
     (case cp_cluster_name (bh_cache H) (the (extra_value (bh_path_key H) s)) w of
        None \<Rightarrow> None
      | Some cluster \<Rightarrow> map_option (Pair cluster) (cp_get (bh_cache H) cluster w))"

definition item_of :: "sar \<Rightarrow> check_input \<Rightarrow> batch_item" where
  "item_of s c =
     \<lparr>bi_correlation = sar_name s,
      bi_key = \<lparr>tk_object = ck_object c, tk_relation = ck_relation c, tk_user = ck_user c\<rparr>,
      bi_contextual = ck_contextual c\<rparr>"

fun build_checks ::
  "'w batch_handler \<Rightarrow> 'w \<Rightarrow> sar list \<Rightarrow> string \<Rightarrow> batch_item list \<Rightarrow> batch_error + batch_item list \<times> string" where
  "build_checks H w [] store checks = Inr (checks, store)"
| "build_checks H w (s # ss) store checks =
     (case cluster_of H s w of
        None \<Rightarrow> build_checks H w ss store checks
      | Some (cluster, i) \<Rightarrow>
          if store \<noteq> [] \<and> store \<noteq> ci_store i then Inl (StoreIDMismatch store (ci_store i))
          else
            (let store' = (if store = [] then ci_store i else store) in
             case the (build_check_input (the (sar_resource s)) (sar_user s) cluster i w) of
               Inl e \<Rightarrow> build_checks H w ss store' checks
             | Inr c \<Rightarrow> build_checks H w ss store' (checks @ [item_of s c])))"

definition record_result :: "(string \<times> bool) list \<Rightarrow> string \<times> check_result \<Rightarrow> (string \<times> bool) list" where
  "record_result results r = (case r of (i, Inl msg) \<Rightarrow> results | (i, Inr b) \<Rightarrow> obj_put i b results)"

definition process_batch ::
  "'w batch_handler \<Rightarrow> sar list \<Rightarrow> 'w \<Rightarrow> (batch_error + (string \<times> bool) list) \<times> 'w" where
  "process_batch H sars w =
     (let results = foldl (\<lambda>m s. obj_put (sar_name s) False m) [] sars in
      case build_checks H w sars [] [] of
        Inl e \<Rightarrow> (Inl e, w)
      | Inr (checks, store) \<Rightarrow>
          if checks = [] \<or> store = [] then (Inl NoChecks, w)
          else
            (case bh_check H store checks w of
               (Inl e, w') \<Rightarrow> (Inl (BatchFailed e), w')
             | (Inr rs, w') \<Rightarrow> (Inr (foldl record_result results rs), w')))"

text \<open>The answer: an HTTP status with an error message, or the results in one order of the map.\<close>

fun first_invalid :: "'w batch_handler \<Rightarrow> nat \<Rightarrow> sar list \<Rightarrow> nat option" where
  "first_invalid H i [] = None"
| "first_invalid H i (s # ss) = (if valid_item H s then first_invalid H (i + 1) ss else Some i)"

definition serve_batch ::
  "(string \<Rightarrow> err + sar list) \<Rightarrow> 'w batch_handler \<Rightarrow> (err + string) option \<Rightarrow> 'w \<Rightarrow>
   ((nat \<times> string) + (string \<times> bool) list) \<times> 'w" where
  "serve_batch unmarshal H body w =
     (case body of
        None \<Rightarrow> (Inl (400, ''request body is empty''), w)
      | Some (Inl e) \<Rightarrow> (Inl (400, ''failed to read request body''), w)
      | Some (Inr s) \<Rightarrow>
          (case unmarshal s of
             Inl e \<Rightarrow> (Inl (400, ''invalid JSON''), w)
           | Inr sars \<Rightarrow>
               (case first_invalid H 0 sars of
                  Some i \<Rightarrow> (Inl (400, ''item '' @ itoa (int i) @ '' has invalid input''), w)
                | None \<Rightarrow>
                    (case process_batch H sars w of
                       (Inl (StoreIDMismatch _ _), w') \<Rightarrow> (Inl (400, ''store ID mismatch''), w')
                     | (Inl _, w') \<Rightarrow> (Inl (500, ''batch check failed''), w')
                     | (Inr rs, w') \<Rightarrow> (Inr rs, w')))))"

end
