(* ===== verification/Rebac_Cache.thy ===== *)
theory Rebac_Cache
  imports Rebac_Authz Broker_Options
begin

text \<open>
  The cluster cache of the webhook (\<^verbatim>\<open>pkg/clustercache/clustercache.go\<close>) as a state machine: the
  goroutine that an engagement starts is a task, and the steps of several tasks and engagements
  interleave. Every critical section of the code is one step.
\<close>

subsection \<open>One attempt\<close>

text \<open>
  \<open>re_mapper\<close> stands for the calls that build the REST mapper of a cluster, \<open>re_base\<close> for
  \<^verbatim>\<open>logicalcluster.NewPath(p).Base()\<close>.
\<close>

record ('cl, 'w) resolve_env =
  re_logical_cluster :: "'cl \<Rightarrow> 'w \<Rightarrow> err + uobj"
  re_orgs_cluster :: "'w \<Rightarrow> err + 'cl"
  re_store :: "'cl \<Rightarrow> string \<Rightarrow> 'w \<Rightarrow> err + uobj"
  re_unstructured :: unstructured_api
  re_base :: "string \<Rightarrow> string"
  re_mapper :: "'cl \<Rightarrow> string \<Rightarrow> 'w \<Rightarrow> err + 'w restmapper"

datatype 'w attempt = Failed err | Skipped | Cached string "'w cluster_info"

definition orgsPrefix :: string where
  "orgsPrefix = ''root:orgs:''"

definition org_of_path :: "string \<Rightarrow> string" where
  "org_of_path path = takeWhile (\<lambda>c. c \<noteq> CHR '':'') (drop (length orgsPrefix) path)"

definition required_string :: "('cl, 'w) resolve_env \<Rightarrow> uobj \<Rightarrow> string list \<Rightarrow> string \<Rightarrow> err + string" where
  "required_string E u path msg =
     (case nested_string (re_unstructured E) (un_object u) path of
        Inl e \<Rightarrow> Inl e
      | Inr None \<Rightarrow> Inl (errorf msg)
      | Inr (Some s) \<Rightarrow> Inr s)"

definition try_resolve :: "('cl, 'w) resolve_env \<Rightarrow> string \<Rightarrow> 'cl \<Rightarrow> 'w \<Rightarrow> 'w attempt" where
  "try_resolve E name cl w =
     (case re_logical_cluster E cl w of
        Inl e \<Rightarrow> Failed e
      | Inr lc \<Rightarrow>
          (let path = annotation lc ''kcp.io/path'' in
           if \<not> has_prefix path orgsPrefix then Skipped
           else
             (case required_string E lc [''spec'', ''owner'', ''cluster'']
                     ''owner.cluster not found in LogicalCluster spec'' of
                Inl e \<Rightarrow> Failed e
              | Inr parent \<Rightarrow>
                  (case re_orgs_cluster E w of
                     Inl e \<Rightarrow> Failed e
                   | Inr orgs \<Rightarrow>
                       (case re_store E orgs (org_of_path path) w of
                          Inl e \<Rightarrow> Failed e
                        | Inr store \<Rightarrow>
                            (case required_string E store [''status'', ''storeId'']
                                    ''storeId not found in Store status'' of
                               Inl e \<Rightarrow> Failed e
                             | Inr store_id \<Rightarrow>
                                 (case re_mapper E cl name w of
                                    Inl e \<Rightarrow> Failed e
                                  | Inr m \<Rightarrow>
                                      Cached path
                                        \<lparr>ci_store = store_id, ci_mapper = m, ci_account = re_base E path,
                                         ci_parent = parent\<rparr>)))))))"

subsection \<open>The cache and its tasks\<close>

text \<open>
  A task is replaced when a later engagement cancels it, and ended when the context it was started with
  is done. It tries, waits for its next attempt, has returned, or is gone from the resolvers.
\<close>

datatype task_phase = Trying | Waiting | Returned | Gone

record 'cl task =
  tsk_name :: string
  tsk_cluster :: 'cl
  tsk_replaced :: bool
  tsk_ended :: bool
  tsk_phase :: task_phase

record ('cl, 'w) cache_state =
  cc_cache :: "string \<rightharpoonup> 'w cluster_info"
  cc_by_path :: "string \<rightharpoonup> string"
  cc_resolvers :: "string \<rightharpoonup> nat"
  cc_tasks :: "'cl task list"

definition new_cache :: "('cl, 'w) cache_state" where
  "new_cache = \<lparr>cc_cache = Map.empty, cc_by_path = Map.empty, cc_resolvers = Map.empty, cc_tasks = []\<rparr>"

definition set_task :: "nat \<Rightarrow> ('cl task \<Rightarrow> 'cl task) \<Rightarrow> ('cl, 'w) cache_state \<Rightarrow> ('cl, 'w) cache_state" where
  "set_task i f s = s\<lparr>cc_tasks := (cc_tasks s)[i := f (cc_tasks s ! i)]\<rparr>"

definition provider_of :: "(('cl, 'w) cache_state \<Rightarrow> 'w) \<Rightarrow> ('cl, 'w) cache_state \<Rightarrow> 'w cluster_provider" where
  "provider_of v s = \<lparr>cp_get = (\<lambda>name w. cc_cache s name), cp_cluster_name = (\<lambda>path w. cc_by_path s path)\<rparr>"

text \<open>\<^verbatim>\<open>Engage\<close>: nothing for the cluster that is being resolved already, else a new task.\<close>

definition start_task :: "string \<Rightarrow> 'cl \<Rightarrow> ('cl, 'w) cache_state \<Rightarrow> ('cl, 'w) cache_state" where
  "start_task name cl s =
     s\<lparr>cc_resolvers := (cc_resolvers s)(name \<mapsto> length (cc_tasks s)),
       cc_tasks := cc_tasks s @
         [\<lparr>tsk_name = name, tsk_cluster = cl, tsk_replaced = False, tsk_ended = False, tsk_phase = Trying\<rparr>]\<rparr>"

definition engage :: "string \<Rightarrow> 'cl \<Rightarrow> ('cl, 'w) cache_state \<Rightarrow> ('cl, 'w) cache_state" where
  "engage name cl s =
     (case cc_resolvers s name of
        None \<Rightarrow> start_task name cl s
      | Some i \<Rightarrow>
          if tsk_cluster (cc_tasks s ! i) = cl then s
          else start_task name cl (set_task i (\<lambda>t. t\<lparr>tsk_replaced := True\<rparr>) s))"

definition attempt_task :: "('cl, 'w) resolve_env \<Rightarrow> nat \<Rightarrow> 'w \<Rightarrow> ('cl, 'w) cache_state \<Rightarrow> ('cl, 'w) cache_state" where
  "attempt_task E i w s =
     (let t = cc_tasks s ! i in
      case try_resolve E (tsk_name t) (tsk_cluster t) w of
        Failed e \<Rightarrow> set_task i (\<lambda>t. t\<lparr>tsk_phase := Waiting\<rparr>) s
      | Skipped \<Rightarrow> set_task i (\<lambda>t. t\<lparr>tsk_phase := Returned\<rparr>) s
      | Cached path info \<Rightarrow>
          set_task i (\<lambda>t. t\<lparr>tsk_phase := Returned\<rparr>)
            (s\<lparr>cc_cache := (cc_cache s)(tsk_name t \<mapsto> info),
               cc_by_path := (cc_by_path s)(path \<mapsto> tsk_name t)\<rparr>))"

definition clean_up :: "nat \<Rightarrow> ('cl, 'w) cache_state \<Rightarrow> ('cl, 'w) cache_state" where
  "clean_up i s =
     (let name = tsk_name (cc_tasks s ! i);
          s' = set_task i (\<lambda>t. t\<lparr>tsk_phase := Gone\<rparr>) s
      in if cc_resolvers s name = Some i then s'\<lparr>cc_resolvers := (cc_resolvers s)(name := None)\<rparr> else s')"

text \<open>
  Which step may be taken. In \<^verbatim>\<open>select\<close>, a task whose context is done may still take the timer when both
  are ready.
\<close>

inductive cache_step ::
  "('cl, 'w) resolve_env \<Rightarrow> ('cl, 'w) cache_state \<Rightarrow> ('cl, 'w) cache_state \<Rightarrow> bool" for E where
  engage: "cache_step E s (engage name cl s)"
| ended: "i < length (cc_tasks s) \<Longrightarrow> cache_step E s (set_task i (\<lambda>t. t\<lparr>tsk_ended := True\<rparr>) s)"
| attempt: "i < length (cc_tasks s) \<Longrightarrow> tsk_phase (cc_tasks s ! i) = Trying \<Longrightarrow>
    cache_step E s (attempt_task E i w s)"
| timer: "i < length (cc_tasks s) \<Longrightarrow> tsk_phase (cc_tasks s ! i) = Waiting \<Longrightarrow>
    cache_step E s (set_task i (\<lambda>t. t\<lparr>tsk_phase := Trying\<rparr>) s)"
| finished: "i < length (cc_tasks s) \<Longrightarrow> tsk_phase (cc_tasks s ! i) = Waiting \<Longrightarrow>
    tsk_replaced (cc_tasks s ! i) \<or> tsk_ended (cc_tasks s ! i) \<Longrightarrow>
    cache_step E s (set_task i (\<lambda>t. t\<lparr>tsk_phase := Returned\<rparr>) s)"
| clean: "i < length (cc_tasks s) \<Longrightarrow> tsk_phase (cc_tasks s ! i) = Returned \<Longrightarrow>
    cache_step E s (clean_up i s)"

inductive cache_reachable :: "('cl, 'w) resolve_env \<Rightarrow> ('cl, 'w) cache_state \<Rightarrow> bool" for E where
  new: "cache_reachable E new_cache"
| step: "cache_reachable E s \<Longrightarrow> cache_step E s s' \<Longrightarrow> cache_reachable E s'"

inductive_cases cache_stepE: "cache_step E s s'"

subsection \<open>The invariant\<close>

definition live :: "'cl task \<Rightarrow> bool" where
  "live t \<longleftrightarrow> \<not> tsk_replaced t \<and> tsk_phase t \<noteq> Gone"

text \<open>The registered resolvers are exactly the live tasks, each under its name.\<close>

definition registered_live :: "('cl, 'w) cache_state \<Rightarrow> bool" where
  "registered_live s \<longleftrightarrow>
     (\<forall>n i. cc_resolvers s n = Some i \<longleftrightarrow>
        i < length (cc_tasks s) \<and> tsk_name (cc_tasks s ! i) = n \<and> live (cc_tasks s ! i))"

text \<open>What is cached came out of an attempt of an engaged cluster, and every known path leads to it.\<close>

definition cached_resolved :: "('cl, 'w) resolve_env \<Rightarrow> ('cl, 'w) cache_state \<Rightarrow> bool" where
  "cached_resolved E s \<longleftrightarrow>
     (\<forall>n info. cc_cache s n = Some info \<longrightarrow>
        (\<exists>t\<in>set (cc_tasks s). tsk_name t = n \<and> (\<exists>path w. try_resolve E n (tsk_cluster t) w = Cached path info)))
   \<and> (\<forall>path n. cc_by_path s path = Some n \<longrightarrow> cc_cache s n \<noteq> None)"

lemma set_task_simps [simp]:
  "cc_cache (set_task i f s) = cc_cache s" "cc_by_path (set_task i f s) = cc_by_path s"
  "cc_resolvers (set_task i f s) = cc_resolvers s" "length (cc_tasks (set_task i f s)) = length (cc_tasks s)"
  "i < length (cc_tasks s) \<Longrightarrow> cc_tasks (set_task i f s) ! j = (if j = i then f (cc_tasks s ! i) else cc_tasks s ! j)"
  by (auto simp: set_task_def)

text \<open>A step of a task that neither replaces it nor lets it go keeps the resolvers right.\<close>

lemma registered_live_set_task:
  assumes "registered_live s" and "i < length (cc_tasks s)"
    and "tsk_name (f (cc_tasks s ! i)) = tsk_name (cc_tasks s ! i)" and "live (f (cc_tasks s ! i)) = live (cc_tasks s ! i)"
  shows "registered_live (set_task i f s)"
  using assms by (simp add: registered_live_def)

lemma registered_live_update:
  "registered_live (s\<lparr>cc_cache := c, cc_by_path := p\<rparr>) = registered_live s"
  by (simp add: registered_live_def)

lemma registered_live_start:
  assumes "\<forall>n i. n \<noteq> name \<longrightarrow> (cc_resolvers s n = Some i \<longleftrightarrow>
      i < length (cc_tasks s) \<and> tsk_name (cc_tasks s ! i) = n \<and> live (cc_tasks s ! i))"
    and "\<forall>i<length (cc_tasks s). tsk_name (cc_tasks s ! i) = name \<longrightarrow> \<not> live (cc_tasks s ! i)"
  shows "registered_live (start_task name cl s)"
  unfolding registered_live_def
proof (intro allI)
  fix n i
  show "cc_resolvers (start_task name cl s) n = Some i \<longleftrightarrow> i < length (cc_tasks (start_task name cl s))
      \<and> tsk_name (cc_tasks (start_task name cl s) ! i) = n \<and> live (cc_tasks (start_task name cl s) ! i)"
    using assms by (cases "i < length (cc_tasks s)") (auto simp: start_task_def nth_append live_def)
qed

lemma registered_iff:
  "registered_live s \<Longrightarrow> cc_resolvers s n = Some i \<longleftrightarrow>
     i < length (cc_tasks s) \<and> tsk_name (cc_tasks s ! i) = n \<and> live (cc_tasks s ! i)"
  by (simp add: registered_live_def)

lemma registered_unique:
  assumes "registered_live s" and "i < length (cc_tasks s)" and "j < length (cc_tasks s)"
    and "live (cc_tasks s ! i)" and "live (cc_tasks s ! j)" and "tsk_name (cc_tasks s ! i) = tsk_name (cc_tasks s ! j)"
  shows "i = j"
proof -
  have "cc_resolvers s (tsk_name (cc_tasks s ! i)) = Some i" "cc_resolvers s (tsk_name (cc_tasks s ! i)) = Some j"
    using assms by (simp_all add: registered_iff)
  then show ?thesis by simp
qed

lemma registered_live_engage:
  assumes "registered_live s"
  shows "registered_live (engage name cl s)"
proof (cases "cc_resolvers s name")
  case None
  then have "\<forall>i<length (cc_tasks s). tsk_name (cc_tasks s ! i) = name \<longrightarrow> \<not> live (cc_tasks s ! i)"
    using registered_iff [OF assms, of name] by auto
  from registered_live_start [OF _ this] registered_iff [OF assms] have "registered_live (start_task name cl s)"
    by simp
  with None show ?thesis by (simp add: engage_def)
next
  case (Some i)
  then have i: "i < length (cc_tasks s)" "tsk_name (cc_tasks s ! i) = name" "live (cc_tasks s ! i)"
    using registered_iff [OF assms] by blast+
  let ?s = "set_task i (\<lambda>t. t\<lparr>tsk_replaced := True\<rparr>) s"
  have dead: "\<forall>j<length (cc_tasks ?s). tsk_name (cc_tasks ?s ! j) = name \<longrightarrow> \<not> live (cc_tasks ?s ! j)"
  proof (intro allI impI)
    fix j
    assume "j < length (cc_tasks ?s)" "tsk_name (cc_tasks ?s ! j) = name"
    then show "\<not> live (cc_tasks ?s ! j)"
      using registered_unique [OF assms i(1), of j] i by (cases "j = i") (auto simp: live_def)
  qed
  have "\<forall>n j. n \<noteq> name \<longrightarrow> (cc_resolvers ?s n = Some j \<longleftrightarrow>
      j < length (cc_tasks ?s) \<and> tsk_name (cc_tasks ?s ! j) = n \<and> live (cc_tasks ?s ! j))"
    using i by (simp add: registered_iff [OF assms])
  from registered_live_start [OF this dead] Some assms show ?thesis by (simp add: engage_def)
qed

lemma registered_live_clean:
  assumes "registered_live s" and "i < length (cc_tasks s)"
  shows "registered_live (clean_up i s)"
  unfolding registered_live_def
proof (intro allI)
  fix n j
  let ?t = "cc_tasks s ! i"
  have own: "cc_resolvers s n = Some i \<Longrightarrow> n = tsk_name ?t" by (simp add: registered_iff [OF assms(1)])
  have "cc_resolvers (clean_up i s) n = Some j \<longleftrightarrow> cc_resolvers s n = Some j \<and> j \<noteq> i"
    by (cases "cc_resolvers s (tsk_name ?t) = Some i") (auto simp: clean_up_def Let_def dest: own)
  also have "\<dots> \<longleftrightarrow> j < length (cc_tasks (clean_up i s)) \<and> tsk_name (cc_tasks (clean_up i s) ! j) = n
      \<and> live (cc_tasks (clean_up i s) ! j)"
    using assms(2) by (cases "j = i") (auto simp: registered_iff [OF assms(1)] clean_up_def Let_def live_def)
  finally show "cc_resolvers (clean_up i s) n = Some j \<longleftrightarrow> j < length (cc_tasks (clean_up i s))
      \<and> tsk_name (cc_tasks (clean_up i s) ! j) = n \<and> live (cc_tasks (clean_up i s) ! j)" .
qed

lemma cache_step_registered: "cache_step E s s' \<Longrightarrow> registered_live s \<Longrightarrow> registered_live s'"
proof (induction rule: cache_step.induct)
  case (engage s name cl)
  then show ?case by (rule registered_live_engage)
next
  case (attempt i s w)
  then show ?case
    by (auto simp: attempt_task_def Let_def live_def registered_live_update
        intro!: registered_live_set_task split: attempt.split)
next
  case (clean i s)
  from clean.prems clean.hyps(1) show ?case by (rule registered_live_clean)
qed (auto simp: live_def intro!: registered_live_set_task)

text \<open>Steps keep the names and clusters of the tasks that there were.\<close>

lemma set_task_tasks:
  assumes "i < length (cc_tasks s)" and "\<And>t. tsk_name (f t) = tsk_name t \<and> tsk_cluster (f t) = tsk_cluster t"
    and "t \<in> set (cc_tasks s)"
  shows "\<exists>t'\<in>set (cc_tasks (set_task i f s)). tsk_name t' = tsk_name t \<and> tsk_cluster t' = tsk_cluster t"
proof -
  obtain j where "j < length (cc_tasks s)" "cc_tasks s ! j = t" using assms(3) by (auto simp: in_set_conv_nth)
  moreover from this have "cc_tasks (set_task i f s) ! j \<in> set (cc_tasks (set_task i f s))"
    by (intro nth_mem) simp
  ultimately show ?thesis using assms(1,2) by (intro bexI [of _ "cc_tasks (set_task i f s) ! j"]) auto
qed

lemma cached_resolved_mono:
  assumes "cached_resolved E s" and "cc_cache s' = cc_cache s" and "cc_by_path s' = cc_by_path s"
    and "\<And>t. t \<in> set (cc_tasks s) \<Longrightarrow>
           \<exists>t'\<in>set (cc_tasks s'). tsk_name t' = tsk_name t \<and> tsk_cluster t' = tsk_cluster t"
  shows "cached_resolved E s'"
  using assms unfolding cached_resolved_def by metis

lemma cached_resolved_put:
  assumes "cached_resolved E s" and "t \<in> set (cc_tasks s)"
    and "try_resolve E (tsk_name t) (tsk_cluster t) w = Cached path info"
  shows "cached_resolved E (s\<lparr>cc_cache := (cc_cache s)(tsk_name t \<mapsto> info),
                              cc_by_path := (cc_by_path s)(path \<mapsto> tsk_name t)\<rparr>)"
  using assms unfolding cached_resolved_def by (simp, blast)

lemma cached_resolved_set_task:
  "cached_resolved E s \<Longrightarrow> i < length (cc_tasks s) \<Longrightarrow>
     (\<And>t. tsk_name (f t) = tsk_name t \<and> tsk_cluster (f t) = tsk_cluster t) \<Longrightarrow> cached_resolved E (set_task i f s)"
  by (rule cached_resolved_mono [of E s]) (simp_all add: set_task_tasks)

lemma engage_tasks:
  "t \<in> set (cc_tasks s) \<Longrightarrow>
     \<exists>t'\<in>set (cc_tasks (engage name cl s)). tsk_name t' = tsk_name t \<and> tsk_cluster t' = tsk_cluster t"
proof -
  assume t: "t \<in> set (cc_tasks s)"
  then obtain j where j: "j < length (cc_tasks s)" "cc_tasks s ! j = t" by (auto simp: in_set_conv_nth)
  show ?thesis
  proof (cases "cc_resolvers s name")
    case None
    with t show ?thesis by (auto simp: engage_def start_task_def)
  next
    case (Some i)
    show ?thesis
    proof (cases "i < length (cc_tasks s)")
      case True
      from set_task_tasks [OF this _ t, of "\<lambda>t. t\<lparr>tsk_replaced := True\<rparr>"] t Some show ?thesis
        by (auto simp: engage_def start_task_def)
    next
      case False
      with t Some show ?thesis by (auto simp: engage_def start_task_def set_task_def list_update_beyond)
    qed
  qed
qed

lemma cache_step_resolved: "cache_step E s s' \<Longrightarrow> cached_resolved E s \<Longrightarrow> cached_resolved E s'"
proof (induction rule: cache_step.induct)
  case (engage s name cl)
  show ?case
  proof (rule cached_resolved_mono [OF engage.prems])
    show "cc_cache (engage name cl s) = cc_cache s" "cc_by_path (engage name cl s) = cc_by_path s"
      by (auto simp: engage_def start_task_def split: option.split)
  qed (rule engage_tasks)
next
  case (attempt i s w)
  show ?case
  proof (cases "try_resolve E (tsk_name (cc_tasks s ! i)) (tsk_cluster (cc_tasks s ! i)) w")
    case (Cached path info)
    let ?t = "cc_tasks s ! i"
    let ?s = "s\<lparr>cc_cache := (cc_cache s)(tsk_name ?t \<mapsto> info), cc_by_path := (cc_by_path s)(path \<mapsto> tsk_name ?t)\<rparr>"
    have t: "?t \<in> set (cc_tasks s)" using attempt.hyps(1) by simp
    have "cached_resolved E ?s" by (rule cached_resolved_put [OF attempt.prems t Cached])
    with Cached attempt.hyps(1) show ?thesis by (simp add: attempt_task_def Let_def cached_resolved_set_task)
  qed (simp_all add: attempt_task_def Let_def cached_resolved_set_task attempt)
next
  case (clean i s)
  have "cached_resolved E (set_task i (\<lambda>t. t\<lparr>tsk_phase := Gone\<rparr>) s)"
    using clean by (simp add: cached_resolved_set_task)
  then show ?case by (auto simp: clean_up_def Let_def cached_resolved_def)
qed (simp_all add: cached_resolved_set_task)

lemma cache_invariant: "cache_reachable E s \<Longrightarrow> registered_live s \<and> cached_resolved E s"
  by (induction rule: cache_reachable.induct)
     (auto simp: new_cache_def registered_live_def cached_resolved_def
       dest: cache_step_registered cache_step_resolved)

end
