(* ===== verification/Rebac_Props.thy ===== *)
theory Rebac_Props
  imports Rebac_Server Rebac_Cache Broker_Example
begin

text \<open>
  What the authorization webhook guarantees: who is allowed, how often a caller is asked to come back,
  the names it asks OpenFGA about, and the cache behind it.
\<close>

subsection \<open>The decision\<close>

text \<open>
  The chain of handlers as a contract: every handler answers with one of four verdicts, so an answer
  is never a denial and a verdict that ends the chain is not mixed with another.
\<close>

definition verdict :: "response \<Rightarrow> bool" where
  "verdict r \<longleftrightarrow> r = NoOpinion \<or> r = Aborted \<or> r = Allowed \<or> (\<exists>d. r = Retry d)"

lemma verdict_simps [simp]: "verdict NoOpinion" "verdict Aborted" "verdict Allowed" "verdict (Retry d)"
  by (auto simp: verdict_def)

locale handler_chain =
  fixes hs :: "'w handler list"
  assumes verdicts: "h \<in> set hs \<Longrightarrow> verdict (fst (h req w))"
begin

lemma union_verdict: "verdict (fst (new_union hs req w))"
proof -
  have u: "set gs \<subseteq> set hs \<Longrightarrow> verdict (fst (union_handle gs req w))" for gs w
    by (induction gs arbitrary: w) (auto simp: verdicts split: prod.split dest: arg_cong [where f = fst], metis fst_conv verdicts)
  show ?thesis
    using u [of hs w] by (auto simp: new_union_def verdicts split: list.split)
qed

lemma union_never_denies: "\<not> rp_denied (fst (new_union hs req w))"
  using union_verdict [of req w] by (auto simp: verdict_def response_defs)

end

lemma contextual_verdict: "verdict (fst (contextual_handle X req w))"
  by (auto simp: contextual_handle_def bind_handle_def cache_miss_def fga_verdict_def Let_def
      split: option.split sum.split prod.split bool.split)

lemma orgs_verdict: "verdict (fst (orgs_handle A req w))"
  by (auto simp: orgs_handle_def split: option.split sum.split prod.split bool.split)

lemma nonresource_verdict: "verdict (fst (nonresource_handle prefixes req w))"
  by (auto simp: nonresource_handle_def split: option.split)

interpretation server: handler_chain "server_chain prefixes A X" for prefixes A X
  by unfold_locales (auto simp: server_chain_def contextual_verdict orgs_verdict nonresource_verdict)

text \<open>The question each handler puts to OpenFGA about a request, where it puts one.\<close>

definition orgs_question :: "'w orgs_authorizer \<Rightarrow> sar \<Rightarrow> 'w \<Rightarrow> check_request option" where
  "orgs_question A req w =
     (case (extra_value (oa_cluster_key A) req, sar_resource req, orgs_workspace_id A w) of
        (Some cluster, Some a, Inr i) \<Rightarrow> if cluster = i then Some (orgs_request A (sar_user req) a) else None
      | _ \<Rightarrow> None)"

definition bind_question ::
  "'w contextual_authorizer \<Rightarrow> resource_attributes \<Rightarrow> string \<Rightarrow> sar \<Rightarrow> 'w \<Rightarrow> check_request option" where
  "bind_question X a provider req w =
     (let consumer = consumer_cluster (sar_groups req) in
      case (if consumer = [] then None else cp_get (xa_cache X) consumer w) of
        None \<Rightarrow> None
      | Some i \<Rightarrow> (case singularize (ci_mapper i) (ra_resource a) w of
                     Inl e \<Rightarrow> None | Inr singular \<Rightarrow> bind_request a provider i singular))"

definition contextual_question :: "'w contextual_authorizer \<Rightarrow> sar \<Rightarrow> 'w \<Rightarrow> check_request option" where
  "contextual_question X req w =
     (case (extra_value (xa_cluster_key X) req, sar_resource req) of
        (Some cluster, Some a) \<Rightarrow>
          if ra_verb a = bindVerb \<and> ra_group a = ''apis.kcp.io'' then bind_question X a cluster req w
          else
            (case cp_get (xa_cache X) cluster w of
               None \<Rightarrow> None
             | Some i \<Rightarrow> (case build_check_input a (sar_user req) cluster i w of
                            Some (Inr c) \<Rightarrow> Some (input_request c) | _ \<Rightarrow> None))
      | _ \<Rightarrow> None)"

text \<open>
  The decision: a non-resource path needs an allowed prefix; a request to the orgs workspace is decided
  by the orgs store, unless it cannot be asked; every other request needs the yes of OpenFGA to its
  contextual question.
\<close>

definition granted_by :: "'w fga_check \<Rightarrow> check_request option \<Rightarrow> 'w \<Rightarrow> bool" where
  "granted_by check q w = (case q of None \<Rightarrow> False | Some c \<Rightarrow> fst (check c w) = Inr True)"

definition decide :: "string list \<Rightarrow> 'w orgs_authorizer \<Rightarrow> 'w contextual_authorizer \<Rightarrow> sar \<Rightarrow> 'w \<Rightarrow> bool" where
  "decide prefixes A X req w =
     (case sar_path req of
        Some path \<Rightarrow> (\<exists>p\<in>set prefixes. has_prefix path p)
      | None \<Rightarrow>
          (case orgs_question A req w of
             None \<Rightarrow> granted_by (xa_check X) (contextual_question X req w) w
           | Some q \<Rightarrow>
               (case oa_check A q w of
                  (Inr b, w') \<Rightarrow> b
                | (Inl e, w') \<Rightarrow> granted_by (xa_check X) (contextual_question X req w') w')))"

lemma build_object_type_not_None: "build_object_type g s \<noteq> None"
  using build_object_type_Some [of g s] by auto

lemma bind_request_not_None [simp]: "bind_request a p i s \<noteq> None"
  using build_object_type_not_None by (auto simp: bind_request_def)

lemma bind_allowed:
  "rp_allowed (fst (bind_handle X a p req w)) \<longleftrightarrow> granted_by (xa_check X) (bind_question X a p req w) w"
  by (auto simp: bind_handle_def bind_question_def granted_by_def fga_verdict_def cache_miss_def Let_def response_defs
      split: option.split sum.split prod.split bool.split)

lemma build_check_input_not_None [simp]: "build_check_input a u c i w \<noteq> None"
  using build_object_type_not_None by (auto simp: build_check_input_def Let_def split: sum.split prod.split)

lemma contextual_allowed:
  "rp_allowed (fst (contextual_handle X req w)) \<longleftrightarrow> granted_by (xa_check X) (contextual_question X req w) w"
  by (auto simp: contextual_handle_def contextual_question_def bind_allowed cache_miss_def fga_verdict_def
      granted_by_def response_defs split: option.split sum.split prod.split bool.split)

lemma orgs_answer:
  "orgs_handle A req w =
     (case orgs_question A req w of
        None \<Rightarrow> (NoOpinion, w)
      | Some q \<Rightarrow> (case oa_check A q w of (Inl e, w') \<Rightarrow> (NoOpinion, w') | (Inr True, w') \<Rightarrow> (Allowed, w')
                    | (Inr False, w') \<Rightarrow> (Aborted, w')))"
  by (auto simp: orgs_handle_def orgs_question_def split: option.split sum.split)

lemma decisive_verdicts [simp]: "\<not> decisive NoOpinion" "decisive Aborted" "decisive Allowed"
  by (simp_all add: decisive_def response_defs)

lemma allowed_verdicts [simp]: "\<not> rp_allowed NoOpinion" "\<not> rp_allowed Aborted" "rp_allowed Allowed"
  by (simp_all add: response_defs)

text \<open>
  C11. The server allows a request exactly when the decision above grants it: nothing is allowed without a
  configured path prefix or the yes of OpenFGA to the question this very request stands for.
\<close>

theorem server_allows_iff_granted:
  "rp_allowed (fst (server_handle prefixes A X req w)) = decide prefixes A X req w"
proof (cases "sar_path req")
  case (Some path)
  then show ?thesis
    by (auto simp: server_handle_def server_chain_def new_union_def nonresource_handle_def decide_def)
next
  case None
  have last: "rp_allowed (fst (union_handle [contextual_handle X] req w')) =
      granted_by (xa_check X) (contextual_question X req w') w'" for w'
    using contextual_allowed [of X req w'] by (auto simp: decisive_def split: prod.split)
  show ?thesis
    unfolding decide_def server_handle_def server_chain_def new_union_def
    using last None
    by (simp add: nonresource_handle_def orgs_answer del: union_handle.simps(2))
       (auto simp: nonresource_handle_def orgs_answer union_handle.simps split: option.split prod.split sum.split bool.split)
qed

subsection \<open>Retries\<close>

text \<open>
  After a cache miss a caller is asked to come back at most the configured number of times per
  cluster, counting what was recorded before, and misses of other clusters do not use it up.
\<close>

theorem retries_bounded:
  assumes "ttl_laws C" and "xa_tracker X = expiring_tracker C limit" and "xa_retry_after X \<noteq> 0"
  shows "retries_in k (fst (miss_run X ks w)) = min (count_list ks k) (unat limit - unat (retries_of C k w))"
  using retry_tracker.miss_run_budget(1) [OF expiring_tracker_laws [OF assms(1)] assms(2,3), of k ks w]
  by (simp add: left_retries_def)

definition missing_clusters :: "(string \<rightharpoonup> 64 word) contextual_authorizer" where
  "missing_clusters =
     \<lparr>xa_cluster_key = ''cluster'', xa_check = (\<lambda>q w. (Inr True, w)),
      xa_cache = \<lparr>cp_get = (\<lambda>c w. None), cp_cluster_name = (\<lambda>p w. None)\<rparr>,
      xa_tracker = expiring_tracker map_cache 2, xa_retry_after = second\<rparr>"

theorem retries_bounded_witness:
  "retries_in ''a'' (fst (miss_run missing_clusters [''a'', ''b'', ''a'', ''a''] Map.empty)) = 2"
proof -
  have "retries_in ''a'' (fst (miss_run missing_clusters [''a'', ''b'', ''a'', ''a''] Map.empty)) =
      min (count_list [''a'', ''b'', ''a'', ''a''] ''a'') (unat (2 :: 64 word) - unat (retries_of map_cache ''a'' Map.empty))"
    by (rule retries_bounded [OF map_cache_laws]) (simp_all add: missing_clusters_def second_def)
  then show ?thesis by (simp add: retries_of_def map_cache_def)
qed

subsection \<open>Names\<close>

text \<open>
  The object the webhook asks about has exactly one colon more than its type and cluster name, whatever
  the name of the resource; the name can be read back from it, so different names give different objects.
\<close>

theorem object_names_faithful:
  "count_list (render_object t c n) (CHR '':'') = count_list t (CHR '':'') + count_list c (CHR '':'') + 1
   \<and> decode_name (drop (length t + length c + 2) (render_object t c n)) = n"
  using encode_no_colon [of n] by (simp add: render_object_def count_list_0_iff decode_encode)

text \<open>
  The names always fit OpenFGA: no slice is out of range, the longest relation on a type has at most
  50 bytes, and so has the relation for a resource whose API group is not the core group and whose
  name has at most 42 bytes.
\<close>

theorem relation_names_fit:
  assumes "gvr_group g \<noteq> []" and "length (gvr_resource g) \<le> 42" and "resolve_on_parent verb"
  shows "\<exists>grp t. build_object_type g singular = Some (grp, t) \<and> length (''create_'' @ t @ ''s'') \<le> 50
    \<and> length (verb @ ''_'' @ grp @ ''_'' @ gvr_resource g) \<le> 50"
proof -
  obtain t where t: "build_object_type g singular =
      Some (replace_char (CHR ''.'') (CHR ''_'') (cap_group g maxRelationLength), t)" "length t \<le> 42"
    using build_object_type_Some by blast
  have "length verb \<le> 6" using assms(3) by (auto simp: resolve_on_parent_def)
  with t cap_group_length [OF assms(1,2)] show ?thesis by (auto simp: maxRelationLength_def)
qed

theorem relation_names_fit_witness:
  "let g = \<lparr>gvr_group = ''a.very.long.group.of.apis.example.com'', gvr_version = ''v1'', gvr_resource = ''verylongresources''\<rparr>
   in \<exists>grp t. build_object_type g ''verylongresource'' = Some (grp, t) \<and> length (''create_'' @ t @ ''s'') \<le> 50
    \<and> length (''create'' @ ''_'' @ grp @ ''_'' @ gvr_resource g) \<le> 50"
  unfolding Let_def by (rule relation_names_fit) (simp_all add: resolve_on_parent_def)

subsection \<open>The cache\<close>

text \<open>
  C13. However engagements, attempts and cancellations interleave, the registered resolvers are exactly the
  live tasks, at most one for each cluster name; what is cached came out of an attempt of a cluster that was
  engaged under that name; and every path the cache knows leads to cached information.
\<close>

theorem cluster_cache_consistent:
  assumes "cache_reachable E s"
  shows "(\<forall>n i. cc_resolvers s n = Some i \<longleftrightarrow>
        i < length (cc_tasks s) \<and> tsk_name (cc_tasks s ! i) = n \<and> live (cc_tasks s ! i))
   \<and> (\<forall>n info. cc_cache s n = Some info \<longrightarrow>
        (\<exists>t\<in>set (cc_tasks s). tsk_name t = n \<and> (\<exists>path w. try_resolve E n (tsk_cluster t) w = Cached path info)))
   \<and> (\<forall>path n. cc_by_path s path = Some n \<longrightarrow> cc_cache s n \<noteq> None)"
  using cache_invariant [OF assms] by (simp add: registered_live_def cached_resolved_def)

text \<open>One organisation with one account workspace.\<close>

definition small_logical_cluster :: uobj where
  "small_logical_cluster =
     \<lparr>un_gvk = small_gvk, un_meta = (new_meta ''cluster'')\<lparr>m_annotations := Some [''kcp.io/path'' \<mapsto> ''root:orgs:o:a'']\<rparr>,
      un_fields = [(''spec'', JObj [(''owner'', JObj [(''cluster'', JStr ''parent'')])])]\<rparr>"

definition small_store :: uobj where
  "small_store = \<lparr>un_gvk = small_gvk, un_meta = new_meta ''o'', un_fields = [(''status'', JObj [(''storeId'', JStr ''s1'')])]\<rparr>"

definition small_mapper :: "'w restmapper" where
  "small_mapper = \<lparr>kind_for = (\<lambda>g w. Inr small_gvk), is_namespaced = (\<lambda>k w. Inr False),
                   singularize = (\<lambda>r w. Inr ''thing'')\<rparr>"

definition small_resolve_env :: "(string, unit) resolve_env" where
  "small_resolve_env =
     \<lparr>re_logical_cluster = (\<lambda>cl w. Inr small_logical_cluster), re_orgs_cluster = (\<lambda>w. Inr ''orgs''),
      re_store = (\<lambda>cl n w. Inr small_store), re_unstructured = walk_api, re_base = (\<lambda>p. ''a''),
      re_mapper = (\<lambda>cl n w. Inr small_mapper)\<rparr>"

definition small_cache :: "(string, unit) cache_state" where
  "small_cache = attempt_task small_resolve_env 0 () (engage ''c1'' ''cl'' new_cache)"

lemma small_cache_reachable: "cache_reachable small_resolve_env small_cache"
  unfolding small_cache_def
proof (rule cache_reachable.step [OF cache_reachable.step [OF cache_reachable.new cache_step.engage]])
  show "cache_step small_resolve_env (engage ''c1'' ''cl'' new_cache)
     (attempt_task small_resolve_env 0 () (engage ''c1'' ''cl'' new_cache))"
    by (rule cache_step.attempt) (simp_all add: engage_def new_cache_def start_task_def)
qed

lemma small_cache_entry: "cc_by_path small_cache ''root:orgs:o:a'' = Some ''c1''"
  by (simp add: small_cache_def attempt_task_def engage_def new_cache_def start_task_def try_resolve_def Let_def
      small_resolve_env_def small_logical_cluster_def annotation_def has_prefix_def orgsPrefix_def required_string_def
      walk_api_def walk_string_def un_object_def small_store_def small_gvk_def set_task_def)

theorem cluster_cache_consistent_witness:
  "\<exists>info. cc_cache small_cache ''c1'' = Some info"
  using cluster_cache_consistent [OF small_cache_reachable] small_cache_entry by auto

lemma core_group_not_counted:
  "length (''create_'' @ cap_group \<lparr>gvr_group = [], gvr_version = ''v1'', gvr_resource = replicate 40 (CHR ''r'')\<rparr> 50
     @ ''_'' @ replicate 40 (CHR ''r'')) = 52"
  by (simp add: cap_group_def Let_def)

subsection \<open>HTTP\<close>

lemma write_response_retry:
  "rp_retry_after r \<noteq> 0 \<Longrightarrow>
     write_response D r = Some \<lparr>hp_status = 503, hp_retry_after = Some (itoa (whole_seconds (rp_retry_after r))), hp_body = []\<rparr>"
  by (subst write_response.simps) simp

lemma write_response_body:
  "rp_retry_after r = 0 \<Longrightarrow> encode_review D r = Inr body \<Longrightarrow>
     write_response D r = Some \<lparr>hp_status = 200, hp_retry_after = None, hp_body = body\<rparr>"
  by (subst write_response.simps) simp

lemma write_response_error:
  "rp_retry_after r = 0 \<Longrightarrow> encode_review D r = Inl e \<Longrightarrow> write_response D r = write_response D (Errored e)"
  by (subst write_response.simps) simp

lemma errored_retry [simp]: "rp_retry_after (Errored e) = 0"
  by (simp add: response_defs)

lemma write_response_total:
  assumes "\<And>e. \<exists>body. encode_review D (Errored e) = Inr body"
  shows "write_response D r = Some (if rp_retry_after r \<noteq> 0
      then \<lparr>hp_status = 503, hp_retry_after = Some (itoa (whole_seconds (rp_retry_after r))), hp_body = []\<rparr>
      else \<lparr>hp_status = 200, hp_retry_after = None,
            hp_body = (case encode_review D r of Inr body \<Rightarrow> body | Inl e \<Rightarrow> projr (encode_review D (Errored e)))\<rparr>)"
proof (cases "rp_retry_after r = 0")
  case True
  show ?thesis
  proof (cases "encode_review D r")
    case (Inl e)
    obtain body where "encode_review D (Errored e) = Inr body" using assms by blast
    with True Inl show ?thesis by (simp add: write_response_error write_response_body)
  next
    case (Inr body)
    with True show ?thesis by (simp add: write_response_body)
  qed
next
  case False
  then show ?thesis by (simp add: write_response_retry)
qed

text \<open>
  As long as an error can be encoded, every request is answered. A request that carries no readable
  review is answered with the error; a review is answered with the handler's response under the
  UID of the review: a 503 with the whole seconds to wait when the handler asks for a retry, else the
  encoded response, or the encoding error when there is one.
\<close>

theorem webhook_answers:
  assumes "\<And>e. \<exists>body. encode_review D (Errored e) = Inr body"
  shows "serve_http D h req w =
    (case read_review D req of
       Inl e \<Rightarrow> (Some \<lparr>hp_status = 200, hp_retry_after = None, hp_body = projr (encode_review D (Errored e))\<rparr>, w)
     | Inr q \<Rightarrow>
         (let r = (fst (h q w))\<lparr>rp_uid := sar_uid q\<rparr> in
          (Some (if rp_retry_after r \<noteq> 0
             then \<lparr>hp_status = 503, hp_retry_after = Some (itoa (whole_seconds (rp_retry_after r))), hp_body = []\<rparr>
             else \<lparr>hp_status = 200, hp_retry_after = None,
                   hp_body = (case encode_review D r of Inr body \<Rightarrow> body
                                | Inl e \<Rightarrow> projr (encode_review D (Errored e)))\<rparr>), snd (h q w))))"
proof -
  have e: "(case encode_review D (Errored e) of Inr body \<Rightarrow> body | Inl e' \<Rightarrow> projr (encode_review D (Errored e')))
      = projr (encode_review D (Errored e))" for e
    using assms [of e] by auto
  show ?thesis
    by (auto simp: serve_http_def write_response_total [OF assms] e Let_def split: sum.split prod.split)
qed

definition plain_codec :: codec where
  "plain_codec =
     \<lparr>decode_review = (\<lambda>s. Inl (errorf s)), encode_review = (\<lambda>r. Inr (rp_eval_error r))\<rparr>"

theorem webhook_answers_witness:
  "serve_http plain_codec (\<lambda>q w. (Allowed, w)) \<lparr>hr_body = Some (Inr ''x''), hr_content_type = ''application/json''\<rparr> ()
     = (Some \<lparr>hp_status = 200, hp_retry_after = None, hp_body = ''x''\<rparr>, ())"
  by (subst webhook_answers)
     (simp_all add: plain_codec_def read_review_def read_limited_def errorf_def response_defs)

subsection \<open>Batches\<close>

lemma map_of_initial_results:
  "map_of (foldl (\<lambda>m s. obj_put (sar_name s) False m) m sars) n =
     (if n \<in> sar_name ` set sars then Some False else map_of m n)"
  by (induction sars arbitrary: m) auto

lemma map_of_record_results:
  "map_of (foldl record_result m rs) n =
     (case map_of (rev (map (\<lambda>(i, r). (i, projr r)) (filter (\<lambda>(i, r). \<not> isl r) rs))) n of
        None \<Rightarrow> map_of m n | Some b \<Rightarrow> Some b)"
  by (induction rs arbitrary: m) (auto simp: record_result_def map_of_append split: sum.splits option.splits)

text \<open>A check of the batch belongs to one of its items.\<close>

definition check_of :: "'w batch_handler \<Rightarrow> 'w \<Rightarrow> sar list \<Rightarrow> string \<Rightarrow> batch_item \<Rightarrow> bool" where
  "check_of H w sars store c \<longleftrightarrow>
     (\<exists>s\<in>set sars. \<exists>cluster i k. cluster_of H s w = Some (cluster, i) \<and> ci_store i \<in> {store, []}
        \<and> build_check_input (the (sar_resource s)) (sar_user s) cluster i w = Some (Inr k) \<and> c = item_of s k)"

lemma build_checks_store:
  "build_checks H w sars store checks = Inr (checks', store') \<Longrightarrow> store \<noteq> [] \<Longrightarrow> store' = store"
  by (induction sars arbitrary: store checks)
     (auto simp: Let_def split: option.splits if_splits sum.splits)

lemma check_of_Cons: "check_of H w sars store c \<Longrightarrow> check_of H w (s # sars) store c"
  by (auto simp: check_of_def)

lemma build_checks_items:
  "build_checks H w sars store checks = Inr (checks', store') \<Longrightarrow> c \<in> set checks' \<Longrightarrow>
     c \<in> set checks \<or> check_of H w sars store' c"
proof (induction sars arbitrary: store checks)
  case Nil
  then show ?case by simp
next
  case (Cons s ss)
  show ?case
  proof (cases "cluster_of H s w")
    case None
    with Cons show ?thesis by (auto dest: check_of_Cons)
  next
    case (Some ci)
    obtain cluster i where ci: "cluster_of H s w = Some (cluster, i)" using Some by (cases ci) auto
    let ?store = "if store = [] then ci_store i else store"
    have ok: "store = [] \<or> store = ci_store i" using Cons.prems(1) ci by (auto split: if_splits)
    obtain b where b: "build_check_input (the (sar_resource s)) (sar_user s) cluster i w = Some b"
      by (cases "build_check_input (the (sar_resource s)) (sar_user s) cluster i w") simp_all
    show ?thesis
    proof (cases b)
      case (Inl e)
      then have "build_checks H w ss ?store checks = Inr (checks', store')"
        using Cons.prems(1) ci ok b by (auto simp: Let_def)
      from Cons.IH [OF this Cons.prems(2)] show ?thesis by (auto dest: check_of_Cons)
    next
      case (Inr k)
      then have rest: "build_checks H w ss ?store (checks @ [item_of s k]) = Inr (checks', store')"
        using Cons.prems(1) ci ok b by (auto simp: Let_def)
      have "ci_store i \<in> {store', []}"
        using build_checks_store [OF rest] ok by (auto split: if_splits)
      then have "check_of H w (s # ss) store' (item_of s k)"
        using ci b Inr by (auto simp: check_of_def)
      with Cons.IH [OF rest Cons.prems(2)] show ?thesis by (auto dest: check_of_Cons)
    qed
  qed
qed

lemma recorded_allowed:
  "map_of (foldl record_result m rs) n = Some True \<Longrightarrow> map_of m n = Some True \<or> (n, Inr True) \<in> set rs"
  by (induction rs arbitrary: m) (fastforce simp: record_result_def split: sum.splits if_splits)+

lemma recorded_dom: "map_of m n \<noteq> None \<Longrightarrow> map_of (foldl record_result m rs) n \<noteq> None"
  by (simp add: map_of_record_results split: option.split)

text \<open>
  C12. A batch is answered with results only when all of its checks went to one store: each check was built from
  one item with that item's user, and belongs to a cluster of that store (or of a cluster that
  reports an empty store id). Every item has a result, and a result is allowed only if OpenFGA allowed
  the check of that id without an error.
\<close>

theorem batch_allows_only_checked:
  assumes "serve_batch unmarshal H body w = (Inr results, w')"
  shows "\<exists>s sars checks store rs. body = Some (Inr s) \<and> unmarshal s = Inr sars
    \<and> bh_check H store checks w = (Inr rs, w') \<and> (\<forall>c\<in>set checks. check_of H w sars store c)
    \<and> (\<forall>x\<in>set sars. map_of results (sar_name x) \<noteq> None)
    \<and> (\<forall>i. map_of results i = Some True \<longrightarrow> (i, Inr True) \<in> set rs)"
proof -
  obtain s sars where b: "body = Some (Inr s)" "unmarshal s = Inr sars" "process_batch H sars w = (Inr results, w')"
    using assms by (auto simp: serve_batch_def split: option.splits sum.splits prod.splits batch_error.splits)
  let ?m = "foldl (\<lambda>m s. obj_put (sar_name s) False m) [] sars"
  obtain checks store rs where c: "build_checks H w sars [] [] = Inr (checks, store)"
    "bh_check H store checks w = (Inr rs, w')" "results = foldl record_result ?m rs"
    using b(3) by (auto simp: process_batch_def Let_def split: sum.splits prod.splits if_splits)
  have "\<forall>x\<in>set checks. check_of H w sars store x" using build_checks_items [OF c(1)] by auto
  moreover have "\<forall>x\<in>set sars. map_of results (sar_name x) \<noteq> None"
    unfolding c(3) by (intro ballI recorded_dom) (simp add: map_of_initial_results)
  moreover have "\<forall>i. map_of results i = Some True \<longrightarrow> (i, Inr True) \<in> set rs"
  proof (intro allI impI)
    fix i
    assume "map_of results i = Some True"
    then have "map_of ?m i = Some True \<or> (i, Inr True) \<in> set rs" unfolding c(3) by (rule recorded_allowed)
    then show "(i, Inr True) \<in> set rs" by (simp add: map_of_initial_results split: if_splits)
  qed
  ultimately show ?thesis using b(1,2) c(2) by blast
qed

definition small_batch :: "unit batch_handler" where
  "small_batch =
     \<lparr>bh_check = (\<lambda>store checks w. (Inr (map (\<lambda>c. (bi_correlation c, Inr True)) checks), w)),
      bh_cache = \<lparr>cp_get = (\<lambda>c w. Some \<lparr>ci_store = ''s1'', ci_mapper = small_mapper, ci_account = ''a'', ci_parent = ''p''\<rparr>),
                  cp_cluster_name = (\<lambda>p w. Some ''c1'')\<rparr>,
      bh_path_key = ''path''\<rparr>"

definition small_review :: sar where
  "small_review =
     \<lparr>sar_name = ''r1'', sar_uid = ''u1'', sar_user = ''jo'', sar_groups = [],
      sar_extra = Some [''path'' \<mapsto> [''root:orgs:o:a'']],
      sar_resource = Some \<lparr>ra_namespace = [], ra_verb = ''get'', ra_group = ''g'', ra_version = ''v1'',
                           ra_resource = ''things'', ra_name = ''x''\<rparr>, sar_path = None\<rparr>"

lemma small_batch_run:
  "serve_batch (\<lambda>s. Inr [small_review]) small_batch (Some (Inr [])) () = (Inr [(''r1'', True)], ())"
  by (simp add: serve_batch_def valid_item_def small_review_def extra_value_def small_batch_def process_batch_def Let_def
      cluster_of_def build_check_input_def attributes_gvr_def map_resource_def small_mapper_def build_object_type_def
      cap_group_def maxRelationLength_def item_of_def record_result_def)

theorem batch_allows_only_checked_witness:
  "\<exists>s sars checks store rs. Some (Inr []) = Some (Inr s) \<and> Inr [small_review] = (Inr sars :: err + sar list)
    \<and> bh_check small_batch store checks () = (Inr rs, ()) \<and> (''r1'', Inr True) \<in> set rs"
  using batch_allows_only_checked [OF small_batch_run] by (metis map_of_Cons_code(2))

end
