(* ===== verification/Fga_Types.thy ===== *)
theory Fga_Types
  imports Clients
begin

text \<open>
  The resources of the security operator (\<^verbatim>\<open>apis/core/v1alpha1\<close>) and the OpenFGA service it talks to.
  OpenFGA is not code of the repository: its calls are fields of a record, and the predicates at the
  end state what its API documents of a write and of a paged read.
\<close>

subsection \<open>Resources\<close>

record tuple =
  tp_object :: string
  tp_relation :: string
  tp_user :: string

record account_location =
  al_name :: string
  al_generated :: string
  al_origin :: string
  al_path :: string
  al_type :: string

text \<open>Of an AccountInfo, the locations; the other fields are not read here.\<close>

record account_info =
  ai_account :: account_location
  ai_parent :: "account_location option"
  ai_organization :: account_location

record store_status =
  ss_conditions :: "condition list"
  st_store_id :: string
  st_model_id :: string
  st_managed :: "tuple list"

record store =
  store_meta :: objmeta
  store_core_module :: string
  store_tuples :: "tuple list"
  store_status :: store_status

record authorization_model =
  am_meta :: objmeta
  am_store_name :: string
  am_store_cluster :: string
  am_model :: string
  am_tuples :: "tuple list"
  am_conditions :: "condition list"
  am_managed :: "tuple list"

record apiexport_policy =
  po_meta :: objmeta
  po_export_name :: string
  po_export_path :: string
  po_allow :: "string list"
  po_conditions :: "condition list"
  po_managed :: "string list"

definition store_name :: "store \<Rightarrow> string" where
  "store_name s = m_name (store_meta s)"

subsection \<open>The OpenFGA service\<close>

text \<open>A write request of the tuple manager; the last two fields say what repeated tuples do.\<close>

record write_request =
  wr_store :: string
  wr_model :: string
  wr_writes :: "tuple list"
  wr_deletes :: "tuple list"
  wr_on_duplicate :: string
  wr_on_missing :: string

text \<open>
  A page of tuples with the token of the next page; a tuple may come without its key. A read is asked
  for one object or for all.
\<close>

record tuple_page =
  pg_tuples :: "tuple option list"
  pg_token :: string

record 'w fga =
  fga_write :: "write_request \<Rightarrow> 'w \<Rightarrow> err option \<times> 'w"
  fga_read :: "string \<Rightarrow> string option \<Rightarrow> string \<Rightarrow> 'w \<Rightarrow> err + tuple_page"

text \<open>
  What OpenFGA documents of \<^verbatim>\<open>Write\<close>: a request is one transaction, repeated writes and missing deletes
  being ignored. \<open>T\<close> reads the tuples of a store off the state.
\<close>

definition fga_writes :: "'w fga \<Rightarrow> (string \<Rightarrow> 'w \<Rightarrow> tuple set) \<Rightarrow> bool" where
  "fga_writes A T \<longleftrightarrow>
     (\<forall>r w s. T s (snd (fga_write A r w)) =
        (if s = wr_store r \<and> fst (fga_write A r w) = None
         then (T s w - set (wr_deletes r)) \<union> set (wr_writes r) else T s w))"

text \<open>
  What it documents of \<^verbatim>\<open>Read\<close>: the pages from a token on are a list, each page answers with the token
  of the rest, and all pages together hold the tuples asked for.
\<close>

definition keys_of_page :: "tuple_page \<Rightarrow> tuple list" where
  "keys_of_page p = List.map_filter id (pg_tuples p)"

definition fga_reads ::
  "'w fga \<Rightarrow> (string \<Rightarrow> 'w \<Rightarrow> tuple set) \<Rightarrow> (string \<Rightarrow> string option \<Rightarrow> string \<Rightarrow> 'w \<Rightarrow> tuple list list) \<Rightarrow> bool" where
  "fga_reads A T pages \<longleftrightarrow>
     (\<forall>s k tok w p. fga_read A s k tok w = Inr p \<longrightarrow>
        pages s k tok w = keys_of_page p # (if pg_token p = [] then [] else pages s k (pg_token p) w)) \<and>
     (\<forall>s k w. set (concat (pages s k [] w)) = {t \<in> T s w. \<forall>x. k = Some x \<longrightarrow> tp_object t = x})"

text \<open>A call that does not write tuples.\<close>

definition keeps_tuples :: "(string \<Rightarrow> 'w \<Rightarrow> tuple set) \<Rightarrow> ('w \<Rightarrow> 'w) \<Rightarrow> bool" where
  "keeps_tuples T f \<longleftrightarrow> (\<forall>s w. T s (f w) = T s w)"

end
