(* ===== verification/Fga_Tuples.thy ===== *)
theory Fga_Tuples
  imports Fga_Types
begin

text \<open>
  Tuples of accounts and the tuple manager (\<^verbatim>\<open>operators/security-operator/internal/fga\<close>): the two shapes
  of keys that carry an account, rendering and parsing of them, the stale keys of a re-created
  organization, and the batched writes and paged reads of OpenFGA tuples.
\<close>

subsection \<open>Account keys\<close>

record account_key =
  ak_type :: string
  ak_cluster :: string
  ak_name :: string
  ak_role :: string
  ak_relation :: string

definition RolePrefix :: "account_key \<Rightarrow> string" where
  "RolePrefix k = ''role:'' @ ak_type k @ ''/'' @ ak_cluster k @ ''/'' @ ak_name k @ ''/''"

definition render_key :: "account_key \<Rightarrow> string" where
  "render_key k =
     (let s = (if ak_role k \<noteq> [] then RolePrefix k @ ak_role k
               else ak_type k @ '':'' @ ak_cluster k @ ''/'' @ ak_name k)
      in if ak_relation k \<noteq> [] then s @ ''#'' @ ak_relation k else s)"

definition checked_key :: "string \<Rightarrow> account_key \<Rightarrow> account_key option" where
  "checked_key typ k =
     (if ak_type k = [] \<or> ak_cluster k = [] \<or> ak_name k = [] \<or> (typ = ''role'' \<and> ak_role k = [])
      then None else Some k)"

definition parse_shape :: "string \<Rightarrow> string \<Rightarrow> account_key option" where
  "parse_shape relation s =
     (let typ = upto_char (CHR '':'') s; rest = from_char (CHR '':'') s in
      if CHR '':'' \<notin> set s \<or> typ = [] \<or> typ = ''user'' then None
      else (case split_on (CHR ''/'') rest of
              [t, c, n, r] \<Rightarrow>
                (if typ = ''role''
                 then checked_key typ \<lparr>ak_type = t, ak_cluster = c, ak_name = n, ak_role = r, ak_relation = relation\<rparr>
                 else None)
            | [c, n] \<Rightarrow>
                (if typ \<noteq> ''role''
                 then checked_key typ \<lparr>ak_type = typ, ak_cluster = c, ak_name = n, ak_role = [], ak_relation = relation\<rparr>
                 else None)
            | _ \<Rightarrow> None))"

definition ParseAccountKey :: "string \<Rightarrow> account_key option" where
  "ParseAccountKey s =
     (if CHR ''#'' \<in> set s
      then (if from_char (CHR ''#'') s = [] then None
            else parse_shape (from_char (CHR ''#'') s) (upto_char (CHR ''#'') s))
      else parse_shape [] s)"

definition renderAccountEntity :: "string \<Rightarrow> string \<Rightarrow> string \<Rightarrow> string" where
  "renderAccountEntity object_type cluster_id name =
     render_key \<lparr>ak_type = object_type, ak_cluster = cluster_id, ak_name = name, ak_role = [], ak_relation = []\<rparr>"

definition RenderRolePrefix :: "string \<Rightarrow> string \<Rightarrow> string \<Rightarrow> string" where
  "RenderRolePrefix object_type cluster_id name =
     RolePrefix \<lparr>ak_type = object_type, ak_cluster = cluster_id, ak_name = name, ak_role = [], ak_relation = []\<rparr>"

definition renderOwnerRole :: "string \<Rightarrow> string \<Rightarrow> string \<Rightarrow> string" where
  "renderOwnerRole object_type cluster_id name =
     render_key \<lparr>ak_type = object_type, ak_cluster = cluster_id, ak_name = name, ak_role = ''owner'', ak_relation = []\<rparr>"

definition renderOwnerRoleAssigneeGroup :: "string \<Rightarrow> string \<Rightarrow> string \<Rightarrow> string" where
  "renderOwnerRoleAssigneeGroup object_type cluster_id name =
     render_key \<lparr>ak_type = object_type, ak_cluster = cluster_id, ak_name = name, ak_role = ''owner'',
                 ak_relation = ''assignee''\<rparr>"

definition formatUser :: "string \<Rightarrow> string" where
  "formatUser user = replace_char (CHR '':'') (CHR ''.'') user"

definition renderCreatorUser :: "string \<Rightarrow> string" where
  "renderCreatorUser creator = ''user:'' @ formatUser creator"

subsection \<open>The tuples of an account\<close>

record base_tuples_input =
  bt_creator :: string
  bt_origin :: string
  bt_name :: string
  bt_creator_relation :: string
  bt_object_type :: string

definition baseTuples :: "base_tuples_input \<Rightarrow> err + tuple list" where
  "baseTuples b =
     (if bt_creator b = [] then Inl (errorf ''account creator is empty'')
      else Inr [\<lparr>tp_object = renderOwnerRole (bt_object_type b) (bt_origin b) (bt_name b),
                 tp_relation = ''assignee'',
                 tp_user = renderCreatorUser (bt_creator b)\<rparr>,
                \<lparr>tp_object = renderAccountEntity (bt_object_type b) (bt_origin b) (bt_name b),
                 tp_relation = bt_creator_relation b,
                 tp_user = renderOwnerRoleAssigneeGroup (bt_object_type b) (bt_origin b) (bt_name b)\<rparr>])"

definition TuplesForOrganization :: "base_tuples_input \<Rightarrow> err + tuple list" where
  "TuplesForOrganization b = baseTuples b"

definition InitialTuplesForAccount ::
  "base_tuples_input \<Rightarrow> string \<Rightarrow> string \<Rightarrow> string \<Rightarrow> err + tuple list" where
  "InitialTuplesForAccount b parent_origin parent_name parent_relation =
     (case baseTuples b of
        Inl e \<Rightarrow> Inl e
      | Inr base \<Rightarrow>
          Inr (base @ [\<lparr>tp_object = renderAccountEntity (bt_object_type b) (bt_origin b) (bt_name b),
                         tp_relation = parent_relation,
                         tp_user = renderAccountEntity (bt_object_type b) parent_origin parent_name\<rparr>]))"

fun contains_str :: "string \<Rightarrow> string \<Rightarrow> bool" where
  "contains_str [] t \<longleftrightarrow> t = []"
| "contains_str (c # cs) t \<longleftrightarrow> has_prefix (c # cs) t \<or> contains_str cs t"

definition IsTupleOfAccountFilter :: "string \<Rightarrow> tuple \<Rightarrow> bool" where
  "IsTupleOfAccountFilter generated t \<longleftrightarrow>
     generated \<noteq> [] \<and> (contains_str (tp_object t) generated \<or> contains_str (tp_user t) generated)"

subsection \<open>Stale keys\<close>

fun stale_ids :: "string \<Rightarrow> string \<Rightarrow> string \<Rightarrow> string list \<Rightarrow> string list \<Rightarrow> string list" where
  "stale_ids object_type name current [] ids = ids"
| "stale_ids object_type name current (s # ss) ids =
     stale_ids object_type name current ss
       (case ParseAccountKey s of
          None \<Rightarrow> ids
        | Some k \<Rightarrow>
            if ak_type k = object_type \<and> ak_name k = name \<and> ak_cluster k \<noteq> current \<and> ak_cluster k \<notin> set ids
            then ids @ [ak_cluster k] else ids)"

definition StaleClusterIDs :: "tuple \<Rightarrow> string \<Rightarrow> string \<Rightarrow> string \<Rightarrow> string list" where
  "StaleClusterIDs t object_type name current =
     (if object_type = [] \<or> name = [] \<or> current = [] then []
      else stale_ids object_type name current [tp_object t, tp_user t] [])"

definition StaleAccountTupleFilter :: "string \<Rightarrow> string \<Rightarrow> string \<Rightarrow> tuple \<Rightarrow> bool" where
  "StaleAccountTupleFilter object_type name current t \<longleftrightarrow>
     length (StaleClusterIDs t object_type name current) > 0"

definition rekeyKey :: "string \<Rightarrow> string \<Rightarrow> string \<Rightarrow> string \<Rightarrow> string" where
  "rekeyKey s object_type old new =
     (case ParseAccountKey s of
        None \<Rightarrow> s
      | Some k \<Rightarrow> if ak_type k \<noteq> object_type \<or> ak_cluster k \<noteq> old then s
                  else render_key (k\<lparr>ak_cluster := new\<rparr>))"

definition RekeyTuple :: "tuple \<Rightarrow> string \<Rightarrow> string \<Rightarrow> string \<Rightarrow> tuple" where
  "RekeyTuple t object_type old new =
     t\<lparr>tp_object := rekeyKey (tp_object t) object_type old new,
       tp_user := rekeyKey (tp_user t) object_type old new\<rparr>"

subsection \<open>The tuple manager\<close>

record tuple_manager =
  tm_store :: string
  tm_model :: string

definition AuthorizationModelIDLatest :: string where
  "AuthorizationModelIDLatest = []"

definition Apply :: "'w fga \<Rightarrow> tuple_manager \<Rightarrow> tuple list \<Rightarrow> 'w \<Rightarrow> err option \<times> 'w" where
  "Apply A m ts w =
     (if ts = [] then (None, w)
      else fga_write A \<lparr>wr_store = tm_store m, wr_model = tm_model m, wr_writes = ts, wr_deletes = [],
                        wr_on_duplicate = ''ignore'', wr_on_missing = []\<rparr> w)"

definition Delete_tuples :: "'w fga \<Rightarrow> tuple_manager \<Rightarrow> tuple list \<Rightarrow> 'w \<Rightarrow> err option \<times> 'w" where
  "Delete_tuples A m ts w =
     (if ts = [] then (None, w)
      else fga_write A \<lparr>wr_store = tm_store m, wr_model = tm_model m, wr_writes = [], wr_deletes = ts,
                        wr_on_duplicate = [], wr_on_missing = ''ignore''\<rparr> w)"

definition maxTuplesPerWrite :: nat where
  "maxTuplesPerWrite = 100"

text \<open>The loop of both chunked operations; \<open>f\<close> writes one chunk.\<close>

function in_chunks :: "(tuple list \<Rightarrow> 'w \<Rightarrow> err option \<times> 'w) \<Rightarrow> tuple list \<Rightarrow> 'w \<Rightarrow> err option \<times> 'w" where
  "in_chunks f [] w = (None, w)"
| "in_chunks f (t # ts) w =
     (case f (take maxTuplesPerWrite (t # ts)) w of
        (Some e, w') \<Rightarrow> (Some e, w')
      | (None, w') \<Rightarrow> in_chunks f (drop maxTuplesPerWrite (t # ts)) w')"
  by pat_completeness auto
termination by (relation "measure (\<lambda>(f, ts, w). length ts)") (auto simp: maxTuplesPerWrite_def)

definition ApplyChunked :: "'w fga \<Rightarrow> tuple_manager \<Rightarrow> tuple list \<Rightarrow> 'w \<Rightarrow> err option \<times> 'w" where
  "ApplyChunked A m ts w = in_chunks (Apply A m) ts w"

definition DeleteChunked :: "'w fga \<Rightarrow> tuple_manager \<Rightarrow> tuple list \<Rightarrow> 'w \<Rightarrow> err option \<times> 'w" where
  "DeleteChunked A m ts w = in_chunks (Delete_tuples A m) ts w"

text \<open>
  The loop over the pages, which a server that never ends its pages keeps running: \<open>None\<close> is a call
  that does not return. \<open>keep\<close> is the filter of \<^verbatim>\<open>ListWithFilter\<close>.
\<close>

partial_function (option) read_pages ::
  "'w fga \<Rightarrow> string \<Rightarrow> string option \<Rightarrow> (tuple \<Rightarrow> bool) \<Rightarrow> string \<Rightarrow> tuple list \<Rightarrow> 'w \<Rightarrow> (err + tuple list) option" where
  "read_pages A s k keep tok acc w =
     (case fga_read A s k tok w of
        Inl e \<Rightarrow> Some (Inl e)
      | Inr p \<Rightarrow>
          (let acc' = acc @ filter keep (keys_of_page p)
           in if pg_token p = [] then Some (Inr acc') else read_pages A s k keep (pg_token p) acc' w))"

declare read_pages.simps [code]

definition ListWithFilter ::
  "'w fga \<Rightarrow> tuple_manager \<Rightarrow> (tuple \<Rightarrow> bool) option \<Rightarrow> 'w \<Rightarrow> (err + tuple list) option" where
  "ListWithFilter A m f w =
     (case f of
        None \<Rightarrow> Some (Inl (errorf ''filter function cannot be nil''))
      | Some keep \<Rightarrow> read_pages A (tm_store m) None keep [] [] w)"

definition ListWithKey :: "'w fga \<Rightarrow> tuple_manager \<Rightarrow> string \<Rightarrow> 'w \<Rightarrow> (err + tuple list) option" where
  "ListWithKey A m key w = read_pages A (tm_store m) (Some key) (\<lambda>t. True) [] [] w"

end
