(* ===== verification/Fga_Laws.thy ===== *)
theory Fga_Laws
  imports Fga_Tuples
begin

text \<open>
  Facts about the tuples of accounts: which texts parse as account keys, what re-keying does to a tuple,
  the contract of the operations that write tuples, and what a paged read returns.
\<close>

subsection \<open>Keys and their text\<close>

text \<open>The keys that are rendered without ambiguity.\<close>

definition wf_key :: "account_key \<Rightarrow> bool" where
  "wf_key k \<longleftrightarrow>
     ak_type k \<noteq> [] \<and> ak_cluster k \<noteq> [] \<and> ak_name k \<noteq> [] \<and>
     (\<forall>s \<in> {ak_type k, ak_cluster k, ak_name k, ak_role k}. CHR ''#'' \<notin> set s) \<and>
     (\<forall>s \<in> {ak_cluster k, ak_name k, ak_role k}. CHR ''/'' \<notin> set s) \<and>
     (if ak_role k = [] then CHR '':'' \<notin> set (ak_type k) \<and> ak_type k \<noteq> ''user'' \<and> ak_type k \<noteq> ''role''
      else CHR ''/'' \<notin> set (ak_type k))"

lemma parse_shape_render:
  assumes "wf_key k"
  shows "parse_shape r (render_key (k\<lparr>ak_relation := []\<rparr>)) = Some (k\<lparr>ak_relation := r\<rparr>)"
proof (cases "ak_role k = []")
  case True
  let ?rest = "ak_cluster k @ CHR ''/'' # ak_name k"
  have s: "render_key (k\<lparr>ak_relation := []\<rparr>) = ak_type k @ CHR '':'' # ?rest"
    using True by (simp add: render_key_def)
  show ?thesis
    using assms True unfolding s by (simp add: parse_shape_def wf_key_def checked_key_def)
next
  case False
  let ?rest = "ak_type k @ CHR ''/'' # ak_cluster k @ CHR ''/'' # ak_name k @ CHR ''/'' # ak_role k"
  have s: "render_key (k\<lparr>ak_relation := []\<rparr>) = ''role'' @ CHR '':'' # ?rest"
    using False by (simp add: render_key_def RolePrefix_def)
  have u: "upto_char (CHR '':'') (''role'' @ CHR '':'' # ?rest) = ''role''"
      "from_char (CHR '':'') (''role'' @ CHR '':'' # ?rest) = ?rest"
    by (rule upto_char_append, simp) (rule from_char_append, simp)
  have p: "split_on (CHR ''/'') ?rest = [ak_type k, ak_cluster k, ak_name k, ak_role k]"
    using assms False by (simp add: wf_key_def)
  show ?thesis
    using assms False unfolding s parse_shape_def u Let_def p
    by (simp add: wf_key_def checked_key_def)
qed

lemma render_relation:
  "render_key k = (if ak_relation k = [] then render_key (k\<lparr>ak_relation := []\<rparr>)
                   else render_key (k\<lparr>ak_relation := []\<rparr>) @ CHR ''#'' # ak_relation k)"
  by (cases k) (simp add: render_key_def RolePrefix_def)

lemma render_no_hash: "wf_key k \<Longrightarrow> CHR ''#'' \<notin> set (render_key (k\<lparr>ak_relation := []\<rparr>))"
  by (auto simp: wf_key_def render_key_def RolePrefix_def Let_def)

lemma parse_render [simp]: "wf_key k \<Longrightarrow> ParseAccountKey (render_key k) = Some k"
  using render_no_hash [of k] parse_shape_render [of k "ak_relation k"]
  by (cases "ak_relation k = []"; subst render_relation; cases k) (simp_all add: ParseAccountKey_def)

lemma parse_shape_SomeD:
  assumes "parse_shape r s = Some k" and "CHR ''#'' \<notin> set s"
  shows "wf_key k" and "ak_relation k = r" and "render_key (k\<lparr>ak_relation := []\<rparr>) = s"
proof -
  let ?t = "upto_char (CHR '':'') s" and ?rest = "from_char (CHR '':'') s"
  let ?ps = "split_on (CHR ''/'') ?rest"
  have c: "CHR '':'' \<in> set s" "?t \<noteq> []" "?t \<noteq> ''user''"
    using assms(1) by (auto simp: parse_shape_def Let_def split: if_splits)
  have s: "s = ?t @ CHR '':'' # ?rest" using c(1) by (rule upto_from_char)
  have j: "join_with ''/'' ?ps = ?rest" by (rule join_split_on)
  have rs: "CHR ''#'' \<notin> set ?rest" "CHR ''#'' \<notin> set ?t"
    using assms(2) s by (metis Un_iff set_append list.set_intros(2)) (meson assms(2) set_upto_char subsetD)
  have f: "x \<in> set ?ps \<Longrightarrow> CHR ''/'' \<notin> set x \<and> CHR ''#'' \<notin> set x" for x
    using split_on_parts [of x "CHR ''/''" ?rest] rs by auto
  consider (account) cl n where "?t \<noteq> ''role''" "?ps = [cl, n]" "cl \<noteq> []" "n \<noteq> []"
      "k = \<lparr>ak_type = ?t, ak_cluster = cl, ak_name = n, ak_role = [], ak_relation = r\<rparr>"
    | (role) t cl n ro where "?t = ''role''" "?ps = [t, cl, n, ro]" "t \<noteq> []" "cl \<noteq> []" "n \<noteq> []" "ro \<noteq> []"
      "k = \<lparr>ak_type = t, ak_cluster = cl, ak_name = n, ak_role = ro, ak_relation = r\<rparr>"
    using assms(1) c by (auto simp: parse_shape_def checked_key_def Let_def split: if_splits list.splits)
  then have "wf_key k \<and> ak_relation k = r \<and> render_key (k\<lparr>ak_relation := []\<rparr>) = s"
  proof cases
    case account
    have "?rest = cl @ CHR ''/'' # n" using j account(2) by simp
    hence "s = ?t @ CHR '':'' # cl @ CHR ''/'' # n" using s by simp
    moreover have "CHR ''/'' \<notin> set cl" "CHR ''#'' \<notin> set cl" "CHR ''/'' \<notin> set n" "CHR ''#'' \<notin> set n"
      using f account(2) by simp_all
    ultimately show ?thesis
      using account c rs by (simp add: wf_key_def render_key_def)
  next
    case role
    have "?rest = t @ CHR ''/'' # cl @ CHR ''/'' # n @ CHR ''/'' # ro" using j role(2) by simp
    hence "s = ''role:'' @ t @ CHR ''/'' # cl @ CHR ''/'' # n @ CHR ''/'' # ro" using s role(1) by simp
    moreover have "\<forall>x \<in> {t, cl, n, ro}. CHR ''/'' \<notin> set x \<and> CHR ''#'' \<notin> set x"
      using f role(2) by simp
    ultimately show ?thesis
      using role by (simp add: wf_key_def render_key_def RolePrefix_def)
  qed
  then show "wf_key k" "ak_relation k = r" "render_key (k\<lparr>ak_relation := []\<rparr>) = s" by auto
qed

lemma parse_SomeD:
  assumes "ParseAccountKey s = Some k"
  shows "wf_key k" and "render_key k = s"
proof -
  let ?b = "upto_char (CHR ''#'') s"
  have *: "wf_key k \<and> render_key k = s"
  proof (cases "CHR ''#'' \<in> set s")
    case True
    have p: "parse_shape (from_char (CHR ''#'') s) ?b = Some k" "from_char (CHR ''#'') s \<noteq> []"
      using assms True by (auto simp: ParseAccountKey_def split: if_splits)
    note q = parse_shape_SomeD [OF p(1)]
    show ?thesis
      using q p(2) upto_from_char [OF True] by (subst render_relation) simp
  next
    case False
    then have p: "parse_shape [] s = Some k" using assms by (simp add: ParseAccountKey_def)
    show ?thesis
      using parse_shape_SomeD [OF p False] by (subst render_relation) simp
  qed
  then show "wf_key k" "render_key k = s" by auto
qed

lemma parse_eq_iff: "ParseAccountKey s = Some k \<longleftrightarrow> wf_key k \<and> render_key k = s"
  using parse_SomeD parse_render by blast

subsection \<open>Stale keys and their copies\<close>

text \<open>A text stale for an account: a key of the account under another cluster id.\<close>

definition stale_key :: "string \<Rightarrow> string \<Rightarrow> string \<Rightarrow> string \<Rightarrow> string \<Rightarrow> bool" where
  "stale_key object_type name current s i \<longleftrightarrow>
     (\<exists>k. ParseAccountKey s = Some k \<and> ak_type k = object_type \<and> ak_name k = name \<and> ak_cluster k = i \<and> i \<noteq> current)"

lemma set_stale_ids:
  "set (stale_ids ot nm cur ss ids) = set ids \<union> {i. \<exists>s \<in> set ss. stale_key ot nm cur s i}"
  by (induction ss arbitrary: ids) (auto simp: stale_key_def split: option.splits)

lemma set_StaleClusterIDs:
  "ot \<noteq> [] \<Longrightarrow> nm \<noteq> [] \<Longrightarrow> cur \<noteq> [] \<Longrightarrow>
     set (StaleClusterIDs t ot nm cur) = {i. stale_key ot nm cur (tp_object t) i \<or> stale_key ot nm cur (tp_user t) i}"
  by (auto simp: StaleClusterIDs_def set_stale_ids simp del: stale_ids.simps)

definition cluster_id_ok :: "string \<Rightarrow> bool" where
  "cluster_id_ok c \<longleftrightarrow> c \<noteq> [] \<and> CHR ''#'' \<notin> set c \<and> CHR ''/'' \<notin> set c"

lemma wf_key_recluster: "wf_key k \<Longrightarrow> cluster_id_ok c \<Longrightarrow> wf_key (k\<lparr>ak_cluster := c\<rparr>)"
  by (simp add: wf_key_def cluster_id_ok_def)

lemma parse_rekeyKey:
  "cluster_id_ok new \<Longrightarrow> ParseAccountKey (rekeyKey s ot old new) =
     map_option (\<lambda>k. if ak_type k = ot \<and> ak_cluster k = old then k\<lparr>ak_cluster := new\<rparr> else k) (ParseAccountKey s)"
  by (cases "ParseAccountKey s") (auto simp: rekeyKey_def wf_key_recluster dest: parse_SomeD(1))

lemma stale_key_rekeyKey:
  assumes "cluster_id_ok cur"
  shows "stale_key ot nm cur (rekeyKey s ot old cur) i \<longleftrightarrow> i \<noteq> old \<and> stale_key ot nm cur s i"
  unfolding stale_key_def parse_rekeyKey [OF assms] by (cases "ParseAccountKey s") auto

lemma rekeyed_not_stale:
  assumes "cluster_id_ok cur" and "StaleClusterIDs t ot nm cur = [old]"
  shows "StaleClusterIDs (RekeyTuple t ot old cur) ot nm cur = []"
proof -
  have n: "ot \<noteq> []" "nm \<noteq> []" "cur \<noteq> []"
    using assms(2) by (auto simp: StaleClusterIDs_def split: if_splits)
  have "set (StaleClusterIDs t ot nm cur) = {old}" using assms(2) by simp
  then have "set (StaleClusterIDs (RekeyTuple t ot old cur) ot nm cur) = {}"
    unfolding set_StaleClusterIDs [OF n]
    by (auto simp: RekeyTuple_def stale_key_rekeyKey [OF assms(1)] set_eq_iff)
  then show ?thesis by simp
qed

subsection \<open>Writers of tuples\<close>

text \<open>
  The contract of the operations that change the tuples of a store: what a successful call does, that a
  failed one has done it for some of the tuples, and that repeating it is safe.
\<close>

locale tuple_writer =
  fixes wr :: "'w fga \<Rightarrow> tuple_manager \<Rightarrow> tuple list \<Rightarrow> 'w \<Rightarrow> err option \<times> 'w"
    and eff :: "tuple list \<Rightarrow> tuple set \<Rightarrow> tuple set"
  assumes eff_Nil: "eff [] S = S"
    and eff_append: "eff (ts @ us) S = eff us (eff ts S)"
    and eff_again: "set ts \<subseteq> set us \<Longrightarrow> eff us (eff ts S) = eff us S"
    and eff_frame: "t \<notin> set ts \<Longrightarrow> t \<in> eff ts S \<longleftrightarrow> t \<in> S"
    and written: "fga_writes A T \<Longrightarrow> wr A m ts w = (None, w') \<Longrightarrow> T (tm_store m) w' = eff ts (T (tm_store m) w)"
    and partly: "fga_writes A T \<Longrightarrow> wr A m ts w = (Some e, w') \<Longrightarrow>
                   \<exists>us vs. ts = us @ vs \<and> T (tm_store m) w' = eff us (T (tm_store m) w)"
    and elsewhere: "fga_writes A T \<Longrightarrow> wr A m ts w = (r, w') \<Longrightarrow> s \<noteq> tm_store m \<Longrightarrow> T s w' = T s w"
begin

lemma some_written:
  assumes "fga_writes A T" and "wr A m ts w = (r, w')"
  shows "\<exists>us. set us \<subseteq> set ts \<and> T (tm_store m) w' = eff us (T (tm_store m) w)"
  using assms written [OF assms(1)] partly [OF assms(1)] by (cases r) fastforce+

lemma untouched:
  assumes "fga_writes A T" and "wr A m ts w = (r, w')" and "t \<notin> set ts"
  shows "t \<in> T s w' \<longleftrightarrow> t \<in> T s w"
proof (cases "s = tm_store m")
  case True
  obtain us where "set us \<subseteq> set ts" "T (tm_store m) w' = eff us (T (tm_store m) w)"
    using some_written [OF assms(1,2)] by blast
  with True assms(3) eff_frame [of t us] show ?thesis by auto
next
  case False
  then show ?thesis using elsewhere [OF assms(1,2)] by simp
qed

text \<open>A failed call can be made up for by calling again.\<close>

lemma made_up_for:
  assumes "fga_writes A T" and "wr A m ts w = (r, w1)" and "wr A m ts w1 = (None, w2)"
  shows "T (tm_store m) w2 = eff ts (T (tm_store m) w)"
  using some_written [OF assms(1,2)] written [OF assms(1,3)] eff_again by auto

text \<open>Writing in chunks keeps the contract.\<close>

lemma chunks_written:
  "fga_writes A T \<Longrightarrow> in_chunks (wr A m) ts w = (None, w') \<Longrightarrow> T (tm_store m) w' = eff ts (T (tm_store m) w)"
proof (induction "wr A m" ts w arbitrary: w' rule: in_chunks.induct)
  case (1 w)
  then show ?case by (simp add: eff_Nil)
next
  case (2 t ts w)
  let ?a = "take maxTuplesPerWrite (t # ts)" and ?b = "drop maxTuplesPerWrite (t # ts)"
  obtain w1 where w1: "wr A m ?a w = (None, w1)" "in_chunks (wr A m) ?b w1 = (None, w')"
    using 2(3) by (auto split: prod.splits option.splits)
  show ?case
    using 2(1) [OF w1(1) [symmetric] refl 2(2) w1(2)] written [OF 2(2) w1(1)]
    by (metis append_take_drop_id eff_append)
qed

lemma chunks_partly:
  "fga_writes A T \<Longrightarrow> in_chunks (wr A m) ts w = (Some e, w') \<Longrightarrow>
     \<exists>us vs. ts = us @ vs \<and> T (tm_store m) w' = eff us (T (tm_store m) w)"
proof (induction "wr A m" ts w arbitrary: w' rule: in_chunks.induct)
  case (1 w)
  then show ?case by simp
next
  case (2 t ts w)
  let ?a = "take maxTuplesPerWrite (t # ts)" and ?b = "drop maxTuplesPerWrite (t # ts)"
  have ab: "t # ts = ?a @ ?b" by (rule append_take_drop_id [symmetric])
  obtain r w1 where w1: "wr A m ?a w = (r, w1)" by (cases "wr A m ?a w")
  show ?case
  proof (cases r)
    case None
    then have "in_chunks (wr A m) ?b w1 = (Some e, w')" using 2(3) w1 by simp
    from 2(1) [OF w1 [unfolded None, symmetric] refl 2(2) this] obtain us vs
      where "?b = us @ vs" "T (tm_store m) w' = eff us (T (tm_store m) w1)" by blast
    moreover have "T (tm_store m) w1 = eff ?a (T (tm_store m) w)"
      using written [OF 2(2)] w1 None by simp
    ultimately show ?thesis
      by (intro exI [of _ "?a @ us"] exI [of _ vs]) (use ab eff_append in simp)
  next
    case (Some x)
    then have "w' = w1" using 2(3) w1 by simp
    with partly [OF 2(2)] w1 Some obtain us vs
      where "?a = us @ vs" "T (tm_store m) w' = eff us (T (tm_store m) w)" by blast
    then show ?thesis
      by (intro exI [of _ us] exI [of _ "vs @ ?b"]) (use ab in simp)
  qed
qed

lemma chunks_elsewhere:
  "fga_writes A T \<Longrightarrow> in_chunks (wr A m) ts w = (r, w') \<Longrightarrow> s \<noteq> tm_store m \<Longrightarrow> T s w' = T s w"
proof (induction "wr A m" ts w arbitrary: w' rule: in_chunks.induct)
  case (1 w)
  then show ?case by simp
next
  case (2 t ts w)
  obtain r1 w1 where w1: "wr A m (take maxTuplesPerWrite (t # ts)) w = (r1, w1)" by fastforce
  show ?case
  proof (cases r1)
    case None
    then have "in_chunks (wr A m) (drop maxTuplesPerWrite (t # ts)) w1 = (r, w')" using 2(3) w1 by simp
    from 2(1) [OF w1 [unfolded None, symmetric] refl 2(2) this 2(4)] show ?thesis
      using elsewhere [OF 2(2) w1 2(4)] by simp
  next
    case (Some e)
    then show ?thesis using 2 w1 elsewhere [OF 2(2) w1 2(4)] by simp
  qed
qed

lemma chunked: "tuple_writer (\<lambda>A m. in_chunks (wr A m)) eff"
  using eff_append eff_again eff_frame chunks_written chunks_partly chunks_elsewhere
  by unfold_locales (simp_all add: eff_Nil)

end

lemma fga_writesD:
  "fga_writes A T \<Longrightarrow> fga_write A r w = (e, w') \<Longrightarrow>
     T s w' = (if s = wr_store r \<and> e = None then (T s w - set (wr_deletes r)) \<union> set (wr_writes r) else T s w)"
  unfolding fga_writes_def by (metis fst_conv snd_conv)

interpretation applied: tuple_writer Apply "\<lambda>ts S. S \<union> set ts"
proof
  fix A :: "'w fga" and T m ts w w' e
  assume a: "fga_writes A T" and "Apply A m ts w = (Some e, w')"
  then have "T (tm_store m) w' = T (tm_store m) w"
    by (auto simp: Apply_def fga_writesD split: if_splits)
  then show "\<exists>us vs. ts = us @ vs \<and> T (tm_store m) w' = T (tm_store m) w \<union> set us"
    by (intro exI [of _ "[]"] exI [of _ ts]) simp
qed (auto simp: Apply_def fga_writesD split: if_splits)

interpretation deleted: tuple_writer Delete_tuples "\<lambda>ts S. S - set ts"
proof
  fix A :: "'w fga" and T m ts w w' e
  assume a: "fga_writes A T" and "Delete_tuples A m ts w = (Some e, w')"
  then have "T (tm_store m) w' = T (tm_store m) w"
    by (auto simp: Delete_tuples_def fga_writesD split: if_splits)
  then show "\<exists>us vs. ts = us @ vs \<and> T (tm_store m) w' = T (tm_store m) w - set us"
    by (intro exI [of _ "[]"] exI [of _ ts]) simp
qed (auto simp: Delete_tuples_def fga_writesD split: if_splits)

lemma ApplyChunked_eq: "ApplyChunked = (\<lambda>A m. in_chunks (Apply A m))"
  and DeleteChunked_eq: "DeleteChunked = (\<lambda>A m. in_chunks (Delete_tuples A m))"
  by (simp_all add: fun_eq_iff ApplyChunked_def DeleteChunked_def)

interpretation applied_chunked: tuple_writer ApplyChunked "\<lambda>ts S. S \<union> set ts"
  unfolding ApplyChunked_eq by (rule applied.chunked)

interpretation deleted_chunked: tuple_writer DeleteChunked "\<lambda>ts S. S - set ts"
  unfolding DeleteChunked_eq by (rule deleted.chunked)

subsection \<open>Paged reads\<close>

text \<open>Under the documented paging the loop returns, with the tuples that are kept or with an error.\<close>

lemma read_pages_total:
  assumes "fga_reads A T pages"
  shows "\<exists>r. read_pages A s k keep tok acc w = Some r \<and>
     (\<forall>ts. r = Inr ts \<longrightarrow> ts = acc @ filter keep (concat (pages s k tok w))) \<and>
     (\<forall>e. r = Inl e \<longrightarrow> (\<exists>tok. fga_read A s k tok w = Inl e))"
proof (induction "length (pages s k tok w)" arbitrary: tok acc rule: less_induct)
  case less
  show ?case
  proof (cases "fga_read A s k tok w")
    case (Inl e)
    then show ?thesis by (auto simp: read_pages.simps)
  next
    case (Inr p)
    let ?r = "if pg_token p = [] then [] else pages s k (pg_token p) w"
    have pg: "pages s k tok w = keys_of_page p # ?r"
      using assms Inr by (auto simp: fga_reads_def)
    show ?thesis
    proof (cases "pg_token p = []")
      case True
      then show ?thesis using Inr pg by (simp add: read_pages.simps)
    next
      case False
      then have "length (pages s k (pg_token p) w) < length (pages s k tok w)" using pg by simp
      from less [OF this, of "acc @ filter keep (keys_of_page p)"] show ?thesis
        using Inr pg False by (subst read_pages.simps) (auto simp: Let_def)
    qed
  qed
qed

lemma ListWithFilter_total:
  assumes "fga_reads A T pages"
  shows "\<exists>r. ListWithFilter A m (Some f) w = Some r \<and> (\<forall>ts. r = Inr ts \<longrightarrow> set ts = {t \<in> T (tm_store m) w. f t})"
proof -
  have "set (concat (pages (tm_store m) None [] w)) = T (tm_store m) w"
    using assms by (simp add: fga_reads_def)
  with read_pages_total [OF assms, of "tm_store m" None f "[]" "[]" w] show ?thesis
    by (auto simp: ListWithFilter_def)
qed

lemma ListWithKey_total:
  assumes "fga_reads A T pages"
  shows "\<exists>r. ListWithKey A m x w = Some r \<and> (\<forall>ts. r = Inr ts \<longrightarrow> set ts = {t \<in> T (tm_store m) w. tp_object t = x}) \<and>
    (\<forall>e. r = Inl e \<longrightarrow> (\<exists>tok. fga_read A (tm_store m) (Some x) tok w = Inl e))"
proof -
  have "set (concat (pages (tm_store m) (Some x) [] w)) = {t \<in> T (tm_store m) w. tp_object t = x}"
    using assms by (simp add: fga_reads_def)
  with read_pages_total [OF assms, of "tm_store m" "Some x" "\<lambda>t. True" "[]" "[]" w] show ?thesis
    by (auto simp: ListWithKey_def)
qed

end
