(* ===== verification/Fga_Rekey.thy ===== *)
theory Fga_Rekey
  imports Fga_Laws
begin

text \<open>
  The re-keying of orphaned tuples (\<^verbatim>\<open>internal/subroutine/rekey_tuples.go\<close>): after an organization's
  workspace was re-created under a new cluster id, the tuples that carry the old one are copied to the
  new one and then deleted. Metrics and logs are left out; events are recorded.
\<close>

record 'w rekey_env =
  rk_enabled :: bool
  rk_object_type :: string
  rk_fga :: "'w fga"
  rk_store_id :: "string \<Rightarrow> 'w \<Rightarrow> (err + string) \<times> 'w"
  rk_cluster :: "'w \<Rightarrow> err option"
  rk_account_info :: "'w \<Rightarrow> err + account_info"
  rk_account :: "string \<Rightarrow> 'w \<Rightarrow> err option"
  rk_lc_client :: "string \<Rightarrow> 'w \<Rightarrow> err option"
  rk_lc_get :: "string \<Rightarrow> 'w \<Rightarrow> err option"
  rk_event :: "string \<Rightarrow> string \<Rightarrow> string \<Rightarrow> 'w \<Rightarrow> 'w"

definition is_store_not_found :: "err \<Rightarrow> bool" where
  "is_store_not_found e \<longleftrightarrow> err_reason e = StoreNotFound"

definition logicalClusterExists :: "'w rekey_env \<Rightarrow> string \<Rightarrow> 'w \<Rightarrow> err + bool" where
  "logicalClusterExists R i w =
     (case rk_lc_client R i w of
        Some e \<Rightarrow> Inl (wrap (''getting client for logical cluster '' @ i) e)
      | None \<Rightarrow>
          (case rk_lc_get R i w of
             None \<Rightarrow> Inr True
           | Some e \<Rightarrow> if is_not_found e \<or> is_forbidden e then Inr False
                       else Inl (wrap (''getting LogicalCluster for cluster '' @ i) e)))"

definition skipped_event :: "'w rekey_env \<Rightarrow> string \<Rightarrow> 'w \<Rightarrow> 'w" where
  "skipped_event R message = rk_event R ''Warning'' ''OrphanedTupleRekeySkipped'' message"

text \<open>The stale tuples by the old cluster id they reference; ambiguous ones are reported and left out.\<close>

fun add_to_group :: "string \<Rightarrow> tuple \<Rightarrow> (string \<times> tuple list) list \<Rightarrow> (string \<times> tuple list) list" where
  "add_to_group i t [] = [(i, [t])]"
| "add_to_group i t ((j, g) # gs) = (if j = i then (j, g @ [t]) # gs else (j, g) # add_to_group i t gs)"

fun group_stale ::
  "'w rekey_env \<Rightarrow> string \<Rightarrow> string \<Rightarrow> tuple list \<Rightarrow> (string \<times> tuple list) list \<Rightarrow> 'w \<Rightarrow>
   (string \<times> tuple list) list \<times> 'w" where
  "group_stale R name current [] gs w = (gs, w)"
| "group_stale R name current (t # ts) gs w =
     (case StaleClusterIDs t (rk_object_type R) name current of
        [i] \<Rightarrow> group_stale R name current ts (add_to_group i t gs) w
      | _ \<Rightarrow> group_stale R name current ts gs
               (skipped_event R (''tuple (object='' @ tp_object t @ '' user='' @ tp_user t @
                  '') references multiple old cluster ids, skipping re-key'') w))"

text \<open>The loop over the old ids: an error that ends it, whether a check must be repeated.\<close>

fun rekey_groups ::
  "'w rekey_env \<Rightarrow> tuple_manager \<Rightarrow> string \<Rightarrow> string \<Rightarrow> (string \<times> tuple list) list \<Rightarrow> string list \<Rightarrow> bool \<Rightarrow> 'w \<Rightarrow>
   err option \<times> bool \<times> 'w" where
  "rekey_groups R m name current gs [] requeue w = (None, requeue, w)"
| "rekey_groups R m name current gs (old # ids) requeue w =
     (let g = (case map_of gs old of None \<Rightarrow> [] | Some g \<Rightarrow> g) in
      case logicalClusterExists R old w of
        Inl e \<Rightarrow> rekey_groups R m name current gs ids True w
      | Inr True \<Rightarrow>
          rekey_groups R m name current gs ids requeue
            (skipped_event R (''logical cluster '' @ old @ '' referenced by '' @ itoa (int (length g)) @
               '' tuples of account '' @ quoted name @ '' is still alive, skipping re-key'') w)
      | Inr False \<Rightarrow>
          (case ApplyChunked (rk_fga R) m (map (\<lambda>t. RekeyTuple t (rk_object_type R) old current) g) w of
             (Some e, w1) \<Rightarrow>
               (Some (wrap (''applying re-keyed tuples for old cluster id '' @ old) e), requeue, w1)
           | (None, w1) \<Rightarrow>
               (case DeleteChunked (rk_fga R) m g w1 of
                  (Some e, w2) \<Rightarrow>
                    (Some (wrap (''deleting stale tuples for old cluster id '' @ old) e), requeue, w2)
                | (None, w2) \<Rightarrow>
                    rekey_groups R m name current gs ids requeue
                      (rk_event R ''Normal'' ''OrphanedTuplesRekeyed''
                         (''re-keyed '' @ itoa (int (length g)) @ '' FGA tuples of account '' @ quoted name @
                          '' from dead cluster id '' @ old @ '' to '' @ current) w2))))"

text \<open>What happens once the stale tuples are listed.\<close>

definition rekey_stale ::
  "'w rekey_env \<Rightarrow> tuple_manager \<Rightarrow> string \<Rightarrow> string \<Rightarrow> tuple list \<Rightarrow> 'w \<Rightarrow> outcome \<times> 'w" where
  "rekey_stale R m name current stale w =
     (if stale = [] then (ret OK, w)
      else case rk_account R name w of
        None \<Rightarrow>
          (ret OK, skipped_event R (''a descendant Account named '' @ quoted name @
             '' exists in the org workspace; '' @ itoa (int (length stale)) @
             '' stale tuples cannot be attributed to the org, skipping re-key'') w)
      | Some e \<Rightarrow>
          if \<not> is_not_found e
          then (ret_err (wrap ''checking for a descendant Account named like the org'' e), w)
          else (case group_stale R name current stale [] w of
            (gs, w1) \<Rightarrow>
              (case rekey_groups R m name current gs (sorted_set (map fst gs)) False w1 of
                 (Some e, q, w2) \<Rightarrow> (ret_err e, w2)
               | (None, q, w2) \<Rightarrow>
                   (ret (if q then StopWithRequeue (30 * second)
                                ''could not verify liveness for at least one old cluster id, requeuing''
                         else OK), w2))))"

text \<open>\<open>None\<close> is a pass that never returns, because OpenFGA never ends its pages.\<close>

definition rekey_reconcile :: "'w rekey_env \<Rightarrow> 'w \<Rightarrow> (outcome \<times> 'w) option" where
  "rekey_reconcile R w =
     (if \<not> rk_enabled R then Some (ret OK, w)
      else case rk_cluster R w of
        Some e \<Rightarrow> Some (ret_err (wrap ''failed to get cluster from context'' e), w)
      | None \<Rightarrow>
     (case rk_account_info R w of
        Inl e \<Rightarrow>
          Some (if is_not_found e
                then (ret (StopWithRequeue (5 * second) ''AccountInfo not found yet, requeuing''), w)
                else (ret_err (wrap ''getting AccountInfo for LogicalCluster'' e), w))
      | Inr ai \<Rightarrow>
          let name = al_name (ai_account ai); current = al_origin (ai_account ai) in
          if name = [] \<or> current = []
          then Some (ret (StopWithRequeue (5 * second)
                 ''AccountInfo does not carry the account name and origin cluster id yet, requeuing''), w)
          else (case rk_store_id R name w of
            (Inl e, w1) \<Rightarrow>
              Some (if is_store_not_found e
                    then (ret (StopWithRequeue (5 * second) ''org store not found yet, requeuing''), w1)
                    else (ret_err (wrap ''getting store ID'' e), w1))
          | (Inr store_id, w1) \<Rightarrow>
              let m = \<lparr>tm_store = store_id, tm_model = AuthorizationModelIDLatest\<rparr> in
              (case ListWithFilter (rk_fga R) m
                      (Some (StaleAccountTupleFilter (rk_object_type R) name current)) w1 of
                 None \<Rightarrow> None
               | Some (Inl e) \<Rightarrow> Some (ret_err (wrap ''listing stale tuples'' e), w1)
               | Some (Inr stale) \<Rightarrow> Some (rekey_stale R m name current stale w1)))))"

subsection \<open>No tuple is lost\<close>

text \<open>
  How the tuples of a store may change: a tuple of a dead cluster id may have moved to its copy, and
  nothing but such copies is new.
\<close>

definition rekeyed_from :: "(string \<Rightarrow> bool) \<Rightarrow> string \<Rightarrow> string \<Rightarrow> string \<Rightarrow> tuple set \<Rightarrow> tuple set \<Rightarrow> bool" where
  "rekeyed_from alive ot name cur S S' \<longleftrightarrow>
     (\<forall>t \<in> S. t \<in> S' \<or> (\<exists>old. StaleClusterIDs t ot name cur = [old] \<and> \<not> alive old \<and> RekeyTuple t ot old cur \<in> S')) \<and>
     (\<forall>t \<in> S'. t \<in> S \<or> (\<exists>t0 \<in> S. \<exists>old. StaleClusterIDs t0 ot name cur = [old] \<and> \<not> alive old \<and> t = RekeyTuple t0 ot old cur))"

lemma rekeyed_from_refl [simp]: "rekeyed_from alive ot name cur S S"
  by (simp add: rekeyed_from_def)

lemma rekeyed_from_copies:
  assumes "rekeyed_from alive ot name cur S S'" and "\<not> alive old"
    and "\<forall>t \<in> set g. t \<in> S \<and> StaleClusterIDs t ot name cur = [old]"
    and "set us \<subseteq> (\<lambda>t. RekeyTuple t ot old cur) ` set g"
  shows "rekeyed_from alive ot name cur S (S' \<union> set us)"
  using assms unfolding rekeyed_from_def by fast

lemma rekeyed_from_originals:
  assumes "rekeyed_from alive ot name cur S S'" and "\<not> alive old" and "cluster_id_ok cur"
    and "\<forall>t \<in> set g. t \<in> S \<and> StaleClusterIDs t ot name cur = [old]"
    and "(\<lambda>t. RekeyTuple t ot old cur) ` set g \<subseteq> S'" and "set us \<subseteq> set g"
  shows "rekeyed_from alive ot name cur S (S' - set us)"
proof -
  have copy: "RekeyTuple t ot i cur \<notin> set us" if "StaleClusterIDs t ot name cur = [i]" for t i
  proof
    assume "RekeyTuple t ot i cur \<in> set us"
    then have "StaleClusterIDs (RekeyTuple t ot i cur) ot name cur = [old]"
      using assms(4,6) by blast
    then show False using rekeyed_not_stale [OF assms(3) that] by simp
  qed
  have "t \<in> S' - set us \<or> (\<exists>old. StaleClusterIDs t ot name cur = [old] \<and> \<not> alive old \<and> RekeyTuple t ot old cur \<in> S' - set us)"
    if t: "t \<in> S" for t
  proof (cases "t \<in> set us")
    case True
    then have "StaleClusterIDs t ot name cur = [old]" "RekeyTuple t ot old cur \<in> S'"
      using assms(4,5,6) by blast+
    then show ?thesis using assms(2) copy by auto
  next
    case False
    then show ?thesis using assms(1) t copy unfolding rekeyed_from_def by fast
  qed
  then show ?thesis using assms(1) unfolding rekeyed_from_def by blast
qed

definition quiet_env :: "'w rekey_env \<Rightarrow> (string \<Rightarrow> 'w \<Rightarrow> tuple set) \<Rightarrow> bool" where
  "quiet_env R T \<longleftrightarrow>
     (\<forall>a b c. keeps_tuples T (rk_event R a b c)) \<and> (\<forall>n. keeps_tuples T (\<lambda>w. snd (rk_store_id R n w)))"

lemma quietD:
  assumes "quiet_env R T"
  shows "T s (rk_event R a b c w) = T s w"
    and "T s (skipped_event R msg w) = T s w"
    and "rk_store_id R n w = (r, w') \<Longrightarrow> T s w' = T s w"
proof -
  have "T s (snd (rk_store_id R n w)) = T s w"
    using assms by (simp add: quiet_env_def keeps_tuples_def)
  then show "rk_store_id R n w = (r, w') \<Longrightarrow> T s w' = T s w" by simp
qed (use assms in \<open>auto simp: quiet_env_def keeps_tuples_def skipped_event_def\<close>)

definition sound_liveness :: "'w rekey_env \<Rightarrow> (string \<Rightarrow> bool) \<Rightarrow> bool" where
  "sound_liveness R alive \<longleftrightarrow>
     (\<forall>i w e. rk_lc_get R i w = Some e \<longrightarrow> is_not_found e \<or> is_forbidden e \<longrightarrow> \<not> alive i)"

lemma exists_False: "sound_liveness R alive \<Longrightarrow> logicalClusterExists R i w = Inr False \<Longrightarrow> \<not> alive i"
  by (auto simp: sound_liveness_def logicalClusterExists_def split: option.splits if_splits)

definition groups_ok :: "string \<Rightarrow> string \<Rightarrow> string \<Rightarrow> tuple set \<Rightarrow> (string \<times> tuple list) list \<Rightarrow> bool" where
  "groups_ok ot name cur S gs \<longleftrightarrow>
     (\<forall>i g. map_of gs i = Some g \<longrightarrow> (\<forall>t \<in> set g. t \<in> S \<and> StaleClusterIDs t ot name cur = [i]))"

lemma map_of_add_to_group:
  "map_of (add_to_group i t gs) = (map_of gs)(i \<mapsto> (case map_of gs i of None \<Rightarrow> [] | Some g \<Rightarrow> g) @ [t])"
  by (induction gs rule: add_to_group.induct) (auto simp: fun_eq_iff)

lemma groups_ok_add:
  assumes "groups_ok ot name cur S gs" and "StaleClusterIDs t ot name cur = [i]" and "t \<in> S"
  shows "groups_ok ot name cur S (add_to_group i t gs)"
  unfolding groups_ok_def
proof (intro allI impI)
  fix j g
  assume g: "map_of (add_to_group i t gs) j = Some g"
  show "\<forall>t \<in> set g. t \<in> S \<and> StaleClusterIDs t ot name cur = [j]"
  proof (cases "j = i")
    case True
    with g have "g = (case map_of gs i of None \<Rightarrow> [] | Some g \<Rightarrow> g) @ [t]"
      by (simp add: map_of_add_to_group)
    with True assms show ?thesis
      by (cases "map_of gs i") (simp_all add: groups_ok_def)
  next
    case False
    with g assms(1) show ?thesis by (simp add: map_of_add_to_group groups_ok_def)
  qed
qed

lemma group_stale_ok:
  "groups_ok (rk_object_type R) name cur S gs \<Longrightarrow> set ts \<subseteq> S \<Longrightarrow> quiet_env R T \<Longrightarrow>
     group_stale R name cur ts gs w = (gs', w') \<Longrightarrow>
     groups_ok (rk_object_type R) name cur S gs' \<and> (\<forall>s. T s w' = T s w)"
proof (induction ts arbitrary: gs w)
  case (Cons t ts)
  show ?case
  proof (cases "\<exists>i. StaleClusterIDs t (rk_object_type R) name cur = [i]")
    case True
    then obtain i where i: "StaleClusterIDs t (rk_object_type R) name cur = [i]" by blast
    show ?thesis
      using Cons.IH [OF groups_ok_add [OF Cons.prems(1) i]] Cons.prems i by simp
  next
    case False
    then obtain msg where "group_stale R name cur ts gs (skipped_event R msg w) = (gs', w')"
      using Cons.prems(4) by (auto split: list.splits)
    then show ?thesis
      using Cons.IH [OF Cons.prems(1)] Cons.prems quietD(2) [OF Cons.prems(3)] by simp
  qed
qed auto

text \<open>One group of a dead id: its copies are written, then its originals are deleted.\<close>

lemma copies_written:
  assumes "fga_writes A T" and "\<not> alive old" and "\<forall>t \<in> set g. t \<in> S \<and> StaleClusterIDs t ot name cur = [old]"
    and "rekeyed_from alive ot name cur S (T (tm_store m) w)"
    and "ApplyChunked A m (map (\<lambda>t. RekeyTuple t ot old cur) g) w = (r, w')"
  shows "rekeyed_from alive ot name cur S (T (tm_store m) w')"
proof -
  obtain us where us: "set us \<subseteq> (\<lambda>t. RekeyTuple t ot old cur) ` set g" "T (tm_store m) w' = T (tm_store m) w \<union> set us"
    using applied_chunked.some_written [OF assms(1,5)] by auto
  show ?thesis
    unfolding us(2) by (rule rekeyed_from_copies [OF assms(4,2,3) us(1)])
qed

lemma originals_deleted:
  assumes "fga_writes A T" and "\<not> alive old" and "\<forall>t \<in> set g. t \<in> S \<and> StaleClusterIDs t ot name cur = [old]"
    and "rekeyed_from alive ot name cur S (T (tm_store m) w)" and "cluster_id_ok cur"
    and "(\<lambda>t. RekeyTuple t ot old cur) ` set g \<subseteq> T (tm_store m) w" and "DeleteChunked A m g w = (r, w')"
  shows "rekeyed_from alive ot name cur S (T (tm_store m) w')"
proof -
  obtain us where us: "set us \<subseteq> set g" "T (tm_store m) w' = T (tm_store m) w - set us"
    using deleted_chunked.some_written [OF assms(1,7)] by auto
  show ?thesis
    unfolding us(2) by (rule rekeyed_from_originals [OF assms(4,2,5,3,6) us(1)])
qed

definition group_of :: "(string \<times> tuple list) list \<Rightarrow> string \<Rightarrow> tuple list" where
  "group_of gs old = (case map_of gs old of None \<Rightarrow> [] | Some g \<Rightarrow> g)"

lemma group_of_ok:
  "groups_ok ot name cur S gs \<Longrightarrow> \<forall>t \<in> set (group_of gs old). t \<in> S \<and> StaleClusterIDs t ot name cur = [old]"
  by (cases "map_of gs old") (simp_all add: groups_ok_def group_of_def)

text \<open>What one round of the loop can do, and with what the loop goes on.\<close>

lemma round_cases:
  assumes q: "quiet_env R T" and "rekey_groups R m name cur gs (old # ids) rq w0 = (e, rq', w')"
  obtains (kept) rq2 w2 where "logicalClusterExists R old w0 \<noteq> Inr False"
      "rekey_groups R m name cur gs ids rq2 w2 = (e, rq', w')" "\<forall>s. T s w2 = T s w0"
    | (not_copied) x where "logicalClusterExists R old w0 = Inr False" "e \<noteq> None"
      "ApplyChunked (rk_fga R) m (map (\<lambda>t. RekeyTuple t (rk_object_type R) old cur) (group_of gs old)) w0 = (Some x, w')"
    | (not_deleted) x w1 where "logicalClusterExists R old w0 = Inr False" "e \<noteq> None"
      "ApplyChunked (rk_fga R) m (map (\<lambda>t. RekeyTuple t (rk_object_type R) old cur) (group_of gs old)) w0 = (None, w1)"
      "DeleteChunked (rk_fga R) m (group_of gs old) w1 = (Some x, w')"
    | (moved) w1 w2 w3 where "logicalClusterExists R old w0 = Inr False"
      "ApplyChunked (rk_fga R) m (map (\<lambda>t. RekeyTuple t (rk_object_type R) old cur) (group_of gs old)) w0 = (None, w1)"
      "DeleteChunked (rk_fga R) m (group_of gs old) w1 = (None, w2)"
      "rekey_groups R m name cur gs ids rq w3 = (e, rq', w')" "\<forall>s. T s w3 = T s w2"
  using assms(2) quietD(1,2) [OF q] unfolding group_of_def
  by (fastforce simp: Let_def split: sum.splits bool.splits prod.splits option.splits)

lemma rekey_groups_ok:
  assumes w: "fga_writes (rk_fga R) T" and q: "quiet_env R T" and l: "sound_liveness R alive"
    and c: "cluster_id_ok cur" and g: "groups_ok (rk_object_type R) name cur S gs"
  shows "rekeyed_from alive (rk_object_type R) name cur S (T (tm_store m) w0) \<Longrightarrow>
    rekey_groups R m name cur gs ids rq w0 = (e, rq', w') \<Longrightarrow>
    rekeyed_from alive (rk_object_type R) name cur S (T (tm_store m) w') \<and>
    (\<forall>s. s \<noteq> tm_store m \<longrightarrow> T s w' = T s w0)"
proof (induction ids arbitrary: rq w0)
  case (Cons old ids)
  note members = group_of_ok [OF g, of old]
  note copied = copies_written [OF w exists_False [OF l] members Cons.prems(1)]
  note elsewhere = applied_chunked.elsewhere [OF w] deleted_chunked.elsewhere [OF w]
  have all: "(\<lambda>t. RekeyTuple t (rk_object_type R) old cur) ` set (group_of gs old) \<subseteq> T (tm_store m) w1"
    if "ApplyChunked (rk_fga R) m (map (\<lambda>t. RekeyTuple t (rk_object_type R) old cur) (group_of gs old)) w0 = (None, w1)"
    for w1 using applied_chunked.written [OF w that] by auto
  note deleted = originals_deleted [OF w exists_False [OF l] members copied c all]
  from q Cons.prems(2) show ?case
  proof (cases rule: round_cases)
    case (kept rq2 w2)
    with Cons.IH [of w2 rq2] Cons.prems(1) show ?thesis by simp
  next
    case (not_copied x)
    with copied elsewhere show ?thesis by blast
  next
    case (not_deleted x w1)
    with deleted [OF not_deleted(1,1,3,3,4)] elsewhere show ?thesis by metis
  next
    case (moved w1 w2 w3)
    have "rekeyed_from alive (rk_object_type R) name cur S (T (tm_store m) w3)"
      using deleted [OF moved(1,1,2,2,3)] moved(5) by simp
    from Cons.IH [OF this moved(4)] show ?thesis
      using elsewhere(1) [OF moved(2)] elsewhere(2) [OF moved(3)] moved(5) by metis
  qed
qed simp

lemma rekey_stale_ok:
  assumes "fga_writes (rk_fga R) T" and q: "quiet_env R T" and "sound_liveness R alive"
    and "cluster_id_ok cur" and "set stale \<subseteq> T (tm_store m) w" and r: "rekey_stale R m name cur stale w = (o', w')"
  shows "rekeyed_from alive (rk_object_type R) name cur (T (tm_store m) w) (T (tm_store m) w') \<and>
    (\<forall>s. s \<noteq> tm_store m \<longrightarrow> T s w' = T s w)"
proof (cases "stale = [] \<or> rk_account R name w = None \<or> (\<exists>e. rk_account R name w = Some e \<and> \<not> is_not_found e)")
  case True
  with r have "\<forall>s. T s w' = T s w"
    by (auto simp: rekey_stale_def quietD(2) [OF q] split: if_splits option.splits)
  then show ?thesis by simp
next
  case False
  obtain gs w1 where gs: "group_stale R name cur stale [] w = (gs, w1)" by fastforce
  have "groups_ok (rk_object_type R) name cur (T (tm_store m) w) []" by (simp add: groups_ok_def)
  from group_stale_ok [OF this assms(5) q gs]
  have g: "groups_ok (rk_object_type R) name cur (T (tm_store m) w) gs" and w1: "\<forall>s. T s w1 = T s w" by auto
  obtain e rq w2 where l: "rekey_groups R m name cur gs (sorted_set (map fst gs)) False w1 = (e, rq, w2)"
    by (metis prod_cases3)
  have "w' = w2"
    using r False gs l by (auto simp: rekey_stale_def split: option.splits)
  then show ?thesis
    using rekey_groups_ok [OF assms(1) q assms(3,4) g _ l] w1 by simp
qed

subsection \<open>Orphaned tuples are moved\<close>

definition orphan :: "string \<Rightarrow> string \<Rightarrow> string \<Rightarrow> tuple \<Rightarrow> bool" where
  "orphan ot name cur t \<longleftrightarrow> length (StaleClusterIDs t ot name cur) = 1"

definition copy_of :: "string \<Rightarrow> string \<Rightarrow> string \<Rightarrow> tuple \<Rightarrow> tuple" where
  "copy_of ot name cur t = RekeyTuple t ot (hd (StaleClusterIDs t ot name cur)) cur"

lemma copy_of_single: "StaleClusterIDs t ot name cur = [old] \<Longrightarrow> copy_of ot name cur t = RekeyTuple t ot old cur"
  by (simp add: copy_of_def)

lemma rekey_groups_moves:
  assumes w: "fga_writes (rk_fga R) T" and q: "quiet_env R T" and c: "cluster_id_ok cur"
    and g: "groups_ok (rk_object_type R) name cur S gs"
    and dead: "\<forall>i w. logicalClusterExists R i w = Inr False"
  shows "rekey_groups R m name cur gs ids rq w0 = (None, rq', w') \<Longrightarrow>
    T (tm_store m) w' = (T (tm_store m) w0 - (\<Union>i \<in> set ids. set (group_of gs i)))
       \<union> copy_of (rk_object_type R) name cur ` (\<Union>i \<in> set ids. set (group_of gs i))"
proof (induction ids arbitrary: rq w0)
  case (Cons old ids)
  let ?ot = "rk_object_type R" and ?g = "set (group_of gs old)" and ?gs = "\<Union>i \<in> set ids. set (group_of gs i)"
  let ?copy = "copy_of ?ot name cur"
  have copies: "(\<lambda>t. RekeyTuple t ?ot old cur) ` ?g = ?copy ` ?g"
    using group_of_ok [OF g, of old] copy_of_single by (intro image_cong) auto
  have fresh: "?copy ` ?g \<inter> (?g \<union> ?gs) = {}"
  proof -
    have "StaleClusterIDs (?copy t) ?ot name cur = []" if "t \<in> ?g" for t
    proof -
      have "StaleClusterIDs t ?ot name cur = [old]" using that group_of_ok [OF g, of old] by blast
      then show ?thesis using rekeyed_not_stale [OF c] by (simp add: copy_of_def)
    qed
    moreover have "StaleClusterIDs t ?ot name cur \<noteq> []" if "t \<in> ?g \<union> ?gs" for t
      using that group_of_ok [OF g] by fastforce
    ultimately show ?thesis by fastforce
  qed
  from q Cons.prems show ?case
  proof (cases rule: round_cases)
    case (kept rq2 w2)
    with dead show ?thesis by simp
  next
    case (moved w1 w2 w3)
    have "T (tm_store m) w3 = (T (tm_store m) w0 \<union> ?copy ` ?g) - ?g"
      using applied_chunked.written [OF w moved(2)] deleted_chunked.written [OF w moved(3)] moved(5) copies
      by simp
    with Cons.IH [OF moved(4)] fresh show ?thesis by auto
  qed simp_all
qed simp

lemma group_stale_complete:
  "group_stale R name cur ts gs w = (gs', w') \<Longrightarrow>
     (\<forall>i. set (group_of gs i) \<subseteq> set (group_of gs' i)) \<and>
     (\<forall>t \<in> set ts. \<forall>i. StaleClusterIDs t (rk_object_type R) name cur = [i] \<longrightarrow> t \<in> set (group_of gs' i))"
proof (induction ts arbitrary: gs w)
  case (Cons t ts)
  show ?case
  proof (cases "\<exists>i. StaleClusterIDs t (rk_object_type R) name cur = [i]")
    case True
    then obtain i where i: "StaleClusterIDs t (rk_object_type R) name cur = [i]" by blast
    have a: "group_of (add_to_group i t gs) j = (if j = i then group_of gs i @ [t] else group_of gs j)" for j
      by (simp add: group_of_def map_of_add_to_group)
    have "group_stale R name cur ts (add_to_group i t gs) w = (gs', w')" using Cons.prems i by simp
    note ih = Cons.IH [OF this, unfolded a]
    show ?thesis using ih i by (auto split: if_splits)
  next
    case False
    then obtain msg where "group_stale R name cur ts gs (skipped_event R msg w) = (gs', w')"
      using Cons.prems by (auto split: list.splits)
    from Cons.IH [OF this] False show ?thesis by auto
  qed
qed simp

lemma group_of_outside: "i \<notin> set (map fst gs) \<Longrightarrow> group_of gs i = []"
  by (metis group_of_def map_of_eq_None_iff option.simps(4) set_map)

lemma rekey_stale_moves:
  assumes w: "fga_writes (rk_fga R) T" and q: "quiet_env R T" and c: "cluster_id_ok cur"
    and dead: "\<forall>i w. logicalClusterExists R i w = Inr False"
    and name: "rk_account R name w0 = Some e0" "is_not_found e0"
    and stale: "set stale = {t \<in> T (tm_store m) w0. StaleAccountTupleFilter (rk_object_type R) name cur t}"
    and r: "rekey_stale R m name cur stale w0 = (ret OK, w')"
  shows "T (tm_store m) w' =
     (T (tm_store m) w0 - Collect (orphan (rk_object_type R) name cur))
       \<union> copy_of (rk_object_type R) name cur ` {t \<in> T (tm_store m) w0. orphan (rk_object_type R) name cur t}"
proof -
  let ?ot = "rk_object_type R" and ?S = "T (tm_store m) w0"
  obtain gs w1 where gs: "group_stale R name cur stale [] w0 = (gs, w1)" by fastforce
  have "groups_ok ?ot name cur ?S []" by (simp add: groups_ok_def)
  then have g: "groups_ok ?ot name cur ?S gs" and w1: "\<forall>s. T s w1 = T s w0"
    using group_stale_ok [OF _ _ q gs] stale by auto
  let ?G = "\<Union>i \<in> set (sorted_set (map fst gs)). set (group_of gs i)"
  have G: "?G = {t \<in> ?S. orphan ?ot name cur t}"
  proof (intro subset_antisym subsetI)
    fix t assume "t \<in> ?G"
    then show "t \<in> {t \<in> ?S. orphan ?ot name cur t}"
      using group_of_ok [OF g] by (fastforce simp: orphan_def)
  next
    fix t assume t: "t \<in> {t \<in> ?S. orphan ?ot name cur t}"
    then obtain i where i: "StaleClusterIDs t ?ot name cur = [i]"
      by (auto simp: orphan_def length_Suc_conv)
    then have "t \<in> set (group_of gs i)"
      using group_stale_complete [OF gs] t stale by (auto simp: StaleAccountTupleFilter_def)
    then show "t \<in> ?G" using group_of_outside [of i gs] by fastforce
  qed
  show ?thesis
  proof (cases "stale = []")
    case True
    then have "{t \<in> ?S. orphan ?ot name cur t} = {}"
      using stale by (auto simp: orphan_def StaleAccountTupleFilter_def)
    moreover have "w' = w0" using r True by (simp add: rekey_stale_def)
    ultimately show ?thesis by auto
  next
    case False
    obtain rq where l: "rekey_groups R m name cur gs (sorted_set (map fst gs)) False w1 = (None, rq, w')"
      using r False name gs
      by (auto simp: rekey_stale_def ret_def ret_err_def split: prod.splits option.splits)
    show ?thesis
      using rekey_groups_moves [OF w q c g dead l] w1 G by auto
  qed
qed

end
