(* ===== verification/Fga_Accounts.thy ===== *)
theory Fga_Accounts
  imports Fga_Rekey
begin

text \<open>
  The tuples of an account over its life (\<^verbatim>\<open>internal/subroutine/account_tuples.go\<close>): they are written when
  the account's workspace is initialized and removed when it terminates. Workspace paths
  (\<^verbatim>\<open>internal/platformmesh/account_path.go\<close>) are texts; what the \<^verbatim>\<open>logicalcluster\<close> package says of a path is
  a parameter.
\<close>

subsection \<open>Account paths\<close>

record path_lib =
  pl_valid :: "string \<Rightarrow> bool"
  pl_parent :: "string \<Rightarrow> string"
  pl_base :: "string \<Rightarrow> string"
  pl_annotation :: string

record logical_cluster =
  lc_annotations :: "string \<rightharpoonup> string"
  lc_owner :: "string option"

definition IsPlatformMeshAccountPath :: "path_lib \<Rightarrow> string \<Rightarrow> bool" where
  "IsPlatformMeshAccountPath L value \<longleftrightarrow>
     (let parts = split_on (CHR '':'') value
      in pl_valid L value \<and> length parts > 2 \<and> parts ! 0 = ''root'' \<and> parts ! 1 = ''orgs'')"

definition NewAccountPath :: "path_lib \<Rightarrow> string \<Rightarrow> err + string" where
  "NewAccountPath L value =
     (if \<not> IsPlatformMeshAccountPath L value
      then Inl (errorf (value @ '' is not a valid platform mesh path'')) else Inr value)"

definition NewAccountPathFromLogicalCluster :: "path_lib \<Rightarrow> logical_cluster \<Rightarrow> err + string" where
  "NewAccountPathFromLogicalCluster L lc =
     (case lc_annotations lc (pl_annotation L) of
        None \<Rightarrow> Inl (errorf (''LogicalCluster does not contain '' @ pl_annotation L @ '' annotation''))
      | Some p \<Rightarrow> NewAccountPath L p)"

definition IsOrg :: "string \<Rightarrow> bool" where
  "IsOrg p \<longleftrightarrow> length (split_on (CHR '':'') p) = 3"

text \<open>The slice of the first three parts panics on a shorter path.\<close>

definition Org :: "string \<Rightarrow> string option" where
  "Org p = (let parts = split_on (CHR '':'') p
            in if length parts < 3 then None else Some (join_with '':'' (take 3 parts)))"

lemma Org_of_account_path: "NewAccountPath L v = Inr p \<Longrightarrow> \<exists>org. Org p = Some org"
  by (auto simp: NewAccountPath_def IsPlatformMeshAccountPath_def Org_def Let_def split: if_splits)

lemma Org_of_org: "length (split_on (CHR '':'') p) = 3 \<Longrightarrow> Org p = Some p"
  using join_split_on [of "CHR '':''" p] by (simp add: Org_def)

subsection \<open>The subroutine\<close>

record 'w account_env =
  ae_paths :: path_lib
  ae_fga :: "'w fga"
  ae_store_id :: "string \<Rightarrow> 'w \<Rightarrow> (err + string) \<times> 'w"
  ae_object_type :: string
  ae_parent_relation :: string
  ae_creator_relation :: string
  ae_client :: "string \<Rightarrow> 'w \<Rightarrow> err option"
  ae_logical_cluster :: "string \<Rightarrow> 'w \<Rightarrow> err + logical_cluster"
  ae_creator :: "string \<Rightarrow> string \<Rightarrow> 'w \<Rightarrow> err + string option"

definition cluster_annotation :: "logical_cluster \<Rightarrow> string option" where
  "cluster_annotation lc = lc_annotations lc ''kcp.io/cluster''"

definition clusterAndID :: "'w account_env \<Rightarrow> string \<Rightarrow> 'w \<Rightarrow> err + string \<times> logical_cluster" where
  "clusterAndID R p w =
     (case ae_client R p w of
        Some e \<Rightarrow> Inl (wrap ''getting account cluster client'' e)
      | None \<Rightarrow>
          (case ae_logical_cluster R p w of
             Inl e \<Rightarrow> Inl (wrap ''getting account's LogicalCluster'' e)
           | Inr lc \<Rightarrow>
               (case cluster_annotation lc of
                  None \<Rightarrow> Inl (errorf ''cluster-annotation kcp.io/cluster on LogicalCluster is not set'')
                | Some i \<Rightarrow>
                    if i = [] then Inl (errorf ''cluster-annotation kcp.io/cluster on LogicalCluster is not set'')
                    else Inr (i, lc))))"

text \<open>The tuples that are written once everything they are made of is known.\<close>

definition account_input :: "'w account_env \<Rightarrow> string \<Rightarrow> string \<Rightarrow> string \<Rightarrow> base_tuples_input" where
  "account_input R creator cluster_id name =
     \<lparr>bt_creator = creator, bt_origin = cluster_id, bt_name = name,
      bt_creator_relation = ae_creator_relation R, bt_object_type = ae_object_type R\<rparr>"

definition write_account ::
  "'w account_env \<Rightarrow> string \<Rightarrow> string \<Rightarrow> string \<Rightarrow> string \<Rightarrow> string \<Rightarrow> string \<Rightarrow> 'w \<Rightarrow> outcome \<times> 'w" where
  "write_account R store_id creator cluster_id name grand_parent parent_name w =
     (case InitialTuplesForAccount (account_input R creator cluster_id name) grand_parent parent_name
             (ae_parent_relation R) of
        Inl e \<Rightarrow> (ret_err (wrap ''building tuples for account'' e), w)
      | Inr tuples \<Rightarrow>
          (case Apply (ae_fga R) \<lparr>tm_store = store_id, tm_model = AuthorizationModelIDLatest\<rparr> tuples w of
             (Some e, w') \<Rightarrow> (ret_err (wrap ''applying tuples for Account'' e), w')
           | (None, w') \<Rightarrow> (ret OK, w')))"

definition account_reconcile :: "'w account_env \<Rightarrow> logical_cluster \<Rightarrow> 'w \<Rightarrow> outcome \<times> 'w" where
  "account_reconcile R lc w =
     (let L = ae_paths R in
      case NewAccountPathFromLogicalCluster L lc of
        Inl e \<Rightarrow> (ret_err (wrap ''getting AccountPath from LogicalCluster'' e), w)
      | Inr path \<Rightarrow>
     (case Org path of
        None \<Rightarrow> (Panic ''slice bounds out of range'', w)
      | Some org \<Rightarrow>
     (case ae_store_id R (pl_base L org) w of
        (Inl e, w1) \<Rightarrow> (ret_err (wrap ''getting store ID'' e), w1)
      | (Inr store_id, w1) \<Rightarrow>
          let parent = pl_parent L path in
     (case clusterAndID R parent w1 of
        Inl e \<Rightarrow> (ret_err (wrap ''getting parent account's LogicalCluster'' e), w1)
      | Inr (cluster_id, parent_lc) \<Rightarrow>
     (case lc_owner parent_lc of
        None \<Rightarrow> (Panic ''nil pointer dereference'', w1)
      | Some grand_parent \<Rightarrow>
     (case ae_client R parent w1 of
        Some e \<Rightarrow> (ret_err (wrap ''getting client for parent account cluster'' e), w1)
      | None \<Rightarrow>
     (case ae_creator R parent (pl_base L path) w1 of
        Inl e \<Rightarrow> (ret_err (wrap ''getting Account in parent account cluster'' e), w1)
      | Inr None \<Rightarrow> (ret_err (errorf ''account creator is nil or empty''), w1)
      | Inr (Some creator) \<Rightarrow>
          if creator = [] then (ret_err (errorf ''account creator is nil or empty''), w1)
          else write_account R store_id creator cluster_id (pl_base L path) grand_parent (pl_base L parent) w1)))))))"

text \<open>
  The tuples of the roles that the account's tuples name: \<open>None\<close> for a listing that never returns,
  otherwise an error or the tuples.
\<close>

fun role_tuples ::
  "'w fga \<Rightarrow> tuple_manager \<Rightarrow> string \<Rightarrow> tuple list \<Rightarrow> tuple list \<Rightarrow> 'w \<Rightarrow> (err \<times> string + tuple list) option" where
  "role_tuples A m pre [] acc w = Some (Inr acc)"
| "role_tuples A m pre (t # ts) acc w =
     (if has_prefix (tp_user t) pre
      then (let role = trim_suffix (tp_user t) ''#assignee'' in
            case ListWithKey A m role w of
              None \<Rightarrow> None
            | Some (Inl e) \<Rightarrow> Some (Inl (e, role))
            | Some (Inr refs) \<Rightarrow> role_tuples A m pre ts (acc @ refs) w)
      else role_tuples A m pre ts acc w)"

definition store_gone :: "string \<Rightarrow> err \<Rightarrow> outcome" where
  "store_gone what e = (if is_store_not_found e then ret OK else ret_err (wrap what e))"

text \<open>The removal of everything that refers to the account.\<close>

definition remove_account ::
  "'w account_env \<Rightarrow> string \<Rightarrow> string \<Rightarrow> string \<Rightarrow> 'w \<Rightarrow> (outcome \<times> 'w) option" where
  "remove_account R store_id cluster_id name w =
     (let A = ae_fga R; m = \<lparr>tm_store = store_id, tm_model = AuthorizationModelIDLatest\<rparr> in
      case ListWithKey A m (renderAccountEntity (ae_object_type R) cluster_id name) w of
        None \<Rightarrow> None
      | Some (Inl e) \<Rightarrow> Some (store_gone ''listing tuples referencing Account'' e, w)
      | Some (Inr refs) \<Rightarrow>
          (case role_tuples A m (RenderRolePrefix (ae_object_type R) cluster_id name) refs refs w of
             None \<Rightarrow> None
           | Some (Inl (e, role)) \<Rightarrow> Some (store_gone (''listing tuples for role '' @ role) e, w)
           | Some (Inr tuples) \<Rightarrow>
               (case Delete_tuples A m tuples w of
                  (Some e, w') \<Rightarrow> Some (store_gone ''deleting tuples for Account'' e, w')
                | (None, w') \<Rightarrow> Some (ret OK, w'))))"

definition account_terminate :: "'w account_env \<Rightarrow> logical_cluster \<Rightarrow> 'w \<Rightarrow> (outcome \<times> 'w) option" where
  "account_terminate R lc w =
     (let L = ae_paths R in
      case NewAccountPathFromLogicalCluster L lc of
        Inl e \<Rightarrow> Some (ret_err (wrap ''getting AccountPath from LogicalCluster'' e), w)
      | Inr path \<Rightarrow>
     (case clusterAndID R (pl_parent L path) w of
        Inl e \<Rightarrow> Some (ret_err (wrap ''getting parent account's LogicalCluster'' e), w)
      | Inr (cluster_id, _) \<Rightarrow>
     (case Org path of
        None \<Rightarrow> Some (Panic ''slice bounds out of range'', w)
      | Some org \<Rightarrow>
     (case ae_store_id R (pl_base L org) w of
        (Inl e, w1) \<Rightarrow> Some (store_gone ''getting store ID'' e, w1)
      | (Inr store_id, w1) \<Rightarrow> remove_account R store_id cluster_id (pl_base L path) w1))))"

subsection \<open>What termination removes\<close>

text \<open>The tuples that are about an account: on the account itself, and on a role that one of those names.\<close>

definition account_tuples :: "string \<Rightarrow> string \<Rightarrow> string \<Rightarrow> tuple set \<Rightarrow> tuple set" where
  "account_tuples ot cluster_id name S =
     {t \<in> S. tp_object t = renderAccountEntity ot cluster_id name} \<union>
     {t \<in> S. \<exists>u \<in> S. tp_object u = renderAccountEntity ot cluster_id name
        \<and> has_prefix (tp_user u) (RenderRolePrefix ot cluster_id name)
        \<and> tp_object t = trim_suffix (tp_user u) ''#assignee''}"

lemma role_tuples_total:
  assumes "fga_reads A T pages"
  shows "\<exists>r. role_tuples A m pre us acc w = Some r \<and>
    (\<forall>ts. r = Inr ts \<longrightarrow> set ts = set acc \<union>
       {t \<in> T (tm_store m) w. \<exists>u \<in> set us. has_prefix (tp_user u) pre \<and> tp_object t = trim_suffix (tp_user u) ''#assignee''}) \<and>
    (\<forall>e role. r = Inl (e, role) \<longrightarrow> (\<exists>k tok. fga_read A (tm_store m) k tok w = Inl e))"
proof (induction us arbitrary: acc)
  case (Cons u us)
  show ?case
  proof (cases "has_prefix (tp_user u) pre")
    case True
    let ?role = "trim_suffix (tp_user u) ''#assignee''"
    obtain r where r: "ListWithKey A m ?role w = Some r"
        "\<forall>ts. r = Inr ts \<longrightarrow> set ts = {t \<in> T (tm_store m) w. tp_object t = ?role}"
        "\<forall>e. r = Inl e \<longrightarrow> (\<exists>tok. fga_read A (tm_store m) (Some ?role) tok w = Inl e)"
      using ListWithKey_total [OF assms, of m ?role w] by blast
    show ?thesis
    proof (cases r)
      case (Inl e)
      then have "\<exists>k tok. fga_read A (tm_store m) k tok w = Inl e" using r(3) by blast
      then show ?thesis using Inl r(1) True by (simp add: Let_def)
    next
      case (Inr refs)
      then show ?thesis using Cons.IH [of "acc @ refs"] r True by (fastforce simp: Let_def)
    qed
  next
    case False
    then show ?thesis using Cons.IH [of acc] by auto
  qed
qed simp

text \<open>OpenFGA answers that a store does not exist only for a store without tuples.\<close>

definition no_store_no_tuples :: "'w fga \<Rightarrow> (string \<Rightarrow> 'w \<Rightarrow> tuple set) \<Rightarrow> bool" where
  "no_store_no_tuples A T \<longleftrightarrow>
     (\<forall>s k tok w e. fga_read A s k tok w = Inl e \<longrightarrow> is_store_not_found e \<longrightarrow> T s w = {}) \<and>
     (\<forall>r w e w'. fga_write A r w = (Some e, w') \<longrightarrow> is_store_not_found e \<longrightarrow> T (wr_store r) w' = {})"

lemma store_gone_OK [simp]: "store_gone what e = ret OK \<longleftrightarrow> is_store_not_found e"
  by (simp add: store_gone_def ret_def ret_err_def)

lemma account_tuples_none [simp]: "account_tuples ot i n {} = {}"
  by (simp add: account_tuples_def)

lemma no_store_listed:
  "no_store_no_tuples A T \<Longrightarrow> \<exists>k tok. fga_read A s k tok w = Inl e \<Longrightarrow> is_store_not_found e \<Longrightarrow> T s w = {}"
  by (fastforce simp: no_store_no_tuples_def)

lemma no_store_deleted:
  assumes "no_store_no_tuples A T" and "fga_writes A T" and "Delete_tuples A m ts w = (Some e, w')"
    and "is_store_not_found e"
  shows "T (tm_store m) w = {} \<and> T (tm_store m) w' = {}"
proof -
  have "T (tm_store m) w' = {}"
    using assms by (fastforce simp: Delete_tuples_def no_store_no_tuples_def split: if_splits)
  then show ?thesis
    using assms(3) fga_writesD [OF assms(2)] by (fastforce simp: Delete_tuples_def split: if_splits)
qed

lemma remove_account_result:
  assumes r: "fga_reads (ae_fga R) T pages" and w: "fga_writes (ae_fga R) T" and g: "no_store_no_tuples (ae_fga R) T"
  shows "\<exists>oc w'. remove_account R s i name w = Some (oc, w') \<and>
    (oc = ret OK \<longrightarrow> T s w' = T s w - account_tuples (ae_object_type R) i name (T s w)) \<and>
    (\<forall>s'. s' \<noteq> s \<longrightarrow> T s' w' = T s' w)"
proof -
  let ?A = "ae_fga R" and ?m = "\<lparr>tm_store = s, tm_model = AuthorizationModelIDLatest\<rparr>"
  let ?e = "renderAccountEntity (ae_object_type R) i name"
  obtain a where a: "ListWithKey ?A ?m ?e w = Some a" "\<forall>ts. a = Inr ts \<longrightarrow> set ts = {t \<in> T s w. tp_object t = ?e}"
      "\<forall>e. a = Inl e \<longrightarrow> (\<exists>tok. fga_read ?A s (Some ?e) tok w = Inl e)"
    using ListWithKey_total [OF r, of ?m ?e w] by auto
  show ?thesis
  proof (cases a)
    case (Inl e)
    then show ?thesis using a(1,3) no_store_listed [OF g, of s w e] by (auto simp: remove_account_def Let_def)
  next
    case refs: (Inr refs)
    obtain b where b: "role_tuples ?A ?m (RenderRolePrefix (ae_object_type R) i name) refs refs w = Some b"
        "\<forall>ts. b = Inr ts \<longrightarrow> set ts = account_tuples (ae_object_type R) i name (T s w)"
        "\<forall>e role. b = Inl (e, role) \<longrightarrow> (\<exists>k tok. fga_read ?A s k tok w = Inl e)"
      using role_tuples_total [OF r, of ?m "RenderRolePrefix (ae_object_type R) i name" refs refs w] a(2) refs
      by (fastforce simp: account_tuples_def)
    show ?thesis
    proof (cases b)
      case (Inl x)
      then show ?thesis using a(1) b(1,3) refs no_store_listed [OF g, of s w "fst x"]
        by (cases x) (auto simp: remove_account_def Let_def)
    next
      case (Inr ts)
      obtain q w' where d: "Delete_tuples ?A ?m ts w = (q, w')" by fastforce
      show ?thesis
        using a(1) b(1,2) refs Inr d deleted.written [OF w, of ?m ts w w'] deleted.elsewhere [OF w d]
          no_store_deleted [OF g w, of ?m ts w _ w']
        by (cases q) (auto simp: remove_account_def Let_def)
    qed
  qed
qed

text \<open>The tuples an account starts with are about it.\<close>

lemma initial_tuples_of_account:
  assumes "InitialTuplesForAccount (account_input R creator i name) gp pn rel = Inr ts" and "set ts \<subseteq> S"
  shows "set ts \<subseteq> account_tuples (ae_object_type R) i name S"
proof -
  let ?ot = "ae_object_type R"
  have p: "has_prefix (renderOwnerRoleAssigneeGroup ?ot i name) (RenderRolePrefix ?ot i name)"
    by (simp add: renderOwnerRoleAssigneeGroup_def RenderRolePrefix_def render_key_def RolePrefix_def
        has_prefix_iff)
  have g: "renderOwnerRoleAssigneeGroup ?ot i name = renderOwnerRole ?ot i name @ ''#assignee''"
    by (simp add: renderOwnerRoleAssigneeGroup_def renderOwnerRole_def render_key_def RolePrefix_def)
  have t: "trim_suffix (renderOwnerRoleAssigneeGroup ?ot i name) ''#assignee'' = renderOwnerRole ?ot i name"
    unfolding g by (rule trim_suffix_append)
  show ?thesis
  proof
    fix x assume x: "x \<in> set ts"
    let ?u = "\<lparr>tp_object = renderAccountEntity ?ot i name, tp_relation = ae_creator_relation R,
               tp_user = renderOwnerRoleAssigneeGroup ?ot i name\<rparr>"
    have "?u \<in> S" using assms
      by (auto simp: InitialTuplesForAccount_def baseTuples_def account_input_def split: if_splits)
    then have "\<exists>u \<in> S. tp_object u = renderAccountEntity ?ot i name \<and> has_prefix (tp_user u) (RenderRolePrefix ?ot i name)
        \<and> renderOwnerRole ?ot i name = trim_suffix (tp_user u) ''#assignee''"
      by (rule bexI [rotated]) (simp add: p t)
    then have "tp_object y = renderOwnerRole ?ot i name \<Longrightarrow> y \<in> S \<Longrightarrow> y \<in> account_tuples ?ot i name S" for y
      by (simp add: account_tuples_def)
    moreover have "tp_object y = renderAccountEntity ?ot i name \<Longrightarrow> y \<in> S \<Longrightarrow> y \<in> account_tuples ?ot i name S" for y
      by (simp add: account_tuples_def)
    moreover have "tp_object x = renderOwnerRole ?ot i name \<or> tp_object x = renderAccountEntity ?ot i name"
      using assms(1) x
      by (auto simp: InitialTuplesForAccount_def baseTuples_def account_input_def split: if_splits)
    ultimately show "x \<in> account_tuples ?ot i name S" using x assms(2) by blast
  qed
qed

end
