(* ===== verification/Fga_Stores.thy ===== *)
theory Fga_Stores
  imports Fga_Accounts Lifecycle
begin

text \<open>
  OpenFGA stores and the tuples their resources declare (\<^verbatim>\<open>internal/subroutine/store.go\<close>, \<^verbatim>\<open>tuples.go\<close>) and
  the reservation of a Store by the models that depend on it (\<^verbatim>\<open>authorization_model_dependency.go\<close>).
\<close>

subsection \<open>Surroundings\<close>

record 'w store_env =
  se_fga :: "'w fga"
  se_list :: "'w \<Rightarrow> err + (string \<times> string) list"
  se_create :: "string \<Rightarrow> 'w \<Rightarrow> (err + string) \<times> 'w"
  se_get :: "string \<Rightarrow> 'w \<Rightarrow> err + string"
  se_update :: "string \<Rightarrow> string \<Rightarrow> 'w \<Rightarrow> err option \<times> 'w"
  se_delete :: "string \<Rightarrow> 'w \<Rightarrow> err option \<times> 'w"
  se_cluster :: "string \<Rightarrow> 'w \<Rightarrow> err option"
  se_stores :: "string \<Rightarrow> (store, 'w) kind_client"
  se_finalizers :: finalizer_lib
  se_retry :: "'w body \<Rightarrow> 'w body"
  se_hash :: "string \<Rightarrow> string"
  se_model_cluster :: "authorization_model \<Rightarrow> string"

text \<open>\<open>se_list\<close> is the first page of \<^verbatim>\<open>ListStores\<close>, names with ids; \<open>se_hash\<close> the hexadecimal digits kept of SHA-256.\<close>

definition MultiProviderName :: "string \<Rightarrow> string \<Rightarrow> string" where
  "MultiProviderName provider cluster_name = provider @ ''#'' @ cluster_name"

definition FgaProviderName :: string where
  "FgaProviderName = ''fga''"

definition StoreClusterName :: "string \<Rightarrow> string" where
  "StoreClusterName logical = MultiProviderName FgaProviderName logical"

subsection \<open>Reservations\<close>

definition authorizationModelFinalizerPrefix :: string where
  "authorizationModelFinalizerPrefix = ''authzmodel.core.platform-mesh.io/''"

definition authorizationModelFinalizer :: "'w store_env \<Rightarrow> string \<Rightarrow> string \<Rightarrow> string" where
  "authorizationModelFinalizer R model_cluster model_name =
     authorizationModelFinalizerPrefix @ se_hash R (model_cluster @ ''/'' @ model_name)"

definition set_store_finalizers :: "string list \<Rightarrow> store \<Rightarrow> store" where
  "set_store_finalizers fs s = s\<lparr>store_meta := (store_meta s)\<lparr>m_finalizers := fs\<rparr>\<rparr>"

definition update_store :: "(store, 'w) kind_client \<Rightarrow> store \<Rightarrow> 'w \<Rightarrow> err option \<times> 'w" where
  "update_store K s w = (case k_update K s w of (e, _, w') \<Rightarrow> (e, w'))"

definition register_body :: "'w store_env \<Rightarrow> (store, 'w) kind_client \<Rightarrow> string \<Rightarrow> string \<Rightarrow> 'w body" where
  "register_body R K name f w =
     (case k_get K ([], name) w of
        Inl e \<Rightarrow> (Some e, w)
      | Inr s \<Rightarrow>
          if f \<in> set (m_finalizers (store_meta s)) then (None, w)
          else update_store K (set_store_finalizers (snd (fl_add (se_finalizers R) f (m_finalizers (store_meta s)))) s) w)"

definition registerAuthorizationModelWithStore ::
  "'w store_env \<Rightarrow> string \<Rightarrow> string \<Rightarrow> string \<Rightarrow> string \<Rightarrow> 'w \<Rightarrow> err option \<times> 'w" where
  "registerAuthorizationModelWithStore R store_cluster name model_cluster model_name w =
     (case se_cluster R store_cluster w of
        Some e \<Rightarrow> (Some (wrap ''getting store cluster'' e), w)
      | None \<Rightarrow>
          se_retry R (register_body R (se_stores R store_cluster) name
                        (authorizationModelFinalizer R model_cluster model_name)) w)"

definition deregister_body :: "'w store_env \<Rightarrow> (store, 'w) kind_client \<Rightarrow> string \<Rightarrow> string \<Rightarrow> 'w body" where
  "deregister_body R K name f w =
     (case k_get K ([], name) w of
        Inl e \<Rightarrow> if is_not_found e then (None, w) else (Some e, w)
      | Inr s \<Rightarrow>
          if f \<notin> set (m_finalizers (store_meta s)) then (None, w)
          else update_store K (set_store_finalizers (snd (fl_remove (se_finalizers R) f (m_finalizers (store_meta s)))) s) w)"

definition deregisterAuthorizationModelFromStore ::
  "'w store_env \<Rightarrow> string \<Rightarrow> string \<Rightarrow> string \<Rightarrow> string \<Rightarrow> 'w \<Rightarrow> err option \<times> 'w" where
  "deregisterAuthorizationModelFromStore R store_cluster name model_cluster model_name w =
     (case se_cluster R store_cluster w of
        Some e \<Rightarrow> (Some (wrap ''getting store cluster'' e), w)
      | None \<Rightarrow>
          se_retry R (deregister_body R (se_stores R store_cluster) name
                        (authorizationModelFinalizer R model_cluster model_name)) w)"

subsection \<open>The store itself\<close>

definition set_store_id :: "string \<Rightarrow> store \<Rightarrow> store" where
  "set_store_id i s = s\<lparr>store_status := (store_status s)\<lparr>st_store_id := i\<rparr>\<rparr>"

definition set_model_id :: "string \<Rightarrow> store \<Rightarrow> store" where
  "set_model_id i s = s\<lparr>store_status := (store_status s)\<lparr>st_model_id := i\<rparr>\<rparr>"

definition store_finalize :: "'w store_env \<Rightarrow> ('cl, 'v) ctx \<Rightarrow> store \<Rightarrow> 'w \<Rightarrow> outcome \<times> store \<times> 'w" where
  "store_finalize R c s w =
     (if st_store_id (store_status s) = [] then (ret OK, s, w)
      else case find (\<lambda>f. has_prefix f authorizationModelFinalizerPrefix) (m_finalizers (store_meta s)) of
        Some f \<Rightarrow> (ret_err (errorf (''waiting for dependent authorization model to be removed: '' @ f)), s, w)
      | None \<Rightarrow>
          (case se_delete R (st_store_id (store_status s)) w of
             (Some e, w') \<Rightarrow> (if is_store_not_found e then ret OK else ret_err e, s, w')
           | (None, w') \<Rightarrow> (ret OK, s, w')))"

definition store_process :: "'w store_env \<Rightarrow> ('cl, 'v) ctx \<Rightarrow> store \<Rightarrow> 'w \<Rightarrow> outcome \<times> store \<times> 'w" where
  "store_process R c s w =
     (let i = st_store_id (store_status s) in
      if i = [] then
        (case se_list R w of
           Inl e \<Rightarrow> (ret_err e, s, w)
         | Inr stores \<Rightarrow>
             (case find (\<lambda>x. fst x = store_name s) stores of
                Some x \<Rightarrow> (ret OK, set_store_id (snd x) s, w)
              | None \<Rightarrow>
                  (case se_create R (store_name s) w of
                     (Inl e, w') \<Rightarrow> (ret_err e, s, w')
                   | (Inr new, w') \<Rightarrow> (ret OK, set_store_id new s, w'))))
      else
        (case se_get R i w of
           Inl e \<Rightarrow>
             if is_store_not_found e then
               (case se_create R (store_name s) w of
                  (Inl e, w') \<Rightarrow> (ret_err e, s, w')
                | (Inr new, w') \<Rightarrow> (ret OK, set_model_id [] (set_store_id new s), w'))
             else (ret_err e, s, w)
         | Inr name \<Rightarrow>
             if name = store_name s then (ret OK, s, w)
             else (case se_update R i (store_name s) w of
                     (Some e, w') \<Rightarrow> (ret_err e, s, w')
                   | (None, w') \<Rightarrow> (ret OK, s, w'))))"

definition store_subroutine :: "'w store_env \<Rightarrow> ('cl, 'v, store, 'w) subroutine" where
  "store_subroutine R =
     \<lparr>sub_name = ''Store'', as_processor = Some (store_process R),
      as_finalizer = Some \<lparr>Finalize = store_finalize R, Finalizers = (\<lambda>_. [''core.platform-mesh.io/fga-store''])\<rparr>,
      as_initializer = None, as_terminator = None\<rparr>"

subsection \<open>Declared tuples\<close>

text \<open>
  The writes of a pass: the declared tuples are ensured, then those managed before and not declared any
  more are deleted.
\<close>

definition dropped_tuples :: "tuple list \<Rightarrow> tuple list \<Rightarrow> tuple list" where
  "dropped_tuples spec managed =
     filter (\<lambda>t. \<not> list_ex (\<lambda>s. tp_object s = tp_object t \<and> tp_relation s = tp_relation t \<and> tp_user s = tp_user t) spec)
       managed"

definition sync_tuples ::
  "'w fga \<Rightarrow> tuple_manager \<Rightarrow> tuple list \<Rightarrow> tuple list \<Rightarrow> 'w \<Rightarrow> err option \<times> 'w" where
  "sync_tuples A m spec managed w =
     (case Apply A m spec w of
        (Some e, w1) \<Rightarrow> (Some e, w1)
      | (None, w1) \<Rightarrow> Delete_tuples A m (dropped_tuples spec managed) w1)"

definition manager_of :: "store \<Rightarrow> tuple_manager" where
  "manager_of s = \<lparr>tm_store = st_store_id (store_status s), tm_model = st_model_id (store_status s)\<rparr>"

definition set_managed :: "tuple list \<Rightarrow> store \<Rightarrow> store" where
  "set_managed ts s = s\<lparr>store_status := (store_status s)\<lparr>st_managed := ts\<rparr>\<rparr>"

definition store_tuples_process :: "'w store_env \<Rightarrow> ('cl, 'v) ctx \<Rightarrow> store \<Rightarrow> 'w \<Rightarrow> outcome \<times> store \<times> 'w" where
  "store_tuples_process R c s w =
     (case sync_tuples (se_fga R) (manager_of s) (store_tuples s) (st_managed (store_status s)) w of
        (Some e, w') \<Rightarrow> (ret_err e, s, w')
      | (None, w') \<Rightarrow> (ret OK, set_managed (store_tuples s) s, w'))"

definition store_tuples_finalize :: "'w store_env \<Rightarrow> ('cl, 'v) ctx \<Rightarrow> store \<Rightarrow> 'w \<Rightarrow> outcome \<times> store \<times> 'w" where
  "store_tuples_finalize R c s w =
     (case Delete_tuples (se_fga R) (manager_of s) (st_managed (store_status s)) w of
        (Some e, w') \<Rightarrow> (ret_err e, s, w')
      | (None, w') \<Rightarrow> (ret OK, set_managed [] s, w'))"

text \<open>For an AuthorizationModel the store is looked up in the cluster it refers to.\<close>

definition model_tuples_process ::
  "'w store_env \<Rightarrow> ('cl, 'v) ctx \<Rightarrow> authorization_model \<Rightarrow> 'w \<Rightarrow> outcome \<times> authorization_model \<times> 'w" where
  "model_tuples_process R c am w =
     (let cl = StoreClusterName (am_store_cluster am) in
      case se_cluster R cl w of
        Some e \<Rightarrow> (ret_err (wrap ''unable to get store cluster'' e), am, w)
      | None \<Rightarrow>
          (case k_get (se_stores R cl) ([], am_store_name am) w of
             Inl e \<Rightarrow> (ret_err e, am, w)
           | Inr s \<Rightarrow>
               (case sync_tuples (se_fga R) (manager_of s) (am_tuples am) (am_managed am) w of
                  (Some e, w') \<Rightarrow> (ret_err e, am, w')
                | (None, w') \<Rightarrow> (ret OK, am\<lparr>am_managed := am_tuples am\<rparr>, w'))))"

definition model_tuples_finalize ::
  "'w store_env \<Rightarrow> ('cl, 'v) ctx \<Rightarrow> authorization_model \<Rightarrow> 'w \<Rightarrow> outcome \<times> authorization_model \<times> 'w" where
  "model_tuples_finalize R c am w =
     (let cl = StoreClusterName (am_store_cluster am) in
      case se_cluster R cl w of
        Some e \<Rightarrow> (ret_err (wrap ''unable to get store cluster'' e), am, w)
      | None \<Rightarrow>
          (case k_get (se_stores R cl) ([], am_store_name am) w of
             Inl e \<Rightarrow>
               if is_not_found e then (ret OK, am\<lparr>am_managed := []\<rparr>, w) else (ret_err e, am, w)
           | Inr s \<Rightarrow>
               (case Delete_tuples (se_fga R) (manager_of s) (am_managed am) w of
                  (Some e, w1) \<Rightarrow> (ret_err e, am, w1)
                | (None, w1) \<Rightarrow>
                    (case deregisterAuthorizationModelFromStore R cl (am_store_name am) (se_model_cluster R am)
                            (m_name (am_meta am)) w1 of
                       (Some e, w2) \<Rightarrow> (ret_err (wrap ''deregistering authorization model from store'' e), am, w2)
                     | (None, w2) \<Rightarrow> (ret OK, am\<lparr>am_managed := []\<rparr>, w2)))))"

definition TuplesFinalizer :: string where
  "TuplesFinalizer = ''core.platform-mesh.io/fga-tuples''"

definition store_tuples_subroutine :: "'w store_env \<Rightarrow> ('cl, 'v, store, 'w) subroutine" where
  "store_tuples_subroutine R =
     \<lparr>sub_name = ''TupleSubroutine'', as_processor = Some (store_tuples_process R),
      as_finalizer = Some \<lparr>Finalize = store_tuples_finalize R, Finalizers = (\<lambda>_. [TuplesFinalizer])\<rparr>,
      as_initializer = None, as_terminator = None\<rparr>"

definition model_tuples_subroutine :: "'w store_env \<Rightarrow> ('cl, 'v, authorization_model, 'w) subroutine" where
  "model_tuples_subroutine R =
     \<lparr>sub_name = ''TupleSubroutine'', as_processor = Some (model_tuples_process R),
      as_finalizer = Some \<lparr>Finalize = model_tuples_finalize R, Finalizers = (\<lambda>_. [TuplesFinalizer])\<rparr>,
      as_initializer = None, as_terminator = None\<rparr>"

end
