(* ===== verification/Fga_Model.thy ===== *)
theory Fga_Model
  imports Fga_Stores Rebac_Authz
begin

text \<open>
  The OpenFGA models of API resources: their text
  (\<^verbatim>\<open>internal/subroutine/authorization_model_generation.go\<close>), the reservation and creation of
  AuthorizationModels when an APIExport is bound, their removal, and the assembly of a store's model from
  its modules (\<^verbatim>\<open>authorization_model.go\<close>).
\<close>

subsection \<open>The text of a module\<close>

record role_definition =
  rd_id :: string
  rd_definition :: string

record model_input =
  mi_name :: string
  mi_group :: string
  mi_singular :: string
  mi_scope :: string
  mi_create :: string
  mi_get :: string
  mi_list :: string
  mi_update :: string
  mi_delete :: string
  mi_patch :: string
  mi_watch :: string
  mi_roles :: "role_definition list"
  mi_additional :: "(string \<times> string) list"

definition plain_input :: "string \<Rightarrow> string \<Rightarrow> string \<Rightarrow> string \<Rightarrow> model_input" where
  "plain_input name grp singular scope =
     \<lparr>mi_name = name, mi_group = grp, mi_singular = singular, mi_scope = scope,
      mi_create = [], mi_get = [], mi_list = [], mi_update = [], mi_delete = [], mi_patch = [], mi_watch = [],
      mi_roles = [], mi_additional = []\<rparr>"

definition or_else :: "string \<Rightarrow> string \<Rightarrow> string" where
  "or_else s d = (if s = [] then d else s)"

definition define_line :: "string \<Rightarrow> string \<Rightarrow> string" where
  "define_line relation expr = [CHR 0x09, CHR 0x09] @ ''define '' @ relation @ '': '' @ expr"

definition indented :: "string \<Rightarrow> string" where
  "indented s = CHR 0x09 # s"

definition verb_relation :: "string \<Rightarrow> model_input \<Rightarrow> string" where
  "verb_relation verb i = verb @ ''_'' @ mi_group i @ ''_'' @ mi_name i"

text \<open>The lines an \<^verbatim>\<open>if\<close> and a \<^verbatim>\<open>range\<close> of the template leave.\<close>

definition if_block :: "bool \<Rightarrow> string list \<Rightarrow> string list" where
  "if_block b ls = (if b then [''''] @ ls @ [''''] else [''''])"

definition range_block :: "string list \<Rightarrow> string list" where
  "range_block ls = [''''] @ concat (map (\<lambda>l. [l, '''']) ls)"

definition parent_block :: "string \<Rightarrow> model_input \<Rightarrow> string list" where
  "parent_block parent i =
     [''extend type '' @ parent, indented ''relations'',
      define_line (verb_relation ''create'' i) (or_else (mi_create i) ''owner''),
      define_line (verb_relation ''list'' i) (or_else (mi_list i) ''member''),
      define_line (verb_relation ''watch'' i) (or_else (mi_watch i) ''member'')]"

definition extend_lines :: "model_input \<Rightarrow> string list" where
  "extend_lines i =
     if_block (mi_scope i = ''Cluster'') (parent_block ''core_platform-mesh_io_account'' i) @ [''''] @
     if_block (mi_scope i = ''Namespaced'') (parent_block ''core_namespace'' i) @ ['''']"

definition type_line :: "model_input \<Rightarrow> string" where
  "type_line i = ''type '' @ mi_group i @ ''_'' @ mi_singular i"

definition own_lines :: "model_input \<Rightarrow> string list" where
  "own_lines i =
     [indented ''relations'',
      define_line ''parent'' (''['' @ (if mi_scope i = ''Namespaced'' then ''core_namespace''
                                     else ''core_platform-mesh_io_account'') @ '']''),
      define_line ''member'' ''[role#assignee] or owner or member from parent'',
      define_line ''owner'' ''[role#assignee] or owner from parent'', '''']"

definition tail_lines :: "string list" where
  "tail_lines = [define_line ''manage_iam_roles'' ''owner'', define_line ''get_iam_roles'' ''member'',
     define_line ''get_iam_users'' ''member'']"

definition additional_lines :: "model_input \<Rightarrow> string list" where
  "additional_lines i =
     map (\<lambda>n. define_line n (case map_of (mi_additional i) n of None \<Rightarrow> [] | Some d \<Rightarrow> d))
       (sorted_set (map fst (mi_additional i)))"

definition model_lines :: "model_input \<Rightarrow> string list" where
  "model_lines i =
     [''module '' @ mi_name i, ''''] @ extend_lines i @ type_line i # own_lines i @
     [define_line ''get'' (or_else (mi_get i) ''member''),
      define_line ''update'' (or_else (mi_update i) ''member''),
      define_line ''delete'' (or_else (mi_delete i) ''member''),
      define_line ''patch'' (or_else (mi_patch i) ''member''),
      define_line ''watch'' (if mi_watch i \<noteq> [] then verb_relation ''watch'' i @ '' from parent'' else ''member'')] @
     range_block (map (\<lambda>r. define_line (rd_id r) (rd_definition r)) (mi_roles i)) @
     range_block (additional_lines i) @ tail_lines @ ['''', '''']"

definition privileged_lines :: "model_input \<Rightarrow> string list" where
  "privileged_lines i =
     [''module internal_core_types_'' @ mi_name i, ''''] @
     extend_lines (plain_input (mi_name i) (mi_group i) (mi_singular i) (mi_scope i)) @ type_line i # own_lines i @
     [define_line ''get'' ''member'', define_line ''update'' ''owner'', define_line ''delete'' ''owner'',
      define_line ''patch'' ''owner'', define_line ''watch'' ''member'', define_line ''bind'' ''owner'',
      define_line ''escalate'' ''owner'', ''''] @ tail_lines @ ['''']"

definition text_of :: "string list \<Rightarrow> string" where
  "text_of ls = join_with [CHR 0x0A] ls"

subsection \<open>Names\<close>

definition toK8sName :: "string list \<Rightarrow> string" where
  "toK8sName parts = trim_char (CHR ''-'') (replace_char (CHR ''.'') (CHR ''-'') (to_lower (join_with ''-'' parts)))"

definition resourceToPermissionKey :: "string \<Rightarrow> string \<Rightarrow> string" where
  "resourceToPermissionKey singular grp = singular @ ''.'' @ grp"

text \<open>The group in relation names; \<open>None\<close> is the panic of the slice.\<close>

definition model_group :: "string \<Rightarrow> string \<Rightarrow> string option" where
  "model_group grp plural =
     (let longest = ''create_'' @ grp @ ''_'' @ plural in
      if length longest > 50
      then (if length longest - 50 > length grp then None else Some (drop (length longest - 50) grp))
      else Some grp)"

text \<open>\<^verbatim>\<open>internal/util/util.go\<close>; \<open>None\<close> is the panic of the slice.\<close>

definition CapGroupToRelationLength :: "string \<Rightarrow> string \<Rightarrow> nat \<Rightarrow> string option" where
  "CapGroupToRelationLength grp resource max_length =
     (let max_relation = ''create_'' @ grp @ ''_'' @ resource;
          capped = (if grp = [] then ''core'' else grp) in
      if length max_relation > max_length
      then (if length max_relation - max_length > length capped then None
            else Some (drop (length max_relation - max_length) capped))
      else Some capped)"

subsection \<open>Resources, exports and permissions\<close>

record resource_schema =
  rs_group :: string
  rs_plural :: string
  rs_singular :: string
  rs_scope :: string

record api_export =
  ex_name :: string
  ex_schemas :: "string list"

record api_binding =
  ab_name :: string
  ab_cluster :: string
  ab_export_name :: string
  ab_export_path :: string
  ab_export_cluster :: string

record resource_permissions =
  rp_create :: string
  rp_get :: string
  rp_list :: string
  rp_update :: string
  rp_delete :: string
  rp_patch :: string
  rp_watch :: string
  rp_additional :: "(string \<times> string) list"

record provider_permissions =
  pp_export :: string
  pp_generation :: int
  pp_roles :: "(string \<times> role_definition list) list"
  pp_permissions :: "string \<rightharpoonup> resource_permissions"
  pp_observed :: int
  pp_conditions :: "condition list"

fun getRolesForResource :: "(string \<times> role_definition list) list \<Rightarrow> string \<Rightarrow> role_definition list" where
  "getRolesForResource [] key = []"
| "getRolesForResource ((g, roles) # rs) key = (if g = key then roles else getRolesForResource rs key)"

definition model_input_for :: "provider_permissions option \<Rightarrow> resource_schema \<Rightarrow> string \<Rightarrow> model_input" where
  "model_input_for perms s grp =
     (let key = resourceToPermissionKey (rs_singular s) (rs_group s);
          i = plain_input (rs_plural s) (replace_char (CHR ''.'') (CHR ''_'') grp) (rs_singular s) (rs_scope s) in
      case perms of
        None \<Rightarrow> i
      | Some p \<Rightarrow>
          (let j = (case pp_permissions p key of
                      None \<Rightarrow> i
                    | Some r \<Rightarrow> i\<lparr>mi_create := rp_create r, mi_get := rp_get r, mi_list := rp_list r,
                                   mi_update := rp_update r, mi_delete := rp_delete r, mi_patch := rp_patch r,
                                   mi_watch := rp_watch r, mi_additional := rp_additional r\<rparr>)
           in j\<lparr>mi_roles := getRolesForResource (pp_roles p) key\<rparr>))"

subsection \<open>Models of a bound export\<close>

record 'w model_env =
  me_stores :: "'w store_env"
  me_context_cluster :: "'w \<Rightarrow> err option"
  me_account_info :: "'w \<Rightarrow> err + account_info"
  me_cluster :: "string \<Rightarrow> 'w \<Rightarrow> err option"
  me_export :: "string \<Rightarrow> string \<Rightarrow> 'w \<Rightarrow> err + api_export"
  me_schema :: "string \<Rightarrow> string \<Rightarrow> 'w \<Rightarrow> err + resource_schema"
  me_permissions :: "string \<Rightarrow> 'w \<Rightarrow> err + provider_permissions list"
  me_create_or_update :: "string \<Rightarrow> string \<Rightarrow> (authorization_model \<Rightarrow> authorization_model) \<Rightarrow> 'w \<Rightarrow> err option \<times> 'w"
  me_delete :: "string \<Rightarrow> string \<Rightarrow> 'w \<Rightarrow> err option \<times> 'w"
  me_permissions_status :: "string \<Rightarrow> provider_permissions \<Rightarrow> 'w \<Rightarrow> err option \<times> 'w"
  me_bindings :: "'w \<Rightarrow> err + api_binding list"
  me_info_in :: "string \<Rightarrow> 'w \<Rightarrow> err + account_info"
  me_meta :: meta_api

definition core_name :: "string \<Rightarrow> string" where
  "core_name cl = MultiProviderName ''core'' cl"

definition provider_fga_name :: "string \<Rightarrow> string" where
  "provider_fga_name cl = MultiProviderName ''provider-fga'' cl"

definition providers_name :: "string \<Rightarrow> string" where
  "providers_name cl = MultiProviderName ''providers'' cl"

definition model_name :: "resource_schema \<Rightarrow> account_info \<Rightarrow> string" where
  "model_name s ai = toK8sName [rs_group s, rs_plural s, al_name (ai_organization ai)]"

definition set_model_spec :: "string \<Rightarrow> account_info \<Rightarrow> authorization_model \<Rightarrow> authorization_model" where
  "set_model_spec t ai m =
     m\<lparr>am_model := t, am_store_name := al_name (ai_organization ai),
       am_store_cluster := al_origin (ai_organization ai), am_tuples := []\<rparr>"

text \<open>One schema of the export: \<open>None\<close> goes on with the next.\<close>

definition generate_model ::
  "'w model_env \<Rightarrow> api_binding \<Rightarrow> account_info \<Rightarrow> provider_permissions option \<Rightarrow> string \<Rightarrow> 'w \<Rightarrow> outcome option \<times> 'w" where
  "generate_model E b ai perms schema w =
     (let cl = ab_export_cluster b in
      case me_schema E (core_name cl) schema w of
        Inl e \<Rightarrow> (Some (ret_err (wrap ''getting APIResourceSchema'' e)), w)
      | Inr s \<Rightarrow>
     (case model_group (rs_group s) (rs_plural s) of
        None \<Rightarrow> (Some (Panic ''slice bounds out of range''), w)
      | Some grp \<Rightarrow>
          let t = text_of (model_lines (model_input_for perms s grp)); name = model_name s ai in
     (case registerAuthorizationModelWithStore (me_stores E) (StoreClusterName (al_origin (ai_organization ai)))
             (al_name (ai_organization ai)) cl name w of
        (Some e, w1) \<Rightarrow>
          (Some (ret_err (wrap (''registering authorization model '' @ name @ '' with store'') e)), w1)
      | (None, w1) \<Rightarrow>
     (case me_create_or_update E (provider_fga_name cl) name (set_model_spec t ai) w1 of
        (Some e, w2) \<Rightarrow> (Some (ret_err (wrap ''creating or updating AuthorizationModel'' e)), w2)
      | (None, w2) \<Rightarrow> (None, w2)))))"

fun generate_models ::
  "'w model_env \<Rightarrow> api_binding \<Rightarrow> account_info \<Rightarrow> provider_permissions option \<Rightarrow> string list \<Rightarrow> 'w \<Rightarrow> outcome option \<times> 'w" where
  "generate_models E b ai perms [] w = (None, w)"
| "generate_models E b ai perms (s # ss) w =
     (case generate_model E b ai perms s w of
        (Some oc, w') \<Rightarrow> (Some oc, w')
      | (None, w') \<Rightarrow> generate_models E b ai perms ss w')"

text \<open>The permissions of the provider, which a self-bound export does not have.\<close>

definition find_permissions ::
  "'w model_env \<Rightarrow> api_binding \<Rightarrow> api_export \<Rightarrow> 'w \<Rightarrow> err + provider_permissions option" where
  "find_permissions E b ex w =
     (if ab_export_cluster b = ab_cluster b then Inr None
      else case me_cluster E (providers_name (ab_export_cluster b)) w of
        Some e \<Rightarrow> Inl (wrap ''getting provider cluster'' e)
      | None \<Rightarrow>
          (case me_permissions E (providers_name (ab_export_cluster b)) w of
             Inl e \<Rightarrow> Inl (wrap ''listing ProviderPermissions'' e)
           | Inr ps \<Rightarrow> Inr (find (\<lambda>p. pp_export p = ex_name ex) ps)))"

definition applied_permissions :: "'w model_env \<Rightarrow> provider_permissions \<Rightarrow> provider_permissions" where
  "applied_permissions E p =
     p\<lparr>pp_observed := pp_generation p,
       pp_conditions := set_status_condition (me_meta E) (pp_conditions p)
         \<lparr>cond_type = ''Applied'', cond_status = CTrue, cond_reason = ''AuthorizationModelsGenerated'',
          cond_message = ''ProviderPermissions successfully applied to all AuthorizationModels'',
          cond_generation = pp_generation p\<rparr>\<rparr>"

definition internalAPIBindings :: "string list" where
  "internalAPIBindings =
     [''core.platform-mesh.io'', ''system.platform-mesh.io'', ''providers.platform-mesh.io'',
      ''ui.platform-mesh.io'', ''fga.platform-mesh.io'', ''provider-fga.platform-mesh.io'']"

definition generation_process :: "'w model_env \<Rightarrow> api_binding \<Rightarrow> 'w \<Rightarrow> outcome \<times> 'w" where
  "generation_process E b w =
     (if ab_export_name b \<in> set internalAPIBindings \<or> has_suffix (ab_export_name b) ''kcp.io'' then (ret OK, w)
      else case me_context_cluster E w of
        Some e \<Rightarrow> (ret_err (wrap ''getting cluster from context'' e), w)
      | None \<Rightarrow>
     (case me_account_info E w of
        Inl e \<Rightarrow> (ret_err (wrap ''getting AccountInfo'' e), w)
      | Inr ai \<Rightarrow>
     (case me_cluster E (core_name (ab_export_cluster b)) w of
        Some e \<Rightarrow> (ret_err (wrap ''getting APIExport cluster'' e), w)
      | None \<Rightarrow>
     (case me_cluster E (provider_fga_name (ab_export_cluster b)) w of
        Some e \<Rightarrow> (ret_err (wrap ''getting AuthorizationModel cluster'' e), w)
      | None \<Rightarrow>
     (case me_export E (core_name (ab_export_cluster b)) (ab_export_name b) w of
        Inl e \<Rightarrow> (ret_err (wrap ''getting APIExport'' e), w)
      | Inr ex \<Rightarrow>
     (case find_permissions E b ex w of
        Inl e \<Rightarrow> (ret_err e, w)
      | Inr perms \<Rightarrow>
     (case generate_models E b ai perms (ex_schemas ex) w of
        (Some oc, w1) \<Rightarrow> (oc, w1)
      | (None, w1) \<Rightarrow>
     (case perms of
        None \<Rightarrow> (ret OK, w1)
      | Some p \<Rightarrow>
          (case me_permissions_status E (providers_name (ab_export_cluster b)) (applied_permissions E p) w1 of
             (Some e, w2) \<Rightarrow> (ret_err (wrap ''updating ProviderPermissions status'' e), w2)
           | (None, w2) \<Rightarrow> (ret OK, w2))))))))))"

subsection \<open>Removal of the models\<close>

text \<open>The bindings of the same export in the same organization.\<close>

fun count_bindings ::
  "'w model_env \<Rightarrow> api_binding \<Rightarrow> account_info \<Rightarrow> api_binding list \<Rightarrow> nat \<Rightarrow> 'w \<Rightarrow> err + nat" where
  "count_bindings E b ai [] n w = Inr n"
| "count_bindings E b ai (x # xs) n w =
     (if ab_export_name x \<noteq> ab_export_name b \<or> ab_export_path x \<noteq> ab_export_path b
      then count_bindings E b ai xs n w
      else case me_cluster E (core_name (ab_cluster x)) w of
        Some e \<Rightarrow> Inl (wrap ''getting cluster for binding'' e)
      | None \<Rightarrow>
          (case me_info_in E (core_name (ab_cluster x)) w of
             Inl e \<Rightarrow> if is_not_found e \<or> is_no_match e then count_bindings E b ai xs n w
                      else Inl (wrap ''getting AccountInfo for binding'' e)
           | Inr xi \<Rightarrow>
               if al_generated (ai_organization xi) \<noteq> al_generated (ai_organization ai)
               then count_bindings E b ai xs n w
               else count_bindings E b ai xs (n + 1) w))"

text \<open>The error of a failed release wraps the one of the deletion.\<close>

fun remove_models ::
  "'w model_env \<Rightarrow> api_binding \<Rightarrow> account_info \<Rightarrow> string list \<Rightarrow> 'w \<Rightarrow> err option \<times> 'w" where
  "remove_models E b ai [] w = (None, w)"
| "remove_models E b ai (schema # ss) w =
     (let cl = ab_export_cluster b in
      case me_schema E (core_name cl) schema w of
        Inl e \<Rightarrow> (Some (wrap ''getting APIResourceSchema'' e), w)
      | Inr s \<Rightarrow>
          let name = model_name s ai in
          (case me_delete E (provider_fga_name cl) name w of
             (None, w1) \<Rightarrow> remove_models E b ai ss w1
           | (Some e, w1) \<Rightarrow>
               if is_not_found e then
                 (case deregisterAuthorizationModelFromStore (me_stores E)
                         (StoreClusterName (al_origin (ai_organization ai))) (al_name (ai_organization ai)) cl name w1 of
                    (Some _, w2) \<Rightarrow>
                      (Some (wrap (''releasing authorization model reservation for '' @ name) e), w2)
                  | (None, w2) \<Rightarrow> remove_models E b ai ss w2)
               else (Some (wrap (''deleting AuthorizationModel '' @ name) e), w1)))"

definition generation_finalize :: "'w model_env \<Rightarrow> api_binding \<Rightarrow> 'w \<Rightarrow> outcome \<times> 'w" where
  "generation_finalize E b w =
     (case me_context_cluster E w of
        Some e \<Rightarrow> (ret_err (wrap ''unable to get cluster from context'' e), w)
      | None \<Rightarrow>
     (case me_bindings E w of
        Inl e \<Rightarrow> (ret_err (wrap ''listing APIBindings'' e), w)
      | Inr bs \<Rightarrow>
     (case me_account_info E w of
        Inl e \<Rightarrow> (ret_err (wrap ''getting AccountInfo'' e), w)
      | Inr ai \<Rightarrow>
     (case count_bindings E b ai bs 0 w of
        Inl e \<Rightarrow> (ret_err e, w)
      | Inr n \<Rightarrow>
          if n > 1 then (ret OK, w)
          else
     (case me_cluster E (core_name (ab_export_cluster b)) w of
        Some e \<Rightarrow> (ret_err (wrap (''failed to get cluster '' @ quoted (ab_export_cluster b)) e), w)
      | None \<Rightarrow>
     (case me_cluster E (provider_fga_name (ab_export_cluster b)) w of
        Some e \<Rightarrow> (ret_err (wrap (''getting AuthorizationModel cluster '' @ quoted (ab_export_cluster b)) e), w)
      | None \<Rightarrow>
     (case me_export E (core_name (ab_export_cluster b)) (ab_export_name b) w of
        Inl e \<Rightarrow> (ret_err (wrap ''getting APIExport'' e), w)
      | Inr ex \<Rightarrow>
     (case remove_models E b ai (ex_schemas ex) w of
        (Some e, w1) \<Rightarrow> (ret_err e, w1)
      | (None, w1) \<Rightarrow> (ret OK, w1)))))))))"

definition apiBindingFinalizer :: string where
  "apiBindingFinalizer = ''core.platform-mesh.io/apibinding-finalizer''"

definition binding_finalizers :: "api_binding \<Rightarrow> string list" where
  "binding_finalizers b =
     (if contains_str (ab_name b) ''platform-mesh.io'' \<or> contains_str (ab_name b) ''kcp.io'' then []
      else [apiBindingFinalizer])"

subsection \<open>The model of a store\<close>

record api_resource =
  ar_name :: string
  ar_group :: string
  ar_singular :: string
  ar_namespaced :: bool

text \<open>
  A module file is its name and its contents. Discovery, the OpenFGA language transformer and the
  marshaller are parameters; \<open>az_clear_id\<close> empties the id of a model.
\<close>

record ('m, 'w) authz_env =
  az_cluster_key :: "'w \<Rightarrow> string option"
  az_models :: "'w \<Rightarrow> err + authorization_model list"
  az_discovery :: "string \<Rightarrow> err + string"
  az_resources :: "string \<Rightarrow> string \<Rightarrow> 'w \<Rightarrow> err + string \<times> api_resource list"
  az_parse_gv :: "string \<Rightarrow> err + string"
  az_transform :: "(string \<times> string) list \<Rightarrow> err + 'm"
  az_read :: "string \<Rightarrow> string \<Rightarrow> 'w \<Rightarrow> err + 'm"
  az_clear_id :: "'m \<Rightarrow> 'm"
  az_marshal :: "'m \<Rightarrow> err + string"
  az_write :: "string \<Rightarrow> 'm \<Rightarrow> 'w \<Rightarrow> (err + string) \<times> 'w"

definition getRelatedAuthorizationModels ::
  "('m, 'w) authz_env \<Rightarrow> store \<Rightarrow> 'w \<Rightarrow> err + authorization_model list" where
  "getRelatedAuthorizationModels Z s w =
     (case az_cluster_key Z w of
        None \<Rightarrow> Inl (errorf ''unable to get cluster key from context'')
      | Some key \<Rightarrow>
          (case az_models Z w of
             Inl e \<Rightarrow> Inl e
           | Inr ms \<Rightarrow>
               Inr (filter (\<lambda>m. \<not> (am_store_name m \<noteq> store_name s \<or> StoreClusterName (am_store_cluster m) \<noteq> key)) ms)))"

definition processAPIResourceIntoModel :: "api_resource \<Rightarrow> (model_input \<Rightarrow> string list) \<Rightarrow> string option" where
  "processAPIResourceIntoModel r template =
     map_option
       (\<lambda>grp. text_of (template (plain_input (ar_name r) (replace_char (CHR ''.'') (CHR ''_'') grp) (ar_singular r)
                                (if ar_namespaced r then ''Namespaced'' else ''Cluster''))))
       (if ar_group r = [] then Some ''core'' else CapGroupToRelationLength (ar_group r) (ar_name r) 50)"

text \<open>\<open>None\<close> is a panic; otherwise an error or the module files.\<close>

fun render_resources ::
  "(model_input \<Rightarrow> string list) \<Rightarrow> string \<Rightarrow> api_resource list \<Rightarrow> (string \<times> string) list option" where
  "render_resources template grp [] = Some []"
| "render_resources template grp (r # rs) =
     (if CHR ''/'' \<in> set (ar_name r) then render_resources template grp rs
      else (let r' = (if grp \<noteq> [] \<and> ar_group r = [] then r\<lparr>ar_group := grp\<rparr> else r) in
            case processAPIResourceIntoModel r' template of
              None \<Rightarrow> None
            | Some t \<Rightarrow>
                map_option (\<lambda>fs. (''internal_core_types_'' @ ar_name r @ ''.fga'', t) # fs)
                  (render_resources template grp rs)))"

fun discoverAndRender ::
  "('m, 'w) authz_env \<Rightarrow> string \<Rightarrow> (model_input \<Rightarrow> string list) \<Rightarrow> string list \<Rightarrow> 'w \<Rightarrow>
   (err + (string \<times> string) list) option" where
  "discoverAndRender Z d template [] w = Some (Inr [])"
| "discoverAndRender Z d template (gv # gvs) w =
     (case az_resources Z d gv w of
        Inl e \<Rightarrow> Some (Inl (wrap (''discover resources for '' @ gv) e))
      | Inr (listed, rs) \<Rightarrow>
          (case az_parse_gv Z listed of
             Inl e \<Rightarrow> Some (Inl (wrap (''parse group version '' @ listed) e))
           | Inr grp \<Rightarrow>
               (case render_resources template grp rs of
                  None \<Rightarrow> None
                | Some fs \<Rightarrow>
                    (case discoverAndRender Z d template gvs w of
                       None \<Rightarrow> None
                     | Some (Inl e) \<Rightarrow> Some (Inl e)
                     | Some (Inr gs) \<Rightarrow> Some (Inr (fs @ gs))))))"

definition privilegedGroupVersions :: "string list" where
  "privilegedGroupVersions = [''rbac.authorization.k8s.io/v1'']"

definition groupVersions :: "string list" where
  "groupVersions = [''authentication.k8s.io/v1'', ''authorization.k8s.io/v1'', ''v1'',
     ''apis.kcp.io/v1alpha1'', ''ui.platform-mesh.io/v1alpha1'']"

definition module_file :: "objmeta \<Rightarrow> string \<Rightarrow> string \<times> string" where
  "module_file m contents = (m_namespace m @ ''/'' @ m_name m @ ''.fga'', contents)"

text \<open>The modules beside those of the store and of its related models.\<close>

definition core_modules :: "('m, 'w) authz_env \<Rightarrow> store \<Rightarrow> 'w \<Rightarrow> (err + (string \<times> string) list) option" where
  "core_modules Z s w =
     (if store_name s = ''orgs'' then Some (Inr [])
      else case az_discovery Z (''root:orgs:'' @ store_name s) of
        Inl e \<Rightarrow> Some (Inl e)
      | Inr d \<Rightarrow>
          (case discoverAndRender Z d model_lines groupVersions w of
             None \<Rightarrow> None
           | Some (Inl e) \<Rightarrow> Some (Inl e)
           | Some (Inr core) \<Rightarrow>
               (case discoverAndRender Z d privileged_lines privilegedGroupVersions w of
                  None \<Rightarrow> None
                | Some (Inl e) \<Rightarrow> Some (Inl e)
                | Some (Inr privileged) \<Rightarrow> Some (Inr (core @ privileged)))))"

text \<open>Whether the store already has the model: an error, or the verdict.\<close>

definition model_current :: "('m, 'w) authz_env \<Rightarrow> store \<Rightarrow> 'm \<Rightarrow> 'w \<Rightarrow> err + bool" where
  "model_current Z s m w =
     (if st_model_id (store_status s) = [] then Inr False
      else case az_read Z (st_store_id (store_status s)) (st_model_id (store_status s)) w of
        Inl e \<Rightarrow> Inl e
      | Inr current \<Rightarrow>
          (case az_marshal Z (az_clear_id Z current) of
             Inl e \<Rightarrow> Inl e
           | Inr a \<Rightarrow> (case az_marshal Z m of Inl e \<Rightarrow> Inl e | Inr b \<Rightarrow> Inr (a = b))))"

definition authorization_model_process ::
  "('m, 'w) authz_env \<Rightarrow> ('cl, 'v) ctx \<Rightarrow> store \<Rightarrow> 'w \<Rightarrow> outcome \<times> store \<times> 'w" where
  "authorization_model_process Z c s w =
     (case getRelatedAuthorizationModels Z s w of
        Inl e \<Rightarrow> (ret_err e, s, w)
      | Inr related \<Rightarrow>
     (case core_modules Z s w of
        None \<Rightarrow> (Panic ''slice bounds out of range'', s, w)
      | Some (Inl e) \<Rightarrow> (ret_err e, s, w)
      | Some (Inr core) \<Rightarrow>
     (case az_transform Z (module_file (store_meta s) (store_core_module s) #
                           map (\<lambda>m. module_file (am_meta m) (am_model m)) related @ core) of
        Inl e \<Rightarrow> (ret_err e, s, w)
      | Inr m \<Rightarrow>
     (case model_current Z s m w of
        Inl e \<Rightarrow> (ret_err e, s, w)
      | Inr True \<Rightarrow> (ret OK, s, w)
      | Inr False \<Rightarrow>
     (case az_write Z (st_store_id (store_status s)) m w of
        (Inl e, w') \<Rightarrow> (ret_err e, s, w')
      | (Inr i, w') \<Rightarrow> (ret OK, set_model_id i s, w'))))))"

definition authorization_model_subroutine :: "('m, 'w) authz_env \<Rightarrow> ('cl, 'v, store, 'w) subroutine" where
  "authorization_model_subroutine Z =
     \<lparr>sub_name = ''AuthorizationModel'', as_processor = Some (authorization_model_process Z),
      as_finalizer = None, as_initializer = None, as_terminator = None\<rparr>"

subsection \<open>What a module defines\<close>

text \<open>A module defines a relation of a type in the block that opens or extends the type.\<close>

definition opens_type :: "string \<Rightarrow> string \<Rightarrow> bool" where
  "opens_type l t \<longleftrightarrow> l = ''type '' @ t \<or> l = ''extend type '' @ t"

definition defines_relation :: "string list \<Rightarrow> string \<Rightarrow> string \<Rightarrow> bool" where
  "defines_relation ls t relation \<longleftrightarrow>
     (\<exists>pre l block post expr. ls = pre @ l # block @ post \<and> opens_type l t
        \<and> define_line relation expr \<in> set block \<and> (\<forall>x \<in> set block. \<forall>u. \<not> opens_type x u))"

lemma define_line_opens_nothing [simp]: "\<not> opens_type (define_line r e) u"
  by (simp add: opens_type_def define_line_def)

lemma other_lines_open_nothing [simp]: "\<not> opens_type (indented s) u" "\<not> opens_type [] u"
  by (simp_all add: opens_type_def indented_def)

lemma opens_simps [simp]: "opens_type (''type '' @ t) t" "opens_type (''extend type '' @ t) t"
  by (simp_all add: opens_type_def)

lemma defines_relationI:
  "opens_type l t \<Longrightarrow> define_line relation expr \<in> set block \<Longrightarrow> (\<And>x u. x \<in> set block \<Longrightarrow> \<not> opens_type x u) \<Longrightarrow>
     defines_relation (pre @ l # block @ post) t relation"
  unfolding defines_relation_def by blast

lemma parent_relation_defined:
  assumes "mi_scope i = ''Cluster'' \<and> parent = ''core_platform-mesh_io_account'' \<or>
      mi_scope i = ''Namespaced'' \<and> parent = ''core_namespace''"
    and "verb \<in> {''create'', ''list'', ''watch''}"
  shows "defines_relation (model_lines i) parent (verb_relation verb i)"
proof -
  let ?block = "[indented ''relations'',
      define_line (verb_relation ''create'' i) (or_else (mi_create i) ''owner''),
      define_line (verb_relation ''list'' i) (or_else (mi_list i) ''member''),
      define_line (verb_relation ''watch'' i) (or_else (mi_watch i) ''member'')]"
  have "\<exists>pre post. extend_lines i = pre @ (''extend type '' @ parent) # ?block @ post"
    using assms(1)
  proof
    assume c: "mi_scope i = ''Cluster'' \<and> parent = ''core_platform-mesh_io_account''"
    show ?thesis
      by (rule exI [of _ "['''']"], rule exI [of _ "['''', '''', '''', '''']"])
        (simp add: extend_lines_def if_block_def parent_block_def c)
  next
    assume n: "mi_scope i = ''Namespaced'' \<and> parent = ''core_namespace''"
    show ?thesis
      by (rule exI [of _ "['''', '''', '''']"], rule exI [of _ "['''', '''']"])
        (simp add: extend_lines_def if_block_def parent_block_def n)
  qed
  then obtain pre post where e: "extend_lines i = pre @ (''extend type '' @ parent) # ?block @ post" by blast
  obtain rest where m: "model_lines i = ([''module '' @ mi_name i, ''''] @ pre) @ (''extend type '' @ parent) # ?block @ rest"
    unfolding model_lines_def e by simp
  have "\<exists>expr. define_line (verb_relation verb i) expr \<in> set ?block" using assms(2) by auto
  then obtain expr where x: "define_line (verb_relation verb i) expr \<in> set ?block" ..
  show ?thesis unfolding m by (rule defines_relationI [OF opens_simps(2) x]) auto
qed

lemma own_relation_defined:
  assumes "verb \<in> {''get'', ''update'', ''delete'', ''patch''}"
  shows "defines_relation (model_lines i) (mi_group i @ ''_'' @ mi_singular i) verb"
proof -
  let ?block = "own_lines i @
     [define_line ''get'' (or_else (mi_get i) ''member''), define_line ''update'' (or_else (mi_update i) ''member''),
      define_line ''delete'' (or_else (mi_delete i) ''member''), define_line ''patch'' (or_else (mi_patch i) ''member'')]"
  obtain rest where m: "model_lines i = ([''module '' @ mi_name i, ''''] @ extend_lines i)
      @ (''type '' @ mi_group i @ ''_'' @ mi_singular i) # ?block @ rest"
    unfolding model_lines_def type_line_def by simp
  have "\<exists>expr. define_line verb expr \<in> set ?block" using assms by auto
  then obtain expr where x: "define_line verb expr \<in> set ?block" ..
  have "\<And>x u. x \<in> set ?block \<Longrightarrow> \<not> opens_type x u" by (auto simp: own_lines_def)
  with x show ?thesis unfolding m by (rule defines_relationI [OF opens_simps(1)])
qed

subsection \<open>The webhook and the models name things alike\<close>

lemma cap_group_model_group:
  assumes "grp \<noteq> []" and "length plural \<le> 42" and "gvr_group g = grp" and "gvr_resource g = plural"
  shows "model_group grp plural = Some (cap_group g 50)"
  using assms by (auto simp: model_group_def cap_group_def Let_def)

text \<open>
  Names of a named group that neither side cuts apart: the plural has at most 42 bytes, and the singular is shorter
  than the plural or has, with the group, at most 41 bytes.
\<close>

definition names_fit :: "resource_schema \<Rightarrow> bool" where
  "names_fit s \<longleftrightarrow> rs_group s \<noteq> [] \<and> length (rs_plural s) \<le> 42 \<and>
     (length (rs_singular s) < length (rs_plural s) \<or> length (rs_group s) + length (rs_singular s) \<le> 41)"

lemma build_object_type_uncut:
  assumes "gvr_group g = rs_group s" and "gvr_resource g = rs_plural s" and "names_fit s"
  shows "build_object_type g (rs_singular s) =
    Some (replace_char (CHR ''.'') (CHR ''_'') (cap_group g 50),
          replace_char (CHR ''.'') (CHR ''_'') (cap_group g 50) @ ''_'' @ rs_singular s)"
proof -
  have "gvr_group g \<noteq> []" "length (gvr_resource g) \<le> 42" using assms by (simp_all add: names_fit_def)
  from cap_group_length [OF this] have l: "length (cap_group g 50) + length (rs_plural s) \<le> 42" using assms(2) by simp
  have "length (cap_group g 50) \<le> length (rs_group s)"
    using assms(1,3) by (auto simp: cap_group_def Let_def names_fit_def)
  then have "length (cap_group g 50) + length (rs_singular s) \<le> 41" using l assms(3) by (auto simp: names_fit_def)
  then show ?thesis by (auto simp: build_object_type_def maxRelationLength_def Let_def)
qed

lemma model_input_for_simps:
  "mi_group (model_input_for perms s grp) = replace_char (CHR ''.'') (CHR ''_'') grp"
  "mi_name (model_input_for perms s grp) = rs_plural s"
  "mi_singular (model_input_for perms s grp) = rs_singular s"
  "mi_scope (model_input_for perms s grp) = rs_scope s"
  by (auto simp: model_input_for_def plain_input_def Let_def split: option.splits)

lemma set_cap_group: "set (cap_group g n) \<subseteq> set (gvr_group g) \<union> set ''core''"
  by (auto simp: cap_group_def Let_def dest: in_set_dropD split: if_splits)

lemma colon_namespace: "upto_char (CHR '':'') (''core_namespace:'' @ s) = ''core_namespace''"
  using upto_char_append [of "CHR '':''" "''core_namespace''" s] by simp

lemma colon_account: "upto_char (CHR '':'') (''core_platform-mesh_io_account:'' @ s) = ''core_platform-mesh_io_account''"
  using upto_char_append [of "CHR '':''" "''core_platform-mesh_io_account''" s] by simp

lemma type_of_rendered: "CHR '':'' \<notin> set t \<Longrightarrow> upto_char (CHR '':'') (render_object t c n) = t"
  by (simp add: render_object_def)

end
