(* ===== verification/Fga_Controllers.thy ===== *)
theory Fga_Controllers
  imports Fga_Model Engine Conditions
begin

text \<open>
  The Store and AuthorizationModel controllers (\<^verbatim>\<open>internal/controller/store_controller.go\<close>,
  \<^verbatim>\<open>authorization_model_controller.go\<close>): their subroutines on the lifecycle engine.
\<close>

definition store_conditions :: "store cond_accessor" where
  "store_conditions =
     \<lparr>get_conditions = (\<lambda>x. ss_conditions (store_status x)),
      set_conditions = (\<lambda>cs x. x\<lparr>store_status := (store_status x)\<lparr>ss_conditions := cs\<rparr>\<rparr>)\<rparr>"

definition model_conditions :: "authorization_model cond_accessor" where
  "model_conditions = \<lparr>get_conditions = am_conditions, set_conditions = (\<lambda>cs x. x\<lparr>am_conditions := cs\<rparr>)\<rparr>"

definition store_iface :: "(store \<Rightarrow> err + json) \<Rightarrow> (json \<Rightarrow> store \<Rightarrow> err option \<times> store) \<Rightarrow> store obj_iface" where
  "store_iface = typed_iface store_meta store_meta_update (Some store_conditions) None"

definition model_iface ::
  "(authorization_model \<Rightarrow> err + json) \<Rightarrow> (json \<Rightarrow> authorization_model \<Rightarrow> err option \<times> authorization_model) \<Rightarrow>
   authorization_model obj_iface" where
  "model_iface = typed_iface am_meta am_meta_update (Some model_conditions) None"

interpretation store_obj: object_laws "store_iface tu fu" for tu fu
  unfolding store_iface_def
  by (rule object_laws_typed) (auto simp: store_conditions_def)

interpretation model_obj: object_laws "model_iface tu fu" for tu fu
  unfolding model_iface_def
  by (rule object_laws_typed) (auto simp: model_conditions_def)

text \<open>\<open>None\<close> is the panic of \<^verbatim>\<open>WithConditions\<close>.\<close>

definition store_controller ::
  "meta_api \<Rightarrow> store obj_iface \<Rightarrow> ('cl, store, 'w) engine_api \<Rightarrow> (json option \<Rightarrow> json option \<Rightarrow> bool) \<Rightarrow>
   (('cl, 'v) ctx \<Rightarrow> err + 'cl) \<Rightarrow> 'w store_env \<Rightarrow> ('m, 'w) authz_env \<Rightarrow> ('cl, 'v, store, 'w) lifecycle option" where
  "store_controller M I api deep_equal cluster_client R Z =
     with_conditions (conditions_manager M I)
       (new_lifecycle I api deep_equal cluster_client
          [store_subroutine R, authorization_model_subroutine Z, store_tuples_subroutine R])"

definition model_controller ::
  "authorization_model obj_iface \<Rightarrow> ('cl, authorization_model, 'w) engine_api \<Rightarrow>
   (json option \<Rightarrow> json option \<Rightarrow> bool) \<Rightarrow> (('cl, 'v) ctx \<Rightarrow> err + 'cl) \<Rightarrow> 'w store_env \<Rightarrow>
   ('cl, 'v, authorization_model, 'w) lifecycle" where
  "model_controller I api deep_equal cluster_client R =
     new_lifecycle I api deep_equal cluster_client [model_tuples_subroutine R]"

subsection \<open>The subroutines leave the metadata to the engine\<close>

lemma store_keeps_meta:
  "store_meta (fst (snd (store_process R c s w))) = store_meta s"
  "store_meta (fst (snd (store_finalize R c s w))) = store_meta s"
  "store_meta (fst (snd (store_tuples_process R c s w))) = store_meta s"
  "store_meta (fst (snd (store_tuples_finalize R c s w))) = store_meta s"
  "store_meta (fst (snd (authorization_model_process Z c s w))) = store_meta s"
  by (auto simp: store_process_def store_finalize_def store_tuples_process_def store_tuples_finalize_def
      authorization_model_process_def set_store_id_def set_model_id_def set_managed_def Let_def
      split: option.splits sum.splits prod.splits if_splits bool.splits)

lemma model_keeps_meta:
  "am_meta (fst (snd (model_tuples_process R c m w))) = am_meta m"
  "am_meta (fst (snd (model_tuples_finalize R c m w))) = am_meta m"
  by (auto simp: model_tuples_process_def model_tuples_finalize_def Let_def
      split: option.splits sum.splits prod.splits if_splits)

lemma store_iface_finalizers: "obj_finalizers (store_iface tu fu) x = m_finalizers (store_meta x)"
  by (simp add: store_iface_def typed_iface_def)

lemma model_iface_finalizers: "obj_finalizers (model_iface tu fu) x = m_finalizers (am_meta x)"
  by (simp add: model_iface_def typed_iface_def)

lemma store_controller_Some:
  "store_controller M (store_iface tu fu) api deep_equal cluster_client R Z =
     Some ((new_lifecycle (store_iface tu fu) api deep_equal cluster_client
              [store_subroutine R, authorization_model_subroutine Z, store_tuples_subroutine R])
           \<lparr>lc_conditions := Some (conditions_manager M (store_iface tu fu))\<rparr>)"
  by (simp add: store_controller_def with_conditions_def new_lifecycle_def store_iface_def typed_iface_def)

interpretation stores: engine "store_iface tu fu"
    "the (store_controller M (store_iface tu fu) api deep_equal cluster_client R Z)"
  for tu fu M api deep_equal cluster_client R Z
  by (intro engine.intro engine_axioms.intro store_obj.object_laws_axioms)
    (auto simp: store_controller_Some new_lifecycle_def store_obj.conditions_manager_frame
      store_subroutine_def authorization_model_subroutine_def store_tuples_subroutine_def
      sub_keeps_finalizers_def keeps_finalizers_def store_iface_finalizers store_keeps_meta)

interpretation models: engine "model_iface tu fu" "model_controller (model_iface tu fu) api deep_equal cluster_client R"
  for tu fu api deep_equal cluster_client R
  by (intro engine.intro engine_axioms.intro model_obj.object_laws_axioms)
    (auto simp: model_controller_def new_lifecycle_def model_tuples_subroutine_def
      sub_keeps_finalizers_def keeps_finalizers_def model_iface_finalizers model_keeps_meta)

lemma store_controller_simps:
  assumes "L = the (store_controller M (store_iface tu fu) api de cc R Z)"
  shows "lc_iface L = store_iface tu fu" "lc_conditions L = Some (conditions_manager M (store_iface tu fu))"
    "lc_subroutines L = [store_subroutine R, authorization_model_subroutine Z, store_tuples_subroutine R]"
    "lc_reporters L = []" "lc_initializer L = []" "lc_terminator L = []" "lc_spread L = None" "lc_prepare L = None"
  by (simp_all add: assms store_controller_Some new_lifecycle_def)

lemma store_conditions_keep:
  "m_finalizers (store_meta (cm_init (conditions_manager M (store_iface tu fu)) x ns)) = m_finalizers (store_meta x)"
  "m_finalizers (store_meta (cm_subroutine (conditions_manager M (store_iface tu fu)) x n r e b)) =
     m_finalizers (store_meta x)"
  using store_obj.std_conditions.finalizers_init store_obj.std_conditions.finalizers_subroutine
  by (simp_all add: store_iface_finalizers)

subsection \<open>A deletion pass over a reserved store\<close>

definition reserved :: "store \<Rightarrow> bool" where
  "reserved s \<longleftrightarrow> (\<exists>f \<in> set (m_finalizers (store_meta s)). has_prefix f authorizationModelFinalizerPrefix)"

lemma reserved_finalize:
  assumes "reserved s" and "st_store_id (store_status s) \<noteq> []"
  shows "\<exists>e. store_finalize R c s w = (ret_err e, s, w)"
proof -
  have "find (\<lambda>f. has_prefix f authorizationModelFinalizerPrefix) (m_finalizers (store_meta s)) \<noteq> None"
    using assms(1) by (auto simp: reserved_def find_None_iff)
  then show ?thesis using assms(2) by (auto simp: store_finalize_def)
qed

text \<open>The conditions manager changes nothing but conditions of a store.\<close>

definition bare :: "store \<Rightarrow> store" where
  "bare s = s\<lparr>store_status := (store_status s)\<lparr>ss_conditions := []\<rparr>\<rparr>"

lemma bareD:
  assumes "bare x = bare y"
  shows "store_meta x = store_meta y" and "manager_of x = manager_of y"
    and "st_managed (store_status x) = st_managed (store_status y)"
    and "st_store_id (store_status x) = st_store_id (store_status y)"
  using assms by (cases x, cases y, cases "store_status x", cases "store_status y", simp add: bare_def manager_of_def)+

lemma bare_set [simp]: "bare (set_conditions store_conditions cs x) = bare x"
  by (simp add: bare_def store_conditions_def)

lemma bare_ensure: "bare (ensure_condition M store_conditions x n g) = bare x"
  by (simp add: ensure_condition_def Let_def)

lemma bare_init: "bare (cm_init (conditions_manager M (store_iface tu fu)) x ns) = bare x"
proof -
  have "bare (foldl (\<lambda>x name. ensure_condition M store_conditions x name g) y ns) = bare y" for y g
    by (induction ns arbitrary: y) (simp_all add: bare_ensure)
  then show ?thesis
    by (simp add: conditions_manager_def init_unknown_conditions_def store_iface_def typed_iface_def Let_def bare_ensure)
qed

lemma bare_subroutine: "bare (cm_subroutine (conditions_manager M (store_iface tu fu)) x n r e b) = bare x"
  by (auto simp: conditions_manager_def set_subroutine_condition_def store_iface_def typed_iface_def Let_def
      split: prod.splits option.splits)

text \<open>What a deletion pass depends on and what it may change of a store.\<close>

definition finalizers_and_id :: "store \<Rightarrow> string list \<times> string" where
  "finalizers_and_id s = (m_finalizers (store_meta s), st_store_id (store_status s))"

lemma finalizers_and_id_simps [simp]:
  "finalizers_and_id (cm_subroutine (conditions_manager M (store_iface tu fu)) x n r e b) = finalizers_and_id x"
  "finalizers_and_id (set_managed ts x) = finalizers_and_id x"
  "finalizers_and_id (remove_finalizer (store_iface tu fu) x f) =
     (removeAll f (fst (finalizers_and_id x)), snd (finalizers_and_id x))"
  using bareD [OF bare_subroutine, of M tu fu x n r e b]
  by (simp_all add: finalizers_and_id_def set_managed_def store_iface_def typed_iface_def)

lemma reserved_iff: "reserved s \<longleftrightarrow> (\<exists>f \<in> set (fst (finalizers_and_id s)). has_prefix f authorizationModelFinalizerPrefix)"
  by (simp add: reserved_def finalizers_and_id_def)

lemma tuples_finalizer_no_reservation: "\<not> has_prefix TuplesFinalizer authorizationModelFinalizerPrefix"
  by (simp add: TuplesFinalizer_def authorizationModelFinalizerPrefix_def has_prefix_def)

definition StoreFinalizer :: string where
  "StoreFinalizer = ''core.platform-mesh.io/fga-store''"

text \<open>What the round of the store may drop: its own finalizer, when no OpenFGA store is known.\<close>

definition unknown_store :: "string \<Rightarrow> string set" where
  "unknown_store i = (if i = [] then {StoreFinalizer} else {})"

text \<open>The three rounds of the pass.\<close>

lemma tuples_round:
  assumes "L = the (store_controller M (store_iface tu fu) api de cc R Z)" and "reserved y"
    and "run_sub L c True (store_tuples_subroutine R) rest (start_run y w) = (st', go)"
  shows "reserved (rs_obj st')
    \<and> set (fst (finalizers_and_id y)) - {TuplesFinalizer} \<subseteq> set (fst (finalizers_and_id (rs_obj st')))
    \<and> snd (finalizers_and_id (rs_obj st')) = snd (finalizers_and_id y)
    \<and> rs_world st' \<in> {w, snd (Delete_tuples (se_fga R) (manager_of y) (st_managed (store_status y)) w)}"
proof (cases "resolve_action L (store_tuples_subroutine R) y True")
  case None
  with assms(2,3) show ?thesis by (auto simp: run_sub_def start_run_def)
next
  case (Some fa)
  note L = store_controller_simps [OF assms(1)]
  have fa: "fa = (store_tuples_finalize R, ActionFinalize)"
    using Some by (auto simp: resolve_action_def finalize_action_def store_tuples_subroutine_def L split: if_splits)
  obtain r w1 where d: "Delete_tuples (se_fga R) (manager_of y) (st_managed (store_status y)) w = (r, w1)" by fastforce
  show ?thesis
    using assms(2,3) Some fa d tuples_finalizer_no_reservation
    by (cases r) (auto simp: run_sub_def start_run_def store_tuples_finalize_def on_error_def on_result_def
        set_sub_condition_def drop_finalizers_def store_tuples_subroutine_def L reserved_iff Let_def
        outcome_makers result_makers result_preds)
qed

lemma store_round:
  assumes "L = the (store_controller M (store_iface tu fu) api de cc R Z)" and "reserved (rs_obj st)"
    and "run_sub L c True (store_subroutine R) rest st = (st', go)"
  shows "set (fst (finalizers_and_id (rs_obj st))) - unknown_store (snd (finalizers_and_id (rs_obj st)))
      \<subseteq> set (fst (finalizers_and_id (rs_obj st')))
    \<and> rs_world st' = rs_world st"
proof (cases "resolve_action L (store_subroutine R) (rs_obj st) True")
  case None
  with assms(3) show ?thesis by (auto simp: run_sub_def)
next
  case (Some fa)
  note L = store_controller_simps [OF assms(1)]
  have fa: "fa = (store_finalize R, ActionFinalize)"
    using Some by (auto simp: resolve_action_def finalize_action_def store_subroutine_def L split: if_splits)
  show ?thesis
  proof (cases "st_store_id (store_status (rs_obj st)) = []")
    case True
    then have i: "snd (finalizers_and_id (rs_obj st)) = []" by (simp add: finalizers_and_id_def)
    have "store_finalize R c (rs_obj st) (rs_world st) = (ret OK, rs_obj st, rs_world st)"
      using True by (simp add: store_finalize_def)
    with assms(3) Some fa show ?thesis
      by (auto simp: run_sub_def on_result_def set_sub_condition_def drop_finalizers_def store_subroutine_def L Let_def i
          unknown_store_def StoreFinalizer_def outcome_makers result_makers result_preds)
  next
    case False
    obtain e where "store_finalize R c (rs_obj st) (rs_world st) = (ret_err e, rs_obj st, rs_world st)"
      using reserved_finalize [OF assms(2) False] by metis
    with assms(3) Some fa show ?thesis
      by (auto simp: run_sub_def on_error_def set_sub_condition_def L Let_def ret_err_def)
  qed
qed

lemma reserved_pass:
  assumes "L = the (store_controller M (store_iface tu fu) api de cc R Z)" and "reserved y"
  shows "set (fst (finalizers_and_id y)) - ({TuplesFinalizer} \<union> unknown_store (snd (finalizers_and_id y))) \<subseteq>
      set (fst (finalizers_and_id (rs_obj (run_subs L c True (rev (lc_subroutines L)) (start_run y w)))))
    \<and> rs_world (run_subs L c True (rev (lc_subroutines L)) (start_run y w)) \<in>
        {w, snd (Delete_tuples (se_fga R) (manager_of y) (st_managed (store_status y)) w)}"
proof -
  note L = store_controller_simps [OF assms(1)]
  obtain st' go where t: "run_sub L c True (store_tuples_subroutine R)
      [authorization_model_subroutine Z, store_subroutine R] (start_run y w) = (st', go)" by fastforce
  note 1 = tuples_round [OF assms t]
  have m: "run_sub L c True (authorization_model_subroutine Z) rest st = (st, True)" for rest st
    by (simp add: run_sub_def resolve_action_def finalize_action_def authorization_model_subroutine_def L)
  obtain st2 go2 where s: "run_sub L c True (store_subroutine R) [] st' = (st2, go2)" by fastforce
  have 2: "set (fst (finalizers_and_id (rs_obj st'))) - unknown_store (snd (finalizers_and_id y))
      \<subseteq> set (fst (finalizers_and_id (rs_obj st2))) \<and> rs_world st2 = rs_world st'"
    using store_round [OF assms(1) _ s] 1 by simp
  show ?thesis using 1 2 by (cases go; cases go2) (auto simp: L t m s)
qed

subsection \<open>Reservations\<close>

text \<open>What the API server promises for Stores: objects keep their name, and an update is what is read.\<close>

definition store_client_laws :: "(store, 'w) kind_client \<Rightarrow> bool" where
  "store_client_laws K \<longleftrightarrow>
     (\<forall>n w s. k_get K ([], n) w = Inr s \<longrightarrow> store_name s = n) \<and>
     (\<forall>s s' w w' x. k_update K s w = (None, s', w') \<longrightarrow> k_get K ([], store_name s) w' = Inr x \<longrightarrow>
        m_finalizers (store_meta x) = m_finalizers (store_meta s))"

lemma registered:
  assumes "store_client_laws (se_stores R cl)" and "finalizer_laws (se_finalizers R)" and "retry_laws (se_retry R)"
    and "registerAuthorizationModelWithStore R cl name mc mn w = (None, w')"
    and "k_get (se_stores R cl) ([], name) w' = Inr s"
  shows "authorizationModelFinalizer R mc mn \<in> set (m_finalizers (store_meta s))"
proof -
  let ?f = "authorizationModelFinalizer R mc mn" and ?K = "se_stores R cl"
  have "se_retry R (register_body R ?K name ?f) w = (None, w')"
    using assms(4) by (auto simp: registerAuthorizationModelWithStore_def split: option.splits)
  then have "retries (register_body R ?K name ?f) w None w'"
    using assms(3) by (simp add: retry_laws_def) (metis fst_conv snd_conv)
  then obtain w0 where b: "register_body R ?K name ?f w0 = (None, w')"
    using retries_result [of _ _ _ _ "\<lambda>_. True"] by metis
  then obtain x where x: "k_get ?K ([], name) w0 = Inr x"
    by (auto simp: register_body_def split: sum.splits)
  show ?thesis
  proof (cases "?f \<in> set (m_finalizers (store_meta x))")
    case True
    then have "w' = w0" using b x by (simp add: register_body_def)
    then show ?thesis using True x assms(5) by simp
  next
    case False
    let ?fs = "snd (fl_add (se_finalizers R) ?f (m_finalizers (store_meta x)))"
    have "update_store ?K (set_store_finalizers ?fs x) w0 = (None, w')"
      using b x False by (simp add: register_body_def)
    then obtain y where y: "k_update ?K (set_store_finalizers ?fs x) w0 = (None, y, w')"
      by (auto simp: update_store_def split: prod.splits)
    have "store_name x = name" using assms(1) x by (auto simp: store_client_laws_def)
    then have "k_get ?K ([], store_name (set_store_finalizers ?fs x)) w' = Inr s"
      using assms(5) by (simp add: set_store_finalizers_def store_name_def)
    with assms(1) y have "m_finalizers (store_meta s) = m_finalizers (store_meta (set_store_finalizers ?fs x))"
      unfolding store_client_laws_def by blast
    then have "m_finalizers (store_meta s) = ?fs" by (simp add: set_store_finalizers_def)
    then show ?thesis using assms(2) by (simp add: finalizer_laws_def)
  qed
qed

lemma registered_reserved:
  assumes "store_client_laws (se_stores R cl)" and "finalizer_laws (se_finalizers R)" and "retry_laws (se_retry R)"
    and "registerAuthorizationModelWithStore R cl name mc mn w = (None, w')"
    and "k_get (se_stores R cl) ([], name) w' = Inr s"
  shows "reserved s"
proof -
  have "has_prefix (authorizationModelFinalizer R mc mn) authorizationModelFinalizerPrefix"
    by (simp add: authorizationModelFinalizer_def)
  with registered [OF assms] show ?thesis unfolding reserved_def by (rule bexI [rotated])
qed

end
