(* ===== verification/Fga_Policies.thy ===== *)
theory Fga_Policies
  imports Fga_Stores
begin

text \<open>
  Policies on who may bind an APIExport (\<^verbatim>\<open>internal/subroutine/apiexportpolicy.go\<close>): each path expression of
  a policy stands for tuples in the stores of the organizations it names.
\<close>

record 'w policy_env =
  pe_fga :: "'w fga"
  pe_store_id :: "string \<Rightarrow> 'w \<Rightarrow> (err + string) \<times> 'w"
  pe_client :: "string \<Rightarrow> 'w \<Rightarrow> err option"
  pe_logical_cluster :: "string \<Rightarrow> 'w \<Rightarrow> err + logical_cluster"
  pe_account_info :: "string \<Rightarrow> 'w \<Rightarrow> err + account_info"
  pe_account_infos :: "'w \<Rightarrow> err + account_info list"
  pe_context_client :: "'w \<Rightarrow> err option"
  pe_patch_status :: "apiexport_policy \<Rightarrow> 'w \<Rightarrow> err option \<times> apiexport_policy \<times> 'w"

definition CoreProviderName :: string where
  "CoreProviderName = ''core''"

definition parseAllowExpression :: "string \<Rightarrow> err + string \<times> string" where
  "parseAllowExpression expr =
     (let expr = trim_prefix expr '':'' in
      if \<not> has_prefix expr ''root:orgs:''
      then Inl (errorf ''invalid path expression: must start with root:orgs'')
      else if has_suffix expr '':*'' then Inr (trim_suffix expr '':*'', ''bind_inherited'')
      else Inr (expr, ''bind''))"

definition getClusterIDFromPath :: "'w policy_env \<Rightarrow> string \<Rightarrow> 'w \<Rightarrow> err + string" where
  "getClusterIDFromPath R p w =
     (case pe_client R (MultiProviderName CoreProviderName p) w of
        Some e \<Rightarrow> Inl (wrap (''getting client for workspace '' @ p) e)
      | None \<Rightarrow>
          (case pe_logical_cluster R (MultiProviderName CoreProviderName p) w of
             Inl e \<Rightarrow> Inl (wrap (''getting logical cluster for path '' @ p) e)
           | Inr lc \<Rightarrow>
               (case cluster_annotation lc of
                  None \<Rightarrow> Inl (errorf (''kcp.io/cluster annotation not found on logical cluster '' @ p))
                | Some i \<Rightarrow> Inr i)))"

text \<open>The tuple that lets workspaces below an account bind the export of a provider.\<close>

definition bind_tuple :: "account_info \<Rightarrow> string \<Rightarrow> string \<Rightarrow> string \<Rightarrow> tuple" where
  "bind_tuple ai relation provider export =
     \<lparr>tp_object = ''core_platform-mesh_io_account:'' @ al_origin (ai_account ai) @ ''/'' @ al_name (ai_account ai),
      tp_relation = relation,
      tp_user = ''apis_kcp_io_apiexport:'' @ provider @ ''/'' @ export\<rparr>"

text \<open>One tuple written or deleted in the store of the account's organization.\<close>

definition at_org ::
  "'w policy_env \<Rightarrow> (tuple_manager \<Rightarrow> tuple list \<Rightarrow> 'w \<Rightarrow> err option \<times> 'w) \<Rightarrow> string \<Rightarrow> account_info \<Rightarrow> tuple \<Rightarrow> 'w \<Rightarrow>
   err option \<times> 'w" where
  "at_org R op what ai t w =
     (case pe_store_id R (al_name (ai_organization ai)) w of
        (Inl e, w1) \<Rightarrow> (Some (wrap (''getting store ID for org '' @ al_name (ai_organization ai)) e), w1)
      | (Inr s, w1) \<Rightarrow>
          (case op \<lparr>tm_store = s, tm_model = AuthorizationModelIDLatest\<rparr> [t] w1 of
             (Some e, w2) \<Rightarrow> (Some (wrap what e), w2)
           | (None, w2) \<Rightarrow> (None, w2)))"

fun at_orgs ::
  "'w policy_env \<Rightarrow> (tuple_manager \<Rightarrow> tuple list \<Rightarrow> 'w \<Rightarrow> err option \<times> 'w) \<Rightarrow> string \<Rightarrow>
   string \<Rightarrow> string \<Rightarrow> string \<Rightarrow> account_info list \<Rightarrow> 'w \<Rightarrow> err option \<times> 'w" where
  "at_orgs R op what relation provider export [] w = (None, w)"
| "at_orgs R op what relation provider export (ai # ais) w =
     (case at_org R op what ai (bind_tuple ai relation provider export) w of
        (Some e, w') \<Rightarrow> (Some e, w')
      | (None, w') \<Rightarrow> at_orgs R op what relation provider export ais w')"

text \<open>The AccountInfo of the workspace an expression names.\<close>

definition info_of_workspace :: "'w policy_env \<Rightarrow> string \<Rightarrow> 'w \<Rightarrow> err + account_info" where
  "info_of_workspace R p w =
     (case pe_client R (MultiProviderName CoreProviderName p) w of
        Some e \<Rightarrow> Inl (wrap (''getting client for workspace '' @ p) e)
      | None \<Rightarrow>
          (case pe_account_info R (MultiProviderName CoreProviderName p) w of
             Inl e \<Rightarrow> Inl (wrap (''getting AccountInfo for workspace '' @ p) e)
           | Inr ai \<Rightarrow> Inr ai))"

definition orgsWorkspacePath :: string where
  "orgsWorkspacePath = ''root:orgs''"

definition apply_expression ::
  "'w policy_env \<Rightarrow> string \<Rightarrow> string \<Rightarrow> string \<Rightarrow> 'w \<Rightarrow> err option \<times> 'w" where
  "apply_expression R provider export expr w =
     (case parseAllowExpression expr of
        Inl e \<Rightarrow> (Some (wrap (''parsing allow expression '' @ expr) e), w)
      | Inr (p, relation) \<Rightarrow>
          let what = ''applying tuple for expression '' @ expr in
          if p = orgsWorkspacePath then
            (case pe_account_infos R w of
               Inl e \<Rightarrow> (Some (wrap ''listing AccountInfo resources'' e), w)
             | Inr ais \<Rightarrow>
                 at_orgs R (Apply (pe_fga R)) what relation provider export
                   (filter (\<lambda>ai. al_type (ai_account ai) = ''org'') ais) w)
          else (case info_of_workspace R p w of
                  Inl e \<Rightarrow> (Some e, w)
                | Inr ai \<Rightarrow> at_org R (Apply (pe_fga R)) what ai (bind_tuple ai relation provider export) w))"

definition deleteTuplesForExpression ::
  "'w policy_env \<Rightarrow> string \<Rightarrow> string \<Rightarrow> string \<Rightarrow> 'w \<Rightarrow> err option \<times> 'w" where
  "deleteTuplesForExpression R provider export expr w =
     (case parseAllowExpression expr of
        Inl e \<Rightarrow> (Some (wrap (''parsing expression '' @ expr) e), w)
      | Inr (p, relation) \<Rightarrow>
          if p = orgsWorkspacePath then
            (case pe_account_infos R w of
               Inl e \<Rightarrow> (Some (wrap (''listing AccountInfo resources for '' @ expr) e), w)
             | Inr ais \<Rightarrow>
                 at_orgs R (Delete_tuples (pe_fga R)) ''removing tuple in openFGA'' relation provider export ais w)
          else (case info_of_workspace R p w of
                  Inl e \<Rightarrow> (Some e, w)
                | Inr ai \<Rightarrow>
                    at_org R (Delete_tuples (pe_fga R)) ''removing tuples'' ai (bind_tuple ai relation provider export) w))"

fun for_expressions ::
  "(string \<Rightarrow> 'w \<Rightarrow> err option \<times> 'w) \<Rightarrow> string list \<Rightarrow> 'w \<Rightarrow> err option \<times> 'w" where
  "for_expressions f [] w = (None, w)"
| "for_expressions f (x # xs) w =
     (case f x w of (Some e, w') \<Rightarrow> (Some e, w') | (None, w') \<Rightarrow> for_expressions f xs w')"

definition wrap_error :: "string \<Rightarrow> err option \<times> 'w \<Rightarrow> err option \<times> 'w" where
  "wrap_error what r = (case r of (Some e, w) \<Rightarrow> (Some (wrap what e), w) | (None, w) \<Rightarrow> (None, w))"

definition deleteRemovedExpressions :: "'w policy_env \<Rightarrow> apiexport_policy \<Rightarrow> 'w \<Rightarrow> err option \<times> 'w" where
  "deleteRemovedExpressions R po w =
     (case getClusterIDFromPath R (po_export_path po) w of
        Inl e \<Rightarrow> (Some (wrap (''getting provider cluster ID for '' @ po_export_path po) e), w)
      | Inr provider \<Rightarrow>
          for_expressions
            (\<lambda>x w. wrap_error (''removing tuples for expression '' @ x)
                     (deleteTuplesForExpression R provider (po_export_name po) x w))
            (filter (\<lambda>x. x \<notin> set (po_allow po)) (po_managed po)) w)"

definition policy_process :: "'w policy_env \<Rightarrow> apiexport_policy \<Rightarrow> 'w \<Rightarrow> outcome \<times> apiexport_policy \<times> 'w" where
  "policy_process R po w =
     (case getClusterIDFromPath R (po_export_path po) w of
        Inl e \<Rightarrow> (ret_err (wrap (''getting provider cluster ID for '' @ po_export_path po) e), po, w)
      | Inr provider \<Rightarrow>
     (case deleteRemovedExpressions R po w of
        (Some e, w1) \<Rightarrow> (ret_err (wrap (''removing tuples for policy '' @ m_name (po_meta po)) e), po, w1)
      | (None, w1) \<Rightarrow>
     (case for_expressions (apply_expression R provider (po_export_name po)) (po_allow po) w1 of
        (Some e, w2) \<Rightarrow> (ret_err e, po, w2)
      | (None, w2) \<Rightarrow>
     (case pe_context_client R w2 of
        Some e \<Rightarrow> (ret_err (wrap ''failed to get cluster from context'' e), po, w2)
      | None \<Rightarrow>
     (case pe_patch_status R (po\<lparr>po_managed := po_allow po\<rparr>) w2 of
        (Some e, po', w3) \<Rightarrow> (ret_err (wrap ''failed to patch APIExportPolicy status'' e), po', w3)
      | (None, po', w3) \<Rightarrow> (ret OK, po', w3))))))"

definition policy_finalize :: "'w policy_env \<Rightarrow> apiexport_policy \<Rightarrow> 'w \<Rightarrow> outcome \<times> apiexport_policy \<times> 'w" where
  "policy_finalize R po w =
     (case getClusterIDFromPath R (po_export_path po) w of
        Inl e \<Rightarrow> (ret_err (wrap (''getting provider cluster ID for '' @ po_export_path po) e), po, w)
      | Inr provider \<Rightarrow>
          (case for_expressions
                  (\<lambda>x w. wrap_error (''deleting tuples for expression '' @ x)
                           (deleteTuplesForExpression R provider (po_export_name po) x w))
                  (po_allow po) w of
             (Some e, w') \<Rightarrow> (ret_err e, po, w')
           | (None, w') \<Rightarrow> (ret OK, po, w')))"

subsection \<open>What an expression stands for\<close>

text \<open>
  What the lookups of a pass answer when nothing changes meanwhile: all AccountInfos, the AccountInfo of a
  workspace, and the store of an organization.
\<close>

record policy_view =
  pv_infos :: "account_info list"
  pv_info :: "string \<Rightarrow> err + account_info"
  pv_store :: "string \<Rightarrow> err + string"

definition sees :: "'w policy_env \<Rightarrow> (string \<Rightarrow> 'w \<Rightarrow> tuple set) \<Rightarrow> policy_view \<Rightarrow> bool" where
  "sees R T V \<longleftrightarrow>
     (\<forall>w. pe_account_infos R w = Inr (pv_infos V)) \<and>
     (\<forall>p w. info_of_workspace R p w = pv_info V p) \<and>
     (\<forall>n w. fst (pe_store_id R n w) = pv_store V n) \<and>
     (\<forall>n. keeps_tuples T (\<lambda>w. snd (pe_store_id R n w))) \<and>
     (\<forall>po. keeps_tuples T (\<lambda>w. snd (snd (pe_patch_status R po w))))"

definition tuple_at :: "policy_view \<Rightarrow> string \<Rightarrow> string \<Rightarrow> string \<Rightarrow> account_info \<Rightarrow> (string \<times> tuple) set" where
  "tuple_at V provider export relation ai =
     (case pv_store V (al_name (ai_organization ai)) of
        Inl e \<Rightarrow> {} | Inr s \<Rightarrow> {(s, bind_tuple ai relation provider export)})"

definition tuples_for ::
  "(account_info \<Rightarrow> bool) \<Rightarrow> policy_view \<Rightarrow> string \<Rightarrow> string \<Rightarrow> string \<Rightarrow> (string \<times> tuple) set" where
  "tuples_for P V provider export expr =
     (case parseAllowExpression expr of
        Inl e \<Rightarrow> {}
      | Inr (p, relation) \<Rightarrow>
          if p = orgsWorkspacePath
          then (\<Union>ai \<in> {ai \<in> set (pv_infos V). P ai}. tuple_at V provider export relation ai)
          else (case pv_info V p of Inl e \<Rightarrow> {} | Inr ai \<Rightarrow> tuple_at V provider export relation ai))"

definition is_org_info :: "account_info \<Rightarrow> bool" where
  "is_org_info ai \<longleftrightarrow> al_type (ai_account ai) = ''org''"

abbreviation expression_grants :: "policy_view \<Rightarrow> string \<Rightarrow> string \<Rightarrow> string \<Rightarrow> (string \<times> tuple) set" where
  "expression_grants \<equiv> tuples_for is_org_info"

abbreviation expression_removes :: "policy_view \<Rightarrow> string \<Rightarrow> string \<Rightarrow> string \<Rightarrow> (string \<times> tuple) set" where
  "expression_removes \<equiv> tuples_for (\<lambda>ai. True)"

lemma grants_are_removed: "expression_grants V provider export x \<subseteq> expression_removes V provider export x"
  by (auto simp: tuples_for_def split: sum.splits)

definition granted :: "(string \<Rightarrow> 'w \<Rightarrow> tuple set) \<Rightarrow> 'w \<Rightarrow> (string \<times> tuple) set" where
  "granted T w = {(s, t). t \<in> T s w}"

lemma granted_quiet: "keeps_tuples T f \<Longrightarrow> granted T (f w) = granted T w"
  by (simp add: granted_def keeps_tuples_def)

text \<open>Operations that put tuples into their stores, or take them out.\<close>

locale grant_writer =
  fixes op :: "'w fga \<Rightarrow> tuple_manager \<Rightarrow> tuple list \<Rightarrow> 'w \<Rightarrow> err option \<times> 'w"
    and f :: "(string \<times> tuple) set \<Rightarrow> (string \<times> tuple) set \<Rightarrow> (string \<times> tuple) set"
  assumes f_empty: "f {} G = G"
    and f_union: "f X (f Y G) = f (Y \<union> X) G"
    and one: "fga_writes A T \<Longrightarrow> op A m [t] w = (None, w') \<Longrightarrow> granted T w' = f {(tm_store m, t)} (granted T w)"
begin

lemma at_org_granted:
  assumes "fga_writes A T" and "sees R T V"
    and "at_org R (op A) what ai (bind_tuple ai relation provider export) w = (None, w')"
  shows "granted T w' = f (tuple_at V provider export relation ai) (granted T w)"
proof -
  let ?n = "al_name (ai_organization ai)"
  obtain s w1 where s: "pe_store_id R ?n w = (Inr s, w1)"
      "op A \<lparr>tm_store = s, tm_model = AuthorizationModelIDLatest\<rparr> [bind_tuple ai relation provider export] w1 = (None, w')"
    using assms(3) by (auto simp: at_org_def split: prod.splits sum.splits option.splits)
  have "fst (pe_store_id R ?n w) = pv_store V ?n" "keeps_tuples T (\<lambda>w. snd (pe_store_id R ?n w))"
    using assms(2) by (simp_all add: sees_def)
  then have "pv_store V ?n = Inr s" "granted T w1 = granted T w"
    using s(1) granted_quiet [of T "\<lambda>w. snd (pe_store_id R ?n w)" w] by simp_all
  with one [OF assms(1) s(2)] show ?thesis by (simp add: tuple_at_def)
qed

lemma at_orgs_granted:
  assumes "fga_writes A T" and "sees R T V"
  shows "at_orgs R (op A) what relation provider export ais w = (None, w') \<Longrightarrow>
    granted T w' = f (\<Union>ai \<in> set ais. tuple_at V provider export relation ai) (granted T w)"
proof (induction ais arbitrary: w)
  case (Cons ai ais)
  then obtain w1 where w1: "at_org R (op A) what ai (bind_tuple ai relation provider export) w = (None, w1)"
      "at_orgs R (op A) what relation provider export ais w1 = (None, w')"
    by (auto split: prod.splits option.splits)
  show ?case
    using at_org_granted [OF assms w1(1)] Cons.IH [OF w1(2)] by (simp add: f_union)
qed (simp add: f_empty)

lemma for_expressions_granted:
  assumes "\<And>x w w'. x \<in> set xs \<Longrightarrow> g x w = (None, w') \<Longrightarrow> granted T w' = f (h x) (granted T w)"
  shows "for_expressions g xs w = (None, w') \<Longrightarrow> granted T w' = f (\<Union>x \<in> set xs. h x) (granted T w)"
  using assms
proof (induction xs arbitrary: w)
  case (Cons x xs)
  then obtain w1 where w1: "g x w = (None, w1)" "for_expressions g xs w1 = (None, w')"
    by (auto split: prod.splits option.splits)
  show ?case
    using Cons.IH [OF w1(2)] Cons.prems(2) [OF _ w1(1)] Cons.prems(2) by (simp add: f_union)
qed (simp add: f_empty)

end

lemma granted_writer:
  assumes "tuple_writer op eff" and "fga_writes A T" and "op A m [t] w = (None, w')"
  shows "granted T w' = {(s, u). u \<in> (if s = tm_store m then eff [t] (T s w) else T s w)}"
proof -
  have "T s w' = (if s = tm_store m then eff [t] (T s w) else T s w)" for s
    using tuple_writer.written [OF assms] tuple_writer.elsewhere [OF assms] by simp
  then show ?thesis by (simp add: granted_def)
qed

interpretation granting: grant_writer Apply "\<lambda>S G. G \<union> S"
proof
  fix A :: "'w fga" and T m t w w'
  assume "fga_writes A T" "Apply A m [t] w = (None, w')"
  from granted_writer [OF applied.tuple_writer_axioms this]
  show "granted T w' = granted T w \<union> {(tm_store m, t)}"
    by (auto simp: granted_def split: if_splits)
qed auto

interpretation revoking: grant_writer Delete_tuples "\<lambda>S G. G - S"
proof
  fix A :: "'w fga" and T m t w w'
  assume "fga_writes A T" "Delete_tuples A m [t] w = (None, w')"
  from granted_writer [OF deleted.tuple_writer_axioms this]
  show "granted T w' = granted T w - {(tm_store m, t)}"
    by (auto simp: granted_def split: if_splits)
qed auto

text \<open>One expression applied, or removed.\<close>

lemma apply_expression_granted:
  assumes "fga_writes (pe_fga R) T" and "sees R T V" and "apply_expression R provider export x w = (None, w')"
  shows "granted T w' = granted T w \<union> expression_grants V provider export x"
proof -
  have v: "pe_account_infos R w = Inr (pv_infos V)" "info_of_workspace R p w = pv_info V p" for p
    using assms(2) by (simp_all add: sees_def)
  from assms(3) show ?thesis
    unfolding apply_expression_def tuples_for_def Let_def v
    using granting.at_orgs_granted [OF assms(1,2)] granting.at_org_granted [OF assms(1,2)]
    by (auto simp: is_org_info_def split: sum.splits prod.splits if_splits)
qed

lemma delete_expression_granted:
  assumes "fga_writes (pe_fga R) T" and "sees R T V"
    and "deleteTuplesForExpression R provider export x w = (None, w')"
  shows "granted T w' = granted T w - expression_removes V provider export x"
proof -
  have v: "pe_account_infos R w = Inr (pv_infos V)" "info_of_workspace R p w = pv_info V p" for p
    using assms(2) by (simp_all add: sees_def)
  from assms(3) show ?thesis
    unfolding deleteTuplesForExpression_def tuples_for_def Let_def v
    using revoking.at_orgs_granted [OF assms(1,2)] revoking.at_org_granted [OF assms(1,2)]
    by (auto split: sum.splits prod.splits if_splits)
qed

lemma delete_expressions_granted:
  assumes "fga_writes (pe_fga R) T" and "sees R T V"
    and "for_expressions (\<lambda>x w. wrap_error (msg x) (deleteTuplesForExpression R provider export x w)) xs w = (None, w')"
  shows "granted T w' = granted T w - (\<Union>x \<in> set xs. expression_removes V provider export x)"
  using assms(3)
proof (rule revoking.for_expressions_granted [rotated])
  fix x w w'
  assume "wrap_error (msg x) (deleteTuplesForExpression R provider export x w) = (None, w')"
  then have "deleteTuplesForExpression R provider export x w = (None, w')"
    by (auto simp: wrap_error_def split: prod.splits option.splits)
  then show "granted T w' = granted T w - expression_removes V provider export x"
    by (rule delete_expression_granted [OF assms(1,2)])
qed

lemma policy_process_granted:
  assumes w: "fga_writes (pe_fga R) T" and v: "sees R T V"
    and p: "getClusterIDFromPath R (po_export_path po) w = Inr provider"
    and r: "policy_process R po w = (ret OK, po', w')"
  shows "granted T w' =
    (granted T w - (\<Union>x \<in> {x \<in> set (po_managed po). x \<notin> set (po_allow po)}. expression_removes V provider (po_export_name po) x))
      \<union> (\<Union>x \<in> set (po_allow po). expression_grants V provider (po_export_name po) x)"
proof -
  obtain w1 w2 where
      d: "deleteRemovedExpressions R po w = (None, w1)" and
      a: "for_expressions (apply_expression R provider (po_export_name po)) (po_allow po) w1 = (None, w2)" and
      c: "pe_patch_status R (po\<lparr>po_managed := po_allow po\<rparr>) w2 = (None, po', w')"
    using r p by (auto simp: policy_process_def ret_def ret_err_def split: prod.splits option.splits)
  have "granted T w1 = granted T w -
      (\<Union>x \<in> set (filter (\<lambda>x. x \<notin> set (po_allow po)) (po_managed po)). expression_removes V provider (po_export_name po) x)"
    using d p by (intro delete_expressions_granted [OF w v]) (simp add: deleteRemovedExpressions_def)
  moreover have "granted T w2 = granted T w1 \<union> (\<Union>x \<in> set (po_allow po). expression_grants V provider (po_export_name po) x)"
    using a by (rule granting.for_expressions_granted [rotated]) (rule apply_expression_granted [OF w v])
  moreover have "keeps_tuples T (\<lambda>w. snd (snd (pe_patch_status R (po\<lparr>po_managed := po_allow po\<rparr>) w)))"
    using v by (simp add: sees_def)
  then have "granted T w' = granted T w2" using granted_quiet c by (metis snd_conv)
  ultimately show ?thesis by simp
qed

lemma policy_finalize_granted:
  assumes "fga_writes (pe_fga R) T" and "sees R T V"
    and "getClusterIDFromPath R (po_export_path po) w = Inr provider"
    and "policy_finalize R po w = (ret OK, po', w')"
  shows "granted T w' = granted T w - (\<Union>x \<in> set (po_allow po). expression_removes V provider (po_export_name po) x)"
proof -
  have "for_expressions (\<lambda>x w. wrap_error (''deleting tuples for expression '' @ x)
          (deleteTuplesForExpression R provider (po_export_name po) x w)) (po_allow po) w = (None, w')"
    using assms(3,4) by (auto simp: policy_finalize_def ret_def ret_err_def split: prod.splits option.splits)
  then show ?thesis by (rule delete_expressions_granted [OF assms(1,2)])
qed

end
