(* ===== verification/Fga_Example.thy ===== *)
theory Fga_Example
  imports Fga_Controllers Fga_Policies
begin

text \<open>
  A small OpenFGA server for closed instances: its state maps each store to a list of tuples, reads give
  one tuple per page, and the token of a page is the number of tuples before it in unary.
\<close>

type_synonym small_fga_state = "string \<Rightarrow> tuple list"

definition small_write :: "write_request \<Rightarrow> small_fga_state \<Rightarrow> err option \<times> small_fga_state" where
  "small_write r w =
     (None, w(wr_store r := filter (\<lambda>t. t \<notin> set (wr_deletes r)) (w (wr_store r)) @ wr_writes r))"

definition matching :: "string option \<Rightarrow> tuple list \<Rightarrow> tuple list" where
  "matching k ts = filter (\<lambda>t. case k of None \<Rightarrow> True | Some x \<Rightarrow> tp_object t = x) ts"

definition small_read :: "string \<Rightarrow> string option \<Rightarrow> string \<Rightarrow> small_fga_state \<Rightarrow> err + tuple_page" where
  "small_read s k tok w =
     (let rest = drop (length tok) (matching k (w s)) in
      Inr \<lparr>pg_tuples = map Some (take 1 rest), pg_token = (if length rest \<le> 1 then [] else tok @ ''i'')\<rparr>)"

definition small_fga :: "small_fga_state fga" where
  "small_fga = \<lparr>fga_write = small_write, fga_read = small_read\<rparr>"

definition small_tuples :: "string \<Rightarrow> small_fga_state \<Rightarrow> tuple set" where
  "small_tuples s w = set (w s)"

definition small_pages :: "string \<Rightarrow> string option \<Rightarrow> string \<Rightarrow> small_fga_state \<Rightarrow> tuple list list" where
  "small_pages s k tok w =
     (let rest = drop (length tok) (matching k (w s)) in if rest = [] then [[]] else map (\<lambda>t. [t]) rest)"

lemma small_fga_writes: "fga_writes small_fga small_tuples"
  by (auto simp: fga_writes_def small_fga_def small_write_def small_tuples_def)

lemma keys_of_page_Some [simp]: "keys_of_page \<lparr>pg_tuples = map Some ts, pg_token = tok\<rparr> = ts"
  by (induction ts) (simp_all add: keys_of_page_def List.map_filter_def)

lemma small_fga_reads: "fga_reads small_fga small_tuples small_pages"
  unfolding fga_reads_def
proof (intro conjI allI impI)
  fix s tok :: string and k :: "string option" and w :: small_fga_state and p
  let ?rest = "drop (length tok) (matching k (w s))"
  assume "fga_read small_fga s k tok w = Inr p"
  then have p: "p = \<lparr>pg_tuples = map Some (take 1 ?rest), pg_token = (if length ?rest \<le> 1 then [] else tok @ ''i'')\<rparr>"
    by (simp add: small_fga_def small_read_def Let_def)
  show "small_pages s k tok w = keys_of_page p # (if pg_token p = [] then [] else small_pages s k (pg_token p) w)"
  proof (cases ?rest)
    case Nil
    then show ?thesis unfolding p keys_of_page_Some by (simp add: small_pages_def)
  next
    case (Cons t ts)
    have "drop (length (tok @ ''i'')) (matching k (w s)) = tl ?rest" by (simp add: drop_Suc tl_drop)
    then have "drop (Suc (length tok)) (matching k (w s)) = ts" using Cons by simp
    with Cons show ?thesis unfolding p keys_of_page_Some
      by (cases ts) (simp_all add: small_pages_def Let_def)
  qed
next
  fix s :: string and k :: "string option" and w :: small_fga_state
  show "set (concat (small_pages s k [] w)) = {t \<in> small_tuples s w. \<forall>x. k = Some x \<longrightarrow> tp_object t = x}"
    by (cases k) (auto simp: small_pages_def small_tuples_def matching_def filter_empty_conv Let_def split: if_splits)
qed

lemma small_no_store: "no_store_no_tuples small_fga small_tuples"
  by (auto simp: no_store_no_tuples_def small_fga_def small_read_def small_write_def Let_def)

end
