(* ===== verification/Fga_Props.thy ===== *)
theory Fga_Props
  imports Fga_Example Broker_Example Lifecycle_Props
begin

text \<open>
  The properties of the security operator: account keys, the re-keying of tuples, the removal of accounts,
  binding policies, the protection of reserved stores, and the agreement of the generated models with what
  the authorization webhook asks.
\<close>

text \<open>
  C14. An FGA key parses as an account key exactly if it is the text of a well-formed one, and it parses
  as that one: rendering and parsing are inverse to each other, and nothing else is taken for an account.
\<close>

theorem account_keys_roundtrip: "ParseAccountKey s = Some k \<longleftrightarrow> wf_key k \<and> render_key k = s"
  by (rule parse_eq_iff)

lemma not_OK [simp]: "ret_err e \<noteq> ret OK" "ret (StopWithRequeue d m) \<noteq> ret OK"
  by (simp_all add: outcome_makers result_makers)

text \<open>A pass either stops before it touches anything or lists the stale tuples and works on them.\<close>

lemma rekey_reconcile_cases:
  assumes "rk_account_info R w = Inr ai" and "cluster_id_ok (al_origin (ai_account ai))"
    and "rk_store_id R (al_name (ai_account ai)) w = (Inr s, w1)"
  obtains (early) oc where "rekey_reconcile R w = Some (oc, w)" "rk_enabled R \<Longrightarrow> oc \<noteq> ret OK"
    | (listed) "rekey_reconcile R w =
        (case ListWithFilter (rk_fga R) \<lparr>tm_store = s, tm_model = AuthorizationModelIDLatest\<rparr>
                (Some (StaleAccountTupleFilter (rk_object_type R) (al_name (ai_account ai)) (al_origin (ai_account ai)))) w1 of
           None \<Rightarrow> None
         | Some (Inl e) \<Rightarrow> Some (ret_err (wrap ''listing stale tuples'' e), w1)
         | Some (Inr stale) \<Rightarrow>
             Some (rekey_stale R \<lparr>tm_store = s, tm_model = AuthorizationModelIDLatest\<rparr> (al_name (ai_account ai))
                     (al_origin (ai_account ai)) stale w1))"
proof (cases "rk_enabled R \<and> rk_cluster R w = None \<and> al_name (ai_account ai) \<noteq> []")
  case True
  then show ?thesis
    using listed assms by (simp add: rekey_reconcile_def cluster_id_ok_def Let_def)
next
  case False
  then have "\<exists>oc. rekey_reconcile R w = Some (oc, w) \<and> (rk_enabled R \<longrightarrow> oc \<noteq> ret OK)"
    using assms by (cases "rk_enabled R"; cases "rk_cluster R w") (auto simp: rekey_reconcile_def Let_def)
  then show ?thesis using early by blast
qed

text \<open>
  C15. Re-keying returns and never loses a tuple, whatever fails on the way: every tuple of the store is
  still there, or it carried one stale cluster id that is gone and its copy under the current id is
  there; nothing but such copies is new. When all old clusters are gone, no account shares the
  organization's name and the pass ends well, exactly the orphaned tuples have moved.
\<close>

theorem rekeying_loses_no_tuple:
  assumes "fga_writes (rk_fga R) T" and "fga_reads (rk_fga R) T pages" and "quiet_env R T"
    and "sound_liveness R alive" and "rk_account_info R w = Inr ai" and "cluster_id_ok (al_origin (ai_account ai))"
    and "rk_store_id R (al_name (ai_account ai)) w = (Inr s, w1)"
  shows "\<exists>oc w'. rekey_reconcile R w = Some (oc, w')
    \<and> rekeyed_from alive (rk_object_type R) (al_name (ai_account ai)) (al_origin (ai_account ai)) (T s w) (T s w')
    \<and> (\<forall>s'. s' \<noteq> s \<longrightarrow> T s' w' = T s' w)
    \<and> (rk_enabled R \<and> oc = ret OK \<and> (\<forall>i w. logicalClusterExists R i w = Inr False)
       \<and> (\<exists>e. rk_account R (al_name (ai_account ai)) w1 = Some e \<and> is_not_found e)
       \<longrightarrow> T s w' = (T s w - Collect (orphan (rk_object_type R) (al_name (ai_account ai)) (al_origin (ai_account ai))))
             \<union> copy_of (rk_object_type R) (al_name (ai_account ai)) (al_origin (ai_account ai)) `
                 {t \<in> T s w. orphan (rk_object_type R) (al_name (ai_account ai)) (al_origin (ai_account ai)) t})"
proof (rule rekey_reconcile_cases [OF assms(5-7)])
  fix oc
  assume "rekey_reconcile R w = Some (oc, w)" and "rk_enabled R \<Longrightarrow> oc \<noteq> ret OK"
  then show ?thesis by auto
next
  let ?m = "\<lparr>tm_store = s, tm_model = AuthorizationModelIDLatest\<rparr>"
  let ?name = "al_name (ai_account ai)" and ?cur = "al_origin (ai_account ai)"
  let ?filter = "StaleAccountTupleFilter (rk_object_type R) ?name ?cur"
  assume run: "rekey_reconcile R w =
    (case ListWithFilter (rk_fga R) ?m (Some ?filter) w1 of
       None \<Rightarrow> None
     | Some (Inl e) \<Rightarrow> Some (ret_err (wrap ''listing stale tuples'' e), w1)
     | Some (Inr stale) \<Rightarrow> Some (rekey_stale R ?m ?name ?cur stale w1))"
  have w1: "T s' w1 = T s' w" for s' by (rule quietD(3) [OF assms(3,7)])
  obtain r where r: "ListWithFilter (rk_fga R) ?m (Some ?filter) w1 = Some r"
      "\<forall>ts. r = Inr ts \<longrightarrow> set ts = {t \<in> T s w1. ?filter t}"
    using ListWithFilter_total [OF assms(2), of ?m ?filter w1] by auto
  show ?thesis
  proof (cases r)
    case (Inl e)
    then show ?thesis using run r(1) w1 by simp
  next
    case (Inr stale)
    obtain oc w' where k: "rekey_stale R ?m ?name ?cur stale w1 = (oc, w')" by fastforce
    have set: "set stale = {t \<in> T (tm_store ?m) w1. ?filter t}" using r(2) Inr by simp
    have "rekeyed_from alive (rk_object_type R) ?name ?cur (T s w1) (T s w') \<and> (\<forall>s'. s' \<noteq> s \<longrightarrow> T s' w' = T s' w1)"
      using rekey_stale_ok [OF assms(1,3,4,6) _ k] set by simp
    moreover have "T s w' = (T s w1 - Collect (orphan (rk_object_type R) ?name ?cur))
        \<union> copy_of (rk_object_type R) ?name ?cur ` {t \<in> T s w1. orphan (rk_object_type R) ?name ?cur t}"
      if "oc = ret OK" "\<forall>i w. logicalClusterExists R i w = Inr False" "rk_account R ?name w1 = Some e" "is_not_found e"
      for e using rekey_stale_moves [OF assms(1,3,6) that(2-4) set] k that(1) by simp
    ultimately show ?thesis using run r(1) Inr k w1 by auto
  qed
qed

text \<open>
  Terminating an account returns, and when it reports success the store has lost exactly the tuples
  about the account: those on the account and those on the roles they name. The tuples that the
  initialization wrote are among them, and no other store is touched.
\<close>

theorem account_tuples_removed:
  assumes "fga_reads (ae_fga R) T pages" and "fga_writes (ae_fga R) T" and "no_store_no_tuples (ae_fga R) T"
    and "NewAccountPathFromLogicalCluster (ae_paths R) lc = Inr path"
    and "clusterAndID R (pl_parent (ae_paths R) path) w = Inr (cluster_id, parent_lc)"
    and "Org path = Some org" and "ae_store_id R (pl_base (ae_paths R) org) w = (Inr s, w1)"
    and "\<forall>s. T s w1 = T s w"
    and "InitialTuplesForAccount (account_input R creator cluster_id (pl_base (ae_paths R) path)) gp pn rel = Inr ts"
    and "set ts \<subseteq> T s w"
  shows "\<exists>oc w'. account_terminate R lc w = Some (oc, w')
    \<and> (oc = ret OK \<longrightarrow>
         T s w' = T s w - account_tuples (ae_object_type R) cluster_id (pl_base (ae_paths R) path) (T s w)
         \<and> set ts \<inter> T s w' = {})
    \<and> (\<forall>s'. s' \<noteq> s \<longrightarrow> T s' w' = T s' w)"
proof -
  have "account_terminate R lc w = remove_account R s cluster_id (pl_base (ae_paths R) path) w1"
    using assms(4-7) by (simp add: account_terminate_def Let_def)
  moreover have "set ts \<subseteq> account_tuples (ae_object_type R) cluster_id (pl_base (ae_paths R) path) (T s w)"
    by (rule initial_tuples_of_account [OF assms(9,10)])
  ultimately show ?thesis
    using remove_account_result [OF assms(1-3), of s cluster_id "pl_base (ae_paths R) path" w1] assms(8) by auto
qed


text \<open>
  C17. A store that an authorization model depends on outlives its deletion: once the model is registered
  with the Store, no deletion pass of the Store controller deletes the OpenFGA store; all it can do outside the
  Store is delete the tuples that the Store manages. Of the finalizers it may drop that of the tuples only. A
  Store whose status names no OpenFGA store yet is the exception: it has none to delete, and loses the
  finalizer of the store as well.
\<close>

theorem reserved_store_survives:
  assumes "L = the (store_controller M (store_iface tu fu) api de cc R Z)"
    and "store_client_laws (se_stores R cl)" and "finalizer_laws (se_finalizers R)" and "retry_laws (se_retry R)"
    and "registerAuthorizationModelWithStore R cl name mc mn w0 = (None, w)"
    and "k_get (se_stores R cl) ([], name) w = Inr s"
  shows "set (m_finalizers (store_meta s))
        - (if st_store_id (store_status s) = [] then {TuplesFinalizer, StoreFinalizer} else {TuplesFinalizer})
      \<subseteq> set (m_finalizers (store_meta (rs_obj (run_phase L c True s w1))))
    \<and> rs_world (run_phase L c True s w1) \<in>
      {w1, snd (Delete_tuples (se_fga R) (manager_of s) (st_managed (store_status s)) w1)}"
proof -
  let ?ns = "map sub_name (lc_subroutines L)"
  let ?y = "cm_init (conditions_manager M (store_iface tu fu)) s ?ns"
  note L = store_controller_simps [OF assms(1)] and y = bareD [OF bare_init, of M tu fu s ?ns]
  have "reserved s" by (rule registered_reserved [OF assms(2-6)])
  then have "reserved ?y" using y by (simp add: reserved_def)
  moreover have "run_phase L c True s w1 = run_subs L c True (rev (lc_subroutines L)) (start_run ?y w1)"
    unfolding run_phase_def L(2) Let_def by simp
  ultimately show ?thesis
    using reserved_pass [OF assms(1), of ?y c w1] y
    by (auto simp: finalizers_and_id_def unknown_store_def split: if_splits)
qed

text \<open>
  C18. The models define what the webhook asks, for resources whose names fit: the group is not the core group, the
  plural has at most 42 bytes, the singular is shorter than the plural or has with the group at most 41 bytes, and
  group and singular have no colon. For such a resource and the verbs create, list, watch, get, update, delete
  and patch, the webhook builds a check, and the relation it checks is defined, in the module generated for the
  resource, for the type of the object it checks it on.
\<close>

theorem model_defines_checked_relations:
  assumes "names_fit s" and "CHR '':'' \<notin> set (rs_group s)" and "CHR '':'' \<notin> set (rs_singular s)"
    and "rs_scope s = (if namespaced then ''Namespaced'' else ''Cluster'')"
    and "ra_group a = rs_group s" and "ra_resource a = rs_plural s"
    and "map_resource (ci_mapper i) (attributes_gvr a) w = Inr (namespaced, rs_singular s)"
    and "ra_verb a \<in> {''create'', ''list'', ''watch'', ''get'', ''update'', ''delete'', ''patch''}"
  shows "\<exists>grp c. model_group (rs_group s) (rs_plural s) = Some grp
    \<and> build_check_input a user cluster i w = Some (Inr c)
    \<and> defines_relation (model_lines (model_input_for perms s grp)) (upto_char (CHR '':'') (ck_object c)) (ck_relation c)"
proof -
  let ?g = "attributes_gvr a"
  let ?grp = "replace_char (CHR ''.'') (CHR ''_'') (cap_group ?g 50)"
  let ?i = "model_input_for perms s (cap_group ?g 50)"
  have g: "gvr_group ?g = rs_group s" "gvr_resource ?g = rs_plural s"
    using assms(5,6) by (simp_all add: attributes_gvr_def)
  have b: "build_object_type ?g (rs_singular s) = Some (?grp, ?grp @ ''_'' @ rs_singular s)"
    by (rule build_object_type_uncut [OF g assms(1)])
  have c: "build_check_input a user cluster i w =
      Some (Inr (check_input_for a user cluster i namespaced ?grp (?grp @ ''_'' @ rs_singular s)))" (is "_ = Some (Inr ?c)")
    using assms(7) b by (simp add: build_check_input_def Let_def)
  have colon: "CHR '':'' \<notin> set ?grp"
    using assms(2) set_cap_group [of ?g] g by (auto simp: replace_char_def)
  have "defines_relation (model_lines ?i) (upto_char (CHR '':'') (ck_object ?c)) (ck_relation ?c)"
  proof (cases "resolve_on_parent (ra_verb a)")
    case True
    let ?parent = "if namespaced then ''core_namespace'' else ''core_platform-mesh_io_account''"
    have "upto_char (CHR '':'') (ck_object ?c) = ?parent"
      using True colon_namespace colon_account by (simp add: check_input_for_def account_object_def Let_def)
    moreover have "ck_relation ?c = verb_relation (ra_verb a) ?i"
      using True assms(6) by (simp add: check_input_for_def verb_relation_def model_input_for_simps Let_def)
    ultimately show ?thesis
      using parent_relation_defined [of ?i ?parent "ra_verb a"] True assms(4)
      by (simp add: model_input_for_simps resolve_on_parent_def)
  next
    case False
    then have "ra_verb a \<in> {''get'', ''update'', ''delete'', ''patch''}"
      using assms(8) by (auto simp: resolve_on_parent_def)
    moreover have "upto_char (CHR '':'') (ck_object ?c) = ?grp @ ''_'' @ rs_singular s"
      using False colon assms(3) type_of_rendered [of "?grp @ ''_'' @ rs_singular s"] by (simp add: check_input_for_def Let_def)
    moreover have "ck_relation ?c = ra_verb a" using False by (simp add: check_input_for_def Let_def)
    ultimately show ?thesis
      using own_relation_defined [of "ra_verb a" ?i] by (simp add: model_input_for_simps)
  qed
  then show ?thesis using cap_group_model_group [OF _ _ g] assms(1) c unfolding names_fit_def by blast
qed

text \<open>
  Where they do not: a deletion of many objects is checked under a relation no module defines, and a singular as long
  as its plural, under a long group, has its type cut by the webhook only.
\<close>

lemma deletecollection_undefined:
  "let s = \<lparr>rs_group = ''g.io'', rs_plural = ''things'', rs_singular = ''thing'', rs_scope = ''Cluster''\<rparr> in
   \<not> defines_relation (model_lines (model_input_for None s ''g.io'')) t ''deletecollection''"
proof -
  let ?s = "\<lparr>rs_group = ''g.io'', rs_plural = ''things'', rs_singular = ''thing'', rs_scope = ''Cluster''\<rparr>"
  have "define_line ''deletecollection'' e \<notin> set (model_lines (model_input_for None ?s ''g.io''))" for e
    by (simp add: model_lines_def model_input_for_def plain_input_def extend_lines_def if_block_def parent_block_def
        type_line_def own_lines_def tail_lines_def range_block_def additional_lines_def define_line_def indented_def
        verb_relation_def replace_char_def sorted_set_def Let_def)
  then show ?thesis unfolding Let_def defines_relation_def by (metis Un_iff list.set_intros(2) set_append)
qed

lemma equal_names_cut:
  "let g = \<lparr>gvr_group = replicate 40 (CHR ''g''), gvr_version = ''v1'', gvr_resource = ''fish''\<rparr> in
   model_group (gvr_group g) ''fish'' \<noteq> None \<and>
     map_option (\<lambda>p. CHR ''g'' # snd p) (build_object_type g ''fish'') =
     map_option (\<lambda>grp. grp @ ''_fish'') (model_group (gvr_group g) ''fish'')"
  by code_simp

subsection \<open>Instances\<close>

definition small_tuple :: "string \<Rightarrow> string \<Rightarrow> string \<Rightarrow> tuple" where
  "small_tuple ob relation user = \<lparr>tp_object = ob, tp_relation = relation, tp_user = user\<rparr>"

definition small_info :: "string \<Rightarrow> string \<Rightarrow> account_info" where
  "small_info name origin =
     (let l = \<lparr>al_name = name, al_generated = ''g'', al_origin = origin, al_path = [], al_type = ''org''\<rparr>
      in \<lparr>ai_account = l, ai_parent = None, ai_organization = l\<rparr>)"

text \<open>An organization that was re-created: its cluster id was \<open>old\<close> and is \<open>new\<close>.\<close>

definition small_rekey :: "small_fga_state rekey_env" where
  "small_rekey =
     \<lparr>rk_enabled = True, rk_object_type = ''acc'', rk_fga = small_fga, rk_store_id = (\<lambda>n w. (Inr n, w)),
      rk_cluster = (\<lambda>w. None), rk_account_info = (\<lambda>w. Inr (small_info ''org'' ''new'')),
      rk_account = (\<lambda>n w. Some (Err NotFound [])), rk_lc_client = (\<lambda>i w. None),
      rk_lc_get = (\<lambda>i w. if i = ''old'' then Some (Err NotFound []) else None),
      rk_event = (\<lambda>a b c w. w)\<rparr>"

definition stale_state :: small_fga_state where
  "stale_state s = (if s = ''org'' then [small_tuple ''acc:old/org'' ''owner'' ''role:acc/old/org/owner#assignee''] else [])"

theorem rekeying_loses_no_tuple_witness:
  "\<exists>oc w'. rekey_reconcile small_rekey stale_state = Some (oc, w')
    \<and> rekeyed_from (\<lambda>i. i \<noteq> ''old'') ''acc'' ''org'' ''new'' (small_tuples ''org'' stale_state) (small_tuples ''org'' w')"
proof -
  have q: "quiet_env small_rekey small_tuples" "sound_liveness small_rekey (\<lambda>i. i \<noteq> ''old'')"
    by (simp_all add: quiet_env_def keeps_tuples_def sound_liveness_def small_rekey_def)
  have "fga_writes (rk_fga small_rekey) small_tuples" "fga_reads (rk_fga small_rekey) small_tuples small_pages"
    by (simp_all add: small_rekey_def small_fga_writes small_fga_reads)
  from rekeying_loses_no_tuple [OF this q, of stale_state "small_info ''org'' ''new''" "''org''" stale_state]
  show ?thesis by (auto simp: small_rekey_def small_info_def cluster_id_ok_def Let_def)
qed

text \<open>An account below an organization, with the tuples of its initialization.\<close>

definition small_account :: "small_fga_state account_env" where
  "small_account =
     \<lparr>ae_paths = \<lparr>pl_valid = (\<lambda>p. True), pl_parent = (\<lambda>p. ''root:orgs:org''),
                   pl_base = (\<lambda>p. last (split_on (CHR '':'') p)), pl_annotation = ''kcp.io/path''\<rparr>,
      ae_fga = small_fga, ae_store_id = (\<lambda>n w. (Inr n, w)), ae_object_type = ''acc'',
      ae_parent_relation = ''parent'', ae_creator_relation = ''owner'', ae_client = (\<lambda>p w. None),
      ae_logical_cluster = (\<lambda>p w. Inr \<lparr>lc_annotations = [''kcp.io/cluster'' \<mapsto> ''c1''], lc_owner = Some ''c0''\<rparr>),
      ae_creator = (\<lambda>p n w. Inr (Some ''me''))\<rparr>"

definition small_workspace :: logical_cluster where
  "small_workspace = \<lparr>lc_annotations = [''kcp.io/path'' \<mapsto> ''root:orgs:org:a''], lc_owner = Some ''c1''\<rparr>"

definition small_initial :: "tuple list" where
  "small_initial =
     (case InitialTuplesForAccount (account_input small_account ''me'' ''c1'' ''a'') ''c0'' ''org'' ''parent'' of
        Inr ts \<Rightarrow> ts | Inl e \<Rightarrow> [])"

definition account_state :: small_fga_state where
  "account_state s = (if s = ''org'' then small_initial else [])"

lemma small_account_terminates:
  "map_option fst (account_terminate small_account small_workspace account_state) = Some (ret OK)"
  by code_simp

theorem account_tuples_removed_witness:
  "\<exists>w'. account_terminate small_account small_workspace account_state = Some (ret OK, w')
    \<and> set small_initial \<inter> small_tuples ''org'' w' = {}"
proof -
  have l: "fga_reads (ae_fga small_account) small_tuples small_pages" "fga_writes (ae_fga small_account) small_tuples"
      "no_store_no_tuples (ae_fga small_account) small_tuples"
    by (simp_all add: small_account_def small_fga_reads small_fga_writes small_no_store)
  have p: "NewAccountPathFromLogicalCluster (ae_paths small_account) small_workspace = Inr ''root:orgs:org:a''"
      "clusterAndID small_account (pl_parent (ae_paths small_account) ''root:orgs:org:a'') account_state =
         Inr (''c1'', \<lparr>lc_annotations = [''kcp.io/cluster'' \<mapsto> ''c1''], lc_owner = Some ''c0''\<rparr>)"
      "Org ''root:orgs:org:a'' = Some ''root:orgs:org''"
      "ae_store_id small_account (pl_base (ae_paths small_account) ''root:orgs:org'') account_state = (Inr ''org'', account_state)"
    by (simp_all add: small_account_def small_workspace_def NewAccountPathFromLogicalCluster_def NewAccountPath_def
        IsPlatformMeshAccountPath_def clusterAndID_def cluster_annotation_def Org_def Let_def)
  have t: "InitialTuplesForAccount (account_input small_account ''me'' ''c1'' (pl_base (ae_paths small_account) ''root:orgs:org:a''))
        ''c0'' ''org'' ''parent'' = Inr small_initial"
    by (simp add: small_initial_def InitialTuplesForAccount_def baseTuples_def account_input_def small_account_def)
  have e: "\<forall>s. small_tuples s account_state = small_tuples s account_state" by simp
  have i: "set small_initial \<subseteq> small_tuples ''org'' account_state" by (simp add: small_tuples_def account_state_def)
  obtain oc w' where "account_terminate small_account small_workspace account_state = Some (oc, w')"
      "oc = ret OK \<longrightarrow> set small_initial \<inter> small_tuples ''org'' w' = {}"
    using account_tuples_removed [where T = small_tuples, OF l p e t i] by blast
  moreover from this(1) have "oc = ret OK" using small_account_terminates by simp
  ultimately show ?thesis by blast
qed






text \<open>A server that keeps a list of Stores.\<close>

definition store_server :: "(store, store list) kind_client" where
  "store_server =
     \<lparr>k_get = (\<lambda>k w. case find (\<lambda>s. store_name s = snd k) w of None \<Rightarrow> Inl (Err NotFound []) | Some s \<Rightarrow> Inr s),
      k_list = Inr, k_create = (\<lambda>s w. (None, s, w @ [s])),
      k_update = (\<lambda>s w. (None, s, map (\<lambda>x. if store_name x = store_name s then s else x) w)),
      k_status_update = (\<lambda>s w. (None, s, w)), k_delete = (\<lambda>s w. (None, w))\<rparr>"

lemma find_sat: "find P w = Some x \<Longrightarrow> P x"
  by (induction w) (auto split: if_splits)

lemma find_replaced: "P s \<Longrightarrow> find P (map (\<lambda>x. if P x then s else x) w) = Some x \<Longrightarrow> x = s"
  by (induction w) (simp_all split: if_splits)

lemma store_server_get: "k_get store_server ([], n) w = Inr x \<longleftrightarrow> find (\<lambda>s. store_name s = n) w = Some x"
  by (simp add: store_server_def split: option.splits)

lemma store_server_laws: "store_client_laws store_server"
  unfolding store_client_laws_def store_server_get
proof (intro conjI allI impI)
  fix s s' x :: store and w w'
  assume "k_update store_server s w = (None, s', w')" and f: "find (\<lambda>y. store_name y = store_name s) w' = Some x"
  then have "w' = map (\<lambda>x. if store_name x = store_name s then s else x) w"
    by (auto simp: store_server_def)
  with f have "x = s" by (simp only: find_replaced [of "\<lambda>y. store_name y = store_name s", OF refl])
  then show "m_finalizers (store_meta x) = m_finalizers (store_meta s)" by simp
qed (rule find_sat)

definition small_store_env :: "store list store_env" where
  "small_store_env =
     \<lparr>se_fga = \<lparr>fga_write = (\<lambda>r w. (None, w)), fga_read = (\<lambda>s k t w. Inr \<lparr>pg_tuples = [], pg_token = []\<rparr>)\<rparr>,
      se_list = (\<lambda>w. Inr []), se_create = (\<lambda>n w. (Inr n, w)), se_get = (\<lambda>i w. Inr i),
      se_update = (\<lambda>i n w. (None, w)), se_delete = (\<lambda>i w. (None, [])), se_cluster = (\<lambda>c w. None),
      se_stores = (\<lambda>c. store_server), se_finalizers = list_finalizers, se_retry = try_once,
      se_hash = (\<lambda>s. s), se_model_cluster = (\<lambda>m. [])\<rparr>"

definition small_kept_store :: store where
  "small_kept_store =
     \<lparr>store_meta = (new_meta ''org'')\<lparr>m_finalizers := [''core.platform-mesh.io/fga-store'', TuplesFinalizer]\<rparr>,
      store_core_module = [], store_tuples = [],
      store_status = \<lparr>ss_conditions = [], st_store_id = ''s1'', st_model_id = [], st_managed = []\<rparr>\<rparr>"

definition small_registered :: store where
  "small_registered =
     set_store_finalizers
       [''core.platform-mesh.io/fga-store'', TuplesFinalizer, ''authzmodel.core.platform-mesh.io/c/m''] small_kept_store"

theorem reserved_store_survives_witness:
  "\<forall>(Z :: (unit, store list) authz_env) (c :: (string, unit) ctx).
   let L = the (store_controller list_meta (store_iface (\<lambda>_. Inr JNull) (\<lambda>_ x. (None, x)))
             \<lparr>api_get = (\<lambda>cl k w. Inr small_registered), api_patch = (\<lambda>cl x o1 w. (None, x, w)),
              api_status_patch = (\<lambda>cl x o1 w. (None, x, w))\<rparr> (=) (\<lambda>c. Inr ''coord'') small_store_env Z)
   in ''core.platform-mesh.io/fga-store'' \<in>
        set (m_finalizers (store_meta (rs_obj (run_phase L c True small_registered [small_registered]))))
    \<and> rs_world (run_phase L c True small_registered [small_registered]) = [small_registered]"
proof -
  have r: "registerAuthorizationModelWithStore small_store_env ''x'' ''org'' ''c'' ''m'' [small_kept_store] = (None, [small_registered])"
    by (simp add: registerAuthorizationModelWithStore_def small_store_env_def try_once_def register_body_def
        store_server_def store_name_def small_kept_store_def new_meta_def authorizationModelFinalizer_def
        authorizationModelFinalizerPrefix_def update_store_def list_finalizers_def set_store_finalizers_def
        small_registered_def TuplesFinalizer_def)
  have g: "k_get (se_stores small_store_env ''x'') ([], ''org'') [small_registered] = Inr small_registered"
      "st_store_id (store_status small_registered) = ''s1''"
      "set (m_finalizers (store_meta small_registered)) =
         {''core.platform-mesh.io/fga-store'', TuplesFinalizer, ''authzmodel.core.platform-mesh.io/c/m''}"
    by (simp_all add: small_store_env_def store_server_def store_name_def small_registered_def small_kept_store_def
        set_store_finalizers_def new_meta_def)
  have l: "store_client_laws (se_stores small_store_env ''x'')" "finalizer_laws (se_finalizers small_store_env)"
      "retry_laws (se_retry small_store_env)"
    by (simp_all add: small_store_env_def store_server_laws list_finalizers_laws try_once_laws)
  have d: "snd (Delete_tuples (se_fga small_store_env) m ts w) = w" for m ts w
    by (simp add: Delete_tuples_def small_store_env_def)
  have *: "''core.platform-mesh.io/fga-store'' \<in>
        set (m_finalizers (store_meta (rs_obj (run_phase L c True small_registered [small_registered]))))
      \<and> rs_world (run_phase L c True small_registered [small_registered]) = [small_registered]"
    if L: "L = the (store_controller M (store_iface tu fu) api de cc small_store_env Z)" for L M tu fu api de cc Z c
    using reserved_store_survives [OF L l r g(1), of c "[small_registered]"] unfolding g(2,3) d
    by (auto simp: TuplesFinalizer_def)
  show ?thesis unfolding Let_def by (intro allI *) (rule refl)
qed

theorem model_defines_checked_relations_witness:
  "let s = \<lparr>rs_group = ''g.io'', rs_plural = ''things'', rs_singular = ''thing'', rs_scope = ''Cluster''\<rparr>;
       a = \<lparr>ra_namespace = [], ra_verb = ''get'', ra_group = ''g.io'', ra_version = ''v1'', ra_resource = ''things'', ra_name = ''x''\<rparr>;
       m = \<lparr>kind_for = (\<lambda>g w. Inr small_gvk), is_namespaced = (\<lambda>k w. Inr False), singularize = (\<lambda>r w. Inr ''thing'')\<rparr>;
       i = \<lparr>ci_store = ''s1'', ci_mapper = m, ci_account = ''a'', ci_parent = ''p''\<rparr>
   in \<exists>c. build_check_input a ''me'' ''c1'' i () = Some (Inr c)
    \<and> defines_relation (model_lines (model_input_for None s ''g.io'')) (upto_char (CHR '':'') (ck_object c)) (ck_relation c)"
proof -
  let ?s = "\<lparr>rs_group = ''g.io'', rs_plural = ''things'', rs_singular = ''thing'', rs_scope = ''Cluster''\<rparr>"
  have g: "model_group (rs_group ?s) (rs_plural ?s) = Some ''g.io''" by (simp add: model_group_def)
  show ?thesis
    unfolding Let_def
    using model_defines_checked_relations [of ?s False _ _ "()" "''me''" "''c1''" None] g
    by (auto simp: map_resource_def names_fit_def)
qed

end
