(* ===== verification/Search_Types.thy ===== *)
theory Search_Types
  imports Prelude
begin

text \<open>
  The data of the search service (\<^verbatim>\<open>services/search-service/internal\<close>): its errors, requests, hits and
  pages (\<^verbatim>\<open>service/search/types.go\<close>, \<^verbatim>\<open>errors.go\<close>, \<^verbatim>\<open>mode.go\<close>, \<^verbatim>\<open>hash.go\<close>) and the string sets it works
  with. Metrics and logs are left out. A map is the list of its entries, a nil map the empty list.
\<close>

subsection \<open>Errors\<close>

text \<open>
  An error is the set of sentinels that \<^verbatim>\<open>errors.Is\<close> finds in it, whether \<^verbatim>\<open>isTimeout\<close> holds of it, and its
  text. Wrapping with \<^verbatim>\<open>%w\<close> keeps the first two, printing with \<^verbatim>\<open>%v\<close> loses them.
\<close>

datatype sentinel =
    ErrInvalidRequest
  | ErrInvalidCursor
  | ErrUnauthorized
  | ErrForbidden
  | ErrSearchBackend
  | ErrAuthzBackend
  | ErrIndexUnavailable
  | ErrUpstreamTimeout
  | ErrSearchBackendRejected
  | ErrFGARelationNotFound

fun sentinel_text :: "sentinel \<Rightarrow> string" where
  "sentinel_text ErrInvalidRequest = ''invalid request''"
| "sentinel_text ErrInvalidCursor = ''invalid cursor''"
| "sentinel_text ErrUnauthorized = ''unauthorized''"
| "sentinel_text ErrForbidden = ''forbidden''"
| "sentinel_text ErrSearchBackend = ''search backend failure''"
| "sentinel_text ErrAuthzBackend = ''authorization backend failure''"
| "sentinel_text ErrIndexUnavailable = ''no search index available''"
| "sentinel_text ErrUpstreamTimeout = ''upstream timeout''"
| "sentinel_text ErrSearchBackendRejected = ''search backend rejected the request''"
| "sentinel_text ErrFGARelationNotFound = ''OpenFGA relation not found''"

datatype serr = SErr (se_is: "sentinel list") (se_timeout: bool) (se_text: string)

text \<open>\<^verbatim>\<open>fmt.Errorf("text")\<close>, \<^verbatim>\<open>fmt.Errorf("%w: text", sentinel)\<close> and \<^verbatim>\<open>fmt.Errorf("text: %w", err)\<close>.\<close>

definition plain_err :: "string \<Rightarrow> serr" where
  "plain_err t = SErr [] False t"

definition sentinel_err :: "sentinel \<Rightarrow> string \<Rightarrow> serr" where
  "sentinel_err s t = SErr [s] False (sentinel_text s @ '': '' @ t)"

definition wrap_err :: "string \<Rightarrow> serr \<Rightarrow> serr" where
  "wrap_err t e = SErr (se_is e) (se_timeout e) (t @ '': '' @ se_text e)"

definition backendErr :: "sentinel \<Rightarrow> string \<Rightarrow> serr \<Rightarrow> serr" where
  "backendErr s op e =
     (if se_timeout e then sentinel_err ErrUpstreamTimeout (op @ '': '' @ se_text e)
      else sentinel_err (if ErrSearchBackendRejected \<in> set (se_is e) then ErrSearchBackendRejected else s)
             (op @ '': '' @ se_text e))"

subsection \<open>String sets\<close>

text \<open>\<^verbatim>\<open>stringset.DedupeSorted\<close>.\<close>

definition DedupeSorted :: "string list \<Rightarrow> string list" where
  "DedupeSorted values = sorted_set (filter (\<lambda>v. v \<noteq> []) (map trim_space values))"

lemma set_DedupeSorted: "set (DedupeSorted values) = trim_space ` set values - {[]}"
  by (auto simp: DedupeSorted_def)

lemma DedupeSorted_distinct [simp]: "distinct (DedupeSorted values)"
  and DedupeSorted_sorted [simp]: "sorted (DedupeSorted values)"
  by (simp_all add: DedupeSorted_def)

lemma DedupeSorted_idem [simp]: "DedupeSorted (DedupeSorted values) = DedupeSorted values"
proof -
  have "trim_space ` (trim_space ` set values - {[]}) = trim_space ` set values - {[]}"
    by (rule trans [OF image_cong [OF refl, where g = id]]) auto
  then have "set (DedupeSorted (DedupeSorted values)) = set (DedupeSorted values)"
    by (simp add: set_DedupeSorted)
  then show ?thesis by (intro sorted_distinct_set_unique) auto
qed

subsection \<open>Modes\<close>

definition SearchModeLexical :: string where
  "SearchModeLexical = ''lexical''"

definition SearchModeSemantic :: string where
  "SearchModeSemantic = ''semantic''"

definition normalizeMode :: "string \<Rightarrow> serr + string" where
  "normalizeMode raw =
     (let mode = to_lower (trim_space raw) in
      if mode = [] \<or> mode = SearchModeLexical then Inr SearchModeLexical
      else if mode = SearchModeSemantic then Inr SearchModeSemantic
      else Inl (sentinel_err ErrInvalidRequest (''unsupported search mode '' @ quoted raw)))"

subsection \<open>Requests, hits and pages\<close>

type_synonym filters = "(string \<times> string list) list"

type_synonym json_object = "(string \<times> json) list"

record search_request =
  rq_organization :: string
  rq_user :: string
  rq_query :: string
  rq_mode :: string
  rq_resource :: string
  rq_filters :: filters
  rq_role :: string
  rq_limit :: int
  rq_page :: int
  rq_cursor :: string

text \<open>A score is kept as the text of its number.\<close>

record search_hit =
  sh_id :: string
  sh_score :: string
  sh_resource :: string
  sh_kind :: string
  sh_name :: string
  sh_namespace :: string
  sh_group :: string
  sh_version :: string
  sh_workspace_path :: string
  sh_cluster_name :: string
  sh_organization_id :: string
  sh_organization_name :: string
  sh_account_id :: string
  sh_account_name :: string
  sh_source :: json_object

record search_response =
  sp_results :: "search_hit list"
  sp_cursor :: "string option"
  sp_total :: "int option"

record search_resource =
  sc_resource :: string
  sc_default :: "string list"
  sc_filterable :: "string list"
  sc_semantic :: "string list"

record filter_values_request =
  fv_organization :: string
  fv_user :: string
  fv_resource :: string
  fv_field :: string
  fv_query :: string
  fv_filters :: filters
  fv_limit :: int

record index_ref =
  ix_resource :: string
  ix_name :: string
  ix_prefix :: string
  ix_org_id :: string
  ix_default :: "string list"
  ix_filterable :: "string list"
  ix_semantic :: "string list"
  ix_group :: string
  ix_version :: string

record os_hit =
  hit_index :: string
  hit_id :: string
  hit_score :: string
  hit_sort :: "json list"
  hit_source :: json_object

record os_page =
  pa_hits :: "os_hit list"
  pa_values :: "string list"
  pa_total :: int
  pa_timed_out :: bool
  pa_shards_total :: int
  pa_shards_failed :: int
  pa_failures :: "string list"

definition Partial :: "os_page \<Rightarrow> bool" where
  "Partial p \<longleftrightarrow> pa_timed_out p \<or> pa_shards_failed p > 0"

record os_query =
  oq_indices :: "string list"
  oq_query :: string
  oq_mode :: string
  oq_fields :: "string list"
  oq_semantic :: "string list"
  oq_filters :: filters
  oq_accounts :: "string list"
  oq_size :: int
  oq_after :: "json list"
  oq_aggregation :: string

record auth_request =
  aq_organization :: string
  aq_user :: string
  aq_relation :: string
  aq_hits :: "os_hit list"

record auth_result =
  ar_allowed :: "bool list"
  ar_dropped :: nat
  ar_denied :: nat
  ar_calls :: nat

text \<open>The interfaces \<^verbatim>\<open>SearchIndexResolver\<close>, \<^verbatim>\<open>OpenSearchSearcher\<close> and \<^verbatim>\<open>FGAAuthorizer\<close>, and SHA-256 in hexadecimal.\<close>

record 'w backends =
  bk_resolve :: "string \<Rightarrow> string \<Rightarrow> 'w \<Rightarrow> (serr + index_ref) \<times> 'w"
  bk_indices :: "string \<Rightarrow> 'w \<Rightarrow> (serr + index_ref list) \<times> 'w"
  bk_search :: "os_query \<Rightarrow> 'w \<Rightarrow> (serr + os_page) \<times> 'w"
  bk_accounts :: "string \<Rightarrow> string \<Rightarrow> string \<Rightarrow> 'w \<Rightarrow> (serr + string list) \<times> 'w"
  bk_filter :: "auth_request \<Rightarrow> 'w \<Rightarrow> (serr + auth_result) \<times> 'w"
  bk_sha :: "string \<Rightarrow> string"

text \<open>
  What a client relies on of a filter of hits, over any state \<open>e\<close> of the filter for which it is sound: only
  hits that \<open>may\<close> be shown are allowed.
\<close>

locale hit_filter =
  fixes hits_filter :: "'e \<Rightarrow> auth_request \<Rightarrow> 'w \<Rightarrow> (serr + auth_result) \<times> 'w"
    and sound :: "'e \<Rightarrow> bool"
    and may :: "'e \<Rightarrow> string \<Rightarrow> string \<Rightarrow> string \<Rightarrow> os_hit \<Rightarrow> bool"
  assumes allowed: "sound e \<Longrightarrow> hits_filter e req w = (Inr r, w') \<Longrightarrow> i < length (ar_allowed r) \<Longrightarrow> ar_allowed r ! i \<Longrightarrow>
    i < length (aq_hits req) \<and> may e (aq_organization req) (aq_user req) (aq_relation req) (aq_hits req ! i)"

subsection \<open>Hashes of a query\<close>

definition queryHash :: "'w backends \<Rightarrow> string \<Rightarrow> string" where
  "queryHash B q = bk_sha B q"

definition filter_text :: "filters \<Rightarrow> string \<Rightarrow> string" where
  "filter_text fs key =
     (let values = sort (filter (\<lambda>v. v \<noteq> []) (map trim_space (case map_of fs key of None \<Rightarrow> [] | Some vs \<Rightarrow> vs))) in
      if trim_space key = [] \<or> values = [] then [] else key @ ''='' @ join_with '','' values @ '';'')"

definition filtersHash :: "'w backends \<Rightarrow> filters \<Rightarrow> string" where
  "filtersHash B fs =
     (if fs = [] then [] else bk_sha B (concat (map (filter_text fs) (sorted_set (map fst fs)))))"

definition cursorFiltersHash :: "'w backends \<Rightarrow> filters \<Rightarrow> string \<Rightarrow> string" where
  "cursorFiltersHash B fs role =
     (let r = trim_space role in if r = [] then filtersHash B fs else filtersHash B (obj_put ''fga_role'' [r] fs))"

end
