(* ===== verification/Search_Cursor.thy ===== *)
theory Search_Cursor
  imports Search_Types
begin

text \<open>
  Cursors (\<^verbatim>\<open>service/search/cursor.go\<close>): the state of a search that a client carries from page to page,
  as JSON in unpadded URL-safe base64. The JSON encoder is a parameter; base64 is written out.
\<close>

subsection \<open>Base64\<close>

definition b64_alphabet :: string where
  "b64_alphabet = ''ABCDEFGHIJKLMNOPQRSTUVWXYZabcdefghijklmnopqrstuvwxyz0123456789-_''"

definition b64_char :: "nat \<Rightarrow> char" where
  "b64_char n = b64_alphabet ! n"

definition b64_val :: "char \<Rightarrow> nat option" where
  "b64_val c =
     (let n = (of_char c :: nat) in
      if 65 \<le> n \<and> n \<le> 90 then Some (n - 65)
      else if 97 \<le> n \<and> n \<le> 122 then Some (n - 71)
      else if 48 \<le> n \<and> n \<le> 57 then Some (n + 4)
      else if n = 45 then Some 62
      else if n = 95 then Some 63
      else None)"

text \<open>\<^verbatim>\<open>base64.RawURLEncoding.EncodeToString\<close> on bytes given as numbers.\<close>

fun b64_encode :: "nat list \<Rightarrow> string" where
  "b64_encode [] = []"
| "b64_encode [a] = [b64_char (a div 4), b64_char (a mod 4 * 16)]"
| "b64_encode [a, b] = [b64_char (a div 4), b64_char (a mod 4 * 16 + b div 16), b64_char (b mod 16 * 4)]"
| "b64_encode (a # b # c # rest) =
     b64_char (a div 4) # b64_char (a mod 4 * 16 + b div 16) # b64_char (b mod 16 * 4 + c div 64)
       # b64_char (c mod 64) # b64_encode rest"

text \<open>\<^verbatim>\<open>DecodeString\<close>: line breaks are ignored, and so are the bits left over at the end.\<close>

fun b64_bytes :: "nat list \<Rightarrow> nat list option" where
  "b64_bytes [] = Some []"
| "b64_bytes [p] = None"
| "b64_bytes [p, q] = Some [p * 4 + q div 16]"
| "b64_bytes [p, q, r] = Some [p * 4 + q div 16, q mod 16 * 16 + r div 4]"
| "b64_bytes (p # q # r # s # rest) =
     map_option (\<lambda>bs. (p * 4 + q div 16) # (q mod 16 * 16 + r div 4) # (r mod 4 * 64 + s) # bs) (b64_bytes rest)"

fun b64_vals :: "string \<Rightarrow> nat list option" where
  "b64_vals [] = Some []"
| "b64_vals (c # cs) =
     (if c = CHR 0x0A \<or> c = CHR 0x0D then b64_vals cs
      else Option.bind (b64_val c) (\<lambda>v. map_option (Cons v) (b64_vals cs)))"

definition b64_decode :: "string \<Rightarrow> nat list option" where
  "b64_decode s = Option.bind (b64_vals s) b64_bytes"

definition bytes_of :: "string \<Rightarrow> nat list" where
  "bytes_of s = map of_char s"

definition string_of :: "nat list \<Rightarrow> string" where
  "string_of bs = map char_of bs"

lemma b64_table: "map b64_val b64_alphabet = map Some [0..<64]"
  by code_simp

lemma b64_alphabet_printable: "length b64_alphabet = 64" "CHR 0x0A \<notin> set b64_alphabet" "CHR 0x0D \<notin> set b64_alphabet"
  by (simp_all add: b64_alphabet_def)

lemma b64_val_char:
  assumes "n < 64"
  shows "b64_val (b64_char n) = Some n" and "b64_char n \<noteq> CHR 0x0A" and "b64_char n \<noteq> CHR 0x0D"
proof -
  have "map b64_val b64_alphabet ! n = Some n" using assms by (simp add: b64_table)
  then show "b64_val (b64_char n) = Some n" using assms by (simp add: b64_char_def b64_alphabet_printable)
  have "b64_char n \<in> set b64_alphabet" using assms by (simp add: b64_char_def b64_alphabet_printable)
  then show "b64_char n \<noteq> CHR 0x0A" and "b64_char n \<noteq> CHR 0x0D" using b64_alphabet_printable by metis+
qed

lemma b64_vals_Cons: "n < 64 \<Longrightarrow> b64_vals (b64_char n # cs) = map_option (Cons n) (b64_vals cs)"
  by (simp add: b64_val_char)

declare b64_vals.simps(2) [simp del]

lemma b64_bytes_group:
  assumes "b < (256::nat)" and "c < 256"
  shows "a div 4 * 4 + (a mod 4 * 16 + b div 16) div 16 = a"
    and "(a mod 4 * 16 + b div 16) mod 16 * 16 + (b mod 16 * 4 + c div 64) div 4 = b"
    and "(b mod 16 * 4 + c div 64) mod 4 * 64 + c mod 64 = c"
proof -
  have "b div 16 < 16" "c div 64 < 4" using assms by auto
  then show "a div 4 * 4 + (a mod 4 * 16 + b div 16) div 16 = a"
    and "(a mod 4 * 16 + b div 16) mod 16 * 16 + (b mod 16 * 4 + c div 64) div 4 = b"
    and "(b mod 16 * 4 + c div 64) mod 4 * 64 + c mod 64 = c"
    by simp_all
qed

lemma b64_digit_bounds:
  assumes "a < (256::nat)" and "b < 256" and "c < 256"
  shows "a div 4 < 64" and "a mod 4 * 16 + b div 16 < 64" and "b mod 16 * 4 + c div 64 < 64" and "c mod 64 < 64"
proof -
  have "a mod 4 < 4" "b div 16 < 16" "b mod 16 < 16" "c div 64 < 4" using assms by auto
  then show "a mod 4 * 16 + b div 16 < 64" and "b mod 16 * 4 + c div 64 < 64" by linarith+
qed (use assms in auto)

lemma b64_decode_encode: "set bs \<subseteq> {..<256} \<Longrightarrow> b64_decode (b64_encode bs) = Some bs"
proof (induction bs rule: b64_encode.induct)
  case (2 a)
  then have a: "a < 256" by simp
  show ?case
    using b64_digit_bounds [OF a, where b = 0 and c = 0] b64_bytes_group(1) [where b = 0 and c = 0 and a = a]
    by (simp add: b64_decode_def b64_vals_Cons)
next
  case (3 a b)
  then have ab: "a < 256" "b < 256" by auto
  show ?case
    using b64_digit_bounds [OF ab, where c = 0] b64_bytes_group(1,2) [OF ab(2), where c = 0 and a = a]
    by (simp add: b64_decode_def b64_vals_Cons)
next
  case (4 a b c rest)
  then have abc: "a < 256" "b < 256" "c < 256" by auto
  obtain vs where vs: "b64_vals (b64_encode rest) = Some vs" "b64_bytes vs = Some rest"
    using 4 by (auto simp: b64_decode_def bind_eq_Some_conv)
  show ?case
    using vs b64_digit_bounds [OF abc] b64_bytes_group(1,2) [OF abc(2,3), where a = a] b64_bytes_group(3) [OF abc(2,3)]
    by (simp add: b64_decode_def b64_vals_Cons)
qed (simp add: b64_decode_def)

lemma bytes_of_range: "set (bytes_of s) \<subseteq> {..<256}"
  by (auto simp: bytes_of_def)

lemma string_of_bytes [simp]: "string_of (bytes_of s) = s"
  by (simp add: string_of_def bytes_of_def o_def)

subsection \<open>Cursor states\<close>

record cursor_state =
  cu_version :: int
  cu_org :: string
  cu_query_hash :: string
  cu_mode :: string
  cu_resource :: string
  cu_filters_hash :: string
  cu_limit :: int
  cu_after :: "json list"

definition cursorVersion :: int where
  "cursorVersion = 1"

text \<open>\<^verbatim>\<open>json.Marshal\<close> and \<^verbatim>\<open>json.Unmarshal\<close> of a state, and what a round trip keeps.\<close>

record cursor_json =
  cj_marshal :: "cursor_state \<Rightarrow> string + string"
  cj_unmarshal :: "string \<Rightarrow> cursor_state option"

definition cursor_json_laws :: "cursor_json \<Rightarrow> bool" where
  "cursor_json_laws J \<longleftrightarrow> (\<forall>s raw. cj_marshal J s = Inr raw \<longrightarrow> raw \<noteq> [] \<and> cj_unmarshal J raw = Some s)"

definition EncodeCursor :: "cursor_json \<Rightarrow> cursor_state \<Rightarrow> serr + string" where
  "EncodeCursor J st =
     (let st1 = (if cu_version st = 0 then st\<lparr>cu_version := cursorVersion\<rparr> else st) in
      case cj_marshal J st1 of
        Inl e \<Rightarrow> Inl (sentinel_err ErrInvalidCursor (''encode cursor: '' @ e))
      | Inr raw \<Rightarrow> Inr (b64_encode (bytes_of raw)))"

definition DecodeCursor :: "cursor_json \<Rightarrow> string \<Rightarrow> serr + cursor_state" where
  "DecodeCursor J token =
     (if token = [] then Inl (sentinel_err ErrInvalidCursor ''empty cursor'')
      else case b64_decode token of
        None \<Rightarrow> Inl (sentinel_err ErrInvalidCursor ''invalid base64'')
      | Some raw \<Rightarrow>
     (case cj_unmarshal J (string_of raw) of
        None \<Rightarrow> Inl (sentinel_err ErrInvalidCursor ''invalid payload'')
      | Some st \<Rightarrow>
          if cu_version st \<noteq> cursorVersion then Inl (sentinel_err ErrInvalidCursor ''unsupported version'')
          else if cu_after st = [] then Inl (sentinel_err ErrInvalidCursor ''missing search_after'')
          else Inr st))"

definition ValidateCursor ::
  "cursor_state \<Rightarrow> string \<Rightarrow> string \<Rightarrow> string \<Rightarrow> string \<Rightarrow> string \<Rightarrow> int \<Rightarrow> serr option" where
  "ValidateCursor st org q_hash mode resource f_hash limit =
     (if cu_org st \<noteq> org then Some (sentinel_err ErrInvalidCursor ''org mismatch'')
      else if cu_query_hash st \<noteq> q_hash then Some (sentinel_err ErrInvalidCursor ''query mismatch'')
      else if cu_mode st \<noteq> mode then Some (sentinel_err ErrInvalidCursor ''mode mismatch'')
      else if cu_resource st \<noteq> resource then Some (sentinel_err ErrInvalidCursor ''resource mismatch'')
      else if cu_filters_hash st \<noteq> f_hash then Some (sentinel_err ErrInvalidCursor ''filters mismatch'')
      else if cu_limit st \<noteq> limit then Some (sentinel_err ErrInvalidCursor ''limit mismatch'')
      else None)"

lemma ValidateCursor_None:
  "ValidateCursor st org q m r f l = None \<longleftrightarrow>
     cu_org st = org \<and> cu_query_hash st = q \<and> cu_mode st = m \<and> cu_resource st = r \<and> cu_filters_hash st = f \<and>
     cu_limit st = l"
  by (auto simp: ValidateCursor_def)

lemma b64_encode_Nil [simp]: "b64_encode bs = [] \<longleftrightarrow> bs = []"
  by (cases bs rule: b64_encode.cases) auto

lemma decode_encode_cursor:
  assumes "cursor_json_laws J" and "EncodeCursor J st = Inr token"
    and "cu_version st = cursorVersion" and "cu_after st \<noteq> []"
  shows "DecodeCursor J token = Inr st"
proof -
  obtain raw where raw: "cj_marshal J st = Inr raw" "token = b64_encode (bytes_of raw)"
    using assms(2,3) by (auto simp: EncodeCursor_def Let_def cursorVersion_def split: sum.splits)
  then have "b64_decode token = Some (bytes_of raw)" by (simp add: b64_decode_encode bytes_of_range)
  moreover have "raw \<noteq> []" "cj_unmarshal J raw = Some st" using assms(1) raw(1) by (auto simp: cursor_json_laws_def)
  ultimately show ?thesis using assms(3,4) raw(2) by (simp add: DecodeCursor_def) (simp add: bytes_of_def)
qed

end
