(* ===== verification/Search_Auth.thy ===== *)
theory Search_Auth
  imports Search_Types
begin

text \<open>
  The authorization of hits (\<^verbatim>\<open>clients/fga/authorizer.go\<close>): every hit names its OpenFGA object and brings
  contextual tuples; the hits of a page are checked in batches. The OpenFGA client is a parameter.
\<close>

subsection \<open>The client\<close>

text \<open>
  A store is its name and identifier. A batch is answered by correlation identifier, \<open>True\<close> for an
  entry that is allowed. \<open>sf_relation_code\<close> says that an error is a gRPC status with the code
  \<^verbatim>\<open>relation_not_found\<close>.
\<close>

record fga_tuple =
  ft_user :: string
  ft_relation :: string
  ft_object :: string

record batch_check =
  bc_user :: string
  bc_relation :: string
  bc_object :: string
  bc_context :: "fga_tuple list"
  bc_id :: string

record 'w search_fga =
  sf_stores :: "'w \<Rightarrow> (serr + (string \<times> string) list) \<times> 'w"
  sf_objects :: "string \<Rightarrow> string \<Rightarrow> string \<Rightarrow> string \<Rightarrow> 'w \<Rightarrow> (serr + string list) \<times> 'w"
  sf_batch :: "string \<Rightarrow> batch_check list \<Rightarrow> 'w \<Rightarrow> (serr + (string \<times> bool) list) \<times> 'w"
  sf_relation_code :: "serr \<Rightarrow> bool"

record 'w authorizer =
  az_client :: "'w search_fga"
  az_object_type :: string
  az_default_role :: string
  az_batch_size :: int

subsection \<open>Stores and accounts\<close>

definition resolveStoreID :: "'w authorizer \<Rightarrow> string \<Rightarrow> 'w \<Rightarrow> (serr + string) \<times> 'w" where
  "resolveStoreID A org w =
     (case sf_stores (az_client A) w of
        (Inl e, w1) \<Rightarrow> (Inl (wrap_err ''list stores'' e), w1)
      | (Inr stores, w1) \<Rightarrow>
          (case find (\<lambda>s. trim_space (fst s) = org) stores of
             Some s \<Rightarrow> (Inr (snd s), w1)
           | None \<Rightarrow> (Inl (plain_err (''no OpenFGA store found for organization '' @ quoted org)), w1)))"

definition format_user :: "string \<Rightarrow> string" where
  "format_user user = replace_char (CHR '':'') (CHR ''.'') user"

text \<open>Trimmed, without empty names and repetitions, in the order of the answer.\<close>

fun clean_values :: "string set \<Rightarrow> string list \<Rightarrow> string list" where
  "clean_values seen [] = []"
| "clean_values seen (v # vs) =
     (let t = trim_space v in
      if t = [] \<or> t \<in> seen then clean_values seen vs else t # clean_values (insert t seen) vs)"

definition ListAccessibleAccounts :: "'w authorizer \<Rightarrow> string \<Rightarrow> string \<Rightarrow> string \<Rightarrow> 'w \<Rightarrow> (serr + string list) \<times> 'w" where
  "ListAccessibleAccounts A org user relation w =
     (case resolveStoreID A org w of
        (Inl e, w1) \<Rightarrow> (Inl (wrap_err ''resolve store ID'' e), w1)
      | (Inr store_id, w1) \<Rightarrow>
          let rel = (if trim_space relation = [] then az_default_role A else trim_space relation) in
          (case sf_objects (az_client A) store_id (az_object_type A) rel (''user:'' @ format_user user) w1 of
             (Inl e, w2) \<Rightarrow>
               (Inl (if sf_relation_code (az_client A) e then sentinel_err ErrFGARelationNotFound (se_text e)
                     else wrap_err ''list accessible accounts'' e), w2)
           | (Inr objects, w2) \<Rightarrow> (Inr (clean_values {} objects), w2)))"

subsection \<open>The question about a hit\<close>

definition readString :: "json_object \<Rightarrow> string \<Rightarrow> string" where
  "readString source key = (case map_of source key of Some (JStr s) \<Rightarrow> trim_space s | _ \<Rightarrow> [])"

fun permission_tuple :: "json \<Rightarrow> fga_tuple option" where
  "permission_tuple (JObj m) =
     Some \<lparr>ft_user = readString m ''user'', ft_relation = readString m ''relation'', ft_object = readString m ''object''\<rparr>"
| "permission_tuple _ = None"

definition buildAuthorizationContext :: "json_object \<Rightarrow> (string \<times> fga_tuple list) option" where
  "buildAuthorizationContext source =
     (let fga_object = readString source ''fga_object'' in
      if fga_object = [] then None
      else Some (fga_object,
        (case map_of source ''permissions'' of
           Some (JArr ps) \<Rightarrow> List.map_filter permission_tuple ps
         | _ \<Rightarrow> [])))"

definition buildBatchCheckItem :: "string \<Rightarrow> string \<Rightarrow> nat \<Rightarrow> os_hit \<Rightarrow> batch_check option" where
  "buildBatchCheckItem user relation idx hit =
     (case buildAuthorizationContext (hit_source hit) of
        None \<Rightarrow> None
      | Some (object, tuples) \<Rightarrow>
          Some \<lparr>bc_user = ''user:'' @ format_user user, bc_relation = relation, bc_object = object,
                bc_context = tuples, bc_id = itoa (int idx)\<rparr>)"

subsection \<open>Batches\<close>

function ranges_from :: "nat \<Rightarrow> nat \<Rightarrow> nat \<Rightarrow> (nat \<times> nat) list" where
  "ranges_from start n step =
     (if start < n \<and> 0 < step
      then (start, min (start + step) n) # ranges_from (start + step) n step else [])"
  by auto
termination by (relation "measure (\<lambda>(start, n, step). n - start)") auto

declare ranges_from.simps [simp del]

definition chunkRanges :: "int \<Rightarrow> int \<Rightarrow> (nat \<times> nat) list" where
  "chunkRanges n step = (if n \<le> 0 \<or> step \<le> 0 then [] else ranges_from 0 (nat n) (nat step))"

text \<open>The questions of a batch with the indices they answer, and how many hits have none.\<close>

fun batch_items :: "string \<Rightarrow> string \<Rightarrow> os_hit list \<Rightarrow> nat list \<Rightarrow> (nat \<times> batch_check) list \<times> nat" where
  "batch_items user relation hits [] = ([], 0)"
| "batch_items user relation hits (i # is) =
     (case batch_items user relation hits is of (items, dropped) \<Rightarrow>
       (case buildBatchCheckItem user relation i (hits ! i) of
          None \<Rightarrow> (items, Suc dropped)
        | Some item \<Rightarrow> ((i, item) # items, dropped)))"

definition record_answer :: "(string \<times> bool) list \<Rightarrow> nat \<times> batch_check \<Rightarrow> auth_result \<Rightarrow> auth_result" where
  "record_answer answers entry r =
     (case entry of (i, item) \<Rightarrow>
        (case map_of answers (bc_id item) of
           Some True \<Rightarrow> r\<lparr>ar_allowed := (ar_allowed r)[i := True]\<rparr>
         | _ \<Rightarrow> r\<lparr>ar_denied := Suc (ar_denied r)\<rparr>))"

fun check_chunks ::
  "'w authorizer \<Rightarrow> string \<Rightarrow> auth_request \<Rightarrow> (nat \<times> nat) list \<Rightarrow> auth_result \<Rightarrow> 'w \<Rightarrow> (serr + auth_result) \<times> 'w" where
  "check_chunks A store_id req [] r w = (Inr r, w)"
| "check_chunks A store_id req ((start, stop) # chunks) r w =
     (case batch_items (aq_user req) (aq_relation req) (aq_hits req) [start..<stop] of (items, dropped) \<Rightarrow>
        let r1 = r\<lparr>ar_dropped := ar_dropped r + dropped\<rparr> in
        if items = [] then check_chunks A store_id req chunks r1 w
        else (case sf_batch (az_client A) store_id (map snd items) w of
                (Inl e, w1) \<Rightarrow> (Inl (wrap_err ''openfga batch check'' e), w1)
              | (Inr answers, w1) \<Rightarrow>
                  check_chunks A store_id req chunks
                    (fold (record_answer answers) items (r1\<lparr>ar_calls := Suc (ar_calls r1)\<rparr>)) w1))"

definition FilterAuthorized :: "'w authorizer \<Rightarrow> auth_request \<Rightarrow> 'w \<Rightarrow> (serr + auth_result) \<times> 'w" where
  "FilterAuthorized A req w =
     (let r = \<lparr>ar_allowed = replicate (length (aq_hits req)) False, ar_dropped = 0, ar_denied = 0, ar_calls = 0\<rparr> in
      if aq_hits req = [] then (Inr r, w)
      else (case resolveStoreID A (aq_organization req) w of
              (Inl e, w1) \<Rightarrow> (Inl (wrap_err ''resolve store ID'' e), w1)
            | (Inr store_id, w1) \<Rightarrow>
                check_chunks A store_id req (chunkRanges (int (length (aq_hits req))) (az_batch_size A)) r w1))"

subsection \<open>What a batch decides\<close>

text \<open>
  OpenFGA documents that a batch answers each of its checks, under distinct identifiers, as the single check
  would; an entry may report an error instead of an answer. \<open>granted\<close> is what the stores say.
\<close>

type_synonym grants = "string \<Rightarrow> string \<Rightarrow> string \<Rightarrow> string \<Rightarrow> fga_tuple list \<Rightarrow> bool"

definition batch_sound :: "'w search_fga \<Rightarrow> grants \<Rightarrow> bool" where
  "batch_sound F granted \<longleftrightarrow>
     (\<forall>s cs w m w' c. sf_batch F s cs w = (Inr m, w') \<longrightarrow> distinct (map bc_id cs) \<longrightarrow> c \<in> set cs \<longrightarrow>
        map_of m (bc_id c) = Some True \<longrightarrow> granted s (bc_user c) (bc_relation c) (bc_object c) (bc_context c))"

definition batch_complete :: "'w search_fga \<Rightarrow> grants \<Rightarrow> bool" where
  "batch_complete F granted \<longleftrightarrow>
     (\<forall>s cs w m w' c. sf_batch F s cs w = (Inr m, w') \<longrightarrow> distinct (map bc_id cs) \<longrightarrow> c \<in> set cs \<longrightarrow>
        granted s (bc_user c) (bc_relation c) (bc_object c) (bc_context c) \<longrightarrow> map_of m (bc_id c) = Some True)"

definition hit_granted :: "grants \<Rightarrow> string \<Rightarrow> string \<Rightarrow> string \<Rightarrow> os_hit \<Rightarrow> bool" where
  "hit_granted granted store_id user relation hit \<longleftrightarrow>
     (case buildAuthorizationContext (hit_source hit) of
        None \<Rightarrow> False
      | Some (object, tuples) \<Rightarrow> granted store_id (''user:'' @ format_user user) relation object tuples)"

definition store_of_org :: "'w authorizer \<Rightarrow> string \<Rightarrow> string \<Rightarrow> bool" where
  "store_of_org A org i \<longleftrightarrow>
     (\<exists>w stores w'. sf_stores (az_client A) w = (Inr stores, w') \<and> (\<exists>n. (n, i) \<in> set stores \<and> trim_space n = org))"

lemma resolveStoreID_store: "resolveStoreID A org w = (Inr i, w') \<Longrightarrow> store_of_org A org i"
  unfolding resolveStoreID_def store_of_org_def
  by (auto split: prod.splits sum.splits option.splits simp: find_Some_iff) (metis nth_mem prod.collapse)+

lemma nat_digits_inject: "nat_digits m = nat_digits n \<longleftrightarrow> m = n"
  using digits_val_nat_digits by (metis option.inject)

lemma buildBatchCheckItem_Some:
  "buildBatchCheckItem user relation i hit = Some c \<longleftrightarrow>
     (\<exists>obj ctx. buildAuthorizationContext (hit_source hit) = Some (obj, ctx) \<and>
        c = \<lparr>bc_user = ''user:'' @ format_user user, bc_relation = relation, bc_object = obj, bc_context = ctx,
             bc_id = itoa (int i)\<rparr>)"
  by (auto simp: buildBatchCheckItem_def split: option.splits)

lemma batch_items_iff:
  "(i, c) \<in> set (fst (batch_items user relation hits is)) \<longleftrightarrow>
     i \<in> set is \<and> buildBatchCheckItem user relation i (hits ! i) = Some c"
  by (induction "is") (auto split: prod.splits option.splits)

lemma batch_items_keys: "distinct is \<Longrightarrow> distinct (map fst (fst (batch_items user relation hits is)))"
proof (induction "is")
  case (Cons i "is")
  have "i \<notin> fst ` set (fst (batch_items user relation hits is))"
    using Cons.prems by (auto simp: batch_items_iff)
  then show ?case using Cons by (auto split: prod.splits option.splits)
qed simp

lemma batch_items_distinct:
  assumes "distinct is"
  shows "distinct (map bc_id (map snd (fst (batch_items user relation hits is))))"
proof -
  let ?items = "fst (batch_items user relation hits is)"
  have "map bc_id (map snd ?items) = map (\<lambda>i. itoa (int i)) (map fst ?items)"
    by (auto simp: batch_items_iff buildBatchCheckItem_Some)
  moreover have "distinct (map fst ?items)" by (rule batch_items_keys [OF assms])
  ultimately show ?thesis by (simp add: distinct_map inj_on_def itoa_def nat_digits_inject o_def)
qed

lemma record_answer_allowed:
  "ar_allowed (record_answer m (j, c) r) =
     (if map_of m (bc_id c) = Some True then (ar_allowed r)[j := True] else ar_allowed r)"
  by (auto simp: record_answer_def split: option.splits bool.splits)

lemma record_answers:
  "length (ar_allowed (fold (record_answer m) items r)) = length (ar_allowed r)
   \<and> (i < length (ar_allowed r) \<longrightarrow>
      (ar_allowed (fold (record_answer m) items r) ! i \<longleftrightarrow>
         ar_allowed r ! i \<or> (\<exists>c. (i, c) \<in> set items \<and> map_of m (bc_id c) = Some True)))"
proof (induction items arbitrary: r)
  case (Cons x items)
  obtain j c where x: "x = (j, c)" by fastforce
  show ?case using Cons [of "record_answer m x r"] by (cases "i = j") (auto simp: x record_answer_allowed)
qed simp

text \<open>The answers of one batch, as the stores would give them.\<close>

lemma batch_answers:
  assumes "batch_items user relation hits [a..<b] = (items, d)" and "sf_batch F s (map snd items) w = (Inr m, w')"
    and "(i, c) \<in> set items"
  shows "batch_sound F granted \<Longrightarrow> map_of m (bc_id c) = Some True \<Longrightarrow> hit_granted granted s user relation (hits ! i)"
    and "batch_complete F granted \<Longrightarrow> hit_granted granted s user relation (hits ! i) \<Longrightarrow> map_of m (bc_id c) = Some True"
proof -
  have c: "c \<in> set (map snd items)" using assms(3) by force
  have b: "buildBatchCheckItem user relation i (hits ! i) = Some c"
    using assms(1,3) batch_items_iff [of i c user relation hits "[a..<b]"] by simp
  have d: "distinct (map bc_id (map snd items))"
    using batch_items_distinct [of "[a..<b]" user relation hits] assms(1) by simp
  show "hit_granted granted s user relation (hits ! i)" if "batch_sound F granted" "map_of m (bc_id c) = Some True"
    using that assms(2) c d b unfolding batch_sound_def hit_granted_def
    by (fastforce simp: buildBatchCheckItem_Some split: option.splits)
  show "map_of m (bc_id c) = Some True" if "batch_complete F granted" "hit_granted granted s user relation (hits ! i)"
    using that assms(2) c d b unfolding batch_complete_def hit_granted_def
    by (fastforce simp: buildBatchCheckItem_Some split: option.splits)
qed

text \<open>What holds of the allowed hits before a run of batches holds after it.\<close>

definition allows_only :: "(os_hit \<Rightarrow> bool) \<Rightarrow> os_hit list \<Rightarrow> auth_result \<Rightarrow> bool" where
  "allows_only P hits r \<longleftrightarrow>
     length (ar_allowed r) = length hits \<and> (\<forall>i < length hits. ar_allowed r ! i \<longrightarrow> P (hits ! i))"

lemma check_chunks_sound:
  assumes "batch_sound (az_client A) granted"
    and "check_chunks A s req chunks r w = (Inr r', w')"
    and "allows_only (hit_granted granted s (aq_user req) (aq_relation req)) (aq_hits req) r"
  shows "allows_only (hit_granted granted s (aq_user req) (aq_relation req)) (aq_hits req) r'"
  using assms(2,3)
proof (induction chunks arbitrary: r w)
  case (Cons chunk chunks)
  let ?hits = "aq_hits req"
  obtain start stop where chunk: "chunk = (start, stop)" by fastforce
  obtain items d where it: "batch_items (aq_user req) (aq_relation req) ?hits [start..<stop] = (items, d)" by fastforce
  show ?case
  proof (cases "items = []")
    case True
    then show ?thesis using Cons chunk it by (simp add: allows_only_def)
  next
    case False
    then obtain m w1 where m: "sf_batch (az_client A) s (map snd items) w = (Inr m, w1)"
      using Cons.prems(1) it chunk by (auto simp: Let_def split: prod.splits sum.splits)
    let ?r1 = "r\<lparr>ar_dropped := ar_dropped r + d, ar_calls := Suc (ar_calls r)\<rparr>"
    have "allows_only (hit_granted granted s (aq_user req) (aq_relation req)) ?hits (fold (record_answer m) items ?r1)"
      using Cons.prems(2) record_answers [of m items ?r1] batch_answers(1) [OF it m _ assms(1)]
      by (auto simp: allows_only_def)
    then show ?thesis using Cons.IH [of "fold (record_answer m) items ?r1" w1] Cons.prems(1) it m False chunk by simp
  qed
qed simp

lemma check_chunks_complete:
  assumes "batch_complete (az_client A) granted"
    and "check_chunks A s req chunks r w = (Inr r', w')" and "length (ar_allowed r) = length (aq_hits req)"
    and "i < length (aq_hits req)"
    and "ar_allowed r ! i \<or> (\<exists>(a, b) \<in> set chunks. a \<le> i \<and> i < b)
           \<and> hit_granted granted s (aq_user req) (aq_relation req) (aq_hits req ! i)"
  shows "ar_allowed r' ! i"
  using assms(2,3,5)
proof (induction chunks arbitrary: r w)
  case (Cons chunk chunks)
  let ?hits = "aq_hits req"
  let ?granted = "hit_granted granted s (aq_user req) (aq_relation req) (?hits ! i)"
  obtain start stop where chunk: "chunk = (start, stop)" by fastforce
  obtain items d where it: "batch_items (aq_user req) (aq_relation req) ?hits [start..<stop] = (items, d)" by fastforce
  have item: "\<exists>c. (i, c) \<in> set items" if ?granted "start \<le> i" "i < stop"
  proof -
    note g = that
    obtain c where "buildBatchCheckItem (aq_user req) (aq_relation req) i (?hits ! i) = Some c"
      using g(1) by (cases "buildAuthorizationContext (hit_source (?hits ! i))") (auto simp: hit_granted_def buildBatchCheckItem_def)
    then show ?thesis
      using g(2,3) it batch_items_iff [of i c "aq_user req" "aq_relation req" ?hits "[start..<stop]"] by auto
  qed
  show ?case
  proof (cases "items = []")
    case True
    then have "ar_allowed r ! i \<or> (\<exists>(a, b) \<in> set chunks. a \<le> i \<and> i < b) \<and> ?granted"
      using Cons.prems(3) item chunk by auto
    then show ?thesis using Cons.IH [of "r\<lparr>ar_dropped := ar_dropped r + d\<rparr>" w] Cons.prems(1,2) it True chunk by simp
  next
    case False
    then obtain m w1 where m: "sf_batch (az_client A) s (map snd items) w = (Inr m, w1)"
      using Cons.prems(1) it chunk by (auto simp: Let_def split: prod.splits sum.splits)
    let ?r1 = "r\<lparr>ar_dropped := ar_dropped r + d, ar_calls := Suc (ar_calls r)\<rparr>"
    let ?r2 = "fold (record_answer m) items ?r1"
    have r2: "ar_allowed ?r2 ! i \<longleftrightarrow> ar_allowed r ! i \<or> (\<exists>c. (i, c) \<in> set items \<and> map_of m (bc_id c) = Some True)"
      and len: "length (ar_allowed ?r2) = length ?hits"
      using record_answers [of m items ?r1 i] assms(4) Cons.prems(2) by simp_all
    have "ar_allowed ?r2 ! i \<or> (\<exists>(a, b) \<in> set chunks. a \<le> i \<and> i < b) \<and> ?granted"
      using Cons.prems(3) item batch_answers(2) [OF it m _ assms(1)] chunk unfolding r2 by auto
    then show ?thesis using Cons.IH [of ?r2 w1] Cons.prems(1) it m False chunk len by simp
  qed
qed simp

lemma ranges_from_cover: "start \<le> i \<Longrightarrow> i < n \<Longrightarrow> 0 < k \<Longrightarrow> \<exists>(a, b) \<in> set (ranges_from start n k). a \<le> i \<and> i < b"
proof (induction start n k rule: ranges_from.induct)
  case (1 start n k)
  show ?case
  proof (cases "i < start + k")
    case True
    with "1.prems" show ?thesis by (subst ranges_from.simps) auto
  next
    case False
    with "1.IH" "1.prems" show ?thesis by (subst ranges_from.simps) auto
  qed
qed

text \<open>The two halves of the contract of \<^verbatim>\<open>FilterAuthorized\<close>.\<close>

lemma FilterAuthorized_sound:
  assumes "batch_sound (az_client A) granted" and "FilterAuthorized A req w = (Inr r, w')"
    and "i < length (ar_allowed r)" and "ar_allowed r ! i"
  shows "i < length (aq_hits req)"
    and "\<exists>s. store_of_org A (aq_organization req) s \<and>
          hit_granted granted s (aq_user req) (aq_relation req) (aq_hits req ! i)"
proof -
  let ?r = "\<lparr>ar_allowed = replicate (length (aq_hits req)) False, ar_dropped = 0, ar_denied = 0, ar_calls = 0\<rparr>"
  have n: "aq_hits req \<noteq> []" using assms(2-4) by (auto simp: FilterAuthorized_def)
  obtain s w1 where s: "resolveStoreID A (aq_organization req) w = (Inr s, w1)"
    and c: "check_chunks A s req (chunkRanges (int (length (aq_hits req))) (az_batch_size A)) ?r w1 = (Inr r, w')"
    using assms(2) n by (auto simp: FilterAuthorized_def Let_def split: prod.splits sum.splits)
  have "allows_only (hit_granted granted s (aq_user req) (aq_relation req)) (aq_hits req) r"
    by (rule check_chunks_sound [OF assms(1) c]) (simp add: allows_only_def)
  then show "i < length (aq_hits req)" and "\<exists>s. store_of_org A (aq_organization req) s \<and>
          hit_granted granted s (aq_user req) (aq_relation req) (aq_hits req ! i)"
    using assms(3,4) resolveStoreID_store [OF s] by (auto simp: allows_only_def)
qed

lemma FilterAuthorized_exact:
  assumes "batch_sound (az_client A) granted" and "batch_complete (az_client A) granted" and "0 < az_batch_size A"
    and "FilterAuthorized A req w = (Inr r, w')" and "\<And>s. store_of_org A (aq_organization req) s \<longleftrightarrow> s = the_store"
  shows "ar_allowed r = map (hit_granted granted the_store (aq_user req) (aq_relation req)) (aq_hits req)"
proof (cases "aq_hits req = []")
  case True
  then show ?thesis using assms(4) by (auto simp: FilterAuthorized_def)
next
  case False
  let ?r = "\<lparr>ar_allowed = replicate (length (aq_hits req)) False, ar_dropped = 0, ar_denied = 0, ar_calls = 0\<rparr>"
  obtain s w1 where s: "resolveStoreID A (aq_organization req) w = (Inr s, w1)"
    and c: "check_chunks A s req (chunkRanges (int (length (aq_hits req))) (az_batch_size A)) ?r w1 = (Inr r, w')"
    using assms(4) False by (auto simp: FilterAuthorized_def Let_def split: prod.splits sum.splits)
  have the: "s = the_store" using resolveStoreID_store [OF s] assms(5) by simp
  have "allows_only (hit_granted granted s (aq_user req) (aq_relation req)) (aq_hits req) r"
    by (rule check_chunks_sound [OF assms(1) c]) (simp add: allows_only_def)
  moreover have "ar_allowed r ! i"
    if "i < length (aq_hits req)" "hit_granted granted s (aq_user req) (aq_relation req) (aq_hits req ! i)" for i
    using check_chunks_complete [OF assms(2) c _ that(1)] that ranges_from_cover [of 0 i] assms(3) False
    by (simp add: chunkRanges_def)
  ultimately show ?thesis using the by (auto simp: allows_only_def intro!: nth_equalityI)
qed

text \<open>A hit that the store of an organization grants; the authorizer allows no other.\<close>

definition granted_in_org :: "grants \<Rightarrow> 'w authorizer \<Rightarrow> string \<Rightarrow> string \<Rightarrow> string \<Rightarrow> os_hit \<Rightarrow> bool" where
  "granted_in_org granted A org user relation hit \<longleftrightarrow>
     (\<exists>s. store_of_org A org s \<and> hit_granted granted s user relation hit)"

interpretation authorizer: hit_filter FilterAuthorized "\<lambda>A. batch_sound (az_client A) granted" "granted_in_org granted"
  for granted
  by unfold_locales (use FilterAuthorized_sound in \<open>auto simp: granted_in_org_def\<close>)

end
