(* ===== verification/Search_Service.thy ===== *)
theory Search_Service
  imports Search_Cursor Search_Auth
begin

text \<open>
  The search itself (\<^verbatim>\<open>service/search/service.go\<close>): a request is checked and bounded, the organization's
  accounts and indices are looked up, and pages of hits are fetched and filtered until the answer is full, the
  hits run out or too many were scanned. Counters fit into a Go \<^verbatim>\<open>int\<close>: they never exceed the scan limit
  by more than one.
\<close>

record 'w service =
  sv_backends :: "'w backends"
  sv_json :: cursor_json
  sv_default_limit :: int
  sv_max_limit :: int
  sv_batch :: int
  sv_max_scanned :: int

definition NewService :: "'w backends \<Rightarrow> cursor_json \<Rightarrow> int \<Rightarrow> int \<Rightarrow> int \<Rightarrow> int \<Rightarrow> 'w service" where
  "NewService B J default_limit max_limit batch max_scanned =
     \<lparr>sv_backends = B, sv_json = J,
      sv_default_limit = (if default_limit \<le> 0 then 20 else default_limit),
      sv_max_limit = (if max_limit \<le> 0 then 100 else max_limit),
      sv_batch = (if batch \<le> 0 then 100 else batch),
      sv_max_scanned = (if max_scanned \<le> 0 then 1000 else max_scanned)\<rparr>"

definition bounded_limit :: "'w service \<Rightarrow> int \<Rightarrow> int" where
  "bounded_limit V requested =
     (let limit = (if requested \<le> 0 then sv_default_limit V else requested) in
      if limit > sv_max_limit V then sv_max_limit V else limit)"

subsection \<open>Fields and filters\<close>

fun normalize_entries :: "filters \<Rightarrow> filters \<Rightarrow> filters" where
  "normalize_entries [] out = out"
| "normalize_entries ((field, values) # fs) out =
     (let f = trim_space field; clean = clean_values {} values in
      normalize_entries fs (if f = [] \<or> clean = [] then out else obj_put f clean out))"

definition normalizeFilters :: "filters \<Rightarrow> filters" where
  "normalizeFilters fs = normalize_entries fs []"

definition fieldSet :: "string list \<Rightarrow> string set" where
  "fieldSet values = trim_space ` set values - {[]}"

definition validateFiltersAllowed :: "filters \<Rightarrow> string list \<Rightarrow> serr option" where
  "validateFiltersAllowed fs allowed =
     (case find (\<lambda>f. fst f \<notin> fieldSet allowed) fs of
        Some f \<Rightarrow> Some (sentinel_err ErrInvalidRequest (''field '' @ quoted (fst f) @ '' is not filterable''))
      | None \<Rightarrow> None)"

definition prefixed_field :: "string \<Rightarrow> string \<Rightarrow> string" where
  "prefixed_field prefix field =
     (let f = trim_space field in
      if f = [] then []
      else if has_prefix f ''default_fields.'' \<or> has_prefix f ''semantic_fields.'' \<or> has_prefix f ''filterable_fields.''
      then f else prefix @ ''.'' @ f)"

definition searchableFieldsForRefs :: "index_ref list \<Rightarrow> string list" where
  "searchableFieldsForRefs refs = DedupeSorted (concat (map ix_default refs))"

text \<open>The index names, sorted, and the resource of each; the last reference of an index wins.\<close>

definition indexLookup :: "index_ref list \<Rightarrow> string list \<times> (string \<times> string) list" where
  "indexLookup refs =
     (let named = filter (\<lambda>r. trim_space (ix_name r) \<noteq> []) refs in
      (sorted_set (map (\<lambda>r. trim_space (ix_name r)) named),
       fold (\<lambda>r m. obj_put (trim_space (ix_name r)) (trim_space (ix_resource r)) m)
         (filter (\<lambda>r. trim_space (ix_resource r) \<noteq> []) named) []))"

subsection \<open>Hits\<close>

definition stringFromMap :: "json_object \<Rightarrow> string \<Rightarrow> string" where
  "stringFromMap m key = (case map_of m key of Some (JStr s) \<Rightarrow> s | _ \<Rightarrow> [])"

definition joinFieldPath :: "string \<Rightarrow> string \<Rightarrow> string" where
  "joinFieldPath prefix field =
     (let f = trim_space field in if f = [] then prefix else if prefix = [] then f else prefix @ ''.'' @ f)"

fun flattenValue :: "string \<Rightarrow> json \<Rightarrow> json_object \<Rightarrow> json_object"
and flatten_entries :: "string \<Rightarrow> json_object \<Rightarrow> json_object \<Rightarrow> json_object" where
  "flattenValue prefix (JObj kvs) out = flatten_entries prefix kvs out"
| "flattenValue prefix v out = (if prefix \<noteq> [] then obj_put prefix v out else out)"
| "flatten_entries prefix [] out = out"
| "flatten_entries prefix ((k, v) # kvs) out =
     flatten_entries prefix kvs (flattenValue (joinFieldPath prefix k) v out)"

definition responseSource :: "json_object \<Rightarrow> json_object" where
  "responseSource source =
     (case map_of source ''default_fields'' of
        Some (JObj nested) \<Rightarrow> obj_put ''default_fields'' (JObj (flattenValue [] (JObj nested) [])) source
      | _ \<Rightarrow> source)"

definition mapHit :: "os_hit \<Rightarrow> string \<Rightarrow> search_hit" where
  "mapHit hit resource =
     (let src = responseSource (hit_source hit) in
      \<lparr>sh_id = (if hit_id hit \<noteq> [] then hit_id hit else stringFromMap src ''id''),
       sh_score = hit_score hit, sh_resource = resource,
       sh_kind = stringFromMap src ''kind'', sh_name = stringFromMap src ''name'',
       sh_namespace = stringFromMap src ''namespace'', sh_group = stringFromMap src ''api_group'',
       sh_version = stringFromMap src ''api_version'', sh_workspace_path = stringFromMap src ''workspace_path'',
       sh_cluster_name = stringFromMap src ''cluster_name'',
       sh_organization_id = stringFromMap src ''organization_id'',
       sh_organization_name = stringFromMap src ''organization_name'',
       sh_account_id = stringFromMap src ''account_id'', sh_account_name = stringFromMap src ''account_name'',
       sh_source = src\<rparr>)"

definition resolveHitResource :: "os_hit \<Rightarrow> string \<Rightarrow> (string \<times> string) list \<Rightarrow> string" where
  "resolveHitResource hit requested by_index =
     (let of_index = (case map_of by_index (hit_index hit) of None \<Rightarrow> [] | Some r \<Rightarrow> trim_space r) in
      if trim_space requested \<noteq> [] then trim_space requested
      else if of_index \<noteq> [] then of_index
      else trim_space (stringFromMap (hit_source hit) ''resource''))"

subsection \<open>What a request asks for\<close>

record search_plan =
  pl_org :: string
  pl_user :: string
  pl_query :: string
  pl_mode :: string
  pl_resource :: string
  pl_filters :: filters
  pl_role :: string
  pl_limit :: int
  pl_paged :: bool
  pl_offset :: int

text \<open>The offset of a numbered page, or that the page does not exist.\<close>

definition page_offset :: "'w service \<Rightarrow> search_request \<Rightarrow> int \<Rightarrow> serr + int" where
  "page_offset V req limit =
     (if rq_cursor req \<noteq> [] then Inr 0
      else if rq_page req < 0 then Inl (sentinel_err ErrInvalidRequest ''page must not be negative'')
      else if rq_page req > 1 then
        (let q = sv_max_scanned V div limit; max_page = (if q = 0 then 1 else q) in
         if rq_page req > max_page
         then Inl (sentinel_err ErrInvalidRequest
                (''page exceeds the maximum of '' @ itoa max_page @ '' for limit '' @ itoa limit))
         else Inr ((rq_page req - 1) * limit))
      else Inr 0)"

definition plan_search :: "'w service \<Rightarrow> search_request \<Rightarrow> serr + search_plan" where
  "plan_search V req =
     (let query = (if trim_space (rq_query req) = [] then ''*'' else trim_space (rq_query req));
          org = trim_space (rq_organization req); user = trim_space (rq_user req) in
      if org = [] then Inl (sentinel_err ErrInvalidRequest ''organization is required'')
      else if user = [] then Inl (sentinel_err ErrInvalidRequest ''user is required'')
      else case normalizeMode (rq_mode req) of
        Inl e \<Rightarrow> Inl e
      | Inr mode \<Rightarrow>
          let resource = trim_space (rq_resource req); fs = normalizeFilters (rq_filters req);
              limit = bounded_limit V (rq_limit req) in
          if resource = [] \<and> fs \<noteq> [] then Inl (sentinel_err ErrInvalidRequest ''filters require a resource'')
          else if mode = SearchModeSemantic \<and> resource = []
          then Inl (sentinel_err ErrInvalidRequest ''semantic mode requires a resource'')
          else (case page_offset V req limit of
            Inl e \<Rightarrow> Inl e
          | Inr offset \<Rightarrow>
              Inr \<lparr>pl_org = org, pl_user = user, pl_query = query, pl_mode = mode, pl_resource = resource,
                   pl_filters = fs, pl_role = trim_space (rq_role req), pl_limit = limit,
                   pl_paged = (rq_cursor req = [] \<and> rq_page req > 0), pl_offset = offset\<rparr>))"

definition plan_cursor :: "'w service \<Rightarrow> search_plan \<Rightarrow> json list \<Rightarrow> cursor_state" where
  "plan_cursor V P sa =
     \<lparr>cu_version = cursorVersion, cu_org = pl_org P, cu_query_hash = queryHash (sv_backends V) (pl_query P),
      cu_mode = pl_mode P, cu_resource = pl_resource P,
      cu_filters_hash = cursorFiltersHash (sv_backends V) (pl_filters P) (pl_role P),
      cu_limit = pl_limit P, cu_after = sa\<rparr>"

text \<open>Where the search goes on: at the start, or where the request's cursor says.\<close>

definition resume_at :: "'w service \<Rightarrow> search_request \<Rightarrow> search_plan \<Rightarrow> serr + json list" where
  "resume_at V req P =
     (if rq_cursor req = [] then Inr []
      else case DecodeCursor (sv_json V) (rq_cursor req) of
        Inl e \<Rightarrow> Inl e
      | Inr st \<Rightarrow>
          (case ValidateCursor st (pl_org P) (queryHash (sv_backends V) (pl_query P)) (pl_mode P) (pl_resource P)
                  (cursorFiltersHash (sv_backends V) (pl_filters P) (pl_role P)) (pl_limit P) of
             Some e \<Rightarrow> Inl e
           | None \<Rightarrow> Inr (cu_after st)))"

subsection \<open>Where it is looked for\<close>

record search_target =
  tg_indices :: "string list"
  tg_resources :: "(string \<times> string) list"
  tg_fields :: "string list"
  tg_semantic :: "string list"
  tg_filters :: filters

definition find_target :: "'w service \<Rightarrow> search_plan \<Rightarrow> 'w \<Rightarrow> (serr + search_target) \<times> 'w" where
  "find_target V P w =
     (if pl_resource P \<noteq> [] then
        (case bk_resolve (sv_backends V) (pl_org P) (pl_resource P) w of
           (Inl e, w1) \<Rightarrow> (Inl (backendErr ErrSearchBackend ''resolve search index'' e), w1)
         | (Inr ref, w1) \<Rightarrow>
             (case validateFiltersAllowed (pl_filters P) (ix_filterable ref) of
                Some e \<Rightarrow> (Inl e, w1)
              | None \<Rightarrow>
                  if pl_mode P = SearchModeSemantic \<and> ix_semantic ref = []
                  then (Inl (sentinel_err ErrInvalidRequest
                         (''resource '' @ quoted (pl_resource P) @ '' has no semantic fields configured'')), w1)
                  else (Inr \<lparr>tg_indices = [ix_name ref], tg_resources = [(ix_name ref, ix_resource ref)],
                             tg_fields = DedupeSorted (ix_default ref), tg_semantic = DedupeSorted (ix_semantic ref),
                             tg_filters = pl_filters P\<rparr>, w1)))
      else
        (case bk_indices (sv_backends V) (pl_org P) w of
           (Inl e, w1) \<Rightarrow> (Inl (backendErr ErrSearchBackend ''list search indices'' e), w1)
         | (Inr refs, w1) \<Rightarrow>
             (case indexLookup refs of (indices, by_index) \<Rightarrow>
                if indices = [] then (Inl (sentinel_err ErrIndexUnavailable (''org '' @ quoted (pl_org P))), w1)
                else (Inr \<lparr>tg_indices = indices, tg_resources = by_index, tg_fields = searchableFieldsForRefs refs,
                           tg_semantic = [], tg_filters = []\<rparr>, w1))))"

definition plan_query :: "'w service \<Rightarrow> search_plan \<Rightarrow> search_target \<Rightarrow> string list \<Rightarrow> json list \<Rightarrow> os_query" where
  "plan_query V P G accounts sa =
     \<lparr>oq_indices = tg_indices G, oq_query = pl_query P, oq_mode = pl_mode P, oq_fields = tg_fields G,
      oq_semantic = tg_semantic G, oq_filters = tg_filters G, oq_accounts = accounts, oq_size = sv_batch V,
      oq_after = sa, oq_aggregation = []\<rparr>"

subsection \<open>The scan\<close>

record scan =
  sn_results :: "search_hit list"
  sn_next :: "json list"
  sn_scanned :: int
  sn_authorized :: int

text \<open>The hits of a page from the i-th on; the flag says that the search is over.\<close>

fun scan_hits ::
  "'w service \<Rightarrow> search_plan \<Rightarrow> search_target \<Rightarrow> bool list \<Rightarrow> nat \<Rightarrow> os_hit list \<Rightarrow> scan \<Rightarrow> bool \<times> scan" where
  "scan_hits V P G allowed i [] s = (False, s)"
| "scan_hits V P G allowed i (h # hs) s =
     (let s1 = s\<lparr>sn_scanned := sn_scanned s + 1\<rparr> in
      if sn_scanned s1 > sv_max_scanned V then (True, s1)
      else let s2 = s1\<lparr>sn_next := hit_sort h\<rparr> in
      if i \<ge> length allowed \<or> \<not> allowed ! i then scan_hits V P G allowed (Suc i) hs s2
      else let s3 = s2\<lparr>sn_authorized := sn_authorized s2 + 1\<rparr> in
      if sn_authorized s3 \<le> pl_offset P then scan_hits V P G allowed (Suc i) hs s3
      else let s4 = s3\<lparr>sn_results := sn_results s3
                        @ [mapHit h (resolveHitResource h (pl_resource P) (tg_resources G))]\<rparr> in
      if int (length (sn_results s4)) = pl_limit P then (True, s4) else scan_hits V P G allowed (Suc i) hs s4)"

lemma scan_hits_step:
  "scan_hits V P G allowed i (h # hs) s = (False, s') \<Longrightarrow>
     \<exists>s1. scan_hits V P G allowed (Suc i) hs s1 = (False, s') \<and>
       sn_scanned s1 = sn_scanned s + 1 \<and> sn_scanned s1 \<le> sv_max_scanned V"
  by (simp add: Let_def not_less split: if_splits) (rule exI, rule conjI, assumption, simp)+

lemma scan_hits_scanned:
  "scan_hits V P G allowed i hs s = (False, s') \<Longrightarrow>
     sn_scanned s' = sn_scanned s + int (length hs) \<and> (hs \<noteq> [] \<longrightarrow> sn_scanned s' \<le> sv_max_scanned V)"
proof (induction hs arbitrary: i s)
  case (Cons h hs)
  obtain s1 where "scan_hits V P G allowed (Suc i) hs s1 = (False, s')"
      "sn_scanned s1 = sn_scanned s + 1" "sn_scanned s1 \<le> sv_max_scanned V"
    using scan_hits_step [OF Cons.prems] by blast
  with Cons.IH [of "Suc i" s1] show ?case by (cases hs) auto
qed simp

lemma scan_hits_progress:
  assumes "scan_hits V P G allowed i hs s = (False, s')" and "hs \<noteq> []"
  shows "sn_scanned s < sn_scanned s' \<and> sn_scanned s' \<le> sv_max_scanned V"
  using scan_hits_scanned [OF assms(1)] assms(2) by (cases hs) simp_all

definition get_request :: "search_plan \<Rightarrow> os_hit list \<Rightarrow> auth_request" where
  "get_request P hits =
     \<lparr>aq_organization = pl_org P, aq_user = pl_user P, aq_relation = ''get'', aq_hits = hits\<rparr>"

text \<open>
  The loop over pages: an error, or the flag \<^verbatim>\<open>exhausted\<close>, the total of the last page and the state. It ends because a page
  that does not end it has hits, and all of them count towards the limit.
\<close>

function search_pages ::
  "'w service \<Rightarrow> search_plan \<Rightarrow> search_target \<Rightarrow> string list \<Rightarrow> json list \<Rightarrow> int \<Rightarrow> scan \<Rightarrow> 'w \<Rightarrow>
   (serr + bool \<times> int \<times> scan) \<times> 'w" where
  "search_pages V P G accounts sa n s w =
     (if int (length (sn_results s)) \<ge> pl_limit P then (Inr (False, n, s), w)
      else case bk_search (sv_backends V) (plan_query V P G accounts sa) w of
        (Inl e, w1) \<Rightarrow> (Inl (backendErr ErrSearchBackend ''query OpenSearch'' e), w1)
      | (Inr page, w1) \<Rightarrow>
          if pa_hits page = [] then (Inr (True, n, s), w1)
          else (case bk_filter (sv_backends V) (get_request P (pa_hits page)) w1 of
            (Inl e, w2) \<Rightarrow> (Inl (backendErr ErrAuthzBackend ''filter authorization'' e), w2)
          | (Inr authz, w2) \<Rightarrow>
              (case scan_hits V P G (ar_allowed authz) 0 (pa_hits page) s of
                 (True, s') \<Rightarrow> (Inr (False, pa_total page, s'), w2)
               | (False, s') \<Rightarrow>
                   if int (length (pa_hits page)) < sv_batch V then (Inr (True, pa_total page, s'), w2)
                   else search_pages V P G accounts (hit_sort (last (pa_hits page))) (pa_total page) s' w2)))"
  by pat_completeness auto
termination
  by (relation "measure (\<lambda>(V, P, G, accounts, sa, n, s, w). nat (sv_max_scanned V - sn_scanned s))")
     (auto dest!: scan_hits_progress [OF sym])

declare search_pages.simps [simp del]

subsection \<open>Search\<close>

definition empty_scan :: scan where
  "empty_scan = \<lparr>sn_results = [], sn_next = [], sn_scanned = 0, sn_authorized = 0\<rparr>"

definition search_answer :: "'w service \<Rightarrow> search_plan \<Rightarrow> bool \<Rightarrow> int \<Rightarrow> scan \<Rightarrow> serr + search_response" where
  "search_answer V P exhausted n s =
     (if pl_paged P then Inr \<lparr>sp_results = sn_results s, sp_cursor = None, sp_total = Some n\<rparr>
      else if exhausted \<or> sn_next s = [] then Inr \<lparr>sp_results = sn_results s, sp_cursor = None, sp_total = None\<rparr>
      else case EncodeCursor (sv_json V) (plan_cursor V P (sn_next s)) of
        Inl e \<Rightarrow> Inl e
      | Inr c \<Rightarrow> Inr \<lparr>sp_results = sn_results s, sp_cursor = Some c, sp_total = None\<rparr>)"

definition accounts_error :: "search_plan \<Rightarrow> serr \<Rightarrow> serr" where
  "accounts_error P e =
     (if pl_role P \<noteq> [] \<and> ErrFGARelationNotFound \<in> set (se_is e)
      then sentinel_err ErrInvalidRequest
             (''relation '' @ quoted (pl_role P) @ '' is not defined in the OpenFGA account schema'')
      else backendErr ErrAuthzBackend ''list accessible accounts'' e)"

definition run_search :: "'w service \<Rightarrow> search_plan \<Rightarrow> json list \<Rightarrow> 'w \<Rightarrow> (serr + search_response) \<times> 'w" where
  "run_search V P sa w =
     (case bk_accounts (sv_backends V) (pl_org P) (pl_user P) (pl_role P) w of
        (Inl e, w1) \<Rightarrow> (Inl (accounts_error P e), w1)
      | (Inr accounts, w1) \<Rightarrow>
          if accounts = []
          then (Inr \<lparr>sp_results = [], sp_cursor = None, sp_total = (if pl_paged P then Some 0 else None)\<rparr>, w1)
          else (case find_target V P w1 of
            (Inl e, w2) \<Rightarrow> (Inl e, w2)
          | (Inr G, w2) \<Rightarrow>
              (case search_pages V P G accounts sa 0 empty_scan w2 of
                 (Inl e, w3) \<Rightarrow> (Inl e, w3)
               | (Inr (exhausted, n, s), w3) \<Rightarrow> (search_answer V P exhausted n s, w3))))"

definition Search :: "'w service \<Rightarrow> search_request \<Rightarrow> 'w \<Rightarrow> (serr + search_response) \<times> 'w" where
  "Search V req w =
     (case plan_search V req of
        Inl e \<Rightarrow> (Inl e, w)
      | Inr P \<Rightarrow>
          (case resume_at V req P of
             Inl e \<Rightarrow> (Inl e, w)
           | Inr sa \<Rightarrow> run_search V P sa w))"

subsection \<open>ListResources\<close>

definition ListResources :: "'w service \<Rightarrow> string \<Rightarrow> 'w \<Rightarrow> (serr + search_resource list) \<times> 'w" where
  "ListResources V organization w =
     (let org = trim_space organization in
      if org = [] then (Inl (sentinel_err ErrInvalidRequest ''organization is required''), w)
      else case bk_indices (sv_backends V) org w of
        (Inl e, w1) \<Rightarrow> (Inl (backendErr ErrSearchBackend ''list search indices'' e), w1)
      | (Inr refs, w1) \<Rightarrow>
          let by_resource = fold (\<lambda>r m. let resource = trim_space (ix_resource r) in
                if resource = [] then m
                else m(resource \<mapsto> \<lparr>sc_resource = resource, sc_default = DedupeSorted (ix_default r),
                       sc_filterable = DedupeSorted (ix_filterable r), sc_semantic = DedupeSorted (ix_semantic r)\<rparr>))
                refs Map.empty;
              keys = sorted_set (filter (\<lambda>k. k \<noteq> []) (map (\<lambda>r. trim_space (ix_resource r)) refs)) in
          (Inr (map (\<lambda>k. the (by_resource k)) keys), w1))"

subsection \<open>FilterValues\<close>

fun collectScalarValues :: "json \<Rightarrow> string list" where
  "collectScalarValues (JStr s) = (if trim_space s = [] then [] else [trim_space s])"
| "collectScalarValues (JArr items) = concat (map collectScalarValues items)"
| "collectScalarValues (JBool b) = [if b then ''true'' else ''false'']"
| "collectScalarValues (JInt i) = [itoa i]"
| "collectScalarValues (JFloat t) = [t]"
| "collectScalarValues _ = []"

fun collectFieldValues :: "string list \<Rightarrow> json \<Rightarrow> string list" where
  "collectFieldValues [] v = collectScalarValues v"
| "collectFieldValues (p # ps) (JObj kvs) =
     (case map_of kvs p of None \<Rightarrow> [] | Some v \<Rightarrow> collectFieldValues ps v)"
| "collectFieldValues (p # ps) (JArr items) = concat (map (collectFieldValues (p # ps)) items)"
| "collectFieldValues (p # ps) _ = []"

definition extractFieldValues :: "json_object \<Rightarrow> string \<Rightarrow> string list" where
  "extractFieldValues source path =
     (if source = [] then []
      else sorted_set (collectFieldValues (split_on (CHR ''.'') (trim_space path)) (JObj source)))"

text \<open>New values are added until the answer is full; the flag says that it is.\<close>

fun add_values :: "int \<Rightarrow> string list \<Rightarrow> string list \<Rightarrow> bool \<times> string list" where
  "add_values limit [] found = (False, found)"
| "add_values limit (v # vs) found =
     (if v \<in> set found then add_values limit vs found
      else if int (length (found @ [v])) \<ge> limit then (True, found @ [v])
      else add_values limit vs (found @ [v]))"

fun value_hits ::
  "'w service \<Rightarrow> int \<Rightarrow> string \<Rightarrow> bool list \<Rightarrow> nat \<Rightarrow> os_hit list \<Rightarrow> int \<times> string list \<Rightarrow> bool \<times> int \<times> string list" where
  "value_hits V limit path allowed i [] (n, found) = (False, n, found)"
| "value_hits V limit path allowed i (h # hs) (n, found) =
     (if n + 1 > sv_max_scanned V then (True, n + 1, found)
      else if i \<ge> length allowed \<or> \<not> allowed ! i then value_hits V limit path allowed (Suc i) hs (n + 1, found)
      else case add_values limit (extractFieldValues (hit_source h) path) found of
        (True, found') \<Rightarrow> (True, n + 1, found')
      | (False, found') \<Rightarrow> value_hits V limit path allowed (Suc i) hs (n + 1, found'))"

lemma value_hits_scanned:
  "value_hits V limit path allowed i hs (n, found) = (False, n', found') \<Longrightarrow>
     n' = n + int (length hs) \<and> (hs \<noteq> [] \<longrightarrow> n' \<le> sv_max_scanned V)"
proof (induction V limit path allowed i hs "(n, found)" arbitrary: n found rule: value_hits.induct)
  case (2 V limit path allowed i h hs n found)
  obtain b vs where a: "add_values limit (extractFieldValues (hit_source h) path) found = (b, vs)" by fastforce
  show ?case
    using 2 by (cases b) (fastforce simp: a split: if_splits)+
qed simp

lemma value_hits_progress:
  assumes "value_hits V limit path allowed i hs (n, found) = (False, n', found')" and "hs \<noteq> []"
  shows "n < n' \<and> n' \<le> sv_max_scanned V"
  using value_hits_scanned [OF assms(1)] assms(2) by (cases hs) simp_all

definition value_query :: "'w service \<Rightarrow> index_ref \<Rightarrow> string \<Rightarrow> filters \<Rightarrow> string list \<Rightarrow> json list \<Rightarrow> os_query" where
  "value_query V ref query fs accounts sa =
     \<lparr>oq_indices = [ix_name ref], oq_query = query, oq_mode = [], oq_fields = DedupeSorted (ix_default ref),
      oq_semantic = [], oq_filters = fs, oq_accounts = accounts, oq_size = sv_batch V, oq_after = sa,
      oq_aggregation = []\<rparr>"

function value_pages ::
  "'w service \<Rightarrow> (json list \<Rightarrow> os_query) \<Rightarrow> (os_hit list \<Rightarrow> auth_request) \<Rightarrow> int \<Rightarrow> string \<Rightarrow> json list \<Rightarrow>
   int \<times> string list \<Rightarrow> 'w \<Rightarrow> (serr + string list) \<times> 'w" where
  "value_pages V query request limit path sa (n, found) w =
     (if int (length found) \<ge> limit then (Inr found, w)
      else case bk_search (sv_backends V) (query sa) w of
        (Inl e, w1) \<Rightarrow> (Inl (backendErr ErrSearchBackend ''query OpenSearch'' e), w1)
      | (Inr page, w1) \<Rightarrow>
          if pa_hits page = [] then (Inr found, w1)
          else (case bk_filter (sv_backends V) (request (pa_hits page)) w1 of
            (Inl e, w2) \<Rightarrow> (Inl (backendErr ErrAuthzBackend ''filter authorization'' e), w2)
          | (Inr authz, w2) \<Rightarrow>
              (case value_hits V limit path (ar_allowed authz) 0 (pa_hits page) (n, found) of
                 (True, n', found') \<Rightarrow> (Inr found', w2)
               | (False, n', found') \<Rightarrow>
                   if int (length (pa_hits page)) < sv_batch V then (Inr found', w2)
                   else value_pages V query request limit path (hit_sort (last (pa_hits page))) (n', found') w2)))"
  by pat_completeness auto
termination
  by (relation "measure (\<lambda>(V, query, request, limit, path, sa, (n, found), w). nat (sv_max_scanned V - n))")
     (auto dest!: value_hits_progress [OF sym])

declare value_pages.simps [simp del]

definition FilterValues :: "'w service \<Rightarrow> filter_values_request \<Rightarrow> 'w \<Rightarrow> (serr + string list) \<times> 'w" where
  "FilterValues V req w =
     (let org = trim_space (fv_organization req); user = trim_space (fv_user req);
          resource = trim_space (fv_resource req); field = trim_space (fv_field req);
          limit = bounded_limit V (fv_limit req) in
      if org = [] then (Inl (sentinel_err ErrInvalidRequest ''organization is required''), w)
      else if user = [] then (Inl (sentinel_err ErrInvalidRequest ''user is required''), w)
      else if resource = [] then (Inl (sentinel_err ErrInvalidRequest ''resource is required''), w)
      else if field = [] then (Inl (sentinel_err ErrInvalidRequest ''field is required''), w)
      else case bk_resolve (sv_backends V) org resource w of
        (Inl e, w1) \<Rightarrow> (Inl (backendErr ErrSearchBackend ''resolve search index'' e), w1)
      | (Inr ref, w1) \<Rightarrow>
          if field \<notin> fieldSet (ix_filterable ref)
          then (Inl (sentinel_err ErrInvalidRequest
                 (''field '' @ quoted field @ '' is not filterable for resource '' @ quoted resource)), w1)
          else (case validateFiltersAllowed (normalizeFilters (fv_filters req)) (ix_filterable ref) of
            Some e \<Rightarrow> (Inl e, w1)
          | None \<Rightarrow>
              (case bk_accounts (sv_backends V) org user [] w1 of
                 (Inl e, w2) \<Rightarrow> (Inl (backendErr ErrAuthzBackend ''list accessible accounts'' e), w2)
               | (Inr accounts, w2) \<Rightarrow>
                   if accounts = [] then (Inr [], w2)
                   else (case value_pages V
                            (value_query V ref (trim_space (fv_query req)) (normalizeFilters (fv_filters req)) accounts)
                            (\<lambda>hits. \<lparr>aq_organization = org, aq_user = user, aq_relation = ''get'', aq_hits = hits\<rparr>)
                            limit (prefixed_field ''filterable_fields'' field) [] (0, []) w2 of
                     (Inl e, w3) \<Rightarrow> (Inl e, w3)
                   | (Inr found, w3) \<Rightarrow> (Inr (take (nat limit) (sort found)), w3)))))"

end
