(* ===== verification/Search_Http.thy ===== *)
theory Search_Http
  imports Search_Service
begin

text \<open>
  The HTTP side of the search service: who asks for which organization (\<^verbatim>\<open>middleware/orgauth.go\<close>,
  \<^verbatim>\<open>clients/kcp/access_validator.go\<close>), what the parameters of a request say (\<^verbatim>\<open>router/router.go\<close>) and how
  errors are shown (\<^verbatim>\<open>httperr/problem.go\<close>). Headers other than the status and the JSON encoder are left out.
\<close>

subsection \<open>Problems\<close>

record problem =
  pr_type :: string
  pr_title :: string
  pr_status :: nat
  pr_detail :: string
  pr_category :: string

definition typeBaseURI :: string where
  "typeBaseURI = ''https://platform-mesh.io/problems/search/''"

definition InvalidRequest :: problem where
  "InvalidRequest = \<lparr>pr_type = typeBaseURI @ ''invalid-request'', pr_title = ''Invalid request'', pr_status = 400,
     pr_detail = [], pr_category = ''invalid_request''\<rparr>"

definition InvalidCursor :: problem where
  "InvalidCursor = \<lparr>pr_type = typeBaseURI @ ''invalid-cursor'', pr_title = ''Invalid pagination cursor'',
     pr_status = 400, pr_detail = [], pr_category = ''invalid_request''\<rparr>"

definition AuthenticationRequired :: problem where
  "AuthenticationRequired = \<lparr>pr_type = typeBaseURI @ ''authentication-required'',
     pr_title = ''Authentication required'', pr_status = 401, pr_detail = ''a valid bearer token is required'',
     pr_category = ''authentication''\<rparr>"

definition AuthenticationUnavailable :: problem where
  "AuthenticationUnavailable = \<lparr>pr_type = typeBaseURI @ ''authentication-unavailable'',
     pr_title = ''Authentication unavailable'', pr_status = 500, pr_detail = ''the token could not be validated'',
     pr_category = ''authentication''\<rparr>"

definition AccessDenied :: problem where
  "AccessDenied = \<lparr>pr_type = typeBaseURI @ ''access-denied'', pr_title = ''Access denied'', pr_status = 403,
     pr_detail = ''access denied for the requested resource'', pr_category = ''authorization''\<rparr>"

definition AuthorizationUnavailable :: problem where
  "AuthorizationUnavailable = \<lparr>pr_type = typeBaseURI @ ''authorization-unavailable'',
     pr_title = ''Authorization unavailable'', pr_status = 500, pr_detail = ''permissions could not be evaluated'',
     pr_category = ''authorization''\<rparr>"

definition SearchBackendUnavailable :: problem where
  "SearchBackendUnavailable = \<lparr>pr_type = typeBaseURI @ ''search-backend-unavailable'',
     pr_title = ''Search backend unavailable'', pr_status = 500,
     pr_detail = ''the search backend could not process the request'', pr_category = ''search_backend''\<rparr>"

definition SearchQueryRejected :: problem where
  "SearchQueryRejected = \<lparr>pr_type = typeBaseURI @ ''search-query-rejected'', pr_title = ''Search query rejected'',
     pr_status = 500, pr_detail = ''the search backend rejected the generated query'',
     pr_category = ''search_backend''\<rparr>"

definition IndexUnavailable :: problem where
  "IndexUnavailable = \<lparr>pr_type = typeBaseURI @ ''index-unavailable'', pr_title = ''Search index unavailable'',
     pr_status = 500, pr_detail = ''no search index is available for this organization'',
     pr_category = ''search_backend''\<rparr>"

definition UpstreamTimeout :: problem where
  "UpstreamTimeout = \<lparr>pr_type = typeBaseURI @ ''upstream-timeout'', pr_title = ''Upstream timeout'', pr_status = 500,
     pr_detail = ''the request to an upstream system timed out'', pr_category = ''upstream_timeout''\<rparr>"

definition Internal :: problem where
  "Internal = \<lparr>pr_type = typeBaseURI @ ''internal-error'', pr_title = ''Internal server error'', pr_status = 500,
     pr_detail = ''the request could not be completed'', pr_category = ''internal''\<rparr>"

definition WithDetail :: "problem \<Rightarrow> string \<Rightarrow> problem" where
  "WithDetail p detail = p\<lparr>pr_detail := detail\<rparr>"

text \<open>\<open>strings.Cut\<close> at the first colon that a space follows.\<close>

fun cut_reason :: "string \<Rightarrow> string option" where
  "cut_reason (c # d # cs) = (if c = CHR '':'' \<and> d = CHR '' '' then Some cs else cut_reason (d # cs))"
| "cut_reason _ = None"

definition reason_of :: "serr \<Rightarrow> string" where
  "reason_of e = (case cut_reason (se_text e) of Some rest \<Rightarrow> rest | None \<Rightarrow> se_text e)"

definition problemFor :: "serr \<Rightarrow> problem" where
  "problemFor e =
     (let is = set (se_is e) in
      if ErrInvalidCursor \<in> is then WithDetail InvalidCursor (reason_of e)
      else if ErrInvalidRequest \<in> is then WithDetail InvalidRequest (reason_of e)
      else if ErrUnauthorized \<in> is then AuthenticationRequired
      else if ErrForbidden \<in> is then AccessDenied
      else if ErrUpstreamTimeout \<in> is then UpstreamTimeout
      else if ErrIndexUnavailable \<in> is then IndexUnavailable
      else if ErrAuthzBackend \<in> is then AuthorizationUnavailable
      else if ErrSearchBackendRejected \<in> is then SearchQueryRejected
      else if ErrSearchBackend \<in> is then SearchBackendUnavailable
      else Internal)"

subsection \<open>Parameters\<close>

text \<open>The query parameters: for each key its values, a key at most once.\<close>

type_synonym params = "(string \<times> string list) list"

definition param :: "params \<Rightarrow> string \<Rightarrow> string" where
  "param q key = (case map_of q key of Some (v # vs) \<Rightarrow> v | _ \<Rightarrow> [])"

definition parseOptionalLimit :: "string \<Rightarrow> int option" where
  "parseOptionalLimit raw = (if trim_space raw = [] then Some 0 else atoi (trim_space raw))"

definition parseOptionalPage :: "string \<Rightarrow> string + int" where
  "parseOptionalPage raw =
     (if trim_space raw = [] then Inr 0
      else case atoi (trim_space raw) of
        Some page \<Rightarrow> (if page < 1 then Inl ''page must be a positive integer'' else Inr page)
      | None \<Rightarrow> Inl ''page must be a positive integer'')"

definition parseResources :: "string \<Rightarrow> string list" where
  "parseResources raw = filter (\<lambda>r. r \<noteq> []) (map trim_space (split_on (CHR '','') raw))"

definition resolveResources :: "string \<Rightarrow> string \<Rightarrow> bool \<Rightarrow> string list option" where
  "resolveResources resource resources has_filters =
     (if resource \<noteq> [] then Some [resource]
      else if parseResources resources \<noteq> [] then Some (parseResources resources)
      else if has_filters then None
      else Some [[]])"

definition filter_prefix :: string where
  "filter_prefix = ''filter.''"

fun parse_filter_entries :: "params \<Rightarrow> filters \<Rightarrow> string + filters" where
  "parse_filter_entries [] out = Inr out"
| "parse_filter_entries ((key, entries) # q) out =
     (if \<not> has_prefix key filter_prefix then parse_filter_entries q out
      else let field = trim_space (trim_prefix key filter_prefix);
               clean = filter (\<lambda>e. e \<noteq> []) (map trim_space entries);
               old = (case map_of out field of None \<Rightarrow> [] | Some vs \<Rightarrow> vs) in
           if field = [] then Inl ''invalid filter field''
           else parse_filter_entries q (if clean = [] then out else obj_put field (old @ clean) out))"

definition parseFilters :: "params \<Rightarrow> string + filters" where
  "parseFilters q = parse_filter_entries q []"

text \<open>The characters of valid UTF-8: the bytes that do not continue one.\<close>

definition rune_count :: "string \<Rightarrow> nat" where
  "rune_count s = length (filter (\<lambda>c. (of_char c :: nat) div 64 \<noteq> 2) s)"

definition matches_relation :: "string \<Rightarrow> bool" where
  "matches_relation s \<longleftrightarrow>
     1 \<le> rune_count s \<and> rune_count s \<le> 50 \<and>
     list_all (\<lambda>c. c \<notin> {CHR '':'', CHR ''#'', CHR 0x40, CHR 0x09, CHR 0x0A, CHR 0x0C, CHR 0x0D, CHR '' ''}) s"

definition parseSearchFilters :: "params \<Rightarrow> string + filters \<times> string" where
  "parseSearchFilters q =
     (case parseFilters q of
        Inl e \<Rightarrow> Inl e
      | Inr fs \<Rightarrow>
          (case map_of q ''filter.fga_role'' of
             None \<Rightarrow> Inr (fs, [])
           | Some [entry] \<Rightarrow>
               let role = trim_space entry in
               if role = [] then Inl ''filter.fga_role must not be empty''
               else if \<not> matches_relation role then Inl ''filter.fga_role has an invalid format''
               else Inr (obj_delete ''fga_role'' fs, role)
           | Some _ \<Rightarrow> Inl ''filter.fga_role must have exactly one value''))"

subsection \<open>The endpoints\<close>

record request_context =
  rx_organization :: string
  rx_user :: string
  rx_tenant :: string

definition GetRequestContext :: "request_context option \<Rightarrow> request_context option" where
  "GetRequestContext v =
     (case v of None \<Rightarrow> None
      | Some rc \<Rightarrow> if rx_organization rc = [] \<or> rx_user rc = [] then None else Some rc)"

datatype 'a http_answer = Problem problem | Answer 'a

fun search_resources ::
  "'w service \<Rightarrow> (string \<Rightarrow> search_request) \<Rightarrow> string list \<Rightarrow> (string \<times> search_response) list \<Rightarrow> 'w \<Rightarrow>
   (serr + (string \<times> search_response) list) \<times> 'w" where
  "search_resources V request [] out w = (Inr out, w)"
| "search_resources V request (r # rs) out w =
     (case Search V (request r) w of
        (Inl e, w1) \<Rightarrow> (Inl e, w1)
      | (Inr resp, w1) \<Rightarrow> search_resources V request rs (obj_put r resp out) w1)"

text \<open>One response is shown alone, several by their resource.\<close>

definition search_endpoint ::
  "'w service \<Rightarrow> request_context option \<Rightarrow> params \<Rightarrow> 'w \<Rightarrow>
   (search_response + (string \<times> search_response) list) http_answer \<times> 'w" where
  "search_endpoint V ctx q w =
     (case GetRequestContext ctx of
        None \<Rightarrow> (Problem AuthenticationRequired, w)
      | Some rc \<Rightarrow>
     (case parseOptionalLimit (param q ''limit'') of
        None \<Rightarrow> (Problem (WithDetail InvalidRequest ''limit must be an integer''), w)
      | Some limit \<Rightarrow>
     (case parseOptionalPage (param q ''page'') of
        Inl e \<Rightarrow> (Problem (WithDetail InvalidRequest e), w)
      | Inr page \<Rightarrow>
     (case parseSearchFilters q of
        Inl e \<Rightarrow> (Problem (WithDetail InvalidRequest e), w)
      | Inr (fs, role) \<Rightarrow>
     (case resolveResources (trim_space (param q ''resource'')) (param q ''resources'') (fs \<noteq> [] \<or> role \<noteq> []) of
        None \<Rightarrow>
          (Problem (WithDetail InvalidRequest ''filtering is not supported when searching across all resources''), w)
      | Some resources \<Rightarrow>
          (case search_resources V
             (\<lambda>r. \<lparr>rq_organization = rx_organization rc, rq_user = rx_user rc,
                   rq_query = trim_space (param q ''q''), rq_mode = trim_space (param q ''mode''), rq_resource = r,
                   rq_filters = fs, rq_role = role, rq_limit = limit, rq_page = page,
                   rq_cursor = trim_space (param q ''cursor'')\<rparr>) resources [] w of
             (Inl e, w1) \<Rightarrow> (Problem (problemFor e), w1)
           | (Inr [(r, resp)], w1) \<Rightarrow> (Answer (Inl resp), w1)
           | (Inr results, w1) \<Rightarrow> (Answer (Inr results), w1)))))))"

definition resources_endpoint ::
  "'w service \<Rightarrow> request_context option \<Rightarrow> 'w \<Rightarrow> search_resource list http_answer \<times> 'w" where
  "resources_endpoint V ctx w =
     (case GetRequestContext ctx of
        None \<Rightarrow> (Problem AuthenticationRequired, w)
      | Some rc \<Rightarrow>
          (case ListResources V (rx_organization rc) w of
             (Inl e, w1) \<Rightarrow> (Problem (problemFor e), w1)
           | (Inr rs, w1) \<Rightarrow> (Answer rs, w1)))"

definition values_endpoint ::
  "'w service \<Rightarrow> request_context option \<Rightarrow> params \<Rightarrow> 'w \<Rightarrow> string list http_answer \<times> 'w" where
  "values_endpoint V ctx q w =
     (case GetRequestContext ctx of
        None \<Rightarrow> (Problem AuthenticationRequired, w)
      | Some rc \<Rightarrow>
     (case parseOptionalLimit (param q ''limit'') of
        None \<Rightarrow> (Problem (WithDetail InvalidRequest ''limit must be an integer''), w)
      | Some limit \<Rightarrow>
     (case parseFilters q of
        Inl e \<Rightarrow> (Problem (WithDetail InvalidRequest e), w)
      | Inr fs \<Rightarrow>
          (case FilterValues V
             \<lparr>fv_organization = rx_organization rc, fv_user = rx_user rc, fv_resource = trim_space (param q ''resource''),
              fv_field = trim_space (param q ''field''), fv_query = trim_space (param q ''q''), fv_filters = fs,
              fv_limit = limit\<rparr> w of
             (Inl e, w1) \<Rightarrow> (Problem (problemFor e), w1)
           | (Inr vs, w1) \<Rightarrow> (Answer vs, w1)))))"

subsection \<open>Who asks\<close>

text \<open>\<open>strings.Fields\<close>.\<close>

fun fields_from :: "string \<Rightarrow> string \<Rightarrow> string list" where
  "fields_from acc [] = (if acc = [] then [] else [acc])"
| "fields_from acc (c # cs) =
     (if is_space c then (if acc = [] then fields_from [] cs else acc # fields_from [] cs)
      else fields_from (acc @ [c]) cs)"

definition bearerToken :: "string \<Rightarrow> string option" where
  "bearerToken header =
     (case fields_from [] (trim_space header) of
        [scheme, token] \<Rightarrow> if to_lower scheme = ''bearer'' then Some token else None
      | _ \<Rightarrow> None)"

definition normalizeBearerAuthHeader :: "string \<Rightarrow> string option" where
  "normalizeBearerAuthHeader header = map_option (\<lambda>t. ''Bearer '' @ t) (bearerToken header)"

text \<open>\<open>net.SplitHostPort\<close>: the host, if there is exactly one port.\<close>

definition split_last :: "char \<Rightarrow> string \<Rightarrow> (string \<times> string) option" where
  "split_last c s =
     (if c \<notin> set s then None
      else Some (rev (from_char c (rev s)), rev (upto_char c (rev s))))"

definition split_host_port :: "string \<Rightarrow> string option" where
  "split_host_port hostport =
     (case split_last (CHR '':'') hostport of
        None \<Rightarrow> None
      | Some (host, port) \<Rightarrow>
          if take 1 hostport = ''['' then
            (let inner = upto_char (CHR '']'') (drop 1 hostport); rest = from_char (CHR '']'') (drop 1 hostport) in
             if CHR '']'' \<notin> set (drop 1 hostport) \<or> rest \<noteq> '':'' @ port \<or> CHR ''['' \<in> set (drop 1 hostport)
                \<or> CHR '']'' \<in> set rest
             then None else Some inner)
          else if CHR '':'' \<in> set host \<or> CHR ''['' \<in> set hostport \<or> CHR '']'' \<in> set hostport then None
          else Some host)"

definition extractSubdomain :: "string \<Rightarrow> string" where
  "extractSubdomain host =
     (if host = [] then []
      else let h = (case split_host_port host of Some h \<Rightarrow> h | None \<Rightarrow> upto_char (CHR '':'') host) in
           trim_space (upto_char (CHR ''.'') h))"

text \<open>The regular expression \<^verbatim>\<open>^.*/realms/(.*?)/?$\<close>: behind the last \<^verbatim>\<open>/realms/\<close>, without one final slash.\<close>

definition extractTenant :: "string \<Rightarrow> string option" where
  "extractTenant issuer =
     (if CHR 0x0A \<in> set issuer then None
      else case after_last ''/realms/'' issuer of
        None \<Rightarrow> None
      | Some r \<Rightarrow> let t = trim_suffix r ''/'' in if t = [] then None else Some t)"

record web_token =
  wt_issuer :: string
  wt_claim :: "string \<Rightarrow> string option"

record http_caller =
  hc_host :: string
  hc_token :: "web_token option"
  hc_auth_header :: "string option"

record 'w org_middleware =
  om_validate :: "string \<Rightarrow> string \<Rightarrow> 'w \<Rightarrow> (serr + bool) \<times> 'w"
  om_local :: bool
  om_local_org :: string
  om_user_claim :: string

definition NewOrgContextMiddleware ::
  "(string \<Rightarrow> string \<Rightarrow> 'w \<Rightarrow> (serr + bool) \<times> 'w) \<Rightarrow> bool \<Rightarrow> string \<Rightarrow> string \<Rightarrow> 'w org_middleware" where
  "NewOrgContextMiddleware validate is_local local_org claim =
     \<lparr>om_validate = validate, om_local = is_local,
      om_local_org = (if trim_space local_org = [] then ''local'' else trim_space local_org),
      om_user_claim = trim_space claim\<rparr>"

text \<open>\<^verbatim>\<open>ValidateTokenForOrg\<close>: what the TokenReview of kcp says of the token.\<close>

definition ValidateTokenForOrg ::
  "(string \<Rightarrow> 'w \<Rightarrow> (serr + bool) \<times> 'w) \<Rightarrow> string \<Rightarrow> string \<Rightarrow> 'w \<Rightarrow> (serr + bool) \<times> 'w" where
  "ValidateTokenForOrg review header org w =
     (case bearerToken header of
        None \<Rightarrow> (Inl (plain_err ''invalid authorization header''), w)
      | Some token \<Rightarrow>
          (case review token w of
             (Inl e, w1) \<Rightarrow> (Inl (wrap_err ''execute TokenReview'' e), w1)
           | (Inr authenticated, w1) \<Rightarrow> (Inr authenticated, w1)))"

definition caller_context :: "'w org_middleware \<Rightarrow> string \<Rightarrow> web_token \<Rightarrow> problem + request_context" where
  "caller_context M org token =
     (case wt_claim token (om_user_claim M) of
        None \<Rightarrow> Inl AuthenticationRequired
      | Some claim \<Rightarrow>
          let user = trim_space claim in
          if user = [] then Inl AuthenticationRequired
          else (case extractTenant (wt_issuer token) of
                  None \<Rightarrow> Inl AuthenticationRequired
                | Some tenant \<Rightarrow> Inr \<lparr>rx_organization = org, rx_user = user, rx_tenant = tenant\<rparr>))"

definition SetRequestContext :: "'w org_middleware \<Rightarrow> http_caller \<Rightarrow> 'w \<Rightarrow> (problem + request_context) \<times> 'w" where
  "SetRequestContext M c w =
     (let subdomain = extractSubdomain (hc_host c);
          org = (if om_local M then om_local_org M else subdomain) in
      if subdomain = [] then (Inl AuthenticationRequired, w)
      else case hc_token c of
        None \<Rightarrow> (Inl AuthenticationRequired, w)
      | Some token \<Rightarrow>
          if om_local M then (caller_context M org token, w)
          else (case Option.bind (hc_auth_header c) normalizeBearerAuthHeader of
            None \<Rightarrow> (Inl AuthenticationRequired, w)
          | Some header \<Rightarrow>
              (case om_validate M header org w of
                 (Inl e, w1) \<Rightarrow> (Inl AuthenticationUnavailable, w1)
               | (Inr False, w1) \<Rightarrow> (Inl AuthenticationRequired, w1)
               | (Inr True, w1) \<Rightarrow> (caller_context M org token, w1))))"

text \<open>The search route: the middleware, then the handler.\<close>

definition serve_search ::
  "'w org_middleware \<Rightarrow> 'w service \<Rightarrow> http_caller \<Rightarrow> params \<Rightarrow> 'w \<Rightarrow>
   (search_response + (string \<times> search_response) list) http_answer \<times> 'w" where
  "serve_search M V c q w =
     (case SetRequestContext M c w of
        (Inl p, w1) \<Rightarrow> (Problem p, w1)
      | (Inr rc, w1) \<Rightarrow> search_endpoint V (Some rc) q w1)"

subsection \<open>What is shown\<close>

definition shown_hits :: "search_response + (string \<times> search_response) list \<Rightarrow> search_hit set" where
  "shown_hits a = (case a of Inl r \<Rightarrow> set (sp_results r) | Inr rs \<Rightarrow> (\<Union>e \<in> set rs. set (sp_results (snd e))))"

lemma search_resources_searched:
  "search_resources V request rs out w = (Inr out', w') \<Longrightarrow> e \<in> set out' \<Longrightarrow>
     e \<in> set out \<or> (\<exists>r w1 w2. Search V (request r) w1 = (Inr (snd e), w2))"
proof (induction rs arbitrary: out w)
  case (Cons r rs)
  then obtain resp w1 where s: "Search V (request r) w = (Inr resp, w1)"
    and rest: "search_resources V request rs (obj_put r resp out) w1 = (Inr out', w')"
    by (auto split: prod.splits sum.splits)
  from Cons.IH [OF rest Cons.prems(2)] s set_obj_put [of r resp out] show ?case by fastforce
qed simp

lemma shown_answer:
  assumes "(case r of (Inl e, w1) \<Rightarrow> (Problem (problemFor e), w1)
      | (Inr [(k, resp)], w1) \<Rightarrow> (Answer (Inl resp), w1)
      | (Inr results, w1) \<Rightarrow> (Answer (Inr results), w1)) = (Answer ans, w')"
    and "x \<in> shown_hits ans"
  shows "\<exists>out. r = (Inr out, w') \<and> (\<exists>e \<in> set out. x \<in> set (sp_results (snd e)))"
proof (cases r)
  case (Pair res w1)
  show ?thesis
  proof (cases res)
    case (Inr out)
    show ?thesis
    proof (cases out)
      case (Cons e es)
      then show ?thesis using assms Pair Inr by (cases e; cases es) (auto simp: shown_hits_def)
    qed (use assms Pair Inr in \<open>auto simp: shown_hits_def\<close>)
  qed (use assms Pair in auto)
qed

lemma search_endpoint_searched:
  assumes "search_endpoint V (Some rc) q w = (Answer ans, w')" and "x \<in> shown_hits ans"
  shows "\<exists>req resp w1 w2. rq_organization req = rx_organization rc \<and> rq_user req = rx_user rc \<and>
    Search V req w1 = (Inr resp, w2) \<and> x \<in> set (sp_results resp)"
proof -
  have rc: "GetRequestContext (Some rc) = Some rc"
    using assms(1) by (auto simp: search_endpoint_def GetRequestContext_def split: if_splits)
  note start = assms(1) [unfolded search_endpoint_def rc option.case]
  obtain limit where l: "parseOptionalLimit (param q ''limit'') = Some limit"
    using start by (cases "parseOptionalLimit (param q ''limit'')") (simp_all only: option.case prod.inject http_answer.distinct simp_thms)
  obtain page where p: "parseOptionalPage (param q ''page'') = Inr page"
    using start by (cases "parseOptionalPage (param q ''page'')") (simp_all only: l option.case sum.case prod.inject http_answer.distinct simp_thms)
  obtain fs role where f: "parseSearchFilters q = Inr (fs, role)"
    using start by (cases "parseSearchFilters q") (simp_all only: l p option.case sum.case prod.inject http_answer.distinct simp_thms, fastforce)
  obtain rs where r: "resolveResources (trim_space (param q ''resource'')) (param q ''resources'') (fs \<noteq> [] \<or> role \<noteq> []) = Some rs"
    using start by (cases "resolveResources (trim_space (param q ''resource'')) (param q ''resources'') (fs \<noteq> [] \<or> role \<noteq> [])")
      (simp_all only: l p f option.case sum.case prod.case prod.inject http_answer.distinct simp_thms)
  note answer = start [unfolded l p f r option.case sum.case prod.case]
  obtain out e where out: "search_resources V
      (\<lambda>r. \<lparr>rq_organization = rx_organization rc, rq_user = rx_user rc,
            rq_query = trim_space (param q ''q''), rq_mode = trim_space (param q ''mode''), rq_resource = r,
            rq_filters = fs, rq_role = role, rq_limit = limit, rq_page = page,
            rq_cursor = trim_space (param q ''cursor'')\<rparr>) rs [] w = (Inr out, w')"
    and e: "e \<in> set out" "x \<in> set (sp_results (snd e))"
    using shown_answer [OF answer assms(2)] by blast
  from search_resources_searched [OF out e(1)] e(2) show ?thesis
    by (metis empty_iff list.set(1) search_request.select_convs(1,2))
qed

text \<open>Whose request it is: what the middleware vouches for.\<close>

lemma SetRequestContext_caller:
  assumes "SetRequestContext M c w = (Inr rc, w')"
  shows "rx_organization rc = (if om_local M then om_local_org M else extractSubdomain (hc_host c))"
    and "\<exists>token claim. hc_token c = Some token \<and> wt_claim token (om_user_claim M) = Some claim \<and> rx_user rc = trim_space claim"
    and "om_local M \<or> (\<exists>header. Option.bind (hc_auth_header c) normalizeBearerAuthHeader = Some header \<and>
           om_validate M header (rx_organization rc) w = (Inr True, w'))"
  using assms
  by (auto simp: SetRequestContext_def caller_context_def Let_def split: option.splits if_splits sum.splits bool.splits prod.splits)

end
