(* ===== verification/Search_Errors.thy ===== *)
theory Search_Errors
  imports Search_Http
begin

text \<open>
  Backend errors do not reach the caller. A backend that reports the same failures under other texts
  (\<open>reworded\<close>) cannot be told from the original by the answers of the three endpoints.
\<close>

subsection \<open>Rewording\<close>

definition text_only :: "(serr \<Rightarrow> serr) \<Rightarrow> bool" where
  "text_only m \<longleftrightarrow> (\<forall>e. se_is (m e) = se_is e \<and> se_timeout (m e) = se_timeout e)"

definition reword :: "(serr \<Rightarrow> serr) \<Rightarrow> (serr + 'a) \<times> 'w \<Rightarrow> (serr + 'a) \<times> 'w" where
  "reword m r = map_prod (map_sum m id) id r"

definition reworded :: "(serr \<Rightarrow> serr) \<Rightarrow> 'w service \<Rightarrow> 'w service" where
  "reworded m V = (let B = sv_backends V in V\<lparr>sv_backends :=
     \<lparr>bk_resolve = (\<lambda>org r w. reword m (bk_resolve B org r w)), bk_indices = (\<lambda>org w. reword m (bk_indices B org w)),
      bk_search = (\<lambda>q w. reword m (bk_search B q w)),
      bk_accounts = (\<lambda>org u r w. reword m (bk_accounts B org u r w)),
      bk_filter = (\<lambda>q w. reword m (bk_filter B q w)), bk_sha = bk_sha B\<rparr>\<rparr>)"

text \<open>Two results that the endpoints show alike.\<close>

definition shown :: "(serr + 'a) \<times> 'w \<Rightarrow> (problem + 'a) \<times> 'w" where
  "shown r = map_prod (map_sum problemFor id) id r"

lemma shown_simps [simp]: "shown (Inl e, w) = (Inl (problemFor e), w)" "shown (Inr x, w) = (Inr x, w)"
  by (simp_all add: shown_def)

lemma reworded_simps [simp]:
  "sv_json (reworded m V) = sv_json V" "sv_max_scanned (reworded m V) = sv_max_scanned V"
  "sv_batch (reworded m V) = sv_batch V" "sv_default_limit (reworded m V) = sv_default_limit V"
  "sv_max_limit (reworded m V) = sv_max_limit V" "bk_sha (sv_backends (reworded m V)) = bk_sha (sv_backends V)"
  "bk_resolve (sv_backends (reworded m V)) org r w = reword m (bk_resolve (sv_backends V) org r w)"
  "bk_indices (sv_backends (reworded m V)) org w = reword m (bk_indices (sv_backends V) org w)"
  "bk_search (sv_backends (reworded m V)) q w = reword m (bk_search (sv_backends V) q w)"
  "bk_accounts (sv_backends (reworded m V)) org u r w = reword m (bk_accounts (sv_backends V) org u r w)"
  "bk_filter (sv_backends (reworded m V)) a w = reword m (bk_filter (sv_backends V) a w)"
  by (simp_all add: reworded_def Let_def)

text \<open>Only the two kinds of request errors show their text.\<close>

lemma problemFor_sentinel:
  "s \<noteq> ErrInvalidCursor \<Longrightarrow> s \<noteq> ErrInvalidRequest \<Longrightarrow> problemFor (sentinel_err s t) = problemFor (sentinel_err s t')"
  by (cases s) (simp_all add: problemFor_def sentinel_err_def)

lemma problemFor_backendErr:
  assumes "text_only m" and "s \<noteq> ErrInvalidCursor" and "s \<noteq> ErrInvalidRequest"
  shows "problemFor (backendErr s op (m e)) = problemFor (backendErr s op e)"
  using assms unfolding backendErr_def text_only_def by (auto intro!: problemFor_sentinel)

lemma problemFor_accounts:
  "text_only m \<Longrightarrow> problemFor (accounts_error P (m e)) = problemFor (accounts_error P e)"
  using problemFor_backendErr [of m ErrAuthzBackend] by (simp add: accounts_error_def text_only_def)

subsection \<open>The service\<close>

lemma bounded_limit_reworded [simp]: "bounded_limit (reworded m V) l = bounded_limit V l"
  unfolding bounded_limit_def reworded_simps ..

lemma page_offset_reworded [simp]: "page_offset (reworded m V) req l = page_offset V req l"
  unfolding page_offset_def reworded_simps ..

lemma hashes_reworded [simp]:
  "queryHash (sv_backends (reworded m V)) q = queryHash (sv_backends V) q"
  "cursorFiltersHash (sv_backends (reworded m V)) fs r = cursorFiltersHash (sv_backends V) fs r"
  unfolding queryHash_def cursorFiltersHash_def filtersHash_def reworded_simps by (rule refl)+

lemma plan_reworded [simp]:
  "plan_search (reworded m V) req = plan_search V req" "plan_cursor (reworded m V) P sa = plan_cursor V P sa"
  "resume_at (reworded m V) req P = resume_at V req P" "plan_query (reworded m V) P G accounts sa = plan_query V P G accounts sa"
  "value_query (reworded m V) = value_query V"
  unfolding plan_search_def plan_cursor_def resume_at_def plan_query_def value_query_def fun_eq_iff
    reworded_simps bounded_limit_reworded page_offset_reworded hashes_reworded
  by simp_all

lemma search_answer_reworded [simp]: "search_answer (reworded m V) P ex n s = search_answer V P ex n s"
  unfolding search_answer_def reworded_simps plan_reworded ..

lemma scans_reworded [simp]:
  "scan_hits (reworded m V) P G allowed i hs s = scan_hits V P G allowed i hs s"
  "value_hits (reworded m V) limit path allowed i hs p = value_hits V limit path allowed i hs p"
  by (induction hs arbitrary: i s p) (auto simp: Let_def split: prod.splits bool.splits)

lemma find_target_reworded:
  assumes "text_only m"
  shows "shown (find_target (reworded m V) P w) = shown (find_target V P w)"
  using problemFor_backendErr [OF assms, of ErrSearchBackend]
  by (simp add: find_target_def reword_def split: prod.split sum.split option.split)

lemma search_pages_reworded:
  assumes "text_only m"
  shows "shown (search_pages (reworded m V) P G accounts sa n s w) = shown (search_pages V P G accounts sa n s w)"
proof (induction "nat (sv_max_scanned V - sn_scanned s)" arbitrary: sa n s w rule: less_induct)
  case less
  note pb = problemFor_backendErr [OF assms, of ErrSearchBackend] problemFor_backendErr [OF assms, of ErrAuthzBackend]
  have IH: "shown (search_pages (reworded m V) P G accounts sa' n' s' w') = shown (search_pages V P G accounts sa' n' s' w')"
    if "scan_hits V P G allowed 0 (pa_hits page) s = (False, s')" "pa_hits page \<noteq> []" for sa' n' s' w' allowed page
    using less scan_hits_progress [OF that] by simp
  show ?case
    using pb IH search_pages.simps [of "reworded m V" P G accounts sa n s w] search_pages.simps [of V P G accounts sa n s w]
    by (auto simp: reword_def split: prod.split sum.split bool.split)
qed

lemma value_pages_reworded:
  assumes "text_only m"
  shows "shown (value_pages (reworded m V) query request limit path sa (n, found) w)
       = shown (value_pages V query request limit path sa (n, found) w)"
proof (induction "nat (sv_max_scanned V - n)" arbitrary: sa n found w rule: less_induct)
  case less
  note pb = problemFor_backendErr [OF assms, of ErrSearchBackend] problemFor_backendErr [OF assms, of ErrAuthzBackend]
  have IH: "shown (value_pages (reworded m V) query request limit path sa' (n', found') w')
      = shown (value_pages V query request limit path sa' (n', found') w')"
    if "value_hits V limit path allowed 0 (pa_hits page) (n, found) = (False, n', found')" "pa_hits page \<noteq> []"
    for sa' n' found' w' allowed page
    using less value_hits_progress [OF that] by simp
  show ?case
    using pb IH value_pages.simps [of "reworded m V" query request limit path sa n found w]
      value_pages.simps [of V query request limit path sa n found w]
    by (auto simp: reword_def split: prod.split sum.split bool.split)
qed

lemma shown_cases:
  assumes "shown r = shown r'"
  obtains e e' w where "r = (Inl e, w)" and "r' = (Inl e', w)" and "problemFor e = problemFor e'"
  | x w where "r = (Inr x, w)" and "r' = (Inr x, w)"
  using assms by (cases r; cases "fst r"; cases r'; cases "fst r'") (auto simp: shown_def)

lemma run_search_reworded:
  assumes "text_only m"
  shows "shown (run_search (reworded m V) P sa w) = shown (run_search V P sa w)"
proof (cases "bk_accounts (sv_backends V) (pl_org P) (pl_user P) (pl_role P) w")
  case (Pair r w1)
  show ?thesis
  proof (cases r)
    case (Inl e)
    then show ?thesis using Pair problemFor_accounts [OF assms] by (simp add: run_search_def reword_def)
  next
    case (Inr accounts)
    note t = find_target_reworded [OF assms, of V P w1]
    from t show ?thesis
    proof (cases rule: shown_cases)
      case (2 G w2)
      from search_pages_reworded [OF assms, of V P G accounts sa 0 empty_scan w2] show ?thesis
        by (cases rule: shown_cases) (auto simp: run_search_def Pair Inr reword_def 2)
    qed (auto simp: run_search_def Pair Inr reword_def)
  qed
qed

lemma Search_reworded: "text_only m \<Longrightarrow> shown (Search (reworded m V) req w) = shown (Search V req w)"
  using run_search_reworded [of m V] by (simp add: Search_def split: sum.split)

lemma ListResources_reworded:
  "text_only m \<Longrightarrow> shown (ListResources (reworded m V) org w) = shown (ListResources V org w)"
  using problemFor_backendErr [of m ErrSearchBackend]
  by (simp add: ListResources_def reword_def Let_def split: prod.split sum.split)

text \<open>The last step of \<^verbatim>\<open>FilterValues\<close>, then the steps before it, one backend call at a time.\<close>

lemma sorted_values_reworded:
  assumes "text_only m"
  shows "shown (case value_pages (reworded m V) query request limit path sa (n, found) w of
        (Inl e, w3) \<Rightarrow> (Inl e, w3) | (Inr vs, w3) \<Rightarrow> (Inr (f vs), w3))
    = shown (case value_pages V query request limit path sa (n, found) w of
        (Inl e, w3) \<Rightarrow> (Inl e, w3) | (Inr vs, w3) \<Rightarrow> (Inr (f vs), w3))"
  using value_pages_reworded [OF assms, of V query request limit path sa n found w]
  by (cases rule: shown_cases) auto

lemma shown_bind:
  assumes "\<And>e w1. r = (Inl e, w1) \<Longrightarrow> problemFor (op (m e)) = problemFor (op e)"
    and "\<And>x w1. r = (Inr x, w1) \<Longrightarrow> shown (k' x w1) = shown (k x w1)"
  shows "shown (case reword m r of (Inl e, w1) \<Rightarrow> (Inl (op e), w1) | (Inr x, w1) \<Rightarrow> k' x w1)
    = shown (case r of (Inl e, w1) \<Rightarrow> (Inl (op e), w1) | (Inr x, w1) \<Rightarrow> k x w1)"
  using assms by (cases r; cases "fst r") (auto simp: reword_def)

lemma FilterValues_reworded:
  assumes "text_only m"
  shows "shown (FilterValues (reworded m V) req w) = shown (FilterValues V req w)"
proof -
  note pb = problemFor_backendErr [OF assms, of ErrSearchBackend, simplified]
    problemFor_backendErr [OF assms, of ErrAuthzBackend, simplified]
  show ?thesis
    unfolding FilterValues_def plan_reworded reworded_simps bounded_limit_reworded Let_def
    apply (simp only: if_distrib [where f = shown])
    apply (intro if_cong refl)
    apply (rule shown_bind)
     apply (rule pb)
    apply (simp only: if_distrib [where f = shown] option.case_distrib [where h = shown])
    apply (intro if_cong refl option.case_cong)
    apply (rule shown_bind)
     apply (rule pb)
    apply (simp only: if_distrib [where f = shown] sorted_values_reworded [OF assms])
    done
qed

subsection \<open>The endpoints\<close>

lemma search_resources_reworded:
  assumes "text_only m"
  shows "shown (search_resources (reworded m V) request rs out w) = shown (search_resources V request rs out w)"
proof (induction rs arbitrary: out w)
  case (Cons r rs)
  from Search_reworded [OF assms, of V "request r" w] show ?case
    by (cases rule: shown_cases) (auto simp: Cons)
qed simp

lemma search_endpoint_reworded:
  assumes "text_only m"
  shows "search_endpoint (reworded m V) ctx q w = search_endpoint V ctx q w"
proof -
  have "(case search_resources (reworded m V) request rs out w of
        (Inl e, w1) \<Rightarrow> (Problem (problemFor e), w1)
      | (Inr [(r, resp)], w1) \<Rightarrow> (Answer (Inl resp), w1)
      | (Inr results, w1) \<Rightarrow> (Answer (Inr results), w1))
    = (case search_resources V request rs out w of
        (Inl e, w1) \<Rightarrow> (Problem (problemFor e), w1)
      | (Inr [(r, resp)], w1) \<Rightarrow> (Answer (Inl resp), w1)
      | (Inr results, w1) \<Rightarrow> (Answer (Inr results), w1))" for request rs out w
    using search_resources_reworded [OF assms, of V request rs out w]
    by (cases rule: shown_cases) (auto split: list.splits)
  then show ?thesis unfolding search_endpoint_def by (simp only:)
qed

lemma resources_endpoint_reworded:
  assumes "text_only m"
  shows "resources_endpoint (reworded m V) ctx w = resources_endpoint V ctx w"
proof (cases "GetRequestContext ctx")
  case (Some rc)
  from ListResources_reworded [OF assms, of V "rx_organization rc" w] show ?thesis
    by (cases rule: shown_cases) (auto simp: resources_endpoint_def Some)
qed (simp add: resources_endpoint_def)

lemma values_endpoint_reworded:
  assumes "text_only m"
  shows "values_endpoint (reworded m V) ctx q w = values_endpoint V ctx q w"
proof -
  have "(case FilterValues (reworded m V) req w of
        (Inl e, w1) \<Rightarrow> (Problem (problemFor e), w1) | (Inr vs, w1) \<Rightarrow> (Answer vs, w1))
    = (case FilterValues V req w of
        (Inl e, w1) \<Rightarrow> (Problem (problemFor e), w1) | (Inr vs, w1) \<Rightarrow> (Answer vs, w1))" for req w
    using FilterValues_reworded [OF assms, of V req w] by (cases rule: shown_cases) auto
  then show ?thesis unfolding values_endpoint_def by (simp only:)
qed

end
