(* ===== verification/Search_Laws.thy ===== *)
theory Search_Laws
  imports Search_Service
begin

text \<open>
  What the scan of a search computes. Over a decision about each hit, paging drops out: the scan of the pages
  is the scan of all hits behind the cursor (\<open>scan_pages\<close>), and that scan selects a window of the authorized
  hits (\<open>scan_outcome\<close>).
\<close>

subsection \<open>The scan over decided hits\<close>

definition hit_result :: "search_plan \<Rightarrow> search_target \<Rightarrow> os_hit \<Rightarrow> search_hit" where
  "hit_result P G h = mapHit h (resolveHitResource h (pl_resource P) (tg_resources G))"

fun scan_decided ::
  "'w service \<Rightarrow> search_plan \<Rightarrow> search_target \<Rightarrow> (os_hit \<Rightarrow> bool) \<Rightarrow> os_hit list \<Rightarrow> scan \<Rightarrow> bool \<times> scan" where
  "scan_decided V P G A [] s = (False, s)"
| "scan_decided V P G A (h # hs) s =
     (let n = sn_scanned s + 1; a = sn_authorized s + 1 in
      if n > sv_max_scanned V then (True, s\<lparr>sn_scanned := n\<rparr>)
      else if \<not> A h then scan_decided V P G A hs (s\<lparr>sn_scanned := n, sn_next := hit_sort h\<rparr>)
      else if a \<le> pl_offset P
      then scan_decided V P G A hs (s\<lparr>sn_scanned := n, sn_next := hit_sort h, sn_authorized := a\<rparr>)
      else let s' = s\<lparr>sn_scanned := n, sn_next := hit_sort h, sn_authorized := a,
                      sn_results := sn_results s @ [hit_result P G h]\<rparr> in
           if int (length (sn_results s')) = pl_limit P then (True, s') else scan_decided V P G A hs s')"

lemma scan_hits_decided:
  "scan_hits V P G (map A (pre @ hs)) (length pre) hs s = scan_decided V P G A hs s"
proof (induction hs arbitrary: pre s)
  case (Cons h hs)
  have "scan_hits V P G (map A (pre @ h # hs)) (Suc (length pre)) hs s = scan_decided V P G A hs s" for s
    using Cons.IH [of "pre @ [h]" s] by simp
  then show ?case by (cases "A h") (simp_all add: Let_def nth_append hit_result_def)
qed simp

lemma scan_decided_append:
  "scan_decided V P G A (xs @ ys) s =
     (case scan_decided V P G A xs s of (True, s') \<Rightarrow> (True, s') | (False, s') \<Rightarrow> scan_decided V P G A ys s')"
  by (induction xs arbitrary: s) (auto simp: Let_def)

text \<open>The k hits that were looked at say everything about the outcome.\<close>

definition scan_outcome ::
  "'w service \<Rightarrow> search_plan \<Rightarrow> search_target \<Rightarrow> (os_hit \<Rightarrow> bool) \<Rightarrow> os_hit list \<Rightarrow> nat \<Rightarrow> scan \<Rightarrow> bool \<Rightarrow> scan \<Rightarrow> bool" where
  "scan_outcome V P G A hs k s ended s' \<longleftrightarrow>
     k \<le> length hs \<and>
     sn_results s' = sn_results s
       @ map (hit_result P G) (drop (nat (pl_offset P - sn_authorized s)) (filter A (take k hs))) \<and>
     sn_next s' = (if k = 0 then sn_next s else hit_sort (hs ! (k - 1))) \<and>
     (k = 0 \<or> sn_scanned s + int k \<le> sv_max_scanned V) \<and>
     int (length (sn_results s')) \<le> pl_limit P \<and>
     (if ended then int (length (sn_results s')) = pl_limit P \<or> (k < length hs \<and> sn_scanned s + int k \<ge> sv_max_scanned V)
      else k = length hs)"

lemma scan_outcome_Cons:
  assumes "scan_outcome V P G A hs k s1 ended s'" and "sn_scanned s1 = sn_scanned s + 1" and "sn_next s1 = hit_sort h"
    and "sn_scanned s1 \<le> sv_max_scanned V"
    and "sn_results s1 @ map (hit_result P G) (drop (nat (pl_offset P - sn_authorized s1)) (filter A (take k hs)))
       = sn_results s @ map (hit_result P G) (drop (nat (pl_offset P - sn_authorized s)) (filter A (take (Suc k) (h # hs))))"
  shows "scan_outcome V P G A (h # hs) (Suc k) s ended s'"
  using assms unfolding scan_outcome_def by (auto simp: nth_Cons' split: if_splits)

lemma scan_decided_outcome:
  assumes "scan_decided V P G A hs s = (ended, s')" and "int (length (sn_results s)) < pl_limit P"
  shows "\<exists>k. scan_outcome V P G A hs k s ended s'"
  using assms
proof (induction hs arbitrary: s)
  case Nil
  then show ?case by (auto simp: scan_outcome_def)
next
  case (Cons h hs)
  let ?n = "sn_scanned s + 1" and ?a = "sn_authorized s + 1"
  consider "?n > sv_max_scanned V" | "?n \<le> sv_max_scanned V" "\<not> A h"
    | "?n \<le> sv_max_scanned V" "A h" "?a \<le> pl_offset P" | "?n \<le> sv_max_scanned V" "A h" "\<not> ?a \<le> pl_offset P"
    by linarith
  then show ?case
  proof cases
    case 1
    then show ?thesis using Cons.prems by (intro exI [of _ 0]) (auto simp: scan_outcome_def Let_def)
  next
    case 2
    let ?s = "s\<lparr>sn_scanned := ?n, sn_next := hit_sort h\<rparr>"
    obtain k where k: "scan_outcome V P G A hs k ?s ended s'" using Cons.IH [of ?s] Cons.prems 2 by (auto simp: Let_def)
    show ?thesis by (rule exI [of _ "Suc k"], rule scan_outcome_Cons [OF k]) (use 2 in auto)
  next
    case 3
    let ?s = "s\<lparr>sn_scanned := ?n, sn_next := hit_sort h, sn_authorized := ?a\<rparr>"
    obtain k where k: "scan_outcome V P G A hs k ?s ended s'" using Cons.IH [of ?s] Cons.prems 3 by (auto simp: Let_def)
    have "nat (pl_offset P - sn_authorized s) = Suc (nat (pl_offset P - ?a))" using 3 by simp
    then show ?thesis by (intro exI [of _ "Suc k"] scan_outcome_Cons [OF k]) (use 3 in auto)
  next
    case 4
    let ?s = "s\<lparr>sn_scanned := ?n, sn_next := hit_sort h, sn_authorized := ?a,
                sn_results := sn_results s @ [hit_result P G h]\<rparr>"
    have o: "nat (pl_offset P - sn_authorized s) = 0" "nat (pl_offset P - ?a) = 0" using 4 by simp_all
    show ?thesis
    proof (cases "int (length (sn_results ?s)) = pl_limit P")
      case True
      then have "scan_outcome V P G A (h # hs) 1 s ended s'"
        using Cons.prems 4 o by (auto simp: scan_outcome_def Let_def)
      then show ?thesis by blast
    next
      case False
      then obtain k where k: "scan_outcome V P G A hs k ?s ended s'"
        using Cons.IH [of ?s] Cons.prems 4 by (auto simp: Let_def)
      show ?thesis by (rule exI [of _ "Suc k"], rule scan_outcome_Cons [OF k]) (use 4 o in auto)
    qed
  qed
qed

subsection \<open>A frozen index\<close>

text \<open>
  What OpenSearch documents of \<^verbatim>\<open>search_after\<close> over a total order: while nothing is indexed, a query ranks
  its hits, a page is the next \<^verbatim>\<open>size\<close> of them behind the given sort key, and sort keys are distinct. The
  decision about a hit is the same whenever it is asked for.
\<close>

definition hits_after :: "json list \<Rightarrow> os_hit list \<Rightarrow> os_hit list" where
  "hits_after sa hs = (if sa = [] then hs else drop 1 (dropWhile (\<lambda>h. hit_sort h \<noteq> sa) hs))"

definition ranks :: "'w backends \<Rightarrow> (os_query \<Rightarrow> os_hit list) \<Rightarrow> bool" where
  "ranks B rank \<longleftrightarrow>
     (\<forall>q w p w'. bk_search B q w = (Inr p, w') \<longrightarrow> 0 < oq_size q \<longrightarrow>
        pa_hits p = take (nat (oq_size q)) (hits_after (oq_after q) (rank (q\<lparr>oq_after := []\<rparr>)))) \<and>
     (\<forall>q. distinct (map hit_sort (rank q)) \<and> [] \<notin> hit_sort ` set (rank q))"

definition decides :: "'w backends \<Rightarrow> search_plan \<Rightarrow> (os_hit \<Rightarrow> bool) \<Rightarrow> bool" where
  "decides B P A \<longleftrightarrow>
     (\<forall>hits w r w'. bk_filter B (get_request P hits) w = (Inr r, w') \<longrightarrow> ar_allowed r = map A hits)"

lemma hits_after_Nil [simp]: "hits_after [] hs = hs"
  by (simp add: hits_after_def)

lemma dropWhile_to_key: "distinct (map f hs) \<Longrightarrow> j < length hs \<Longrightarrow> dropWhile (\<lambda>h. f h \<noteq> f (hs ! j)) hs = drop j hs"
proof (induction hs arbitrary: j)
  case (Cons h hs)
  show ?case
  proof (cases j)
    case (Suc i)
    have "f h \<noteq> f (hs ! i)" using Cons.prems Suc by (auto simp: image_iff)
    then show ?thesis using Cons Suc by simp
  qed simp
qed simp

lemma hits_after_suffix: "\<exists>m. hits_after sa hs = drop m hs"
proof (cases "sa = []")
  case True
  then have "hits_after sa hs = drop 0 hs" by simp
  then show ?thesis by blast
next
  case False
  have "dropWhile (\<lambda>h. hit_sort h \<noteq> sa) hs = drop (length (takeWhile (\<lambda>h. hit_sort h \<noteq> sa) hs)) hs"
    by (rule dropWhile_eq_drop)
  then show ?thesis using False by (auto simp: hits_after_def)
qed

lemma hits_after_next:
  assumes "distinct (map hit_sort hs)" and "[] \<notin> hit_sort ` set hs" and "n < length (hits_after sa hs)"
  shows "hits_after (hit_sort (hits_after sa hs ! n)) hs = drop (Suc n) (hits_after sa hs)"
proof -
  obtain m where m: "hits_after sa hs = drop m hs" using hits_after_suffix by blast
  then have j: "m + n < length hs" using assms(3) by simp
  then have "hit_sort (hs ! (m + n)) \<noteq> []" using assms(2) by (metis image_eqI nth_mem)
  then show ?thesis
    using m j dropWhile_to_key [OF assms(1) j] by (simp add: hits_after_def drop_Suc add.commute)
qed

lemma ranks_page:
  assumes "ranks B rank" and "bk_search B q w = (Inr p, w')" and "0 < oq_size q"
  shows "pa_hits p = take (nat (oq_size q)) (hits_after (oq_after q) (rank (q\<lparr>oq_after := []\<rparr>)))"
  using assms unfolding ranks_def by blast

lemma ranks_keys: "ranks B rank \<Longrightarrow> distinct (map hit_sort (rank q)) \<and> [] \<notin> hit_sort ` set (rank q)"
  by (simp add: ranks_def)

lemma decidesD:
  "decides B P A \<Longrightarrow> bk_filter B (get_request P hits) w = (Inr r, w') \<Longrightarrow> ar_allowed r = map A hits"
  unfolding decides_def by blast

lemma scan_decided_open:
  "scan_decided V P G A hs s = (False, s') \<Longrightarrow> int (length (sn_results s)) < pl_limit P \<Longrightarrow>
     int (length (sn_results s')) < pl_limit P"
proof (induction hs arbitrary: s)
  case (Cons h hs)
  then show ?case by (fastforce simp: Let_def split: if_splits)
qed simp

lemma plan_query_after [simp]:
  "(plan_query V P G accounts sa)\<lparr>oq_after := sb\<rparr> = plan_query V P G accounts sb"
  "oq_after (plan_query V P G accounts sa) = sa" "oq_size (plan_query V P G accounts sa) = sv_batch V"
  by (simp_all add: plan_query_def)

text \<open>Paging drops out.\<close>

lemma scan_pages:
  assumes "ranks (sv_backends V) rank" and "decides (sv_backends V) P A" and "0 < sv_batch V"
    and "search_pages V P G accounts sa n s w = (Inr (exhausted, n', s'), w')"
    and "int (length (sn_results s)) < pl_limit P"
  shows "scan_decided V P G A (hits_after sa (rank (plan_query V P G accounts []))) s = (\<not> exhausted, s')"
  using assms(4,5)
proof (induction "nat (sv_max_scanned V - sn_scanned s)" arbitrary: sa n s w rule: less_induct)
  case less
  let ?R = "rank (plan_query V P G accounts [])"
  let ?hits = "hits_after sa ?R" and ?k = "nat (sv_batch V)"
  have R: "distinct (map hit_sort ?R)" "[] \<notin> hit_sort ` set ?R" using ranks_keys [OF assms(1)] by auto
  obtain page w1 where page: "bk_search (sv_backends V) (plan_query V P G accounts sa) w = (Inr page, w1)"
    using less.prems by (subst (asm) search_pages.simps) (auto split: prod.splits sum.splits)
  have hits: "pa_hits page = take ?k ?hits" using ranks_page [OF assms(1) page] assms(3) by simp
  show ?case
  proof (cases "pa_hits page = []")
    case True
    then have "?hits = []" using hits assms(3) by simp
    then show ?thesis using less.prems page True by (subst (asm) search_pages.simps) auto
  next
    case False
    then obtain authz w2 where f: "bk_filter (sv_backends V) (get_request P (pa_hits page)) w1 = (Inr authz, w2)"
      using less.prems page by (subst (asm) search_pages.simps) (auto split: prod.splits sum.splits)
    obtain ended s1 where s1: "scan_decided V P G A (pa_hits page) s = (ended, s1)" by fastforce
    have scan: "scan_hits V P G (ar_allowed authz) 0 (pa_hits page) s = (ended, s1)"
      using scan_hits_decided [of V P G A "[]" "pa_hits page"] s1 decidesD [OF assms(2) f] by simp
    have split: "scan_decided V P G A ?hits s = (if ended then (True, s1) else scan_decided V P G A (drop ?k ?hits) s1)"
      using scan_decided_append [of V P G A "take ?k ?hits" "drop ?k ?hits" s] s1 hits by simp
    consider "ended" | "\<not> ended" "int (length (pa_hits page)) < sv_batch V" | "\<not> ended" "\<not> int (length (pa_hits page)) < sv_batch V"
      by blast
    then show ?thesis
    proof cases
      case 1
      then show ?thesis
        using less.prems page f scan False split by (subst (asm) search_pages.simps) auto
    next
      case 2
      then have "drop ?k ?hits = []" using hits by (auto simp: min_def split: if_splits)
      then show ?thesis
        using less.prems page f scan False split 2 by (subst (asm) search_pages.simps) auto
    next
      case 3
      then have "length (pa_hits page) = ?k" using hits by (auto simp: min_def split: if_splits)
      then have "?hits ! (?k - 1) = last (pa_hits page)" "?k - 1 < length ?hits" "0 < ?k"
        using hits False assms(3) by (auto simp: last_conv_nth)
      then have last: "hits_after (hit_sort (last (pa_hits page))) ?R = drop ?k ?hits"
        using hits_after_next [OF R, of "?k - 1" sa] by simp
      have "search_pages V P G accounts (hit_sort (last (pa_hits page))) (pa_total page) s1 w2
          = (Inr (exhausted, n', s'), w')"
        using less.prems page f scan False 3 by (subst (asm) search_pages.simps) auto
      moreover have "nat (sv_max_scanned V - sn_scanned s1) < nat (sv_max_scanned V - sn_scanned s)"
        using scan_hits_progress [of V P G "ar_allowed authz" 0 "pa_hits page" s s1] scan 3(1) False by auto
      ultimately show ?thesis
        using less.hyps [of s1 "hit_sort (last (pa_hits page))" "pa_total page" w2] last
          scan_decided_open [of V P G A "pa_hits page" s s1, OF _ less.prems(2)] s1 split 3(1) by auto
    qed
  qed
qed

subsection \<open>The window of a search\<close>

lemma drop_filter_take_prefix:
  assumes "k \<le> n"
  shows "\<exists>ys. drop d (filter A (take n hs)) = drop d (filter A (take k hs)) @ ys"
proof -
  have "take n hs = take k hs @ drop k (take n hs)"
    using assms by (metis append_take_drop_id min.absorb1 take_take)
  then have "drop d (filter A (take n hs)) = drop d (filter A (take k hs)) @ drop (d - length (filter A (take k hs))) (filter A (drop k (take n hs)))"
    by (metis drop_append filter_append)
  then show ?thesis by blast
qed

text \<open>The window: the authorized hits among those that may be scan_outcome, without the skipped ones, at most a page.\<close>

definition window ::
  "'w service \<Rightarrow> search_plan \<Rightarrow> search_target \<Rightarrow> (os_hit \<Rightarrow> bool) \<Rightarrow> os_hit list \<Rightarrow> search_hit list" where
  "window V P G A hs =
     map (hit_result P G)
       (take (nat (pl_limit P)) (drop (nat (pl_offset P)) (filter A (take (nat (sv_max_scanned V)) hs))))"

lemma scan_outcome_window:
  assumes "scan_outcome V P G A hs k empty_scan ended s'" and "0 < sv_max_scanned V"
  shows "sn_results s' = window V P G A hs"
proof -
  let ?d = "nat (pl_offset P)" and ?m = "nat (sv_max_scanned V)"
  let ?seen = "drop ?d (filter A (take k hs))"
  note s = assms(1) [unfolded scan_outcome_def empty_scan_def, simplified]
  have k: "k \<le> ?m" using s assms(2) by auto
  have len: "length ?seen \<le> nat (pl_limit P)" using s by auto
  have "take (nat (pl_limit P)) (drop ?d (filter A (take ?m hs))) = ?seen"
  proof (cases "k = length hs \<or> k = ?m")
    case True
    then have "take ?m hs = take k hs" using k by auto
    then show ?thesis using len by simp
  next
    case False
    then have "length ?seen = nat (pl_limit P)" using s k by (auto split: if_splits)
    then show ?thesis using drop_filter_take_prefix [OF k, of ?d A hs] by auto
  qed
  then show ?thesis using s by (simp add: window_def)
qed

text \<open>
  A frozen world: as long as calls succeed, accounts, target, ranking and decisions stay what they are.
\<close>

definition frozen ::
  "'w service \<Rightarrow> search_plan \<Rightarrow> string list \<Rightarrow> search_target \<Rightarrow> (os_query \<Rightarrow> os_hit list) \<Rightarrow> (os_hit \<Rightarrow> bool) \<Rightarrow> bool" where
  "frozen V P accounts G rank A \<longleftrightarrow>
     ranks (sv_backends V) rank \<and> decides (sv_backends V) P A \<and>
     (\<forall>w a. fst (bk_accounts (sv_backends V) (pl_org P) (pl_user P) (pl_role P) w) = Inr a \<longrightarrow> a = accounts) \<and>
     (\<forall>w g. fst (find_target V P w) = Inr g \<longrightarrow> g = G)"

definition positive_service :: "'w service \<Rightarrow> bool" where
  "positive_service V \<longleftrightarrow> 0 < sv_default_limit V \<and> 0 < sv_max_limit V \<and> 0 < sv_batch V \<and> 0 < sv_max_scanned V"

lemma NewService_positive [simp]: "positive_service (NewService B J d m b s)"
  by (simp add: NewService_def positive_service_def)

lemma plan_search_limit:
  assumes "positive_service V" and "plan_search V req = Inr P"
  shows "0 < pl_limit P" and "pl_limit P \<le> sv_max_limit V"
  using assms by (auto simp: plan_search_def positive_service_def bounded_limit_def Let_def split: sum.splits if_splits)

lemma frozenD:
  assumes "frozen V P accounts G rank A"
  shows "ranks (sv_backends V) rank" and "decides (sv_backends V) P A"
    and "bk_accounts (sv_backends V) (pl_org P) (pl_user P) (pl_role P) w = (Inr a, w') \<Longrightarrow> a = accounts"
    and "find_target V P w = (Inr g, w') \<Longrightarrow> g = G"
  using assms unfolding frozen_def by (metis fst_conv)+

lemma run_search_window:
  assumes "positive_service V" and "0 < pl_limit P" and "frozen V P accounts G rank A"
    and "run_search V P sa w = (Inr resp, w')"
  shows "sp_results resp =
     (if accounts = [] then [] else window V P G A (hits_after sa (rank (plan_query V P G accounts []))))"
    and "sp_cursor resp \<noteq> None \<Longrightarrow> accounts \<noteq> []"
proof -
  obtain b w1 where "bk_accounts (sv_backends V) (pl_org P) (pl_user P) (pl_role P) w = (Inr b, w1)"
    using assms(4) by (auto simp: run_search_def split: prod.splits sum.splits)
  with frozenD(3) [OF assms(3)] have a: "bk_accounts (sv_backends V) (pl_org P) (pl_user P) (pl_role P) w = (Inr accounts, w1)"
    by blast
  show "sp_results resp =
     (if accounts = [] then [] else window V P G A (hits_after sa (rank (plan_query V P G accounts []))))"
  proof (cases "accounts = []")
    case True
    then show ?thesis using assms(4) a by (auto simp: run_search_def)
  next
    case False
    then obtain b w2 where "find_target V P w1 = (Inr b, w2)"
      using assms(4) a by (auto simp: run_search_def split: prod.splits sum.splits)
    with frozenD(4) [OF assms(3)] have g: "find_target V P w1 = (Inr G, w2)" by blast
    obtain ex n s w3 where p: "search_pages V P G accounts sa 0 empty_scan w2 = (Inr (ex, n, s), w3)"
      and r: "search_answer V P ex n s = Inr resp"
      using assms(4) a g False by (auto simp: run_search_def split: prod.splits sum.splits)
    have "\<exists>k. scan_outcome V P G A (hits_after sa (rank (plan_query V P G accounts []))) k empty_scan (\<not> ex) s"
      using scan_decided_outcome [OF scan_pages [OF frozenD(1,2) [OF assms(3)] _ p]] assms(1,2)
      by (auto simp: positive_service_def empty_scan_def)
    moreover have "sp_results resp = sn_results s"
      using r by (auto simp: search_answer_def split: if_splits sum.splits)
    ultimately show ?thesis using scan_outcome_window assms(1) False by (fastforce simp: positive_service_def)
  qed
  show "accounts \<noteq> []" if "sp_cursor resp \<noteq> None" using that assms(4) a by (auto simp: run_search_def)
qed

subsection \<open>Following the cursors\<close>

text \<open>A client that asks again with the cursor of the last answer; \<open>None\<close> when the fuel is out.\<close>

fun follow_cursors ::
  "'w service \<Rightarrow> nat \<Rightarrow> search_request \<Rightarrow> 'w \<Rightarrow> ((serr + search_hit list) \<times> 'w) option" where
  "follow_cursors V 0 req w = None"
| "follow_cursors V (Suc n) req w =
     (case Search V req w of
        (Inl e, w1) \<Rightarrow> Some (Inl e, w1)
      | (Inr resp, w1) \<Rightarrow>
          (case sp_cursor resp of
             None \<Rightarrow> Some (Inr (sp_results resp), w1)
           | Some c \<Rightarrow>
               map_option (\<lambda>(r, w2). (map_sum id ((@) (sp_results resp)) r, w2))
                 (follow_cursors V n (req\<lparr>rq_cursor := c\<rparr>) w1)))"

lemma EncodeCursor_nonempty: "cursor_json_laws J \<Longrightarrow> EncodeCursor J st = Inr c \<Longrightarrow> c \<noteq> []"
  by (auto simp: EncodeCursor_def cursor_json_laws_def bytes_of_def Let_def split: sum.splits)

lemma resume_encoded:
  assumes "cursor_json_laws (sv_json V)" and "EncodeCursor (sv_json V) (plan_cursor V P sa) = Inr c" and "sa \<noteq> []"
  shows "resume_at V (req\<lparr>rq_cursor := c\<rparr>) P = Inr sa"
proof -
  have "DecodeCursor (sv_json V) c = Inr (plan_cursor V P sa)"
    by (rule decode_encode_cursor [OF assms(1,2)]) (use assms(3) in \<open>simp_all add: plan_cursor_def\<close>)
  then show ?thesis
    using EncodeCursor_nonempty [OF assms(1,2)] by (simp add: resume_at_def plan_cursor_def ValidateCursor_def)
qed

lemma plan_search_cursor: "rq_page req = 0 \<Longrightarrow> plan_search V (req\<lparr>rq_cursor := c\<rparr>) = plan_search V req"
  by (cases "normalizeMode (rq_mode req)") (simp_all add: plan_search_def page_offset_def Let_def)

lemma plan_search_unpaged: "rq_page req = 0 \<Longrightarrow> plan_search V req = Inr P \<Longrightarrow> \<not> pl_paged P \<and> pl_offset P = 0"
  by (auto simp: plan_search_def page_offset_def Let_def split: sum.splits if_splits)

text \<open>One answer: the authorized of the next k hits, with a cursor that points behind them.\<close>

lemma run_search_step:
  assumes "positive_service V" and "0 < pl_limit P" and "frozen V P accounts G rank A" and "accounts \<noteq> []"
    and "\<not> pl_paged P" and "pl_offset P = 0" and "run_search V P sa w = (Inr resp, w')"
    and hits: "hits = hits_after sa (rank (plan_query V P G accounts []))"
  shows "\<exists>k \<le> length hits. sp_results resp = map (hit_result P G) (filter A (take k hits)) \<and>
    (case sp_cursor resp of
       None \<Rightarrow> k = length hits
     | Some c \<Rightarrow> 0 < k \<and> EncodeCursor (sv_json V) (plan_cursor V P (hit_sort (hits ! (k - 1)))) = Inr c)"
proof -
  obtain b w1 where "bk_accounts (sv_backends V) (pl_org P) (pl_user P) (pl_role P) w = (Inr b, w1)"
    using assms(7) by (auto simp: run_search_def split: prod.splits sum.splits)
  with frozenD(3) [OF assms(3)] have a: "bk_accounts (sv_backends V) (pl_org P) (pl_user P) (pl_role P) w = (Inr accounts, w1)"
    by blast
  obtain b w2 where "find_target V P w1 = (Inr b, w2)"
    using assms(4,7) a by (auto simp: run_search_def split: prod.splits sum.splits)
  with frozenD(4) [OF assms(3)] have g: "find_target V P w1 = (Inr G, w2)" by blast
  obtain ex n s w3 where p: "search_pages V P G accounts sa 0 empty_scan w2 = (Inr (ex, n, s), w3)"
    and r: "search_answer V P ex n s = Inr resp"
    using assms(4,7) a g by (auto simp: run_search_def split: prod.splits sum.splits)
  obtain k where "scan_outcome V P G A hits k empty_scan (\<not> ex) s"
    using scan_decided_outcome [OF scan_pages [OF frozenD(1,2) [OF assms(3)] _ p]] assms(1,2) hits
    by (auto simp: positive_service_def empty_scan_def)
  note sc = this [unfolded scan_outcome_def empty_scan_def, simplified]
  have keys: "hit_sort (hits ! (k - 1)) \<noteq> []" if "0 < k"
  proof -
    have "k - 1 < length hits" using that sc by auto
    then have "hits ! (k - 1) \<in> set hits" by (rule nth_mem)
    then have "hits ! (k - 1) \<in> set (rank (plan_query V P G accounts []))"
      using hits_after_suffix [of sa "rank (plan_query V P G accounts [])"] hits by (metis in_set_dropD)
    then show ?thesis using ranks_keys [OF frozenD(1) [OF assms(3)]] by (metis image_eqI)
  qed
  have k0: "k \<noteq> 0" if "\<not> ex"
    using sc assms(1,2) that by (cases k) (auto simp: positive_service_def)
  show ?thesis
    using sc r keys k0 assms(5,6) by (intro exI [of _ k]) (auto simp: search_answer_def split: if_splits sum.splits)
qed

text \<open>Backends that answer: no call fails.\<close>

definition healthy :: "'w service \<Rightarrow> search_plan \<Rightarrow> bool" where
  "healthy V P \<longleftrightarrow>
     (\<forall>w. \<exists>a w'. bk_accounts (sv_backends V) (pl_org P) (pl_user P) (pl_role P) w = (Inr a, w')) \<and>
     (\<forall>w. \<exists>g w'. find_target V P w = (Inr g, w')) \<and>
     (\<forall>q w. \<exists>p w'. bk_search (sv_backends V) q w = (Inr p, w')) \<and>
     (\<forall>hits w. \<exists>r w'. bk_filter (sv_backends V) (get_request P hits) w = (Inr r, w')) \<and>
     (\<forall>key. \<exists>raw. cj_marshal (sv_json V) (plan_cursor V P key) = Inr raw)"

lemma healthyD:
  assumes "healthy V P"
  shows "\<exists>a w'. bk_accounts (sv_backends V) (pl_org P) (pl_user P) (pl_role P) w = (Inr a, w')"
    and "\<exists>g w'. find_target V P w = (Inr g, w')" and "\<exists>p w'. bk_search (sv_backends V) q w = (Inr p, w')"
    and "\<exists>r w'. bk_filter (sv_backends V) (get_request P hits) w = (Inr r, w')"
    and "\<exists>raw. cj_marshal (sv_json V) (plan_cursor V P key) = Inr raw"
  using assms unfolding healthy_def by blast+

lemma search_pages_healthy:
  assumes "healthy V P"
  shows "\<exists>r w'. search_pages V P G accounts sa n s w = (Inr r, w')"
proof (induction "nat (sv_max_scanned V - sn_scanned s)" arbitrary: sa n s w rule: less_induct)
  case less
  obtain page w1 where page: "bk_search (sv_backends V) (plan_query V P G accounts sa) w = (Inr page, w1)"
    using healthyD [OF assms] by blast
  obtain authz w2 where f: "bk_filter (sv_backends V) (get_request P (pa_hits page)) w1 = (Inr authz, w2)"
    using healthyD [OF assms] by blast
  obtain ended s1 where scan: "scan_hits V P G (ar_allowed authz) 0 (pa_hits page) s = (ended, s1)" by fastforce
  show ?case
  proof (cases "ended \<or> pa_hits page = [] \<or> int (length (sn_results s)) \<ge> pl_limit P")
    case True
    then show ?thesis using page f scan by (subst search_pages.simps) auto
  next
    case False
    have "nat (sv_max_scanned V - sn_scanned s1) < nat (sv_max_scanned V - sn_scanned s)"
      using scan_hits_progress [of V P G "ar_allowed authz" 0 "pa_hits page" s s1] scan False by auto
    from less.hyps [OF this] show ?thesis using page f scan False by (subst search_pages.simps) auto
  qed
qed

lemma run_search_healthy:
  assumes "healthy V P"
  shows "\<exists>resp w'. run_search V P sa w = (Inr resp, w')"
proof -
  obtain a w1 where a: "bk_accounts (sv_backends V) (pl_org P) (pl_user P) (pl_role P) w = (Inr a, w1)"
    using healthyD [OF assms] by blast
  obtain G w2 where G: "find_target V P w1 = (Inr G, w2)" using healthyD [OF assms] by blast
  obtain ex n s w3 where p: "search_pages V P G a sa 0 empty_scan w2 = (Inr (ex, n, s), w3)"
    using search_pages_healthy [OF assms, of G a sa 0 empty_scan w2] by auto
  have "\<exists>c. EncodeCursor (sv_json V) (plan_cursor V P (sn_next s)) = Inr c"
    using healthyD(5) [OF assms, of "sn_next s"] by (auto simp: EncodeCursor_def Let_def plan_cursor_def cursorVersion_def)
  then have "\<exists>resp. search_answer V P ex n s = Inr resp"
    by (auto simp: search_answer_def)
  then show ?thesis using a G p by (auto simp: run_search_def)
qed

lemma follow_cursors_all:
  assumes "positive_service V" and "cursor_json_laws (sv_json V)" and "frozen V P accounts G rank A" and "accounts \<noteq> []"
    and "rq_page req = 0" and "plan_search V req = Inr P" and "resume_at V req P = Inr sa"
    and "length (hits_after sa (rank (plan_query V P G accounts []))) < n"
  shows "\<exists>r w'. follow_cursors V n req w = Some (r, w') \<and>
    (\<forall>hs. r = Inr hs \<longrightarrow> hs = map (hit_result P G) (filter A (hits_after sa (rank (plan_query V P G accounts []))))) \<and>
    (healthy V P \<longrightarrow> \<not> isl r)"
  using assms(5-)
proof (induction n arbitrary: req sa w)
  case (Suc n)
  let ?R = "rank (plan_query V P G accounts [])"
  let ?hits = "hits_after sa ?R"
  have run: "Search V req w = run_search V P sa w" using Suc.prems by (simp add: Search_def)
  show ?case
  proof (cases "run_search V P sa w")
    case (Pair res w1)
    show ?thesis
    proof (cases res)
      case (Inl e)
      then show ?thesis using run Pair run_search_healthy [of V P sa w] by auto
    next
      case (Inr resp)
      obtain k where k: "k \<le> length ?hits" "sp_results resp = map (hit_result P G) (filter A (take k ?hits))"
        and c: "case sp_cursor resp of None \<Rightarrow> k = length ?hits
          | Some c \<Rightarrow> 0 < k \<and> EncodeCursor (sv_json V) (plan_cursor V P (hit_sort (?hits ! (k - 1)))) = Inr c"
        using run_search_step [OF assms(1) plan_search_limit(1) [OF assms(1) Suc.prems(2)] assms(3,4) _ _ _ refl]
          plan_search_unpaged [OF Suc.prems(1,2)] Pair Inr by blast
      show ?thesis
      proof (cases "sp_cursor resp")
        case None
        then show ?thesis using run Pair Inr k c by simp
      next
        case (Some t)
        let ?key = "hit_sort (?hits ! (k - 1))" and ?next = "req\<lparr>rq_cursor := t\<rparr>"
        have enc: "0 < k" "EncodeCursor (sv_json V) (plan_cursor V P ?key) = Inr t" using c Some by simp_all
        have "distinct (map hit_sort ?R)" "[] \<notin> hit_sort ` set ?R"
          using ranks_keys [OF frozenD(1) [OF assms(3)]] by auto
        then have rest: "hits_after ?key ?R = drop k ?hits"
          using hits_after_next [of ?R "k - 1" sa] k(1) enc(1) by simp
        have "?hits ! (k - 1) \<in> set ?R"
          using hits_after_suffix [of sa ?R] k(1) enc(1) by (metis diff_less in_set_dropD le_trans less_le_trans nth_mem zero_less_one)
        then have key: "?key \<noteq> []" using ranks_keys [OF frozenD(1) [OF assms(3)]] by (metis image_eqI)
        have len: "length (drop k ?hits) < n" using Suc.prems(4) enc(1) k(1) by simp
        obtain r w' where f: "follow_cursors V n ?next w1 = Some (r, w')"
          and r: "\<forall>hs. r = Inr hs \<longrightarrow> hs = map (hit_result P G) (filter A (drop k ?hits))" "healthy V P \<longrightarrow> \<not> isl r"
          using Suc.IH [of ?next ?key w1] Suc.prems plan_search_cursor [OF Suc.prems(1), of V t] resume_encoded [OF assms(2) enc(2) key] rest len
          by auto
        have "filter A (take k ?hits) @ filter A (drop k ?hits) = filter A ?hits"
          by (metis append_take_drop_id filter_append)
        then show ?thesis using run Pair Inr Some f r k(2) by (cases r) (auto simp flip: map_append)
      qed
    qed
  qed
qed simp

subsection \<open>What a filter lets through\<close>

lemma scan_hits_results:
  assumes "scan_hits V P G allowed i (drop i hits) s = (ended, s')" and "x \<in> set (sn_results s')"
  shows "x \<in> set (sn_results s) \<or> (\<exists>j < length allowed. allowed ! j \<and> x = hit_result P G (hits ! j))"
  using assms
proof (induction "drop i hits" arbitrary: i s)
  case Nil
  then show ?case by simp
next
  case (Cons h hs)
  have h: "hits ! i = h" "drop (Suc i) hits = hs"
    using Cons.hyps(2) by (metis nth_via_drop, metis drop_Suc tl_drop list.sel(3))
  have IH: "x \<in> set (sn_results s1) \<or> (\<exists>j < length allowed. allowed ! j \<and> x = hit_result P G (hits ! j))"
    if "scan_hits V P G allowed (Suc i) hs s1 = (ended, s')" for s1
    using Cons.hyps(1) [of "Suc i" s1] Cons.prems(2) h(2) that by simp
  show ?case
    using Cons.prems Cons.hyps(2) [symmetric] h(1) IH
    by (fastforce simp: Let_def hit_result_def split: if_splits)
qed

text \<open>A hit that the index answered to a query, and accounts that were answered to be a user's.\<close>

definition answered :: "'w service \<Rightarrow> os_query \<Rightarrow> os_hit \<Rightarrow> bool" where
  "answered V q h \<longleftrightarrow> (\<exists>w p w'. bk_search (sv_backends V) q w = (Inr p, w') \<and> h \<in> set (pa_hits p))"

definition accessible :: "'w service \<Rightarrow> string \<Rightarrow> string \<Rightarrow> string \<Rightarrow> string list \<Rightarrow> bool" where
  "accessible V org user role accounts \<longleftrightarrow> (\<exists>w w'. bk_accounts (sv_backends V) org user role w = (Inr accounts, w'))"

lemma plan_query_accounts: "oq_accounts (plan_query V P G accounts sa) = accounts"
  by (simp add: plan_query_def)

context hit_filter
begin

lemma search_pages_results:
  assumes "sound e" and "bk_filter (sv_backends V) = hits_filter e"
    and "search_pages V P G accounts sa n s w = (Inr (exhausted, n', s'), w')" and "x \<in> set (sn_results s')"
  shows "x \<in> set (sn_results s) \<or> (\<exists>h sb. answered V (plan_query V P G accounts sb) h \<and> may e (pl_org P) (pl_user P) ''get'' h \<and> x = hit_result P G h)"
  using assms(3)
proof (induction "nat (sv_max_scanned V - sn_scanned s)" arbitrary: sa n s w rule: less_induct)
  case less
  show ?case
  proof (cases "\<exists>page w1 authz w2 ended s1. bk_search (sv_backends V) (plan_query V P G accounts sa) w = (Inr page, w1) \<and>
      pa_hits page \<noteq> [] \<and> bk_filter (sv_backends V) (get_request P (pa_hits page)) w1 = (Inr authz, w2) \<and>
      scan_hits V P G (ar_allowed authz) 0 (pa_hits page) s = (ended, s1) \<and> int (length (sn_results s)) < pl_limit P")
    case False
    then have "s' = s"
      using less.prems by (subst (asm) search_pages.simps) (fastforce split: if_splits prod.splits sum.splits bool.splits)
    then show ?thesis using assms(4) by simp
  next
    case True
    then obtain page w1 authz w2 ended s1
      where page: "bk_search (sv_backends V) (plan_query V P G accounts sa) w = (Inr page, w1)" "pa_hits page \<noteq> []"
        and f: "bk_filter (sv_backends V) (get_request P (pa_hits page)) w1 = (Inr authz, w2)"
        and scan: "scan_hits V P G (ar_allowed authz) 0 (pa_hits page) s = (ended, s1)"
        and open_end: "int (length (sn_results s)) < pl_limit P"
      by blast
    have new: "x \<in> set (sn_results s) \<or> (\<exists>h sb. answered V (plan_query V P G accounts sb) h \<and> may e (pl_org P) (pl_user P) ''get'' h \<and> x = hit_result P G h)"
      if "x \<in> set (sn_results s1)"
      using scan_hits_results [of V P G "ar_allowed authz" 0 "pa_hits page" s ended s1 x] scan that
        allowed [OF assms(1), of "get_request P (pa_hits page)" w1 authz w2] f assms(2) page(1)
      by (fastforce simp: get_request_def answered_def)
    show ?thesis
    proof (cases "ended \<or> int (length (pa_hits page)) < sv_batch V")
      case True
      then have "s' = s1"
        using less.prems page f scan open_end by (subst (asm) search_pages.simps) (cases ended; auto)
      then show ?thesis using new assms(4) by blast
    next
      case False
      then have "search_pages V P G accounts (hit_sort (last (pa_hits page))) (pa_total page) s1 w2
          = (Inr (exhausted, n', s'), w')"
        using less.prems page f scan open_end by (subst (asm) search_pages.simps) auto
      moreover have "nat (sv_max_scanned V - sn_scanned s1) < nat (sv_max_scanned V - sn_scanned s)"
        using scan_hits_progress [of V P G "ar_allowed authz" 0 "pa_hits page" s s1] scan False page(2) by auto
      ultimately show ?thesis using less.hyps [of s1] new by blast
    qed
  qed
qed

lemma search_results:
  assumes "sound e" and "bk_filter (sv_backends V) = hits_filter e" and "Search V req w = (Inr resp, w')"
    and "x \<in> set (sp_results resp)"
  shows "\<exists>h r q. answered V q h \<and>
    accessible V (trim_space (rq_organization req)) (trim_space (rq_user req)) (trim_space (rq_role req)) (oq_accounts q) \<and>
    may e (trim_space (rq_organization req)) (trim_space (rq_user req)) ''get'' h \<and> x = mapHit h r"
proof -
  obtain P where P: "plan_search V req = Inr P"
    using assms(3) by (auto simp: Search_def split: sum.splits)
  obtain sa where "run_search V P sa w = (Inr resp, w')"
    using assms(3) P by (auto simp: Search_def split: sum.splits)
  then have "sp_results resp = [] \<or>
      (\<exists>G accounts ex n s w1 w2. search_pages V P G accounts sa 0 empty_scan w1 = (Inr (ex, n, s), w2) \<and>
         accessible V (pl_org P) (pl_user P) (pl_role P) accounts \<and> sp_results resp = sn_results s)"
    unfolding run_search_def search_answer_def accessible_def
    by (auto split: prod.splits sum.splits if_splits) blast+
  then obtain G accounts ex n s w1 w2
    where p: "search_pages V P G accounts sa 0 empty_scan w1 = (Inr (ex, n, s), w2)" and "sp_results resp = sn_results s"
      and "accessible V (pl_org P) (pl_user P) (pl_role P) accounts"
    using assms(4) by auto
  then obtain h sb where "answered V (plan_query V P G accounts sb) h" "may e (pl_org P) (pl_user P) ''get'' h"
      "x = hit_result P G h" "accessible V (pl_org P) (pl_user P) (pl_role P) (oq_accounts (plan_query V P G accounts sb))"
    using search_pages_results [OF assms(1,2) p, of x] assms(4) by (auto simp: empty_scan_def plan_query_accounts)
  moreover have "pl_org P = trim_space (rq_organization req)" "pl_user P = trim_space (rq_user req)"
    "pl_role P = trim_space (rq_role req)"
    using P by (auto simp: plan_search_def Let_def split: sum.splits if_splits)
  ultimately show ?thesis unfolding hit_result_def by metis
qed

end

subsection \<open>The values of a field\<close>

lemma add_values_ok:
  assumes "add_values limit vs found = (full, found')" and "int (length found) < limit" and "distinct found"
  shows "distinct found' \<and> set found' \<subseteq> set found \<union> set vs \<and> int (length found') \<le> limit \<and>
    (\<not> full \<longrightarrow> int (length found') < limit)"
  using assms
proof (induction vs arbitrary: found)
  case (Cons v vs)
  show ?case
    using Cons.prems Cons.IH [of found] Cons.IH [of "found @ [v]"] by (auto split: if_splits)
qed simp

lemma value_hits_ok:
  assumes "value_hits V limit path allowed i (drop i hits) (n, found) = (ended, n', found')"
    and "int (length found) < limit" and "distinct found"
  shows "distinct found' \<and> int (length found') \<le> limit \<and> (\<not> ended \<longrightarrow> int (length found') < limit) \<and>
    (\<forall>v \<in> set found'. v \<in> set found \<or>
       (\<exists>j < length allowed. allowed ! j \<and> v \<in> set (extractFieldValues (hit_source (hits ! j)) path)))"
  using assms
proof (induction "drop i hits" arbitrary: i n found)
  case Nil
  then show ?case by simp
next
  case (Cons h hs)
  have h: "hits ! i = h" "drop (Suc i) hits = hs"
    using Cons.hyps(2) by (metis nth_via_drop, metis drop_Suc tl_drop list.sel(3))
  obtain full vs where a: "add_values limit (extractFieldValues (hit_source h) path) found = (full, vs)" by fastforce
  note ok = add_values_ok [OF a Cons.prems(2,3)]
  note IH = Cons.hyps(1) [of "Suc i", unfolded h(2), OF refl]
  consider "n + 1 > sv_max_scanned V" | "n + 1 \<le> sv_max_scanned V" "i \<ge> length allowed \<or> \<not> allowed ! i"
    | "n + 1 \<le> sv_max_scanned V" "i < length allowed" "allowed ! i" by linarith
  then show ?case
  proof cases
    case 1
    then show ?thesis using Cons.prems Cons.hyps(2) [symmetric] by auto
  next
    case 2
    then show ?thesis using Cons.prems Cons.hyps(2) [symmetric] IH [of "n + 1" found] by auto
  next
    case 3
    show ?thesis
    proof (cases full)
      case True
      then show ?thesis using Cons.prems Cons.hyps(2) [symmetric] 3 a ok h(1) by auto
    next
      case False
      then have "value_hits V limit path allowed (Suc i) hs (n + 1, vs) = (ended, n', found')"
        using Cons.prems(1) Cons.hyps(2) [symmetric] 3 a by simp
      from IH [OF this] ok False 3 h(1) show ?thesis by blast
    qed
  qed
qed

context hit_filter
begin

lemma value_pages_ok:
  assumes "sound e" and "bk_filter (sv_backends V) = hits_filter e"
    and "value_pages V query request limit path sa (n, found) w = (Inr vs, w')"
    and "int (length found) < limit" and "distinct found" and "\<And>hits. aq_hits (request hits) = hits"
    and "\<forall>v \<in> set found. Q v"
    and "\<And>hits h v sb. answered V (query sb) h \<Longrightarrow> may e (aq_organization (request hits)) (aq_user (request hits)) (aq_relation (request hits)) h \<Longrightarrow>
           v \<in> set (extractFieldValues (hit_source h) path) \<Longrightarrow> Q v"
  shows "distinct vs \<and> int (length vs) \<le> limit \<and> (\<forall>v \<in> set vs. Q v)"
  using assms(3,4,5,7)
proof (induction "nat (sv_max_scanned V - n)" arbitrary: sa n found w rule: less_induct)
  case less
  show ?case
  proof (cases "\<exists>page w1 authz w2 ended n1 f1. bk_search (sv_backends V) (query sa) w = (Inr page, w1) \<and>
      pa_hits page \<noteq> [] \<and> bk_filter (sv_backends V) (request (pa_hits page)) w1 = (Inr authz, w2) \<and>
      value_hits V limit path (ar_allowed authz) 0 (pa_hits page) (n, found) = (ended, n1, f1)")
    case False
    then have "vs = found"
      using less.prems by (subst (asm) value_pages.simps) (fastforce split: if_splits prod.splits sum.splits bool.splits)
    then show ?thesis using less.prems by simp
  next
    case True
    then obtain page w1 authz w2 ended n1 f1
      where page: "bk_search (sv_backends V) (query sa) w = (Inr page, w1)" "pa_hits page \<noteq> []"
        and f: "bk_filter (sv_backends V) (request (pa_hits page)) w1 = (Inr authz, w2)"
        and scan: "value_hits V limit path (ar_allowed authz) 0 (pa_hits page) (n, found) = (ended, n1, f1)"
      by blast
    note vh = value_hits_ok [of V limit path "ar_allowed authz" 0 "pa_hits page" n found ended n1 f1, unfolded drop_0,
      OF scan less.prems(2,3)]
    have "Q v" if v: "v \<in> set f1" for v
    proof (cases "v \<in> set found")
      case False
      then obtain j where j: "j < length (ar_allowed authz)" "ar_allowed authz ! j"
          "v \<in> set (extractFieldValues (hit_source (pa_hits page ! j)) path)"
        using bspec [OF conjunct2 [OF conjunct2 [OF conjunct2 [OF vh]]] v] False by auto
      note m = conjunct2 [OF allowed [OF assms(1) f [unfolded assms(2)] j(1,2)], unfolded assms(6)]
      have "answered V (query sa) (pa_hits page ! j)"
        using page(1) allowed [OF assms(1) f [unfolded assms(2)] j(1,2), unfolded assms(6)] nth_mem unfolding answered_def by blast
      then show ?thesis by (rule assms(8) [OF _ m j(3)])
    qed (use less.prems(4) in blast)
    then have ok: "distinct f1" "int (length f1) \<le> limit" "\<not> ended \<longrightarrow> int (length f1) < limit" "\<forall>v \<in> set f1. Q v"
      using vh by auto
    show ?thesis
    proof (cases "ended \<or> int (length (pa_hits page)) < sv_batch V")
      case True
      then have "vs = f1"
        using less.prems page f scan by (subst (asm) value_pages.simps) (cases ended; auto)
      then show ?thesis using ok by blast
    next
      case False
      then have "value_pages V query request limit path (hit_sort (last (pa_hits page))) (n1, f1) w2 = (Inr vs, w')"
        using less.prems page f scan by (subst (asm) value_pages.simps) auto
      moreover have "nat (sv_max_scanned V - n1) < nat (sv_max_scanned V - n)"
        using value_hits_progress [of V limit path "ar_allowed authz" 0 "pa_hits page" n found n1 f1] scan False page(2)
        by auto
      ultimately show ?thesis using less.hyps [of n1] ok False by blast
    qed
  qed
qed

end

end
