(* ===== verification/Search_Example.thy ===== *)
theory Search_Example
  imports Search_Laws Search_Http "HOL-Library.Countable"
begin

text \<open>
  A small installation of the search service for the witnesses: one index of three objects, of which OpenFGA
  grants the first and the third to ann of the organization acme.
\<close>

instance json :: countable
  by countable_datatype

subsection \<open>Cursors\<close>

definition example_state :: "json list \<Rightarrow> cursor_state" where
  "example_state sa =
     \<lparr>cu_version = 1, cu_org = ''acme'', cu_query_hash = ''pay'', cu_mode = ''lexical'', cu_resource = ''pods'',
      cu_filters_hash = [], cu_limit = 1, cu_after = sa\<rparr>"

definition example_json :: cursor_json where
  "example_json =
     \<lparr>cj_marshal = (\<lambda>s. if s = example_state (cu_after s) then Inr (nat_digits (to_nat (cu_after s))) else Inl ''other''),
      cj_unmarshal = (\<lambda>raw. map_option (\<lambda>n. example_state (from_nat n)) (digits_val raw 0))\<rparr>"

definition no_json :: cursor_json where
  "no_json = \<lparr>cj_marshal = (\<lambda>s. Inl ''no''), cj_unmarshal = (\<lambda>raw. None)\<rparr>"

lemma example_json_laws: "cursor_json_laws example_json"
proof -
  have "nat_digits n \<noteq> []" for n by (cases n rule: nat_digits.cases) simp
  then show ?thesis
    by (auto simp: cursor_json_laws_def example_json_def digits_val_nat_digits example_state_def split: if_splits)
qed

subsection \<open>OpenFGA\<close>

definition example_grants :: grants where
  "example_grants s u r obj ctx \<longleftrightarrow>
     s = ''S1'' \<and> u = ''user:ann'' \<and> r = ''get'' \<and> obj \<in> {''core_pod:1'', ''core_pod:3''}"

definition example_fga :: "unit search_fga" where
  "example_fga =
     \<lparr>sf_stores = (\<lambda>w. (Inr [(''other'', ''S2''), (''acme'', ''S1'')], w)),
      sf_objects = (\<lambda>s t r u w. (Inr [''core_account:a1''], w)),
      sf_batch = (\<lambda>s cs w.
        (Inr (map (\<lambda>c. (bc_id c, example_grants s (bc_user c) (bc_relation c) (bc_object c) (bc_context c))) cs), w)),
      sf_relation_code = (\<lambda>e. False)\<rparr>"

definition example_authorizer :: "unit authorizer" where
  "example_authorizer =
     \<lparr>az_client = example_fga, az_object_type = ''core_account'', az_default_role = ''member'', az_batch_size = 2\<rparr>"

lemma example_batch:
  assumes "distinct (map bc_id cs)" and "c \<in> set cs"
  shows "map_of (map (\<lambda>c. (bc_id c, g c)) cs) (bc_id c) = Some (g c)"
  using assms by (intro map_of_is_SomeI) (auto simp: o_def)

lemma example_fga_sound: "batch_sound (az_client example_authorizer) example_grants"
  and example_fga_complete: "batch_complete (az_client example_authorizer) example_grants"
  by (auto simp: batch_sound_def batch_complete_def example_authorizer_def example_fga_def example_batch)

lemma example_store: "store_of_org example_authorizer ''acme'' s \<longleftrightarrow> s = ''S1''"
  unfolding store_of_org_def example_authorizer_def example_fga_def
  by (auto simp: trim_space_def is_space_def)

subsection \<open>The index\<close>

definition example_hit :: "int \<Rightarrow> string \<Rightarrow> os_hit" where
  "example_hit n name =
     \<lparr>hit_index = ''pods-acme'', hit_id = name, hit_score = ''1'', hit_sort = [JInt n],
      hit_source = [(''fga_object'', JStr (''core_pod:'' @ itoa n)), (''name'', JStr name),
                    (''filterable_fields'', JObj [(''phase'', JStr (if n = 2 then ''Failed'' else ''Running''))])]\<rparr>"

definition example_hits :: "os_hit list" where
  "example_hits = [example_hit 1 ''web'', example_hit 2 ''db'', example_hit 3 ''job'']"

definition example_ref :: index_ref where
  "example_ref = \<lparr>ix_resource = ''pods'', ix_name = ''pods-acme'', ix_prefix = ''pods'', ix_org_id = ''c1'',
     ix_default = [''name''], ix_filterable = [''phase''], ix_semantic = [], ix_group = [], ix_version = ''v1''\<rparr>"

definition example_backends :: "unit backends" where
  "example_backends =
     \<lparr>bk_resolve = (\<lambda>org r w. (Inr example_ref, w)), bk_indices = (\<lambda>org w. (Inr [example_ref], w)),
      bk_search = (\<lambda>q w. (Inr \<lparr>pa_hits = take (nat (oq_size q)) (hits_after (oq_after q) example_hits), pa_values = [],
         pa_total = 3, pa_timed_out = False, pa_shards_total = 1, pa_shards_failed = 0, pa_failures = []\<rparr>, w)),
      bk_accounts = ListAccessibleAccounts example_authorizer,
      bk_filter = FilterAuthorized example_authorizer, bk_sha = id\<rparr>"

definition example_service :: "cursor_json \<Rightarrow> unit service" where
  "example_service J = NewService example_backends J 20 100 2 50"

definition example_request :: "int \<Rightarrow> search_request" where
  "example_request page =
     \<lparr>rq_organization = ''acme'', rq_user = ''ann'', rq_query = ''pay'', rq_mode = [], rq_resource = ''pods'',
      rq_filters = [], rq_role = [], rq_limit = 1, rq_page = page, rq_cursor = []\<rparr>"

definition example_plan :: "int \<Rightarrow> search_plan" where
  "example_plan page =
     \<lparr>pl_org = ''acme'', pl_user = ''ann'', pl_query = ''pay'', pl_mode = ''lexical'', pl_resource = ''pods'',
      pl_filters = [], pl_role = [], pl_limit = 1, pl_paged = (page > 0), pl_offset = (if page > 1 then page - 1 else 0)\<rparr>"

definition example_target :: search_target where
  "example_target = \<lparr>tg_indices = [''pods-acme''], tg_resources = [(''pods-acme'', ''pods'')], tg_fields = [''name''],
     tg_semantic = [], tg_filters = []\<rparr>"

definition example_granted :: "os_hit \<Rightarrow> bool" where
  "example_granted = hit_granted example_grants ''S1'' ''ann'' ''get''"

lemma example_plan_0: "plan_search (example_service J) (example_request 0) = Inr (example_plan 0)"
  and example_plan_2: "plan_search (example_service J) (example_request 2) = Inr (example_plan 2)"
  by (simp_all add: plan_search_def example_service_def NewService_def example_request_def example_plan_def Let_def
    bounded_limit_def page_offset_def normalizeMode_def normalizeFilters_def SearchModeLexical_def SearchModeSemantic_def
    trim_space_def is_space_def to_lower_def)

lemma example_accounts:
  "bk_accounts (sv_backends (example_service J)) ''acme'' ''ann'' [] w = (Inr [''core_account:a1''], ())"
  by (simp add: example_service_def NewService_def example_backends_def ListAccessibleAccounts_def resolveStoreID_def
    example_authorizer_def example_fga_def trim_space_def is_space_def)

lemma example_find: "find_target (example_service J) (example_plan page) w = (Inr example_target, ())"
proof -
  have "DedupeSorted [''name''] = [''name'']" "DedupeSorted [] = []" by code_simp+
  then show ?thesis
    by (simp add: find_target_def example_service_def NewService_def example_backends_def example_plan_def example_ref_def
      example_target_def validateFiltersAllowed_def SearchModeSemantic_def)
qed

lemma example_hits_granted: "filter example_granted example_hits = [example_hit 1 ''web'', example_hit 3 ''job'']"
  by code_simp

lemma example_frozen:
  "frozen (example_service J) (example_plan page) [''core_account:a1''] example_target (\<lambda>q. example_hits) example_granted"
proof -
  have keys: "distinct (map hit_sort example_hits)" "[] \<notin> hit_sort ` set example_hits"
    by (simp_all add: example_hits_def example_hit_def)
  then have "ranks (sv_backends (example_service J)) (\<lambda>q. example_hits)"
    unfolding ranks_def by (auto simp: example_service_def NewService_def example_backends_def)
  moreover have "decides (sv_backends (example_service J)) (example_plan page) example_granted"
    unfolding decides_def
  proof (intro allI impI)
    fix hits w r w'
    let ?req = "get_request (example_plan page) hits"
    assume "bk_filter (sv_backends (example_service J)) ?req w = (Inr r, w')"
    then have "FilterAuthorized example_authorizer ?req w = (Inr r, w')"
      by (simp add: example_service_def NewService_def example_backends_def)
    from FilterAuthorized_exact [OF example_fga_sound example_fga_complete _ this, of "''S1''"]
    show "ar_allowed r = map example_granted hits"
      using example_store by (simp add: example_authorizer_def get_request_def example_plan_def example_granted_def)
  qed
  ultimately show ?thesis
    using example_accounts [of J] example_find [of J page] by (simp add: frozen_def example_plan_def)
qed

lemma example_check_chunks:
  "\<exists>r'. check_chunks example_authorizer s req chunks r w = (Inr r', ())"
proof (induction chunks arbitrary: r w)
  case (Cons chunk chunks)
  obtain start stop where "chunk = (start, stop)" by fastforce
  then show ?case using Cons by (auto simp: example_authorizer_def example_fga_def Let_def split: prod.split)
qed simp

lemma example_filter: "\<exists>r. FilterAuthorized example_authorizer (get_request (example_plan page) hits) w = (Inr r, ())"
proof -
  have "resolveStoreID example_authorizer ''acme'' w = (Inr ''S1'', ())"
    by (simp add: resolveStoreID_def example_authorizer_def example_fga_def trim_space_def is_space_def)
  then show ?thesis
    using example_check_chunks by (auto simp: FilterAuthorized_def get_request_def example_plan_def Let_def)
qed

lemma example_plan_cursor: "plan_cursor (example_service J) (example_plan page) sa = example_state sa"
  by (simp add: plan_cursor_def example_plan_def example_state_def cursorVersion_def queryHash_def cursorFiltersHash_def
    filtersHash_def example_service_def NewService_def example_backends_def trim_space_def)

lemma example_healthy: "healthy (example_service example_json) (example_plan page)"
proof -
  have b: "bk_filter (sv_backends (example_service J)) = FilterAuthorized example_authorizer"
    "\<exists>p. bk_search (sv_backends (example_service J)) q w = (Inr p, ())" "sv_json (example_service J) = J" for J q w
    by (simp_all add: example_service_def NewService_def example_backends_def)
  have "\<exists>raw. cj_marshal example_json (example_state key) = Inr raw" for key
    by (simp add: example_json_def example_state_def)
  moreover have "pl_org (example_plan page) = ''acme''" "pl_user (example_plan page) = ''ann''" "pl_role (example_plan page) = []"
    by (simp_all add: example_plan_def)
  ultimately show ?thesis
    unfolding healthy_def example_plan_cursor using b example_accounts example_find example_filter by auto
qed

subsection \<open>Callers\<close>

definition example_middleware :: "unit org_middleware" where
  "example_middleware =
     NewOrgContextMiddleware (\<lambda>header org w. (Inr (header = ''Bearer t1'' \<and> org = ''acme''), w)) False [] ''mail''"

definition example_caller :: http_caller where
  "example_caller = \<lparr>hc_host = ''acme.example.com:8443'',
     hc_token = Some \<lparr>wt_issuer = ''https://kc/realms/acme'', wt_claim = (\<lambda>k. if k = ''mail'' then Some ''ann'' else None)\<rparr>,
     hc_auth_header = Some ''bearer  t1''\<rparr>"

definition example_params :: params where
  "example_params = [(''q'', [''pay'']), (''resource'', [''pods'']), (''limit'', [''1'']), (''page'', [''2''])]"

definition example_context :: request_context where
  "example_context = \<lparr>rx_organization = ''acme'', rx_user = ''ann'', rx_tenant = ''acme''\<rparr>"

definition failing_service :: "string \<Rightarrow> unit service" where
  "failing_service text = NewService (example_backends\<lparr>bk_indices := (\<lambda>org w. (Inl (plain_err text), w))\<rparr>) no_json 20 100 2 50"

definition example_values :: filter_values_request where
  "example_values = \<lparr>fv_organization = ''acme'', fv_user = ''ann'', fv_resource = ''pods'', fv_field = ''phase'',
     fv_query = [], fv_filters = [], fv_limit = 10\<rparr>"

lemma example_search_2:
  "\<exists>resp w'. Search (example_service example_json) (example_request 2) () = (Inr resp, w') \<and>
     sp_results resp = [hit_result (example_plan 2) example_target (example_hit 3 ''job'')]"
proof -
  let ?V = "example_service example_json"
  obtain resp w' where run: "run_search ?V (example_plan 2) [] () = (Inr resp, w')"
    using run_search_healthy [OF example_healthy] by blast
  then have "Search ?V (example_request 2) () = (Inr resp, w')"
    using example_plan_2 by (simp add: Search_def resume_at_def example_request_def)
  moreover have "sp_results resp = window ?V (example_plan 2) example_target example_granted example_hits"
    using run_search_window(1) [OF _ _ example_frozen run] by (simp add: example_service_def example_plan_def)
  moreover have "take 50 example_hits = example_hits" by (simp add: example_hits_def)
  ultimately show ?thesis
    by (simp add: window_def example_plan_def example_service_def NewService_def example_hits_granted)
qed

text \<open>The route asks the search of \<open>example_request\<close>.\<close>

lemma example_route:
  assumes "Search (example_service J) (example_request 2) () = (Inr resp, w')"
  shows "serve_search example_middleware (example_service J) example_caller example_params () = (Answer (Inl resp), ())"
proof -
  have "SetRequestContext example_middleware example_caller () = (Inr example_context, ())" by code_simp
  moreover have "parseOptionalLimit (param example_params ''limit'') = Some 1"
    "parseOptionalPage (param example_params ''page'') = Inr 2" "parseSearchFilters example_params = Inr ([], [])"
    "resolveResources (trim_space (param example_params ''resource'')) (param example_params ''resources'') False = Some [''pods'']"
    "trim_space (param example_params ''q'') = ''pay''" "trim_space (param example_params ''mode'') = []"
    "trim_space (param example_params ''cursor'') = []"
    by code_simp+
  ultimately show ?thesis
    using assms by (simp add: serve_search_def search_endpoint_def GetRequestContext_def example_context_def example_request_def)
qed

subsection \<open>Searches with a filter\<close>

definition example_filter_request :: "string list \<Rightarrow> string \<Rightarrow> search_request" where
  "example_filter_request vs c = (example_request 0)\<lparr>rq_filters := [(''tier'', vs)], rq_cursor := c\<rparr>"

definition example_filtered :: "string list \<Rightarrow> search_plan" where
  "example_filtered vs = (example_plan 0)\<lparr>pl_filters := [(''tier'', vs)]\<rparr>"

text \<open>JSON for the cursors that \<open>example_filtered [''a'', ''b'']\<close> hands out.\<close>

definition example_filter_state :: "json list \<Rightarrow> cursor_state" where
  "example_filter_state sa = plan_cursor (example_service no_json) (example_filtered [''a'', ''b'']) sa"

definition example_filter_json :: cursor_json where
  "example_filter_json =
     \<lparr>cj_marshal = (\<lambda>s. if s = example_filter_state (cu_after s) then Inr (nat_digits (to_nat (cu_after s))) else Inl ''other''),
      cj_unmarshal = (\<lambda>raw. map_option (\<lambda>n. example_filter_state (from_nat n)) (digits_val raw 0))\<rparr>"

lemma example_filter_json_laws: "cursor_json_laws example_filter_json"
proof -
  have "nat_digits n \<noteq> []" for n by (cases n rule: nat_digits.cases) simp
  then show ?thesis
    by (auto simp: cursor_json_laws_def example_filter_json_def digits_val_nat_digits split: if_splits)
qed

lemma example_filter_handed_out:
  "\<exists>c. EncodeCursor example_filter_json (plan_cursor (example_service J) (example_filtered [''a'', ''b'']) sa) = Inr c"
proof -
  have "plan_cursor (example_service J) (example_filtered [''a'', ''b'']) sa = example_filter_state sa"
    "cu_after (example_filter_state sa) = sa" "cu_version (example_filter_state sa) = 1"
    by (simp_all add: example_filter_state_def plan_cursor_def example_service_def NewService_def cursorVersion_def)
  then show ?thesis by (simp add: EncodeCursor_def example_filter_json_def)
qed

lemma example_filter_cursor: "rq_cursor (example_filter_request vs c) = c"
  by (simp add: example_filter_request_def)

lemma example_filtered_plans:
  "plan_search (example_service J) (example_filter_request [''a'', ''b''] c) = Inr (example_filtered [''a'', ''b''])"
  "plan_search (example_service J) (example_filter_request [''b'', ''a''] c) = Inr (example_filtered [''b'', ''a''])"
  "plan_search (example_service J) (example_filter_request [''b''] c) = Inr (example_filtered [''b''])"
  by (simp_all add: plan_search_def example_service_def NewService_def example_request_def example_plan_def Let_def
    example_filter_request_def example_filtered_def
    bounded_limit_def page_offset_def normalizeMode_def normalizeFilters_def SearchModeLexical_def SearchModeSemantic_def
    trim_space_def is_space_def to_lower_def)

end
