(* ===== verification/Search_Hash.thy ===== *)
theory Search_Hash
  imports Search_Laws
begin

text \<open>
  What the hash of the filters in a cursor tells (\<^verbatim>\<open>hash.go\<close>). The text under the hash names
  the filters and the relation as long as no key or value holds one of its separators
  (\<open>cursor_text_inj\<close>); \<open>comma_in_value_collides\<close> shows that it does not otherwise.
\<close>

subsection \<open>Joined texts\<close>

lemma split_join:
  "vs \<noteq> [] \<Longrightarrow> \<forall>v \<in> set vs. c \<notin> set v \<Longrightarrow> split_on c (join_with [c] vs) = vs"
  by (induction "[c]" vs rule: join_with.induct) auto

lemma set_join: "set (join_with sep vs) \<subseteq> set sep \<union> \<Union> (set ` set vs)"
  by (induction sep vs rule: join_with.induct) auto

lemma first_of_inj: "c \<notin> set a \<Longrightarrow> c \<notin> set a' \<Longrightarrow> a @ c # b = a' @ c # b' \<longleftrightarrow> a = a' \<and> b = b'"
  by (auto simp: append_eq_append_conv2 append_eq_Cons_conv Cons_eq_append_conv)

lemma sort_distinct_inj:
  fixes xs ys :: "string list"
  shows "distinct xs \<Longrightarrow> distinct ys \<Longrightarrow> sort xs = sort ys \<longleftrightarrow> set xs = set ys"
  by (metis distinct_sort set_sort sorted_distinct_set_unique sorted_sort)

lemma sort_empty: "sort xs = [] \<longleftrightarrow> xs = ([] :: string list)"
  by (metis set_sort set_empty)

subsection \<open>Normalised filters\<close>

definition tidy_filters :: "filters \<Rightarrow> bool" where
  "tidy_filters fs \<longleftrightarrow> distinct (map fst fs) \<and>
     (\<forall>(k, vs) \<in> set fs. trim_space k = k \<and> k \<noteq> [] \<and> vs \<noteq> [] \<and> distinct vs \<and> (\<forall>v \<in> set vs. trim_space v = v \<and> v \<noteq> []))"

lemma clean_values_tidy:
  "distinct (clean_values seen vs) \<and> set (clean_values seen vs) \<inter> seen = {} \<and>
   (\<forall>v \<in> set (clean_values seen vs). trim_space v = v \<and> v \<noteq> [])"
proof (induction seen vs rule: clean_values.induct)
  case (2 seen v vs)
  show ?case
  proof (cases "trim_space v = [] \<or> trim_space v \<in> seen")
    case True
    then show ?thesis using 2(1) [OF refl True] by simp
  next
    case False
    have "clean_values seen (v # vs) = trim_space v # clean_values (insert (trim_space v) seen) vs"
      using False by (simp add: Let_def)
    moreover have "distinct (clean_values (insert (trim_space v) seen) vs) \<and>
      set (clean_values (insert (trim_space v) seen) vs) \<inter> insert (trim_space v) seen = {} \<and>
      (\<forall>u \<in> set (clean_values (insert (trim_space v) seen) vs). trim_space u = u \<and> u \<noteq> [])"
      by (rule 2(2) [OF refl False])
    ultimately show ?thesis using False by auto
  qed
qed simp

lemma distinct_obj_put: "distinct (map fst m) \<Longrightarrow> distinct (map fst (obj_put k v m))"
proof (induction m)
  case (Cons x m)
  have "fst ` set (obj_put k v m) \<subseteq> insert k (fst ` set m)"
    using set_obj_put [of k v m] by force
  then show ?case using Cons by (cases x) (auto split: if_splits)
qed simp

lemma tidy_obj_put:
  assumes "tidy_filters fs" and "trim_space k = k" and "k \<noteq> []" and "vs \<noteq> []" and "distinct vs"
    and "\<forall>v \<in> set vs. trim_space v = v \<and> v \<noteq> []"
  shows "tidy_filters (obj_put k vs fs)"
  using assms distinct_obj_put [of fs k vs] set_obj_put [of k vs fs] unfolding tidy_filters_def by fastforce

lemma normalize_tidy: "tidy_filters out \<Longrightarrow> tidy_filters (normalize_entries fs out)"
proof (induction fs out rule: normalize_entries.induct)
  case (2 field vs fs out)
  then show ?case
    using clean_values_tidy [of "{}" vs] tidy_obj_put [of out "trim_space field" "clean_values {} vs"] by (auto simp: Let_def)
qed simp

lemma normalizeFilters_tidy: "tidy_filters (normalizeFilters fs)"
  unfolding normalizeFilters_def by (rule normalize_tidy) (simp add: tidy_filters_def)

lemma plan_search_tidy:
  assumes "plan_search V req = Inr P"
  shows "tidy_filters (pl_filters P) \<and> trim_space (pl_role P) = pl_role P"
proof -
  have "pl_filters P = normalizeFilters (rq_filters req) \<and> pl_role P = trim_space (rq_role req)"
    using assms unfolding plan_search_def Let_def by (force split: sum.splits if_splits)
  then show ?thesis by (simp add: normalizeFilters_tidy)
qed

subsection \<open>The text under the hash\<close>

text \<open>The filters that are hashed for a cursor, with the relation among them, and their text.\<close>

definition hashed_filters :: "filters \<Rightarrow> string \<Rightarrow> filters" where
  "hashed_filters fs role = (if role = [] then fs else obj_put ''fga_role'' [role] fs)"

definition filters_text :: "filters \<Rightarrow> string" where
  "filters_text fs = concat (map (filter_text fs) (sorted_set (map fst fs)))"

text \<open>Filters and a relation whose text can be read back.\<close>

definition separable_filters :: "filters \<Rightarrow> bool" where
  "separable_filters fs \<longleftrightarrow>
     (\<forall>(k, vs) \<in> set fs. set k \<inter> {CHR ''='', CHR '';''} = {} \<and> (\<forall>v \<in> set vs. set v \<inter> {CHR '','', CHR '';''} = {}))"

text \<open>Two filters that ask for the same values of the same fields, in any order.\<close>

definition same_filters :: "filters \<Rightarrow> filters \<Rightarrow> bool" where
  "same_filters fs gs \<longleftrightarrow> map_option set \<circ> map_of fs = map_option set \<circ> map_of gs"

definition entry_text :: "string \<times> string list \<Rightarrow> string" where
  "entry_text e = fst e @ ''='' @ join_with '','' (snd e) @ '';''"

definition plain_entry :: "string \<times> string list \<Rightarrow> bool" where
  "plain_entry e \<longleftrightarrow> CHR ''='' \<notin> set (fst e) \<and> snd e \<noteq> [] \<and> (\<forall>v \<in> set (snd e). CHR '','' \<notin> set v \<and> CHR '';'' \<notin> set v)"

lemma entry_text_inj:
  assumes "plain_entry e" and "plain_entry e'" and "entry_text e @ r = entry_text e' @ r'"
  shows "e = e' \<and> r = r'"
proof -
  obtain k vs k' vs' where e: "e = (k, vs)" "e' = (k', vs')" by fastforce
  have semi: "CHR '';'' \<notin> set (join_with '','' vs)" "CHR '';'' \<notin> set (join_with '','' vs')"
    using assms(1,2) set_join [of "'',''" vs] set_join [of "'',''" vs'] by (auto simp: e plain_entry_def)
  have "k = k' \<and> join_with '','' vs @ CHR '';'' # r = join_with '','' vs' @ CHR '';'' # r'"
    using assms first_of_inj [of "CHR ''=''" k k'] by (auto simp: e plain_entry_def entry_text_def)
  then have "k = k'" "join_with '','' vs = join_with '','' vs'" "r = r'"
    using first_of_inj [OF semi] by auto
  moreover have "split_on (CHR '','') (join_with '','' vs) = vs" "split_on (CHR '','') (join_with '','' vs') = vs'"
    using assms(1,2) by (auto simp: e plain_entry_def intro!: split_join)
  ultimately have "k = k'" "vs = vs'" "r = r'" by metis+
  then show ?thesis unfolding e by blast
qed

lemma entries_text_inj:
  "\<forall>e \<in> set es. plain_entry e \<Longrightarrow> \<forall>e \<in> set es'. plain_entry e \<Longrightarrow>
   concat (map entry_text es) = concat (map entry_text es') \<Longrightarrow> es = es'"
proof (induction es arbitrary: es')
  case Nil
  then show ?case by (cases es') (auto simp: entry_text_def)
next
  case (Cons e es)
  then obtain e' fs where es': "es' = e' # fs" by (cases es') (auto simp: entry_text_def)
  have "e = e' \<and> concat (map entry_text es) = concat (map entry_text fs)"
    by (rule entry_text_inj) (use Cons.prems es' in simp_all)
  then show ?case using Cons.IH [of fs] Cons.prems es' by simp
qed

definition sorted_entries :: "filters \<Rightarrow> (string \<times> string list) list" where
  "sorted_entries fs = map (\<lambda>k. (k, sort (the (map_of fs k)))) (sorted_set (map fst fs))"

lemma tidy_key:
  assumes "tidy_filters fs" and "k \<in> fst ` set fs"
  obtains vs where "map_of fs k = Some vs" and "(k, vs) \<in> set fs" and "trim_space k = k" and "k \<noteq> []"
    and "vs \<noteq> []" and "distinct vs" and "\<forall>v \<in> set vs. trim_space v = v \<and> v \<noteq> []"
proof -
  obtain vs where "map_of fs k = Some vs" using assms(2) by (metis map_of_eq_None_iff not_None_eq)
  then show thesis using that assms(1) map_of_SomeD [of fs k vs] unfolding tidy_filters_def by fastforce
qed

lemma filters_text_entries: "tidy_filters fs \<Longrightarrow> filters_text fs = concat (map entry_text (sorted_entries fs))"
proof -
  assume tidy: "tidy_filters fs"
  have "filter_text fs k = entry_text (k, sort (the (map_of fs k)))" if "k \<in> set (sorted_set (map fst fs))" for k
  proof -
    have "k \<in> fst ` set fs" using that by simp
    from tidy_key [OF tidy this]
    obtain vs where vs: "map_of fs k = Some vs" "trim_space k = k" "k \<noteq> []" "vs \<noteq> []"
      "\<forall>v \<in> set vs. trim_space v = v \<and> v \<noteq> []"
      by metis
    have "filter (\<lambda>v. v \<noteq> []) (map trim_space vs) = vs"
      using vs(5) by (induction vs) auto
    then show ?thesis using vs sort_empty [of vs] by (simp add: filter_text_def entry_text_def Let_def)
  qed
  then have "map (filter_text fs) (sorted_set (map fst fs)) =
    map (\<lambda>k. entry_text (k, sort (the (map_of fs k)))) (sorted_set (map fst fs))"
    by (simp only: map_eq_conv) blast
  then show ?thesis by (simp only: filters_text_def sorted_entries_def map_map comp_def)
qed

lemma sorted_entries_plain:
  assumes "tidy_filters fs" and "separable_filters fs" and "e \<in> set (sorted_entries fs)"
  shows "plain_entry e"
proof -
  obtain k where k: "k \<in> fst ` set fs" "e = (k, sort (the (map_of fs k)))"
    using assms(3) by (auto simp: sorted_entries_def)
  obtain vs where "map_of fs k = Some vs" "(k, vs) \<in> set fs" "vs \<noteq> []"
    using tidy_key [OF assms(1) k(1)] by metis
  moreover have "CHR ''='' \<notin> set k \<and> (\<forall>v \<in> set vs. CHR '','' \<notin> set v \<and> CHR '';'' \<notin> set v)"
    using assms(2) \<open>(k, vs) \<in> set fs\<close> by (auto simp: separable_filters_def)
  ultimately show ?thesis using k(2) sort_empty [of vs] by (simp add: plain_entry_def)
qed

lemma sorted_entries_same:
  assumes "tidy_filters fs" and "tidy_filters gs"
  shows "sorted_entries fs = sorted_entries gs \<longleftrightarrow> same_filters fs gs"
proof
  assume eq: "sorted_entries fs = sorted_entries gs"
  then have "map fst (sorted_entries fs) = map fst (sorted_entries gs)" by simp
  then have keys: "sorted_set (map fst fs) = sorted_set (map fst gs)" by (simp add: sorted_entries_def comp_def)
  then have keyset: "fst ` set fs = fst ` set gs" by (metis set_map set_sorted_set)
  have "map_option set (map_of fs k) = map_option set (map_of gs k)" for k
  proof (cases "k \<in> fst ` set fs")
    case True
    then obtain vs ws where "map_of fs k = Some vs" "map_of gs k = Some ws"
      using tidy_key [OF assms(1), of k] tidy_key [OF assms(2), of k] keyset by metis
    moreover have "sort (the (map_of fs k)) = sort (the (map_of gs k))"
    proof -
      have "k \<in> set (sorted_set (map fst gs))" using True keyset by simp
      moreover have "map (\<lambda>k. (k, sort (the (map_of fs k)))) (sorted_set (map fst gs)) = sorted_entries gs"
        using eq keys by (simp add: sorted_entries_def)
      ultimately show ?thesis by (simp add: sorted_entries_def keyset) fastforce
    qed
    ultimately show ?thesis by (metis option.map(2) option.sel set_sort)
  next
    case False
    then show ?thesis using keyset by (metis map_of_eq_None_iff)
  qed
  then show "same_filters fs gs" by (auto simp: same_filters_def)
next
  assume same: "same_filters fs gs"
  then have at: "map_option set (map_of fs k) = map_option set (map_of gs k)" for k
    by (metis same_filters_def comp_apply)
  then have keyset: "fst ` set fs = fst ` set gs"
    by (metis (no_types) map_of_eq_None_iff map_option_is_None subsetI subset_antisym)
  then have keys: "sorted_set (map fst fs) = sorted_set (map fst gs)"
    unfolding sorted_set_def by (intro sort_distinct_inj [THEN iffD2]) simp_all
  have "sort (the (map_of fs k)) = sort (the (map_of gs k))" if "k \<in> fst ` set fs" for k
  proof -
    have mem: "k \<in> fst ` set fs" "k \<in> fst ` set gs" using that keyset by simp_all
    obtain vs where "map_of fs k = Some vs" "distinct vs" using tidy_key [OF assms(1) mem(1)] by metis
    moreover obtain ws where "map_of gs k = Some ws" "distinct ws" using tidy_key [OF assms(2) mem(2)] by metis
    ultimately show ?thesis using at [of k] sort_distinct_inj [of vs ws] by simp
  qed
  then show "sorted_entries fs = sorted_entries gs"
    unfolding sorted_entries_def keys by (simp add: keyset)
qed

lemma filters_text_inj:
  assumes "tidy_filters fs" and "tidy_filters gs" and "separable_filters fs" and "separable_filters gs"
  shows "filters_text fs = filters_text gs \<longleftrightarrow> same_filters fs gs"
proof -
  have "concat (map entry_text (sorted_entries fs)) = concat (map entry_text (sorted_entries gs)) \<longleftrightarrow>
    sorted_entries fs = sorted_entries gs"
    using entries_text_inj [of "sorted_entries fs" "sorted_entries gs"]
      sorted_entries_plain [OF assms(1,3)] sorted_entries_plain [OF assms(2,4)] by auto
  then show ?thesis by (simp add: filters_text_entries assms(1,2) sorted_entries_same)
qed

lemma filters_text_Nil: "tidy_filters fs \<Longrightarrow> filters_text fs = [] \<longleftrightarrow> fs = []"
proof -
  assume "tidy_filters fs"
  then have "filters_text fs = concat (map entry_text (sorted_entries fs))" by (rule filters_text_entries)
  moreover have "sorted_entries fs = [] \<longleftrightarrow> fs = []"
    by (auto simp: sorted_entries_def simp flip: set_empty)
  ultimately show ?thesis by (cases "sorted_entries fs") (auto simp: entry_text_def)
qed

subsection \<open>The relation among the filters\<close>

definition separable_search :: "filters \<Rightarrow> string \<Rightarrow> bool" where
  "separable_search fs role \<longleftrightarrow> separable_filters fs \<and> ''fga_role'' \<notin> fst ` set fs \<and> set role \<inter> {CHR '','', CHR '';''} = {}"

lemma fga_role_trimmed: "trim_space ''fga_role'' = ''fga_role''"
  by code_simp

lemma hashed_tidy: "tidy_filters fs \<Longrightarrow> trim_space role = role \<Longrightarrow> tidy_filters (hashed_filters fs role)"
  unfolding hashed_filters_def using tidy_obj_put [of fs "''fga_role''" "[role]"] fga_role_trimmed by auto

lemma hashed_separable: "separable_search fs role \<Longrightarrow> separable_filters (hashed_filters fs role)"
proof -
  assume a: "separable_search fs role"
  have "separable_filters (obj_put ''fga_role'' [role] fs)"
    unfolding separable_filters_def
  proof (rule ballI)
    fix e assume "e \<in> set (obj_put ''fga_role'' [role] fs)"
    then have "e = (''fga_role'', [role]) \<or> e \<in> set fs" using set_obj_put [of "''fga_role''" "[role]" fs] by blast
    then show "case e of (k, vs) \<Rightarrow> set k \<inter> {CHR ''='', CHR '';''} = {} \<and> (\<forall>v \<in> set vs. set v \<inter> {CHR '','', CHR '';''} = {})"
      using a unfolding separable_search_def separable_filters_def by auto
  qed
  then show ?thesis using a by (simp add: hashed_filters_def separable_search_def)
qed

lemma hashed_same:
  assumes "separable_search fs role" and "separable_search gs role'"
  shows "same_filters (hashed_filters fs role) (hashed_filters gs role') \<longleftrightarrow> role = role' \<and> same_filters fs gs"
proof -
  have none: "map_of fs ''fga_role'' = None" "map_of gs ''fga_role'' = None"
    using assms by (auto simp: separable_search_def map_of_eq_None_iff)
  have of_hashed: "map_of (hashed_filters hs r) = (if r = [] then map_of hs else (map_of hs)(''fga_role'' \<mapsto> [r]))" for hs r
    by (simp add: hashed_filters_def)
  have "role = role' \<and> same_filters fs gs" if "same_filters (hashed_filters fs role) (hashed_filters gs role')"
  proof -
    have at: "map_option set (map_of (hashed_filters fs role) k) = map_option set (map_of (hashed_filters gs role') k)" for k
      using that by (metis same_filters_def comp_apply)
    have "role = role'"
      using at [of "''fga_role''"] none by (auto simp: of_hashed split: if_splits)
    moreover have "map_option set (map_of fs k) = map_option set (map_of gs k)" for k
      using at [of k] none by (cases "k = ''fga_role''") (auto simp: of_hashed split: if_splits)
    ultimately show ?thesis by (auto simp: same_filters_def)
  qed
  moreover have "same_filters (hashed_filters fs role) (hashed_filters gs role)" if "same_filters fs gs"
  proof -
    have "map_option set (map_of fs k) = map_option set (map_of gs k)" for k
      using that by (metis same_filters_def comp_apply)
    then show ?thesis by (auto simp: same_filters_def of_hashed)
  qed
  ultimately show ?thesis by blast
qed

text \<open>
  SHA-256 as a cursor relies on it: of the texts \<open>T\<close> no two have the same digest, and only the empty one
  may have the empty digest.
\<close>

definition collision_free :: "(string \<Rightarrow> string) \<Rightarrow> string set \<Rightarrow> bool" where
  "collision_free sha T \<longleftrightarrow> inj_on sha T \<and> (\<forall>x \<in> T. sha x = [] \<longrightarrow> x = [])"

definition hashed_text :: "search_plan \<Rightarrow> string" where
  "hashed_text P = filters_text (hashed_filters (pl_filters P) (pl_role P))"

lemma cursorFiltersHash_text:
  assumes "trim_space role = role"
  shows "cursorFiltersHash B fs role = (if hashed_filters fs role = [] then [] else bk_sha B (filters_text (hashed_filters fs role)))"
  using assms by (simp add: cursorFiltersHash_def filtersHash_def filters_text_def hashed_filters_def Let_def)

lemma cursor_text_inj:
  assumes "plan_search V req = Inr P" and "plan_search V req' = Inr P'"
    and "separable_search (pl_filters P) (pl_role P)" and "separable_search (pl_filters P') (pl_role P')"
    and "collision_free (bk_sha B) {hashed_text P, hashed_text P'}"
  shows "cursorFiltersHash B (pl_filters P') (pl_role P') = cursorFiltersHash B (pl_filters P) (pl_role P) \<longleftrightarrow>
    pl_role P' = pl_role P \<and> same_filters (pl_filters P') (pl_filters P)"
proof -
  let ?E = "hashed_filters (pl_filters P) (pl_role P)" and ?E' = "hashed_filters (pl_filters P') (pl_role P')"
  have tidy: "tidy_filters ?E" "tidy_filters ?E'"
    using plan_search_tidy [OF assms(1)] plan_search_tidy [OF assms(2)] hashed_tidy by simp_all
  have sep: "separable_filters ?E" "separable_filters ?E'" using assms(3,4) hashed_separable by simp_all
  have "cursorFiltersHash B (pl_filters P') (pl_role P') = cursorFiltersHash B (pl_filters P) (pl_role P) \<longleftrightarrow>
    filters_text ?E' = filters_text ?E"
    using plan_search_tidy [OF assms(1)] plan_search_tidy [OF assms(2)] assms(5)
      filters_text_Nil [OF tidy(1)] filters_text_Nil [OF tidy(2)]
    unfolding collision_free_def hashed_text_def by (auto simp: cursorFiltersHash_text inj_on_def)
  then show ?thesis
    using filters_text_inj [OF tidy(2,1) sep(2,1)] hashed_same [OF assms(4,3)] by simp
qed

lemma resume_at_cursor:
  assumes "cursor_json_laws (sv_json V)" and "EncodeCursor (sv_json V) (plan_cursor V P sa) = Inr c" and "sa \<noteq> []"
  shows "if pl_org P' = pl_org P \<and> queryHash (sv_backends V) (pl_query P') = queryHash (sv_backends V) (pl_query P) \<and>
       pl_mode P' = pl_mode P \<and> pl_resource P' = pl_resource P \<and> pl_limit P' = pl_limit P \<and>
       cursorFiltersHash (sv_backends V) (pl_filters P') (pl_role P')
         = cursorFiltersHash (sv_backends V) (pl_filters P) (pl_role P)
     then resume_at V (req\<lparr>rq_cursor := c\<rparr>) P' = Inr sa
     else \<exists>e. resume_at V (req\<lparr>rq_cursor := c\<rparr>) P' = Inl e \<and> ErrInvalidCursor \<in> set (se_is e)"
proof -
  have "DecodeCursor (sv_json V) c = Inr (plan_cursor V P sa)"
    by (rule decode_encode_cursor [OF assms(1,2)]) (use assms(3) in \<open>simp_all add: plan_cursor_def\<close>)
  then have "resume_at V (req\<lparr>rq_cursor := c\<rparr>) P' =
      (case ValidateCursor (plan_cursor V P sa) (pl_org P') (queryHash (sv_backends V) (pl_query P')) (pl_mode P')
              (pl_resource P') (cursorFiltersHash (sv_backends V) (pl_filters P') (pl_role P')) (pl_limit P') of
         Some e \<Rightarrow> Inl e | None \<Rightarrow> Inr sa)"
    using EncodeCursor_nonempty [OF assms(1,2)] by (simp add: resume_at_def plan_cursor_def split: option.split)
  then show ?thesis
    by (auto simp: ValidateCursor_def plan_cursor_def sentinel_err_def)
qed

text \<open>Without the separators' protection two different filters have one text, whatever the hash.\<close>

lemma comma_in_value_collides:
  "cursorFiltersHash B [(''tier'', [''b,c''])] [] = cursorFiltersHash B [(''tier'', [''b'', ''c''])] []"
  "cursorFiltersHash B [(''fga_role'', [''member''])] [] = cursorFiltersHash B [] ''member''"
  "\<not> same_filters [(''tier'', [''b,c''])] [(''tier'', [''b'', ''c''])]"
proof -
  have "sort [''b'', ''c''] = [''b'', ''c'']" "sorted_set [''tier''] = [''tier'']" "sorted_set [''fga_role''] = [''fga_role'']"
    by code_simp+
  then show "cursorFiltersHash B [(''tier'', [''b,c''])] [] = cursorFiltersHash B [(''tier'', [''b'', ''c''])] []"
    "cursorFiltersHash B [(''fga_role'', [''member''])] [] = cursorFiltersHash B [] ''member''"
    by (simp_all add: cursorFiltersHash_def filtersHash_def filter_text_def Let_def trim_space_def is_space_def)
  show "\<not> same_filters [(''tier'', [''b,c''])] [(''tier'', [''b'', ''c''])]"
    by (auto simp: same_filters_def fun_eq_iff intro!: exI [of _ "''tier''"])
qed

end
