(* ===== verification/Search_Props.thy ===== *)
theory Search_Props
  imports Search_Errors Search_Example Search_Hash
begin

text \<open>The properties of the search service, with their witnesses on the installation of \<open>Search_Example\<close>.\<close>

subsection \<open>Pages and cursors\<close>

text \<open>
  C19. While nothing is indexed and no grant changes, a search that succeeds answers exactly the hits that
  filtering everything at once would: of the hits behind the cursor, the first \<^verbatim>\<open>maxScannedHits\<close> are looked
  at, those that OpenFGA allows are kept, the ones of the earlier pages are skipped and at most
  \<^verbatim>\<open>limit\<close> are answered; how many batches were fetched does not matter.
\<close>
theorem search_returns_window:
  assumes "plan_search (NewService B J d m b n) req = Inr P" and "resume_at (NewService B J d m b n) req P = Inr sa"
    and "frozen (NewService B J d m b n) P accounts G rank A"
    and "Search (NewService B J d m b n) req w = (Inr resp, w')"
  shows "sp_results resp = (if accounts = [] then [] else
     map (hit_result P G)
       (take (nat (pl_limit P)) (drop (nat (pl_offset P))
         (filter A (take (nat (sv_max_scanned (NewService B J d m b n)))
           (hits_after sa (rank (plan_query (NewService B J d m b n) P G accounts []))))))))"
  using run_search_window(1) [OF NewService_positive plan_search_limit(1) [OF NewService_positive assms(1)] assms(3)]
    assms(1,2,4) by (simp add: Search_def window_def)

theorem search_returns_window_witness:
  "\<exists>resp w'. Search (example_service example_json) (example_request 2) () = (Inr resp, w') \<and>
     sp_results resp = [hit_result (example_plan 2) example_target (example_hit 3 ''job'')]"
proof -
  have r: "resume_at (example_service example_json) (example_request 2) (example_plan 2) = Inr []"
    by (simp add: resume_at_def example_request_def)
  obtain resp w' where s: "Search (example_service example_json) (example_request 2) () = (Inr resp, w')"
    using run_search_healthy [OF example_healthy, of 2 "[]" "()"] r example_plan_2 by (auto simp: Search_def)
  have "sp_results resp = map (hit_result (example_plan 2) example_target)
     (take 1 (drop 1 (filter example_granted (take 50 example_hits))))"
    using search_returns_window [OF example_plan_2 [unfolded example_service_def] r [unfolded example_service_def]
        example_frozen [unfolded example_service_def] s [unfolded example_service_def]]
    by (simp add: example_plan_def NewService_def)
  moreover have "take 50 example_hits = example_hits" by (simp add: example_hits_def)
  ultimately show ?thesis using s by (simp add: example_hits_granted)
qed

text \<open>
  C20. A client that keeps asking with the cursor of the last answer comes to an end, after at most one
  request per ranked hit and one more, and has then been shown every hit that OpenFGA allows, each once and in
  the order of the ranking, if no backend fails. Limits, batches and scan limits lose nothing.
\<close>
theorem cursors_reach_every_hit:
  assumes "cursor_json_laws J" and "plan_search (NewService B J d m b n) req = Inr P" and "rq_page req = 0"
    and "rq_cursor req = []" and "frozen (NewService B J d m b n) P accounts G rank A"
    and "healthy (NewService B J d m b n) P" and "accounts \<noteq> []"
    and "length (rank (plan_query (NewService B J d m b n) P G accounts [])) < fuel"
  shows "\<exists>w'. follow_cursors (NewService B J d m b n) fuel req w
    = Some (Inr (map (hit_result P G) (filter A (rank (plan_query (NewService B J d m b n) P G accounts [])))), w')"
proof -
  let ?V = "NewService B J d m b n"
  have "resume_at ?V req P = Inr []" using assms(4) by (simp add: resume_at_def)
  from follow_cursors_all [OF NewService_positive _ assms(5,7,3,2) this, of fuel w]
  obtain r w' where "follow_cursors ?V fuel req w = Some (r, w')" "\<not> isl r"
    "\<forall>hs. r = Inr hs \<longrightarrow> hs = map (hit_result P G) (filter A (rank (plan_query ?V P G accounts [])))"
    using assms(1,6,8) by (auto simp: NewService_def)
  then show ?thesis by (cases r) auto
qed

theorem cursors_reach_every_hit_witness:
  "\<exists>w'. follow_cursors (example_service example_json) 4 (example_request 0) ()
    = Some (Inr (map (hit_result (example_plan 0) example_target) [example_hit 1 ''web'', example_hit 3 ''job'']), w')"
proof -
  have "\<exists>w'. follow_cursors (example_service example_json) 4 (example_request 0) ()
    = Some (Inr (map (hit_result (example_plan 0) example_target) (filter example_granted example_hits)), w')"
    unfolding example_service_def
    by (rule cursors_reach_every_hit [OF example_json_laws example_plan_0 [unfolded example_service_def] _ _
          example_frozen [unfolded example_service_def] example_healthy [unfolded example_service_def]])
       (simp_all add: example_request_def example_hits_def)
  then show ?thesis by (simp add: example_hits_granted)
qed

lemma example_filters_differ:
  "\<not> same_filters (pl_filters (example_filtered [''b''])) (pl_filters (example_filtered [''a'', ''b'']))"
  by (auto simp: same_filters_def example_filtered_def fun_eq_iff intro!: exI [of _ "''tier''"])

text \<open>
  C21. A cursor that a search handed out is taken back exactly by the searches for the same organization,
  query, mode, resource, relation, limit and filters (each field with the same set of values), and such a
  search goes on behind the last hit that was looked at; a search that differs in one of them is refused as an
  invalid cursor. This holds while SHA-256 does not collide on the texts of the two searches and while no
  filter and no relation holds one of the separators of the hashed text: no comma or semicolon in a value or
  the relation, no equals sign or semicolon in a field, no field called \<^verbatim>\<open>fga_role\<close>. Without this condition
  different filters share a hash (\<open>comma_in_value_collides\<close>).
\<close>
theorem cursor_bound_to_search:
  assumes "cursor_json_laws (sv_json V)"
    and "plan_search V req = Inr P" and "EncodeCursor (sv_json V) (plan_cursor V P sa) = Inr c" and "sa \<noteq> []"
    and "plan_search V req' = Inr P'" and "rq_cursor req' = c"
    and "separable_search (pl_filters P) (pl_role P)" and "separable_search (pl_filters P') (pl_role P')"
    and "collision_free (bk_sha (sv_backends V)) {pl_query P, pl_query P', hashed_text P, hashed_text P'}"
  shows "if pl_org P' = pl_org P \<and> pl_query P' = pl_query P \<and> pl_mode P' = pl_mode P \<and> pl_resource P' = pl_resource P \<and>
       pl_limit P' = pl_limit P \<and> pl_role P' = pl_role P \<and> same_filters (pl_filters P') (pl_filters P)
     then resume_at V req' P' = Inr sa
     else \<exists>e. resume_at V req' P' = Inl e \<and> ErrInvalidCursor \<in> set (se_is e)"
proof -
  have free: "collision_free (bk_sha (sv_backends V)) {hashed_text P, hashed_text P'}"
    "queryHash (sv_backends V) (pl_query P') = queryHash (sv_backends V) (pl_query P) \<longleftrightarrow> pl_query P' = pl_query P"
    using assms(9) inj_on_eq_iff [of "bk_sha (sv_backends V)" _ "pl_query P'" "pl_query P"]
    unfolding collision_free_def queryHash_def by (blast intro: inj_on_subset)+
  have "req'\<lparr>rq_cursor := c\<rparr> = req'" using assms(6) by simp
  with resume_at_cursor [OF assms(1,3,4), of P' req'] cursor_text_inj [OF assms(2,5,7,8) free(1)] free(2)
  show ?thesis by (simp only: split: if_split)
qed

theorem cursor_bound_to_search_witness:
  "\<exists>c. EncodeCursor example_filter_json (plan_cursor (example_service example_filter_json) (example_filtered [''a'', ''b'']) [JInt 1]) = Inr c \<and>
     resume_at (example_service example_filter_json) (example_filter_request [''b'', ''a''] c) (example_filtered [''b'', ''a'']) = Inr [JInt 1] \<and>
     (\<exists>e. resume_at (example_service example_filter_json) (example_filter_request [''b''] c) (example_filtered [''b'']) = Inl e \<and>
       ErrInvalidCursor \<in> set (se_is e))"
proof -
  let ?V = "example_service example_filter_json" and ?P = "example_filtered [''a'', ''b'']"
  have J: "sv_json ?V = example_filter_json" "bk_sha (sv_backends ?V) = id"
    by (simp_all add: example_service_def NewService_def example_backends_def)
  obtain c where c: "EncodeCursor example_filter_json (plan_cursor ?V ?P [JInt 1]) = Inr c"
    using example_filter_handed_out by blast
  have free: "collision_free (bk_sha (sv_backends ?V)) T" for T by (simp add: J collision_free_def)
  have sep: "separable_search (pl_filters (example_filtered vs)) (pl_role (example_filtered vs))"
    if "vs \<in> {[''a'', ''b''], [''b'', ''a''], [''b'']}" for vs
    using that by (auto simp: separable_search_def separable_filters_def example_filtered_def example_plan_def)
  have same: "resume_at ?V (example_filter_request [''b'', ''a''] c) (example_filtered [''b'', ''a'']) = Inr [JInt 1]"
    using cursor_bound_to_search [of ?V, unfolded J(1), OF example_filter_json_laws example_filtered_plans(1) c _
        example_filtered_plans(2) example_filter_cursor sep sep free]
    by (simp add: example_filtered_def example_plan_def same_filters_def fun_eq_iff insert_commute)
  have other: "\<exists>e. resume_at ?V (example_filter_request [''b''] c) (example_filtered [''b'']) = Inl e \<and> ErrInvalidCursor \<in> set (se_is e)"
    using cursor_bound_to_search [of ?V, unfolded J(1), OF example_filter_json_laws example_filtered_plans(1) c _
        example_filtered_plans(3) example_filter_cursor sep sep free]
    by (simp add: example_filters_differ)
  show ?thesis using c same other by blast
qed

subsection \<open>What is shown to whom\<close>

text \<open>
  C22. Every hit that the search route shows came from the index, for a query that was restricted to accounts
  OpenFGA listed for the caller, and OpenFGA grants the caller \<^verbatim>\<open>get\<close> on it, in a store of the
  caller's organization. The caller is the user of the token's claim, the organization the subdomain of the
  host, and the token was validated for that organization, except in local mode.
\<close>
theorem search_shows_only_granted:
  assumes "batch_sound (az_client A) granted" and "bk_filter (sv_backends V) = FilterAuthorized A"
    and "serve_search M V c q w = (Answer ans, w')" and "x \<in> shown_hits ans"
  shows "\<exists>org user token claim h r oq role.
    org = (if om_local M then om_local_org M else extractSubdomain (hc_host c)) \<and>
    hc_token c = Some token \<and> wt_claim token (om_user_claim M) = Some claim \<and> user = trim_space claim \<and>
    (om_local M \<or> (\<exists>header w1. Option.bind (hc_auth_header c) normalizeBearerAuthHeader = Some header \<and>
       om_validate M header org w = (Inr True, w1))) \<and>
    x = mapHit h r \<and> answered V oq h \<and> accessible V (trim_space org) (trim_space user) role (oq_accounts oq) \<and>
    granted_in_org granted A (trim_space org) (trim_space user) ''get'' h"
proof -
  obtain rc w1 where rc: "SetRequestContext M c w = (Inr rc, w1)" "search_endpoint V (Some rc) q w1 = (Answer ans, w')"
    using assms(3) by (auto simp: serve_search_def split: prod.splits sum.splits)
  obtain req resp w2 w3 where req: "rq_organization req = rx_organization rc" "rq_user req = rx_user rc"
      "Search V req w2 = (Inr resp, w3)" "x \<in> set (sp_results resp)"
    using search_endpoint_searched [OF rc(2) assms(4)] by blast
  note hit = authorizer.search_results [OF assms(1,2) req(3,4), unfolded req(1,2)]
  show ?thesis
    using hit SetRequestContext_caller [OF rc(1)] by metis
qed

theorem search_shows_only_granted_witness:
  "\<exists>resp w' h r. serve_search example_middleware (example_service example_json) example_caller example_params ()
     = (Answer (Inl resp), w') \<and> mapHit h r \<in> set (sp_results resp) \<and>
     granted_in_org example_grants example_authorizer ''acme'' ''ann'' ''get'' h"
proof -
  obtain resp w' where s: "Search (example_service example_json) (example_request 2) () = (Inr resp, w')"
      "sp_results resp = [hit_result (example_plan 2) example_target (example_hit 3 ''job'')]"
    using example_search_2 by blast
  note route = example_route [OF s(1)]
  have f: "bk_filter (sv_backends (example_service example_json)) = FilterAuthorized example_authorizer"
    by (simp add: example_service_def NewService_def example_backends_def)
  have m: "\<not> om_local example_middleware" "extractSubdomain (hc_host example_caller) = ''acme''" "trim_space ''acme'' = ''acme''" "trim_space ''ann'' = ''ann''"
    "\<And>token claim. hc_token example_caller = Some token \<Longrightarrow> wt_claim token (om_user_claim example_middleware) = Some claim
      \<Longrightarrow> trim_space (trim_space claim) = ''ann''"
    by (code_simp, code_simp, code_simp, code_simp)
       (auto simp: example_caller_def trim_space_def is_space_def split: if_splits)
  have shown: "hit_result (example_plan 2) example_target (example_hit 3 ''job'') \<in> shown_hits (Inl resp)"
    using s(2) by (simp add: shown_hits_def)
  obtain h r where "hit_result (example_plan 2) example_target (example_hit 3 ''job'') = mapHit h r"
      "granted_in_org example_grants example_authorizer ''acme'' ''ann'' ''get'' h"
    using search_shows_only_granted [OF example_fga_sound f route shown] m by auto
  then show ?thesis using route s(2) by auto
qed

text \<open>
  C23. What a backend says in an error never reaches the caller: if the index, OpenFGA or kcp fail in the same
  way under other texts, the three endpoints give the same answers and the same problems.
\<close>
theorem search_hides_backend_errors:
  assumes "text_only m"
  shows "search_endpoint (reworded m V) ctx q w = search_endpoint V ctx q w \<and>
    resources_endpoint (reworded m V) ctx w = resources_endpoint V ctx w \<and>
    values_endpoint (reworded m V) ctx q w = values_endpoint V ctx q w"
  by (intro conjI search_endpoint_reworded resources_endpoint_reworded values_endpoint_reworded assms)

theorem search_hides_backend_errors_witness:
  "resources_endpoint (reworded (wrap_err ''secret host'') (failing_service ''dial tcp 10.0.0.1'')) (Some example_context) ()
     = (Problem SearchBackendUnavailable, ())"
proof -
  have "text_only (wrap_err ''secret host'')" by (simp add: text_only_def wrap_err_def)
  from search_hides_backend_errors [OF this, of "failing_service ''dial tcp 10.0.0.1''" "Some example_context"]
  have "resources_endpoint (reworded (wrap_err ''secret host'') (failing_service ''dial tcp 10.0.0.1'')) (Some example_context) ()
      = resources_endpoint (failing_service ''dial tcp 10.0.0.1'') (Some example_context) ()" by blast
  also have "\<dots> = (Problem SearchBackendUnavailable, ())" by code_simp
  finally show ?thesis .
qed

text \<open>
  The values that are offered for a filter come sorted, each once, at most as many as the limit allows,
  and every one of them is a value of the field in a hit of the index that OpenFGA lets the user \<^verbatim>\<open>get\<close>.
\<close>
theorem filter_values_granted:
  assumes "batch_sound (az_client A) granted" and "bk_filter B = FilterAuthorized A"
    and "FilterValues (NewService B J d m b n) req w = (Inr vs, w')"
  shows "sorted vs \<and> distinct vs \<and> int (length vs) \<le> bounded_limit (NewService B J d m b n) (fv_limit req) \<and>
    list_all (\<lambda>v. \<exists>oq h. answered (NewService B J d m b n) oq h \<and>
       granted_in_org granted A (trim_space (fv_organization req)) (trim_space (fv_user req)) ''get'' h \<and>
       v \<in> set (extractFieldValues (hit_source h) (prefixed_field ''filterable_fields'' (trim_space (fv_field req))))) vs"
proof -
  let ?V = "NewService B J d m b n"
  let ?org = "trim_space (fv_organization req)" and ?user = "trim_space (fv_user req)"
  let ?path = "prefixed_field ''filterable_fields'' (trim_space (fv_field req))"
  let ?limit = "bounded_limit ?V (fv_limit req)"
  let ?ok = "\<lambda>v. \<exists>oq h. answered ?V oq h \<and> granted_in_org granted A ?org ?user ''get'' h \<and> v \<in> set (extractFieldValues (hit_source h) ?path)"
  have limit: "0 < ?limit"
    by (simp add: bounded_limit_def NewService_def Let_def)
  consider "vs = []" | ref fs accounts found w1 w2
    where "value_pages ?V (value_query ?V ref (trim_space (fv_query req)) fs accounts)
        (\<lambda>hits. \<lparr>aq_organization = ?org, aq_user = ?user, aq_relation = ''get'', aq_hits = hits\<rparr>)
        ?limit ?path [] (0, []) w1 = (Inr found, w2)" "vs = take (nat ?limit) (sort found)"
    using assms(3) unfolding FilterValues_def Let_def
    by (auto split: if_splits prod.splits sum.splits option.splits)
  then show ?thesis
  proof cases
    case 1
    then show ?thesis using limit by simp
  next
    case 2
    have "distinct found \<and> int (length found) \<le> ?limit \<and> (\<forall>v \<in> set found. ?ok v)"
    proof (rule authorizer.value_pages_ok [OF assms(1) _ 2(1)])
      show "bk_filter (sv_backends ?V) = FilterAuthorized A" using assms(2) by (simp add: NewService_def)
    qed (use limit in auto)
    then show ?thesis using 2(2) by (auto simp: list_all_iff sorted_wrt_take dest: in_set_takeD)
  qed
qed

theorem filter_values_granted_witness:
  "\<exists>vs w'. FilterValues (example_service no_json) example_values () = (Inr vs, w') \<and> vs = [''Running''] \<and> sorted vs \<and>
     list_all (\<lambda>v. \<exists>oq h. answered (example_service no_json) oq h \<and>
       granted_in_org example_grants example_authorizer ''acme'' ''ann'' ''get'' h \<and>
       v \<in> set (extractFieldValues (hit_source h) ''filterable_fields.phase'')) vs"
proof -
  have v: "FilterValues (example_service no_json) example_values () = (Inr [''Running''], ())" by code_simp
  have e: "trim_space (fv_organization example_values) = ''acme''" "trim_space (fv_user example_values) = ''ann''"
    "prefixed_field ''filterable_fields'' (trim_space (fv_field example_values)) = ''filterable_fields.phase''"
    by code_simp+
  show ?thesis
    using filter_values_granted [OF example_fga_sound _ v [unfolded example_service_def], unfolded e] v
    by (simp add: example_service_def example_backends_def)
qed

end
