(* ===== verification/Search_Index.thy ===== *)
theory Search_Index
  imports Search_Types
begin

text \<open>
  Which indices an organization has (\<^verbatim>\<open>clients/kcp/searchindex_resolver.go\<close>): the cluster id of its
  workspace, the SearchIndex resources of one of two workspaces, and the resource name that each index
  carries behind its prefix and organization. The kcp clients are parameters.
\<close>

subsection \<open>SearchIndex resources\<close>

record search_index =
  si_name :: string
  si_prefix :: string
  si_org_id :: string
  si_default :: "string list"
  si_filterable :: "string list"
  si_semantic :: "string list"
  si_index_name :: string

record index_config =
  ic_workspace_path :: string
  ic_org_path :: string
  ic_group :: string
  ic_version :: string

text \<open>
  \<open>ix_list\<close> lists the objects of the SearchIndex kind in a workspace under a label selector, \<open>ix_get_org\<close>
  reads the workspace of an organization, \<open>ix_decode\<close> is the converter from unstructured objects.
\<close>

record 'w index_env =
  ix_cfg :: index_config
  ix_get_org :: "string \<Rightarrow> 'w \<Rightarrow> (serr + json) \<times> 'w"
  ix_api :: unstructured_api
  ix_list :: "string \<Rightarrow> string \<Rightarrow> 'w \<Rightarrow> (serr + json list) \<times> 'w"
  ix_decode :: "json \<Rightarrow> serr + search_index"
  ix_object_name :: "json \<Rightarrow> string"

definition NewSearchIndexResolver :: "index_config \<Rightarrow> index_config" where
  "NewSearchIndexResolver cfg =
     (let p = trim_space (ic_org_path cfg) in
      if p = [] then cfg\<lparr>ic_org_path := ''root:orgs''\<rparr> else cfg)"

definition searchIndexOrgClusterIDLabel :: string where
  "searchIndexOrgClusterIDLabel = ''search.platform-mesh.io/org-cluster-id''"

subsection \<open>Names\<close>

definition is_alnum :: "char \<Rightarrow> bool" where
  "is_alnum c \<longleftrightarrow> (let n = (of_char c :: nat) in 97 \<le> n \<and> n \<le> 122 \<or> 48 \<le> n \<and> n \<le> 57)"

text \<open>Letters and digits stay; every run of other characters becomes one dash.\<close>

fun dash_runs :: "bool \<Rightarrow> string \<Rightarrow> string" where
  "dash_runs last_dash [] = []"
| "dash_runs last_dash (c # cs) =
     (if is_alnum c then c # dash_runs False cs
      else if last_dash then dash_runs True cs
      else CHR ''-'' # dash_runs True cs)"

definition normalizeName :: "string \<Rightarrow> string" where
  "normalizeName value = trim_char (CHR ''-'') (dash_runs False (to_lower value))"

definition strip_segment :: "string \<Rightarrow> string \<Rightarrow> string option" where
  "strip_segment segment name =
     (if segment = [] then Some name
      else if has_prefix name (segment @ ''-'') then Some (trim_prefix name (segment @ ''-'')) else None)"

definition deriveResourceName :: "string \<Rightarrow> string \<Rightarrow> string \<Rightarrow> string" where
  "deriveResourceName name index_prefix org_id =
     (let n = normalizeName name in
      if n = [] then []
      else case strip_segment (normalizeName index_prefix) n of
        None \<Rightarrow> []
      | Some t \<Rightarrow>
          (case strip_segment (normalizeName org_id) t of None \<Rightarrow> [] | Some u \<Rightarrow> trim_char (CHR ''-'') u))"

subsection \<open>References\<close>

definition firstNonEmpty :: "string list \<Rightarrow> string" where
  "firstNonEmpty values = (case find (\<lambda>v. trim_space v \<noteq> []) values of Some v \<Rightarrow> trim_space v | None \<Rightarrow> [])"

definition mapSearchIndexRef :: "search_index \<Rightarrow> string \<Rightarrow> index_config \<Rightarrow> index_ref option" where
  "mapSearchIndexRef item org_id cfg =
     (let index_name = firstNonEmpty [si_index_name item, si_name item];
          org = firstNonEmpty [trim_space (si_org_id item), org_id];
          by_name = deriveResourceName (si_name item) (si_prefix item) org;
          resource = (if by_name = [] then deriveResourceName index_name (si_prefix item) org else by_name) in
      if index_name = [] \<or> resource = [] then None
      else Some \<lparr>ix_resource = resource, ix_name = index_name, ix_prefix = trim_space (si_prefix item), ix_org_id = org,
                 ix_default = DedupeSorted (si_default item), ix_filterable = DedupeSorted (si_filterable item),
                 ix_semantic = DedupeSorted (si_semantic item), ix_group = ic_group cfg, ix_version = ic_version cfg\<rparr>)"

subsection \<open>Listing\<close>

definition resolveOrganizationClusterID :: "'w index_env \<Rightarrow> string \<Rightarrow> 'w \<Rightarrow> (serr + string) \<times> 'w" where
  "resolveOrganizationClusterID E org w =
     (case ix_get_org E org w of
        (Inl e, w1) \<Rightarrow>
          (Inl (wrap_err (''resolve workspace cluster ID for org '' @ quoted org @ '' in workspace '' @
             quoted (ic_org_path (ix_cfg E))) e), w1)
      | (Inr obj, w1) \<Rightarrow>
          (case nested_string (ix_api E) obj [''spec'', ''cluster''] of
             Inr (Some i) \<Rightarrow>
               (if trim_space i = [] then Inl (plain_err (''workspace '' @ quoted org @ '' does not expose spec.cluster''))
                else Inr (trim_space i), w1)
           | _ \<Rightarrow> (Inl (plain_err (''workspace '' @ quoted org @ '' does not expose spec.cluster'')), w1)))"

fun decode_all :: "'w index_env \<Rightarrow> json list \<Rightarrow> serr + search_index list" where
  "decode_all E [] = Inr []"
| "decode_all E (obj # objs) =
     (case ix_decode E obj of
        Inl e \<Rightarrow> Inl (wrap_err (''decode SearchIndex '' @ quoted (ix_object_name E obj)) e)
      | Inr i \<Rightarrow> map_sum id (Cons i) (decode_all E objs))"

definition listSearchIndices :: "'w index_env \<Rightarrow> string \<Rightarrow> string \<Rightarrow> 'w \<Rightarrow> (serr + search_index list) \<times> 'w" where
  "listSearchIndices E path org_id w =
     (let selector = (if org_id = [] then [] else searchIndexOrgClusterIDLabel @ ''='' @ org_id) in
      case ix_list E path selector w of
        (Inl e, w1) \<Rightarrow> (Inl e, w1)
      | (Inr objs, w1) \<Rightarrow> (decode_all E objs, w1))"

text \<open>A listing that is tried again: the next one when it is empty, its error (prefixed) when it fails.\<close>

definition or_next ::
  "(serr \<Rightarrow> serr) \<Rightarrow> (serr + search_index list) \<times> 'w \<Rightarrow> ('w \<Rightarrow> (serr + search_index list) \<times> 'w) \<Rightarrow>
   (serr + search_index list) \<times> 'w" where
  "or_next f r k =
     (case r of (Inl e, w) \<Rightarrow> (Inl (f e), w) | (Inr items, w) \<Rightarrow> (if items \<noteq> [] then (Inr items, w) else k w))"

definition listSearchIndicesForOrg :: "'w index_env \<Rightarrow> string \<Rightarrow> 'w \<Rightarrow> (serr + search_index list) \<times> 'w" where
  "listSearchIndicesForOrg E org_id w =
     (let home = ic_workspace_path (ix_cfg E); orgs = ic_org_path (ix_cfg E) in
      or_next id (listSearchIndices E home org_id w) (\<lambda>w1.
      or_next (wrap_err ''fallback'') (listSearchIndices E home [] w1) (\<lambda>w2.
      if orgs = home then (Inr [], w2)
      else or_next id (listSearchIndices E orgs org_id w2) (\<lambda>w3.
           or_next (wrap_err ''fallback'') (listSearchIndices E orgs [] w3) (\<lambda>w4. (Inr [], w4))))))"

text \<open>The references of the items, or the resource that two indices claim.\<close>

fun collect_refs ::
  "search_index list \<Rightarrow> string \<Rightarrow> index_config \<Rightarrow> (string \<times> string) list \<Rightarrow> string + index_ref list" where
  "collect_refs [] org_id cfg seen = Inr []"
| "collect_refs (item # items) org_id cfg seen =
     (case mapSearchIndexRef item org_id cfg of
        None \<Rightarrow> collect_refs items org_id cfg seen
      | Some ref \<Rightarrow>
          (case map_of seen (ix_resource ref) of
             Some i \<Rightarrow>
               if i \<noteq> ix_name ref then Inl (ix_resource ref)
               else map_sum id (Cons ref) (collect_refs items org_id cfg ((ix_resource ref, ix_name ref) # seen))
           | None \<Rightarrow> map_sum id (Cons ref) (collect_refs items org_id cfg ((ix_resource ref, ix_name ref) # seen))))"

definition ListIndices :: "'w index_env \<Rightarrow> string \<Rightarrow> 'w \<Rightarrow> (serr + index_ref list) \<times> 'w" where
  "ListIndices E organization w =
     (let org = trim_space organization; cfg = ix_cfg E in
      if org = [] then (Inl (plain_err ''organization is required''), w)
      else case resolveOrganizationClusterID E org w of
        (Inl e, w1) \<Rightarrow> (Inl e, w1)
      | (Inr org_id, w1) \<Rightarrow>
     (case listSearchIndicesForOrg E org_id w1 of
        (Inl e, w2) \<Rightarrow> (Inl (wrap_err ''list SearchIndex resources'' e), w2)
      | (Inr items, w2) \<Rightarrow>
          if items = []
          then (Inl (plain_err (''no SearchIndex resources found in workspaces '' @ quoted (ic_workspace_path cfg) @
                  '' or '' @ quoted (ic_org_path cfg))), w2)
          else (case collect_refs items org_id cfg [] of
            Inl resource \<Rightarrow>
              (Inl (plain_err (''multiple SearchIndex resources match org '' @ quoted org @ '' and resource '' @
                 quoted resource)), w2)
          | Inr refs \<Rightarrow>
              if refs = [] then (Inl (plain_err (''no active SearchIndex resources found for org '' @ quoted org)), w2)
              else (Inr (sort_key ix_resource refs), w2))))"

definition ResolveIndex :: "'w index_env \<Rightarrow> string \<Rightarrow> string \<Rightarrow> 'w \<Rightarrow> (serr + index_ref) \<times> 'w" where
  "ResolveIndex E org resource w =
     (let r = trim_space resource in
      if r = [] then (Inl (plain_err ''resource is required''), w)
      else case ListIndices E org w of
        (Inl e, w1) \<Rightarrow> (Inl e, w1)
      | (Inr refs, w1) \<Rightarrow>
          (case find (\<lambda>i. normalizeName (ix_resource i) = normalizeName r) refs of
             Some i \<Rightarrow> (Inr i, w1)
           | None \<Rightarrow>
               (Inl (plain_err (''no SearchIndex matched org '' @ quoted org @ '' and resource '' @ quoted r)), w1)))"

end
