(* ===== verification/Search_Client.thy ===== *)
theory Search_Client
  imports Search_Service
begin

text \<open>
  The OpenSearch client (\<^verbatim>\<open>clients/opensearch/client.go\<close>): the body of a query as a JSON tree, and the
  reading of the answer. The HTTP round trip with its JSON encoding is a parameter.
\<close>

subsection \<open>The body of a query\<close>

definition normalize_query_filters :: "filters \<Rightarrow> filters" where
  "normalize_query_filters fs =
     fold (\<lambda>(field, raw) out.
        let f = trim_space field; values = DedupeSorted raw in
        if f = [] \<or> values = [] then out else obj_put f values out) fs []"

definition prefixedFields :: "string \<Rightarrow> string list \<Rightarrow> string list" where
  "prefixedFields pre names = DedupeSorted (filter (\<lambda>f. f \<noteq> []) (map (prefixed_field pre) names))"

definition defaultLexicalSearchFields :: "string list" where
  "defaultLexicalSearchFields =
     [''account_name'', ''api_group'', ''api_version'', ''cluster_name'', ''kind'', ''name'', ''namespace'',
      ''organization_name'', ''payload_text'', ''workspace_path'']"

definition lexicalSearchFields :: "string list \<Rightarrow> string list" where
  "lexicalSearchFields names =
     DedupeSorted (prefixedFields ''default_fields'' (DedupeSorted names) @ defaultLexicalSearchFields)"

definition searchMode :: "string \<Rightarrow> serr + string" where
  "searchMode raw =
     (let mode = to_lower (trim_space raw) in
      if mode = [] \<or> mode = SearchModeLexical then Inr SearchModeLexical
      else if mode = SearchModeSemantic then Inr SearchModeSemantic
      else Inl (plain_err (''unsupported search mode '' @ quoted raw)))"

definition neural_clause :: "string \<Rightarrow> string \<Rightarrow> json" where
  "neural_clause query field = JObj [(''neural'', JObj [(field, JObj [(''query_text'', JStr query)])])]"

definition buildSemanticQueryClause :: "string \<Rightarrow> string list \<Rightarrow> serr + json" where
  "buildSemanticQueryClause query semantic =
     (case semantic of
        [] \<Rightarrow> Inl (plain_err ''semantic mode requires at least one semantic field'')
      | [f] \<Rightarrow> Inr (neural_clause query f)
      | fs \<Rightarrow> Inr (JObj [(''bool'', JObj [(''should'', JArr (map (neural_clause query) fs)),
                                  (''minimum_should_match'', JInt 1)])]))"

definition query_clause :: "os_query \<Rightarrow> string \<Rightarrow> serr + json" where
  "query_clause req mode =
     (let query = trim_space (oq_query req); names = lexicalSearchFields (oq_fields req) in
      if query = [] then Inr (JObj [(''match_all'', JObj [])])
      else if mode = SearchModeSemantic
      then map_sum (wrap_err ''build semantic query clause'') id
             (buildSemanticQueryClause query (prefixedFields ''semantic_fields'' (DedupeSorted (oq_semantic req))))
      else Inr (JObj [(''simple_query_string'', JObj (
             [(''query'', JStr query), (''default_operator'', JStr ''and''), (''lenient'', JBool True)] @
             (if names = [] then [] else [(''fields'', JArr (map JStr names))])))]))"

definition terms_clause :: "string \<Rightarrow> string list \<Rightarrow> json" where
  "terms_clause field values = JObj [(''terms'', JObj [(field, JArr (map JStr values))])]"

definition filter_clauses :: "filters \<Rightarrow> string list \<Rightarrow> json list" where
  "filter_clauses fs accounts =
     map (\<lambda>f. terms_clause (prefixed_field ''filterable_fields'' f) (the (map_of fs f))) (sorted_set (map fst fs)) @
     (if accounts = [] then [] else [terms_clause ''filterable_fields.account_fga_object'' accounts])"

definition restricted_clause :: "json \<Rightarrow> filters \<Rightarrow> string list \<Rightarrow> json" where
  "restricted_clause clause fs accounts =
     (if fs = [] \<and> accounts = [] then clause
      else JObj [(''bool'', JObj [(''must'', JArr [clause]), (''filter'', JArr (filter_clauses fs accounts))])])"

definition sort_order :: json where
  "sort_order = JArr [JObj [(''_score'', JStr ''desc'')], JObj [(''_id'', JStr ''asc'')], JObj [(''_index'', JStr ''asc'')]]"

definition BuildQueryBody :: "os_query \<Rightarrow> serr + json_object" where
  "BuildQueryBody req =
     (case searchMode (oq_mode req) of
        Inl e \<Rightarrow> Inl e
      | Inr mode \<Rightarrow>
     (case query_clause req mode of
        Inl e \<Rightarrow> Inl e
      | Inr clause \<Rightarrow>
          let field = trim_space (oq_aggregation req);
              agg_size = (if oq_size req \<le> 0 then 10 else oq_size req);
              only_agg = (field \<noteq> [] \<and> oq_size req \<le> 0) in
          Inr ([(''size'', JInt (if only_agg then 0 else oq_size req)),
                (''query'', restricted_clause clause (normalize_query_filters (oq_filters req))
                              (DedupeSorted (oq_accounts req))),
                (''track_total_hits'', JBool True)] @
               (if only_agg then [] else [(''sort'', sort_order)]) @
               (if oq_after req = [] then [] else [(''search_after'', JArr (oq_after req))]) @
               (if field = [] then []
                else [(''aggs'', JObj [(''values'', JObj [(''terms'', JObj [
                         (''field'', JStr (prefixed_field ''filterable_fields'' field)), (''size'', JInt agg_size)])])])]))))"

subsection \<open>The round trip\<close>

text \<open>An HTTP answer: its status, the text of its body and what the JSON decoder makes of it.\<close>

record os_payload =
  py_timed_out :: bool
  py_shards_total :: int
  py_shards_failed :: int
  py_failures :: "(string \<times> string \<times> string) list"
  py_total :: int
  py_hits :: "os_hit list"
  py_values :: "json list option"

record os_http_answer =
  oa_status :: int
  oa_body :: string
  oa_payload :: "serr + os_payload"

record 'w os_http =
  oh_request_error :: "string \<Rightarrow> serr option"
  oh_post :: "string \<Rightarrow> json_object \<Rightarrow> 'w \<Rightarrow> (serr + os_http_answer) \<times> 'w"

fun scalarString :: "json \<Rightarrow> string" where
  "scalarString (JStr s) = trim_space s"
| "scalarString (JBool b) = (if b then ''true'' else ''false'')"
| "scalarString (JInt i) = itoa i"
| "scalarString (JFloat t) = t"
| "scalarString _ = []"

definition maxShardFailureReasons :: nat where
  "maxShardFailureReasons = 5"

fun shard_failures :: "string list \<Rightarrow> string list \<Rightarrow> (string \<times> string \<times> string) list \<Rightarrow> string list" where
  "shard_failures seen out [] = out"
| "shard_failures seen out ((index, t, r) # fs) =
     (let reason = trim_space (index @ '': '' @ t @ '': '' @ r) in
      if reason \<in> set seen then shard_failures seen out fs
      else if length out = maxShardFailureReasons then out
      else shard_failures (reason # seen) (out @ [reason]) fs)"

definition page_of_payload :: "os_payload \<Rightarrow> os_page" where
  "page_of_payload p =
     \<lparr>pa_hits = py_hits p,
      pa_values = (case py_values p of None \<Rightarrow> []
                   | Some keys \<Rightarrow> sort (filter (\<lambda>v. v \<noteq> []) (map scalarString keys))),
      pa_total = py_total p, pa_timed_out = py_timed_out p, pa_shards_total = py_shards_total p,
      pa_shards_failed = py_shards_failed p, pa_failures = shard_failures [] [] (py_failures p)\<rparr>"

definition client_search :: "'w os_http \<Rightarrow> os_query \<Rightarrow> 'w \<Rightarrow> (serr + os_page) \<times> 'w" where
  "client_search C q w =
     (let indices = DedupeSorted (oq_indices q); path = ''/'' @ join_with '','' indices @ ''/_search'' in
      if indices = [] then (Inl (plain_err ''at least one OpenSearch index is required''), w)
      else case BuildQueryBody q of
        Inl e \<Rightarrow> (Inl (wrap_err ''build OpenSearch query body'' e), w)
      | Inr body \<Rightarrow>
     (case oh_request_error C path of
        Some e \<Rightarrow> (Inl (wrap_err ''create OpenSearch request'' e), w)
      | None \<Rightarrow>
     (case oh_post C path body w of
        (Inl e, w1) \<Rightarrow> (Inl (wrap_err ''execute OpenSearch request'' e), w1)
      | (Inr answer, w1) \<Rightarrow>
          if oa_status answer \<ge> 400 then
            (Inl (sentinel_err (if oa_status answer < 500 then ErrSearchBackendRejected else ErrSearchBackend)
               (''status '' @ itoa (oa_status answer) @ '': '' @ trim_space (take 8192 (oa_body answer)))), w1)
          else (case oa_payload answer of
                  Inl e \<Rightarrow> (Inl (wrap_err ''decode OpenSearch response'' e), w1)
                | Inr p \<Rightarrow> (Inr (page_of_payload p), w1)))))"

subsection \<open>Every search is confined to the accounts it is given\<close>

lemma BuildQueryBody_restricted:
  assumes "BuildQueryBody q = Inr body" and "DedupeSorted (oq_accounts q) \<noteq> []"
  shows "\<exists>clause. map_of body ''query'' = Some (JObj [(''bool'', JObj [(''must'', JArr [clause]),
     (''filter'', JArr (filter_clauses (normalize_query_filters (oq_filters q)) (DedupeSorted (oq_accounts q))))])])"
  using assms by (auto simp: BuildQueryBody_def restricted_clause_def Let_def split: sum.splits)

end
