(* ===== verification/Iam_Types.thy ===== *)
theory Iam_Types
  imports Fga_Types "HOL-Library.Multiset"
begin

text \<open>
  The data of the IAM service (\<^verbatim>\<open>services/iam-service/pkg\<close>): resources, users and roles of its GraphQL API
  (\<^verbatim>\<open>graph/models_gen.go\<close>), the context of a request (\<^verbatim>\<open>context/context.go\<close>), the names of OpenFGA types
  (\<^verbatim>\<open>golang-commons/fga/util\<close>), the store helper with its cache (\<^verbatim>\<open>fga/store\<close>) and the two sources of role
  definitions (\<^verbatim>\<open>roles\<close>). A run returns, fails with an error or panics.
\<close>

datatype 'a go_result = Returned 'a | Failed err | Panicked

subsection \<open>The API\<close>

record resource_context =
  rcx_group :: string
  rcx_kind :: string
  rcx_name :: string
  rcx_namespace :: "string option"
  rcx_path :: string

record graph_role =
  gr_id :: string
  gr_display :: string
  gr_description :: string

record graph_user =
  us_id :: string
  us_email :: string
  us_first :: "string option"
  us_last :: "string option"

record user_roles =
  ur_user :: graph_user
  ur_roles :: "graph_role list"

record role_change =
  ch_user :: string
  ch_roles :: "string list"

record role_assignment =
  ra_success :: bool
  ra_errors :: "string list"
  ra_count :: int

record role_removal =
  rr_success :: bool
  rr_error :: "string option"
  rr_assigned :: bool

text \<open>The OpenFGA client. \<open>if_invalid_input\<close> says that an error has the code of a write that failed on its input.\<close>

datatype fga_user = UserObject string | UserWildcard | UserUserset

record 'w iam_fga =
  if_stores :: "'w \<Rightarrow> (err + (string \<times> string) list) \<times> 'w"
  if_models :: "string \<Rightarrow> 'w \<Rightarrow> (err + string list) \<times> 'w"
  if_users :: "string \<Rightarrow> string \<Rightarrow> string \<Rightarrow> string \<Rightarrow> 'w \<Rightarrow> (err + fga_user list) \<times> 'w"
  if_read :: "string \<Rightarrow> tuple \<Rightarrow> 'w \<Rightarrow> (err + tuple list) \<times> 'w"
  if_write :: "string \<Rightarrow> tuple list \<Rightarrow> tuple list \<Rightarrow> 'w \<Rightarrow> err option \<times> 'w"
  if_check :: "string \<Rightarrow> tuple \<Rightarrow> tuple list \<Rightarrow> 'w \<Rightarrow> (err + bool) \<times> 'w"
  if_invalid_input :: "err \<Rightarrow> bool"

definition isDuplicateWriteError :: "'w iam_fga \<Rightarrow> err option \<Rightarrow> bool" where
  "isDuplicateWriteError F e = (case e of None \<Rightarrow> False | Some x \<Rightarrow> if_invalid_input F x)"

subsection \<open>The context of a request\<close>

record kcp_context =
  kx_tenant :: string
  kx_org :: string

record iam_token =
  it_subject :: string
  it_mail :: string
  it_first :: string
  it_last :: string
  it_issuer :: string

record iam_ctx =
  ix_kcp :: "kcp_context option"
  ix_cluster :: "string option"
  ix_token :: "iam_token option"

definition GetKCPContext :: "iam_ctx \<Rightarrow> err + kcp_context" where
  "GetKCPContext c = (case ix_kcp c of None \<Rightarrow> Inl (errorf ''kcp user context not found in context'') | Some k \<Rightarrow> Inr k)"

definition GetClusterId :: "iam_ctx \<Rightarrow> err + string" where
  "GetClusterId c = (case ix_cluster c of None \<Rightarrow> Inl (errorf ''account info not found in context'') | Some i \<Rightarrow> Inr i)"

definition SetClusterId :: "iam_ctx \<Rightarrow> string \<Rightarrow> iam_ctx" where
  "SetClusterId c i = c\<lparr>ix_cluster := Some i\<rparr>"

text \<open>\<^verbatim>\<open>Wrap(err, msg)\<close> of the answer of a call.\<close>

definition wrap_left :: "string \<Rightarrow> err + 'a \<Rightarrow> err + 'a" where
  "wrap_left msg r = map_sum (wrap msg) id r"

subsection \<open>Names of types\<close>

definition max_relation :: nat where
  "max_relation = 50"

definition capGroupSingularLength :: "string \<Rightarrow> string \<Rightarrow> nat \<Rightarrow> string" where
  "capGroupSingularLength grp singular max_length =
     (let group_singular = grp @ ''_'' @ singular; longest = ''create_'' @ group_singular @ ''s'' in
      if length longest > max_length \<and> max_length > 0 then drop (length longest - max_length) group_singular
      else group_singular)"

definition ConvertToTypeName :: "string \<Rightarrow> string \<Rightarrow> string" where
  "ConvertToTypeName grp singular =
     (let g = (if grp = [] then ''core'' else grp);
          t = trim_prefix (capGroupSingularLength g singular max_relation) ''_'' in
      to_lower (replace_char (CHR ''.'') (CHR ''_'') t))"

subsection \<open>The store of an organization\<close>

text \<open>The cache with expiry: what it still knows of a key, and adding an entry.\<close>

record 'w store_cache =
  sk_get :: "string \<Rightarrow> 'w \<Rightarrow> string option"
  sk_add :: "string \<Rightarrow> string \<Rightarrow> 'w \<Rightarrow> 'w"

definition GetStoreID :: "'w store_cache \<Rightarrow> 'w iam_fga \<Rightarrow> string \<Rightarrow> 'w \<Rightarrow> (err + string) \<times> 'w" where
  "GetStoreID C F org w =
     (case sk_get C (''store-'' @ org) w of
        Some (c # cs) \<Rightarrow> (Inr (c # cs), w)
      | _ \<Rightarrow>
          (case if_stores F w of
             (Inl e, w1) \<Rightarrow> (Inl (wrap ''failed to list stores from OpenFGA'' e), w1)
           | (Inr stores, w1) \<Rightarrow>
               (case find (\<lambda>s. fst s = org) stores of
                  None \<Rightarrow> (Inl (errorf (''store with name '' @ org @ '' not found'')), w1)
                | Some s \<Rightarrow> (Inr (snd s), sk_add C (''store-'' @ org) (snd s) w1))))"

definition GetModelID :: "'w store_cache \<Rightarrow> 'w iam_fga \<Rightarrow> string \<Rightarrow> 'w \<Rightarrow> (err + string) \<times> 'w" where
  "GetModelID C F org w =
     (case sk_get C (''model-'' @ org) w of
        Some (c # cs) \<Rightarrow> (Inr (c # cs), w)
      | _ \<Rightarrow>
          (case GetStoreID C F org w of
             (Inl e, w1) \<Rightarrow> (Inl (wrap (''failed to get store ID for tenant '' @ org) e), w1)
           | (Inr store_id, w1) \<Rightarrow>
               (case if_models F store_id w1 of
                  (Inl e, w2) \<Rightarrow> (Inl (wrap (''failed to read authorization models for store '' @ store_id) e), w2)
                | (Inr [], w2) \<Rightarrow>
                    (Inl (errorf ''no authorization models in response. Cannot determine proper AuthorizationModelId''), w2)
                | (Inr (m # ms), w2) \<Rightarrow> (Inr m, sk_add C (''model-'' @ org) m w2))))"

subsection \<open>Roles from a file\<close>

record iam_role =
  rd_id :: string
  rd_display :: string
  rd_description :: string

record group_roles =
  gp_resource :: string
  gp_roles :: "iam_role list"

definition GetAvailableRoleIDs :: "iam_role list \<Rightarrow> string list" where
  "GetAvailableRoleIDs defs = map rd_id defs"

definition file_roles :: "group_roles list option \<Rightarrow> resource_context \<Rightarrow> err + iam_role list" where
  "file_roles config rctx =
     (case config of
        None \<Rightarrow> Inl (errorf ''roles configuration not loaded'')
      | Some groups \<Rightarrow>
          (case find (\<lambda>g. gp_resource g = trim_prefix (rcx_group rctx @ ''/'' @ rcx_kind rctx) ''/'') groups of
             None \<Rightarrow> Inr []
           | Some g \<Rightarrow> Inr (gp_roles g)))"

subsection \<open>Roles from ProviderPermissions\<close>

text \<open>The roles of a ProviderPermissions object; the cache maps the key of a resource to its definitions.\<close>

type_synonym permissions = "group_roles list"

type_synonym roles_cache = "string \<rightharpoonup> iam_role list"

definition cached_roles :: "roles_cache \<Rightarrow> string \<Rightarrow> iam_role list" where
  "cached_roles c k = (case c k of None \<Rightarrow> [] | Some ds \<Rightarrow> ds)"

definition addRoles :: "permissions \<Rightarrow> roles_cache \<Rightarrow> roles_cache" where
  "addRoles pp c =
     fold (\<lambda>rr c. fold (\<lambda>r c. c(gp_resource rr \<mapsto> cached_roles c (gp_resource rr) @ [r])) (gp_roles rr) c) pp c"

definition removeRoles :: "string \<Rightarrow> iam_role list \<Rightarrow> roles_cache \<Rightarrow> roles_cache" where
  "removeRoles k to_remove c =
     (let existing = cached_roles c k; remaining = filter (\<lambda>r. rd_id r \<notin> rd_id ` set to_remove) existing in
      if existing = [] then c
      else if remaining = [] then c(k := None)
      else c(k \<mapsto> remaining))"

definition handleAdd :: "permissions \<Rightarrow> roles_cache \<Rightarrow> roles_cache" where
  "handleAdd pp c = addRoles pp c"

definition handleDelete :: "permissions \<Rightarrow> roles_cache \<Rightarrow> roles_cache" where
  "handleDelete pp c = fold (\<lambda>rr c. removeRoles (gp_resource rr) (gp_roles rr) c) pp c"

definition handleUpdate :: "permissions \<Rightarrow> permissions \<Rightarrow> roles_cache \<Rightarrow> roles_cache" where
  "handleUpdate old new c = addRoles new (handleDelete old c)"

definition buildGroupKindKey :: "string \<Rightarrow> string \<Rightarrow> string" where
  "buildGroupKindKey grp kind = (if grp = [] then to_lower kind else to_lower kind @ ''.'' @ grp)"

definition provider_roles :: "roles_cache \<Rightarrow> resource_context \<Rightarrow> err + iam_role list" where
  "provider_roles c rctx = Inr (cached_roles c (buildGroupKindKey (rcx_group rctx) (rcx_kind rctx)))"

end
