(* ===== verification/Iam_Users.thy ===== *)
theory Iam_Users
  imports Iam_Types "HOL-Library.Monad_Syntax"
begin

text \<open>
  Users: pages (\<^verbatim>\<open>pager/pager.go\<close>), order (\<^verbatim>\<open>sorter/user_sorter.go\<close>), the identifier shown
  (\<^verbatim>\<open>resolver/transformer\<close>), and Keycloak with the user cache (\<^verbatim>\<open>keycloak/service.go\<close>, \<^verbatim>\<open>cache/user_cache.go\<close>).
\<close>

subsection \<open>Pages\<close>

record page_input =
  pi_limit :: "int option"
  pi_page :: "int option"

record page_info =
  pf_count :: int
  pf_total :: int
  pf_next :: bool
  pf_previous :: bool

record pager =
  pr_limit :: int
  pr_page :: int

definition NewDefaultPager :: pager where
  "NewDefaultPager = \<lparr>pr_limit = 10, pr_page = 1\<rparr>"

definition NewPager :: "int \<Rightarrow> int \<Rightarrow> pager" where
  "NewPager default_limit default_page = \<lparr>pr_limit = default_limit, pr_page = default_page\<rparr>"

text \<open>Arithmetic on a Go \<^verbatim>\<open>int\<close> of 64 bits wraps around; a slice outside its list panics.\<close>

definition wrap64 :: "int \<Rightarrow> int" where
  "wrap64 x = (x + 2 ^ 63) mod 2 ^ 64 - 2 ^ 63"

definition slice :: "int \<Rightarrow> int \<Rightarrow> 'a list \<Rightarrow> 'a list option" where
  "slice a b xs = (if 0 \<le> a \<and> a \<le> b \<and> b \<le> int (length xs) then Some (drop (nat a) (take (nat b) xs)) else None)"

definition page_limit :: "pager \<Rightarrow> page_input option \<Rightarrow> int" where
  "page_limit p page =
     (let limit = (case page of None \<Rightarrow> pr_limit p | Some i \<Rightarrow> (case pi_limit i of None \<Rightarrow> pr_limit p | Some l \<Rightarrow> l)) in
      if limit < 1 then pr_limit p else limit)"

definition page_number :: "pager \<Rightarrow> page_input option \<Rightarrow> int" where
  "page_number p page =
     (let n = (case page of None \<Rightarrow> pr_page p | Some i \<Rightarrow> (case pi_page i of None \<Rightarrow> pr_page p | Some k \<Rightarrow> k)) in
      if n < 1 then pr_page p else n)"

text \<open>The body that \<^verbatim>\<open>PaginateUserRoles\<close> and \<^verbatim>\<open>PaginateUsers\<close> share; \<open>None\<close> is a panic.\<close>

definition paginate :: "pager \<Rightarrow> 'a list \<Rightarrow> page_input option \<Rightarrow> int \<Rightarrow> ('a list \<times> page_info) option" where
  "paginate p xs page n =
     (let limit = page_limit p page; k = page_number p page;
          offset = wrap64 (wrap64 (k - 1) * limit); stop = wrap64 (offset + limit) in
      if n = 0 then Some ([], \<lparr>pf_count = 0, pf_total = 0, pf_next = False, pf_previous = False\<rparr>)
      else if offset \<ge> n then Some ([], \<lparr>pf_count = 0, pf_total = n, pf_next = False, pf_previous = (k > 1)\<rparr>)
      else let stop' = (if stop > n then n else stop) in
           map_option (\<lambda>ys. (ys, \<lparr>pf_count = int (length ys), pf_total = n, pf_next = (stop' < n), pf_previous = (k > 1)\<rparr>))
             (slice offset stop' xs))"

definition PaginateUserRoles ::
  "pager \<Rightarrow> user_roles list \<Rightarrow> page_input option \<Rightarrow> int \<Rightarrow> (user_roles list \<times> page_info) option" where
  "PaginateUserRoles = paginate"

definition PaginateUsers ::
  "pager \<Rightarrow> graph_user list \<Rightarrow> page_input option \<Rightarrow> int \<Rightarrow> (graph_user list \<times> page_info) option" where
  "PaginateUsers = paginate"

subsection \<open>Order\<close>

datatype user_sort_field = SortUserID | SortEmail | SortFirstName | SortLastName | SortOther string

datatype sort_direction = SortAsc | SortDesc | DirectionOther string

record sort_by =
  sb_field :: user_sort_field
  sb_direction :: sort_direction

record user_sorter =
  so_field :: user_sort_field
  so_direction :: sort_direction

definition char_upper :: "char \<Rightarrow> char" where
  "char_upper c = (let n = (of_char c :: nat) in if 97 \<le> n \<and> n \<le> 122 then char_of (n - 32) else c)"

definition to_upper :: "string \<Rightarrow> string" where
  "to_upper s = map char_upper s"

definition parseUserSortField :: "string \<Rightarrow> user_sort_field" where
  "parseUserSortField field =
     (let f = to_lower field in
      if f = ''userid'' \<or> f = ''user_id'' then SortUserID
      else if f = ''email'' then SortEmail
      else if f = ''firstname'' \<or> f = ''first_name'' then SortFirstName
      else SortLastName)"

definition parseSortDirection :: "string \<Rightarrow> sort_direction" where
  "parseSortDirection direction =
     (let d = to_upper direction in if d = ''DESC'' \<or> d = ''DESCENDING'' then SortDesc else SortAsc)"

definition NewUserSorterWithConfig :: "string \<Rightarrow> string \<Rightarrow> user_sorter" where
  "NewUserSorterWithConfig field direction =
     \<lparr>so_field = parseUserSortField field, so_direction = parseSortDirection direction\<rparr>"

definition getStringValue :: "string option \<Rightarrow> string" where
  "getStringValue s = (case s of None \<Rightarrow> [] | Some t \<Rightarrow> t)"

text \<open>\<^verbatim>\<open>strings.Compare\<close> orders by bytes.\<close>

definition compare_strings :: "string \<Rightarrow> string \<Rightarrow> int" where
  "compare_strings a b = (if a < b then -1 else if a = b then 0 else 1)"

fun sort_key :: "user_sort_field \<Rightarrow> graph_user \<Rightarrow> string" where
  "sort_key SortUserID u = us_id u"
| "sort_key SortEmail u = us_email u"
| "sort_key SortFirstName u = getStringValue (us_first u)"
| "sort_key SortLastName u = getStringValue (us_last u)"
| "sort_key (SortOther s) u = getStringValue (us_last u)"

definition compareUsers :: "graph_user \<Rightarrow> graph_user \<Rightarrow> user_sort_field \<Rightarrow> int" where
  "compareUsers u v field = compare_strings (sort_key field u) (sort_key field v)"

text \<open>The order of a request, and \<^verbatim>\<open>sort.Slice\<close> as a parameter: it takes the comparison and the list.\<close>

type_synonym 'a slice_sort = "('a \<Rightarrow> 'a \<Rightarrow> bool) \<Rightarrow> 'a list \<Rightarrow> 'a list"

definition user_less :: "user_sorter \<Rightarrow> sort_by option \<Rightarrow> graph_user \<Rightarrow> graph_user \<Rightarrow> bool" where
  "user_less S how u v =
     (let field = (case how of None \<Rightarrow> so_field S | Some b \<Rightarrow> sb_field b);
          direction = (case how of None \<Rightarrow> so_direction S | Some b \<Rightarrow> sb_direction b);
          r = compareUsers u v field in
      if direction = SortDesc then r > 0 else r < 0)"

definition SortUserRoles :: "user_roles slice_sort \<Rightarrow> user_sorter \<Rightarrow> user_roles list \<Rightarrow> sort_by option \<Rightarrow> user_roles list" where
  "SortUserRoles srt S us how =
     (if length us \<le> 1 then us else srt (\<lambda>a b. user_less S how (ur_user a) (ur_user b)) us)"

definition SortUsers :: "graph_user slice_sort \<Rightarrow> user_sorter \<Rightarrow> graph_user list \<Rightarrow> sort_by option \<Rightarrow> graph_user list" where
  "SortUsers srt S us how = (if length us \<le> 1 then us else srt (user_less S how) us)"

subsection \<open>The identifier shown\<close>

definition Transform :: "string \<Rightarrow> graph_user \<Rightarrow> graph_user" where
  "Transform claim u = (if claim = ''email'' then u\<lparr>us_id := us_email u\<rparr> else u)"

subsection \<open>Keycloak\<close>

record keycloak_user =
  ku_id :: "string option"
  ku_email :: "string option"
  ku_first :: "string option"
  ku_last :: "string option"

record users_params =
  up_email :: "string option"
  up_first :: "int option"
  up_max :: "int option"

text \<open>
  A call of Keycloak answers a status and perhaps the decoded users. The cache is absent when it is disabled;
  it is read and written under the key of \<^verbatim>\<open>buildKey\<close>.
\<close>

record 'w user_cache =
  uk_get :: "string \<Rightarrow> 'w \<Rightarrow> graph_user option"
  uk_set :: "string \<Rightarrow> graph_user \<Rightarrow> 'w \<Rightarrow> 'w"

record 'w keycloak =
  kc_users :: "string \<Rightarrow> users_params \<Rightarrow> 'w \<Rightarrow> (err + int \<times> keycloak_user list option) \<times> 'w"
  kc_cache :: "'w user_cache option"
  kc_page_size :: int
  kc_arrive :: "string list \<Rightarrow> string list"

definition buildKey :: "string \<Rightarrow> string \<Rightarrow> string" where
  "buildKey realm email = realm @ '':'' @ email"

definition sanitizeEmail :: "string \<Rightarrow> string" where
  "sanitizeEmail email = (if length email \<le> 3 then email else take 3 email @ ''***'')"

definition cache_get :: "'w keycloak \<Rightarrow> string \<Rightarrow> string \<Rightarrow> 'w \<Rightarrow> graph_user option" where
  "cache_get K realm email w = (case kc_cache K of None \<Rightarrow> None | Some C \<Rightarrow> uk_get C (buildKey realm email) w)"

definition cache_set :: "'w keycloak \<Rightarrow> string \<Rightarrow> string \<Rightarrow> graph_user \<Rightarrow> 'w \<Rightarrow> 'w" where
  "cache_set K realm email u w = (case kc_cache K of None \<Rightarrow> w | Some C \<Rightarrow> uk_set C (buildKey realm email) u w)"

text \<open>A user without identifier or address makes the dereference panic.\<close>

definition fetchUserFromKeycloak :: "'w keycloak \<Rightarrow> string \<Rightarrow> string \<Rightarrow> 'w \<Rightarrow> graph_user option go_result \<times> 'w" where
  "fetchUserFromKeycloak K realm email w =
     (case kc_users K realm \<lparr>up_email = Some email, up_first = None, up_max = Some 1\<rparr> w of
        (Inl e, w1) \<Rightarrow> (Failed (wrap (''failed to query Keycloak API for user '' @ sanitizeEmail email @ '' in realm '' @ realm) e), w1)
      | (Inr (status, answer), w1) \<Rightarrow>
          if status \<noteq> 200
          then (Failed (errorf (''keycloak API returned status '' @ itoa status @ '' for user '' @ sanitizeEmail email)), w1)
          else (case answer of
            None \<Rightarrow> (Returned None, w1)
          | Some [] \<Rightarrow> (Returned None, w1)
          | Some [u] \<Rightarrow>
              (case (ku_id u, ku_email u) of
                 (Some i, Some m) \<Rightarrow> (Returned (Some \<lparr>us_id = i, us_email = m, us_first = ku_first u, us_last = ku_last u\<rparr>), w1)
               | _ \<Rightarrow> (Panicked, w1))
          | Some us \<Rightarrow>
              (Failed (errorf (''expected 1 user, got '' @ itoa (int (length us)) @ '' for email '' @ sanitizeEmail email)), w1)))"

definition UserByMail :: "'w keycloak \<Rightarrow> iam_ctx \<Rightarrow> string \<Rightarrow> 'w \<Rightarrow> graph_user option go_result \<times> 'w" where
  "UserByMail K c email w =
     (case GetKCPContext c of
        Inl e \<Rightarrow> (Failed (wrap ''failed to get kcp user context'' e), w)
      | Inr k \<Rightarrow>
          (case cache_get K (kx_tenant k) email w of
             Some u \<Rightarrow> (Returned (Some u), w)
           | None \<Rightarrow>
               (case fetchUserFromKeycloak K (kx_tenant k) email w of
                  (Failed e, w1) \<Rightarrow> (Failed (wrap (''failed to fetch user from Keycloak for email '' @ email) e), w1)
                | (Panicked, w1) \<Rightarrow> (Panicked, w1)
                | (Returned None, w1) \<Rightarrow> (Returned None, w1)
                | (Returned (Some u), w1) \<Rightarrow> (Returned (Some u), cache_set K (kx_tenant k) email u w1))))"

text \<open>
  The parallel look-ups, in the order in which they answer; the first failure cancels the rest. The map
  of users is the list of its entries.
\<close>

fun fetch_each ::
  "'w keycloak \<Rightarrow> string \<Rightarrow> string list \<Rightarrow> (string \<times> graph_user) list \<Rightarrow> 'w \<Rightarrow> (string \<times> graph_user) list go_result \<times> 'w" where
  "fetch_each K realm [] out w = (Returned out, w)"
| "fetch_each K realm (m # ms) out w =
     (case fetchUserFromKeycloak K realm m w of
        (Failed e, w1) \<Rightarrow> (Failed (wrap (''failed to fetch user '' @ sanitizeEmail m) e), w1)
      | (Panicked, w1) \<Rightarrow> (Panicked, w1)
      | (Returned None, w1) \<Rightarrow> fetch_each K realm ms out w1
      | (Returned (Some u), w1) \<Rightarrow> fetch_each K realm ms (obj_put m u out) w1)"

definition fetchUsersInParallel ::
  "'w keycloak \<Rightarrow> string \<Rightarrow> string list \<Rightarrow> 'w \<Rightarrow> (string \<times> graph_user) list go_result \<times> 'w" where
  "fetchUsersInParallel K realm emails w =
     (case fetch_each K realm (kc_arrive K emails) [] w of
        (Failed e, w1) \<Rightarrow> (Failed (wrap ''error group failed during user fetching'' e), w1)
      | r \<Rightarrow> r)"

definition GetUsersByEmails ::
  "'w keycloak \<Rightarrow> iam_ctx \<Rightarrow> string list \<Rightarrow> 'w \<Rightarrow> (string \<times> graph_user) list go_result \<times> 'w" where
  "GetUsersByEmails K c emails w =
     (if emails = [] then (Returned [], w)
      else case GetKCPContext c of
        Inl e \<Rightarrow> (Failed (wrap ''failed to get kcp user context'' e), w)
      | Inr k \<Rightarrow>
          let realm = kx_tenant k;
              cached = List.map_filter (\<lambda>m. map_option (Pair m) (cache_get K realm m w)) emails;
              missing = filter (\<lambda>m. cache_get K realm m w = None) emails;
              found = fold (\<lambda>(m, u) out. obj_put m u out) cached [] in
          if missing = [] then (Returned found, w)
          else (case fetchUsersInParallel K realm missing w of
                  (Failed e, w1) \<Rightarrow> (Failed (wrap (''failed to fetch users in parallel for realm '' @ realm) e), w1)
                | (Panicked, w1) \<Rightarrow> (Panicked, w1)
                | (Returned fetched, w1) \<Rightarrow>
                    (Returned (fold (\<lambda>(m, u) out. obj_put m u out) fetched found),
                     fold (\<lambda>(m, u) w. cache_set K realm m u w) fetched w1)))"

definition enriched :: "(string \<times> graph_user) list \<Rightarrow> user_roles \<Rightarrow> user_roles" where
  "enriched users r =
     (if us_email (ur_user r) = [] then r
      else case map_of users (us_email (ur_user r)) of
        None \<Rightarrow> r
      | Some u \<Rightarrow> r\<lparr>ur_user := (ur_user r)\<lparr>us_id := us_id u, us_first := us_first u, us_last := us_last u\<rparr>\<rparr>)"

definition EnrichUserRoles :: "'w keycloak \<Rightarrow> iam_ctx \<Rightarrow> user_roles list \<Rightarrow> 'w \<Rightarrow> user_roles list go_result \<times> 'w" where
  "EnrichUserRoles K c rs w =
     (let emails = rev (remdups (rev (filter (\<lambda>m. m \<noteq> []) (map (\<lambda>r. us_email (ur_user r)) rs)))) in
      if emails = [] then (Returned rs, w)
      else case GetUsersByEmails K c emails w of
        (Failed e, w1) \<Rightarrow> (Failed (wrap ''failed to get users by emails for enrichment'' e), w1)
      | (Panicked, w1) \<Rightarrow> (Panicked, w1)
      | (Returned users, w1) \<Rightarrow> (Returned (map (enriched users) rs), w1))"

subsection \<open>All users\<close>

definition wrap32 :: "int \<Rightarrow> int" where
  "wrap32 x = (x + 2 ^ 31) mod 2 ^ 32 - 2 ^ 31"

text \<open>The users of a page that have an identifier and an address; each is cached.\<close>

fun page_users :: "keycloak_user list \<Rightarrow> graph_user list" where
  "page_users [] = []"
| "page_users (u # us) =
     (case (ku_id u, ku_email u) of
        (Some i, Some m) \<Rightarrow> \<lparr>us_id = i, us_email = m, us_first = ku_first u, us_last = ku_last u\<rparr> # page_users us
      | _ \<Rightarrow> page_users us)"

text \<open>
  The loop over pages, from the given page on; \<open>None\<close> is a loop that does not end. A page that fails is
  skipped.
\<close>

partial_function (option) fetch_pages ::
  "'w keycloak \<Rightarrow> string \<Rightarrow> int \<Rightarrow> graph_user list \<Rightarrow> 'w \<Rightarrow> (graph_user list \<times> 'w) option" where
  "fetch_pages K realm page users w =
     (case kc_users K realm \<lparr>up_email = None, up_first = Some (wrap32 (wrap64 (page * kc_page_size K))),
                              up_max = Some (wrap32 (kc_page_size K))\<rparr> w of
        (Inl e, w1) \<Rightarrow> fetch_pages K realm (wrap64 (page + 1)) users w1
      | (Inr (status, answer), w1) \<Rightarrow>
          if status \<noteq> 200 then fetch_pages K realm (wrap64 (page + 1)) users w1
          else case answer of
            None \<Rightarrow> Some (users, w1)
          | Some us \<Rightarrow>
              if us = [] then Some (users, w1)
              else let new = page_users us; w2 = fold (\<lambda>u w. cache_set K realm (us_email u) u w) new w1 in
                   if int (length us) < kc_page_size K then Some (users @ new, w2)
                   else fetch_pages K realm (wrap64 (page + 1)) (users @ new) w2)"

definition fetchAllUsers :: "'w keycloak \<Rightarrow> string \<Rightarrow> 'w \<Rightarrow> (graph_user list \<times> 'w) option" where
  "fetchAllUsers K realm w = fetch_pages K realm 0 [] w"

definition GetUsers :: "'w keycloak \<Rightarrow> iam_ctx \<Rightarrow> 'w \<Rightarrow> ((err + graph_user list) \<times> 'w) option" where
  "GetUsers K c w =
     (case GetKCPContext c of
        Inl e \<Rightarrow> Some (Inl (wrap ''failed to get kcp user context'' e), w)
      | Inr k \<Rightarrow> map_option (\<lambda>(us, w1). (Inr us, w1)) (fetchAllUsers K (kx_tenant k) w))"

end
