(* ===== verification/Iam_Fga.thy ===== *)
theory Iam_Fga
  imports Iam_Users
begin

text \<open>
  The role service (\<^verbatim>\<open>fga/fga.go\<close>, \<^verbatim>\<open>fga/invite.go\<close>): listing the users of a resource by role, assigning and
  removing roles, inviting users that the identity provider does not know.
\<close>

subsection \<open>The service\<close>

text \<open>The Invite resources of a workspace: those with a label value, by name, and the creation of one.\<close>

record invite =
  in_generate_name :: string
  in_label :: "string \<times> string"
  in_email :: string

record 'w invite_client =
  iv_list :: "string \<times> string \<Rightarrow> 'w \<Rightarrow> (err + string list) \<times> 'w"
  iv_create :: "invite \<Rightarrow> 'w \<Rightarrow> err option \<times> 'w"

text \<open>
  \<open>fs_arrive\<close> is the order in which the goroutines answer, \<open>fs_order\<close> that of the iteration over the map of users;
  role definitions are read from the state of their source.
\<close>

record 'w role_service =
  fs_fga :: "'w iam_fga"
  fs_cache :: "'w store_cache"
  fs_roles :: "resource_context \<Rightarrow> 'w \<Rightarrow> err + iam_role list"
  fs_arrive :: "string list \<Rightarrow> string list"
  fs_order :: "string list \<Rightarrow> string list"
  fs_user_by_mail :: "iam_ctx \<Rightarrow> string \<Rightarrow> 'w \<Rightarrow> graph_user option go_result \<times> 'w"
  fs_workspace :: "string \<Rightarrow> 'w \<Rightarrow> (err + 'w invite_client) \<times> 'w"
  fs_parse_address :: "string \<Rightarrow> err option"
  fs_sha1 :: "string \<Rightarrow> string"

definition ticked :: "string \<Rightarrow> string" where
  "ticked s = [CHR 0x27] @ s @ [CHR 0x27]"

definition sanitizeUserID :: "string \<Rightarrow> string" where
  "sanitizeUserID u = (if length u \<le> 3 then u else take 3 u @ ''***'')"

definition containsString :: "string list \<Rightarrow> string \<Rightarrow> bool" where
  "containsString xs s \<longleftrightarrow> s \<in> set xs"

definition show_list :: "string list \<Rightarrow> string" where
  "show_list xs = ''['' @ join_with '' '' xs @ '']''"

definition gk_text :: "resource_context \<Rightarrow> string" where
  "gk_text rctx = rcx_group rctx @ ''/'' @ rcx_kind rctx"

text \<open>The object of a role: type, cluster, resource and role.\<close>

definition role_id :: "resource_context \<Rightarrow> string \<Rightarrow> string \<Rightarrow> string" where
  "role_id rctx cluster_id role =
     ConvertToTypeName (rcx_group rctx) (rcx_kind rctx) @ ''/'' @ cluster_id @ ''/'' @ rcx_name rctx @ ''/'' @ role"

subsection \<open>Listing\<close>

definition applyRoleFilter :: "'w role_service \<Rightarrow> resource_context \<Rightarrow> string list \<Rightarrow> 'w \<Rightarrow> err + string list" where
  "applyRoleFilter S rctx filters w =
     (case fs_roles S rctx w of
        Inl e \<Rightarrow> Inl (wrap (''failed to get role definitions for group resource '' @ gk_text rctx) e)
      | Inr defs \<Rightarrow>
          let available = GetAvailableRoleIDs defs in
          Inr (if filters \<noteq> [] then filter (containsString filters) available else available))"

text \<open>The users of an answer with the role appended; a user that is not an object makes the assertion panic.\<close>

fun add_role_users :: "string \<Rightarrow> fga_user list \<Rightarrow> (string \<times> string list) list \<Rightarrow> (string \<times> string list) list option" where
  "add_role_users role [] m = Some m"
| "add_role_users role (UserObject u # us) m =
     add_role_users role us (obj_put u ((case map_of m u of None \<Rightarrow> [] | Some rs \<Rightarrow> rs) @ [role]) m)"
| "add_role_users role (x # us) m = None"

text \<open>
  The answers of the goroutines, as they arrive. An error ends the collection; the calls that are still
  under way then only read.
\<close>

fun collect_users ::
  "'w role_service \<Rightarrow> string \<Rightarrow> (string \<Rightarrow> string) \<Rightarrow> string \<Rightarrow> string list \<Rightarrow> (string \<times> string list) list \<Rightarrow> 'w \<Rightarrow>
   (string \<times> string list) list go_result \<times> 'w" where
  "collect_users S store_id object name [] m w = (Returned m, w)"
| "collect_users S store_id object name (role # roles) m w =
     (case if_users (fs_fga S) store_id ''role'' (object role) ''assignee'' w of
        (Inl e, w1) \<Rightarrow> (Failed (wrap (''failed to list users for resource '' @ name @ '' with role '' @ role) e), w1)
      | (Inr users, w1) \<Rightarrow>
          (case add_role_users role users m of
             None \<Rightarrow> (Panicked, w1)
           | Some m' \<Rightarrow> collect_users S store_id object name roles m' w1))"

definition role_of_definition :: "iam_role \<Rightarrow> graph_role" where
  "role_of_definition d = \<lparr>gr_id = rd_id d, gr_display = rd_display d, gr_description = rd_description d\<rparr>"

definition convertToGraphUserRoles ::
  "'w role_service \<Rightarrow> resource_context \<Rightarrow> (string \<times> string list) list \<Rightarrow> 'w \<Rightarrow> user_roles list" where
  "convertToGraphUserRoles S rctx m w =
     (let defs = (case fs_roles S rctx w of Inl e \<Rightarrow> [] | Inr ds \<Rightarrow> ds);
          def = map_of (rev (map (\<lambda>d. (rd_id d, d)) defs)) in
      map (\<lambda>u. \<lparr>ur_user = \<lparr>us_id = [], us_email = u, us_first = None, us_last = None\<rparr>,
                ur_roles = List.map_filter (\<lambda>r. map_option role_of_definition (def r)) (the (map_of m u))\<rparr>)
        (fs_order S (map fst m)))"

definition listUsersParallel ::
  "'w role_service \<Rightarrow> iam_ctx \<Rightarrow> resource_context \<Rightarrow> string \<Rightarrow> string list \<Rightarrow> 'w \<Rightarrow> user_roles list go_result \<times> 'w" where
  "listUsersParallel S c rctx store_id roles w =
     (case GetClusterId c of
        Inl e \<Rightarrow> (Failed (wrap ''failed to get cluster ID from context'' e), w)
      | Inr cluster_id \<Rightarrow>
          (case collect_users S store_id (role_id rctx cluster_id) (rcx_name rctx) (fs_arrive S roles) [] w of
             (Returned m, w1) \<Rightarrow> (Returned (convertToGraphUserRoles S rctx m w1), w1)
           | (Failed e, w1) \<Rightarrow> (Failed e, w1)
           | (Panicked, w1) \<Rightarrow> (Panicked, w1)))"

definition ListUsers ::
  "'w role_service \<Rightarrow> iam_ctx \<Rightarrow> resource_context \<Rightarrow> string list \<Rightarrow> 'w \<Rightarrow> user_roles list go_result \<times> 'w" where
  "ListUsers S c rctx filters w =
     (case GetKCPContext c of
        Inl e \<Rightarrow> (Failed (wrap ''failed to get kcp user context'' e), w)
      | Inr k \<Rightarrow>
          (case GetStoreID (fs_cache S) (fs_fga S) (kx_org k) w of
             (Inl e, w1) \<Rightarrow> (Failed (wrap (''failed to get store ID for organization '' @ kx_org k) e), w1)
           | (Inr store_id, w1) \<Rightarrow>
               (case applyRoleFilter S rctx filters w1 of
                  Inl e \<Rightarrow> (Failed (wrap (''failed to get available roles for group resource '' @ gk_text rctx) e), w1)
                | Inr applied \<Rightarrow>
                    if applied = [] then (Returned [], w1) else listUsersParallel S c rctx store_id applied w1)))"

definition CountUsersForRole ::
  "'w role_service \<Rightarrow> iam_ctx \<Rightarrow> resource_context \<Rightarrow> string \<Rightarrow> 'w \<Rightarrow> int go_result \<times> 'w" where
  "CountUsersForRole S c rctx role w =
     (case ListUsers S c rctx [role] w of
        (Returned us, w1) \<Rightarrow> (Returned (int (length us)), w1)
      | (Failed e, w1) \<Rightarrow> (Failed e, w1)
      | (Panicked, w1) \<Rightarrow> (Panicked, w1))"

definition GetRoles :: "'w role_service \<Rightarrow> resource_context \<Rightarrow> 'w \<Rightarrow> err + graph_role list" where
  "GetRoles S rctx w =
     (case fs_roles S rctx w of
        Inl e \<Rightarrow> Inl (wrap (''failed to get role definitions for group resource '' @ gk_text rctx) e)
      | Inr defs \<Rightarrow> Inr (map role_of_definition defs))"

subsection \<open>Assigning\<close>

definition target_object :: "resource_context \<Rightarrow> string \<Rightarrow> string" where
  "target_object rctx cluster_id =
     ConvertToTypeName (rcx_group rctx) (rcx_kind rctx) @ '':'' @ cluster_id @ ''/'' @
     (case rcx_namespace rctx of None \<Rightarrow> rcx_name rctx | Some ns \<Rightarrow> ns @ ''/'' @ rcx_name rctx)"

definition role_tuple :: "resource_context \<Rightarrow> string \<Rightarrow> string \<Rightarrow> string \<Rightarrow> tuple" where
  "role_tuple rctx cluster_id user role =
     \<lparr>tp_object = ''role:'' @ role_id rctx cluster_id role, tp_relation = ''assignee'', tp_user = ''user:'' @ user\<rparr>"

definition assign_role_tuple :: "resource_context \<Rightarrow> string \<Rightarrow> string \<Rightarrow> tuple" where
  "assign_role_tuple rctx cluster_id role =
     \<lparr>tp_object = target_object rctx cluster_id, tp_relation = role,
      tp_user = ''role:'' @ role_id rctx cluster_id role @ ''#assignee''\<rparr>"

text \<open>Each tuple is written alone; a duplicate is no error and is not counted.\<close>

fun write_each ::
  "'w iam_fga \<Rightarrow> string \<Rightarrow> string \<Rightarrow> tuple list \<Rightarrow> int \<times> string list \<Rightarrow> 'w \<Rightarrow> (int \<times> string list) \<times> 'w" where
  "write_each F store_id msg [] (n, errs) w = ((n, errs), w)"
| "write_each F store_id msg (t # ts) (n, errs) w =
     (case if_write F store_id [t] [] w of
        (None, w1) \<Rightarrow> write_each F store_id msg ts (n + 1, errs) w1
      | (Some e, w1) \<Rightarrow>
          write_each F store_id msg ts
            (n, if isDuplicateWriteError F (Some e) then errs else errs @ [msg @ err_msg e]) w1)"

definition assignRoleToUser ::
  "'w role_service \<Rightarrow> string \<Rightarrow> string \<Rightarrow> resource_context \<Rightarrow> string \<Rightarrow> string \<Rightarrow> 'w \<Rightarrow> (int \<times> string list) \<times> 'w" where
  "assignRoleToUser S user role rctx store_id cluster_id w =
     write_each (fs_fga S) store_id
       (''failed to assign role '' @ ticked role @ '' to user '' @ ticked (sanitizeUserID user) @ '': '')
       [role_tuple rctx cluster_id user role, assign_role_tuple rctx cluster_id role] (0, []) w"

definition not_allowed :: "string \<Rightarrow> string \<Rightarrow> string list \<Rightarrow> string" where
  "not_allowed role user available =
     ''role '' @ ticked role @ '' is not allowed for user '' @ ticked (sanitizeUserID user) @ ''. Only roles '' @
     show_list available @ '' are permitted''"

text \<open>The roles of one user; only available ones are assigned.\<close>

fun assign_roles ::
  "'w role_service \<Rightarrow> resource_context \<Rightarrow> string \<Rightarrow> string \<Rightarrow> string list \<Rightarrow> string \<Rightarrow> string list \<Rightarrow>
   int \<times> string list \<Rightarrow> 'w \<Rightarrow> (int \<times> string list) \<times> 'w" where
  "assign_roles S rctx store_id cluster_id available user [] (n, errs) w = ((n, errs), w)"
| "assign_roles S rctx store_id cluster_id available user (role # roles) (n, errs) w =
     (if \<not> containsString available role
      then assign_roles S rctx store_id cluster_id available user roles (n, errs @ [not_allowed role user available]) w
      else case assignRoleToUser S user role rctx store_id cluster_id w of
        ((k, es), w1) \<Rightarrow> assign_roles S rctx store_id cluster_id available user roles (n + k, errs @ es) w1)"

text \<open>One user of a request: the definitions are read for each of them.\<close>

definition assign_change ::
  "'w role_service \<Rightarrow> resource_context \<Rightarrow> string \<Rightarrow> string \<Rightarrow> role_change \<Rightarrow> int \<times> string list \<Rightarrow> 'w \<Rightarrow> (int \<times> string list) \<times> 'w" where
  "assign_change S rctx store_id cluster_id ch acc w =
     (case fs_roles S rctx w of
        Inl e \<Rightarrow>
          ((fst acc, snd acc @ [''failed to get role definitions for group resource '' @ ticked (gk_text rctx) @ '': '' @ err_msg e]), w)
      | Inr defs \<Rightarrow>
          assign_roles S rctx store_id cluster_id (GetAvailableRoleIDs defs) (ch_user ch) (ch_roles ch) acc w)"

fun assign_changes ::
  "'w role_service \<Rightarrow> resource_context \<Rightarrow> string \<Rightarrow> string \<Rightarrow> role_change list \<Rightarrow> int \<times> string list \<Rightarrow> 'w \<Rightarrow> (int \<times> string list) \<times> 'w" where
  "assign_changes S rctx store_id cluster_id [] acc w = (acc, w)"
| "assign_changes S rctx store_id cluster_id (ch # chs) acc w =
     (case assign_change S rctx store_id cluster_id ch acc w of
        (acc1, w1) \<Rightarrow> assign_changes S rctx store_id cluster_id chs acc1 w1)"

subsection \<open>Inviting\<close>

definition emailToLabelValue :: "'w role_service \<Rightarrow> string \<Rightarrow> string" where
  "emailToLabelValue S email = fs_sha1 S email"

definition createInviteIfNotExists :: "'w role_service \<Rightarrow> 'w invite_client \<Rightarrow> string \<Rightarrow> 'w \<Rightarrow> err option \<times> 'w" where
  "createInviteIfNotExists S I email w =
     (case fs_parse_address S email of
        Some e \<Rightarrow> (Some (wrap (''invalid email format for '' @ sanitizeUserID email) e), w)
      | None \<Rightarrow>
          let label = (''platform-mesh.io/invite-email-hash'', emailToLabelValue S email) in
          (case iv_list I label w of
             (Inl e, w1) \<Rightarrow> (Some (wrap (''failed to list existing Invites for '' @ sanitizeUserID email) e), w1)
           | (Inr (i # is), w1) \<Rightarrow> (None, w1)
           | (Inr [], w1) \<Rightarrow>
               (case iv_create I \<lparr>in_generate_name = ''invite-'', in_label = label, in_email = email\<rparr> w1 of
                  (Some e, w2) \<Rightarrow> (Some (wrap (''failed to create Invite resource for '' @ sanitizeUserID email) e), w2)
                | (None, w2) \<Rightarrow> (None, w2))))"

definition is_account :: "resource_context \<Rightarrow> bool" where
  "is_account rctx \<longleftrightarrow> rcx_group rctx = ''core.platform-mesh.io'' \<and> rcx_kind rctx = ''Account''"

text \<open>The workspace of a resource: an account has its own below the path.\<close>

definition workspace_path :: "resource_context \<Rightarrow> string" where
  "workspace_path rctx = (if is_account rctx then rcx_path rctx @ '':'' @ rcx_name rctx else rcx_path rctx)"

definition checkAndInviteUser :: "'w role_service \<Rightarrow> iam_ctx \<Rightarrow> string \<Rightarrow> resource_context \<Rightarrow> 'w \<Rightarrow> unit go_result \<times> 'w" where
  "checkAndInviteUser S c email rctx w =
     (case fs_user_by_mail S c email w of
        (Failed e, w1) \<Rightarrow> (Failed (wrap (''failed to check if user '' @ sanitizeUserID email @ '' exists in IDM system'') e), w1)
      | (Panicked, w1) \<Rightarrow> (Panicked, w1)
      | (Returned (Some u), w1) \<Rightarrow> (Returned (), w1)
      | (Returned None, w1) \<Rightarrow>
          (case fs_workspace S (workspace_path rctx) w1 of
             (Inl e, w2) \<Rightarrow> (Failed (wrap (''failed to create workspace client for path '' @ workspace_path rctx) e), w2)
           | (Inr I, w2) \<Rightarrow>
               (case createInviteIfNotExists S I email w2 of
                  (Some e, w3) \<Rightarrow> (Failed (wrap (''failed to create Invite for user '' @ sanitizeUserID email) e), w3)
                | (None, w3) \<Rightarrow> (Returned (), w3))))"

text \<open>The invitations of a request; a failed one does not keep the roles from being assigned.\<close>

fun processInvites ::
  "'w role_service \<Rightarrow> iam_ctx \<Rightarrow> resource_context \<Rightarrow> string \<Rightarrow> string \<Rightarrow> role_change list \<Rightarrow> int \<times> string list \<Rightarrow> 'w \<Rightarrow>
   (int \<times> string list) go_result \<times> 'w" where
  "processInvites S c rctx store_id cluster_id [] acc w = (Returned acc, w)"
| "processInvites S c rctx store_id cluster_id (i # is) (n, errs) w =
     (case checkAndInviteUser S c (ch_user i) rctx w of
        (Panicked, w1) \<Rightarrow> (Panicked, w1)
      | (r, w1) \<Rightarrow>
          let errs1 = (case r of
                Failed e \<Rightarrow> errs @ [''failed to create invite for user '' @ ticked (sanitizeUserID (ch_user i)) @ '': '' @ err_msg e]
              | _ \<Rightarrow> errs) in
          (case assign_change S rctx store_id cluster_id i (n, errs1) w1 of
             (acc, w2) \<Rightarrow> processInvites S c rctx store_id cluster_id is acc w2))"

definition AssignRolesToUsers ::
  "'w role_service \<Rightarrow> iam_ctx \<Rightarrow> resource_context \<Rightarrow> role_change list \<Rightarrow> role_change list \<Rightarrow> 'w \<Rightarrow> role_assignment go_result \<times> 'w" where
  "AssignRolesToUsers S c rctx changes invites w =
     (case GetClusterId c of
        Inl e \<Rightarrow> (Failed (wrap ''failed to get cluster ID from account path'' e), w)
      | Inr cluster_id \<Rightarrow>
     (case GetKCPContext c of
        Inl e \<Rightarrow> (Failed (wrap ''failed to get kcp user context'' e), w)
      | Inr k \<Rightarrow>
     (case GetStoreID (fs_cache S) (fs_fga S) (kx_org k) w of
        (Inl e, w1) \<Rightarrow> (Failed (wrap (''failed to get store ID for organization '' @ kx_org k) e), w1)
      | (Inr store_id, w1) \<Rightarrow>
     (case processInvites S c rctx store_id cluster_id invites (0, []) w1 of
        (Failed e, w2) \<Rightarrow> (Failed e, w2)
      | (Panicked, w2) \<Rightarrow> (Panicked, w2)
      | (Returned acc, w2) \<Rightarrow>
          (case assign_changes S rctx store_id cluster_id changes acc w2 of
             ((n, errs), w3) \<Rightarrow> (Returned \<lparr>ra_success = (errs = []), ra_errors = errs, ra_count = n\<rparr>, w3))))))"

subsection \<open>Removing\<close>

definition removal :: "bool \<Rightarrow> string option \<Rightarrow> bool \<Rightarrow> role_removal" where
  "removal ok e assigned = \<lparr>rr_success = ok, rr_error = e, rr_assigned = assigned\<rparr>"

definition RemoveRole ::
  "'w role_service \<Rightarrow> iam_ctx \<Rightarrow> resource_context \<Rightarrow> string \<Rightarrow> string \<Rightarrow> 'w \<Rightarrow> (err + role_removal) \<times> 'w" where
  "RemoveRole S c rctx user role w =
     (case GetClusterId c of
        Inl e \<Rightarrow> (Inl (wrap ''failed to get cluster ID from account path'' e), w)
      | Inr cluster_id \<Rightarrow>
     (case GetKCPContext c of
        Inl e \<Rightarrow> (Inl (wrap ''failed to get kcp user context'' e), w)
      | Inr k \<Rightarrow>
     (case GetStoreID (fs_cache S) (fs_fga S) (kx_org k) w of
        (Inl e, w1) \<Rightarrow> (Inl (wrap (''failed to get store ID for organization '' @ kx_org k) e), w1)
      | (Inr store_id, w1) \<Rightarrow>
     (case fs_roles S rctx w1 of
        Inl e \<Rightarrow>
          (Inr (removal False (Some (''failed to get role definitions for group resource '' @ ticked (gk_text rctx) @ '': '' @ err_msg e)) False), w1)
      | Inr defs \<Rightarrow>
          if \<not> containsString (GetAvailableRoleIDs defs) role
          then (Inr (removal False (Some (''role '' @ ticked role @ '' is not allowed. Only roles '' @
                  show_list (GetAvailableRoleIDs defs) @ '' are permitted'')) False), w1)
          else
     (case if_read (fs_fga S) store_id (role_tuple rctx cluster_id user role) w1 of
        (Inl e, w2) \<Rightarrow> (Inr (removal False (Some (''failed to check role assignment: '' @ err_msg e)) False), w2)
      | (Inr [], w2) \<Rightarrow> (Inr (removal True None False), w2)
      | (Inr (t # ts), w2) \<Rightarrow>
          (case if_write (fs_fga S) store_id [] [role_tuple rctx cluster_id user role] w2 of
             (Some e, w3) \<Rightarrow>
               (Inr (removal False (Some (''failed to remove role '' @ ticked role @ '' from user '' @ ticked (sanitizeUserID user) @ '': '' @ err_msg e)) True), w3)
           | (None, w3) \<Rightarrow> (Inr (removal True None True), w3)))))))"

end
