(* ===== verification/Iam_Auth.thy ===== *)
theory Iam_Auth
  imports Iam_Fga
begin

text \<open>
  Who may do what: the middleware that binds a request to an organization (\<^verbatim>\<open>middleware/kcp\<close>), the directive
  \<^verbatim>\<open>@authorized\<close> of the GraphQL fields (\<^verbatim>\<open>directive/authorized.go\<close>, \<^verbatim>\<open>fga/tuples\<close>), and the resolvers
  behind it (\<^verbatim>\<open>resolver/pm\<close>).
\<close>

subsection \<open>The organization of a request\<close>

definition GetIDMTenant :: "string \<Rightarrow> err + string" where
  "GetIDMTenant issuer =
     (if CHR 0x0A \<in> set issuer then Inl (errorf ''token issuer is not valid'')
      else case after_last ''/realms/'' issuer of
        None \<Rightarrow> Inl (errorf ''token issuer is not valid'')
      | Some r \<Rightarrow> Inr (trim_suffix r ''/''))"

record iam_caller =
  cl_host :: string
  cl_token :: "iam_token option"
  cl_header :: "string option"

text \<open>The request to \<^verbatim>\<open>/clusters/root:orgs:<organization>/version\<close> with the caller's header: a status or an error.\<close>

definition checkToken ::
  "(string \<Rightarrow> string \<Rightarrow> 'w \<Rightarrow> (err + int) \<times> 'w) \<Rightarrow> string \<Rightarrow> string \<Rightarrow> 'w \<Rightarrow> (err + bool) \<times> 'w" where
  "checkToken version header subdomain w =
     (case version header (''root:orgs:'' @ subdomain) w of
        (Inl e, w1) \<Rightarrow> (Inl e, w1)
      | (Inr status, w1) \<Rightarrow> (Inr (status \<in> {200, 201, 403}), w1))"

text \<open>The status of a refusal, or the context for the handler.\<close>

definition SetKCPUserContext ::
  "(string \<Rightarrow> string \<Rightarrow> 'w \<Rightarrow> (err + int) \<times> 'w) \<Rightarrow> iam_caller \<Rightarrow> 'w \<Rightarrow> (nat + iam_ctx) \<times> 'w" where
  "SetKCPUserContext version r w =
     (case cl_token r of
        None \<Rightarrow> (Inl 401, w)
      | Some token \<Rightarrow>
     (case GetIDMTenant (it_issuer token) of
        Inl e \<Rightarrow> (Inl 500, w)
      | Inr tenant \<Rightarrow>
     (case cl_header r of
        None \<Rightarrow> (Inl 401, w)
      | Some header \<Rightarrow>
          let subdomain = upto_char (CHR ''.'') (cl_host r) in
          (case checkToken version header subdomain w of
             (Inl e, w1) \<Rightarrow> (Inl 500, w1)
           | (Inr False, w1) \<Rightarrow> (Inl 401, w1)
           | (Inr True, w1) \<Rightarrow>
               (Inr \<lparr>ix_kcp = Some \<lparr>kx_tenant = tenant, kx_org = subdomain\<rparr>, ix_cluster = None, ix_token = Some token\<rparr>, w1)))))"

subsection \<open>Contextual tuples\<close>

definition managedTuple :: "string \<Rightarrow> string \<Rightarrow> bool" where
  "managedTuple grp kind \<longleftrightarrow> to_lower grp = ''core.platform-mesh.io'' \<and> to_lower kind = ''account''"

definition GenerateContextualTuples :: "resource_context \<Rightarrow> account_info \<Rightarrow> tuple list" where
  "GenerateContextualTuples rctx ai =
     (let cluster = al_generated (ai_account ai);
          account = ConvertToTypeName ''core.platform-mesh.io'' ''Account'' @ '':'' @ al_origin (ai_account ai) @ ''/'' @ al_name (ai_account ai);
          ns_object = map_option (\<lambda>ns. ConvertToTypeName [] ''Namespace'' @ '':'' @ cluster @ ''/'' @ ns) (rcx_namespace rctx);
          parent = (case ns_object of None \<Rightarrow> account | Some n \<Rightarrow> n) in
      (case ns_object of None \<Rightarrow> [] | Some n \<Rightarrow> [\<lparr>tp_object = n, tp_relation = ''parent'', tp_user = account\<rparr>]) @
      (if managedTuple (rcx_group rctx) (rcx_kind rctx) then []
       else [\<lparr>tp_object = target_object rctx cluster, tp_relation = ''parent'', tp_user = parent\<rparr>]))"

subsection \<open>The directive\<close>

text \<open>A client of a workspace: its REST mapper and the reading of one object.\<close>

record 'w resource_client =
  wl_resource_for :: "string \<Rightarrow> string \<Rightarrow> 'w \<Rightarrow> err + string"
  wl_kind_for :: "string \<Rightarrow> 'w \<Rightarrow> err + string"
  wl_get :: "string \<Rightarrow> string \<Rightarrow> string \<Rightarrow> 'w \<Rightarrow> err option \<times> 'w"

record 'w directive =
  dv_fga :: "'w iam_fga"
  dv_cache :: "'w store_cache"
  dv_account :: "string \<Rightarrow> 'w \<Rightarrow> (err + account_info) \<times> 'w"
  dv_client :: "string \<Rightarrow> 'w \<Rightarrow> (err + 'w resource_client) \<times> 'w"

text \<open>An error other than NotFound counts as an existing resource.\<close>

definition testIfResourceExists :: "resource_context \<Rightarrow> 'w resource_client \<Rightarrow> 'w \<Rightarrow> (err + bool) \<times> 'w" where
  "testIfResourceExists rctx cl w =
     (case wl_resource_for cl (rcx_group rctx) (rcx_kind rctx) w of
        Inl e \<Rightarrow> (Inl (wrap ''failed to get GVR for resource'' e), w)
      | Inr gvr \<Rightarrow>
     (case wl_kind_for cl gvr w of
        Inl e \<Rightarrow> (Inl (wrap ''failed to get GVK for resource'' e), w)
      | Inr gvk \<Rightarrow>
          (case wl_get cl gvk (case rcx_namespace rctx of None \<Rightarrow> [] | Some ns \<Rightarrow> ns) (rcx_name rctx) w of
             (Some e, w1) \<Rightarrow> (Inr (ignore_not_found (Some e) \<noteq> None), w1)
           | (None, w1) \<Rightarrow> (Inr True, w1))))"

definition account_cluster :: "resource_context \<Rightarrow> account_info \<Rightarrow> string" where
  "account_cluster rctx ai = (if is_account rctx then al_origin (ai_account ai) else al_generated (ai_account ai))"

definition testIfAllowed :: "'w directive \<Rightarrow> account_info \<Rightarrow> resource_context \<Rightarrow> string \<Rightarrow> iam_token \<Rightarrow> 'w \<Rightarrow> (err + bool) \<times> 'w" where
  "testIfAllowed D ai rctx permission token w =
     (let org = al_name (ai_organization ai) in
      case GetStoreID (dv_cache D) (dv_fga D) org w of
        (Inl e, w1) \<Rightarrow> (Inl (wrap (''failed to get store ID for organization '' @ org) e), w1)
      | (Inr store_id, w1) \<Rightarrow>
          (case if_check (dv_fga D) store_id
                  \<lparr>tp_object = target_object rctx (account_cluster rctx ai), tp_relation = permission, tp_user = ''user:'' @ it_mail token\<rparr>
                  (GenerateContextualTuples rctx ai) w1 of
             (Inl e, w2) \<Rightarrow> (Inl (wrap ''failed to check permission with openfga'' e), w2)
           | (Inr allowed, w2) \<Rightarrow> (Inr allowed, w2)))"

text \<open>The argument is the resource context that the JSON of the field's arguments holds.\<close>

definition Authorized ::
  "'w directive \<Rightarrow> iam_ctx \<Rightarrow> err + resource_context \<Rightarrow> string \<Rightarrow> (iam_ctx \<Rightarrow> 'w \<Rightarrow> 'a go_result \<times> 'w) \<Rightarrow> 'w \<Rightarrow> 'a go_result \<times> 'w" where
  "Authorized D c arg permission handler w =
     (case ix_token c of
        None \<Rightarrow> (Failed (errorf ''failed to get web token from context''), w)
      | Some token \<Rightarrow>
     (case GetKCPContext c of
        Inl e \<Rightarrow> (Failed (wrap ''failed to get kcp user context'' e), w)
      | Inr k \<Rightarrow>
     (case arg of
        Inl e \<Rightarrow> (Failed e, w)
      | Inr rctx \<Rightarrow>
     (case dv_account D (workspace_path rctx) w of
        (Inl e, w1) \<Rightarrow> (Failed (wrap ''failed to get account info from kcp context'' e), w1)
      | (Inr ai, w1) \<Rightarrow>
          if al_name (ai_organization ai) \<noteq> kx_org k then (Failed (errorf ''unauthorized''), w1)
          else
     (case dv_client D (rcx_path rctx) w1 of
        (Inl e, w2) \<Rightarrow> (Failed (wrap ''failed to get workspace client'' e), w2)
      | (Inr cl, w2) \<Rightarrow>
     (case testIfResourceExists rctx cl w2 of
        (Inl e, w3) \<Rightarrow> (Failed (wrap ''failed to test if resource exists'' e), w3)
      | (Inr False, w3) \<Rightarrow> (Failed (errorf ''resource does not exist''), w3)
      | (Inr True, w3) \<Rightarrow>
     (case testIfAllowed D ai rctx permission token w3 of
        (Inl e, w4) \<Rightarrow> (Failed (wrap ''failed to test if action is allowed'' e), w4)
      | (Inr False, w4) \<Rightarrow> (Failed (errorf ''unauthorized''), w4)
      | (Inr True, w4) \<Rightarrow> handler (SetClusterId c (account_cluster rctx ai)) w4)))))))"

subsection \<open>The resolvers\<close>

record iam_config =
  ic_limit :: int
  ic_page :: int
  ic_sort_field :: string
  ic_sort_direction :: string
  ic_claim :: string

record 'w resolver =
  rv_roles :: "'w role_service"
  rv_keycloak :: "'w keycloak"
  rv_sorter :: user_sorter
  rv_pager :: pager
  rv_claim :: string
  rv_sort_roles :: "user_roles slice_sort"
  rv_sort_users :: "graph_user slice_sort"

record user_connection =
  cn_users :: "user_roles list"
  cn_info :: page_info
  cn_owners :: int

definition NewResolverService ::
  "'w role_service \<Rightarrow> 'w keycloak \<Rightarrow> iam_config \<Rightarrow> user_roles slice_sort \<Rightarrow> graph_user slice_sort \<Rightarrow> 'w resolver" where
  "NewResolverService S K cfg sort_roles sort_users =
     \<lparr>rv_roles = S\<lparr>fs_user_by_mail := UserByMail K\<rparr>, rv_keycloak = K,
      rv_sorter = NewUserSorterWithConfig (ic_sort_field cfg) (ic_sort_direction cfg),
      rv_pager = NewPager (ic_limit cfg) (ic_page cfg), rv_claim = ic_claim cfg,
      rv_sort_roles = sort_roles, rv_sort_users = sort_users\<rparr>"

definition ownerRoleID :: string where
  "ownerRoleID = ''owner''"

definition Me :: "'w resolver \<Rightarrow> iam_ctx \<Rightarrow> err + graph_user" where
  "Me R c =
     (case ix_token c of
        None \<Rightarrow> Inl (errorf ''internal error'')
      | Some t \<Rightarrow>
          Inr (Transform (rv_claim R)
            \<lparr>us_id = it_subject t, us_email = it_mail t, us_first = Some (it_first t), us_last = Some (it_last t)\<rparr>))"

definition resolve_user :: "'w resolver \<Rightarrow> iam_ctx \<Rightarrow> string \<Rightarrow> 'w \<Rightarrow> graph_user option go_result \<times> 'w" where
  "resolve_user R c user w =
     (case UserByMail (rv_keycloak R) c user w of
        (Returned u, w1) \<Rightarrow> (Returned (map_option (Transform (rv_claim R)) u), w1)
      | r \<Rightarrow> r)"

text \<open>The page of the sorted users; a slice out of range panics.\<close>

definition users_page :: "'w resolver \<Rightarrow> user_roles list \<Rightarrow> sort_by option \<Rightarrow> page_input option \<Rightarrow> int \<Rightarrow> user_connection go_result" where
  "users_page R us how page owners =
     (let sorted_users = SortUserRoles (rv_sort_roles R) (rv_sorter R) us how;
          all_users = map (\<lambda>r. r\<lparr>ur_user := Transform (rv_claim R) (ur_user r)\<rparr>) sorted_users in
      case PaginateUserRoles (rv_pager R) all_users page (int (length all_users)) of
        None \<Rightarrow> Panicked
      | Some (shown, info) \<Rightarrow> Returned \<lparr>cn_users = shown, cn_info = info, cn_owners = owners\<rparr>)"

definition Users ::
  "'w resolver \<Rightarrow> iam_ctx \<Rightarrow> resource_context \<Rightarrow> string list \<Rightarrow> sort_by option \<Rightarrow> page_input option \<Rightarrow> 'w \<Rightarrow>
   user_connection go_result \<times> 'w" where
  "Users R c rctx filters how page w =
     (case CountUsersForRole (rv_roles R) c rctx ownerRoleID w of
        (Failed e, w1) \<Rightarrow> (Failed e, w1)
      | (Panicked, w1) \<Rightarrow> (Panicked, w1)
      | (Returned owners, w1) \<Rightarrow>
          (case ListUsers (rv_roles R) c rctx filters w1 of
             (Failed e, w2) \<Rightarrow> (Failed e, w2)
           | (Panicked, w2) \<Rightarrow> (Panicked, w2)
           | (Returned us, w2) \<Rightarrow>
               (case EnrichUserRoles (rv_keycloak R) c us w2 of
                  (Failed e, w3) \<Rightarrow> (Failed e, w3)
                | (Panicked, w3) \<Rightarrow> (Panicked, w3)
                | (Returned us1, w3) \<Rightarrow> (users_page R us1 how page owners, w3))))"

text \<open>The users of the realm, without roles; \<open>None\<close> when fetching them does not end.\<close>

definition KnownUsers ::
  "'w resolver \<Rightarrow> iam_ctx \<Rightarrow> sort_by option \<Rightarrow> page_input option \<Rightarrow> 'w \<Rightarrow> (user_connection go_result \<times> 'w) option" where
  "KnownUsers R c how page w =
     map_option (\<lambda>(r, w1).
       (case r of
          Inl e \<Rightarrow> Failed e
        | Inr users \<Rightarrow>
            (let sorted_users = SortUsers (rv_sort_users R) (rv_sorter R) users how in
             case PaginateUsers (rv_pager R) sorted_users page (int (length sorted_users)) of
               None \<Rightarrow> Panicked
             | Some (shown, info) \<Rightarrow>
                 Returned \<lparr>cn_users = map (\<lambda>u. \<lparr>ur_user = Transform (rv_claim R) u, ur_roles = []\<rparr>) shown,
                           cn_info = info, cn_owners = 0\<rparr>), w1))
       (GetUsers (rv_keycloak R) c w)"

text \<open>The fields that the schema guards, with the permissions it names.\<close>

definition field_roles ::
  "'w directive \<Rightarrow> 'w resolver \<Rightarrow> iam_ctx \<Rightarrow> resource_context \<Rightarrow> 'w \<Rightarrow> graph_role list go_result \<times> 'w" where
  "field_roles D R c rctx w =
     Authorized D c (Inr rctx) ''get_iam_roles''
       (\<lambda>c w. ((case GetRoles (rv_roles R) rctx w of Inl e \<Rightarrow> Failed e | Inr rs \<Rightarrow> Returned rs), w)) w"

definition field_users ::
  "'w directive \<Rightarrow> 'w resolver \<Rightarrow> iam_ctx \<Rightarrow> resource_context \<Rightarrow> string list \<Rightarrow> sort_by option \<Rightarrow> page_input option \<Rightarrow> 'w \<Rightarrow>
   user_connection go_result \<times> 'w" where
  "field_users D R c rctx filters how page w =
     Authorized D c (Inr rctx) ''get_iam_users'' (\<lambda>c. Users R c rctx filters how page) w"

definition field_assign ::
  "'w directive \<Rightarrow> 'w resolver \<Rightarrow> iam_ctx \<Rightarrow> resource_context \<Rightarrow> role_change list \<Rightarrow> role_change list \<Rightarrow> 'w \<Rightarrow>
   role_assignment go_result \<times> 'w" where
  "field_assign D R c rctx changes invites w =
     Authorized D c (Inr rctx) ''manage_iam_roles'' (\<lambda>c. AssignRolesToUsers (rv_roles R) c rctx changes invites) w"

definition field_remove ::
  "'w directive \<Rightarrow> 'w resolver \<Rightarrow> iam_ctx \<Rightarrow> resource_context \<Rightarrow> string \<Rightarrow> string \<Rightarrow> 'w \<Rightarrow> role_removal go_result \<times> 'w" where
  "field_remove D R c rctx user role w =
     Authorized D c (Inr rctx) ''manage_iam_roles''
       (\<lambda>c w. (case RemoveRole (rv_roles R) c rctx user role w of
                (Inl e, w1) \<Rightarrow> (Failed e, w1) | (Inr r, w1) \<Rightarrow> (Returned r, w1))) w"

end
