(* ===== verification/Iam_Roles.thy ===== *)
theory Iam_Roles
  imports Iam_Types
begin

text \<open>
  The cache of roles as a state machine: its steps are the informer's events, and next to the cache stands
  the collection of ProviderPermissions that exist. The cache never holds a definition that no existing object
  has, and it holds all definitions of a role identifier that at no time two objects defined for one resource.
\<close>

subsection \<open>One event\<close>

definition roles_of :: "string \<Rightarrow> permissions \<Rightarrow> iam_role list" where
  "roles_of k pp = concat (map gp_roles (filter (\<lambda>rr. gp_resource rr = k) pp))"

lemma roles_of_simps [simp]:
  "roles_of k [] = []"
  "roles_of k (rr # pp) = (if gp_resource rr = k then gp_roles rr @ roles_of k pp else roles_of k pp)"
  by (simp_all add: roles_of_def)

lemma cached_roles_upd [simp]:
  "cached_roles (c(j \<mapsto> ds)) k = (if j = k then ds else cached_roles c k)"
  "cached_roles (c(j := None)) k = (if j = k then [] else cached_roles c k)"
  by (simp_all add: cached_roles_def)

lemma fold_append_roles:
  "cached_roles (fold (\<lambda>r c. c(j \<mapsto> cached_roles c j @ [r])) rs c) k =
     (if j = k then cached_roles c k @ rs else cached_roles c k)"
  by (induction rs arbitrary: c) auto

lemma cached_addRoles: "cached_roles (addRoles pp c) k = cached_roles c k @ roles_of k pp"
  by (induction pp arbitrary: c) (auto simp: addRoles_def fold_append_roles)

lemma cached_removeRoles:
  "cached_roles (removeRoles j rs c) k =
     (if j = k then filter (\<lambda>r. rd_id r \<notin> rd_id ` set rs) (cached_roles c k) else cached_roles c k)"
  by (auto simp: removeRoles_def Let_def)

lemma cached_handleDelete:
  "cached_roles (handleDelete pp c) k = filter (\<lambda>r. rd_id r \<notin> rd_id ` set (roles_of k pp)) (cached_roles c k)"
proof (induction pp arbitrary: c)
  case (Cons rr pp)
  then show ?case
    by (auto simp: handleDelete_def cached_removeRoles intro!: filter_cong)
qed (simp add: handleDelete_def)

subsection \<open>Runs\<close>

text \<open>
  The informer's events that carry their object. A deletion that the informer only learned of later comes as
  a tombstone of another type, which \<^verbatim>\<open>SetupWithProvider\<close> ignores: it is no step here.
\<close>

inductive permissions_step ::
  "permissions multiset \<times> roles_cache \<Rightarrow> permissions multiset \<times> roles_cache \<Rightarrow> bool" where
  added: "permissions_step (M, c) (add_mset p M, handleAdd p c)"
| updated: "p \<in># M \<Longrightarrow> permissions_step (M, c) (add_mset q (M - {#p#}), handleUpdate p q c)"
| deleted: "p \<in># M \<Longrightarrow> permissions_step (M, c) (M - {#p#}, handleDelete p c)"

inductive_cases permissions_stepE: "permissions_step (M, c) (M', c')"

text \<open>A run from the empty cache, with the collections of objects it went through, the last one first.\<close>

inductive permissions_history :: "permissions multiset list \<Rightarrow> permissions multiset \<times> roles_cache \<Rightarrow> bool" where
  start: "permissions_history [{#}] ({#}, Map.empty)"
| event: "permissions_history Ms s \<Longrightarrow> permissions_step s t \<Longrightarrow> permissions_history (fst t # Ms) t"

text \<open>The definitions of the existing objects for a resource, and whether at most one object defines a role.\<close>

definition defined_roles :: "string \<Rightarrow> permissions multiset \<Rightarrow> iam_role multiset" where
  "defined_roles k M = (\<Sum>p \<in># M. mset (roles_of k p))"

definition defines_role :: "string \<Rightarrow> string \<Rightarrow> permissions \<Rightarrow> bool" where
  "defines_role k i p \<longleftrightarrow> i \<in> rd_id ` set (roles_of k p)"

definition exclusive_role :: "string \<Rightarrow> string \<Rightarrow> permissions multiset \<Rightarrow> bool" where
  "exclusive_role k i M \<longleftrightarrow> size (filter_mset (defines_role k i) M) \<le> 1"

abbreviation with_id :: "string \<Rightarrow> iam_role multiset \<Rightarrow> iam_role multiset" where
  "with_id i R \<equiv> filter_mset (\<lambda>r. rd_id r = i) R"

lemma defined_roles_simps [simp]:
  "defined_roles k {#} = {#}"
  "defined_roles k (add_mset p M) = mset (roles_of k p) + defined_roles k M"
  by (simp_all add: defined_roles_def)

lemma defined_roles_remove: "p \<in># M \<Longrightarrow> defined_roles k M = mset (roles_of k p) + defined_roles k (M - {#p#})"
  by (metis defined_roles_simps(2) insert_DiffM)

lemma filter_mset_none: "(\<And>x. x \<in># A \<Longrightarrow> \<not> P x) \<Longrightarrow> filter_mset P A = {#}"
  by (induction A) auto

lemma with_id_undefined: "\<not> defines_role k i p \<Longrightarrow> with_id i (mset (roles_of k p)) = {#}"
  by (rule filter_mset_none) (auto simp: defines_role_def)

lemma with_id_none: "filter_mset (defines_role k i) M = {#} \<Longrightarrow> with_id i (defined_roles k M) = {#}"
proof (induction M)
  case (add p M)
  then have "\<not> defines_role k i p" by (metis add_mset_not_empty filter_mset_add_mset)
  then show ?case using add by (simp add: with_id_undefined)
qed simp

lemma exclusive_others:
  assumes "exclusive_role k i M" and "p \<in># M" and "defines_role k i p"
  shows "filter_mset (defines_role k i) (M - {#p#}) = {#}"
proof -
  obtain N where "M = add_mset p N" using assms(2) by (metis insert_DiffM)
  then show ?thesis using assms(1,3) by (simp add: exclusive_role_def)
qed

text \<open>Deleting an object takes all of its definitions out, and of the others at most those with its identifiers.\<close>

lemma delete_sound:
  assumes "mset (cached_roles c k) \<subseteq># defined_roles k M" and "p \<in># M"
  shows "mset (cached_roles (handleDelete p c) k) \<subseteq># defined_roles k (M - {#p#})"
proof -
  let ?kept = "\<lambda>r. rd_id r \<notin> rd_id ` set (roles_of k p)"
  have "mset (cached_roles (handleDelete p c) k) = filter_mset ?kept (mset (cached_roles c k))"
    by (simp add: cached_handleDelete)
  also have "\<dots> \<subseteq># filter_mset ?kept (defined_roles k M)" using assms(1) by (rule multiset_filter_mono)
  also have "\<dots> = filter_mset ?kept (defined_roles k (M - {#p#}))"
    using filter_mset_none [of "mset (roles_of k p)" ?kept] by (simp add: defined_roles_remove [OF assms(2)])
  also have "\<dots> \<subseteq># defined_roles k (M - {#p#})" by simp
  finally show ?thesis .
qed

lemma delete_complete:
  assumes "with_id i (mset (cached_roles c k)) = with_id i (defined_roles k M)" and "p \<in># M" and "exclusive_role k i M"
  shows "with_id i (mset (cached_roles (handleDelete p c) k)) = with_id i (defined_roles k (M - {#p#}))"
proof (cases "defines_role k i p")
  case True
  then have "with_id i (mset (cached_roles (handleDelete p c) k)) = {#}"
    by (intro filter_mset_none) (auto simp: cached_handleDelete defines_role_def)
  with with_id_none [OF exclusive_others [OF assms(3,2) True]] show ?thesis by (simp only:)
next
  case False
  then have "with_id i (mset (cached_roles (handleDelete p c) k)) = with_id i (mset (cached_roles c k))"
    by (auto simp: cached_handleDelete defines_role_def filter_filter_mset intro!: filter_mset_cong)
  then show ?thesis using assms(1) defined_roles_remove [OF assms(2), of k] with_id_undefined [OF False] by simp
qed

definition offers_defined :: "permissions multiset list \<Rightarrow> permissions multiset \<times> roles_cache \<Rightarrow> bool" where
  "offers_defined Ms s \<longleftrightarrow> (\<forall>k. mset (cached_roles (snd s) k) \<subseteq># defined_roles k (fst s) \<and>
     (\<forall>i. (\<forall>N \<in> set Ms. exclusive_role k i N) \<longrightarrow>
        with_id i (mset (cached_roles (snd s) k)) = with_id i (defined_roles k (fst s))))"

lemma step_offers:
  assumes "permissions_step s t" and "offers_defined Ms s" and "fst s \<in> set Ms"
  shows "offers_defined (fst t # Ms) t"
  using assms
proof cases
  case (added M c p)
  then show ?thesis using assms(2) unfolding offers_defined_def by (simp add: handleAdd_def cached_addRoles add.commute)
next
  case (updated p M c q)
  then show ?thesis
    using assms(2,3) delete_sound [of c _ M p] delete_complete [of _ c _ M p]
    unfolding offers_defined_def by (simp add: handleUpdate_def cached_addRoles add.commute)
next
  case (deleted p M c)
  then show ?thesis
    using assms(2,3) delete_sound [of c _ M p] delete_complete [of _ c _ M p] unfolding offers_defined_def by simp
qed

lemma history_offers: "permissions_history Ms s \<Longrightarrow> fst s \<in> set Ms \<and> offers_defined Ms s"
proof (induction rule: permissions_history.induct)
  case start
  show ?case by (simp add: offers_defined_def cached_roles_def)
next
  case (event Ms s t)
  then show ?case using step_offers by (metis list.set_intros(1))
qed

text \<open>
  Two objects that define one role of a resource: once one of them is deleted the other's definition is no longer
  offered, whatever the role's other attributes.
\<close>

lemma shared_role_lost:
  "rd_id r = rd_id r' \<Longrightarrow>
   cached_roles (handleDelete [\<lparr>gp_resource = k, gp_roles = [r]\<rparr>]
     (handleAdd [\<lparr>gp_resource = k, gp_roles = [r']\<rparr>] (handleAdd [\<lparr>gp_resource = k, gp_roles = [r]\<rparr>] Map.empty))) k = []"
  unfolding cached_handleDelete handleAdd_def cached_addRoles by (simp add: cached_roles_def)

end
