(* ===== verification/Iam_Laws.thy ===== *)
theory Iam_Laws
  imports Iam_Auth Iam_Roles
begin

text \<open>
  What the operations of the IAM service do: pages are windows of a list, sorting with \<^verbatim>\<open>sort.Slice\<close> gives a
  sorted permutation, writes make the tuples of a store grow by what was asked for, and fetching all
  users walks the pages of Keycloak.
\<close>

subsection \<open>Pages\<close>

lemma wrap64_id: "- (2 ^ 63) \<le> x \<Longrightarrow> x < 2 ^ 63 \<Longrightarrow> wrap64 x = x"
  by (simp add: wrap64_def)

definition page_of :: "int \<Rightarrow> int \<Rightarrow> page_input option" where
  "page_of l k = Some \<lparr>pi_limit = Some l, pi_page = Some k\<rparr>"

definition page_window :: "int \<Rightarrow> int \<Rightarrow> 'a list \<Rightarrow> 'a list" where
  "page_window l k xs = take (nat l) (drop (nat ((k - 1) * l)) xs)"

lemma page_window_Nil [simp]: "page_window l k [] = []"
  by (simp add: page_window_def)

definition page_report :: "int \<Rightarrow> int \<Rightarrow> 'a list \<Rightarrow> page_info" where
  "page_report l k xs = \<lparr>pf_count = int (length (page_window l k xs)), pf_total = int (length xs),
     pf_next = (k * l < int (length xs)), pf_previous = (k > 1 \<and> xs \<noteq> [])\<rparr>"

lemma paginate_window:
  assumes "1 \<le> l" and "1 \<le> k" and "k * l < 2 ^ 63"
  shows "paginate p xs (page_of l k) (int (length xs)) = Some (page_window l k xs, page_report l k xs)"
proof -
  let ?n = "int (length xs)" and ?o = "(k - 1) * l"
  have kl: "?o + l = k * l" "0 \<le> ?o" using assms by (simp_all add: algebra_simps)
  have o: "?o < 2 ^ 63" "k - 1 < 2 ^ 63" "l < 2 ^ 63"
  proof -
    have "k * 1 \<le> k * l" "1 * l \<le> k * l" using assms by (intro mult_left_mono mult_right_mono; simp)+
    then show "?o < 2 ^ 63" "k - 1 < 2 ^ 63" "l < 2 ^ 63" using assms kl by linarith+
  qed
  have w: "wrap64 (wrap64 (k - 1) * l) = ?o" "wrap64 (?o + l) = k * l"
  proof -
    have "wrap64 (k - 1) = k - 1" by (rule wrap64_id) (use assms o in \<open>auto intro: order_trans [of _ 0]\<close>)
    moreover have "wrap64 ?o = ?o" by (rule wrap64_id [OF order_trans [OF _ kl(2)] o(1)]) simp
    moreover have "0 \<le> k * l" using assms by simp
    then have "wrap64 (k * l) = k * l" by (rule wrap64_id [OF order_trans [rotated]]) (use assms in simp_all)
    ultimately show "wrap64 (wrap64 (k - 1) * l) = ?o" "wrap64 (?o + l) = k * l" using kl by simp_all
  qed
  have s: "slice ?o (if k * l > ?n then ?n else k * l) xs = Some (page_window l k xs)" if "?o < ?n"
  proof -
    have "drop (nat ?o) (take (nat (k * l)) xs) = page_window l k xs"
      using assms kl by (simp add: page_window_def take_drop flip: nat_add_distrib) (simp add: algebra_simps)
    moreover have "take (nat (k * l)) xs = xs" if "k * l > ?n" using that by simp
    ultimately show ?thesis using that kl assms by (auto simp: slice_def)
  qed
  have beyond: "page_window l k xs = []" "\<not> k * l < ?n" if "?o \<ge> ?n"
    using that kl assms by (auto simp: page_window_def)
  show ?thesis
  proof (cases "?o < ?n")
    case True
    then show ?thesis
      using assms s [OF True] w by (auto simp: paginate_def page_of_def page_limit_def page_number_def page_report_def Let_def)
  next
    case False
    then show ?thesis
      using assms beyond w by (auto simp: paginate_def page_of_def page_limit_def page_number_def page_report_def Let_def)
  qed
qed

text \<open>The windows of the pages from 1 on are the list.\<close>

lemma page_windows_take:
  "1 \<le> l \<Longrightarrow> concat (map (\<lambda>k. page_window l k xs) [1..int m]) = take (m * nat l) xs"
proof (induction m)
  case (Suc m)
  have "[1..int (Suc m)] = [1..int m] @ [int (Suc m)]" by (simp add: upto_rec2)
  moreover have "nat ((int (Suc m) - 1) * l) = m * nat l" using Suc.prems by (simp add: nat_mult_distrib)
  moreover have "take (Suc m * nat l) xs = take (m * nat l) xs @ take (nat l) (drop (m * nat l) xs)"
    using take_add [of "m * nat l" "nat l" xs] by (simp add: add.commute)
  ultimately show ?case using Suc by (simp add: page_window_def del: mult_Suc)
qed simp

subsection \<open>Order\<close>

text \<open>What \<^verbatim>\<open>sort.Slice\<close> documents: a permutation, sorted if the comparison is a strict weak order. It need not be stable.\<close>

definition strict_weak :: "('a \<Rightarrow> 'a \<Rightarrow> bool) \<Rightarrow> bool" where
  "strict_weak lt \<longleftrightarrow>
     (\<forall>x. \<not> lt x x) \<and> (\<forall>x y z. lt x y \<longrightarrow> lt y z \<longrightarrow> lt x z) \<and>
     (\<forall>x y z. \<not> lt x y \<longrightarrow> \<not> lt y z \<longrightarrow> \<not> lt x z)"

definition slice_sort_laws :: "'a slice_sort \<Rightarrow> bool" where
  "slice_sort_laws srt \<longleftrightarrow>
     (\<forall>lt xs. mset (srt lt xs) = mset xs \<and> (strict_weak lt \<longrightarrow> sorted_wrt (\<lambda>x y. \<not> lt y x) (srt lt xs)))"

lemma compare_strings_sign: "compare_strings a b < 0 \<longleftrightarrow> a < b" "0 < compare_strings a b \<longleftrightarrow> b < a"
  by (auto simp: compare_strings_def)

lemma user_less_strict_weak: "strict_weak (\<lambda>a b. user_less S how (f a) (f b))"
  unfolding strict_weak_def user_less_def Let_def compareUsers_def compare_strings_sign
  by (cases "(case how of None \<Rightarrow> so_direction S | Some b \<Rightarrow> sb_direction b) = SortDesc") (simp, force)+

lemma SortUserRoles_sorted:
  assumes "slice_sort_laws srt"
  shows "mset (SortUserRoles srt S us how) = mset us"
    and "sorted_wrt (\<lambda>a b. \<not> user_less S how (ur_user b) (ur_user a)) (SortUserRoles srt S us how)"
proof -
  let ?before = "\<lambda>a b. user_less S how (ur_user a) (ur_user b)"
  have l: "mset (srt ?before us) = mset us" "sorted_wrt (\<lambda>x y. \<not> ?before y x) (srt ?before us)"
    using assms user_less_strict_weak [of S how ur_user] unfolding slice_sort_laws_def by blast+
  show "mset (SortUserRoles srt S us how) = mset us" using l by (simp add: SortUserRoles_def)
  show "sorted_wrt (\<lambda>a b. \<not> ?before b a) (SortUserRoles srt S us how)"
  proof (cases "length us \<le> 1")
    case True
    then have "us = [] \<or> (\<exists>u. us = [u])" by (cases us) auto
    then show ?thesis by (auto simp: SortUserRoles_def)
  qed (use l in \<open>simp add: SortUserRoles_def\<close>)
qed

lemma users_page_window:
  assumes "1 \<le> l" and "1 \<le> k" and "k * l < 2 ^ 63"
  shows "users_page R us how (page_of l k) n =
    (let all = map (\<lambda>r. r\<lparr>ur_user := Transform (rv_claim R) (ur_user r)\<rparr>) (SortUserRoles (rv_sort_roles R) (rv_sorter R) us how) in
     Returned \<lparr>cn_users = page_window l k all, cn_info = page_report l k all, cn_owners = n\<rparr>)"
  unfolding users_page_def PaginateUserRoles_def Let_def paginate_window [OF assms] by simp

subsection \<open>Tuples\<close>

text \<open>
  What OpenFGA documents: a write adds its tuples and removes its deletes or fails and changes nothing, writing a
  tuple that is there fails on its input, and reads answer what is stored. \<open>T\<close> reads the tuples of a store
  off the state; the calls of other systems leave them alone (\<open>keeps\<close>).
\<close>

type_synonym 'w tuple_view = "string \<Rightarrow> 'w \<Rightarrow> tuple set"

definition iam_writes :: "'w iam_fga \<Rightarrow> 'w tuple_view \<Rightarrow> bool" where
  "iam_writes F T \<longleftrightarrow>
     (\<forall>s ws ds w w'. if_write F s ws ds w = (None, w') \<longrightarrow>
        T s w' = T s w - set ds \<union> set ws \<and> (\<forall>s'. s' \<noteq> s \<longrightarrow> T s' w' = T s' w)) \<and>
     (\<forall>s ws ds w e w'. if_write F s ws ds w = (Some e, w') \<longrightarrow> (\<forall>s'. T s' w' = T s' w)) \<and>
     (\<forall>s t w e w'. if_write F s [t] [] w = (Some e, w') \<longrightarrow> if_invalid_input F e \<longrightarrow> t \<in> T s w)"

definition iam_reads :: "'w iam_fga \<Rightarrow> 'w tuple_view \<Rightarrow> bool" where
  "iam_reads F T \<longleftrightarrow>
     (\<forall>s t w ts w'. if_read F s t w = (Inr ts, w') \<longrightarrow> (ts \<noteq> []) = (t \<in> T s w)) \<and>
     (\<forall>s ty i r w us w' u. if_users F s ty i r w = (Inr us, w') \<longrightarrow>
        (UserObject u \<in> set us) = (\<lparr>tp_object = ty @ '':'' @ i, tp_relation = r, tp_user = ''user:'' @ u\<rparr> \<in> T s w))"

definition keeps :: "'w tuple_view \<Rightarrow> ('w \<Rightarrow> 'b \<times> 'w) \<Rightarrow> bool" where
  "keeps T f \<longleftrightarrow> (\<forall>w s. T s (snd (f w)) = T s w)"

lemma keepsD: "keeps T f \<Longrightarrow> f w = (r, w') \<Longrightarrow> T s w' = T s w"
  by (metis keeps_def snd_conv)

definition iam_keeps :: "'w role_service \<Rightarrow> 'w tuple_view \<Rightarrow> bool" where
  "iam_keeps S T \<longleftrightarrow>
     keeps T (if_stores (fs_fga S)) \<and> (\<forall>s t. keeps T (if_read (fs_fga S) s t)) \<and>
     (\<forall>s ty i r. keeps T (if_users (fs_fga S) s ty i r)) \<and>
     (\<forall>k v s w. T s (sk_add (fs_cache S) k v w) = T s w) \<and>
     (\<forall>c m. keeps T (fs_user_by_mail S c m)) \<and> (\<forall>p. keeps T (fs_workspace S p)) \<and>
     (\<forall>p w I w'. fs_workspace S p w = (Inr I, w') \<longrightarrow> (\<forall>l. keeps T (iv_list I l)) \<and> (\<forall>i. keeps T (iv_create I i)))"

lemma store_id_keeps:
  assumes "keeps T (if_stores F)" and "\<forall>k v s w. T s (sk_add C k v w) = T s w" and "GetStoreID C F org w = (r, w')"
  shows "T s w' = T s w"
proof (cases "\<exists>c cs. sk_get C (''store-'' @ org) w = Some (c # cs)")
  case True
  then show ?thesis using assms(3) by (auto simp: GetStoreID_def)
next
  case False
  obtain q w1 where q: "if_stores F w = (q, w1)" by fastforce
  have "T s w1 = T s w" using keepsD [of T "if_stores F" w q w1 s] q assms(1) by simp
  then show ?thesis
    using assms(2,3) False q by (auto simp: GetStoreID_def split: option.splits list.splits sum.splits)
qed

lemma GetStoreID_keeps:
  "iam_keeps S T \<Longrightarrow> GetStoreID (fs_cache S) (fs_fga S) org w = (r, w') \<Longrightarrow> T s w' = T s w"
  by (rule store_id_keeps [of T "fs_fga S" "fs_cache S"]) (simp_all add: iam_keeps_def)

text \<open>
  From one state to another the tuples of a store have grown by at most \<open>G\<close>, and by all of \<open>G\<close> if no error was added.
\<close>

definition grew :: "'w tuple_view \<Rightarrow> string \<Rightarrow> tuple set \<Rightarrow> 'w \<Rightarrow> string list \<Rightarrow> 'w \<Rightarrow> string list \<Rightarrow> bool" where
  "grew T s G w errs w' errs' \<longleftrightarrow>
     T s w \<subseteq> T s w' \<and> T s w' \<subseteq> T s w \<union> G \<and> (\<forall>s'. s' \<noteq> s \<longrightarrow> T s' w' = T s' w) \<and>
     (\<exists>es. errs' = errs @ es) \<and> (errs' = errs \<longrightarrow> G \<subseteq> T s w')"

lemma grew_refl: "grew T s {} w errs w errs"
  by (simp add: grew_def)

lemma grew_trans: "grew T s G w errs w1 errs1 \<Longrightarrow> grew T s H w1 errs1 w2 errs2 \<Longrightarrow> grew T s (G \<union> H) w errs w2 errs2"
  unfolding grew_def by (auto; blast)

lemma grew_kept: "(\<And>s. T s w1 = T s w) \<Longrightarrow> grew T s G w1 errs w2 errs2 \<Longrightarrow> grew T s G w errs w2 errs2"
  unfolding grew_def by simp

lemma grew_error: "grew T s G w (errs @ es) w' errs' \<Longrightarrow> es \<noteq> [] \<Longrightarrow> grew T s (G \<union> H) w errs w' errs'"
  unfolding grew_def by auto

lemma write_each_grew:
  assumes "iam_writes F T"
  shows "write_each F s msg ts (n, errs) w = ((n', errs'), w') \<Longrightarrow> grew T s (set ts) w errs w' errs'"
proof (induction ts arbitrary: n errs w)
  case (Cons t ts)
  obtain e w1 where e: "if_write F s [t] [] w = (e, w1)" by fastforce
  show ?case
  proof (cases e)
    case None
    then have "grew T s {t} w errs w1 errs" using assms e by (auto simp: iam_writes_def grew_def)
    then show ?thesis using Cons None e grew_trans [of T s "{t}" w errs w1 errs "set ts"] by simp
  next
    case (Some x)
    have k: "\<And>s'. T s' w1 = T s' w" using assms e Some by (auto simp: iam_writes_def)
    show ?thesis
    proof (cases "if_invalid_input F x")
      case True
      then have "grew T s {t} w errs w1 errs" using assms e Some k by (auto simp: iam_writes_def grew_def)
      then show ?thesis
        using Cons Some e True grew_trans [of T s "{t}" w errs w1 errs "set ts"] by (simp add: isDuplicateWriteError_def)
    next
      case False
      have "grew T s (set ts) w1 (errs @ [msg @ err_msg x]) w' errs'"
        using Cons Some e False by (simp add: isDuplicateWriteError_def)
      from grew_error [OF grew_kept [OF k this], of "{t}"] show ?thesis by simp
    qed
  qed
qed (simp add: grew_refl)

text \<open>The tuples of the available roles among those asked for.\<close>

definition role_grants :: "resource_context \<Rightarrow> string \<Rightarrow> string list \<Rightarrow> role_change \<Rightarrow> tuple set" where
  "role_grants rctx cluster_id available ch =
     (\<Union>role \<in> set (ch_roles ch) \<inter> set available.
        {role_tuple rctx cluster_id (ch_user ch) role, assign_role_tuple rctx cluster_id role})"

lemma assign_roles_grew:
  assumes "iam_writes (fs_fga S) T"
  shows "assign_roles S rctx s cl available user roles (n, errs) w = ((n', errs'), w') \<Longrightarrow>
    grew T s (role_grants rctx cl available \<lparr>ch_user = user, ch_roles = roles\<rparr>) w errs w' errs' \<and>
    (errs' = errs \<longrightarrow> set roles \<subseteq> set available)"
proof (induction roles arbitrary: n errs w)
  case Nil
  then show ?case by (simp add: role_grants_def grew_refl)
next
  case (Cons role roles)
  let ?g = "\<lambda>rs. role_grants rctx cl available \<lparr>ch_user = user, ch_roles = rs\<rparr>"
  show ?case
  proof (cases "role \<in> set available")
    case False
    then have "grew T s (?g roles) w (errs @ [not_allowed role user available]) w' errs'"
      using Cons by (simp add: containsString_def)
    moreover have "?g (role # roles) = ?g roles" using False by (simp add: role_grants_def)
    moreover have "errs' \<noteq> errs" using calculation(1) by (auto simp: grew_def)
    ultimately show ?thesis using grew_error [where H = "{}"] by fastforce
  next
    case True
    let ?p = "{role_tuple rctx cl user role, assign_role_tuple rctx cl role}"
    obtain k es w1 where a: "assignRoleToUser S user role rctx s cl w = ((k, es), w1)" by (metis prod.collapse)
    have p: "grew T s ?p w [] w1 es"
      using write_each_grew [OF assms a [unfolded assignRoleToUser_def]] by simp
    then have p': "grew T s ?p w errs w1 (errs @ es)" by (auto simp: grew_def)
    have r: "assign_roles S rctx s cl available user roles (n + k, errs @ es) w1 = ((n', errs'), w')"
      using Cons.prems True a by (simp add: containsString_def)
    have g: "?g (role # roles) = ?p \<union> ?g roles" using True by (auto simp: role_grants_def)
    have "es = []" if "errs' = errs" using that Cons.IH [OF r] by (auto simp: grew_def)
    then show ?thesis using Cons.IH [OF r] grew_trans [OF p'] g True by (metis append_Nil2 insert_subset list.simps(15))
  qed
qed

text \<open>While the definitions stay what they are.\<close>

definition steady :: "'w role_service \<Rightarrow> resource_context \<Rightarrow> iam_role list \<Rightarrow> bool" where
  "steady S rctx defs \<longleftrightarrow> (\<forall>w. fs_roles S rctx w = Inr defs)"

lemma assign_change_grew:
  assumes "iam_writes (fs_fga S) T" and "steady S rctx defs"
    and "assign_change S rctx s cl ch (n, errs) w = ((n', errs'), w')"
  shows "grew T s (role_grants rctx cl (GetAvailableRoleIDs defs) ch) w errs w' errs' \<and>
    (errs' = errs \<longrightarrow> set (ch_roles ch) \<subseteq> set (GetAvailableRoleIDs defs))"
proof -
  have "assign_roles S rctx s cl (GetAvailableRoleIDs defs) (ch_user ch) (ch_roles ch) (n, errs) w = ((n', errs'), w')"
    using assms(2,3) by (simp add: assign_change_def steady_def)
  from assign_roles_grew [OF assms(1) this] show ?thesis by (cases ch) simp
qed

definition all_grants :: "resource_context \<Rightarrow> string \<Rightarrow> string list \<Rightarrow> role_change list \<Rightarrow> tuple set" where
  "all_grants rctx cl available chs = (\<Union>ch \<in> set chs. role_grants rctx cl available ch)"

lemma assign_changes_grew:
  assumes "iam_writes (fs_fga S) T" and "steady S rctx defs"
  shows "assign_changes S rctx s cl chs (n, errs) w = ((n', errs'), w') \<Longrightarrow>
    grew T s (all_grants rctx cl (GetAvailableRoleIDs defs) chs) w errs w' errs' \<and>
    (errs' = errs \<longrightarrow> (\<forall>ch \<in> set chs. set (ch_roles ch) \<subseteq> set (GetAvailableRoleIDs defs)))"
proof (induction chs arbitrary: n errs w)
  case Nil
  then show ?case by (simp add: all_grants_def grew_refl)
next
  case (Cons ch chs)
  obtain n1 errs1 w1 where a: "assign_change S rctx s cl ch (n, errs) w = ((n1, errs1), w1)" by (metis prod.collapse)
  have r: "assign_changes S rctx s cl chs (n1, errs1) w1 = ((n', errs'), w')" using Cons.prems a by simp
  note c = assign_change_grew [OF assms a] and i = Cons.IH [OF r]
  have "errs1 = errs" if "errs' = errs" using that c i by (auto simp: grew_def)
  moreover have "all_grants rctx cl (GetAvailableRoleIDs defs) (ch # chs)
      = role_grants rctx cl (GetAvailableRoleIDs defs) ch \<union> all_grants rctx cl (GetAvailableRoleIDs defs) chs"
    by (simp add: all_grants_def)
  ultimately show ?case using c i grew_trans by (metis set_ConsD)
qed

text \<open>Looking a user up and inviting it writes no tuples.\<close>

lemma createInvite_keeps:
  assumes "iam_keeps S T" and "fs_workspace S p v = (Inr I, v')" and "createInviteIfNotExists S I m w = (r, w')"
  shows "T s w' = T s w"
proof -
  have l: "keeps T (iv_list I l)" and i: "keeps T (iv_create I i)" for l i
    using assms(1,2) unfolding iam_keeps_def by blast+
  let ?label = "(''platform-mesh.io/invite-email-hash'', emailToLabelValue S m)"
  obtain q w1 where q: "iv_list I ?label w = (q, w1)" by fastforce
  have k: "T s w1 = T s w" using keepsD [OF l q] .
  obtain e w2 where e: "iv_create I \<lparr>in_generate_name = ''invite-'', in_label = ?label, in_email = m\<rparr> w1 = (e, w2)" by fastforce
  have "T s w2 = T s w" using keepsD [OF i e] k by simp
  then show ?thesis
    using assms(3) q e k
    by (auto simp: createInviteIfNotExists_def Let_def split: option.splits sum.splits list.splits)
qed

lemma checkAndInvite_keeps:
  assumes "iam_keeps S T" and "checkAndInviteUser S c m rctx w = (r, w')"
  shows "T s w' = T s w"
proof -
  obtain q w1 where q: "fs_user_by_mail S c m w = (q, w1)" by fastforce
  have k1: "T s w1 = T s w" using keepsD [of T "fs_user_by_mail S c m" w q w1 s] q assms(1) by (auto simp: iam_keeps_def)
  obtain p w2 where p: "fs_workspace S (workspace_path rctx) w1 = (p, w2)" by fastforce
  have k2: "T s w2 = T s w1" using keepsD [of T "fs_workspace S (workspace_path rctx)" w1 p w2 s] p assms(1) by (auto simp: iam_keeps_def)
  show ?thesis
  proof (cases "q = Returned None \<and> (\<exists>I. p = Inr I)")
    case True
    then obtain I where I: "p = Inr I" by blast
    obtain e w3 where e: "createInviteIfNotExists S I m w2 = (e, w3)" by fastforce
    have "T s w3 = T s w2" using createInvite_keeps [OF assms(1) p [unfolded I] e] .
    then show ?thesis using assms(2) q p I e k1 k2 True by (auto simp: checkAndInviteUser_def split: option.splits)
  next
    case False
    then show ?thesis
      using assms(2) q p k1 k2 by (auto simp: checkAndInviteUser_def split: go_result.splits option.splits sum.splits)
  qed
qed

lemma processInvites_grew:
  assumes "iam_writes (fs_fga S) T" and "steady S rctx defs" and "iam_keeps S T"
  shows "processInvites S c rctx s cl chs (n, errs) w = (Returned (n', errs'), w') \<Longrightarrow>
    grew T s (all_grants rctx cl (GetAvailableRoleIDs defs) chs) w errs w' errs' \<and>
    (errs' = errs \<longrightarrow> (\<forall>ch \<in> set chs. set (ch_roles ch) \<subseteq> set (GetAvailableRoleIDs defs)))"
proof (induction chs arbitrary: n errs w)
  case Nil
  then show ?case by (simp add: all_grants_def grew_refl)
next
  case (Cons ch chs)
  obtain r w1 where q: "checkAndInviteUser S c (ch_user ch) rctx w = (r, w1)" by fastforce
  have k: "\<And>s. T s w1 = T s w" using checkAndInvite_keeps [OF assms(3) q] .
  have np: "r \<noteq> Panicked" using Cons.prems q by auto
  obtain es where es: "(case r of
      Failed e \<Rightarrow> errs @ [''failed to create invite for user '' @ ticked (sanitizeUserID (ch_user ch)) @ '': '' @ err_msg e]
    | _ \<Rightarrow> errs) = errs @ es" by (cases r) auto
  obtain n1 errs1 w2 where a: "assign_change S rctx s cl ch (n, errs @ es) w1 = ((n1, errs1), w2)" by (metis prod.collapse)
  have i: "processInvites S c rctx s cl chs (n1, errs1) w2 = (Returned (n', errs'), w')"
    using Cons.prems q np es a by (cases r) auto
  note c = assign_change_grew [OF assms(1,2) a] and h = Cons.IH [OF i]
  have g: "grew T s (role_grants rctx cl (GetAvailableRoleIDs defs) ch) w errs w2 errs1"
    using grew_kept [OF k conjunct1 [OF c]] by (auto simp: grew_def)
  have same: "errs1 = errs" "es = []" if "errs' = errs" using that g h c by (auto simp: grew_def)
  have "all_grants rctx cl (GetAvailableRoleIDs defs) (ch # chs)
      = role_grants rctx cl (GetAvailableRoleIDs defs) ch \<union> all_grants rctx cl (GetAvailableRoleIDs defs) chs"
    by (simp add: all_grants_def)
  then show ?case using c h same grew_trans [OF g conjunct1 [OF h]] by auto
qed

text \<open>Assigning: the store grows by the tuples of the available roles asked for, by all of them on success.\<close>

lemma AssignRolesToUsers_grows:
  assumes "iam_writes (fs_fga S) T" and "steady S rctx defs" and "iam_keeps S T"
    and "AssignRolesToUsers S c rctx changes invites w = (Returned r, w')"
  obtains cl k store w1 where "ix_cluster c = Some cl" and "ix_kcp c = Some k"
    and "GetStoreID (fs_cache S) (fs_fga S) (kx_org k) w = (Inr store, w1)"
    and "grew T store (all_grants rctx cl (GetAvailableRoleIDs defs) (invites @ changes)) w [] w' (ra_errors r)"
    and "ra_success r = (ra_errors r = [])"
    and "ra_success r \<Longrightarrow> \<forall>ch \<in> set (invites @ changes). set (ch_roles ch) \<subseteq> set (GetAvailableRoleIDs defs)"
proof -
  obtain cl k store w1 where c: "ix_cluster c = Some cl" "ix_kcp c = Some k"
      "GetStoreID (fs_cache S) (fs_fga S) (kx_org k) w = (Inr store, w1)"
    using assms(4)
    by (auto simp: AssignRolesToUsers_def GetClusterId_def GetKCPContext_def split: option.splits sum.splits prod.splits)
  obtain q w2 where q: "processInvites S c rctx store cl invites (0, []) w1 = (q, w2)" by fastforce
  obtain n errs where acc: "q = Returned (n, errs)"
    using assms(4) c q by (cases q) (auto simp: AssignRolesToUsers_def GetClusterId_def GetKCPContext_def)
  obtain n' errs' where a: "assign_changes S rctx store cl changes (n, errs) w2 = ((n', errs'), w')"
    and r: "r = \<lparr>ra_success = (errs' = []), ra_errors = errs', ra_count = n'\<rparr>"
    using assms(4) c q acc
    by (cases "assign_changes S rctx store cl changes (n, errs) w2")
       (auto simp: AssignRolesToUsers_def GetClusterId_def GetKCPContext_def)
  note gi = processInvites_grew [OF assms(1-3) q [unfolded acc]] and gc = assign_changes_grew [OF assms(1,2) a]
  have "grew T store (all_grants rctx cl (GetAvailableRoleIDs defs) invites) w [] w2 errs"
    by (rule grew_kept [OF GetStoreID_keeps [OF assms(3) c(3)] conjunct1 [OF gi]])
  from grew_trans [OF this conjunct1 [OF gc]]
  have g: "grew T store (all_grants rctx cl (GetAvailableRoleIDs defs) (invites @ changes)) w [] w' errs'"
    by (simp add: all_grants_def)
  have e: "errs = []" if "errs' = []" using that gc by (auto simp: grew_def)
  show thesis
  proof (rule that [OF c])
    show "\<forall>ch \<in> set (invites @ changes). set (ch_roles ch) \<subseteq> set (GetAvailableRoleIDs defs)" if "ra_success r"
      using that r e gi gc by (metis Un_iff role_assignment.select_convs(1) set_append)
  qed (use g r in simp_all)
qed

subsection \<open>Listing\<close>

text \<open>What the unordered parts of Go leave open: the order of answers and of a map, each a permutation.\<close>

definition order_laws :: "'w role_service \<Rightarrow> bool" where
  "order_laws S \<longleftrightarrow> (\<forall>xs. mset (fs_arrive S xs) = mset xs) \<and> (\<forall>xs. mset (fs_order S xs) = mset xs)"

lemma order_lawsD:
  assumes "order_laws S"
  shows "set (fs_arrive S xs) = set xs" and "set (fs_order S xs) = set xs" and "distinct (fs_order S xs) = distinct xs"
  using assms unfolding order_laws_def by (metis mset_eq_setD, metis mset_eq_setD, metis mset_eq_imp_distinct_iff)

text \<open>The user has the role in a map of users to roles.\<close>

definition has_role :: "(string \<times> string list) list \<Rightarrow> string \<Rightarrow> string \<Rightarrow> bool" where
  "has_role m u r \<longleftrightarrow> (\<exists>rs. map_of m u = Some rs \<and> r \<in> set rs)"

lemma obj_put_keys: "distinct (map fst m) \<Longrightarrow> distinct (map fst (obj_put k v m))"
proof (induction m)
  case (Cons x m)
  have "fst ` set (obj_put k v m) \<subseteq> insert k (fst ` set m)" for m :: "(string \<times> 'a) list"
    using set_obj_put [of k v m] by force
  then show ?case using Cons by (cases x) (auto split: if_splits)
qed simp

lemma add_role_users_has:
  "add_role_users role us m = Some m' \<Longrightarrow> distinct (map fst m) \<Longrightarrow>
     distinct (map fst m') \<and> (has_role m' u r \<longleftrightarrow> has_role m u r \<or> (r = role \<and> UserObject u \<in> set us))"
proof (induction role us m rule: add_role_users.induct)
  case (2 role v us m)
  let ?m = "obj_put v ((case map_of m v of None \<Rightarrow> [] | Some rs \<Rightarrow> rs) @ [role]) m"
  have "has_role ?m u r \<longleftrightarrow> has_role m u r \<or> (r = role \<and> u = v)"
    by (cases "map_of m v") (auto simp: has_role_def)
  moreover have "distinct (map fst ?m)" using "2.prems"(2) by (rule obj_put_keys)
  ultimately show ?case using 2 by auto
qed auto

lemma collect_users_has:
  assumes "iam_reads (fs_fga S) T" and "iam_keeps S T"
  shows "collect_users S s object name roles m w = (Returned m', w') \<Longrightarrow> distinct (map fst m) \<Longrightarrow>
    distinct (map fst m') \<and> (has_role m' u r \<longleftrightarrow> has_role m u r \<or>
      (r \<in> set roles \<and> \<lparr>tp_object = ''role:'' @ object r, tp_relation = ''assignee'', tp_user = ''user:'' @ u\<rparr> \<in> T s w))"
proof (induction roles arbitrary: m w)
  case (Cons role roles)
  let ?t = "\<lambda>r. \<lparr>tp_object = ''role:'' @ object r, tp_relation = ''assignee'', tp_user = ''user:'' @ u\<rparr>"
  obtain us w1 where q: "if_users (fs_fga S) s ''role'' (object role) ''assignee'' w = (Inr us, w1)"
    using Cons.prems(1) by (auto split: prod.splits sum.splits)
  obtain m1 where a: "add_role_users role us m = Some m1" and i: "collect_users S s object name roles m1 w1 = (Returned m', w')"
    using Cons.prems(1) q by (auto split: option.splits)
  have "T s w1 = T s w"
    using keepsD [of T "if_users (fs_fga S) s ''role'' (object role) ''assignee''" w "Inr us" w1 s] q assms(2)
    by (auto simp: iam_keeps_def)
  moreover have "UserObject u \<in> set us \<longleftrightarrow> ?t role \<in> T s w"
  proof -
    have "UserObject u \<in> set us \<longleftrightarrow>
        \<lparr>tp_object = ''role'' @ '':'' @ object role, tp_relation = ''assignee'', tp_user = ''user:'' @ u\<rparr> \<in> T s w"
      using assms(1) q unfolding iam_reads_def by blast
    then show ?thesis by simp
  qed
  ultimately show ?case
    using Cons.IH [OF i] add_role_users_has [OF a Cons.prems(2)] by auto
qed simp

text \<open>The pairs of user and role that a list shows.\<close>

definition shown_roles :: "user_roles list \<Rightarrow> (string \<times> string) set" where
  "shown_roles us = {(us_email (ur_user x), gr_id r) | x r. x \<in> set us \<and> r \<in> set (ur_roles x)}"

lemma lookup_definition:
  "map_of (rev (map (\<lambda>d. (rd_id d, d)) defs)) role = Some d \<Longrightarrow> rd_id d = role"
  by (drule map_of_SomeD) auto

lemma lookup_self:
  "(\<exists>q \<in> set rs. \<exists>d. map_of (rev (map (\<lambda>d. (rd_id d, d)) defs)) q = Some d \<and> rd_id d = r) \<longleftrightarrow>
   r \<in> set rs \<and> (\<exists>d. map_of (rev (map (\<lambda>d. (rd_id d, d)) defs)) r = Some d)"
  (is "?l \<longleftrightarrow> ?r")
proof
  assume ?l
  then obtain q d where q: "q \<in> set rs" "map_of (rev (map (\<lambda>d. (rd_id d, d)) defs)) q = Some d" "rd_id d = r" by blast
  then have "q = r" using lookup_definition [OF q(2)] by simp
  then show ?r using q by blast
next
  assume ?r
  then obtain d where d: "r \<in> set rs" "map_of (rev (map (\<lambda>d. (rd_id d, d)) defs)) r = Some d" by blast
  then show ?l using lookup_definition [OF d(2)] by blast
qed

lemma lookup_available:
  "(\<exists>d. map_of (rev (map (\<lambda>d. (rd_id d, d)) defs)) role = Some d) \<longleftrightarrow> role \<in> set (GetAvailableRoleIDs defs)"
proof -
  have "fst ` set (rev (map (\<lambda>d. (rd_id d, d)) defs)) = set (GetAvailableRoleIDs defs)"
    by (simp add: GetAvailableRoleIDs_def image_image)
  then show ?thesis
    using map_of_eq_None_iff [of "rev (map (\<lambda>d. (rd_id d, d)) defs)" role] by (simp only: not_None_eq [symmetric]) simp
qed

lemma convert_shows:
  assumes "order_laws S" and "steady S rctx defs" and "distinct (map fst m)"
  shows "distinct (map (\<lambda>x. us_email (ur_user x)) (convertToGraphUserRoles S rctx m w))"
    and "(u, r) \<in> shown_roles (convertToGraphUserRoles S rctx m w) \<longleftrightarrow> has_role m u r \<and> r \<in> set (GetAvailableRoleIDs defs)"
proof -
  let ?def = "map_of (rev (map (\<lambda>d. (rd_id d, d)) defs))"
  let ?row = "\<lambda>u. \<lparr>ur_user = \<lparr>us_id = [], us_email = u, us_first = None, us_last = None\<rparr>,
                ur_roles = List.map_filter (\<lambda>r. map_option role_of_definition (?def r)) (the (map_of m u))\<rparr>"
  have c: "convertToGraphUserRoles S rctx m w = map ?row (fs_order S (map fst m))"
    using assms(2) by (simp add: convertToGraphUserRoles_def steady_def)
  show "distinct (map (\<lambda>x. us_email (ur_user x)) (convertToGraphUserRoles S rctx m w))"
    using order_lawsD(3) [OF assms(1)] assms(3) by (simp add: c o_def)
  have keys: "u \<in> set (fs_order S (map fst m)) \<longleftrightarrow> (\<exists>rs. map_of m u = Some rs)"
    using order_lawsD(2) [OF assms(1), of "map fst m"] by (metis map_of_eq_None_iff not_None_eq set_map)
  have ids: "r \<in> gr_id ` set (ur_roles (?row u)) \<longleftrightarrow> (\<exists>q \<in> set (the (map_of m u)). \<exists>d. ?def q = Some d \<and> rd_id d = r)"
    by (force simp: map_filter_def role_of_definition_def image_iff)
  have "(u, r) \<in> shown_roles (map ?row (fs_order S (map fst m))) \<longleftrightarrow>
      u \<in> set (fs_order S (map fst m)) \<and> r \<in> gr_id ` set (ur_roles (?row u))"
    by (force simp: shown_roles_def)
  also have "\<dots> \<longleftrightarrow> (\<exists>rs. map_of m u = Some rs \<and> (\<exists>q \<in> set rs. \<exists>d. ?def q = Some d \<and> rd_id d = r))"
    unfolding keys ids by (cases "map_of m u") simp_all
  also have "\<dots> \<longleftrightarrow> (\<exists>rs. map_of m u = Some rs \<and> r \<in> set rs \<and> (\<exists>d. ?def r = Some d))"
    by (simp only: lookup_self)
  also have "\<dots> \<longleftrightarrow> has_role m u r \<and> r \<in> set (GetAvailableRoleIDs defs)"
    unfolding lookup_available has_role_def by blast
  finally show "(u, r) \<in> shown_roles (convertToGraphUserRoles S rctx m w) \<longleftrightarrow> has_role m u r \<and> r \<in> set (GetAvailableRoleIDs defs)"
    by (simp only: c)
qed

text \<open>The roles a request asks for: the available ones that pass its filter.\<close>

definition listed_roles :: "iam_role list \<Rightarrow> string list \<Rightarrow> string set" where
  "listed_roles defs filters = {r \<in> set (GetAvailableRoleIDs defs). filters \<noteq> [] \<longrightarrow> r \<in> set filters}"

lemma ListUsers_shows:
  assumes "iam_reads (fs_fga S) T" and "iam_keeps S T" and "order_laws S" and "steady S rctx defs"
    and "ListUsers S c rctx filters w = (Returned us, w')"
    and "ix_cluster c = Some cl" and "ix_kcp c = Some k"
    and "GetStoreID (fs_cache S) (fs_fga S) (kx_org k) w = (Inr store, w1)"
  shows "distinct (map (\<lambda>x. us_email (ur_user x)) us)"
    and "(u, r) \<in> shown_roles us \<longleftrightarrow> r \<in> listed_roles defs filters \<and> role_tuple rctx cl u r \<in> T store w"
proof -
  define applied where "applied =
    (if filters \<noteq> [] then filter (containsString filters) (GetAvailableRoleIDs defs) else GetAvailableRoleIDs defs)"
  then have ap: "applyRoleFilter S rctx filters w1 = Inr applied" "set applied = listed_roles defs filters"
    using assms(4) by (auto simp: applyRoleFilter_def steady_def listed_roles_def containsString_def)
  have T: "T store w1 = T store w" using GetStoreID_keeps [OF assms(2,8)] .
  have "distinct (map (\<lambda>x. us_email (ur_user x)) us) \<and>
    ((u, r) \<in> shown_roles us \<longleftrightarrow> r \<in> listed_roles defs filters \<and> role_tuple rctx cl u r \<in> T store w)"
  proof (cases "applied = []")
    case True
    then have "us = []" using assms(5,7,8) ap by (auto simp: ListUsers_def GetKCPContext_def)
    then show ?thesis using True ap by (auto simp: shown_roles_def)
  next
    case False
    obtain m w2 where m: "collect_users S store (role_id rctx cl) (rcx_name rctx) (fs_arrive S applied) [] w1 = (Returned m, w2)"
      and us: "us = convertToGraphUserRoles S rctx m w2"
      using assms(5-8) ap(1) False
      by (auto simp: ListUsers_def listUsersParallel_def GetKCPContext_def GetClusterId_def split: prod.splits go_result.splits)
    have none: "has_role [] u r \<longleftrightarrow> False" by (simp add: has_role_def)
    have keys: "distinct (map fst m)"
      and has: "has_role m u r \<longleftrightarrow> r \<in> listed_roles defs filters \<and> role_tuple rctx cl u r \<in> T store w"
      using collect_users_has [OF assms(1,2) m, of u r] order_lawsD(1) [OF assms(3), of applied] ap(2) T
      unfolding none role_tuple_def by simp_all
    have "(u, r) \<in> shown_roles us \<longleftrightarrow> has_role m u r \<and> r \<in> set (GetAvailableRoleIDs defs)"
      and "distinct (map (\<lambda>x. us_email (ur_user x)) us)"
      unfolding us by (rule convert_shows [OF assms(3,4) keys])+
    then show ?thesis unfolding has listed_roles_def by blast
  qed
  then show "distinct (map (\<lambda>x. us_email (ur_user x)) us)"
    and "(u, r) \<in> shown_roles us \<longleftrightarrow> r \<in> listed_roles defs filters \<and> role_tuple rctx cl u r \<in> T store w"
    by blast+
qed

subsection \<open>Removing\<close>

lemma RemoveRole_removes:
  assumes "iam_writes (fs_fga S) T" and "iam_reads (fs_fga S) T" and "iam_keeps S T" and "steady S rctx defs"
    and "RemoveRole S c rctx user role w = (Inr r, w')"
  obtains cl k store w1 where "ix_cluster c = Some cl" and "ix_kcp c = Some k"
    and "GetStoreID (fs_cache S) (fs_fga S) (kx_org k) w = (Inr store, w1)"
    and "T store w' = (if rr_success r then T store w - {role_tuple rctx cl user role} else T store w)"
    and "\<And>s. s \<noteq> store \<Longrightarrow> T s w' = T s w"
    and "rr_success r \<Longrightarrow> role \<in> set (GetAvailableRoleIDs defs) \<and> rr_assigned r = (role_tuple rctx cl user role \<in> T store w)"
proof -
  obtain cl k store w1 where c: "ix_cluster c = Some cl" "ix_kcp c = Some k"
      "GetStoreID (fs_cache S) (fs_fga S) (kx_org k) w = (Inr store, w1)"
    using assms(5)
    by (auto simp: RemoveRole_def GetClusterId_def GetKCPContext_def split: option.splits sum.splits prod.splits)
  let ?t = "role_tuple rctx cl user role"
  have k1: "\<And>s. T s w1 = T s w" using GetStoreID_keeps [OF assms(3) c(3)] .
  obtain q w2 where q: "if_read (fs_fga S) store ?t w1 = (q, w2)" by fastforce
  have k2: "T s w2 = T s w" for s
    using keepsD [of T "if_read (fs_fga S) store ?t" w1 q w2 s] q k1 assms(3) by (auto simp: iam_keeps_def)
  have found: "(ts \<noteq> []) = (?t \<in> T store w)" if "q = Inr ts" for ts
    using assms(2) q k1 that unfolding iam_reads_def by metis
  obtain e w3 where e: "if_write (fs_fga S) store [] [?t] w2 = (e, w3)" by fastforce
  have d: "T s w3 = (if e = None \<and> s = store then T s w - {?t} else T s w)" for s
    using assms(1) e k2 by (cases e) (auto simp: iam_writes_def)
  note start = assms(5) [unfolded RemoveRole_def GetClusterId_def GetKCPContext_def c option.case sum.case prod.case]
  have "(\<forall>s. T s w' = (if rr_success r \<and> s = store then T s w - {?t} else T s w)) \<and>
    (rr_success r \<longrightarrow> role \<in> set (GetAvailableRoleIDs defs) \<and> rr_assigned r = (?t \<in> T store w))"
  proof (cases "role \<in> set (GetAvailableRoleIDs defs)")
    case False
    then show ?thesis using start assms(4) k1 by (auto simp: steady_def containsString_def removal_def)
  next
    case True
    show ?thesis
    proof (cases q)
      case (Inl x)
      then show ?thesis using start assms(4) True q k2 by (auto simp: steady_def containsString_def removal_def)
    next
      case (Inr ts)
      then show ?thesis
        using start assms(4) True q k2 found [OF Inr] e d
        by (cases ts; cases e) (auto simp: steady_def containsString_def removal_def)
    qed
  qed
  then show thesis using that [OF c] by auto
qed

end
