(* ===== verification/Iam_Access.thy ===== *)
theory Iam_Access
  imports Iam_Laws
begin

text \<open>
  The directive in front of the fields of the IAM service: a handler runs only after OpenFGA allowed the
  permission on the resource, in the store of the organization that the account names; and the walk over the
  pages of Keycloak, which ends and returns every user when the pages answer, and does not end while they fail.
\<close>

subsection \<open>The directive\<close>

text \<open>What the calls before the check leave alone.\<close>

definition directive_keeps :: "'w directive \<Rightarrow> 'w tuple_view \<Rightarrow> bool" where
  "directive_keeps D T \<longleftrightarrow>
     keeps T (if_stores (dv_fga D)) \<and> (\<forall>s t ts. keeps T (if_check (dv_fga D) s t ts)) \<and>
     (\<forall>k v s w. T s (sk_add (dv_cache D) k v w) = T s w) \<and>
     (\<forall>p. keeps T (dv_account D p)) \<and> (\<forall>p. keeps T (dv_client D p)) \<and>
     (\<forall>p w cl w'. dv_client D p w = (Inr cl, w') \<longrightarrow> (\<forall>g ns n. keeps T (wl_get cl g ns n)))"

text \<open>
  The check was made and granted: with the permission of the field, for the address of the caller, on the object of the
  resource, in the store of the caller's organization.
\<close>

definition check_granted :: "'w directive \<Rightarrow> iam_ctx \<Rightarrow> resource_context \<Rightarrow> string \<Rightarrow> account_info \<Rightarrow> 'w \<Rightarrow> bool" where
  "check_granted D c rctx permission ai w \<longleftrightarrow>
     (\<exists>token k store v v'.
        ix_token c = Some token \<and> ix_kcp c = Some k \<and> al_name (ai_organization ai) = kx_org k \<and>
        GetStoreID (dv_cache D) (dv_fga D) (kx_org k) v = (Inr store, v') \<and>
        fst (if_check (dv_fga D) store
               \<lparr>tp_object = target_object rctx (account_cluster rctx ai), tp_relation = permission,
                tp_user = ''user:'' @ it_mail token\<rparr> (GenerateContextualTuples rctx ai) v') = Inr True \<and>
        w = snd (if_check (dv_fga D) store
               \<lparr>tp_object = target_object rctx (account_cluster rctx ai), tp_relation = permission,
                tp_user = ''user:'' @ it_mail token\<rparr> (GenerateContextualTuples rctx ai) v'))"

lemma testIfAllowed_granted:
  assumes "ix_token c = Some token" and "ix_kcp c = Some k" and "al_name (ai_organization ai) = kx_org k"
    and "testIfAllowed D ai rctx permission token v = (Inr True, w)"
  shows "check_granted D c rctx permission ai w"
proof -
  obtain store v' where s: "GetStoreID (dv_cache D) (dv_fga D) (kx_org k) v = (Inr store, v')"
    using assms(3,4) by (cases "GetStoreID (dv_cache D) (dv_fga D) (kx_org k) v")
      (auto simp: testIfAllowed_def Let_def split: sum.splits)
  then have "if_check (dv_fga D) store
      \<lparr>tp_object = target_object rctx (account_cluster rctx ai), tp_relation = permission, tp_user = ''user:'' @ it_mail token\<rparr>
      (GenerateContextualTuples rctx ai) v' = (Inr True, w)"
    using assms(3,4) by (auto simp: testIfAllowed_def Let_def split: sum.splits prod.splits)
  then show ?thesis using assms(1-3) s unfolding check_granted_def by fastforce
qed

lemma testIfAllowed_keeps:
  assumes "directive_keeps D T" and "testIfAllowed D ai rctx permission token v = (r, w)"
  shows "T s w = T s v"
proof -
  obtain q v' where s: "GetStoreID (dv_cache D) (dv_fga D) (al_name (ai_organization ai)) v = (q, v')" by fastforce
  have k1: "T s v' = T s v" by (rule store_id_keeps [OF _ _ s]) (use assms(1) in \<open>simp_all add: directive_keeps_def\<close>)
  let ?t = "\<lparr>tp_object = target_object rctx (account_cluster rctx ai), tp_relation = permission, tp_user = ''user:'' @ it_mail token\<rparr>"
  have k2: "T s (snd (if_check (dv_fga D) x ?t (GenerateContextualTuples rctx ai) v')) = T s v'" for x
    using assms(1) by (simp add: directive_keeps_def keeps_def)
  show ?thesis
    using assms(2) s k1 k2 by (auto simp: testIfAllowed_def Let_def split: sum.splits prod.splits) (metis snd_conv)+
qed

lemma testIfResourceExists_keeps:
  assumes "\<forall>g ns n. keeps T (wl_get cl g ns n)" and "testIfResourceExists rctx cl v = (r, w)"
  shows "T s w = T s v"
  using assms by (auto simp: testIfResourceExists_def split: sum.splits prod.splits option.splits) (metis keepsD)+

text \<open>A field either fails before its handler, or the check was granted and the handler ran from there.\<close>

definition stopped :: "'w directive \<Rightarrow> 'w tuple_view \<Rightarrow> 'w \<Rightarrow> 'a go_result \<times> 'w \<Rightarrow> bool" where
  "stopped D T w r \<longleftrightarrow> (\<exists>e w'. r = (Failed e, w') \<and> (directive_keeps D T \<longrightarrow> (\<forall>s. T s w' = T s w)))"

definition went_on ::
  "'w directive \<Rightarrow> 'w tuple_view \<Rightarrow> iam_ctx \<Rightarrow> resource_context \<Rightarrow> string \<Rightarrow> (iam_ctx \<Rightarrow> 'w \<Rightarrow> 'a go_result \<times> 'w) \<Rightarrow>
   'w \<Rightarrow> 'a go_result \<times> 'w \<Rightarrow> bool" where
  "went_on D T c rctx permission h w r \<longleftrightarrow>
     (\<exists>ai v. check_granted D c rctx permission ai v \<and> r = h (SetClusterId c (account_cluster rctx ai)) v \<and>
        (directive_keeps D T \<longrightarrow> (\<forall>s. T s v = T s w)))"

lemma Authorized_cases:
  "stopped D T w (Authorized D c (Inr rctx) permission h w) \<or>
   went_on D T c rctx permission h w (Authorized D c (Inr rctx) permission h w)"
proof (cases "ix_token c")
  case None
  then show ?thesis by (simp add: Authorized_def stopped_def)
next
  case (Some token)
  show ?thesis
  proof (cases "ix_kcp c")
    case None
    then show ?thesis using Some by (simp add: Authorized_def stopped_def GetKCPContext_def)
  next
    case (Some k)
    note start = \<open>ix_token c = Some token\<close> Some
    obtain a w1 where a: "dv_account D (workspace_path rctx) w = (a, w1)" by fastforce
    have k1: "directive_keeps D T \<Longrightarrow> T s w1 = T s w" for s
      using keepsD [of T "dv_account D (workspace_path rctx)" w a w1 s] a by (simp add: directive_keeps_def)
    obtain q w2 where q: "dv_client D (rcx_path rctx) w1 = (q, w2)" by fastforce
    have k2: "directive_keeps D T \<Longrightarrow> T s w2 = T s w" for s
      using keepsD [of T "dv_client D (rcx_path rctx)" w1 q w2 s] q k1 by (simp add: directive_keeps_def)
    show ?thesis
    proof (cases "\<exists>ai cl. a = Inr ai \<and> al_name (ai_organization ai) = kx_org k \<and> q = Inr cl")
      case False
      then show ?thesis using start a q k1 k2
        by (cases a; cases q) (auto simp: Authorized_def stopped_def GetKCPContext_def)
    next
      case True
      then obtain ai cl where r: "a = Inr ai" "al_name (ai_organization ai) = kx_org k" "q = Inr cl" by blast
      obtain x w3 where x: "testIfResourceExists rctx cl w2 = (x, w3)" by fastforce
      have k3: "T s w3 = T s w" if d: "directive_keeps D T" for s
      proof -
        have "\<forall>g ns n. keeps T (wl_get cl g ns n)" using d q r(3) unfolding directive_keeps_def by blast
        then show ?thesis using testIfResourceExists_keeps [OF _ x] k2 [OF d] by metis
      qed
      obtain y w4 where y: "testIfAllowed D ai rctx permission token w3 = (y, w4)" by fastforce
      have k4: "T s w4 = T s w" if "directive_keeps D T" for s
        using testIfAllowed_keeps [OF that y] k3 [OF that] by simp
      have A: "Authorized D c (Inr rctx) permission h w =
        (case x of Inl e \<Rightarrow> (Failed (wrap ''failed to test if resource exists'' e), w3)
         | Inr False \<Rightarrow> (Failed (errorf ''resource does not exist''), w3)
         | Inr True \<Rightarrow> (case y of Inl e \<Rightarrow> (Failed (wrap ''failed to test if action is allowed'' e), w4)
             | Inr False \<Rightarrow> (Failed (errorf ''unauthorized''), w4)
             | Inr True \<Rightarrow> h (SetClusterId c (account_cluster rctx ai)) w4))"
        using start a q r x y by (auto simp: Authorized_def GetKCPContext_def split: sum.splits bool.splits)
      show ?thesis
      proof (cases "x = Inr True \<and> y = Inr True")
        case True
        then have "check_granted D c rctx permission ai w4" using testIfAllowed_granted [OF start r(2)] y by simp
        moreover have "Authorized D c (Inr rctx) permission h w = h (SetClusterId c (account_cluster rctx ai)) w4"
          using A True by simp
        ultimately show ?thesis using k4 unfolding went_on_def by blast
      next
        case False
        then show ?thesis unfolding A stopped_def using k3 k4 by (auto split: sum.splits bool.splits)
      qed
    qed
  qed
qed


lemma Authorized_changes:
  assumes "directive_keeps D T" and "T s (snd (Authorized D c (Inr rctx) permission h w)) \<noteq> T s w"
  shows "\<exists>ai v. check_granted D c rctx permission ai v"
  using Authorized_cases [of D T w c rctx permission h] assms by (auto simp: stopped_def went_on_def)

lemma Authorized_returned:
  assumes "directive_keeps D T" and "Authorized D c (Inr rctx) permission h w = (Returned r, w')"
  obtains ai v where "check_granted D c rctx permission ai v" and "h (SetClusterId c (account_cluster rctx ai)) v = (Returned r, w')"
    and "\<And>s. T s v = T s w"
  using Authorized_cases [of D T w c rctx permission h] assms by (auto simp: stopped_def went_on_def)

lemma SetClusterId_simps [simp]: "ix_cluster (SetClusterId c i) = Some i" "ix_kcp (SetClusterId c i) = ix_kcp c"
  by (simp_all add: SetClusterId_def)

subsection \<open>All users of a realm\<close>

text \<open>
  Keycloak pages the users of a realm: it answers the users from an offset on, as many as asked for.
\<close>

definition serves_users :: "'w keycloak \<Rightarrow> string \<Rightarrow> keycloak_user list \<Rightarrow> bool" where
  "serves_users K realm all \<longleftrightarrow>
     (\<forall>f m w. \<exists>w'. kc_users K realm \<lparr>up_email = None, up_first = Some (int f), up_max = Some (int m)\<rparr> w =
        (Inr (200, Some (take m (drop f all))), w'))"

text \<open>A call that fails: an error, or a status other than 200.\<close>

definition fails_users :: "'w keycloak \<Rightarrow> string \<Rightarrow> bool" where
  "fails_users K realm \<longleftrightarrow>
     (\<forall>p w. \<exists>r w'. kc_users K realm p w = (r, w') \<and> (case r of Inl e \<Rightarrow> True | Inr (status, us) \<Rightarrow> status \<noteq> 200))"

lemma page_users_append: "page_users (us @ vs) = page_users us @ page_users vs"
  by (induction us) (auto split: option.splits)

lemma wrap_small: "0 \<le> x \<Longrightarrow> x < 2 ^ 31 \<Longrightarrow> wrap64 x = x" "0 \<le> x \<Longrightarrow> x < 2 ^ 31 \<Longrightarrow> wrap32 x = x"
  by (simp_all add: wrap64_def wrap32_def)

lemma fetch_pages_rest:
  assumes "serves_users K realm all" and "kc_page_size K = int l" and "1 \<le> l" and "int (length all + l) < 2 ^ 31"
  shows "k * l \<le> length all + l \<Longrightarrow>
    \<exists>w'. fetch_pages K realm (int k) us w = Some (us @ page_users (drop (k * l) all), w')"
proof (induction "length all + l - k * l" arbitrary: k us w rule: less_induct)
  case less
  have small: "int k * int l < 2 ^ 31" "0 \<le> int k * int l"
    using less.prems assms(4) by (simp_all flip: of_nat_mult)
  have k: "int k < 2 ^ 31 + 1"
  proof -
    have "k * 1 \<le> k * l" using assms(3) by (intro mult_left_mono) simp_all
    then have "int k \<le> int k * int l" by (simp flip: of_nat_mult)
    then show ?thesis using small by linarith
  qed
  have "wrap64 (int k * int l) = int k * int l" by (rule wrap_small [OF small(2,1)])
  moreover have "wrap32 (int k * int l) = int k * int l" by (rule wrap_small [OF small(2,1)])
  moreover have "wrap32 (int l) = int l" by (rule wrap_small) (use assms(4) in simp_all)
  moreover have "wrap64 (int k + 1) = int (Suc k)" using wrap64_id [of "int k + 1"] k by simp
  moreover obtain w1 where "kc_users K realm \<lparr>up_email = None, up_first = Some (int (k * l)), up_max = Some (int l)\<rparr> w =
      (Inr (200, Some (take l (drop (k * l) all))), w1)"
    using assms(1) unfolding serves_users_def by blast
  ultimately have one: "fetch_pages K realm (int k) us w =
      (let page = take l (drop (k * l) all) in
       if page = [] then Some (us, w1)
       else let new = page_users page; w2 = fold (\<lambda>u w. cache_set K realm (us_email u) u w) new w1 in
            if length page < l then Some (us @ new, w2) else fetch_pages K realm (int (Suc k)) (us @ new) w2)"
    using assms(2) by (subst fetch_pages.simps) (simp add: Let_def)
  show ?case
  proof (cases "k * l + l \<le> length all")
    case True
    let ?page = "take l (drop (k * l) all)"
    have page: "length ?page = l" "?page \<noteq> []" using True assms(3) by auto
    have "length all + l - Suc k * l < length all + l - k * l" "Suc k * l \<le> length all + l"
      using True assms(3) by (simp_all add: algebra_simps)
    note IH = less.hyps [OF this]
    have users: "page_users (drop (k * l) all) = page_users ?page @ page_users (drop (Suc k * l) all)"
      by (metis append_take_drop_id drop_drop mult_Suc page_users_append)
    obtain w2 where "fetch_pages K realm (int k) us w = fetch_pages K realm (int (Suc k)) (us @ page_users ?page) w2"
      using one page by (simp add: Let_def)
    then show ?thesis using IH [of "us @ page_users ?page" w2] users by simp
  next
    case False
    then have "take l (drop (k * l) all) = drop (k * l) all" "length (drop (k * l) all) < l" using assms(3) by auto
    then show ?thesis using one by (auto simp: Let_def)
  qed
qed

text \<open>The loop ends and returns every user that has an identifier and an address.\<close>

lemma fetchAllUsers_all:
  assumes "serves_users K realm all" and "kc_page_size K = int l" and "1 \<le> l" and "int (length all + l) < 2 ^ 31"
  shows "\<exists>w'. fetchAllUsers K realm w = Some (page_users all, w')"
  using fetch_pages_rest [OF assms, of 0 "[]" w] by (simp add: fetchAllUsers_def)

text \<open>While every call fails the loop goes on.\<close>

lemma fetch_pages_returns:
  fixes K :: "'w keycloak"
  assumes ret: "fetch_pages K realm page us w = Some r"
  shows "\<not> fails_users K realm"
proof (rule fetch_pages.raw_induct [where P = "\<lambda>K realm page us w r. \<not> fails_users K realm", OF _ ret])
  fix f :: "'w keycloak \<Rightarrow> string \<Rightarrow> int \<Rightarrow> graph_user list \<Rightarrow> 'w \<Rightarrow> (graph_user list \<times> 'w) option"
    and K :: "'w keycloak" and realm page us w r
  let ?p = "\<lparr>up_email = None, up_first = Some (wrap32 (wrap64 (page * kc_page_size K))), up_max = Some (wrap32 (kc_page_size K))\<rparr>"
  assume IH: "\<And>(K :: 'w keycloak) realm page us w r. f K realm page us w = Some r \<Longrightarrow> \<not> fails_users K realm"
    and eq: "(case kc_users K realm ?p w of
        (Inl e, w1) \<Rightarrow> f K realm (wrap64 (page + 1)) us w1
      | (Inr (status, answer), w1) \<Rightarrow>
          if status \<noteq> 200 then f K realm (wrap64 (page + 1)) us w1
          else case answer of
            None \<Rightarrow> Some (us, w1)
          | Some vs \<Rightarrow>
              if vs = [] then Some (us, w1)
              else let new = page_users vs; w2 = fold (\<lambda>u w. cache_set K realm (us_email u) u w) new w1 in
                   if int (length vs) < kc_page_size K then Some (us @ new, w2)
                   else f K realm (wrap64 (page + 1)) (us @ new) w2) = Some r"
  show "\<not> fails_users K realm"
  proof
    assume fails: "fails_users K realm"
    then obtain q w1 where "kc_users K realm ?p w = (q, w1)" "case q of Inl e \<Rightarrow> True | Inr (status, us) \<Rightarrow> status \<noteq> 200"
      unfolding fails_users_def by blast
    then have "f K realm (wrap64 (page + 1)) us w1 = Some r" using eq by (cases q) (simp_all split: prod.splits)
    then show False using IH fails by blast
  qed
qed

lemma fetchAllUsers_loops: "fails_users K realm \<Longrightarrow> fetchAllUsers K realm w = None"
  using fetch_pages_returns [of K realm 0 "[]" w] by (cases "fetchAllUsers K realm w") (auto simp: fetchAllUsers_def)


subsection \<open>Tuples of roles\<close>

lemma role_tuple_eq [simp]: "role_tuple rctx cl u r = role_tuple rctx cl v q \<longleftrightarrow> u = v \<and> r = q"
  by (auto simp: role_tuple_def role_id_def)

lemma role_tuple_no_grant [simp]: "role_tuple rctx cl u r \<noteq> assign_role_tuple rctx cl q"
  by (simp add: role_tuple_def assign_role_tuple_def)

lemma role_tuple_granted:
  "role_tuple rctx cl u r \<in> all_grants rctx cl available chs \<longleftrightarrow>
     r \<in> set available \<and> (\<exists>ch \<in> set chs. ch_user ch = u \<and> r \<in> set (ch_roles ch))"
  by (auto simp: all_grants_def role_grants_def)

text \<open>The namespace of a resource is no part of the object of a role.\<close>

lemma role_tuple_ignores_namespace:
  "role_tuple (rctx\<lparr>rcx_namespace := ns\<rparr>) cl u r = role_tuple rctx cl u r"
  by (simp add: role_tuple_def role_id_def)

text \<open>The shapes of tuples that the authorization model takes for roles.\<close>

definition type_fits :: "string \<Rightarrow> bool" where
  "type_fits ty \<longleftrightarrow> CHR ''.'' \<notin> set ty \<and> length (''create_'' @ ty @ ''s'') \<le> max_relation"

definition role_typed :: "tuple \<Rightarrow> bool" where
  "role_typed t \<longleftrightarrow>
     (\<exists>i u. t = \<lparr>tp_object = ''role:'' @ i, tp_relation = ''assignee'', tp_user = ''user:'' @ u\<rparr>) \<or>
     (\<exists>ty i r j. type_fits ty \<and> t = \<lparr>tp_object = ty @ '':'' @ i, tp_relation = r, tp_user = ''role:'' @ j @ ''#assignee''\<rparr>)"

lemma capped_length: "length (capGroupSingularLength g k max_relation) \<le> 42"
  by (auto simp: capGroupSingularLength_def max_relation_def Let_def)

lemma to_lower_no_dot:
  assumes "CHR ''.'' \<notin> set s"
  shows "CHR ''.'' \<notin> set (to_lower s)"
proof
  assume "CHR ''.'' \<in> set (to_lower s)"
  then obtain c where c: "c \<in> set s" "CHR ''.'' = (let n = (of_char c :: nat) in if 65 \<le> n \<and> n \<le> 90 then char_of (n + 32) else c)"
    by (auto simp: to_lower_def)
  then have "65 \<le> (of_char c :: nat)" "(of_char c :: nat) \<le> 90" "CHR ''.'' = char_of ((of_char c :: nat) + 32)"
    using assms by (auto simp: Let_def split: if_splits)
  then have "(of_char (CHR ''.'') :: nat) = of_char (char_of ((of_char c :: nat) + 32) :: char)" by (simp only:)
  then have "(46 :: nat) = (of_char c + 32) mod 256" by simp
  then show False using \<open>65 \<le> (of_char c :: nat)\<close> \<open>(of_char c :: nat) \<le> 90\<close> by simp
qed

lemma trim_prefix_length: "length (trim_prefix s p) \<le> length s"
  by (simp add: trim_prefix_def)

lemma ConvertToTypeName_fits: "type_fits (ConvertToTypeName g k)"
proof -
  define t where "t = trim_prefix (capGroupSingularLength (if g = [] then ''core'' else g) k max_relation) ''_''"
  have n: "ConvertToTypeName g k = to_lower (replace_char (CHR ''.'') (CHR ''_'') t)"
    by (simp add: ConvertToTypeName_def t_def)
  have "CHR ''.'' \<notin> set (ConvertToTypeName g k)"
    unfolding n by (intro to_lower_no_dot replace_char_gone) simp
  moreover have "length (ConvertToTypeName g k) = length t" by (simp add: n to_lower_def)
  moreover have "length t \<le> 42"
    unfolding t_def by (rule order_trans [OF trim_prefix_length capped_length])
  ultimately show ?thesis by (simp add: type_fits_def max_relation_def)
qed

lemma all_grants_typed: "all_grants rctx cl available chs \<subseteq> {t. role_typed t}"
proof -
  have "role_typed (role_tuple rctx cl u r)" for u r by (auto simp: role_typed_def role_tuple_def)
  moreover have "role_typed (assign_role_tuple rctx cl r)" for r
    unfolding role_typed_def assign_role_tuple_def target_object_def using ConvertToTypeName_fits by fastforce
  ultimately show ?thesis by (auto simp: all_grants_def role_grants_def)
qed

text \<open>The rows of a page that was answered.\<close>

definition page_rows :: "user_connection go_result \<Rightarrow> user_roles list" where
  "page_rows r = (case r of Returned c \<Rightarrow> cn_users c | _ \<Rightarrow> [])"

end
