(* ===== verification/Iam_Example.thy ===== *)
theory Iam_Example
  imports Iam_Access
begin

text \<open>
  A small IAM service for closed instances: OpenFGA keeps a list of tuples per store, Keycloak serves pages of a
  fixed list, sorting is by insertion, and the directive's account is that of the organization \<^verbatim>\<open>acme\<close>.
\<close>

subsection \<open>Sorting by insertion\<close>

fun insert_by :: "('a \<Rightarrow> 'a \<Rightarrow> bool) \<Rightarrow> 'a \<Rightarrow> 'a list \<Rightarrow> 'a list" where
  "insert_by lt x [] = [x]"
| "insert_by lt x (y # ys) = (if lt y x then y # insert_by lt x ys else x # y # ys)"

definition insertion_sort :: "'a slice_sort" where
  "insertion_sort lt xs = foldr (insert_by lt) xs []"

lemma mset_insert_by [simp]: "mset (insert_by lt x ys) = add_mset x (mset ys)"
  by (induction ys) auto

lemma set_insert_by [simp]: "set (insert_by lt x ys) = insert x (set ys)"
  by (induction ys) auto

lemma sorted_insert_by:
  assumes "strict_weak lt"
  shows "sorted_wrt (\<lambda>a b. \<not> lt b a) ys \<Longrightarrow> sorted_wrt (\<lambda>a b. \<not> lt b a) (insert_by lt x ys)"
proof (induction ys)
  case (Cons y ys)
  have trans: "\<not> lt b a \<Longrightarrow> \<not> lt c b \<Longrightarrow> \<not> lt c a" for a b c using assms unfolding strict_weak_def by blast
  have asym: "lt a b \<Longrightarrow> \<not> lt b a" for a b using assms unfolding strict_weak_def by blast
  show ?case
  proof (cases "lt y x")
    case True
    then show ?thesis using Cons asym by simp
  next
    case False
    then show ?thesis using Cons.prems trans [of y x] by auto
  qed
qed simp

lemma insertion_sort_laws: "slice_sort_laws insertion_sort"
proof -
  have "mset (insertion_sort lt xs) = mset xs" for lt and xs :: "'a list"
    by (induction xs) (simp_all add: insertion_sort_def)
  moreover have "sorted_wrt (\<lambda>a b. \<not> lt b a) (insertion_sort lt xs)" if "strict_weak lt" for lt and xs :: "'a list"
    by (induction xs) (simp_all add: insertion_sort_def sorted_insert_by [OF that])
  ultimately show ?thesis by (simp add: slice_sort_laws_def)
qed

subsection \<open>OpenFGA\<close>

type_synonym small_iam_state = "string \<Rightarrow> tuple list"

definition small_iam_users :: "string \<Rightarrow> string \<Rightarrow> string \<Rightarrow> string \<Rightarrow> small_iam_state \<Rightarrow> (err + fga_user list) \<times> small_iam_state" where
  "small_iam_users s ty i r w =
     (Inr (map (\<lambda>t. UserObject (drop 5 (tp_user t)))
        (filter (\<lambda>t. tp_object t = ty @ '':'' @ i \<and> tp_relation t = r \<and> take 5 (tp_user t) = ''user:'') (w s))), w)"

definition small_iam_write :: "string \<Rightarrow> tuple list \<Rightarrow> tuple list \<Rightarrow> small_iam_state \<Rightarrow> err option \<times> small_iam_state" where
  "small_iam_write s ws ds w =
     (if list_ex (\<lambda>t. t \<in> set (w s)) ws then (Some (errorf ''exists''), w)
      else (None, w(s := filter (\<lambda>t. t \<notin> set ds) (w s) @ ws)))"

definition small_iam :: "small_iam_state iam_fga" where
  "small_iam =
     \<lparr>if_stores = (\<lambda>w. (Inr [(''acme'', ''st'')], w)), if_models = (\<lambda>s w. (Inr [''m''], w)), if_users = small_iam_users,
      if_read = (\<lambda>s t w. (Inr (filter (\<lambda>u. u = t) (w s)), w)), if_write = small_iam_write,
      if_check = (\<lambda>s t ts w. (Inr (t \<in> set (w s)), w)), if_invalid_input = (\<lambda>e. True)\<rparr>"

definition small_iam_tuples :: "small_iam_state tuple_view" where
  "small_iam_tuples s w = set (w s)"

definition no_store_cache :: "small_iam_state store_cache" where
  "no_store_cache = \<lparr>sk_get = (\<lambda>k w. None), sk_add = (\<lambda>k v w. w)\<rparr>"

definition small_defs :: "iam_role list" where
  "small_defs =
     [\<lparr>rd_id = ''owner'', rd_display = ''Owner'', rd_description = []\<rparr>,
      \<lparr>rd_id = ''member'', rd_display = ''Member'', rd_description = []\<rparr>]"

definition small_roles :: "small_iam_state role_service" where
  "small_roles =
     \<lparr>fs_fga = small_iam, fs_cache = no_store_cache, fs_roles = (\<lambda>r w. Inr small_defs), fs_arrive = id, fs_order = id,
      fs_user_by_mail = (\<lambda>c m w. (Returned (Some \<lparr>us_id = m, us_email = m, us_first = None, us_last = None\<rparr>), w)),
      fs_workspace = (\<lambda>p w. (Inl (errorf p), w)), fs_parse_address = (\<lambda>m. None), fs_sha1 = id\<rparr>"

lemma small_iam_writes: "iam_writes small_iam small_iam_tuples"
  by (auto simp: iam_writes_def small_iam_def small_iam_write_def small_iam_tuples_def split: if_splits)

lemma prefixed: "take 5 s = ''user:'' \<and> drop 5 s = u \<longleftrightarrow> s = ''user:'' @ u"
proof
  assume "take 5 s = ''user:'' \<and> drop 5 s = u"
  then show "s = ''user:'' @ u" using append_take_drop_id [of 5 s] by simp
qed simp

lemma small_users_iff:
  "UserObject u \<in> set (map (\<lambda>t. UserObject (drop 5 (tp_user t)))
     (filter (\<lambda>t. tp_object t = x \<and> tp_relation t = r \<and> take 5 (tp_user t) = ''user:'') ts)) \<longleftrightarrow>
   \<lparr>tp_object = x, tp_relation = r, tp_user = ''user:'' @ u\<rparr> \<in> set ts"
proof (induction ts)
  case (Cons t ts)
  have "tp_object t = x \<and> tp_relation t = r \<and> take 5 (tp_user t) = ''user:'' \<and> drop 5 (tp_user t) = u \<longleftrightarrow>
      t = \<lparr>tp_object = x, tp_relation = r, tp_user = ''user:'' @ u\<rparr>"
    unfolding prefixed by (cases t) auto
  then show ?case using Cons.IH by (auto simp del: append.simps)
qed simp

lemma small_iam_reads: "iam_reads small_iam small_iam_tuples"
  unfolding iam_reads_def
proof (intro conjI allI impI)
  fix s t w ts w'
  assume "if_read small_iam s t w = (Inr ts, w')"
  then show "(ts \<noteq> []) = (t \<in> small_iam_tuples s w)"
    by (auto simp: small_iam_def small_iam_tuples_def filter_empty_conv)
next
  fix s ty i r w us w' u
  assume u: "if_users small_iam s ty i r w = (Inr us, w')"
  have "us = map (\<lambda>t. UserObject (drop 5 (tp_user t)))
      (filter (\<lambda>t. tp_object t = ty @ '':'' @ i \<and> tp_relation t = r \<and> take 5 (tp_user t) = ''user:'') (w s))"
    using u unfolding small_iam_def small_iam_users_def iam_fga.simps prod.inject sum.inject by (rule conjunct1 [THEN sym])
  then show "(UserObject u \<in> set us) = (\<lparr>tp_object = ty @ '':'' @ i, tp_relation = r, tp_user = ''user:'' @ u\<rparr> \<in> small_iam_tuples s w)"
    unfolding small_iam_tuples_def by (simp only: small_users_iff)
qed

lemma small_iam_keeps: "iam_keeps small_roles small_iam_tuples"
  by (simp add: iam_keeps_def keeps_def small_roles_def small_iam_def small_iam_users_def no_store_cache_def)

lemma small_steady: "steady small_roles rctx small_defs"
  by (simp add: steady_def small_roles_def)

lemma small_order_laws: "order_laws small_roles"
  by (simp add: order_laws_def small_roles_def)

lemma small_roles_fga [simp]: "fs_fga small_roles = small_iam" "fs_cache small_roles = no_store_cache"
  by (simp_all add: small_roles_def)

subsection \<open>Keycloak and the directive\<close>

definition small_directory :: "keycloak_user list" where
  "small_directory =
     map (\<lambda>m. \<lparr>ku_id = Some m, ku_email = Some m, ku_first = None, ku_last = None\<rparr>) [''ann'', ''bob'', ''eve'']"

definition small_keycloak :: "small_iam_state keycloak" where
  "small_keycloak =
     \<lparr>kc_users = (\<lambda>realm p w. (Inr (200, Some (take (nat (the (up_max p))) (drop (nat (the (up_first p))) small_directory))), w)),
      kc_cache = None, kc_page_size = 2, kc_arrive = id\<rparr>"

lemma small_serves: "serves_users small_keycloak realm small_directory"
  by (simp add: serves_users_def small_keycloak_def)

definition small_resource :: resource_context where
  "small_resource = \<lparr>rcx_group = ''apps'', rcx_kind = ''Shop'', rcx_name = ''x'', rcx_namespace = None, rcx_path = ''root''\<rparr>"

definition small_location :: "string \<Rightarrow> account_location" where
  "small_location n = \<lparr>al_name = n, al_generated = ''c1'', al_origin = ''c0'', al_path = ''root'', al_type = ''account''\<rparr>"

definition small_directive :: "small_iam_state directive" where
  "small_directive =
     \<lparr>dv_fga = small_iam, dv_cache = no_store_cache,
      dv_account = (\<lambda>p w. (Inr \<lparr>ai_account = small_location ''shop'', ai_parent = None, ai_organization = small_location ''acme''\<rparr>, w)),
      dv_client = (\<lambda>p w. (Inr \<lparr>wl_resource_for = (\<lambda>g k w. Inr k), wl_kind_for = (\<lambda>k w. Inr k), wl_get = (\<lambda>g ns n w. (None, w))\<rparr>, w))\<rparr>"

lemma small_directive_keeps: "directive_keeps small_directive small_iam_tuples"
  by (auto simp: directive_keeps_def keeps_def small_directive_def small_iam_def no_store_cache_def)

definition small_caller :: iam_ctx where
  "small_caller =
     \<lparr>ix_kcp = Some \<lparr>kx_tenant = ''acme'', kx_org = ''acme''\<rparr>, ix_cluster = None,
      ix_token = Some \<lparr>it_subject = ''s'', it_mail = ''ann'', it_first = [], it_last = [], it_issuer = []\<rparr>\<rparr>"

definition small_resolver :: "small_iam_state resolver" where
  "small_resolver =
     NewResolverService small_roles small_keycloak
       \<lparr>ic_limit = 10, ic_page = 1, ic_sort_field = ''email'', ic_sort_direction = ''asc'', ic_claim = ''email''\<rparr>
       insertion_sort insertion_sort"

text \<open>Ann may manage the roles of the resource.\<close>

definition small_granted :: small_iam_state where
  "small_granted s = (if s = ''st'' then
     [\<lparr>tp_object = target_object small_resource ''c1'', tp_relation = ''manage_iam_roles'', tp_user = ''user:ann''\<rparr>] else [])"


lemma small_resource_simps [simp]:
  "\<not> is_account small_resource" "rcx_namespace small_resource = None" "workspace_path small_resource = ''root''"
  by (simp_all add: is_account_def small_resource_def workspace_path_def)

lemma small_authorized:
  "Authorized small_directive small_caller (Inr small_resource) ''manage_iam_roles'' h small_granted =
     h (SetClusterId small_caller ''c1'') small_granted"
  by (simp add: Authorized_def small_directive_def small_caller_def GetKCPContext_def small_location_def
      testIfResourceExists_def testIfAllowed_def GetStoreID_def no_store_cache_def small_iam_def Let_def account_cluster_def
      small_granted_def)

text \<open>Bob becomes a member.\<close>

definition small_changes :: "role_change list" where
  "small_changes = [\<lparr>ch_user = ''bob'', ch_roles = [''member'']\<rparr>]"

definition small_assigned :: small_iam_state where
  "small_assigned = small_granted(''st'' := small_granted ''st'' @
     [role_tuple small_resource ''c1'' ''bob'' ''member'', assign_role_tuple small_resource ''c1'' ''member''])"

lemma small_resolver_roles: "iam_writes (fs_fga (rv_roles small_resolver)) small_iam_tuples"
    "iam_keeps (rv_roles small_resolver) small_iam_tuples" "steady (rv_roles small_resolver) rctx small_defs"
proof -
  have "keeps small_iam_tuples (UserByMail small_keycloak c m)" for c m
    by (auto simp: keeps_def UserByMail_def GetKCPContext_def cache_get_def cache_set_def fetchUserFromKeycloak_def small_keycloak_def
        split: option.splits list.splits)
  then show "iam_keeps (rv_roles small_resolver) small_iam_tuples"
    using small_iam_keeps by (simp add: iam_keeps_def small_resolver_def NewResolverService_def)
qed (simp_all add: small_resolver_def NewResolverService_def small_iam_writes steady_def small_roles_def)

lemma assign_small:
  assumes "ix_cluster c = Some ''c1''" and "ix_kcp c = ix_kcp small_caller"
    and "role_tuple small_resource ''c1'' ''bob'' ''member'' \<notin> set (w ''st'')"
    and "assign_role_tuple small_resource ''c1'' ''member'' \<notin> set (w ''st'')"
  shows "AssignRolesToUsers small_roles c small_resource small_changes [] w
     = (Returned \<lparr>ra_success = True, ra_errors = [], ra_count = 2\<rparr>, w(''st'' := w ''st'' @
         [role_tuple small_resource ''c1'' ''bob'' ''member'', assign_role_tuple small_resource ''c1'' ''member'']))"
  using assms
  by (simp add: AssignRolesToUsers_def GetClusterId_def GetKCPContext_def GetStoreID_def small_roles_def no_store_cache_def
      small_iam_def assign_change_def small_defs_def GetAvailableRoleIDs_def containsString_def assignRoleToUser_def
      small_caller_def small_changes_def)
    (simp add: small_iam_write_def role_tuple_no_grant [symmetric])

lemma small_AssignRolesToUsers:
  "ix_cluster c = Some ''c1'' \<Longrightarrow> ix_kcp c = ix_kcp small_caller \<Longrightarrow>
   AssignRolesToUsers small_roles c small_resource small_changes [] small_granted
     = (Returned \<lparr>ra_success = True, ra_errors = [], ra_count = 2\<rparr>, small_assigned)"
  unfolding small_assigned_def
  by (rule assign_small) (simp_all add: small_granted_def role_tuple_def assign_role_tuple_def)

lemma small_assign:
  "field_assign small_directive small_resolver small_caller small_resource small_changes [] small_granted
   = (Returned \<lparr>ra_success = True, ra_errors = [], ra_count = 2\<rparr>, small_assigned)"
  unfolding field_assign_def small_authorized
  by (simp add: small_resolver_def NewResolverService_def AssignRolesToUsers_def GetClusterId_def GetKCPContext_def
      GetStoreID_def small_roles_def no_store_cache_def small_iam_def assign_change_def small_defs_def
      GetAvailableRoleIDs_def containsString_def assignRoleToUser_def small_caller_def small_changes_def)
    (simp add: small_iam_write_def small_assigned_def small_granted_def role_tuple_def assign_role_tuple_def)

definition small_member :: iam_ctx where
  "small_member = SetClusterId small_caller ''c1''"

lemma small_member_simps [simp]: "ix_cluster small_member = Some ''c1''" "ix_kcp small_member = ix_kcp small_caller"
  by (simp_all add: small_member_def)

lemma small_member_kcp: "ix_kcp small_member = Some \<lparr>kx_tenant = ''acme'', kx_org = ''acme''\<rparr>"
  by (simp add: small_caller_def)

lemma small_role_user: "small_assigned s = (if s = ''st'' then
    [\<lparr>tp_object = target_object small_resource ''c1'', tp_relation = ''manage_iam_roles'', tp_user = ''user:ann''\<rparr>,
     role_tuple small_resource ''c1'' ''bob'' ''member'', assign_role_tuple small_resource ''c1'' ''member''] else [])"
  by (simp add: small_assigned_def small_granted_def)

definition small_listed :: "user_roles list" where
  "small_listed = [\<lparr>ur_user = \<lparr>us_id = [], us_email = ''bob'', us_first = None, us_last = None\<rparr>,
     ur_roles = [\<lparr>gr_id = ''member'', gr_display = ''Member'', gr_description = []\<rparr>]\<rparr>]"

lemma small_list:
  "ListUsers small_roles small_member small_resource [] small_assigned = (Returned small_listed, small_assigned)"
  by (simp add: ListUsers_def GetKCPContext_def GetStoreID_def small_roles_def no_store_cache_def small_iam_def small_caller_def
      applyRoleFilter_def small_defs_def GetAvailableRoleIDs_def listUsersParallel_def GetClusterId_def)
    (simp add: small_iam_users_def small_role_user role_tuple_def assign_role_tuple_def role_id_def convertToGraphUserRoles_def
      small_listed_def List.map_filter_def role_of_definition_def)

lemma small_removal:
  "RemoveRole small_roles small_member small_resource ''bob'' ''member'' small_assigned =
   (Inr (removal True None True), small_assigned(''st'' := small_granted ''st'' @ [assign_role_tuple small_resource ''c1'' ''member'']))"
  by (simp add: RemoveRole_def GetKCPContext_def GetStoreID_def small_roles_def no_store_cache_def small_iam_def small_caller_def
      small_defs_def GetAvailableRoleIDs_def GetClusterId_def containsString_def small_role_user)
    (simp add: small_iam_write_def small_role_user small_granted_def role_tuple_def assign_role_tuple_def)

lemma small_iam_store: "fst (GetStoreID no_store_cache small_iam ''acme'' w) = Inr ''st''"
  by (simp add: GetStoreID_def no_store_cache_def small_iam_def)


subsection \<open>Roles and rows\<close>

definition small_permissions :: permissions where
  "small_permissions = [\<lparr>gp_resource = ''shop.apps'', gp_roles = take 1 small_defs\<rparr>]"

definition new_permissions :: permissions where
  "new_permissions = [\<lparr>gp_resource = ''shop.apps'', gp_roles = small_defs\<rparr>]"

lemma small_permissions_history:
  "permissions_history [{#new_permissions#}, {#small_permissions#}, {#}]
     ({#new_permissions#}, handleUpdate small_permissions new_permissions (handleAdd small_permissions Map.empty))"
  using permissions_history.event [OF permissions_history.event [OF permissions_history.start permissions_step.added]
      permissions_step.updated, of small_permissions small_permissions new_permissions]
  by simp

definition small_rows :: "user_roles list" where
  "small_rows = map (\<lambda>u. \<lparr>ur_user = u, ur_roles = []\<rparr>) (page_users small_directory)"

end
