(* ===== verification/Iam_Props.thy ===== *)
theory Iam_Props
  imports Iam_Example
begin

text \<open>The properties of the IAM service, with their witnesses on the installation of \<open>Iam_Example\<close>.\<close>

subsection \<open>Permission\<close>

text \<open>
  C24. Role tuples change only with permission. If assigning or removing a role through its field changes the
  tuples of any store, then OpenFGA allowed \<^verbatim>\<open>manage_iam_roles\<close> on the resource for the address in the
  caller's token, in the store of the organization of the request.
\<close>
theorem changes_need_permission:
  assumes "directive_keeps D T" and "T s w' \<noteq> T s w"
    and "w' = snd (field_assign D R c rctx changes invites w) \<or> w' = snd (field_remove D R c rctx user role w)"
  shows "\<exists>ai v. check_granted D c rctx ''manage_iam_roles'' ai v"
  using assms(3,2) unfolding field_assign_def field_remove_def
  by (elim disjE; simp only:) (erule Authorized_changes [OF assms(1)])+

theorem changes_need_permission_witness:
  "\<exists>ai v. check_granted small_directive small_caller small_resource ''manage_iam_roles'' ai v"
proof (rule changes_need_permission [OF small_directive_keeps])
  let ?w = "snd (field_assign small_directive small_resolver small_caller small_resource small_changes [] small_granted)"
  show "small_iam_tuples ''st'' ?w \<noteq> small_iam_tuples ''st'' small_granted"
    unfolding small_assign by (simp add: small_iam_tuples_def small_assigned_def small_granted_def role_tuple_def)
  show "?w = ?w \<or> ?w = snd (field_remove small_directive small_resolver small_caller small_resource [] [] small_granted)" by simp
qed

text \<open>
  C25. Assigning roles through its field is exact: the permission was granted, only the store of the caller's
  organization changes, it loses nothing and gains at most the tuples of the requested roles that are available,
  and if no error is reported it holds all of them.
\<close>
theorem assign_grants_exactly:
  assumes "directive_keeps D T" and "iam_writes (fs_fga (rv_roles R)) T" and "iam_keeps (rv_roles R) T"
    and "steady (rv_roles R) rctx defs" and "field_assign D R c rctx changes invites w = (Returned r, w')"
  shows "\<exists>ai v k store. check_granted D c rctx ''manage_iam_roles'' ai v \<and> ix_kcp c = Some k \<and>
    fst (GetStoreID (fs_cache (rv_roles R)) (fs_fga (rv_roles R)) (kx_org k) v) = Inr store \<and>
    grew T store (all_grants rctx (account_cluster rctx ai) (GetAvailableRoleIDs defs) (invites @ changes)) w [] w' (ra_errors r) \<and>
    ra_success r = (ra_errors r = [])"
proof -
  obtain ai v where v: "check_granted D c rctx ''manage_iam_roles'' ai v"
      "AssignRolesToUsers (rv_roles R) (SetClusterId c (account_cluster rctx ai)) rctx changes invites v = (Returned r, w')"
    and k: "\<And>s. T s v = T s w"
    using Authorized_returned [OF assms(1) assms(5) [unfolded field_assign_def]] by metis
  obtain cl kx store v1 where g: "ix_cluster (SetClusterId c (account_cluster rctx ai)) = Some cl"
      "ix_kcp (SetClusterId c (account_cluster rctx ai)) = Some kx"
      "GetStoreID (fs_cache (rv_roles R)) (fs_fga (rv_roles R)) (kx_org kx) v = (Inr store, v1)"
      "grew T store (all_grants rctx cl (GetAvailableRoleIDs defs) (invites @ changes)) v [] w' (ra_errors r)"
      "ra_success r = (ra_errors r = [])"
    by (rule AssignRolesToUsers_grows [OF assms(2,4,3) v(2)]) blast
  have "grew T store (all_grants rctx cl (GetAvailableRoleIDs defs) (invites @ changes)) w [] w' (ra_errors r)"
    using grew_kept [OF k g(4)] .
  then show ?thesis using v(1) g(1-3,5) by (intro exI [of _ ai] exI [of _ v] exI [of _ kx] exI [of _ store]) simp
qed

theorem assign_grants_exactly_witness:
  "\<exists>ai v k store. check_granted small_directive small_caller small_resource ''manage_iam_roles'' ai v \<and> ix_kcp small_caller = Some k \<and>
    fst (GetStoreID (fs_cache (rv_roles small_resolver)) (fs_fga (rv_roles small_resolver)) (kx_org k) v) = Inr store \<and>
    grew small_iam_tuples store
      (all_grants small_resource (account_cluster small_resource ai) (GetAvailableRoleIDs small_defs) ([] @ small_changes))
      small_granted [] small_assigned [] \<and> True = ([] = ([] :: string list))"
  using assign_grants_exactly [OF small_directive_keeps small_resolver_roles small_assign]
  by (simp only: role_assignment.simps)

text \<open>
  C26. What was assigned is listed: after a successful assignment, the list of the users of the resource shows a
  user with a role exactly if the role is available and was just assigned to the user or had been before; a user
  is listed once.
\<close>
theorem assigned_roles_listed:
  assumes "iam_writes (fs_fga S) T" and "iam_reads (fs_fga S) T" and "iam_keeps S T" and "order_laws S" and "steady S rctx defs"
    and "\<forall>w. fst (GetStoreID (fs_cache S) (fs_fga S) (kx_org k) w) = Inr store"
    and "ix_cluster c = Some cl" and "ix_kcp c = Some k"
    and "AssignRolesToUsers S c rctx changes invites w = (Returned r, w')" and "ra_success r"
    and "ListUsers S c rctx [] w' = (Returned us, w'')"
  shows "((u, role) \<in> shown_roles us) = (role \<in> set (GetAvailableRoleIDs defs) \<and>
      (role_tuple rctx cl u role \<in> T store w \<or> (\<exists>ch \<in> set (invites @ changes). ch_user ch = u \<and> role \<in> set (ch_roles ch)))) \<and>
    distinct (map (\<lambda>x. us_email (ur_user x)) us)"
proof -
  obtain w1 w2 where id: "GetStoreID (fs_cache S) (fs_fga S) (kx_org k) w = (Inr store, w1)"
      "GetStoreID (fs_cache S) (fs_fga S) (kx_org k) w' = (Inr store, w2)"
    using assms(6) by (metis prod.collapse)
  obtain cl' kx store' w3 where g: "ix_cluster c = Some cl'" "ix_kcp c = Some kx"
      "GetStoreID (fs_cache S) (fs_fga S) (kx_org kx) w = (Inr store', w3)"
      "grew T store' (all_grants rctx cl' (GetAvailableRoleIDs defs) (invites @ changes)) w [] w' (ra_errors r)"
      "ra_success r = (ra_errors r = [])"
    by (rule AssignRolesToUsers_grows [OF assms(1,5,3,9)]) blast
  then have "T store w' = T store w \<union> all_grants rctx cl (GetAvailableRoleIDs defs) (invites @ changes)"
    using assms(7,8,10) id(1) unfolding grew_def by auto
  moreover have "((u, role) \<in> shown_roles us) = (role \<in> listed_roles defs [] \<and> role_tuple rctx cl u role \<in> T store w')"
    and "distinct (map (\<lambda>x. us_email (ur_user x)) us)"
    by (rule ListUsers_shows [OF assms(2,3,4,5,11,7,8) id(2)])+
  ultimately show ?thesis
    using role_tuple_granted [of rctx cl u role "GetAvailableRoleIDs defs" "invites @ changes"]
    by (auto simp: listed_roles_def)
qed

theorem assigned_roles_listed_witness:
  "((''bob'', ''member'') \<in> shown_roles small_listed) =
   (''member'' \<in> set (GetAvailableRoleIDs small_defs) \<and>
      (role_tuple small_resource ''c1'' ''bob'' ''member'' \<in> small_iam_tuples ''st'' small_granted \<or>
       (\<exists>ch \<in> set ([] @ small_changes). ch_user ch = ''bob'' \<and> ''member'' \<in> set (ch_roles ch)))) \<and>
   distinct (map (\<lambda>x. us_email (ur_user x)) small_listed)"
  by (rule assigned_roles_listed [OF _ _ small_iam_keeps small_order_laws small_steady _ small_member_simps(1) small_member_kcp
        small_AssignRolesToUsers [OF small_member_simps] _ small_list])
    (simp_all only: small_roles_fga small_iam_writes small_iam_reads small_iam_store kcp_context.simps role_assignment.simps simp_thms)

text \<open>
  Removing a role takes away exactly the membership of that user in that role, in the store of the caller's
  organization, and only if it reports success; it reports whether the user had the role.
\<close>
theorem removal_exact:
  assumes "iam_writes (fs_fga S) T" and "iam_reads (fs_fga S) T" and "iam_keeps S T" and "steady S rctx defs"
    and "RemoveRole S c rctx user role w = (Inr r, w')"
  shows "\<exists>cl k store. ix_cluster c = Some cl \<and> ix_kcp c = Some k \<and>
    fst (GetStoreID (fs_cache S) (fs_fga S) (kx_org k) w) = Inr store \<and>
    (\<forall>s. T s w' = (if s = store \<and> rr_success r then T s w - {role_tuple rctx cl user role} else T s w)) \<and>
    (if rr_success r then role \<in> set (GetAvailableRoleIDs defs) \<and> rr_assigned r = (role_tuple rctx cl user role \<in> T store w) else True)"
proof -
  obtain cl k store w1 where r: "ix_cluster c = Some cl" "ix_kcp c = Some k"
      "GetStoreID (fs_cache S) (fs_fga S) (kx_org k) w = (Inr store, w1)"
      "T store w' = (if rr_success r then T store w - {role_tuple rctx cl user role} else T store w)"
      "\<And>s. s \<noteq> store \<Longrightarrow> T s w' = T s w"
      "rr_success r \<Longrightarrow> role \<in> set (GetAvailableRoleIDs defs) \<and> rr_assigned r = (role_tuple rctx cl user role \<in> T store w)"
    by (rule RemoveRole_removes [OF assms]) blast
  have tuples: "T s w' = (if s = store \<and> rr_success r then T s w - {role_tuple rctx cl user role} else T s w)" for s
    by (cases "s = store") (simp_all add: r(4,5))
  show ?thesis
    by (rule exI [of _ cl], rule exI [of _ k], rule exI [of _ store]) (simp add: r(1-3,6) tuples)
qed

theorem removal_exact_witness:
  "\<exists>cl k store. ix_cluster small_member = Some cl \<and> ix_kcp small_member = Some k \<and>
    fst (GetStoreID (fs_cache small_roles) (fs_fga small_roles) (kx_org k) small_assigned) = Inr store \<and>
    (\<forall>s. small_iam_tuples s (small_assigned(''st'' := small_granted ''st'' @ [assign_role_tuple small_resource ''c1'' ''member''])) =
      (if s = store \<and> rr_success (removal True None True)
       then small_iam_tuples s small_assigned - {role_tuple small_resource cl ''bob'' ''member''} else small_iam_tuples s small_assigned)) \<and>
    (if rr_success (removal True None True)
     then ''member'' \<in> set (GetAvailableRoleIDs small_defs) \<and>
       rr_assigned (removal True None True) = (role_tuple small_resource cl ''bob'' ''member'' \<in> small_iam_tuples store small_assigned) else True)"
  by (rule removal_exact [OF _ _ small_iam_keeps small_steady small_removal]) (simp_all add: small_iam_writes small_iam_reads)


subsection \<open>Types\<close>

text \<open>
  C27. The role tuples stay well typed for the authorization model: if those of a store are memberships of users in
  roles and relations of roles to objects of a type that OpenFGA takes (no dot, short enough for its longest
  relation), they are so after every assignment that answers and every removal.
\<close>
theorem role_tuples_well_typed:
  assumes "iam_writes (fs_fga S) T" and "iam_reads (fs_fga S) T" and "iam_keeps S T" and "steady S rctx defs"
    and "T s w \<subseteq> {t. role_typed t}"
    and "AssignRolesToUsers S c rctx changes invites w = (Returned r, w') \<or> RemoveRole S c rctx user role w = (Inr r', w')"
  shows "T s w' \<subseteq> {t. role_typed t}"
  using assms(6)
proof
  assume a: "AssignRolesToUsers S c rctx changes invites w = (Returned r, w')"
  obtain cl k store w1 where g: "ix_cluster c = Some cl" "ix_kcp c = Some k"
      "GetStoreID (fs_cache S) (fs_fga S) (kx_org k) w = (Inr store, w1)"
      "grew T store (all_grants rctx cl (GetAvailableRoleIDs defs) (invites @ changes)) w [] w' (ra_errors r)"
      "ra_success r = (ra_errors r = [])"
    by (rule AssignRolesToUsers_grows [OF assms(1,4,3) a]) blast
  have "T s w' \<subseteq> T s w \<union> all_grants rctx cl (GetAvailableRoleIDs defs) (invites @ changes)"
    using g(4) unfolding grew_def by (cases "s = store") auto
  then show ?thesis using assms(5) all_grants_typed by blast
next
  assume a: "RemoveRole S c rctx user role w = (Inr r', w')"
  obtain cl k store w1 where d: "ix_cluster c = Some cl" "ix_kcp c = Some k"
      "T store w' = (if rr_success r' then T store w - {role_tuple rctx cl user role} else T store w)"
      "\<And>s. s \<noteq> store \<Longrightarrow> T s w' = T s w"
    by (rule RemoveRole_removes [OF assms(1-4) a]) blast
  have "T s w' \<subseteq> T s w" using d(3,4) by (cases "s = store") auto
  then show ?thesis using assms(5) by blast
qed

theorem role_tuples_well_typed_witness:
  "small_iam_tuples ''st'' ((\<lambda>s. [])(''st'' := [] @
     [role_tuple small_resource ''c1'' ''bob'' ''member'', assign_role_tuple small_resource ''c1'' ''member''])) \<subseteq> {t. role_typed t}"
  by (rule role_tuples_well_typed [OF _ _ small_iam_keeps small_steady _
        disjI1 [OF assign_small [OF small_member_simps, where w = "\<lambda>s. []"]]])
    (simp_all add: small_iam_writes small_iam_reads small_iam_tuples_def)

subsection \<open>Roles, pages and users\<close>

text \<open>
  C28. Through any sequence of informer events, the roles offered for a resource are among those that the
  existing ProviderPermissions define for it, none more often than they define it; and a role identifier that at no
  time of the run two objects defined for the resource is offered as often, and with the same names, as the
  existing objects define it. The events are those that carry their object: a tombstone is ignored.
  When two objects share an identifier, the deletion of one takes the other's role away too
  (\<open>shared_role_lost\<close>).
\<close>
theorem offered_roles_match_objects:
  assumes "permissions_history Ms (M, c)"
  shows "\<exists>ds. provider_roles c rctx = Inr ds \<and>
    mset ds \<subseteq># defined_roles (buildGroupKindKey (rcx_group rctx) (rcx_kind rctx)) M \<and>
    (\<forall>i. (\<forall>N \<in> set Ms. exclusive_role (buildGroupKindKey (rcx_group rctx) (rcx_kind rctx)) i N) \<longrightarrow>
       with_id i (mset ds) = with_id i (defined_roles (buildGroupKindKey (rcx_group rctx) (rcx_kind rctx)) M))"
  using history_offers [OF assms] by (simp add: provider_roles_def offers_defined_def)

theorem offered_roles_match_objects_witness:
  "\<exists>ds. provider_roles (handleUpdate small_permissions new_permissions (handleAdd small_permissions Map.empty))
      small_resource = Inr ds \<and>
    with_id ''member'' (mset ds) =
      with_id ''member'' (defined_roles (buildGroupKindKey (rcx_group small_resource) (rcx_kind small_resource)) {#new_permissions#})"
proof -
  have "\<forall>N \<in> set [{#new_permissions#}, {#small_permissions#}, {#}]. exclusive_role k i N" for k i
    by (simp add: exclusive_role_def)
  then show ?thesis using offered_roles_match_objects [OF small_permissions_history, of small_resource] by blast
qed

text \<open>
  C29. The pages of the users partition them: the pages from 1 on, one after the other, are the users in the order of the
  request, each exactly once with the identifier that is shown; no page within the range of a machine integer
  panics.
\<close>
theorem user_pages_partition:
  assumes "slice_sort_laws (rv_sort_roles R)" and "1 \<le> l" and "int m * l < 2 ^ 63" and "length us \<le> m * nat l"
  shows "\<exists>vs. mset vs = mset us \<and> sorted_wrt (\<lambda>a b. \<not> user_less (rv_sorter R) how (ur_user b) (ur_user a)) vs \<and>
    concat (map (\<lambda>k. page_rows (users_page R us how (page_of l k) n)) [1..int m])
      = map (\<lambda>r. r\<lparr>ur_user := Transform (rv_claim R) (ur_user r)\<rparr>) vs \<and>
    Panicked \<notin> (\<lambda>k. users_page R us how (page_of l k) n) ` {1..int m}"
proof -
  let ?vs = "SortUserRoles (rv_sort_roles R) (rv_sorter R) us how"
  let ?all = "map (\<lambda>r. r\<lparr>ur_user := Transform (rv_claim R) (ur_user r)\<rparr>) ?vs"
  have page: "page_rows (users_page R us how (page_of l k) n) = page_window l k ?all"
      "users_page R us how (page_of l k) n \<noteq> Panicked" if "1 \<le> k" "k \<le> int m" for k
  proof -
    have kl: "k * l < 2 ^ 63" using assms(2,3) that mult_right_mono [of k "int m" l] by linarith
    show "page_rows (users_page R us how (page_of l k) n) = page_window l k ?all"
      "users_page R us how (page_of l k) n \<noteq> Panicked"
      unfolding page_rows_def users_page_window [OF assms(2) that(1) kl] Let_def by simp_all
  qed
  have rows: "map (\<lambda>k. page_rows (users_page R us how (page_of l k) n)) [1..int m] = map (\<lambda>k. page_window l k ?all) [1..int m]"
    using page(1) by simp
  have len: "length ?all = length us" using mset_eq_length [OF SortUserRoles_sorted(1) [OF assms(1)]] by simp
  have all: "concat (map (\<lambda>k. page_rows (users_page R us how (page_of l k) n)) [1..int m]) = ?all"
    unfolding rows page_windows_take [OF assms(2)] using assms(4) len by simp
  have "Panicked \<notin> (\<lambda>k. users_page R us how (page_of l k) n) ` {1..int m}" using page(2) by fastforce
  then show ?thesis using all SortUserRoles_sorted [OF assms(1)] by blast
qed

theorem user_pages_partition_witness:
  "\<exists>vs. mset vs = mset small_rows \<and>
    sorted_wrt (\<lambda>a b. \<not> user_less (rv_sorter small_resolver) None (ur_user b) (ur_user a)) vs \<and>
    concat (map (\<lambda>k. page_rows (users_page small_resolver small_rows None (page_of 2 k) 0)) [1..int 2])
      = map (\<lambda>r. r\<lparr>ur_user := Transform (rv_claim small_resolver) (ur_user r)\<rparr>) vs \<and>
    Panicked \<notin> (\<lambda>k. users_page small_resolver small_rows None (page_of 2 k) 0) ` {1..int 2}"
  by (rule user_pages_partition) (simp_all add: small_resolver_def NewResolverService_def insertion_sort_laws small_rows_def small_directory_def)


text \<open>
  C30. Fetching the users of a realm ends, and answers every user that has an identifier and an address in the
  order of Keycloak, when its pages answer and hold fewer users than a signed 32-bit offset reaches.
\<close>
theorem known_users_complete:
  assumes "ix_kcp c = Some k" and "serves_users K (kx_tenant k) all" and "kc_page_size K = int l" and "1 \<le> l"
    and "int (length all + l) < 2 ^ 31"
  shows "\<exists>w'. GetUsers K c w = Some (Inr (page_users all), w')"
  using fetchAllUsers_all [OF assms(2-5), of w] assms(1) by (auto simp: GetUsers_def GetKCPContext_def)

theorem known_users_complete_witness:
  "\<exists>w'. GetUsers small_keycloak small_caller small_granted = Some (Inr (page_users small_directory), w')"
  by (rule known_users_complete [OF _ small_serves, where l = 2])
    (simp_all add: small_caller_def small_keycloak_def small_directory_def)

end
