(* ===== verification/Rate_Limiter.thy ===== *)
theory Rate_Limiter
  imports Objects
begin

text \<open>
  The rate limiter of the controllers (\<^verbatim>\<open>golang-commons/controller/lifecycle/ratelimiter\<close>): an item is requeued
  after a static delay while its first request is not older than a window, then with exponential backoff. The
  exponential limiter of client-go and the clock are parameters.
\<close>

subsection \<open>Configuration\<close>

record limiter_config =
  rl_static :: duration
  rl_window :: duration
  rl_initial :: duration
  rl_max :: duration

definition seconds :: "int \<Rightarrow> duration" where
  "seconds n = n * 1000000000"

definition defaultConfig :: limiter_config where
  "defaultConfig = \<lparr>rl_static = seconds 2, rl_window = seconds 60, rl_initial = seconds 2, rl_max = seconds 1000\<rparr>"

definition WithStaticWindow :: "duration \<Rightarrow> limiter_config \<Rightarrow> limiter_config" where
  "WithStaticWindow d C = C\<lparr>rl_window := d\<rparr>"

definition WithRequeueDelay :: "duration \<Rightarrow> limiter_config \<Rightarrow> limiter_config" where
  "WithRequeueDelay d C = C\<lparr>rl_static := d\<rparr>"

definition WithExponentialInitialBackoff :: "duration \<Rightarrow> limiter_config \<Rightarrow> limiter_config" where
  "WithExponentialInitialBackoff d C = C\<lparr>rl_initial := d\<rparr>"

definition WithExponentialMaxBackoff :: "duration \<Rightarrow> limiter_config \<Rightarrow> limiter_config" where
  "WithExponentialMaxBackoff d C = C\<lparr>rl_max := d\<rparr>"

definition NewConfig :: "(limiter_config \<Rightarrow> limiter_config) list \<Rightarrow> limiter_config" where
  "NewConfig options = fold (\<lambda>f C. f C) options defaultConfig"

definition validate_limiter :: "limiter_config \<Rightarrow> err option" where
  "validate_limiter C =
     (if rl_static C < 0 then Some (errorf (''the static requeue delay shouldn'' @ [CHR 0x27] @ ''t be negative''))
      else if rl_initial C < 0 then Some (errorf (''the initial exponential backoff shouldn'' @ [CHR 0x27] @ ''t be negative''))
      else if rl_static C > rl_initial C
      then Some (errorf ''the initial exponential backoff should be equal to or greater than the static requeue delay'')
      else if rl_window C < rl_static C
      then Some (errorf ''the static window duration should be equal to or greater than the static requeue delay'')
      else None)"

subsection \<open>The limiter\<close>

text \<open>
  The exponential limiter: \<open>xl_requeues\<close> counts the failures of an item; the delay is the base doubled
  with each of them, at most the maximum.
\<close>

record ('k, 'x) exponential_limiter =
  xl_when :: "'k \<Rightarrow> 'x \<Rightarrow> duration \<times> 'x"
  xl_forget :: "'k \<Rightarrow> 'x \<Rightarrow> 'x"
  xl_requeues :: "'k \<Rightarrow> 'x \<Rightarrow> nat"

definition exponential_laws :: "('k, 'x) exponential_limiter \<Rightarrow> duration \<Rightarrow> duration \<Rightarrow> bool" where
  "exponential_laws X base most \<longleftrightarrow>
     (\<forall>k x. fst (xl_when X k x) = min most (base * 2 ^ xl_requeues X k x)) \<and>
     (\<forall>k j x. xl_requeues X j (snd (xl_when X k x)) = (if j = k then Suc (xl_requeues X j x) else xl_requeues X j x)) \<and>
     (\<forall>k j x. xl_requeues X j (xl_forget X k x) = (if j = k then 0 else xl_requeues X j x))"

record ('k, 'x) limiter_state =
  ls_attempts :: "'k \<rightharpoonup> gotime"
  ls_exponential :: 'x

definition limiter_When ::
  "limiter_config \<Rightarrow> ('k, 'x) exponential_limiter \<Rightarrow> gotime \<Rightarrow> 'k \<Rightarrow> ('k, 'x) limiter_state \<Rightarrow> duration \<times> ('k, 'x) limiter_state" where
  "limiter_When C X now k s =
     (case ls_attempts s k of
        None \<Rightarrow> (rl_static C, s\<lparr>ls_attempts := (ls_attempts s)(k \<mapsto> now)\<rparr>)
      | Some first \<Rightarrow>
          if now - first \<le> rl_window C then (rl_static C, s)
          else (case xl_when X k (ls_exponential s) of (d, x) \<Rightarrow> (d, s\<lparr>ls_exponential := x\<rparr>)))"

definition limiter_Forget :: "('k, 'x) exponential_limiter \<Rightarrow> 'k \<Rightarrow> ('k, 'x) limiter_state \<Rightarrow> ('k, 'x) limiter_state" where
  "limiter_Forget X k s = s\<lparr>ls_attempts := (ls_attempts s)(k := None), ls_exponential := xl_forget X k (ls_exponential s)\<rparr>"

definition limiter_NumRequeues :: "('k, 'x) exponential_limiter \<Rightarrow> 'k \<Rightarrow> ('k, 'x) limiter_state \<Rightarrow> nat" where
  "limiter_NumRequeues X k s = xl_requeues X k (ls_exponential s)"

subsection \<open>Runs\<close>

text \<open>The calls on a limiter with the times of the clock; the delays that were answered.\<close>

datatype 'k limiter_call = Ask gotime 'k | Release 'k

fun limiter_run ::
  "limiter_config \<Rightarrow> ('k, 'x) exponential_limiter \<Rightarrow> 'k limiter_call list \<Rightarrow> ('k, 'x) limiter_state \<Rightarrow> ('k \<times> duration) list" where
  "limiter_run C X [] s = []"
| "limiter_run C X (Ask now k # cs) s =
     (case limiter_When C X now k s of (d, s') \<Rightarrow> (k, d) # limiter_run C X cs s')"
| "limiter_run C X (Release k # cs) s = limiter_run C X cs (limiter_Forget X k s)"

fun call_times :: "'k limiter_call list \<Rightarrow> gotime list" where
  "call_times [] = []"
| "call_times (Ask now k # cs) = now # call_times cs"
| "call_times (Release k # cs) = call_times cs"

definition delays_of :: "'k \<Rightarrow> ('k \<times> duration) list \<Rightarrow> duration list" where
  "delays_of k ds = map snd (filter (\<lambda>x. fst x = k) ds)"

lemma delays_of_simps [simp]:
  "delays_of k [] = []" "delays_of k ((j, d) # ds) = (if j = k then d # delays_of k ds else delays_of k ds)"
  by (simp_all add: delays_of_def)

lemma validate_None:
  "validate_limiter C = None \<longleftrightarrow> 0 \<le> rl_static C \<and> rl_static C \<le> rl_initial C \<and> rl_static C \<le> rl_window C"
  by (auto simp: validate_limiter_def)

text \<open>The delay that the next request for an item gets.\<close>

definition next_delay :: "limiter_config \<Rightarrow> ('k, 'x) exponential_limiter \<Rightarrow> gotime \<Rightarrow> 'k \<Rightarrow> ('k, 'x) limiter_state \<Rightarrow> duration" where
  "next_delay C X now k s = fst (limiter_When C X now k s)"

lemma next_delay_eq:
  assumes "exponential_laws X (rl_initial C) (rl_max C)"
  shows "next_delay C X now k s =
    (case ls_attempts s k of None \<Rightarrow> rl_static C
     | Some first \<Rightarrow> if now - first \<le> rl_window C then rl_static C
        else min (rl_max C) (rl_initial C * 2 ^ xl_requeues X k (ls_exponential s)))"
  using assms by (auto simp: next_delay_def limiter_When_def exponential_laws_def split: option.splits prod.splits) (metis fst_conv)+

lemma backoff_ge:
  assumes "validate_limiter C = None" and "rl_static C \<le> rl_max C"
  shows "rl_static C \<le> min (rl_max C) (rl_initial C * 2 ^ n)"
proof -
  have "rl_static C \<le> rl_initial C" "0 \<le> rl_initial C" using assms(1) by (auto simp: validate_None)
  moreover have "rl_initial C * 1 \<le> rl_initial C * 2 ^ n" by (rule mult_left_mono) (use calculation in simp_all)
  ultimately show ?thesis using assms(2) by simp
qed

lemma next_delay_bounds:
  assumes "validate_limiter C = None" and "rl_static C \<le> rl_max C" and "exponential_laws X (rl_initial C) (rl_max C)"
  shows "rl_static C \<le> next_delay C X now k s" and "next_delay C X now k s \<le> rl_max C"
  using backoff_ge [OF assms(1,2)] assms(2) by (auto simp: next_delay_eq [OF assms(3)] split: option.split)

text \<open>Asking again, for any item and not earlier, does not get a shorter delay.\<close>

lemma next_delay_mono:
  assumes "validate_limiter C = None" and "rl_static C \<le> rl_max C" and "exponential_laws X (rl_initial C) (rl_max C)"
    and "limiter_When C X now j s = (d, s')" and "t0 \<le> now" and "now \<le> t"
  shows "next_delay C X t0 k s \<le> next_delay C X t k s'"
proof -
  have fork: "xl_requeues X k (ls_exponential s') \<ge> xl_requeues X k (ls_exponential s)"
    and att: "ls_attempts s' k = (if j = k \<and> ls_attempts s k = None then Some now else ls_attempts s k)"
    using assms(3,4) by (auto simp: limiter_When_def exponential_laws_def split: option.splits prod.splits if_splits) (metis le_SucI order_refl snd_conv)+
  have grow: "min (rl_max C) (rl_initial C * 2 ^ m) \<le> min (rl_max C) (rl_initial C * 2 ^ n)" if "m \<le> n" for m n
  proof -
    have "0 \<le> rl_initial C" using assms(1) by (auto simp: validate_None)
    then have "rl_initial C * 2 ^ m \<le> rl_initial C * 2 ^ n"
      using that by (intro mult_left_mono power_increasing) simp_all
    then show ?thesis by (simp add: min.coboundedI2)
  qed
  show ?thesis
  proof (cases "ls_attempts s k")
    case None
    then show ?thesis using next_delay_bounds(1) [OF assms(1-3)] by (simp add: next_delay_eq [OF assms(3), of t0])
  next
    case (Some first)
    then show ?thesis
      using next_delay_bounds(1) [OF assms(1-3), of t k s'] grow [OF fork] att assms(5,6)
      by (auto simp: next_delay_eq [OF assms(3)])
  qed
qed

lemma next_delay_later:
  assumes "validate_limiter C = None" and "rl_static C \<le> rl_max C" and "exponential_laws X (rl_initial C) (rl_max C)"
    and "t0 \<le> t"
  shows "next_delay C X t0 k s \<le> next_delay C X t k s"
  using next_delay_bounds(1) [OF assms(1-3), of t k s] assms(4)
  by (auto simp: next_delay_eq [OF assms(3)] split: option.splits)

lemma Forget_other:
  assumes "exponential_laws X (rl_initial C) (rl_max C)" and "j \<noteq> k"
  shows "next_delay C X t k (limiter_Forget X j s) = next_delay C X t k s"
proof -
  have "xl_requeues X k (xl_forget X j x) = xl_requeues X k x" for x
    using assms unfolding exponential_laws_def by simp
  then show ?thesis using assms(2) unfolding next_delay_eq [OF assms(1)] limiter_Forget_def by (simp split: option.split)
qed

lemma Forget_resets: "next_delay C X t k (limiter_Forget X k s) = rl_static C"
  by (simp add: next_delay_def limiter_When_def limiter_Forget_def)

lemma limiter_run_floor:
  assumes "validate_limiter C = None" and "rl_static C \<le> rl_max C" and "exponential_laws X (rl_initial C) (rl_max C)"
  shows "sorted (t0 # call_times cs) \<Longrightarrow> Release k \<notin> set cs \<Longrightarrow>
    sorted (delays_of k (limiter_run C X cs s)) \<and>
    (\<forall>d \<in> set (delays_of k (limiter_run C X cs s)). next_delay C X t0 k s \<le> d \<and> d \<le> rl_max C)"
proof (induction cs arbitrary: t0 s)
  case (Cons c cs)
  show ?case
  proof (cases c)
    case (Release j)
    then show ?thesis
      using Cons.IH [of t0 "limiter_Forget X j s"] Cons.prems Forget_other [OF assms(3), of j k t0 s] by auto
  next
    case (Ask now j)
    obtain d s' where w: "limiter_When C X now j s = (d, s')" by fastforce
    have t: "t0 \<le> now" and so: "sorted (now # call_times cs)" using Cons.prems(1) Ask by simp_all
    have IH: "sorted (delays_of k (limiter_run C X cs s'))"
        "\<forall>e \<in> set (delays_of k (limiter_run C X cs s')). next_delay C X now k s' \<le> e \<and> e \<le> rl_max C"
      using Cons.IH [OF so, of s'] Cons.prems(2) by auto
    have m: "next_delay C X t0 k s \<le> next_delay C X now k s'"
      by (rule next_delay_mono [OF assms w t]) simp
    have d: "j = k \<Longrightarrow> next_delay C X t0 k s \<le> d \<and> d \<le> next_delay C X now k s' \<and> d \<le> rl_max C"
      using next_delay_later [OF assms t, of k s] next_delay_mono [OF assms w order_refl order_refl, of k]
        next_delay_bounds(2) [OF assms, of now k s] w by (auto simp: next_delay_def)
    show ?thesis using IH m d Ask w by auto
  qed
qed simp

end
