(* ===== verification/Account_Types.thy ===== *)
theory Account_Types
  imports Clients Rate_Limiter Engine Fga_Types
begin

text \<open>
  What the account operator (\<^verbatim>\<open>operators/account-operator\<close>) works on: the AccountInfo
  (\<^verbatim>\<open>apis/core/v1alpha1/account_info_types.go\<close>), of kcp's Workspace and WorkspaceType the fields it reads and
  writes, and its manager of clusters. kcp and controller-runtime are not code of the repository.
\<close>

subsection \<open>AccountInfo\<close>

text \<open>The locations of \<open>Fga_Types\<close> with their URL.\<close>

record info_location = account_location +
  al_url :: string

record client_info =
  ci_client_id :: string

record oidc_info =
  oi_issuer :: string
  oi_clients :: "string \<rightharpoonup> client_info"

record platform_info =
  pa_meta :: objmeta
  pa_store :: string
  pa_account :: info_location
  pa_parent :: "info_location option"
  pa_organization :: info_location
  pa_oidc :: "oidc_info option"
  pa_ca :: string

definition DefaultAccountInfoName :: string where
  "DefaultAccountInfoName = ''account''"

subsection \<open>Workspaces\<close>

record type_ref =
  tr_name :: string
  tr_path :: string

datatype cluster_phase = PhaseInitializing | PhaseReady | PhaseOther string

record account_workspace =
  aw_name :: string
  aw_deletion :: "gotime option"
  aw_type :: "type_ref option"
  aw_owners :: "string list"
  aw_cluster :: string
  aw_url :: string
  aw_phase :: cluster_phase

record workspace_type =
  wt_name :: string
  wt_labels :: "(string \<rightharpoonup> string) option"
  wt_extend :: "type_ref list"
  wt_default_child :: "type_ref option"
  wt_parents :: "type_ref list option"
  wt_children :: "type_ref list option"
  wt_ready :: bool

subsection \<open>Clusters\<close>

text \<open>
  A client of one cluster. The puts are \<^verbatim>\<open>controllerutil.CreateOrUpdate\<close> and \<^verbatim>\<open>CreateOrPatch\<close>: they take the
  mutation, which may fail, and the object with its name.
\<close>

type_synonym ('o, 'w) put = "('o \<Rightarrow> err + 'o) \<Rightarrow> 'o \<Rightarrow> 'w \<Rightarrow> err option \<times> 'w"

record 'w cluster_clients =
  cc_workspaces :: "(account_workspace, 'w) kind_client"
  cc_types :: "(workspace_type, 'w) kind_client"
  cc_infos :: "(platform_info, 'w) kind_client"
  cc_accounts :: "'w \<Rightarrow> err + account list"
  cc_put_workspace :: "(account_workspace, 'w) put"
  cc_put_type :: "(workspace_type, 'w) put"
  cc_put_info :: "(platform_info, 'w) put"

text \<open>\<^verbatim>\<open>workqueue.TypedRateLimiter\<close>, as the subroutines use it.\<close>

record ('o, 'w) requeue_limiter =
  rq_when :: "'o \<Rightarrow> 'w \<Rightarrow> duration \<times> 'w"
  rq_forget :: "'o \<Rightarrow> 'w \<Rightarrow> 'w"

text \<open>\<open>am_own\<close> is \<^verbatim>\<open>SetOwnerReference\<close>; \<open>am_from_context\<close> the cluster of a context.\<close>

record 'w account_manager =
  am_cluster :: "string \<Rightarrow> 'w \<Rightarrow> err + 'w cluster_clients"
  am_from_context :: "string option \<Rightarrow> 'w \<Rightarrow> err + 'w cluster_clients"
  am_own :: "account \<Rightarrow> account_workspace \<Rightarrow> err + account_workspace"
  am_ca :: string
  am_workspace_limiter :: "(account, 'w) requeue_limiter"
  am_info_limiter :: "(account, 'w) requeue_limiter"
  am_ready_limiter :: "(account, 'w) requeue_limiter"
  am_finalize_limiter :: "(platform_info, 'w) requeue_limiter"

text \<open>\<^verbatim>\<open>MustGetClusteredName\<close> panics without a cluster in the context.\<close>

definition no_cluster_panic :: outcome where
  "no_cluster_panic = Panic ''cluster not found in context, cannot requeue''"

text \<open>\<^verbatim>\<open>return subroutines.StopWithRequeue(limiter.When(instance), msg), nil\<close>\<close>

definition wait_for :: "('o, 'w) requeue_limiter \<Rightarrow> string \<Rightarrow> 'o \<Rightarrow> 'w \<Rightarrow> outcome \<times> 'o \<times> 'w" where
  "wait_for Q msg ob w = (case rq_when Q ob w of (d, w') \<Rightarrow> (ret (StopWithRequeue d msg), ob, w'))"

subsection \<open>The limiters of the subroutines\<close>

text \<open>
  An \<^verbatim>\<open>ObjectRateLimiter\<close>: its state is read and replaced in the state of the world, the key of an object
  is its cluster, namespace and name.
\<close>

record object_key =
  okey_cluster :: string
  okey_namespace :: string
  okey_name :: string

definition account_keyOf :: "(objmeta \<Rightarrow> string) \<Rightarrow> ('o \<Rightarrow> objmeta) \<Rightarrow> 'o \<Rightarrow> object_key" where
  "account_keyOf cluster_of meta ob =
     \<lparr>okey_cluster = cluster_of (meta ob), okey_namespace = m_namespace (meta ob), okey_name = m_name (meta ob)\<rparr>"

definition object_limiter ::
  "limiter_config \<Rightarrow> (object_key, 'x) exponential_limiter \<Rightarrow> ('w \<Rightarrow> gotime) \<Rightarrow> ('o \<Rightarrow> object_key) \<Rightarrow>
   ('w \<Rightarrow> (object_key, 'x) limiter_state) \<Rightarrow> ((object_key, 'x) limiter_state \<Rightarrow> 'w \<Rightarrow> 'w) \<Rightarrow> ('o, 'w) requeue_limiter" where
  "object_limiter C X now key read store =
     \<lparr>rq_when = (\<lambda>ob w. case limiter_When C X (now w) (key ob) (read w) of (d, s) \<Rightarrow> (d, store s w)),
      rq_forget = (\<lambda>ob w. store (limiter_Forget X (key ob) (read w)) w)\<rparr>"

text \<open>What the subroutines rely on: the delays are positive, and nothing else in the world changes.\<close>

definition limiter_laws :: "('o, 'w) requeue_limiter \<Rightarrow> ('w \<Rightarrow> 'v) \<Rightarrow> bool" where
  "limiter_laws Q seen \<longleftrightarrow>
     (\<forall>ob w. 0 < fst (rq_when Q ob w) \<and> seen (snd (rq_when Q ob w)) = seen w \<and> seen (rq_forget Q ob w) = seen w)"

lemma object_limiter_laws:
  assumes "validate_limiter C = None" and "0 < rl_static C" and "rl_static C \<le> rl_max C"
    and "exponential_laws X (rl_initial C) (rl_max C)" and "\<And>s w. seen (store s w) = seen w"
  shows "limiter_laws (object_limiter C X now key read store) seen"
proof -
  have "0 < fst (limiter_When C X t k s)" for t k s
    using next_delay_bounds(1) [OF assms(1,3,4), of t k s] assms(2) by (simp add: next_delay_def)
  then show ?thesis
    by (simp add: limiter_laws_def object_limiter_def assms(5) prod.case_eq_if)
qed

lemma wait_for_requeues:
  assumes "limiter_laws Q seen" and "wait_for Q msg ob w = (out, ob', w')"
  shows "\<exists>d. out = ret (StopWithRequeue d msg) \<and> 0 < d" and "seen w' = seen w" and "ob' = ob"
  using assms by (auto simp: wait_for_def limiter_laws_def split: prod.splits) (metis fst_conv, metis snd_conv)

end
