(* ===== verification/Account_Workspace.thy ===== *)
theory Account_Workspace
  imports Account_Types
begin

text \<open>
  The workspaces of accounts: the types of an organization (\<^verbatim>\<open>workspacetype/workspace_type.go\<close>), the workspace of
  an account (\<^verbatim>\<open>workspace/workspace.go\<close>) and waiting for it (\<^verbatim>\<open>workspaceready/workspaceready.go\<close>).
\<close>

definition orgsPath :: string where
  "orgsPath = ''root:orgs''"

definition rootWorkspace :: string where
  "rootWorkspace = ''root''"

definition GetWorkspaceTypeName :: "string \<Rightarrow> string \<Rightarrow> string" where
  "GetWorkspaceTypeName name type = name @ ''-'' @ type"

definition account_name :: "account \<Rightarrow> string" where
  "account_name a = m_name (acc_meta a)"

definition account_type :: "account \<Rightarrow> string" where
  "account_type a = aspec_type (acc_spec a)"

subsection \<open>Workspace types\<close>

definition WorkspaceTypeName :: string where
  "WorkspaceTypeName = ''WorkspaceTypeSubroutine''"

definition WorkspaceTypeFinalizer :: string where
  "WorkspaceTypeFinalizer = ''workspacetype.core.platform-mesh.io/finalizer''"

definition org_type_ref :: "string \<Rightarrow> type_ref" where
  "org_type_ref n = \<lparr>tr_name = n, tr_path = orgsPath\<rparr>"

definition generateOrgWorkspaceType :: "string \<Rightarrow> string \<Rightarrow> string \<Rightarrow> workspace_type" where
  "generateOrgWorkspaceType org_type acc_type org =
     \<lparr>wt_name = org_type, wt_labels = Some [''core.platform-mesh.io/org'' \<mapsto> org],
      wt_extend = [\<lparr>tr_name = ''org'', tr_path = rootWorkspace\<rparr>],
      wt_default_child = Some (org_type_ref acc_type),
      wt_parents = Some [\<lparr>tr_name = ''orgs'', tr_path = rootWorkspace\<rparr>],
      wt_children = Some [org_type_ref acc_type], wt_ready = False\<rparr>"

definition generateAccountWorkspaceType :: "string \<Rightarrow> string \<Rightarrow> string \<Rightarrow> workspace_type" where
  "generateAccountWorkspaceType org_type acc_type org =
     \<lparr>wt_name = acc_type, wt_labels = Some [''core.platform-mesh.io/org'' \<mapsto> org],
      wt_extend = [\<lparr>tr_name = ''account'', tr_path = rootWorkspace\<rparr>],
      wt_default_child = Some (org_type_ref acc_type),
      wt_parents = Some [org_type_ref org_type, org_type_ref acc_type],
      wt_children = Some [org_type_ref acc_type], wt_ready = False\<rparr>"

definition new_type :: "string \<Rightarrow> workspace_type" where
  "new_type name = \<lparr>wt_name = name, wt_labels = None, wt_extend = [], wt_default_child = None, wt_parents = None,
     wt_children = None, wt_ready = False\<rparr>"

text \<open>The mutation: labels are added, the four parts of the spec replaced.\<close>

definition type_mutation :: "workspace_type \<Rightarrow> workspace_type \<Rightarrow> err + workspace_type" where
  "type_mutation desired t =
     Inr (t\<lparr>wt_labels := Some ((case wt_labels t of None \<Rightarrow> Map.empty | Some l \<Rightarrow> l) ++
               (case wt_labels desired of None \<Rightarrow> Map.empty | Some l \<Rightarrow> l)),
            wt_extend := wt_extend desired, wt_default_child := wt_default_child desired,
            wt_parents := wt_parents desired, wt_children := wt_children desired\<rparr>)"

definition createOrPatchWorkspaceType :: "'w account_manager \<Rightarrow> workspace_type \<Rightarrow> 'w \<Rightarrow> err option \<times> 'w" where
  "createOrPatchWorkspaceType M desired w =
     (case am_cluster M orgsPath w of
        Inl e \<Rightarrow> (Some e, w)
      | Inr cl \<Rightarrow> cc_put_type cl (type_mutation desired) (new_type (wt_name desired)) w)"

definition org_types :: "account \<Rightarrow> workspace_type \<times> workspace_type" where
  "org_types a =
     (let org_type = GetWorkspaceTypeName (account_name a) (account_type a);
          acc_type = GetWorkspaceTypeName (account_name a) AccountTypeAccount in
      (generateOrgWorkspaceType org_type acc_type (account_name a),
       generateAccountWorkspaceType org_type acc_type (account_name a)))"

definition workspacetype_process ::
  "'w account_manager \<Rightarrow> ('cl, 'v) ctx \<Rightarrow> account \<Rightarrow> 'w \<Rightarrow> outcome \<times> account \<times> 'w" where
  "workspacetype_process M c a w =
     (if account_type a \<noteq> AccountTypeOrg then (ret OK, a, w)
      else case createOrPatchWorkspaceType M (fst (org_types a)) w of
        (Some e, w1) \<Rightarrow> (ret_err e, a, w1)
      | (None, w1) \<Rightarrow>
          (case createOrPatchWorkspaceType M (snd (org_types a)) w1 of
             (Some e, w2) \<Rightarrow> (ret_err e, a, w2)
           | (None, w2) \<Rightarrow> (ret OK, a, w2)))"

definition workspacetype_finalize ::
  "'w account_manager \<Rightarrow> ('cl, 'v) ctx \<Rightarrow> account \<Rightarrow> 'w \<Rightarrow> outcome \<times> account \<times> 'w" where
  "workspacetype_finalize M c a w =
     (if account_type a \<noteq> AccountTypeOrg then (ret OK, a, w)
      else case am_cluster M orgsPath w of
        Inl e \<Rightarrow> (ret_err e, a, w)
      | Inr cl \<Rightarrow>
          (case k_delete (cc_types cl) (new_type (GetWorkspaceTypeName (account_name a) (account_type a))) w of
             (e, w1) \<Rightarrow>
               (case ignore_not_found e of
                  Some x \<Rightarrow> (ret_err x, a, w1)
                | None \<Rightarrow>
                    (case k_delete (cc_types cl) (new_type (GetWorkspaceTypeName (account_name a) AccountTypeAccount)) w1 of
                       (e, w2) \<Rightarrow>
                         (case ignore_not_found e of
                            Some x \<Rightarrow> (ret_err x, a, w2)
                          | None \<Rightarrow> (ret OK, a, w2))))))"

definition workspacetype_finalizers :: "account \<Rightarrow> string list" where
  "workspacetype_finalizers a = (if account_type a \<noteq> AccountTypeOrg then [] else [WorkspaceTypeFinalizer])"

definition workspacetype_subroutine :: "'w account_manager \<Rightarrow> ('cl, 'v, account, 'w) subroutine" where
  "workspacetype_subroutine M =
     \<lparr>sub_name = WorkspaceTypeName, as_processor = Some (workspacetype_process M),
      as_finalizer = Some \<lparr>Finalize = workspacetype_finalize M, Finalizers = workspacetype_finalizers\<rparr>,
      as_initializer = None, as_terminator = None\<rparr>"

subsection \<open>The workspace of an account\<close>

definition WorkspaceSubroutineName :: string where
  "WorkspaceSubroutineName = ''WorkspaceSubroutine''"

definition WorkspaceSubroutineFinalizer :: string where
  "WorkspaceSubroutineFinalizer = ''account.core.platform-mesh.io/finalizer''"

definition checkWorkspaceTypeReady :: "'w account_manager \<Rightarrow> string \<Rightarrow> 'w \<Rightarrow> err + bool" where
  "checkWorkspaceTypeReady M name w =
     (case am_cluster M orgsPath w of
        Inl e \<Rightarrow> Inl e
      | Inr cl \<Rightarrow>
          (case k_get (cc_types cl) ([], name) w of
             Inl e \<Rightarrow> if is_not_found e then Inr False else Inl e
           | Inr t \<Rightarrow> Inr (wt_ready t)))"

definition new_account_workspace :: "string \<Rightarrow> account_workspace" where
  "new_account_workspace name =
     \<lparr>aw_name = name, aw_deletion = None, aw_type = None, aw_owners = [], aw_cluster = [], aw_url = [], aw_phase = PhaseOther []\<rparr>"

definition workspace_mutation :: "'w account_manager \<Rightarrow> account \<Rightarrow> string \<Rightarrow> account_workspace \<Rightarrow> err + account_workspace" where
  "workspace_mutation M a type_name ws = am_own M a (ws\<lparr>aw_type := Some (org_type_ref type_name)\<rparr>)"

text \<open>The name of the type: an account takes it from the organization of the cluster's AccountInfo; or a reason to wait.\<close>

definition workspace_type_name ::
  "'w cluster_clients \<Rightarrow> account \<Rightarrow> 'w \<Rightarrow> err + string + string" where
  "workspace_type_name cl a w =
     (if account_type a = AccountTypeOrg then Inr (Inr (GetWorkspaceTypeName (account_name a) (account_type a)))
      else case k_get (cc_infos cl) ([], DefaultAccountInfoName) w of
        Inl e \<Rightarrow> if is_not_found e then Inr (Inl ''AccountInfo not found yet'') else Inl e
      | Inr info \<Rightarrow>
          if al_name (pa_organization info) = [] then Inr (Inl ''AccountInfo organization name not set yet'')
          else Inr (Inr (GetWorkspaceTypeName (al_name (pa_organization info)) (account_type a))))"

definition account_workspace_process ::
  "'w account_manager \<Rightarrow> ('cl, 'v) ctx \<Rightarrow> account \<Rightarrow> 'w \<Rightarrow> outcome \<times> account \<times> 'w" where
  "account_workspace_process M c a w =
     (case ctx_cluster c of
        None \<Rightarrow> (no_cluster_panic, a, w)
      | Some cluster_id \<Rightarrow>
     (case am_cluster M cluster_id w of
        Inl e \<Rightarrow> (ret_err e, a, w)
      | Inr cl \<Rightarrow>
     (case workspace_type_name cl a w of
        Inl e \<Rightarrow> (ret_err e, a, w)
      | Inr (Inl msg) \<Rightarrow> wait_for (am_workspace_limiter M) msg a w
      | Inr (Inr type_name) \<Rightarrow>
     (case checkWorkspaceTypeReady M type_name w of
        Inl e \<Rightarrow> (ret_err e, a, w)
      | Inr False \<Rightarrow> wait_for (am_workspace_limiter M) ''Workspace type not ready yet'' a w
      | Inr True \<Rightarrow>
          (case cc_put_workspace cl (workspace_mutation M a type_name) (new_account_workspace (account_name a)) w of
             (Some e, w1) \<Rightarrow> (ret_err e, a, w1)
           | (None, w1) \<Rightarrow> (ret OK, a, rq_forget (am_workspace_limiter M) a w1))))))"

definition account_workspace_finalize ::
  "'w account_manager \<Rightarrow> ('cl, 'v) ctx \<Rightarrow> account \<Rightarrow> 'w \<Rightarrow> outcome \<times> account \<times> 'w" where
  "account_workspace_finalize M c a w =
     (case ctx_cluster c of
        None \<Rightarrow> (no_cluster_panic, a, w)
      | Some cluster_id \<Rightarrow>
     (case am_cluster M cluster_id w of
        Inl e \<Rightarrow> (ret_err e, a, w)
      | Inr cl \<Rightarrow>
     (case k_get (cc_workspaces cl) ([], account_name a) w of
        Inl e \<Rightarrow>
          if is_not_found e \<or> is_no_match e then (ret OK, a, rq_forget (am_workspace_limiter M) a w) else (ret_err e, a, w)
      | Inr ws \<Rightarrow>
          if aw_deletion ws \<noteq> None then wait_for (am_workspace_limiter M) ''Waiting for Workspace deletion'' a w
          else (case k_delete (cc_workspaces cl) ws w of
            (Some e, w1) \<Rightarrow> (ret_err e, a, w1)
          | (None, w1) \<Rightarrow> wait_for (am_workspace_limiter M) ''Waiting for Workspace deletion'' a w1))))"

definition account_workspace_subroutine :: "'w account_manager \<Rightarrow> ('cl, 'v, account, 'w) subroutine" where
  "account_workspace_subroutine M =
     \<lparr>sub_name = WorkspaceSubroutineName, as_processor = Some (account_workspace_process M),
      as_finalizer = Some \<lparr>Finalize = account_workspace_finalize M, Finalizers = (\<lambda>_. [WorkspaceSubroutineFinalizer])\<rparr>,
      as_initializer = None, as_terminator = None\<rparr>"

subsection \<open>Waiting for the workspace\<close>

definition workspaceready_process ::
  "'w account_manager \<Rightarrow> ('cl, 'v) ctx \<Rightarrow> account \<Rightarrow> 'w \<Rightarrow> outcome \<times> account \<times> 'w" where
  "workspaceready_process M c a w =
     (case ctx_cluster c of
        None \<Rightarrow> (no_cluster_panic, a, w)
      | Some cluster_id \<Rightarrow>
     (case am_cluster M cluster_id w of
        Inl e \<Rightarrow> (ret_err (wrap ''getting cluster'' e), a, w)
      | Inr cl \<Rightarrow>
     (case k_get (cc_workspaces cl) ([], account_name a) w of
        Inl e \<Rightarrow> (ret_err (wrap (''getting Account'' @ [CHR 0x27] @ ''s Workspace'') e), a, w)
      | Inr ws \<Rightarrow>
          if aw_phase ws \<noteq> PhaseReady then wait_for (am_ready_limiter M) ''Workspace not ready yet'' a w
          else (ret OK, a, rq_forget (am_ready_limiter M) a w))))"

definition workspaceready_subroutine :: "'w account_manager \<Rightarrow> ('cl, 'v, account, 'w) subroutine" where
  "workspaceready_subroutine M =
     \<lparr>sub_name = ''WorkspaceReadySubroutine'', as_processor = Some (workspaceready_process M), as_finalizer = None,
      as_initializer = None, as_terminator = None\<rparr>"

end
