(* ===== verification/Account_Info.thy ===== *)
theory Account_Info
  imports Account_Workspace
begin

text \<open>
  The AccountInfo of a workspace: writing it from the account and the parent's
  (\<^verbatim>\<open>manageaccountinfo/manage_accountinfo.go\<close>), and holding it while accounts exist below
  (\<^verbatim>\<open>finalizeaccountinfo/finalize_accountinfo.go\<close>).
\<close>

subsection \<open>Writing\<close>

definition retrieveCurrentWorkspacePath :: "account_workspace \<Rightarrow> err + string \<times> string" where
  "retrieveCurrentWorkspacePath ws =
     (if aw_url ws = [] then Inl (errorf ''workspace URL is empty'')
      else let parts = split_on (CHR ''/'') (aw_url ws) in
        if length parts < 3 then Inl (errorf ''workspace URL is invalid'')
        else if last parts = [] \<or> trim_space (last parts) = [] then Inl (errorf ''workspace URL is empty'')
        else Inr (last parts, aw_url ws))"

definition new_info :: platform_info where
  "new_info =
     (let none = \<lparr>al_name = [], al_generated = [], al_origin = [], al_path = [], al_type = [], al_url = []\<rparr> in
      \<lparr>pa_meta = new_meta DefaultAccountInfoName, pa_store = [], pa_account = none, pa_parent = None,
       pa_organization = none, pa_oidc = None, pa_ca = []\<rparr>)"

definition self_location :: "account \<Rightarrow> string \<Rightarrow> account_workspace \<Rightarrow> string \<Rightarrow> string \<Rightarrow> info_location" where
  "self_location a cluster_id ws path url =
     \<lparr>al_name = account_name a, al_generated = aw_cluster ws, al_origin = cluster_id, al_path = path,
      al_type = account_type a, al_url = url\<rparr>"

definition org_info_mutation :: "string \<Rightarrow> info_location \<Rightarrow> platform_info \<Rightarrow> err + platform_info" where
  "org_info_mutation ca self i = Inr (i\<lparr>pa_account := self, pa_parent := None, pa_organization := self, pa_ca := ca\<rparr>)"

definition child_info_mutation :: "string \<Rightarrow> info_location \<Rightarrow> platform_info \<Rightarrow> platform_info \<Rightarrow> err + platform_info" where
  "child_info_mutation ca self parent i =
     Inr (i\<lparr>pa_account := self, pa_parent := Some (pa_account parent), pa_organization := pa_organization parent,
           pa_store := pa_store parent, pa_oidc := pa_oidc parent, pa_ca := ca\<rparr>)"

definition put_org_info ::
  "'w account_manager \<Rightarrow> 'w cluster_clients \<Rightarrow> info_location \<Rightarrow> account \<Rightarrow> 'w \<Rightarrow> outcome \<times> account \<times> 'w" where
  "put_org_info M target self a w =
     (case cc_put_info target (org_info_mutation (am_ca M) self) new_info w of
        (Some e, w1) \<Rightarrow> (ret_err e, a, w1)
      | (None, w1) \<Rightarrow> (ret OK, a, rq_forget (am_info_limiter M) a w1))"

definition put_child_info ::
  "'w account_manager \<Rightarrow> 'w cluster_clients \<Rightarrow> 'w cluster_clients \<Rightarrow> info_location \<Rightarrow> account \<Rightarrow> 'w \<Rightarrow> outcome \<times> account \<times> 'w" where
  "put_child_info M source target self a w =
     (case k_get (cc_infos source) ([], DefaultAccountInfoName) w of
        Inl e \<Rightarrow>
          if is_not_found e then wait_for (am_info_limiter M) ''Parent AccountInfo does not exist yet'' a w
          else (ret_err (wrap ''getting parent AccountInfo'' e), a, w)
      | Inr parent \<Rightarrow>
          (case cc_put_info target (child_info_mutation (am_ca M) self parent) new_info w of
             (Some e, w1) \<Rightarrow> (ret_err (wrap ''creating or updating AccountInfo'' e), a, w1)
           | (None, w1) \<Rightarrow> (ret OK, a, rq_forget (am_info_limiter M) a w1)))"

definition accountinfo_process ::
  "'w account_manager \<Rightarrow> ('cl, 'v) ctx \<Rightarrow> account \<Rightarrow> 'w \<Rightarrow> outcome \<times> account \<times> 'w" where
  "accountinfo_process M c a w =
     (case ctx_cluster c of
        None \<Rightarrow> (no_cluster_panic, a, w)
      | Some cluster_id \<Rightarrow>
     (case am_cluster M cluster_id w of
        Inl e \<Rightarrow> (ret_err (wrap ''getting cluster'' e), a, w)
      | Inr cl \<Rightarrow>
     (case k_get (cc_workspaces cl) ([], account_name a) w of
        Inl e \<Rightarrow> (ret_err (wrap (''getting Account'' @ [CHR 0x27] @ ''s Workspace'') e), a, w)
      | Inr ws \<Rightarrow>
          if aw_phase ws \<noteq> PhaseInitializing \<and> aw_phase ws \<noteq> PhaseReady
          then wait_for (am_info_limiter M) ''Workspace not ready yet'' a w
          else
     (case retrieveCurrentWorkspacePath ws of
        Inl e \<Rightarrow> (ret_err e, a, w)
      | Inr (path, url) \<Rightarrow>
     (case am_cluster M (aw_cluster ws) w of
        Inl e \<Rightarrow> (ret_err e, a, w)
      | Inr target \<Rightarrow>
          let self = self_location a cluster_id ws path url in
          if account_type a = AccountTypeOrg then put_org_info M target self a w
          else put_child_info M cl target self a w)))))"

definition accountinfo_subroutine :: "'w account_manager \<Rightarrow> ('cl, 'v, account, 'w) subroutine" where
  "accountinfo_subroutine M =
     \<lparr>sub_name = ''ManageAccountInfoSubroutine'', as_processor = Some (accountinfo_process M), as_finalizer = None,
      as_initializer = None, as_terminator = None\<rparr>"

subsection \<open>Holding\<close>

definition AccountInfoFinalizer :: string where
  "AccountInfoFinalizer = ''account.core.platform-mesh.io/info''"

definition child_accounts :: "'w cluster_clients \<Rightarrow> 'w \<Rightarrow> err + account list" where
  "child_accounts cl w =
     (case cc_accounts cl w of
        Inl e \<Rightarrow> if \<not> is_not_found e \<and> \<not> is_no_match e then Inl (wrap ''listing child accounts'' e) else Inr []
      | Inr as \<Rightarrow> Inr as)"

definition finalize_accountinfo ::
  "'w account_manager \<Rightarrow> ('cl, 'v) ctx \<Rightarrow> platform_info \<Rightarrow> 'w \<Rightarrow> outcome \<times> platform_info \<times> 'w" where
  "finalize_accountinfo M c i w =
     (case am_from_context M (ctx_cluster c) w of
        Inl e \<Rightarrow> (ret_err (wrap ''getting cluster from context'' e), i, w)
      | Inr cl \<Rightarrow>
          (case child_accounts cl w of
             Inl e \<Rightarrow> (ret_err e, i, w)
           | Inr as \<Rightarrow>
               if as \<noteq> [] then wait_for (am_finalize_limiter M) ''Accounts still exist'' i w
               else (ret OK, i, rq_forget (am_finalize_limiter M) i w)))"

definition finalize_accountinfo_subroutine :: "'w account_manager \<Rightarrow> ('cl, 'v, platform_info, 'w) subroutine" where
  "finalize_accountinfo_subroutine M =
     \<lparr>sub_name = ''FinalizeAccountInfoSubroutine'', as_processor = None,
      as_finalizer = Some \<lparr>Finalize = finalize_accountinfo M, Finalizers = (\<lambda>_. [AccountInfoFinalizer])\<rparr>,
      as_initializer = None, as_terminator = None\<rparr>"

subsection \<open>The controllers\<close>

record account_operator_config =
  oc_workspace_type :: bool
  oc_workspace :: bool
  oc_account_info :: bool
  oc_workspace_ready :: bool
  oc_info_controller :: bool

definition account_subroutines :: "account_operator_config \<Rightarrow> 'w account_manager \<Rightarrow> ('cl, 'v, account, 'w) subroutine list" where
  "account_subroutines cfg M =
     (if oc_workspace_type cfg then [workspacetype_subroutine M] else []) @
     (if oc_workspace cfg then [account_workspace_subroutine M] else []) @
     (if oc_account_info cfg then [accountinfo_subroutine M] else []) @
     (if oc_workspace_ready cfg then [workspaceready_subroutine M] else [])"

text \<open>\<open>None\<close> is the panic of \<^verbatim>\<open>WithConditions\<close>.\<close>

definition account_controller ::
  "meta_api \<Rightarrow> account obj_iface \<Rightarrow> ('cl, account, 'w) engine_api \<Rightarrow> (json option \<Rightarrow> json option \<Rightarrow> bool) \<Rightarrow>
   (('cl, 'v) ctx \<Rightarrow> err + 'cl) \<Rightarrow> account_operator_config \<Rightarrow> 'w account_manager \<Rightarrow> ('cl, 'v, account, 'w) lifecycle option" where
  "account_controller N I api deep_equal cluster_client cfg M =
     with_conditions (conditions_manager N I) (new_lifecycle I api deep_equal cluster_client (account_subroutines cfg M))"

definition info_iface ::
  "(platform_info \<Rightarrow> err + json) \<Rightarrow> (json \<Rightarrow> platform_info \<Rightarrow> err option \<times> platform_info) \<Rightarrow> platform_info obj_iface" where
  "info_iface = typed_iface pa_meta pa_meta_update None None"

definition accountinfo_controller ::
  "platform_info obj_iface \<Rightarrow> ('cl, platform_info, 'w) engine_api \<Rightarrow> (json option \<Rightarrow> json option \<Rightarrow> bool) \<Rightarrow>
   (('cl, 'v) ctx \<Rightarrow> err + 'cl) \<Rightarrow> account_operator_config \<Rightarrow> 'w account_manager \<Rightarrow> ('cl, 'v, platform_info, 'w) lifecycle" where
  "accountinfo_controller I api deep_equal cluster_client cfg M =
     new_lifecycle I api deep_equal cluster_client
       (if oc_info_controller cfg then [finalize_accountinfo_subroutine M] else [])"

end
