(* ===== verification/Account_Laws.thy ===== *)
theory Account_Laws
  imports Account_Info
begin

text \<open>
  What holds of the account operator: the AccountInfos name the organization at the root of their workspaces,
  workspaces get types of that organization, and the types keep organizations apart. The view of a world says
  which objects it stores; the laws of writing and the tree of workspaces are hypotheses about kcp.
\<close>

subsection \<open>The controllers on the engine\<close>

lemma account_iface_finalizers: "obj_finalizers (account_iface tu fu) x = m_finalizers (acc_meta x)"
  by (simp add: account_iface_def typed_iface_def)

lemma wait_for_object: "fst (snd (wait_for Q msg ob w)) = ob"
  by (simp add: wait_for_def split: prod.split)

lemma account_keeps_object:
  "fst (snd (workspacetype_process M c a w)) = a"
  "fst (snd (workspacetype_finalize M c a w)) = a"
  "fst (snd (account_workspace_process M c a w)) = a"
  "fst (snd (account_workspace_finalize M c a w)) = a"
  "fst (snd (accountinfo_process M c a w)) = a"
  "fst (snd (workspaceready_process M c a w)) = a"
  by (auto simp: workspacetype_process_def workspacetype_finalize_def account_workspace_process_def
      account_workspace_finalize_def accountinfo_process_def put_org_info_def put_child_info_def
      workspaceready_process_def wait_for_object Let_def
      split: option.splits sum.splits prod.splits if_splits bool.splits)

lemma finalize_accountinfo_object: "fst (snd (finalize_accountinfo M c i w)) = i"
  by (auto simp: finalize_accountinfo_def wait_for_object split: sum.splits)

lemmas account_subroutine_defs =
  workspacetype_subroutine_def account_workspace_subroutine_def accountinfo_subroutine_def workspaceready_subroutine_def

lemma account_controller_Some:
  "account_controller N (account_iface tu fu) api de cc cfg M =
     Some ((new_lifecycle (account_iface tu fu) api de cc (account_subroutines cfg M))
           \<lparr>lc_conditions := Some (conditions_manager N (account_iface tu fu))\<rparr>)"
  by (simp add: account_controller_def with_conditions_def new_lifecycle_def account_iface_def typed_iface_def)

interpretation accounts: engine "account_iface tu fu" "the (account_controller N (account_iface tu fu) api de cc cfg M)"
  for tu fu N api de cc cfg M
  by (intro engine.intro engine_axioms.intro account_obj.object_laws_axioms)
    (auto simp: account_controller_Some new_lifecycle_def account_obj.conditions_manager_frame account_subroutines_def
      account_subroutine_defs sub_keeps_finalizers_def keeps_finalizers_def account_keeps_object split: if_splits)

interpretation info_obj: object_laws "info_iface tu fu" for tu fu
  unfolding info_iface_def by (rule object_laws_typed) auto

lemma info_iface_finalizers: "obj_finalizers (info_iface tu fu) x = m_finalizers (pa_meta x)"
  by (simp add: info_iface_def typed_iface_def)

interpretation infos: engine "info_iface tu fu" "accountinfo_controller (info_iface tu fu) api de cc cfg M"
  for tu fu api de cc cfg M
  by (intro engine.intro engine_axioms.intro info_obj.object_laws_axioms)
    (auto simp: accountinfo_controller_def new_lifecycle_def finalize_accountinfo_subroutine_def
      sub_keeps_finalizers_def keeps_finalizers_def finalize_accountinfo_object split: if_splits)

subsection \<open>Writing\<close>

text \<open>
  A put stores at its key the mutation of what is stored there, or of the new object, up to what the server
  sets itself (\<open>core\<close> is the rest); or nothing.
\<close>

definition put_law :: "('o \<Rightarrow> 'c) \<Rightarrow> ('w \<Rightarrow> 'k \<rightharpoonup> 'o) \<Rightarrow> 'k \<Rightarrow> ('o, 'w) put \<Rightarrow> 'o \<Rightarrow> bool" where
  "put_law core view k put x \<longleftrightarrow>
     (\<forall>f w. view (snd (put f x w)) = view w \<or>
        (\<exists>j0 j j'. f j0 = Inr j \<and> (view w k = Some j0 \<or> view w k = None \<and> j0 = x) \<and> core j' = core j \<and>
           view (snd (put f x w)) = (view w)(k \<mapsto> j')))"

lemma put_lawE:
  assumes "put_law core view k put x" and "put f x w = (e, w')"
  obtains "view w' = view w"
  | j0 j j' where "f j0 = Inr j" "view w k = Some j0 \<or> view w k = None \<and> j0 = x" "core j' = core j"
      "view w' = (view w)(k \<mapsto> j')"
  using assms unfolding put_law_def by (metis snd_conv)

subsection \<open>The organization of an AccountInfo\<close>

text \<open>
  \<open>origin\<close> gives for the cluster of an account's workspace the cluster, name and type of the account; the
  organization at the root is found by following it.
\<close>

type_synonym origins = "string \<rightharpoonup> string \<times> string \<times> string"

inductive root_org :: "origins \<Rightarrow> string \<Rightarrow> string \<Rightarrow> bool" where
  org: "origin n = Some (p, name, AccountTypeOrg) \<Longrightarrow> root_org origin n name"
| child: "origin n = Some (p, name, type) \<Longrightarrow> type \<noteq> AccountTypeOrg \<Longrightarrow> root_org origin p org \<Longrightarrow> root_org origin n org"

inductive_cases root_orgE: "root_org origin n org"

lemma root_org_unique:
  assumes "root_org origin n x" and "root_org origin n y"
  shows "x = y"
  using assms
proof (induction arbitrary: y rule: root_org.induct)
  case (org origin n p name)
  from org(2) show ?case by (rule root_orgE) (use org(1) in auto)
next
  case (child origin n p name type org)
  from child.prems show ?case
    by (rule root_orgE) (use child.hyps in simp, use child.hyps(1) child.IH in auto)
qed

definition info_core :: "platform_info \<Rightarrow> info_location \<times> info_location option \<times> info_location" where
  "info_core i = (pa_account i, pa_parent i, pa_organization i)"

text \<open>\<open>id_of\<close> is the cluster that a name stands for, \<open>I\<close> the AccountInfos of the clusters.\<close>

definition info_laws :: "'w account_manager \<Rightarrow> (string \<Rightarrow> string) \<Rightarrow> ('w \<Rightarrow> string \<rightharpoonup> platform_info) \<Rightarrow> bool" where
  "info_laws M id_of I \<longleftrightarrow>
     limiter_laws (am_info_limiter M) I \<and>
     (\<forall>n w cl. am_cluster M n w = Inr cl \<longrightarrow>
        put_law info_core I (id_of n) (cc_put_info cl) new_info \<and>
        (\<forall>w' i. k_get (cc_infos cl) ([], DefaultAccountInfoName) w' = Inr i \<longrightarrow> I w' (id_of n) = Some i))"

text \<open>The workspaces of the accounts that are reconciled, and where their clusters come from.\<close>

definition workspace_tree ::
  "'w account_manager \<Rightarrow> (string \<Rightarrow> string) \<Rightarrow> origins \<Rightarrow> (string \<times> account) set \<Rightarrow> bool" where
  "workspace_tree M id_of origin accts \<longleftrightarrow>
     (\<forall>(n, a) \<in> accts. \<forall>w cl ws. am_cluster M n w = Inr cl \<longrightarrow> k_get (cc_workspaces cl) ([], account_name a) w = Inr ws \<longrightarrow>
        origin (id_of (aw_cluster ws)) = Some (id_of n, account_name a, account_type a))"

text \<open>
  A step is the subroutine on one of the accounts, or anything else that leaves to AccountInfos their
  locations: setting the store, the OIDC client or metadata, deleting.
\<close>

inductive info_step ::
  "'w account_manager \<Rightarrow> ('w \<Rightarrow> string \<rightharpoonup> platform_info) \<Rightarrow> (string \<times> account) set \<Rightarrow> 'w \<Rightarrow> 'w \<Rightarrow> bool"
  for M I accts where
  reconcile: "(n, a) \<in> accts \<Longrightarrow> ctx_cluster (c :: (unit, unit) ctx) = Some n \<Longrightarrow> accountinfo_process M c a w = (out, a', w') \<Longrightarrow> info_step M I accts w w'"
| others: "(\<forall>n i. I w' n = Some i \<longrightarrow> (\<exists>j. I w n = Some j \<and> info_core i = info_core j)) \<Longrightarrow> info_step M I accts w w'"

definition info_ok :: "origins \<Rightarrow> string \<Rightarrow> platform_info \<Rightarrow> bool" where
  "info_ok origin n i \<longleftrightarrow>
     root_org origin n (al_name (pa_organization i)) \<and>
     (case origin n of None \<Rightarrow> False
      | Some (p, name, type) \<Rightarrow> al_name (pa_account i) = name \<and> al_type (pa_account i) = type \<and>
          (case pa_parent i of None \<Rightarrow> type = AccountTypeOrg
           | Some l \<Rightarrow> type \<noteq> AccountTypeOrg \<and> (\<exists>pp pt. origin p = Some (pp, al_name l, pt))))"

definition infos_ok :: "origins \<Rightarrow> (string \<rightharpoonup> platform_info) \<Rightarrow> bool" where
  "infos_ok origin v \<longleftrightarrow> (\<forall>n i. v n = Some i \<longrightarrow> info_ok origin n i)"

lemma info_ok_core:
  assumes "info_core i = info_core j" and "info_ok origin n j"
  shows "info_ok origin n i"
proof -
  have "pa_account i = pa_account j" "pa_parent i = pa_parent j" "pa_organization i = pa_organization j"
    using assms(1) by (simp_all add: info_core_def)
  then show ?thesis using assms(2) by (simp only: info_ok_def)
qed

lemma infos_ok_update:
  assumes "infos_ok origin v" and "info_core i = info_core j" and "info_ok origin n j"
  shows "infos_ok origin (v(n \<mapsto> i))"
  using assms info_ok_core by (auto simp: infos_ok_def)

lemma wait_for_view:
  assumes "limiter_laws Q seen"
  shows "seen (snd (snd (wait_for Q msg ob w))) = seen w"
  using assms by (simp add: wait_for_def limiter_laws_def split: prod.split) (metis snd_conv)

lemma forget_view:
  assumes "limiter_laws Q seen"
  shows "seen (rq_forget Q ob w) = seen w"
  using assms by (simp add: limiter_laws_def)

lemma put_org_info_ok:
  assumes "limiter_laws (am_info_limiter M) I" and "put_law info_core I n (cc_put_info target) new_info"
    and "origin n = Some (p, account_name a, AccountTypeOrg)"
    and "al_name self = account_name a" and "al_type self = AccountTypeOrg" and "infos_ok origin (I w)"
  shows "infos_ok origin (I (snd (snd (put_org_info M target self a w))))"
proof -
  obtain e w1 where p: "cc_put_info target (org_info_mutation (am_ca M) self) new_info w = (e, w1)" by fastforce
  have "infos_ok origin (I w1)"
  proof (rule put_lawE [OF assms(2) p])
    assume "I w1 = I w"
    then show ?thesis using assms(6) by simp
  next
    fix j0 j j'
    assume m: "org_info_mutation (am_ca M) self j0 = Inr j" "info_core j' = info_core j" "I w1 = (I w)(n \<mapsto> j')"
    have "info_ok origin n j"
      using m(1) assms(3-5) by (auto simp: org_info_mutation_def info_ok_def intro: root_org.org)
    then show ?thesis using infos_ok_update [OF assms(6) m(2)] m(3) by simp
  qed
  then show ?thesis using p forget_view [OF assms(1)] by (simp add: put_org_info_def split: option.split)
qed

lemma put_child_info_ok:
  assumes "limiter_laws (am_info_limiter M) I" and "put_law info_core I n (cc_put_info target) new_info"
    and "\<And>i. k_get (cc_infos cl) ([], DefaultAccountInfoName) w = Inr i \<Longrightarrow> I w p = Some i"
    and "origin n = Some (p, account_name a, type)" and "type \<noteq> AccountTypeOrg"
    and "al_name self = account_name a" and "al_type self = type" and "infos_ok origin (I w)"
  shows "infos_ok origin (I (snd (snd (put_child_info M cl target self a w))))"
proof (cases "k_get (cc_infos cl) ([], DefaultAccountInfoName) w")
  case (Inl e)
  then show ?thesis using assms(8) wait_for_view [OF assms(1)] by (simp add: put_child_info_def)
next
  case (Inr parent)
  obtain e w1 where p: "cc_put_info target (child_info_mutation (am_ca M) self parent) new_info w = (e, w1)" by fastforce
  have pok: "info_ok origin p parent" using assms(3) [OF Inr] assms(8) by (simp add: infos_ok_def)
  have "infos_ok origin (I w1)"
  proof (rule put_lawE [OF assms(2) p])
    assume "I w1 = I w"
    then show ?thesis using assms(8) by simp
  next
    fix j0 j j'
    assume m: "child_info_mutation (am_ca M) self parent j0 = Inr j" "info_core j' = info_core j" "I w1 = (I w)(n \<mapsto> j')"
    have "info_ok origin n j"
      using m(1) assms(4-7) pok
      by (auto simp: child_info_mutation_def info_ok_def intro: root_org.child split: option.splits prod.splits)
    then show ?thesis using infos_ok_update [OF assms(8) m(2)] m(3) by simp
  qed
  then show ?thesis using p Inr forget_view [OF assms(1)] by (simp add: put_child_info_def split: option.split)
qed

lemma info_process_ok:
  assumes "info_laws M id_of I" and "workspace_tree M id_of origin accts" and "(n, a) \<in> accts"
    and "ctx_cluster c = Some n" and "infos_ok origin (I w)"
  shows "infos_ok origin (I (snd (snd (accountinfo_process M c a w))))"
proof -
  have lim: "limiter_laws (am_info_limiter M) I" using assms(1) by (simp add: info_laws_def)
  have wait: "infos_ok origin (I (snd (snd (wait_for (am_info_limiter M) msg a w))))" for msg
    using wait_for_view [OF lim] assms(5) by simp
  show ?thesis
  proof (cases "am_cluster M n w")
    case (Inl e)
    then show ?thesis using assms(4,5) by (simp add: accountinfo_process_def)
  next
    case cl: (Inr cl)
    show ?thesis
    proof (cases "k_get (cc_workspaces cl) ([], account_name a) w")
      case (Inl e)
      then show ?thesis using assms(4,5) cl by (simp add: accountinfo_process_def)
    next
      case ws: (Inr ws)
      have org: "origin (id_of (aw_cluster ws)) = Some (id_of n, account_name a, account_type a)"
        using assms(2,3) cl ws by (fastforce simp: workspace_tree_def)
      have target: "put_law info_core I (id_of (aw_cluster ws)) (cc_put_info t) new_info"
        if "am_cluster M (aw_cluster ws) w = Inr t" for t
        using assms(1) that unfolding info_laws_def by blast
      have read: "I w (id_of n) = Some i" if "k_get (cc_infos cl) ([], DefaultAccountInfoName) w = Inr i" for i
        using assms(1) cl that unfolding info_laws_def by blast
      show ?thesis
        using assms(4,5) cl ws wait put_org_info_ok [OF lim target] put_child_info_ok [OF lim target read] org
        by (auto simp: accountinfo_process_def self_location_def Let_def split: sum.split prod.split)
    qed
  qed
qed

lemma info_step_ok:
  assumes "info_laws M id_of I" and "workspace_tree M id_of origin accts"
    and "info_step M I accts w w'" and "infos_ok origin (I w)"
  shows "infos_ok origin (I w')"
  using assms(3)
proof cases
  case (reconcile n a c out a')
  then show ?thesis using info_process_ok [OF assms(1,2) reconcile(1,2) assms(4)] by simp
next
  case others
  then show ?thesis using assms(4) info_ok_core unfolding infos_ok_def by metis
qed

lemma info_steps_ok:
  assumes "info_laws M id_of I" and "workspace_tree M id_of origin accts"
    and "(info_step M I accts)\<^sup>*\<^sup>* w w'" and "infos_ok origin (I w)"
  shows "infos_ok origin (I w')"
  using assms(3,4) by (induction rule: rtranclp_induct) (auto intro: info_step_ok [OF assms(1,2)])

end
