(* ===== verification/Account_Safety.thy ===== *)
theory Account_Safety
  imports Account_Laws
begin

text \<open>
  The workspaces and workspace types of the account operator over its runs, and what a deletion pass over an
  Account or an AccountInfo waits for.
\<close>

subsection \<open>Writing a workspace\<close>

lemma workspace_process_writes:
  assumes "limiter_laws (am_workspace_limiter M) seen" and "account_workspace_process M c a w = (out, a', w')"
    and "seen w' \<noteq> seen w"
  obtains n cl ty oc t where "ctx_cluster c = Some n" "am_cluster M n w = Inr cl" "workspace_type_name cl a w = Inr (Inr ty)"
    "am_cluster M orgsPath w = Inr oc" "k_get (cc_types oc) ([], ty) w = Inr t" "wt_ready t"
    "seen w' = seen (snd (cc_put_workspace cl (workspace_mutation M a ty) (new_account_workspace (account_name a)) w))"
proof -
  have w': "w' = snd (snd (account_workspace_process M c a w))" by (simp add: assms(2))
  have wait: "seen (snd (snd (wait_for (am_workspace_limiter M) msg a w))) = seen w" for msg
    by (rule wait_for_view [OF assms(1)])
  obtain n where n: "ctx_cluster c = Some n"
    using assms(3) w' by (cases "ctx_cluster c") (simp_all add: account_workspace_process_def)
  obtain cl where cl: "am_cluster M n w = Inr cl"
    using assms(3) w' n by (cases "am_cluster M n w") (simp_all add: account_workspace_process_def)
  obtain ty where ty: "workspace_type_name cl a w = Inr (Inr ty)"
    using assms(3) w' n cl wait by (auto simp: account_workspace_process_def split: sum.splits)
  have ready: "checkWorkspaceTypeReady M ty w = Inr True"
    using assms(3) w' n cl ty wait by (auto simp: account_workspace_process_def split: sum.splits bool.splits)
  obtain oc t where t: "am_cluster M orgsPath w = Inr oc" "k_get (cc_types oc) ([], ty) w = Inr t" "wt_ready t"
    using ready by (auto simp: checkWorkspaceTypeReady_def split: sum.splits if_splits)
  have "seen w' = seen (snd (cc_put_workspace cl (workspace_mutation M a ty) (new_account_workspace (account_name a)) w))"
    using w' n cl ty ready forget_view [OF assms(1)]
    by (simp add: account_workspace_process_def split: prod.split option.split)
  then show thesis using that n cl ty t by blast
qed

text \<open>The type's name comes from the organization of the AccountInfo in the account's own cluster.\<close>

lemma workspace_type_name_org:
  assumes "workspace_type_name cl a w = Inr (Inr ty)"
  obtains (org) "account_type a = AccountTypeOrg" "ty = GetWorkspaceTypeName (account_name a) (account_type a)"
  | (child) i where "account_type a \<noteq> AccountTypeOrg" "k_get (cc_infos cl) ([], DefaultAccountInfoName) w = Inr i"
      "ty = GetWorkspaceTypeName (al_name (pa_organization i)) (account_type a)"
  using assms by (auto simp: workspace_type_name_def split: if_splits sum.splits)

definition workspace_core :: "account_workspace \<Rightarrow> string \<times> type_ref option" where
  "workspace_core ws = (aw_name ws, aw_type ws)"

definition workspace_laws :: "'w account_manager \<Rightarrow> (string \<Rightarrow> string) \<Rightarrow> ('w \<Rightarrow> string \<times> string \<rightharpoonup> account_workspace) \<Rightarrow> bool" where
  "workspace_laws M id_of W \<longleftrightarrow>
     limiter_laws (am_workspace_limiter M) W \<and>
     (\<forall>a ws ws'. am_own M a ws = Inr ws' \<longrightarrow> workspace_core ws' = workspace_core ws) \<and>
     (\<forall>n w cl name. am_cluster M n w = Inr cl \<longrightarrow>
        put_law workspace_core W (id_of n, name) (cc_put_workspace cl) (new_account_workspace name))"

lemma workspace_written:
  assumes "workspace_laws M id_of W" and "account_workspace_process M c a w = (out, a', w')" and "W w' k \<noteq> W w k"
  obtains n cl ty oc t ws where "ctx_cluster c = Some n" "am_cluster M n w = Inr cl" "workspace_type_name cl a w = Inr (Inr ty)"
    "am_cluster M orgsPath w = Inr oc" "k_get (cc_types oc) ([], ty) w = Inr t" "wt_ready t"
    "k = (id_of n, account_name a)" "W w' k = Some ws" "aw_type ws = Some (org_type_ref ty)"
proof -
  have lim: "limiter_laws (am_workspace_limiter M) W" and "W w' \<noteq> W w" using assms(1,3) by (auto simp: workspace_laws_def)
  from workspace_process_writes [OF lim assms(2) this(2)] obtain n cl ty oc t where
    p: "ctx_cluster c = Some n" "am_cluster M n w = Inr cl" "workspace_type_name cl a w = Inr (Inr ty)"
    "am_cluster M orgsPath w = Inr oc" "k_get (cc_types oc) ([], ty) w = Inr t" "wt_ready t" and
    view: "W w' = W (snd (cc_put_workspace cl (workspace_mutation M a ty) (new_account_workspace (account_name a)) w))"
    by metis
  have law: "put_law workspace_core W (id_of n, account_name a) (cc_put_workspace cl) (new_account_workspace (account_name a))"
    using assms(1) p(2) by (auto simp: workspace_laws_def)
  obtain e w1 where put: "cc_put_workspace cl (workspace_mutation M a ty) (new_account_workspace (account_name a)) w = (e, w1)"
    by fastforce
  show thesis
  proof (rule put_lawE [OF law put])
    assume "W w1 = W w"
    then show thesis using view put assms(3) by simp
  next
    fix j0 j j'
    assume m: "workspace_mutation M a ty j0 = Inr j" "workspace_core j' = workspace_core j"
      "W w1 = (W w)((id_of n, account_name a) \<mapsto> j')"
    have k: "k = (id_of n, account_name a)" using assms(3) view put m(3) by (auto split: if_splits)
    have "workspace_core j = workspace_core (j0\<lparr>aw_type := Some (org_type_ref ty)\<rparr>)"
      using assms(1) m(1) unfolding workspace_laws_def workspace_mutation_def by blast
    then have "aw_type j' = Some (org_type_ref ty)" using m(2) by (simp add: workspace_core_def)
    then show thesis using that p k view put m(3) by simp
  qed
qed

subsection \<open>The types of organizations\<close>

definition type_core ::
  "workspace_type \<Rightarrow> type_ref list \<times> type_ref option \<times> type_ref list option \<times> type_ref list option" where
  "type_core t = (wt_extend t, wt_default_child t, wt_parents t, wt_children t)"

text \<open>\<open>T\<close> are the workspace types of \<^verbatim>\<open>root:orgs\<close> by name.\<close>

definition type_laws :: "'w account_manager \<Rightarrow> ('w \<Rightarrow> string \<rightharpoonup> workspace_type) \<Rightarrow> bool" where
  "type_laws M T \<longleftrightarrow>
     (\<forall>w cl. am_cluster M orgsPath w = Inr cl \<longrightarrow>
        (\<forall>name. put_law type_core T name (cc_put_type cl) (new_type name)) \<and>
        (\<forall>t w. T (snd (k_delete (cc_types cl) t w)) \<subseteq>\<^sub>m T w))"

inductive type_step :: "'w account_manager \<Rightarrow> ('w \<Rightarrow> string \<rightharpoonup> workspace_type) \<Rightarrow> account set \<Rightarrow> 'w \<Rightarrow> 'w \<Rightarrow> bool"
  for M T accts where
  process: "a \<in> accts \<Longrightarrow> workspacetype_process M (c :: (unit, unit) ctx) a w = (out, a', w') \<Longrightarrow> type_step M T accts w w'"
| finalize: "a \<in> accts \<Longrightarrow> workspacetype_finalize M (c :: (unit, unit) ctx) a w = (out, a', w') \<Longrightarrow> type_step M T accts w w'"
| others: "(\<forall>n t. T w' n = Some t \<longrightarrow> (\<exists>s. T w n = Some s \<and> type_core t = type_core s)) \<Longrightarrow> type_step M T accts w w'"

lemma surjective_triple: "p = (fst p, fst (snd p), snd (snd p))"
  by simp

text \<open>A type of an organization: its own, or the one for accounts.\<close>

definition type_of_org :: "account \<Rightarrow> string \<Rightarrow> workspace_type \<Rightarrow> bool" where
  "type_of_org a n t \<longleftrightarrow> account_type a = AccountTypeOrg \<and>
     (\<exists>d \<in> {fst (org_types a), snd (org_types a)}. n = wt_name d \<and> type_core t = type_core d)"

definition types_ok :: "account set \<Rightarrow> (string \<rightharpoonup> workspace_type) \<Rightarrow> bool" where
  "types_ok accts v \<longleftrightarrow> (\<forall>n t. v n = Some t \<longrightarrow> (\<exists>a \<in> accts. type_of_org a n t))"

lemma types_ok_le:
  assumes "types_ok accts v" and "u \<subseteq>\<^sub>m v"
  shows "types_ok accts u"
  using assms unfolding types_ok_def map_le_def dom_def by (metis (mono_tags, lifting) mem_Collect_eq option.distinct(1))

lemma createOrPatch_ok:
  assumes "type_laws M T" and "a \<in> accts" and "account_type a = AccountTypeOrg"
    and "d \<in> {fst (org_types a), snd (org_types a)}" and "types_ok accts (T w)"
    and "createOrPatchWorkspaceType M d w = (e, w')"
  shows "types_ok accts (T w')"
proof (cases "am_cluster M orgsPath w")
  case (Inl x)
  then show ?thesis using assms(5,6) by (simp add: createOrPatchWorkspaceType_def)
next
  case (Inr cl)
  have law: "put_law type_core T (wt_name d) (cc_put_type cl) (new_type (wt_name d))"
    using assms(1) Inr unfolding type_laws_def by blast
  have put: "cc_put_type cl (type_mutation d) (new_type (wt_name d)) w = (e, w')"
    using assms(6) Inr by (simp add: createOrPatchWorkspaceType_def)
  show ?thesis
  proof (rule put_lawE [OF law put])
    assume "T w' = T w"
    then show ?thesis using assms(5) by simp
  next
    fix j0 j j'
    assume m: "type_mutation d j0 = Inr j" "type_core j' = type_core j" "T w' = (T w)(wt_name d \<mapsto> j')"
    have "type_core j' = type_core d" using m(1,2) by (auto simp: type_mutation_def type_core_def)
    then have "type_of_org a (wt_name d) j'" using assms(3,4) by (auto simp: type_of_org_def)
    then show ?thesis using assms(2,5) m(3) by (auto simp: types_ok_def)
  qed
qed

lemma type_step_ok:
  assumes "type_laws M T" and "type_step M T accts w w'" and "types_ok accts (T w)"
  shows "types_ok accts (T w')"
  using assms(2)
proof cases
  case (process a c out a')
  show ?thesis
  proof (cases "account_type a = AccountTypeOrg")
    case False
    then show ?thesis using process(2) assms(3) by (simp add: workspacetype_process_def)
  next
    case True
    obtain e1 w1 where 1: "createOrPatchWorkspaceType M (fst (org_types a)) w = (e1, w1)" by fastforce
    obtain e2 w2 where 2: "createOrPatchWorkspaceType M (snd (org_types a)) w1 = (e2, w2)" by fastforce
    have ok1: "types_ok accts (T w1)" by (rule createOrPatch_ok [OF assms(1) process(1) True _ assms(3) 1]) simp
    have "types_ok accts (T w2)" by (rule createOrPatch_ok [OF assms(1) process(1) True _ ok1 2]) simp
    then show ?thesis using process(2) True 1 2 ok1 by (auto simp: workspacetype_process_def split: option.splits)
  qed
next
  case (finalize a c out a')
  have del: "types_ok accts (T (snd (k_delete (cc_types cl) t x)))"
    if "am_cluster M orgsPath w = Inr cl" "types_ok accts (T x)" for cl t x
    using types_ok_le [OF that(2)] assms(1) that(1) unfolding type_laws_def by blast
  show ?thesis
  proof (cases "am_cluster M orgsPath w")
    case (Inl e)
    then show ?thesis using finalize(2) assms(3) by (auto simp: workspacetype_finalize_def split: if_splits)
  next
    case (Inr cl)
    obtain e1 w1 where 1: "k_delete (cc_types cl) (new_type (GetWorkspaceTypeName (account_name a) (account_type a))) w = (e1, w1)"
      by fastforce
    obtain e2 w2 where 2: "k_delete (cc_types cl) (new_type (GetWorkspaceTypeName (account_name a) AccountTypeAccount)) w1 = (e2, w2)"
      by fastforce
    have "types_ok accts (T w1)" using del [OF Inr assms(3)] 1 by (metis snd_conv)
    moreover from del [OF Inr this] 2 have "types_ok accts (T w2)" by (metis snd_conv)
    ultimately show ?thesis
      using finalize(2) assms(3) 1 2 Inr by (auto simp: workspacetype_finalize_def split: if_splits option.splits)
  qed
next
  case others
  show ?thesis unfolding types_ok_def
  proof (intro allI impI)
    fix n t
    assume "T w' n = Some t"
    then obtain s where s: "T w n = Some s" "type_core t = type_core s" using others by blast
    then obtain a where "a \<in> accts" "type_of_org a n s" using assms(3) by (auto simp: types_ok_def)
    then show "\<exists>a \<in> accts. type_of_org a n t" using s(2) by (auto simp: type_of_org_def)
  qed
qed

lemma type_steps_ok:
  assumes "type_laws M T" and "(type_step M T accts)\<^sup>*\<^sup>* w w'" and "types_ok accts (T w)"
  shows "types_ok accts (T w')"
  using assms(2,3) by (induction rule: rtranclp_induct) (auto intro: type_step_ok [OF assms(1)])

text \<open>
  kcp lets a workspace of type \<open>c\<close> into one of type \<open>p\<close> when the children that \<open>p\<close> allows name \<open>c\<close> or what it
  extends, and the parents that \<open>c\<close> allows name \<open>p\<close> or what it extends.
\<close>

definition allows :: "type_ref list option \<Rightarrow> string \<Rightarrow> workspace_type \<Rightarrow> bool" where
  "allows l n t = (case l of None \<Rightarrow> True | Some rs \<Rightarrow> \<exists>r \<in> set rs. r = org_type_ref n \<or> r \<in> set (wt_extend t))"

definition may_nest :: "string \<Rightarrow> workspace_type \<Rightarrow> string \<Rightarrow> workspace_type \<Rightarrow> bool" where
  "may_nest p P c C \<longleftrightarrow> allows (wt_children P) c C \<and> allows (wt_parents C) p P"

lemma type_name_inj:
  "GetWorkspaceTypeName x AccountTypeOrg = GetWorkspaceTypeName y AccountTypeOrg \<longleftrightarrow> x = y"
  "GetWorkspaceTypeName x AccountTypeAccount = GetWorkspaceTypeName y AccountTypeAccount \<longleftrightarrow> x = y"
  by (simp_all add: GetWorkspaceTypeName_def)

lemma type_name_differ:
  "GetWorkspaceTypeName x AccountTypeOrg \<noteq> GetWorkspaceTypeName y AccountTypeAccount"
proof
  assume "GetWorkspaceTypeName x AccountTypeOrg = GetWorkspaceTypeName y AccountTypeAccount"
  then have "last (GetWorkspaceTypeName x AccountTypeOrg) = last (GetWorkspaceTypeName y AccountTypeAccount)" by simp
  then show False by (simp add: GetWorkspaceTypeName_def AccountTypeOrg_def AccountTypeAccount_def)
qed

lemma type_of_org_cases:
  assumes "type_of_org a n t"
  obtains (org) "n = GetWorkspaceTypeName (account_name a) AccountTypeOrg"
      "wt_extend t = [\<lparr>tr_name = ''org'', tr_path = rootWorkspace\<rparr>]"
      "wt_parents t = Some [\<lparr>tr_name = ''orgs'', tr_path = rootWorkspace\<rparr>]"
      "wt_children t = Some [org_type_ref (GetWorkspaceTypeName (account_name a) AccountTypeAccount)]"
  | (account) "n = GetWorkspaceTypeName (account_name a) AccountTypeAccount"
      "wt_extend t = [\<lparr>tr_name = ''account'', tr_path = rootWorkspace\<rparr>]"
      "wt_parents t = Some [org_type_ref (GetWorkspaceTypeName (account_name a) AccountTypeOrg),
         org_type_ref (GetWorkspaceTypeName (account_name a) AccountTypeAccount)]"
      "wt_children t = Some [org_type_ref (GetWorkspaceTypeName (account_name a) AccountTypeAccount)]"
  using assms
  by (auto simp: type_of_org_def org_types_def Let_def generateOrgWorkspaceType_def generateAccountWorkspaceType_def type_core_def)

lemma refs_differ:
  "org_type_ref n \<noteq> \<lparr>tr_name = m, tr_path = rootWorkspace\<rparr>" "\<lparr>tr_name = m, tr_path = rootWorkspace\<rparr> \<noteq> org_type_ref n"
  "org_type_ref n = org_type_ref n' \<longleftrightarrow> n = n'"
  by (auto simp: org_type_ref_def rootWorkspace_def orgsPath_def)

lemma nesting_of_orgs:
  assumes "type_of_org a p P" and "type_of_org b c C"
  shows "may_nest p P c C \<longleftrightarrow> account_name a = account_name b \<and> c = GetWorkspaceTypeName (account_name b) AccountTypeAccount"
  by (rule type_of_org_cases [OF assms(1)]; rule type_of_org_cases [OF assms(2)])
    (auto simp: may_nest_def allows_def refs_differ type_name_inj type_name_differ type_name_differ [symmetric])

subsection \<open>Deletion passes\<close>

lemma run_sub_no_finalizer:
  assumes "lc_terminator L = []" and "as_finalizer sub = None"
  shows "run_sub L c True sub rest st = (st, True)"
  using assms by (simp add: run_sub_def resolve_action_def finalize_action_def)

lemma account_controller_simps:
  assumes "L = the (account_controller N (account_iface tu fu) api de cc cfg M)"
  shows "lc_iface L = account_iface tu fu" "lc_conditions L = Some (conditions_manager N (account_iface tu fu))"
    "lc_subroutines L = account_subroutines cfg M" "lc_terminator L = []"
  by (simp_all add: assms account_controller_Some new_lifecycle_def)

text \<open>The engine does not change what an Account is.\<close>

definition account_id :: "account \<Rightarrow> string \<times> account_spec" where
  "account_id x = (account_name x, acc_spec x)"

lemma account_id_set: "account_id (set_conditions account_conditions cs x) = account_id x"
  by (simp add: account_conditions_def account_id_def account_name_def)

lemma account_id_init: "account_id (cm_init (conditions_manager N (account_iface tu fu)) x ns) = account_id x"
proof -
  have e: "account_id (ensure_condition N account_conditions y n g) = account_id y" for y n g
    by (simp add: ensure_condition_def Let_def account_id_set)
  then have "account_id (foldl (\<lambda>x n. ensure_condition N account_conditions x n g) y ns) = account_id y" for y g
    by (induction ns arbitrary: y) simp_all
  with e show ?thesis
    by (simp add: conditions_manager_def init_unknown_conditions_def account_iface_def typed_iface_def Let_def)
qed

lemma account_id_subroutine: "account_id (cm_subroutine (conditions_manager N (account_iface tu fu)) x n r e b) = account_id x"
  by (auto simp: conditions_manager_def set_subroutine_condition_def account_iface_def typed_iface_def Let_def account_id_set
      split: prod.splits option.splits)

lemma account_id_remove: "account_id (remove_finalizer (account_iface tu fu) x f) = account_id x"
  by (simp add: account_iface_def typed_iface_def account_id_def account_name_def)

lemma account_init_name: "account_name (cm_init (conditions_manager N (account_iface tu fu)) x ns) = account_name x"
  using account_id_init [of N tu fu x ns] by (simp add: account_id_def)

text \<open>Of a deletion pass only the workspace's subroutine and then the types' are left.\<close>

lemma account_deletion_subs:
  assumes "L = the (account_controller N (account_iface tu fu) api de cc cfg M)" and "oc_workspace cfg"
  shows "run_phase L c True a w =
    run_subs L c True (account_workspace_subroutine M # (if oc_workspace_type cfg then [workspacetype_subroutine M] else []))
      (start_run (cm_init (conditions_manager N (account_iface tu fu)) a (map sub_name (lc_subroutines L))) w)"
proof -
  note L = account_controller_simps [OF assms(1)]
  have none: "as_finalizer (workspaceready_subroutine M) = None" "as_finalizer (accountinfo_subroutine M) = None"
    by (simp_all add: account_subroutine_defs)
  show ?thesis
    using assms(2)
    by (simp add: run_phase_def L account_subroutines_def run_sub_no_finalizer [OF L(4) none(1)]
        run_sub_no_finalizer [OF L(4) none(2)] Let_def)
qed

text \<open>The workspace was seen gone.\<close>

definition workspace_gone :: "'w account_manager \<Rightarrow> ('cl, 'v) ctx \<Rightarrow> string \<Rightarrow> 'w \<Rightarrow> bool" where
  "workspace_gone M c name w =
     (case ctx_cluster c of
        None \<Rightarrow> False
      | Some n \<Rightarrow>
          (case am_cluster M n w of
             Inl e \<Rightarrow> False
           | Inr cl \<Rightarrow>
               (case k_get (cc_workspaces cl) ([], name) w of Inl e \<Rightarrow> is_not_found e \<or> is_no_match e | Inr ws \<Rightarrow> False)))"

lemma wait_for_outcome [simp]: "fst (wait_for Q msg ob w) = ret (StopWithRequeue (fst (rq_when Q ob w)) msg)"
  by (simp add: wait_for_def split: prod.split)

lemma waiting_stops:
  "\<not> finalize_done ActionFinalize (ret (StopWithRequeue d msg))" "\<not> continues (ret (StopWithRequeue d msg))"
  by (simp_all add: finalize_done_def continues_def outcome_makers result_makers result_preds)

lemma account_workspace_finalize_outcome:
  assumes "out = fst (account_workspace_finalize M c a w)"
  shows "out = no_cluster_panic \<or> (\<exists>e. out = ret_err e) \<or> (\<exists>d msg. out = ret (StopWithRequeue d msg)) \<or>
    workspace_gone M c (account_name a) w"
  using assms
  by (auto simp: account_workspace_finalize_def workspace_gone_def split: option.splits sum.splits prod.splits if_splits)

lemma account_workspace_finalize_done:
  assumes "finalize_done ActionFinalize (fst (account_workspace_finalize M c a w))"
  shows "workspace_gone M c (account_name a) w"
  using account_workspace_finalize_outcome [OF refl, of M c a w] assms waiting_stops(1)
  by (auto simp: finalize_done_def no_cluster_panic_def ret_err_def)

lemma account_workspace_finalize_continues:
  assumes "continues (fst (account_workspace_finalize M c a w))"
  shows "finalize_done ActionFinalize (fst (account_workspace_finalize M c a w))"
  using assms
  by (auto simp: account_workspace_finalize_def finalize_done_def continues_def outcome_makers no_cluster_panic_def
      result_makers result_preds split: option.splits sum.splits prod.splits if_splits)

lemma info_deletion_pass:
  assumes "L = accountinfo_controller (info_iface tu fu) api de cc cfg M" and "oc_info_controller cfg"
    and "AccountInfoFinalizer \<in> set (m_finalizers (pa_meta i))"
    and "AccountInfoFinalizer \<notin> set (m_finalizers (pa_meta (rs_obj (run_phase L c True i w))))"
  shows "finalize_done ActionFinalize (fst (finalize_accountinfo M c i w))"
proof -
  let ?s = "finalize_accountinfo_subroutine M :: ('a, 'b, platform_info, 'c) subroutine"
  have eng: "engine (info_iface tu fu) L" unfolding assms(1) by (rule infos.engine_axioms)
  have L: "lc_iface L = info_iface tu fu" "lc_conditions L = None" "lc_subroutines L = [?s]" "lc_terminator L = []"
    using assms(2) by (simp_all add: assms(1) accountinfo_controller_def new_lifecycle_def)
  have act: "resolve_action L ?s i True = Some (finalize_accountinfo M, ActionFinalize)"
    using assms(3) by (auto simp: resolve_action_def finalize_action_def L finalize_accountinfo_subroutine_def
        has_any_finalizer_def info_iface_finalizers)
  obtain st' go where r: "run_sub L c True ?s [] (start_run i w) = (st', go)" by fastforce
  have "run_phase L c True i w = st'" by (cases go) (simp_all add: run_phase_def L r)
  moreover have "\<exists>ob. obj_finalizers (info_iface tu fu) (rs_obj st') =
      (if finalize_done ActionFinalize (fst (finalize_accountinfo M c (rs_obj (start_run i w)) (rs_world (start_run i w))))
       then filter (\<lambda>g. g \<notin> set (sub_finalizers ?s ob)) (obj_finalizers (info_iface tu fu) (rs_obj (start_run i w)))
       else obj_finalizers (info_iface tu fu) (rs_obj (start_run i w)))"
    by (rule engine.run_sub_finalizers [OF eng _ _ r]) (simp_all add: L act start_run_def)
  ultimately show ?thesis
    using assms(3,4) by (auto simp: info_iface_finalizers start_run_def split: if_splits)
qed

lemma finalize_accountinfo_done:
  assumes "finalize_done ActionFinalize (fst (finalize_accountinfo M c i w))"
  shows "\<exists>cl. am_from_context M (ctx_cluster c) w = Inr cl \<and> child_accounts cl w = Inr []"
  using assms waiting_stops(1) by (auto simp: finalize_accountinfo_def finalize_done_def ret_err_def split: sum.splits if_splits)

lemma account_deletion_pass:
  assumes "L = the (account_controller N (account_iface tu fu) api de cc cfg M)" and "oc_workspace cfg"
    and "WorkspaceTypeFinalizer \<in> set (m_finalizers (acc_meta a))"
    and "WorkspaceSubroutineFinalizer \<in> set (m_finalizers (acc_meta a))"
    and "WorkspaceTypeFinalizer \<notin> set (m_finalizers (acc_meta (rs_obj (run_phase L c True a w))))"
  shows "workspace_gone M c (account_name a) w"
proof -
  let ?s = "account_workspace_subroutine M :: ('a, 'b, account, 'c) subroutine" and ?I = "account_iface tu fu"
  let ?rest = "if oc_workspace_type cfg then [workspacetype_subroutine M :: ('a, 'b, account, 'c) subroutine] else []"
  let ?y = "cm_init (conditions_manager N ?I) a (map sub_name (lc_subroutines L))"
  let ?out = "fst (account_workspace_finalize M c ?y w)"
  note L = account_controller_simps [OF assms(1)]
  have eng: "engine ?I L" unfolding assms(1) by (rule accounts.engine_axioms)
  have y: "obj_finalizers ?I ?y = m_finalizers (acc_meta a)" "account_name ?y = account_name a"
    using account_obj.std_conditions.finalizers_init by (simp_all add: account_iface_finalizers account_init_name)
  have act: "resolve_action L ?s ?y True = Some (account_workspace_finalize M, ActionFinalize)"
    using assms(4) y(1) by (auto simp: resolve_action_def finalize_action_def L account_workspace_subroutine_def has_any_finalizer_def)
  obtain st' go where r: "run_sub L c True ?s ?rest (start_run ?y w) = (st', go)" by fastforce
  have go: "go \<longleftrightarrow> continues ?out"
    by (rule run_sub_flags(1) [OF _ _ r]) (simp_all add: act start_run_def)
  have fins: "\<exists>ob. obj_finalizers ?I (rs_obj st') =
      (if finalize_done ActionFinalize (fst (account_workspace_finalize M c (rs_obj (start_run ?y w)) (rs_world (start_run ?y w))))
       then filter (\<lambda>g. g \<notin> set (sub_finalizers ?s ob)) (obj_finalizers ?I (rs_obj (start_run ?y w)))
       else obj_finalizers ?I (rs_obj (start_run ?y w)))"
  proof (rule engine.run_sub_finalizers [OF eng _ _ r])
    show "?s \<in> set (lc_subroutines L)" using assms(2) by (simp add: L account_subroutines_def)
  qed (simp add: act start_run_def)
  have "finalize_done ActionFinalize ?out"
  proof (rule ccontr)
    assume n: "\<not> finalize_done ActionFinalize ?out"
    then have "\<not> go" using account_workspace_finalize_continues [of M c ?y w] go by blast
    then have "run_phase L c True a w = st'" using r by (simp add: account_deletion_subs [OF assms(1,2)])
    then show False using fins n assms(3,5) y(1) by (simp add: start_run_def account_iface_finalizers)
  qed
  then show ?thesis using account_workspace_finalize_done [of M c ?y w] y(2) by simp
qed

text \<open>While the workspace is there, the pass leaves the types alone.\<close>

lemma run_sub_world:
  assumes "lc_reporters L = []" and "resolve_action L sub (rs_obj st) deleting = Some (f, act)"
    and "run_sub L c deleting sub rest st = (st', go)"
  shows "rs_world st' = snd (snd (f c (rs_obj st) (rs_world st)))"
  using assms by (auto simp: run_sub_def on_error_def on_result_def Let_def split: prod.splits outcome.splits option.splits if_splits)

definition workspace_deletes_keep :: "'w account_manager \<Rightarrow> ('w \<Rightarrow> 'v) \<Rightarrow> bool" where
  "workspace_deletes_keep M seen \<longleftrightarrow>
     limiter_laws (am_workspace_limiter M) seen \<and>
     (\<forall>n w cl. am_cluster M n w = Inr cl \<longrightarrow> (\<forall>ws x. seen (snd (k_delete (cc_workspaces cl) ws x)) = seen x))"

lemma workspace_finalize_keeps:
  assumes "workspace_deletes_keep M seen"
  shows "seen (snd (snd (account_workspace_finalize M c a w))) = seen w"
proof -
  have lim: "limiter_laws (am_workspace_limiter M) seen" using assms by (simp add: workspace_deletes_keep_def)
  have del: "seen x = seen w" if "am_cluster M n w = Inr cl" "k_delete (cc_workspaces cl) ws w = (e, x)" for n cl ws e x
    using assms that unfolding workspace_deletes_keep_def by (metis snd_conv)
  show ?thesis
    using wait_for_view [OF lim] forget_view [OF lim] del
    by (auto simp: account_workspace_finalize_def split: option.split sum.split prod.split)
qed

lemma account_deletion_keeps:
  assumes "L = the (account_controller N (account_iface tu fu) api de cc cfg M)" and "oc_workspace cfg"
    and "workspace_deletes_keep M seen" and "WorkspaceSubroutineFinalizer \<in> set (m_finalizers (acc_meta a))"
    and "\<not> workspace_gone M c (account_name a) w"
  shows "seen (rs_world (run_phase L c True a w)) = seen w"
proof -
  let ?s = "account_workspace_subroutine M :: ('a, 'b, account, 'c) subroutine" and ?I = "account_iface tu fu"
  let ?rest = "if oc_workspace_type cfg then [workspacetype_subroutine M :: ('a, 'b, account, 'c) subroutine] else []"
  let ?y = "cm_init (conditions_manager N ?I) a (map sub_name (lc_subroutines L))"
  note L = account_controller_simps [OF assms(1)]
  have y: "obj_finalizers ?I ?y = m_finalizers (acc_meta a)" "account_name ?y = account_name a"
    using account_obj.std_conditions.finalizers_init by (simp_all add: account_iface_finalizers account_init_name)
  have act: "resolve_action L ?s ?y True = Some (account_workspace_finalize M, ActionFinalize)"
    using assms(4) y(1) by (auto simp: resolve_action_def finalize_action_def L account_workspace_subroutine_def has_any_finalizer_def)
  obtain st' go where r: "run_sub L c True ?s ?rest (start_run ?y w) = (st', go)" by fastforce
  have "\<not> go" using run_sub_flags(1) [OF _ refl r, of "account_workspace_finalize M" ActionFinalize] act
      account_workspace_finalize_continues [of M c ?y w] account_workspace_finalize_done [of M c ?y w] assms(5) y(2)
    by (auto simp: start_run_def)
  then have "run_phase L c True a w = st'" using r by (simp add: account_deletion_subs [OF assms(1,2)])
  moreover have "rs_world st' = snd (snd (account_workspace_finalize M c ?y w))"
    using run_sub_world [OF _ _ r] act by (simp add: start_run_def assms(1) account_controller_Some new_lifecycle_def)
  ultimately show ?thesis using workspace_finalize_keeps [OF assms(3)] by simp
qed

end
