(* ===== verification/Account_Example.thy ===== *)
theory Account_Example
  imports Account_Safety
begin

text \<open>
  A small kcp for closed instances: the workspaces of a cluster lie under its name, every cluster is reached by
  its name, and the subroutines share one limiter whose state is part of the world.
\<close>

subsection \<open>A limiter\<close>

definition doubling :: "duration \<Rightarrow> duration \<Rightarrow> ('k, 'k \<Rightarrow> nat) exponential_limiter" where
  "doubling base most =
     \<lparr>xl_when = (\<lambda>k x. (min most (base * 2 ^ x k), x(k := Suc (x k)))), xl_forget = (\<lambda>k x. x(k := 0)),
      xl_requeues = (\<lambda>k x. x k)\<rparr>"

lemma doubling_laws: "exponential_laws (doubling base most) base most"
  by (simp add: exponential_laws_def doubling_def)

subsection \<open>A world\<close>

type_synonym kcp_limits = "(object_key, object_key \<Rightarrow> nat) limiter_state"

record small_kcp =
  sk_infos :: "string \<rightharpoonup> platform_info"
  sk_workspaces :: "string \<times> string \<rightharpoonup> account_workspace"
  sk_types :: "string \<rightharpoonup> workspace_type"
  sk_accounts :: "string \<Rightarrow> account list"
  sk_limits :: kcp_limits
  sk_now :: gotime

definition gone :: err where
  "gone = Err NotFound ''not found''"

text \<open>What the server stores of a put; an error of the mutation ends it.\<close>

definition kcp_put :: "(small_kcp \<Rightarrow> 'k \<rightharpoonup> 'o) \<Rightarrow> (('k \<rightharpoonup> 'o) \<Rightarrow> small_kcp \<Rightarrow> small_kcp) \<Rightarrow> ('o \<Rightarrow> 'k) \<Rightarrow> ('o, small_kcp) put" where
  "kcp_put view store key f x w =
     (case f (case view w (key x) of None \<Rightarrow> x | Some y \<Rightarrow> y) of
        Inl e \<Rightarrow> (Some e, w)
      | Inr y \<Rightarrow> (None, store ((view w)(key x \<mapsto> y)) w))"

lemma kcp_put_law:
  assumes "\<And>v w. view (store v w) = v"
  shows "put_law core view (key x) (kcp_put view store key) x"
proof -
  have "view (snd (kcp_put view store key f x w)) = view w \<or>
      (\<exists>j0 j j'. f j0 = Inr j \<and> (view w (key x) = Some j0 \<or> view w (key x) = None \<and> j0 = x) \<and> core j' = core j \<and>
        view (snd (kcp_put view store key f x w)) = (view w)(key x \<mapsto> j'))" for f w
    by (cases "f (case view w (key x) of None \<Rightarrow> x | Some y \<Rightarrow> y)")
      (auto simp: kcp_put_def assms split: option.splits intro: exI)
  then show ?thesis by (simp add: put_law_def)
qed

definition kcp_get :: "(small_kcp \<Rightarrow> 'k \<rightharpoonup> 'o) \<Rightarrow> 'k \<Rightarrow> small_kcp \<Rightarrow> err + 'o" where
  "kcp_get view k w = (case view w k of None \<Rightarrow> Inl gone | Some x \<Rightarrow> Inr x)"

definition kcp_client ::
  "(string \<times> string \<Rightarrow> small_kcp \<Rightarrow> err + 'o) \<Rightarrow> ('o \<Rightarrow> small_kcp \<Rightarrow> err option \<times> small_kcp) \<Rightarrow> ('o, small_kcp) kind_client" where
  "kcp_client get del =
     \<lparr>k_get = get, k_list = (\<lambda>w. Inr []), k_create = (\<lambda>x w. (None, x, w)), k_update = (\<lambda>x w. (None, x, w)),
      k_status_update = (\<lambda>x w. (None, x, w)), k_delete = del\<rparr>"

text \<open>A workspace is Ready at once, with a cluster under the name of its parent.\<close>

definition below :: "string \<Rightarrow> string \<Rightarrow> string" where
  "below n name = n @ ''/'' @ name"

definition started :: "string \<Rightarrow> account_workspace \<Rightarrow> account_workspace" where
  "started n ws = ws\<lparr>aw_cluster := below n (aw_name ws), aw_url := ''https://kcp/'' @ below n (aw_name ws), aw_phase := PhaseReady\<rparr>"

definition small_kcp_cluster :: "string \<Rightarrow> small_kcp cluster_clients" where
  "small_kcp_cluster n =
     \<lparr>cc_workspaces = kcp_client
        (\<lambda>k w. map_sum (\<lambda>e. e) (\<lambda>ws. started n (ws\<lparr>aw_name := snd k\<rparr>)) (kcp_get sk_workspaces (n, snd k) w))
        (\<lambda>ws w. (None, sk_workspaces_update (\<lambda>m. m((n, aw_name ws) := None)) w)),
      cc_types = kcp_client (\<lambda>k. kcp_get sk_types (snd k)) (\<lambda>t w. (None, sk_types_update (\<lambda>m. m(wt_name t := None)) w)),
      cc_infos = kcp_client (\<lambda>k. kcp_get sk_infos n) (\<lambda>i w. (None, sk_infos_update (\<lambda>m. m(n := None)) w)),
      cc_accounts = (\<lambda>w. Inr (sk_accounts w n)),
      cc_put_workspace = kcp_put sk_workspaces (\<lambda>m. sk_workspaces_update (\<lambda>_. m)) (\<lambda>ws. (n, aw_name ws)),
      cc_put_type = kcp_put sk_types (\<lambda>m. sk_types_update (\<lambda>_. m)) wt_name,
      cc_put_info = kcp_put sk_infos (\<lambda>m. sk_infos_update (\<lambda>_. m)) (\<lambda>_. n)\<rparr>"

definition kcp_limiter :: "('o \<Rightarrow> objmeta) \<Rightarrow> ('o, small_kcp) requeue_limiter" where
  "kcp_limiter meta =
     object_limiter (NewConfig []) (doubling (seconds 2) (seconds 1000)) sk_now (account_keyOf (\<lambda>_. []) meta) sk_limits
       (\<lambda>s. sk_limits_update (\<lambda>_. s))"

definition small_kcp_manager :: "small_kcp account_manager" where
  "small_kcp_manager =
     \<lparr>am_cluster = (\<lambda>n w. Inr (small_kcp_cluster n)),
      am_from_context = (\<lambda>n w. case n of None \<Rightarrow> Inl gone | Some n \<Rightarrow> Inr (small_kcp_cluster n)),
      am_own = (\<lambda>a ws. Inr (ws\<lparr>aw_owners := [account_name a]\<rparr>)), am_ca = ''ca'',
      am_workspace_limiter = kcp_limiter acc_meta, am_info_limiter = kcp_limiter acc_meta,
      am_ready_limiter = kcp_limiter acc_meta, am_finalize_limiter = kcp_limiter pa_meta\<rparr>"

subsection \<open>Its laws\<close>

lemma kcp_limiter_laws:
  assumes "\<And>s w. seen (sk_limits_update (\<lambda>_. s) w) = seen w"
  shows "limiter_laws (kcp_limiter meta) seen"
  unfolding kcp_limiter_def
  by (rule object_limiter_laws)
    (simp_all add: NewConfig_def defaultConfig_def validate_limiter_def seconds_def doubling_laws assms)

lemma small_kcp_simps [simp]:
  "am_cluster small_kcp_manager n w = Inr (small_kcp_cluster n)"
  "am_own small_kcp_manager a ws = Inr (ws\<lparr>aw_owners := [account_name a]\<rparr>)"
  "am_workspace_limiter small_kcp_manager = kcp_limiter acc_meta"
  "am_info_limiter small_kcp_manager = kcp_limiter acc_meta"
  by (simp_all add: small_kcp_manager_def)

lemma small_info_laws: "info_laws small_kcp_manager (\<lambda>n. n) sk_infos"
proof -
  have "put_law info_core sk_infos n (cc_put_info (small_kcp_cluster n)) new_info" for n
    using kcp_put_law [where core = info_core and view = sk_infos and store = "\<lambda>m. sk_infos_update (\<lambda>_. m)"
        and key = "\<lambda>_. n" and x = new_info]
    by (simp add: small_kcp_cluster_def)
  moreover have "sk_infos w n = Some i" if "k_get (cc_infos (small_kcp_cluster n)) k w = Inr i" for n k w i
    using that by (simp add: small_kcp_cluster_def kcp_client_def kcp_get_def split: option.splits)
  ultimately show ?thesis by (simp add: info_laws_def kcp_limiter_laws)
qed

lemma small_workspace_laws: "workspace_laws small_kcp_manager (\<lambda>n. n) sk_workspaces"
proof -
  have "put_law workspace_core sk_workspaces (n, name) (cc_put_workspace (small_kcp_cluster n)) (new_account_workspace name)" for n name
    using kcp_put_law [where core = workspace_core and view = sk_workspaces and store = "\<lambda>m. sk_workspaces_update (\<lambda>_. m)"
        and key = "\<lambda>ws. (n, aw_name ws)" and x = "new_account_workspace name"]
    by (simp add: small_kcp_cluster_def new_account_workspace_def)
  then show ?thesis by (auto simp: workspace_laws_def kcp_limiter_laws workspace_core_def)
qed

lemma small_type_laws: "type_laws small_kcp_manager sk_types"
proof -
  have "put_law type_core sk_types name (cc_put_type (small_kcp_cluster n)) (new_type name)" for n name
    using kcp_put_law [where core = type_core and view = sk_types and store = "\<lambda>m. sk_types_update (\<lambda>_. m)"
        and key = wt_name and x = "new_type name"]
    by (simp add: small_kcp_cluster_def new_type_def)
  moreover have "sk_types (snd (k_delete (cc_types (small_kcp_cluster n)) t w)) \<subseteq>\<^sub>m sk_types w" for n t w
    by (simp add: small_kcp_cluster_def kcp_client_def map_le_def)
  ultimately show ?thesis by (simp add: type_laws_def)
qed

subsection \<open>An organization and a team\<close>

definition an_account :: "string \<Rightarrow> string \<Rightarrow> gotime option \<Rightarrow> string list \<Rightarrow> account" where
  "an_account name type deletion fins =
     \<lparr>acc_meta = (new_meta name)\<lparr>m_deletion := deletion, m_finalizers := fins\<rparr>,
      acc_spec = \<lparr>aspec_type = type, aspec_display = name, aspec_description = None, aspec_creator = None,
        aspec_extensions = [], aspec_data = None\<rparr>,
      acc_status = \<lparr>acc_conditions = [], acc_observed_generation = 0, acc_next_reconcile_time = None\<rparr>\<rparr>"

definition acme :: account where
  "acme = an_account ''acme'' AccountTypeOrg None []"

definition team :: account where
  "team = an_account ''team'' AccountTypeAccount None []"

definition acme_accounts :: "(string \<times> account) set" where
  "acme_accounts = {(''orgs'', acme), (below ''orgs'' ''acme'', team)}"

definition acme_origin :: origins where
  "acme_origin =
     [below ''orgs'' ''acme'' \<mapsto> (''orgs'', ''acme'', AccountTypeOrg),
      below (below ''orgs'' ''acme'') ''team'' \<mapsto> (below ''orgs'' ''acme'', ''team'', AccountTypeAccount)]"

lemma acme_tree: "workspace_tree small_kcp_manager (\<lambda>n. n) acme_origin acme_accounts"
proof -
  have c: "aw_cluster ws = below n name" if "k_get (cc_workspaces (small_kcp_cluster n)) ([], name) w = Inr ws" for n name w ws
    using that by (auto simp: small_kcp_cluster_def kcp_client_def kcp_get_def started_def split: option.splits)
  have "acme_origin (below ''orgs'' ''acme'') = Some (''orgs'', ''acme'', AccountTypeOrg)"
    by (simp add: acme_origin_def below_def)
  moreover have "acme_origin (below (below ''orgs'' ''acme'') ''team'') = Some (below ''orgs'' ''acme'', ''team'', AccountTypeAccount)"
    by (simp add: acme_origin_def)
  ultimately show ?thesis
    using c by (fastforce simp: workspace_tree_def acme_accounts_def acme_def team_def an_account_def account_name_def
        account_type_def new_meta_def)
qed

definition kcp_world :: "(string \<times> string \<rightharpoonup> account_workspace) \<Rightarrow> (string \<rightharpoonup> workspace_type) \<Rightarrow> small_kcp" where
  "kcp_world ws ts =
     \<lparr>sk_infos = Map.empty, sk_workspaces = ws, sk_types = ts, sk_accounts = (\<lambda>_. []),
      sk_limits = \<lparr>ls_attempts = Map.empty, ls_exponential = (\<lambda>_. 0)\<rparr>, sk_now = 0\<rparr>"

definition in_cluster :: "string \<Rightarrow> (unit, unit) ctx" where
  "in_cluster n = \<lparr>ctx_cluster = Some n, ctx_client = Some (), ctx_values = ()\<rparr>"

text \<open>The workspaces exist; the AccountInfos are written from the top.\<close>

definition acme_start :: small_kcp where
  "acme_start = kcp_world
     [(''orgs'', ''acme'') \<mapsto> new_account_workspace ''acme'',
      (below ''orgs'' ''acme'', ''team'') \<mapsto> new_account_workspace ''team'']
     [GetWorkspaceTypeName ''acme'' AccountTypeAccount \<mapsto> (new_type [])\<lparr>wt_ready := True\<rparr>]"

definition acme_after_org :: small_kcp where
  "acme_after_org = snd (snd (accountinfo_process small_kcp_manager (in_cluster ''orgs'') acme acme_start))"

definition acme_after_team :: small_kcp where
  "acme_after_team = snd (snd (accountinfo_process small_kcp_manager (in_cluster (below ''orgs'' ''acme'')) team acme_after_org))"

lemma acme_run:
  "(info_step small_kcp_manager sk_infos acme_accounts)\<^sup>*\<^sup>* acme_start acme_after_team"
proof -
  have "info_step small_kcp_manager sk_infos acme_accounts acme_start acme_after_org"
    by (rule info_step.reconcile [of "''orgs''" acme _ "in_cluster ''orgs''"])
      (simp_all add: acme_accounts_def in_cluster_def acme_after_org_def prod_eq_iff)
  moreover have "info_step small_kcp_manager sk_infos acme_accounts acme_after_org acme_after_team"
    by (rule info_step.reconcile [of "below ''orgs'' ''acme''" team _ "in_cluster (below ''orgs'' ''acme'')"])
      (simp_all add: acme_accounts_def in_cluster_def acme_after_team_def prod_eq_iff)
  ultimately show ?thesis by (meson converse_rtranclp_into_rtranclp rtranclp.rtrancl_refl)
qed

text \<open>Evaluating the subroutines on this world.\<close>

lemma started_simps [simp]:
  "aw_phase (started n ws) = PhaseReady" "aw_cluster (started n ws) = below n (aw_name ws)"
  by (simp_all add: started_def)

lemma kcp_workspace [simp]:
  "k_get (cc_workspaces (small_kcp_cluster n)) k w =
     (case sk_workspaces w (n, snd k) of None \<Rightarrow> Inl gone | Some ws \<Rightarrow> Inr (started n (ws\<lparr>aw_name := snd k\<rparr>)))"
  by (simp add: small_kcp_cluster_def kcp_client_def kcp_get_def split: option.split)

lemma kcp_info [simp]:
  "k_get (cc_infos (small_kcp_cluster n)) k w = (case sk_infos w n of None \<Rightarrow> Inl gone | Some i \<Rightarrow> Inr i)"
  by (simp add: small_kcp_cluster_def kcp_client_def kcp_get_def split: option.split)

lemma kcp_put_info [simp]:
  "cc_put_info (small_kcp_cluster n) f x w =
     (case f (case sk_infos w n of None \<Rightarrow> x | Some y \<Rightarrow> y) of
        Inl e \<Rightarrow> (Some e, w) | Inr y \<Rightarrow> (None, sk_infos_update (\<lambda>_. (sk_infos w)(n \<mapsto> y)) w))"
  by (simp add: small_kcp_cluster_def kcp_put_def)

lemma kcp_forget [simp]:
  "sk_infos (rq_forget (kcp_limiter meta) ob w) = sk_infos w" "sk_workspaces (rq_forget (kcp_limiter meta) ob w) = sk_workspaces w"
  "sk_types (rq_forget (kcp_limiter meta) ob w) = sk_types w"
  by (simp_all add: kcp_limiter_def object_limiter_def)

lemma accounts_simps [simp]:
  "account_name acme = ''acme''" "account_name team = ''team''" "account_type acme = AccountTypeOrg"
  "account_type team = AccountTypeAccount" "AccountTypeAccount \<noteq> AccountTypeOrg"
  by (simp_all add: acme_def team_def an_account_def account_name_def account_type_def new_meta_def
      AccountTypeAccount_def AccountTypeOrg_def)

lemma acme_path:
  "retrieveCurrentWorkspacePath (started ''orgs'' (new_account_workspace ''acme'')) = Inr (''acme'', ''https://kcp/orgs/acme'')"
  "retrieveCurrentWorkspacePath (started (below ''orgs'' ''acme'') (new_account_workspace ''team'')) =
     Inr (''team'', ''https://kcp/orgs/acme/team'')"
  by (simp_all add: retrieveCurrentWorkspacePath_def started_def below_def new_account_workspace_def trim_space_def is_space_def)

lemma renamed [simp]: "(new_account_workspace n)\<lparr>aw_name := m\<rparr> = new_account_workspace m" "aw_name (new_account_workspace n) = n"
  by (simp_all add: new_account_workspace_def)

lemma acme_start_simps [simp]:
  "sk_infos acme_start = Map.empty" "sk_workspaces acme_start (''orgs'', ''acme'') = Some (new_account_workspace ''acme'')"
  "sk_workspaces acme_start (below ''orgs'' ''acme'', ''team'') = Some (new_account_workspace ''team'')"
  "sk_types acme_start = [GetWorkspaceTypeName ''acme'' AccountTypeAccount \<mapsto> (new_type [])\<lparr>wt_ready := True\<rparr>]"
  by (simp_all add: acme_start_def kcp_world_def below_def)

lemma below_differ [simp]: "below (below n x) y \<noteq> below n x" "below n x \<noteq> below (below n x) y"
  by (simp_all add: below_def)

definition acme_location :: info_location where
  "acme_location = self_location acme ''orgs'' (started ''orgs'' (new_account_workspace ''acme'')) ''acme'' ''https://kcp/orgs/acme''"

definition acme_info :: platform_info where
  "acme_info = new_info\<lparr>pa_account := acme_location, pa_parent := None, pa_organization := acme_location, pa_ca := ''ca''\<rparr>"

lemma acme_after_org_simps [simp]:
  "sk_infos acme_after_org = [below ''orgs'' ''acme'' \<mapsto> acme_info]"
  "sk_workspaces acme_after_org = sk_workspaces acme_start" "sk_types acme_after_org = sk_types acme_start"
  by (simp_all add: acme_after_org_def accountinfo_process_def in_cluster_def acme_path put_org_info_def org_info_mutation_def
      acme_info_def acme_location_def small_kcp_manager_def [THEN arg_cong, of am_ca] Let_def)

lemma acme_after_team_simps:
  "\<exists>i. sk_infos acme_after_team = [below ''orgs'' ''acme'' \<mapsto> acme_info, below (below ''orgs'' ''acme'') ''team'' \<mapsto> i]
     \<and> pa_organization i = acme_location"
  "sk_workspaces acme_after_team = sk_workspaces acme_start" "sk_types acme_after_team = sk_types acme_start"
  by (simp_all add: acme_after_team_def accountinfo_process_def in_cluster_def acme_path put_child_info_def
      child_info_mutation_def Let_def) (auto simp: acme_info_def fun_upd_twist)

lemma acme_location_name [simp]: "al_name acme_location = ''acme''" "pa_organization acme_info = acme_location"
  by (simp_all add: acme_location_def self_location_def acme_info_def)

lemma kcp_writes:
  "k_get (cc_types (small_kcp_cluster n)) k w = kcp_get sk_types (snd k) w"
  "cc_put_workspace (small_kcp_cluster n) = kcp_put sk_workspaces (\<lambda>m. sk_workspaces_update (\<lambda>_. m)) (\<lambda>ws. (n, aw_name ws))"
  "cc_put_type (small_kcp_cluster n) = kcp_put sk_types (\<lambda>m. sk_types_update (\<lambda>_. m)) wt_name"
  by (simp_all add: small_kcp_cluster_def kcp_client_def)

lemma new_type_name: "wt_name (new_type n) = n"
  by (simp add: new_type_def)

lemma put_type_small:
  "sk_types (snd (createOrPatchWorkspaceType small_kcp_manager d w)) =
     (sk_types w)(wt_name d \<mapsto> projr (type_mutation d (case sk_types w (wt_name d) of None \<Rightarrow> new_type (wt_name d) | Some t \<Rightarrow> t)))"
  "fst (createOrPatchWorkspaceType small_kcp_manager d w) = None"
  by (simp_all add: createOrPatchWorkspaceType_def kcp_writes kcp_put_def type_mutation_def new_type_name)

lemma type_process_small:
  assumes "account_type a = AccountTypeOrg"
  shows "dom (sk_types (snd (snd (workspacetype_process small_kcp_manager c a w)))) =
    dom (sk_types w) \<union> {wt_name (fst (org_types a)), wt_name (snd (org_types a))}"
proof -
  obtain w1 where 1: "createOrPatchWorkspaceType small_kcp_manager (fst (org_types a)) w = (None, w1)"
    using put_type_small(2) by (metis prod.collapse)
  obtain w2 where 2: "createOrPatchWorkspaceType small_kcp_manager (snd (org_types a)) w1 = (None, w2)"
    using put_type_small(2) by (metis prod.collapse)
  show ?thesis
    using put_type_small(1) [of "fst (org_types a)" w] put_type_small(1) [of "snd (org_types a)" w1] assms 1 2
    by (auto simp: workspacetype_process_def)
qed

text \<open>Two organizations write their types.\<close>

definition beta :: account where
  "beta = an_account ''beta'' AccountTypeOrg None []"

definition with_types :: "account \<Rightarrow> small_kcp \<Rightarrow> small_kcp" where
  "with_types a w = snd (snd (workspacetype_process small_kcp_manager (in_cluster ''orgs'') a w))"

lemma with_types_step:
  assumes "a \<in> accts"
  shows "type_step small_kcp_manager sk_types accts w (with_types a w)"
  unfolding with_types_def by (rule type_step.process [OF assms surjective_triple])

definition two_orgs :: small_kcp where
  "two_orgs = with_types beta (with_types acme (kcp_world Map.empty Map.empty))"

lemma two_orgs_run:
  "(type_step small_kcp_manager sk_types {acme, beta})\<^sup>*\<^sup>* (kcp_world Map.empty Map.empty) two_orgs"
proof -
  have "type_step small_kcp_manager sk_types {acme, beta} (kcp_world Map.empty Map.empty) (with_types acme (kcp_world Map.empty Map.empty))"
    by (rule with_types_step) simp
  moreover have "type_step small_kcp_manager sk_types {acme, beta} (with_types acme (kcp_world Map.empty Map.empty)) two_orgs"
    unfolding two_orgs_def by (rule with_types_step) simp
  ultimately show ?thesis by (meson converse_rtranclp_into_rtranclp rtranclp.rtrancl_refl)
qed

lemma two_orgs_types: "''acme-org'' \<in> dom (sk_types two_orgs)" "''beta-account'' \<in> dom (sk_types two_orgs)"
proof -
  have t: "account_type beta = AccountTypeOrg" "account_name beta = ''beta''"
    by (simp_all add: beta_def an_account_def account_type_def account_name_def new_meta_def)
  show "''acme-org'' \<in> dom (sk_types two_orgs)" "''beta-account'' \<in> dom (sk_types two_orgs)"
    by (simp_all add: two_orgs_def with_types_def type_process_small t org_types_def generateOrgWorkspaceType_def
        generateAccountWorkspaceType_def GetWorkspaceTypeName_def Let_def AccountTypeOrg_def AccountTypeAccount_def)
qed

text \<open>Deleting: an Account whose workspace is gone, an AccountInfo without accounts.\<close>

definition every_subroutine :: account_operator_config where
  "every_subroutine = \<lparr>oc_workspace_type = True, oc_workspace = True, oc_account_info = True, oc_workspace_ready = True,
     oc_info_controller = True\<rparr>"

definition idle_api :: "(unit, 'o, small_kcp) engine_api" where
  "idle_api = \<lparr>api_get = (\<lambda>cl k w. Inl gone), api_patch = (\<lambda>cl x y w. (None, x, w)), api_status_patch = (\<lambda>cl x y w. (None, x, w))\<rparr>"

definition deleted_acme :: account where
  "deleted_acme = an_account ''acme'' AccountTypeOrg (Some 1) [WorkspaceSubroutineFinalizer, WorkspaceTypeFinalizer]"

definition types_left :: small_kcp where
  "types_left = kcp_world Map.empty [''acme-org'' \<mapsto> new_type ''acme-org'']"

lemma small_deletes_keep: "workspace_deletes_keep small_kcp_manager sk_types"
  by (simp add: workspace_deletes_keep_def kcp_limiter_laws) (simp add: small_kcp_cluster_def kcp_client_def)

lemma remove_account_finalizer:
  "m_finalizers (acc_meta (remove_finalizer (account_iface tu fu) x f)) = removeAll f (m_finalizers (acc_meta x))"
  by (simp add: account_iface_def typed_iface_def)

lemma account_finalizers_differ: "WorkspaceSubroutineFinalizer \<noteq> WorkspaceTypeFinalizer"
  by (simp add: WorkspaceSubroutineFinalizer_def WorkspaceTypeFinalizer_def)

lemma deletion_drops_types:
  assumes "L = the (account_controller N (account_iface tu fu) api de cc every_subroutine small_kcp_manager)"
  shows "sk_types (rs_world (run_phase L (in_cluster ''orgs'') True deleted_acme types_left)) \<noteq> sk_types types_left"
proof -
  let ?I = "account_iface tu fu" and ?M = small_kcp_manager and ?c = "in_cluster ''orgs''"
  let ?s = "account_workspace_subroutine ?M :: (unit, unit, account, small_kcp) subroutine"
  let ?t = "workspacetype_subroutine ?M :: (unit, unit, account, small_kcp) subroutine"
  let ?y = "cm_init (conditions_manager N ?I) deleted_acme (map sub_name (lc_subroutines L))"
  let ?w1 = "rq_forget (kcp_limiter acc_meta) ?y types_left"
  note L = account_controller_simps [OF assms]
  have every: "oc_workspace every_subroutine" "oc_workspace_type every_subroutine" by (simp_all add: every_subroutine_def)
  have fins: "obj_finalizers ?I ?y = [WorkspaceSubroutineFinalizer, WorkspaceTypeFinalizer]"
    using account_obj.std_conditions.finalizers_init
    by (simp add: account_iface_finalizers deleted_acme_def an_account_def)
  have f: "account_workspace_finalize ?M ?c ?y types_left = (ret OK, ?y, ?w1)"
    by (simp add: account_workspace_finalize_def in_cluster_def types_left_def kcp_world_def gone_def is_not_found_def)
  have act: "resolve_action L ?s ?y True = Some (account_workspace_finalize ?M, ActionFinalize)"
    using fins by (auto simp: resolve_action_def finalize_action_def L account_workspace_subroutine_def has_any_finalizer_def)
  obtain st1 go where r: "run_sub L ?c True ?s [?t] (start_run ?y types_left) = (st1, go)" by fastforce
  have st1: "rs_world st1 = ?w1" "go" "account_id (rs_obj st1) = account_id deleted_acme"
      "m_finalizers (acc_meta (rs_obj st1)) = [WorkspaceTypeFinalizer]"
    using r act f fins account_obj.std_conditions.finalizers_subroutine [where tu = tu and fu = fu and M = N]
    by (auto simp: run_sub_def start_run_def on_result_def drop_finalizers_def set_sub_condition_def L Let_def
        outcome_makers result_makers result_preds account_workspace_subroutine_def account_id_remove account_id_subroutine
        account_id_init account_iface_finalizers remove_account_finalizer account_finalizers_differ
        split: if_splits)
  have id: "account_name (rs_obj st1) = ''acme''" "account_type (rs_obj st1) = AccountTypeOrg"
    using st1(3) by (simp_all add: account_id_def account_type_def account_name_def deleted_acme_def an_account_def new_meta_def)
  have act2: "resolve_action L ?t (rs_obj st1) True = Some (workspacetype_finalize ?M, ActionFinalize)"
    using st1(4) id by (auto simp: resolve_action_def finalize_action_def L workspacetype_subroutine_def
        has_any_finalizer_def account_iface_finalizers workspacetype_finalizers_def)
  obtain st2 go2 where r2: "run_sub L ?c True ?t [] st1 = (st2, go2)" by fastforce
  have "rs_world st2 = snd (snd (workspacetype_finalize ?M ?c (rs_obj st1) ?w1))"
    using run_sub_world [OF _ act2 r2] st1(1) by (simp add: assms account_controller_Some new_lifecycle_def)
  then have "sk_types (rs_world st2) ''acme-org'' = None"
    using id by (simp add: workspacetype_finalize_def small_kcp_cluster_def kcp_client_def ignore_not_found_def new_type_def
        GetWorkspaceTypeName_def AccountTypeOrg_def AccountTypeAccount_def)
  moreover have "run_phase L ?c True deleted_acme types_left = st2"
    using r r2 st1(2) every by (cases go2) (simp_all add: account_deletion_subs [OF assms every(1)])
  ultimately show ?thesis by (auto simp: types_left_def kcp_world_def)
qed

definition an_info :: platform_info where
  "an_info = new_info\<lparr>pa_meta := (new_meta DefaultAccountInfoName)\<lparr>m_deletion := Some 1, m_finalizers := [AccountInfoFinalizer]\<rparr>\<rparr>"

lemma info_released:
  assumes "L = accountinfo_controller (info_iface tu fu) api de cc every_subroutine small_kcp_manager"
  shows "AccountInfoFinalizer \<notin> set (m_finalizers (pa_meta (rs_obj (run_phase L (in_cluster ''orgs'') True an_info types_left))))"
  by (simp add: assms run_phase_def accountinfo_controller_def new_lifecycle_def every_subroutine_def
      finalize_accountinfo_subroutine_def run_sub_def resolve_action_def finalize_action_def has_any_finalizer_def
      info_iface_def typed_iface_def an_info_def finalize_accountinfo_def child_accounts_def small_kcp_manager_def
      in_cluster_def small_kcp_cluster_def types_left_def kcp_world_def start_run_def on_result_def drop_finalizers_def
      set_sub_condition_def Let_def outcome_makers result_makers result_preds)

end
