(* ===== verification/Account_Props.thy ===== *)
theory Account_Props
  imports Account_Example Lifecycle_Props
begin

text \<open>The properties of the account operator and of the rate limiter.\<close>

subsection \<open>The rate limiter\<close>

text \<open>
  C35. While an item is not forgotten its requeue delays never get shorter as time passes, whatever happens to
  other items; each lies between the static delay and the maximum; after Forget the next one is static again.
\<close>

theorem requeue_delays_grow:
  assumes "validate_limiter C = None" and "rl_static C \<le> rl_max C" and "exponential_laws X (rl_initial C) (rl_max C)"
    and "sorted (call_times cs)" and "Release k \<notin> set cs"
  shows "sorted (delays_of k (limiter_run C X cs s)) \<and>
    (\<forall>d \<in> set (delays_of k (limiter_run C X cs s)). rl_static C \<le> d \<and> d \<le> rl_max C) \<and>
    fst (limiter_When C X t k (limiter_Forget X k s)) = rl_static C"
proof (intro conjI)
  obtain t0 where t0: "sorted (t0 # call_times cs)" using assms(4) by (cases "call_times cs") auto
  note run = limiter_run_floor [OF assms(1-3) t0 assms(5), of s]
  show "sorted (delays_of k (limiter_run C X cs s))" using run by simp
  show "\<forall>d \<in> set (delays_of k (limiter_run C X cs s)). rl_static C \<le> d \<and> d \<le> rl_max C"
    using run next_delay_bounds(1) [OF assms(1-3), of t0 k s] by force
  show "fst (limiter_When C X t k (limiter_Forget X k s)) = rl_static C"
    using Forget_resets by (simp add: next_delay_def)
qed

theorem requeue_delays_grow_witness:
  "let C = NewConfig []; X = doubling (seconds 2) (seconds 1000); s = \<lparr>ls_attempts = Map.empty, ls_exponential = (\<lambda>_. 0)\<rparr>;
     cs = [Ask 0 ''a'', Release ''b'', Ask (seconds 30) ''a'', Ask (seconds 61) ''a'', Ask (seconds 62) ''a''] in
   delays_of ''a'' (limiter_run C X cs s) = [seconds 2, seconds 2, seconds 2, seconds 4] \<and>
   sorted (delays_of ''a'' (limiter_run C X cs s)) \<and>
   (\<forall>d \<in> set (delays_of ''a'' (limiter_run C X cs s)). rl_static C \<le> d \<and> d \<le> rl_max C)"
proof -
  let ?C = "NewConfig []" and ?X = "doubling (seconds 2) (seconds 1000) :: (string, string \<Rightarrow> nat) exponential_limiter"
  let ?cs = "[Ask 0 ''a'', Release ''b'', Ask (seconds 30) ''a'', Ask (seconds 61) ''a'', Ask (seconds 62) ''a'']"
  have C: "validate_limiter ?C = None" "rl_static ?C \<le> rl_max ?C" "exponential_laws ?X (rl_initial ?C) (rl_max ?C)"
    by (simp_all add: NewConfig_def defaultConfig_def validate_limiter_def seconds_def doubling_laws)
  have "sorted (call_times ?cs)" "Release ''a'' \<notin> set ?cs" by (simp_all add: seconds_def)
  from requeue_delays_grow [OF C this]
  have run: "sorted (delays_of ''a'' (limiter_run ?C ?X ?cs \<lparr>ls_attempts = Map.empty, ls_exponential = (\<lambda>_. 0)\<rparr>))"
    "\<forall>d \<in> set (delays_of ''a'' (limiter_run ?C ?X ?cs \<lparr>ls_attempts = Map.empty, ls_exponential = (\<lambda>_. 0)\<rparr>)). rl_static ?C \<le> d \<and> d \<le> rl_max ?C"
    by blast+
  show ?thesis unfolding Let_def
  proof (intro conjI run)
    show "delays_of ''a'' (limiter_run ?C ?X ?cs \<lparr>ls_attempts = Map.empty, ls_exponential = (\<lambda>_. 0)\<rparr>)
        = [seconds 2, seconds 2, seconds 2, seconds 4]"
      by (simp add: limiter_When_def limiter_Forget_def NewConfig_def defaultConfig_def seconds_def doubling_def)
  qed
qed

subsection \<open>AccountInfos\<close>

text \<open>
  C31. Starting without AccountInfos, in every state that reconciling accounts reaches, each AccountInfo names the
  organization at the root of its workspace's account, has that account's name and type, and names as its
  parent the account of the workspace above exactly when the account is not an organization.
\<close>

theorem infos_name_root_organization:
  assumes "info_laws M id_of I" and "workspace_tree M id_of origin accts"
    and "(info_step M I accts)\<^sup>*\<^sup>* w0 w" and "\<forall>n. I w0 n = None" and "I w n = Some i"
  shows "root_org origin n (al_name (pa_organization i)) \<and>
    (\<exists>p. origin n = Some (p, al_name (pa_account i), al_type (pa_account i)) \<and>
      (case pa_parent i of None \<Rightarrow> al_type (pa_account i) = AccountTypeOrg
       | Some l \<Rightarrow> al_type (pa_account i) \<noteq> AccountTypeOrg \<and> (\<exists>pp type. origin p = Some (pp, al_name l, type))))"
proof -
  have "infos_ok origin (I w0)" using assms(4) by (simp add: infos_ok_def)
  then have "info_ok origin n i" using info_steps_ok [OF assms(1-3)] assms(5) by (simp add: infos_ok_def)
  then show ?thesis by (auto simp: info_ok_def split: option.splits)
qed

theorem infos_name_root_organization_witness:
  "let n = below (below ''orgs'' ''acme'') ''team'' in
   \<exists>i. sk_infos acme_after_team n = Some i \<and> al_name (pa_organization i) = ''acme'' \<and> root_org acme_origin n (al_name (pa_organization i))"
proof -
  let ?n = "below (below ''orgs'' ''acme'') ''team''"
  obtain i where "sk_infos acme_after_team = [below ''orgs'' ''acme'' \<mapsto> acme_info, ?n \<mapsto> i]" "pa_organization i = acme_location"
    using acme_after_team_simps(1) by blast
  then have i: "sk_infos acme_after_team ?n = Some i" "al_name (pa_organization i) = ''acme''" by simp_all
  have none: "\<forall>n. sk_infos acme_start n = None" by (simp add: acme_start_def kcp_world_def)
  have "root_org acme_origin ?n (al_name (pa_organization i))"
    by (rule infos_name_root_organization [where I = sk_infos and w = acme_after_team,
          OF small_info_laws acme_tree acme_run none i(1), THEN conjunct1])
  with i show ?thesis unfolding Let_def by blast
qed

subsection \<open>Workspaces\<close>

text \<open>
  C32. In every state that reconciling accounts reaches, the workspace subroutine writes no workspace but the one
  of its account, and gives it the type of the organization at the root, which is Ready in \<^verbatim>\<open>root:orgs\<close>.
\<close>

theorem workspaces_get_type_of_organization:
  assumes "info_laws M id_of I" and "workspace_tree M id_of origin accts"
    and "(info_step M I accts)\<^sup>*\<^sup>* w0 w" and "\<forall>n. I w0 n = None"
    and "workspace_laws M id_of W" and "account_workspace_process M c a w = (out, a', w')" and "W w' k \<noteq> W w k"
  shows "\<exists>n org oc t ws. ctx_cluster c = Some n \<and> k = (id_of n, account_name a) \<and> W w' k = Some ws \<and>
    aw_type ws = Some (org_type_ref (GetWorkspaceTypeName org (account_type a))) \<and>
    (if account_type a = AccountTypeOrg then org = account_name a else root_org origin (id_of n) org) \<and>
    am_cluster M orgsPath w = Inr oc \<and>
    k_get (cc_types oc) ([], GetWorkspaceTypeName org (account_type a)) w = Inr t \<and> wt_ready t"
proof -
  obtain n cl ty oc t ws where p: "ctx_cluster c = Some n" "am_cluster M n w = Inr cl"
    "workspace_type_name cl a w = Inr (Inr ty)" "am_cluster M orgsPath w = Inr oc"
    "k_get (cc_types oc) ([], ty) w = Inr t" "wt_ready t"
    "k = (id_of n, account_name a)" "W w' k = Some ws" "aw_type ws = Some (org_type_ref ty)"
    by (rule workspace_written [OF assms(5-7)])
  from p(3) show ?thesis
  proof (cases rule: workspace_type_name_org)
    case org
    with p show ?thesis by auto
  next
    case (child i)
    have "I w (id_of n) = Some i" using assms(1) p(2) child(2) unfolding info_laws_def by blast
    moreover have "infos_ok origin (I w)" by (rule info_steps_ok [OF assms(1-3)]) (simp add: infos_ok_def assms(4))
    ultimately have "root_org origin (id_of n) (al_name (pa_organization i))" by (simp add: infos_ok_def info_ok_def)
    with p child show ?thesis by auto
  qed
qed

theorem workspaces_get_type_of_organization_witness:
  "let n = below ''orgs'' ''acme''; w = acme_after_team;
     w' = snd (snd (account_workspace_process small_kcp_manager (in_cluster n) team w)) in
   \<exists>org ws. sk_workspaces w' (n, ''team'') = Some ws \<and>
     aw_type ws = Some (org_type_ref (GetWorkspaceTypeName org AccountTypeAccount)) \<and> root_org acme_origin n org"
proof -
  let ?n = "below ''orgs'' ''acme''"
  let ?w' = "snd (snd (account_workspace_process small_kcp_manager (in_cluster ?n) team acme_after_team))"
  have none: "\<forall>n. sk_infos acme_start n = None" by (simp add: acme_start_def kcp_world_def)
  have run: "account_workspace_process small_kcp_manager (in_cluster ?n) team acme_after_team =
      (fst (account_workspace_process small_kcp_manager (in_cluster ?n) team acme_after_team),
       fst (snd (account_workspace_process small_kcp_manager (in_cluster ?n) team acme_after_team)), ?w')"
    by simp
  have change: "sk_workspaces ?w' (?n, ''team'') \<noteq> sk_workspaces acme_after_team (?n, ''team'')"
    using acme_after_team_simps
    by (auto simp: account_workspace_process_def in_cluster_def workspace_type_name_def checkWorkspaceTypeReady_def
        workspace_mutation_def kcp_writes kcp_get_def kcp_put_def new_account_workspace_def)
  obtain n org ws where o: "ctx_cluster (in_cluster ?n) = Some n" "(?n, ''team'') = (n, account_name team)"
    "sk_workspaces ?w' (?n, ''team'') = Some ws" "aw_type ws = Some (org_type_ref (GetWorkspaceTypeName org (account_type team)))"
    "if account_type team = AccountTypeOrg then org = account_name team else root_org acme_origin n org"
    using workspaces_get_type_of_organization [where I = sk_infos and W = sk_workspaces and w = acme_after_team and w' = ?w'
          and k = "(?n, ''team'')", OF small_info_laws acme_tree acme_run none small_workspace_laws run change] by blast
  have "root_org acme_origin ?n org" using o(1,5) by (simp add: in_cluster_def)
  with o(3,4) show ?thesis unfolding Let_def accounts_simps by blast
qed

subsection \<open>Workspace types\<close>

text \<open>
  C33. Starting without types in \<^verbatim>\<open>root:orgs\<close>, in every state that the accounts' subroutine reaches, a workspace of
  one of these types may lie in one of another exactly when the inner type is the account type of an
  organization and the outer one is of the same organization.
\<close>

theorem types_keep_organizations_apart:
  assumes "type_laws M T" and "(type_step M T accts)\<^sup>*\<^sup>* w0 w" and "\<forall>n. T w0 n = None"
    and "T w p = Some P" and "T w c = Some C"
  shows "may_nest p P c C \<longleftrightarrow>
    (\<exists>org. c = GetWorkspaceTypeName org AccountTypeAccount \<and>
      p \<in> {GetWorkspaceTypeName org AccountTypeOrg, GetWorkspaceTypeName org AccountTypeAccount})"
proof -
  have "types_ok accts (T w)" by (rule type_steps_ok [OF assms(1,2)]) (simp add: types_ok_def assms(3))
  then obtain a b where ab: "type_of_org a p P" "type_of_org b c C" using assms(4,5) unfolding types_ok_def by blast
  have "p = GetWorkspaceTypeName (account_name a) AccountTypeOrg \<or> p = GetWorkspaceTypeName (account_name a) AccountTypeAccount"
    by (rule type_of_org_cases [OF ab(1)]) simp_all
  moreover have "c = GetWorkspaceTypeName (account_name b) AccountTypeOrg \<or> c = GetWorkspaceTypeName (account_name b) AccountTypeAccount"
    by (rule type_of_org_cases [OF ab(2)]) simp_all
  ultimately show ?thesis
    unfolding nesting_of_orgs [OF ab]
    by (elim disjE) (auto simp: type_name_inj type_name_differ type_name_differ [symmetric])
qed

theorem types_keep_organizations_apart_witness:
  "\<exists>P C. sk_types two_orgs ''acme-org'' = Some P \<and> sk_types two_orgs ''beta-account'' = Some C \<and>
     \<not> may_nest ''acme-org'' P ''beta-account'' C"
proof -
  have none: "\<forall>n. sk_types (kcp_world Map.empty Map.empty) n = None" by (simp add: kcp_world_def)
  obtain P C where PC: "sk_types two_orgs ''acme-org'' = Some P" "sk_types two_orgs ''beta-account'' = Some C"
    using two_orgs_types by blast
  have n: "''acme-org'' = GetWorkspaceTypeName ''acme'' AccountTypeOrg" "''beta-account'' = GetWorkspaceTypeName ''beta'' AccountTypeAccount"
    by (simp_all add: GetWorkspaceTypeName_def AccountTypeOrg_def AccountTypeAccount_def)
  have "\<not> (\<exists>org. ''beta-account'' = GetWorkspaceTypeName org AccountTypeAccount \<and>
      ''acme-org'' \<in> {GetWorkspaceTypeName org AccountTypeOrg, GetWorkspaceTypeName org AccountTypeAccount})"
    unfolding n by (auto simp: type_name_inj type_name_differ)
  then have "\<not> may_nest ''acme-org'' P ''beta-account'' C"
    unfolding types_keep_organizations_apart [where T = sk_types, OF small_type_laws two_orgs_run none PC] .
  with PC show ?thesis by blast
qed

subsection \<open>Deletion\<close>

text \<open>
  C34. A deletion pass over an Account that still holds the workspace's finalizer drops the finalizer of the
  workspace types, or touches a type in \<^verbatim>\<open>root:orgs\<close>, only when the Account's workspace was seen gone.
\<close>

theorem types_outlive_workspace:
  assumes "L = the (account_controller N (account_iface tu fu) api de cc cfg M)" and "oc_workspace cfg"
    and "WorkspaceSubroutineFinalizer \<in> set (m_finalizers (acc_meta a))" and "workspace_deletes_keep M T"
    and "st = run_phase L c True a w"
    and "WorkspaceTypeFinalizer \<in> set (m_finalizers (acc_meta a)) \<and>
        WorkspaceTypeFinalizer \<notin> set (m_finalizers (acc_meta (rs_obj st)))
      \<or> T (rs_world st) \<noteq> T w"
  shows "\<exists>n cl e. ctx_cluster c = Some n \<and> am_cluster M n w = Inr cl
    \<and> k_get (cc_workspaces cl) ([], account_name a) w = Inl e \<and> (is_not_found e \<or> is_no_match e)"
proof -
  have "workspace_gone M c (account_name a) w"
    using assms(5,6) account_deletion_pass [OF assms(1,2) _ assms(3), of c w]
      account_deletion_keeps [OF assms(1,2,4,3), of c w] by blast
  then show ?thesis by (simp add: workspace_gone_def split: option.splits sum.splits)
qed

theorem types_outlive_workspace_witness:
  "let L = the (account_controller list_meta null_accounts idle_api (=) (\<lambda>_. Inr ()) every_subroutine small_kcp_manager);
     c = in_cluster ''orgs'' in
   sk_types (rs_world (run_phase L c True deleted_acme types_left)) \<noteq> sk_types types_left \<and>
   (\<exists>n cl e. ctx_cluster c = Some n \<and> am_cluster small_kcp_manager n types_left = Inr cl
     \<and> k_get (cc_workspaces cl) ([], account_name deleted_acme) types_left = Inl e \<and> (is_not_found e \<or> is_no_match e))"
proof -
  have e: "oc_workspace every_subroutine" by (simp add: every_subroutine_def)
  have f: "WorkspaceSubroutineFinalizer \<in> set (m_finalizers (acc_meta deleted_acme))"
    by (simp add: deleted_acme_def an_account_def)
  show ?thesis
    unfolding Let_def null_accounts_def
    using deletion_drops_types [OF refl] types_outlive_workspace [OF refl e f small_deletes_keep refl disjI2, OF deletion_drops_types [OF refl]]
    by blast
qed

text \<open>
  The finalizer of an AccountInfo leaves it in a pass only when the accounts of its cluster were listed and
  there were none, or the cluster does not serve accounts.
\<close>

theorem info_held_while_accounts_exist:
  assumes "L = accountinfo_controller (info_iface tu fu) api de cc cfg M" and "oc_info_controller cfg"
    and "AccountInfoFinalizer \<in> set (m_finalizers (pa_meta i))"
    and "AccountInfoFinalizer \<notin> set (m_finalizers (pa_meta (rs_obj (run_phase L c True i w))))"
  shows "\<exists>cl. am_from_context M (ctx_cluster c) w = Inr cl \<and>
    (cc_accounts cl w = Inr [] \<or> (\<exists>e. cc_accounts cl w = Inl e \<and> (is_not_found e \<or> is_no_match e)))"
proof -
  obtain cl where cl: "am_from_context M (ctx_cluster c) w = Inr cl" "child_accounts cl w = Inr []"
    using finalize_accountinfo_done [OF info_deletion_pass [OF assms]] by blast
  then show ?thesis by (cases "cc_accounts cl w") (auto simp: child_accounts_def split: if_splits)
qed

theorem info_held_while_accounts_exist_witness:
  "let L = accountinfo_controller (info_iface (\<lambda>_. Inr JNull) (\<lambda>_ x. (None, x))) idle_api (=) (\<lambda>_. Inr ()) every_subroutine
       small_kcp_manager in
   AccountInfoFinalizer \<notin> set (m_finalizers (pa_meta (rs_obj (run_phase L (in_cluster ''orgs'') True an_info types_left)))) \<and>
   (\<exists>cl. am_from_context small_kcp_manager (Some ''orgs'') types_left = Inr cl \<and> (cc_accounts cl types_left = Inr [] \<or>
      (\<exists>e. cc_accounts cl types_left = Inl e \<and> (is_not_found e \<or> is_no_match e))))"
proof -
  have e: "oc_info_controller every_subroutine" by (simp add: every_subroutine_def)
  have f: "AccountInfoFinalizer \<in> set (m_finalizers (pa_meta an_info))" by (simp add: an_info_def)
  have c: "ctx_cluster (in_cluster n) = Some n" for n by (simp add: in_cluster_def)
  show ?thesis
    unfolding Let_def
    using info_released [OF refl] info_held_while_accounts_exist [OF refl e f info_released [OF refl], unfolded c] by blast
qed

end
