(* ===== verification/Backup_Topology.thy ===== *)
theory Backup_Topology
  imports Broker_Options
begin

text \<open>
  The topology manifest of the backup operator (\<^verbatim>\<open>operators/backup-operator/pkg/topology\<close>): its JSON with the schema
  it must obey, the comparison of two manifests, the digest. The codecs of the standard library, the schema
  validator and SHA-256 are parameters.
\<close>

subsection \<open>Manifests\<close>

text \<open>A slice may be nil, which is another JSON value than an empty one.\<close>

record host_cluster =
  hc_version :: string
  hc_namespace :: string

record kcp_shard =
  sh_name :: string
  sh_etcd :: string
  sh_digest :: string

record cnpg_cluster =
  cn_name :: string
  cn_digest :: string
  cn_major :: int

record openfga_store =
  os_name :: string
  os_digest :: string

record manifest =
  mf_schema :: string
  mf_captured :: gotime
  mf_host :: host_cluster
  mf_shard_count :: int
  mf_shards :: "kcp_shard list option"
  mf_cnpg :: "cnpg_cluster list option"
  mf_openfga :: "openfga_store list option"
  mf_operator :: string

definition slice_of :: "'a list option \<Rightarrow> 'a list" where
  "slice_of l = (case l of None \<Rightarrow> [] | Some xs \<Rightarrow> xs)"

subsection \<open>JSON\<close>

text \<open>
  \<open>tl_text\<close> and \<open>tl_parse\<close> are \<^verbatim>\<open>encoding/json\<close> between values and texts, \<open>tl_encode\<close> its encoder without HTML escapes,
  \<open>tl_time\<close> and \<open>tl_read_time\<close> the two directions of \<^verbatim>\<open>time.Time\<close>; \<open>tl_validate\<close> validates a text against the schema
  and answers what is wrong with it; \<open>tl_float\<close> is an integer read as a double.
\<close>

record topology_lib =
  tl_text :: "json \<Rightarrow> string"
  tl_encode :: "json \<Rightarrow> string"
  tl_parse :: "string \<Rightarrow> err + json"
  tl_time :: "gotime \<Rightarrow> err + string"
  tl_read_time :: "string \<Rightarrow> err + gotime"
  tl_is_time :: "string \<Rightarrow> bool"
  tl_validate :: "string \<Rightarrow> err + string list"
  tl_float :: "int \<Rightarrow> int"
  tl_sha256 :: "string \<Rightarrow> nat list"

definition json_slice :: "('a \<Rightarrow> json) \<Rightarrow> 'a list option \<Rightarrow> json" where
  "json_slice f l = (case l of None \<Rightarrow> JNull | Some xs \<Rightarrow> JArr (map f xs))"

definition shard_json :: "kcp_shard \<Rightarrow> json" where
  "shard_json s = JObj [(''name'', JStr (sh_name s)), (''etcdRef'', JStr (sh_etcd s)),
     (''logicalClusterIDsDigest'', JStr (sh_digest s))]"

definition cnpg_json :: "cnpg_cluster \<Rightarrow> json" where
  "cnpg_json c = JObj [(''name'', JStr (cn_name c)), (''specDigest'', JStr (cn_digest c)), (''majorVersion'', JInt (cn_major c))]"

definition store_json :: "openfga_store \<Rightarrow> json" where
  "store_json s = JObj [(''name'', JStr (os_name s)), (''modelDigest'', JStr (os_digest s))]"

definition host_json :: "host_cluster \<Rightarrow> json" where
  "host_json h = JObj [(''kubernetesVersion'', JStr (hc_version h)), (''namespace'', JStr (hc_namespace h))]"

definition manifest_json :: "string \<Rightarrow> manifest \<Rightarrow> json" where
  "manifest_json captured m = JObj
     [(''schemaVersion'', JStr (mf_schema m)), (''capturedAt'', JStr captured), (''hostCluster'', host_json (mf_host m)),
      (''kcp'', JObj [(''shardCount'', JInt (mf_shard_count m)), (''shards'', json_slice shard_json (mf_shards m))]),
      (''cnpg'', JObj [(''clusters'', json_slice cnpg_json (mf_cnpg m))]),
      (''openfga'', JObj [(''stores'', json_slice store_json (mf_openfga m))]),
      (''operatorVersion'', JStr (mf_operator m))]"

subsection \<open>The schema\<close>

text \<open>\<^verbatim>\<open>schema/v1alpha1.json\<close>: objects have exactly the required members.\<close>

definition digest_text :: "string \<Rightarrow> bool" where
  "digest_text s \<longleftrightarrow> has_prefix s ''sha256:'' \<and> length s = 71 \<and>
     (\<forall>c \<in> set (drop 7 s). c \<in> set ''0123456789abcdef'')"

definition is_str :: "json \<Rightarrow> bool" where
  "is_str j = (case j of JStr s \<Rightarrow> True | _ \<Rightarrow> False)"

definition is_int :: "json \<Rightarrow> bool" where
  "is_int j = (case j of JInt i \<Rightarrow> True | _ \<Rightarrow> False)"

definition is_digest :: "json \<Rightarrow> bool" where
  "is_digest j = (case j of JStr s \<Rightarrow> digest_text s | _ \<Rightarrow> False)"

definition members :: "(string \<times> (json \<Rightarrow> bool)) list \<Rightarrow> json \<Rightarrow> bool" where
  "members fs j = (case j of
      JObj kvs \<Rightarrow> (\<forall>(k, v) \<in> set kvs. k \<in> fst ` set fs) \<and>
        (\<forall>(k, p) \<in> set fs. case map_of kvs k of None \<Rightarrow> False | Some v \<Rightarrow> p v)
    | _ \<Rightarrow> False)"

definition items :: "nat \<Rightarrow> (json \<Rightarrow> bool) \<Rightarrow> json \<Rightarrow> bool" where
  "items least p j = (case j of JArr xs \<Rightarrow> least \<le> length xs \<and> (\<forall>x \<in> set xs. p x) | _ \<Rightarrow> False)"

definition schemaV1alpha1 :: "(string \<Rightarrow> bool) \<Rightarrow> json \<Rightarrow> bool" where
  "schemaV1alpha1 is_time = members
     [(''schemaVersion'', \<lambda>j. j = JStr ''v1alpha1''),
      (''capturedAt'', \<lambda>j. case j of JStr s \<Rightarrow> is_time s | _ \<Rightarrow> False),
      (''hostCluster'', members [(''kubernetesVersion'', is_str), (''namespace'', is_str)]),
      (''kcp'', members [(''shardCount'', \<lambda>j. case j of JInt i \<Rightarrow> 1 \<le> i | _ \<Rightarrow> False),
         (''shards'', items 1 (members [(''name'', is_str), (''etcdRef'', is_str), (''logicalClusterIDsDigest'', is_digest)]))]),
      (''cnpg'', members [(''clusters'', items 0 (members [(''name'', is_str), (''specDigest'', is_digest), (''majorVersion'', is_int)]))]),
      (''openfga'', members [(''stores'', items 0 (members [(''name'', is_str), (''modelDigest'', is_digest)]))]),
      (''operatorVersion'', is_str)]"

subsection \<open>Marshal and Unmarshal\<close>

datatype topology_error = ValidationError "string list" | TopologyError err

definition validate_topology :: "topology_lib \<Rightarrow> string \<Rightarrow> topology_error option" where
  "validate_topology E data =
     (case tl_validate E data of
        Inl e \<Rightarrow> Some (ValidationError [err_msg e])
      | Inr [] \<Rightarrow> None
      | Inr es \<Rightarrow> Some (ValidationError es))"

definition topology_Marshal :: "topology_lib \<Rightarrow> manifest \<Rightarrow> topology_error + string" where
  "topology_Marshal E m =
     (case tl_time E (mf_captured m) of
        Inl e \<Rightarrow> Inl (TopologyError (wrap ''marshalling topology'' e))
      | Inr captured \<Rightarrow>
          (let data = tl_text E (manifest_json captured m) in
           case validate_topology E data of Some e \<Rightarrow> Inl e | None \<Rightarrow> Inr data))"

text \<open>Decoding into the struct; a member that is missing would keep what the struct holds, \<open>null\<close> makes a slice nil.\<close>

definition str_of :: "json \<Rightarrow> string option" where
  "str_of j = (case j of JStr s \<Rightarrow> Some s | _ \<Rightarrow> None)"

definition int_of :: "json \<Rightarrow> int option" where
  "int_of j = (case j of JInt i \<Rightarrow> int64_of i | _ \<Rightarrow> None)"

definition with_member :: "json \<Rightarrow> string \<Rightarrow> (json \<Rightarrow> 'a option) \<Rightarrow> ('a \<Rightarrow> 'b \<Rightarrow> 'b) \<Rightarrow> 'b option \<Rightarrow> 'b option" where
  "with_member j k read put x =
     (case json_get j k of
        None \<Rightarrow> x
      | Some v \<Rightarrow> (case x of None \<Rightarrow> None | Some b \<Rightarrow> (case read v of None \<Rightarrow> None | Some a \<Rightarrow> Some (put a b))))"

definition slice_from :: "(json \<Rightarrow> 'a option) \<Rightarrow> json \<Rightarrow> 'a list option option" where
  "slice_from read j = (case j of
      JNull \<Rightarrow> Some None
    | JArr xs \<Rightarrow> (if \<exists>x \<in> set xs. read x = None then None else Some (Some (map (the \<circ> read) xs)))
    | _ \<Rightarrow> None)"

definition shard_from :: "json \<Rightarrow> kcp_shard option" where
  "shard_from j =
     with_member j ''logicalClusterIDsDigest'' str_of (\<lambda>d s. s\<lparr>sh_digest := d\<rparr>)
     (with_member j ''etcdRef'' str_of (\<lambda>d s. s\<lparr>sh_etcd := d\<rparr>)
     (with_member j ''name'' str_of (\<lambda>d s. s\<lparr>sh_name := d\<rparr>) (Some \<lparr>sh_name = [], sh_etcd = [], sh_digest = []\<rparr>)))"

definition cnpg_from :: "json \<Rightarrow> cnpg_cluster option" where
  "cnpg_from j =
     with_member j ''majorVersion'' int_of (\<lambda>d s. s\<lparr>cn_major := d\<rparr>)
     (with_member j ''specDigest'' str_of (\<lambda>d s. s\<lparr>cn_digest := d\<rparr>)
     (with_member j ''name'' str_of (\<lambda>d s. s\<lparr>cn_name := d\<rparr>) (Some \<lparr>cn_name = [], cn_digest = [], cn_major = 0\<rparr>)))"

definition store_from :: "json \<Rightarrow> openfga_store option" where
  "store_from j =
     with_member j ''modelDigest'' str_of (\<lambda>d s. s\<lparr>os_digest := d\<rparr>)
     (with_member j ''name'' str_of (\<lambda>d s. s\<lparr>os_name := d\<rparr>) (Some \<lparr>os_name = [], os_digest = []\<rparr>))"

definition host_from :: "json \<Rightarrow> host_cluster \<Rightarrow> host_cluster option" where
  "host_from j h =
     with_member j ''namespace'' str_of (\<lambda>d s. s\<lparr>hc_namespace := d\<rparr>)
     (with_member j ''kubernetesVersion'' str_of (\<lambda>d s. s\<lparr>hc_version := d\<rparr>) (Some h))"

definition manifest_from :: "topology_lib \<Rightarrow> json \<Rightarrow> manifest \<Rightarrow> manifest option" where
  "manifest_from E j m =
     with_member j ''operatorVersion'' str_of (\<lambda>v m. m\<lparr>mf_operator := v\<rparr>)
     (with_member j ''openfga'' (\<lambda>o1. with_member o1 ''stores'' (slice_from store_from) (\<lambda>l x. l) (Some (mf_openfga m))) (\<lambda>l m. m\<lparr>mf_openfga := l\<rparr>)
     (with_member j ''cnpg'' (\<lambda>o1. with_member o1 ''clusters'' (slice_from cnpg_from) (\<lambda>l x. l) (Some (mf_cnpg m))) (\<lambda>l m. m\<lparr>mf_cnpg := l\<rparr>)
     (with_member j ''kcp'' (\<lambda>o1. with_member o1 ''shards'' (slice_from shard_from) (\<lambda>l x. l) (Some (mf_shards m))) (\<lambda>l m. m\<lparr>mf_shards := l\<rparr>)
     (with_member j ''kcp'' (\<lambda>o1. with_member o1 ''shardCount'' int_of (\<lambda>n x. n) (Some (mf_shard_count m))) (\<lambda>n m. m\<lparr>mf_shard_count := n\<rparr>)
     (with_member j ''hostCluster'' (\<lambda>o1. host_from o1 (mf_host m)) (\<lambda>h m. m\<lparr>mf_host := h\<rparr>)
     (with_member j ''capturedAt'' (\<lambda>v. case v of JStr s \<Rightarrow> (case tl_read_time E s of Inl e \<Rightarrow> None | Inr t \<Rightarrow> Some t) | _ \<Rightarrow> None)
        (\<lambda>t m. m\<lparr>mf_captured := t\<rparr>)
     (with_member j ''schemaVersion'' str_of (\<lambda>v m. m\<lparr>mf_schema := v\<rparr>) (Some m))))))))"

definition topology_Unmarshal :: "topology_lib \<Rightarrow> string \<Rightarrow> manifest \<Rightarrow> topology_error + manifest" where
  "topology_Unmarshal E data m =
     (case validate_topology E data of
        Some e \<Rightarrow> Inl e
      | None \<Rightarrow>
          (case tl_parse E data of
             Inl e \<Rightarrow> Inl (TopologyError (wrap ''unmarshalling topology'' e))
           | Inr j \<Rightarrow>
               (case manifest_from E j m of
                  None \<Rightarrow> Inl (TopologyError (errorf ''unmarshalling topology''))
                | Some x \<Rightarrow> Inr x)))"

subsection \<open>Comparing\<close>

record field_mismatch =
  fm_field :: string
  fm_source :: string
  fm_target :: string

definition mismatch :: "string \<Rightarrow> string \<Rightarrow> string \<Rightarrow> field_mismatch" where
  "mismatch f s t = \<lparr>fm_field = f, fm_source = s, fm_target = t\<rparr>"

definition field_differs :: "string \<Rightarrow> string \<Rightarrow> string \<Rightarrow> field_mismatch list" where
  "field_differs f s t = (if s \<noteq> t then [mismatch f s t] else [])"

text \<open>The map a slice is put into; of elements with one name the last stays.\<close>

definition by_name :: "('a \<Rightarrow> string) \<Rightarrow> 'a list option \<Rightarrow> string \<rightharpoonup> 'a" where
  "by_name name l = map_of (rev (map (\<lambda>x. (name x, x)) (slice_of l)))"

text \<open>The names in the order in which the map is ranged over; \<open>order\<close> is any.\<close>

definition names_in :: "(string list \<Rightarrow> string list) \<Rightarrow> ('a \<Rightarrow> string) \<Rightarrow> 'a list option \<Rightarrow> string list" where
  "names_in order name l = order (remdups (map name (slice_of l)))"

definition field_of :: "string \<Rightarrow> string \<Rightarrow> string \<Rightarrow> string" where
  "field_of part name rest = part @ ''['' @ name @ '']'' @ rest"

definition missing :: string where
  "missing = ''<missing>''"

definition compare_shard :: "(string \<rightharpoonup> kcp_shard) \<Rightarrow> (string \<rightharpoonup> kcp_shard) \<Rightarrow> string \<Rightarrow> field_mismatch list" where
  "compare_shard src tgt name =
     (case (src name, tgt name) of
        (Some s, Some t) \<Rightarrow>
          field_differs (field_of ''kcp.shards'' name ''.logicalClusterIDsDigest'') (sh_digest s) (sh_digest t) @
          field_differs (field_of ''kcp.shards'' name ''.etcdRef'') (sh_etcd s) (sh_etcd t)
      | (Some s, None) \<Rightarrow> [mismatch (field_of ''kcp.shards'' name []) name missing]
      | _ \<Rightarrow> [])"

definition extra_shard :: "(string \<rightharpoonup> kcp_shard) \<Rightarrow> string \<Rightarrow> field_mismatch list" where
  "extra_shard src name =
     (if src name = None then [mismatch (field_of ''kcp.shards'' name []) missing name] else [])"

definition compare_digest ::
  "string \<Rightarrow> string \<Rightarrow> ('a \<Rightarrow> string) \<Rightarrow> (string \<rightharpoonup> 'a) \<Rightarrow> (string \<rightharpoonup> 'a) \<Rightarrow> string \<Rightarrow> field_mismatch list" where
  "compare_digest part rest digest src tgt name =
     (case (src name, tgt name) of
        (Some s, Some t) \<Rightarrow> field_differs (field_of part name rest) (digest s) (digest t)
      | (Some s, None) \<Rightarrow> [mismatch (field_of part name rest) (digest s) missing]
      | _ \<Rightarrow> [])"

definition topology_mismatches :: "(string list \<Rightarrow> string list) \<Rightarrow> manifest \<Rightarrow> manifest \<Rightarrow> field_mismatch list" where
  "topology_mismatches order source target =
     (let ss = by_name sh_name (mf_shards source); ts = by_name sh_name (mf_shards target) in
      field_differs ''hostCluster.kubernetesVersion'' (hc_version (mf_host source)) (hc_version (mf_host target)) @
      field_differs ''hostCluster.namespace'' (hc_namespace (mf_host source)) (hc_namespace (mf_host target)) @
      concat (map (compare_shard ss ts) (names_in order sh_name (mf_shards source))) @
      concat (map (extra_shard ss) (names_in order sh_name (mf_shards target))) @
      concat (map (compare_digest ''cnpg.clusters'' ''.specDigest'' cn_digest (by_name cn_name (mf_cnpg source)) (by_name cn_name (mf_cnpg target)))
        (names_in order cn_name (mf_cnpg source))) @
      concat (map (compare_digest ''openfga.stores'' ''.modelDigest'' os_digest (by_name os_name (mf_openfga source)) (by_name os_name (mf_openfga target)))
        (names_in order os_name (mf_openfga source))))"

definition topology_Validate :: "(string list \<Rightarrow> string list) \<Rightarrow> manifest \<Rightarrow> manifest \<Rightarrow> field_mismatch list option" where
  "topology_Validate order source target =
     (let ms = topology_mismatches order source target in if ms \<noteq> [] then Some ms else None)"

subsection \<open>Digest\<close>

fun sort_keys :: "topology_lib \<Rightarrow> json \<Rightarrow> json" where
  "sort_keys E (JObj kvs) = JObj (List.sort_key fst (map (\<lambda>(k, v). (k, sort_keys E v)) kvs))"
| "sort_keys E (JArr xs) = JArr (map (sort_keys E) xs)"
| "sort_keys E (JInt i) = JInt (tl_float E i)"
| "sort_keys E j = j"

definition canonicalJSON :: "topology_lib \<Rightarrow> manifest \<Rightarrow> err + string" where
  "canonicalJSON E m =
     (case tl_time E (mf_captured m) of
        Inl e \<Rightarrow> Inl e
      | Inr captured \<Rightarrow>
          (case tl_parse E (tl_text E (manifest_json captured m)) of
             Inl e \<Rightarrow> Inl e
           | Inr j \<Rightarrow> Inr (tl_encode E (sort_keys E j))))"

definition topology_Digest :: "topology_lib \<Rightarrow> manifest \<Rightarrow> err + string" where
  "topology_Digest E m =
     (case canonicalJSON E m of
        Inl e \<Rightarrow> Inl (wrap ''computing topology digest'' e)
      | Inr text \<Rightarrow> Inr (''sha256:'' @ hex_encode (tl_sha256 E text)))"

end
