(* ===== verification/Backup_Props.thy ===== *)
theory Backup_Props
  imports Backup_Topology
begin

text \<open>The properties of the topology manifest.\<close>

subsection \<open>What is written is read back\<close>

text \<open>
  The codec reads the manifest's JSON as it wrote it (its texts are valid UTF-8), and times likewise; the validator
  decides the schema.
\<close>

definition topology_laws :: "topology_lib \<Rightarrow> manifest \<Rightarrow> bool" where
  "topology_laws E m \<longleftrightarrow>
     (\<forall>s. tl_parse E (tl_text E (manifest_json s m)) = Inr (manifest_json s m)) \<and>
     (\<forall>t s. tl_time E t = Inr s \<longrightarrow> tl_read_time E s = Inr t \<and> tl_is_time E s) \<and>
     (\<forall>d j. tl_parse E d = Inr j \<longrightarrow> (\<exists>es. tl_validate E d = Inr es \<and> (es = [] \<longleftrightarrow> schemaV1alpha1 (tl_is_time E) j)))"

text \<open>The integers of the struct are 64 bits wide.\<close>

definition manifest_typed :: "manifest \<Rightarrow> bool" where
  "manifest_typed m \<longleftrightarrow> int64_of (mf_shard_count m) \<noteq> None \<and> (\<forall>c \<in> set (slice_of (mf_cnpg m)). int64_of (cn_major c) \<noteq> None)"

definition manifest_complete :: "topology_lib \<Rightarrow> manifest \<Rightarrow> bool" where
  "manifest_complete E m \<longleftrightarrow>
     mf_schema m = ''v1alpha1'' \<and> (\<exists>s. tl_time E (mf_captured m) = Inr s) \<and> 1 \<le> mf_shard_count m \<and>
     slice_of (mf_shards m) \<noteq> [] \<and> (\<forall>s \<in> set (slice_of (mf_shards m)). digest_text (sh_digest s)) \<and>
     mf_cnpg m \<noteq> None \<and> (\<forall>c \<in> set (slice_of (mf_cnpg m)). digest_text (cn_digest c)) \<and>
     mf_openfga m \<noteq> None \<and> (\<forall>s \<in> set (slice_of (mf_openfga m)). digest_text (os_digest s))"

lemma members_Nil [simp]: "members fs (JObj kvs) \<longleftrightarrow>
   (\<forall>kv \<in> set kvs. fst kv \<in> fst ` set fs) \<and> (\<forall>f \<in> set fs. case map_of kvs (fst f) of None \<Rightarrow> False | Some v \<Rightarrow> snd f v)"
  by (force simp: members_def case_prod_beta)

lemma item_schemas [simp]:
  "members [(''name'', is_str), (''etcdRef'', is_str), (''logicalClusterIDsDigest'', is_digest)] (shard_json s) \<longleftrightarrow> digest_text (sh_digest s)"
  "members [(''name'', is_str), (''specDigest'', is_digest), (''majorVersion'', is_int)] (cnpg_json c) \<longleftrightarrow> digest_text (cn_digest c)"
  "members [(''name'', is_str), (''modelDigest'', is_digest)] (store_json t) \<longleftrightarrow> digest_text (os_digest t)"
  "members [(''kubernetesVersion'', is_str), (''namespace'', is_str)] (host_json h)"
  by (simp_all add: shard_json_def cnpg_json_def store_json_def host_json_def is_str_def is_digest_def is_int_def)

lemma items_slice:
  "items k p (json_slice f l) \<longleftrightarrow> l \<noteq> None \<and> k \<le> length (slice_of l) \<and> (\<forall>x \<in> set (slice_of l). p (f x))"
  by (cases l) (auto simp: items_def json_slice_def slice_of_def)

lemma schema_manifest:
  assumes "is_time captured"
  shows "schemaV1alpha1 is_time (manifest_json captured m) \<longleftrightarrow>
    mf_schema m = ''v1alpha1'' \<and> 1 \<le> mf_shard_count m \<and>
    slice_of (mf_shards m) \<noteq> [] \<and> (\<forall>s \<in> set (slice_of (mf_shards m)). digest_text (sh_digest s)) \<and>
    mf_cnpg m \<noteq> None \<and> (\<forall>c \<in> set (slice_of (mf_cnpg m)). digest_text (cn_digest c)) \<and>
    mf_openfga m \<noteq> None \<and> (\<forall>s \<in> set (slice_of (mf_openfga m)). digest_text (os_digest s))"
proof -
  have "Suc 0 \<le> length l \<longleftrightarrow> l \<noteq> []" for l :: "kcp_shard list" by (cases l) auto
  moreover have "slice_of (mf_shards m) \<noteq> [] \<Longrightarrow> \<exists>y. mf_shards m = Some y" by (cases "mf_shards m") (simp_all add: slice_of_def)
  ultimately show ?thesis
    using assms by (auto simp: schemaV1alpha1_def manifest_json_def items_slice is_str_def)
qed

lemma elements_back [simp]:
  "shard_from (shard_json s) = Some s" "store_from (store_json t) = Some t"
  by (simp_all add: shard_from_def shard_json_def store_from_def store_json_def with_member_def str_of_def)

lemma cnpg_back: "int64_of (cn_major c) \<noteq> None \<Longrightarrow> cnpg_from (cnpg_json c) = Some c"
  by (auto simp: cnpg_from_def cnpg_json_def with_member_def str_of_def int_of_def int64_of_def split: if_splits)

lemma slice_back:
  assumes "\<forall>x \<in> set (slice_of l). read (f x) = Some x"
  shows "slice_from read (json_slice f l) = Some l"
proof (cases l)
  case (Some xs)
  then have "map (the \<circ> read \<circ> f) xs = xs" using assms by (intro map_idI) (simp add: slice_of_def)
  then show ?thesis using Some assms by (simp add: slice_from_def json_slice_def slice_of_def)
qed (simp add: slice_from_def json_slice_def)

lemma manifest_back:
  assumes "manifest_typed m" and "tl_read_time E captured = Inr (mf_captured m)"
  shows "manifest_from E (manifest_json captured m) m0 = Some m"
proof -
  have "slice_from shard_from (json_slice shard_json (mf_shards m)) = Some (mf_shards m)"
    "slice_from store_from (json_slice store_json (mf_openfga m)) = Some (mf_openfga m)"
    "slice_from cnpg_from (json_slice cnpg_json (mf_cnpg m)) = Some (mf_cnpg m)"
    using assms(1) by (auto intro!: slice_back cnpg_back simp: manifest_typed_def)
  moreover have "int_of (JInt (mf_shard_count m)) = Some (mf_shard_count m)"
    using assms(1) by (auto simp: manifest_typed_def int_of_def int64_of_def split: if_splits)
  moreover have "host_from (host_json (mf_host m)) h = Some (mf_host m)" for h
    by (simp add: host_from_def host_json_def with_member_def str_of_def)
  ultimately show ?thesis
    using assms(2) by (simp add: manifest_from_def manifest_json_def with_member_def str_of_def)
qed

lemma Marshal_reads_back:
  assumes "topology_laws E m" and "manifest_typed m" and "topology_Marshal E m = Inr data"
  shows "topology_Unmarshal E data m0 = Inr m" and "manifest_complete E m"
proof -
  obtain captured where t: "tl_time E (mf_captured m) = Inr captured"
    using assms(3) by (cases "tl_time E (mf_captured m)") (simp_all add: topology_Marshal_def)
  have d: "data = tl_text E (manifest_json captured m)" and v: "validate_topology E data = None"
    using assms(3) t by (auto simp: topology_Marshal_def Let_def split: option.splits)
  have read: "tl_read_time E captured = Inr (mf_captured m)" and ok: "tl_is_time E captured"
    using assms(1) t by (auto simp: topology_laws_def)
  have p: "tl_parse E data = Inr (manifest_json captured m)" using assms(1) d by (simp add: topology_laws_def)
  then show "topology_Unmarshal E data m0 = Inr m"
    using v manifest_back [OF assms(2) read] by (simp add: topology_Unmarshal_def)
  obtain es where "tl_validate E data = Inr es" "es = [] \<longleftrightarrow> schemaV1alpha1 (tl_is_time E) (manifest_json captured m)"
    using assms(1) p unfolding topology_laws_def by blast
  then have "schemaV1alpha1 (tl_is_time E) (manifest_json captured m)"
    using v by (auto simp: validate_topology_def split: list.splits)
  then show "manifest_complete E m" using t schema_manifest [where is_time = "tl_is_time E", OF ok, of m] unfolding manifest_complete_def by blast
qed

lemma Marshal_complete:
  assumes "topology_laws E m" and "manifest_complete E m"
  shows "\<exists>data. topology_Marshal E m = Inr data"
proof -
  obtain captured where t: "tl_time E (mf_captured m) = Inr captured" using assms(2) by (auto simp: manifest_complete_def)
  let ?d = "tl_text E (manifest_json captured m)"
  have p: "tl_parse E ?d = Inr (manifest_json captured m)" using assms(1) by (simp add: topology_laws_def)
  have ok: "tl_is_time E captured" using assms(1) t by (auto simp: topology_laws_def)
  have "schemaV1alpha1 (tl_is_time E) (manifest_json captured m)"
    using schema_manifest [where is_time = "tl_is_time E", OF ok, of m] assms(2) unfolding manifest_complete_def by blast
  then have "tl_validate E ?d = Inr []" using assms(1) p unfolding topology_laws_def by blast
  then show ?thesis using t by (simp add: topology_Marshal_def validate_topology_def Let_def)
qed

subsection \<open>What a comparison accepts\<close>

text \<open>The target has the host and the shards of the source, and its databases and stores, with the same digests.\<close>

definition covers :: "('a \<Rightarrow> string) \<Rightarrow> (string \<rightharpoonup> 'a) \<Rightarrow> (string \<rightharpoonup> 'a) \<Rightarrow> bool" where
  "covers digest src tgt \<longleftrightarrow> (\<forall>n x. src n = Some x \<longrightarrow> (\<exists>y. tgt n = Some y \<and> digest y = digest x))"

definition shard_view :: "manifest \<Rightarrow> string \<Rightarrow> (string \<times> string) option" where
  "shard_view m n = map_option (\<lambda>s. (sh_etcd s, sh_digest s)) (by_name sh_name (mf_shards m) n)"

definition restorable_on :: "manifest \<Rightarrow> manifest \<Rightarrow> bool" where
  "restorable_on source target \<longleftrightarrow>
     mf_host source = mf_host target \<and> shard_view source = shard_view target \<and>
     covers cn_digest (by_name cn_name (mf_cnpg source)) (by_name cn_name (mf_cnpg target)) \<and>
     covers os_digest (by_name os_name (mf_openfga source)) (by_name os_name (mf_openfga target))"

lemma by_name_dom: "by_name name l n \<noteq> None \<longleftrightarrow> n \<in> name ` set (slice_of l)"
  by (auto simp: by_name_def map_of_eq_None_iff image_image)

lemma compare_Nil:
  "compare_digest part rest digest src tgt n = [] \<longleftrightarrow> (\<forall>x. src n = Some x \<longrightarrow> (\<exists>y. tgt n = Some y \<and> digest y = digest x))"
  "compare_shard ss ts n = [] \<longleftrightarrow> (\<forall>x. ss n = Some x \<longrightarrow> (\<exists>y. ts n = Some y \<and> sh_etcd y = sh_etcd x \<and> sh_digest y = sh_digest x))"
  "extra_shard ss n = [] \<longleftrightarrow> (\<exists>x. ss n = Some x)"
  by (auto simp: compare_digest_def compare_shard_def extra_shard_def field_differs_def split: option.splits)

lemma compare_digest_Nil:
  "(\<forall>n \<in> name ` set (slice_of l). compare_digest part rest digest (by_name name l) tgt n = []) \<longleftrightarrow> covers digest (by_name name l) tgt"
proof -
  have "n \<in> name ` set (slice_of l)" if "by_name name l n = Some x" for n x
    using that by_name_dom [of name l n] by simp
  then show ?thesis unfolding compare_Nil covers_def by blast
qed

lemma compare_shards_Nil:
  "(\<forall>n \<in> sh_name ` set (slice_of (mf_shards s)). compare_shard (by_name sh_name (mf_shards s)) (by_name sh_name (mf_shards t)) n = []) \<and>
   (\<forall>n \<in> sh_name ` set (slice_of (mf_shards t)). extra_shard (by_name sh_name (mf_shards s)) n = []) \<longleftrightarrow>
   shard_view s = shard_view t" (is "?l \<longleftrightarrow> _")
proof -
  let ?s = "by_name sh_name (mf_shards s)" and ?t = "by_name sh_name (mf_shards t)"
  have dom: "n \<in> sh_name ` set (slice_of (mf_shards m)) \<longleftrightarrow> (\<exists>x. by_name sh_name (mf_shards m) n = Some x)" for n m
    using by_name_dom [of sh_name "mf_shards m" n] by auto
  have "?l \<longleftrightarrow> (\<forall>n x. ?s n = Some x \<longrightarrow> (\<exists>y. ?t n = Some y \<and> sh_etcd y = sh_etcd x \<and> sh_digest y = sh_digest x)) \<and>
      (\<forall>n y. ?t n = Some y \<longrightarrow> (\<exists>x. ?s n = Some x))"
    unfolding compare_Nil Ball_def dom by blast
  also have "\<dots> \<longleftrightarrow> (\<forall>n. shard_view s n = shard_view t n)"
  proof -
    have point: "(\<forall>x. a = Some x \<longrightarrow> (\<exists>y. b = Some y \<and> sh_etcd y = sh_etcd x \<and> sh_digest y = sh_digest x)) \<and> (\<forall>y. b = Some y \<longrightarrow> (\<exists>x. a = Some x)) \<longleftrightarrow>
        map_option (\<lambda>s. (sh_etcd s, sh_digest s)) a = map_option (\<lambda>s. (sh_etcd s, sh_digest s)) b" for a b
      by (cases a; cases b) auto
    show ?thesis unfolding shard_view_def point [symmetric] by blast
  qed
  finally show ?thesis by (simp add: fun_eq_iff)
qed

lemma Validate_None:
  assumes "\<forall>xs. set (order xs) = set xs"
  shows "topology_Validate order s t = None \<longleftrightarrow> restorable_on s t"
proof -
  have names: "set (names_in order name l) = name ` set (slice_of l)" for name and l :: "'x list option"
    using assms by (simp add: names_in_def)
  have host: "mf_host s = mf_host t \<longleftrightarrow> hc_version (mf_host s) = hc_version (mf_host t) \<and> hc_namespace (mf_host s) = hc_namespace (mf_host t)"
    by (cases "mf_host s", cases "mf_host t") simp
  have concat_Nil: "concat (map f xs) = [] \<longleftrightarrow> (\<forall>x \<in> set xs. f x = [])" for f :: "string \<Rightarrow> field_mismatch list" and xs
    by auto
  have "topology_mismatches order s t = [] \<longleftrightarrow> restorable_on s t"
    unfolding topology_mismatches_def Let_def append_is_Nil_conv concat_Nil names compare_digest_Nil restorable_on_def host
      compare_shards_Nil [symmetric]
    by (auto simp: field_differs_def)
  then show ?thesis by (simp add: topology_Validate_def Let_def)
qed

lemma restorable_on_self: "restorable_on m m"
  by (simp add: restorable_on_def covers_def)

text \<open>
  C36. A manifest that Marshal writes is complete and is what Unmarshal reads back, whatever was there before; every
  complete manifest is written. The manifest that is read back agrees with the source's own manifest, and when it
  agrees with that of a target, the target has the host of the source, exactly its shards, with the same
  etcd and digest, and every database and store of the source with the same digest. Agreement says no more:
  that the manifests are equal does not follow (\<open>more_databases_unreported\<close>).
\<close>

theorem backup_restores_on_matching_target:
  assumes "topology_laws E source" and "manifest_typed source" and "\<forall>xs. set (order xs) = set xs"
  shows "((\<exists>data. topology_Marshal E source = Inr data) \<longleftrightarrow> manifest_complete E source) \<and>
    (\<forall>data m0. topology_Marshal E source = Inr data \<longrightarrow>
      (\<exists>m. topology_Unmarshal E data m0 = Inr m \<and> m = source \<and> topology_Validate order m source = None \<and>
        (topology_Validate order m target = None \<longrightarrow> restorable_on source target)))"
  using Marshal_reads_back [OF assms(1,2)] Marshal_complete [OF assms(1)] Validate_None [OF assms(3)] restorable_on_self by blast

text \<open>A platform with one shard, and a codec whose only document is its manifest.\<close>

definition one_shard :: manifest where
  "one_shard =
     \<lparr>mf_schema = ''v1alpha1'', mf_captured = 0, mf_host = \<lparr>hc_version = ''1.33'', hc_namespace = ''pm''\<rparr>, mf_shard_count = 1,
      mf_shards = Some [\<lparr>sh_name = ''root'', sh_etcd = ''etcd'', sh_digest = ''sha256:'' @ replicate 64 (CHR ''a'')\<rparr>],
      mf_cnpg = Some [], mf_openfga = Some [], mf_operator = ''v1''\<rparr>"

definition one_document :: topology_lib where
  "one_document =
     \<lparr>tl_text = (\<lambda>j. case json_get j ''capturedAt'' of Some (JStr s) \<Rightarrow> s | _ \<Rightarrow> []), tl_encode = (\<lambda>j. []),
      tl_parse = (\<lambda>d. Inr (manifest_json d one_shard)), tl_time = (\<lambda>t. if t = 0 then Inr ''1970-01-01T00:00:00Z'' else Inl (errorf [])),
      tl_read_time = (\<lambda>s. Inr 0), tl_is_time = (\<lambda>s. True), tl_validate = (\<lambda>d. Inr []), tl_float = (\<lambda>i. i), tl_sha256 = (\<lambda>s. [])\<rparr>"

lemma one_shard_digest: "digest_text (''sha256:'' @ replicate 64 (CHR ''a''))"
  by (simp add: digest_text_def has_prefix_def)

theorem backup_restores_on_matching_target_witness:
  "let moved = one_shard\<lparr>mf_host := \<lparr>hc_version = ''1.34'', hc_namespace = ''pm''\<rparr>\<rparr> in
   \<exists>data m. topology_Marshal one_document one_shard = Inr data \<and> topology_Unmarshal one_document data moved = Inr m \<and>
     m = one_shard \<and> topology_Validate (\<lambda>xs. xs) m one_shard = None \<and> topology_Validate (\<lambda>xs. xs) m moved \<noteq> None"
proof -
  let ?moved = "one_shard\<lparr>mf_host := \<lparr>hc_version = ''1.34'', hc_namespace = ''pm''\<rparr>\<rparr>"
  have schema: "schemaV1alpha1 (\<lambda>s. True) (manifest_json d one_shard)" for d
    using schema_manifest [where is_time = "\<lambda>s. True", of d one_shard] one_shard_digest by (simp add: one_shard_def slice_of_def)
  have laws: "topology_laws one_document one_shard"
    by (simp add: topology_laws_def one_document_def schema) (simp add: manifest_json_def)
  have typed: "manifest_typed one_shard" by (simp add: manifest_typed_def one_shard_def slice_of_def int64_of_def)
  have complete: "manifest_complete one_document one_shard"
    using one_shard_digest by (simp add: manifest_complete_def one_document_def one_shard_def slice_of_def)
  have differs: "\<not> restorable_on one_shard ?moved" by (simp add: restorable_on_def one_shard_def)
  note both = backup_restores_on_matching_target [OF laws typed, of "\<lambda>xs. xs"]
  obtain data where d: "topology_Marshal one_document one_shard = Inr data" using both complete by blast
  with both [of ?moved] differs show ?thesis unfolding Let_def by blast
qed

text \<open>
  A target with a database more, another number of shards and another schema is not told apart, although the
  comment on \<^verbatim>\<open>Validate\<close> promises every divergent field.
\<close>

lemma more_databases_unreported:
  "topology_Validate (\<lambda>xs. xs) one_shard
     (one_shard\<lparr>mf_schema := ''v2'', mf_shard_count := 7, mf_cnpg := Some [c]\<rparr>) = None"
proof -
  have "restorable_on one_shard (one_shard\<lparr>mf_schema := ''v2'', mf_shard_count := 7, mf_cnpg := Some [c]\<rparr>)"
    by (simp add: restorable_on_def covers_def one_shard_def shard_view_def by_name_def slice_of_def fun_eq_iff)
  then show ?thesis using Validate_None [of "\<lambda>xs. xs"] by simp
qed

end
