(* ===== verification/Keycloak_Client.thy ===== *)
theory Keycloak_Client
  imports Account_Types
begin

text \<open>
  The security operator's clients of Keycloak: the admin API (\<^verbatim>\<open>pkg/clientreg/keycloak/admin.go\<close>) and dynamic client
  registration with its retrying transport (\<^verbatim>\<open>pkg/clientreg\<close>). HTTP is a parameter: a request gives a response or
  an error; a body that is read as JSON is a value or an error.
\<close>

subsection \<open>Requests\<close>

datatype kc_method = GET | POST | PUT | DELETE

text \<open>\<open>kq_auth\<close> is a bearer token set on the request; without one the transport sends its own credentials.\<close>

record kc_request =
  kq_method :: kc_method
  kq_url :: string
  kq_body :: "json option"
  kq_auth :: "string option"

record kc_response =
  ks_status :: int
  ks_json :: "err + json"
  ks_text :: string
  ks_location :: string

type_synonym 'w transport = "kc_request \<Rightarrow> 'w \<Rightarrow> (err + kc_response) \<times> 'w"

text \<open>\<open>wb_url\<close> is the failure of \<^verbatim>\<open>http.NewRequest\<close> on a text that is no URL.\<close>

record 'w web =
  wb_url :: "string \<Rightarrow> err option"
  wb_do :: "'w transport"

definition kc_call :: "'w web \<Rightarrow> string \<Rightarrow> string \<Rightarrow> kc_request \<Rightarrow> 'w \<Rightarrow> (err + kc_response) \<times> 'w" where
  "kc_call W creating doing q w =
     (case wb_url W (kq_url q) of
        Some e \<Rightarrow> (Inl (wrap creating e), w)
      | None \<Rightarrow> (case wb_do W q w of (Inl e, w1) \<Rightarrow> (Inl (wrap doing e), w1) | (Inr r, w1) \<Rightarrow> (Inr r, w1)))"

definition kc_get :: "string \<Rightarrow> kc_request" where
  "kc_get url = \<lparr>kq_method = GET, kq_url = url, kq_body = None, kq_auth = None\<rparr>"

definition kc_send :: "kc_method \<Rightarrow> string \<Rightarrow> json \<Rightarrow> kc_request" where
  "kc_send m url body = \<lparr>kq_method = m, kq_url = url, kq_body = Some body, kq_auth = None\<rparr>"

definition readErrorResponse :: "kc_response \<Rightarrow> string \<Rightarrow> err" where
  "readErrorResponse r operation =
     errorf (''failed to '' @ operation @ '': status '' @ itoa (ks_status r) @ '' body: '' @ ks_text r)"

text \<open>A text member of a struct; a missing one and those of \<^verbatim>\<open>null\<close> are empty, another type is an error.\<close>

definition json_str :: "json \<Rightarrow> string \<Rightarrow> err + string" where
  "json_str j k =
     (case j of
        JNull \<Rightarrow> Inr []
      | JObj kvs \<Rightarrow>
          (case json_get j k of
             None \<Rightarrow> Inr []
           | Some JNull \<Rightarrow> Inr []
           | Some (JStr s) \<Rightarrow> Inr s
           | Some v \<Rightarrow> Inl (errorf ''json: cannot unmarshal''))
      | _ \<Rightarrow> Inl (errorf ''json: cannot unmarshal''))"

definition read_body :: "string \<Rightarrow> (json \<Rightarrow> err + 'a) \<Rightarrow> kc_response \<Rightarrow> err + 'a" where
  "read_body what read r =
     (case ks_json r of
        Inl e \<Rightarrow> Inl (wrap what e)
      | Inr j \<Rightarrow> (case read j of Inl e \<Rightarrow> Inl (wrap what e) | Inr x \<Rightarrow> Inr x))"

fun read_all :: "(json \<Rightarrow> err + 'a) \<Rightarrow> json list \<Rightarrow> err + 'a list" where
  "read_all read [] = Inr []"
| "read_all read (j # js) =
     (case read j of Inl e \<Rightarrow> Inl e | Inr x \<Rightarrow> (case read_all read js of Inl e \<Rightarrow> Inl e | Inr xs \<Rightarrow> Inr (x # xs)))"

definition read_list :: "(json \<Rightarrow> err + 'a) \<Rightarrow> json \<Rightarrow> err + 'a list" where
  "read_list read j =
     (case j of JNull \<Rightarrow> Inr [] | JArr js \<Rightarrow> read_all read js | _ \<Rightarrow> Inl (errorf ''json: cannot unmarshal''))"

text \<open>A member that is written only when it is not empty.\<close>

definition opt_str :: "string \<Rightarrow> string \<Rightarrow> (string \<times> json) list" where
  "opt_str k s = (if s = [] then [] else [(k, JStr s)])"

definition opt_bool :: "string \<Rightarrow> bool \<Rightarrow> (string \<times> json) list" where
  "opt_bool k b = (if b then [(k, JBool True)] else [])"

definition opt_int :: "string \<Rightarrow> int \<Rightarrow> (string \<times> json) list" where
  "opt_int k i = (if i = 0 then [] else [(k, JInt i)])"

definition opt_strs :: "string \<Rightarrow> string list \<Rightarrow> (string \<times> json) list" where
  "opt_strs k xs = (if xs = [] then [] else [(k, JArr (map JStr xs))])"

subsection \<open>The admin client\<close>

record 'w admin_client =
  ad_web :: "'w web"
  ad_base :: string
  ad_realm :: string

definition NewAdminClient :: "'w web \<Rightarrow> string \<Rightarrow> string \<Rightarrow> 'w admin_client" where
  "NewAdminClient W base realm = \<lparr>ad_web = W, ad_base = trim_suffix base ''/'', ad_realm = realm\<rparr>"

definition admin_realm_url :: "'w admin_client \<Rightarrow> string \<Rightarrow> string" where
  "admin_realm_url A rest = ad_base A @ ''/admin/realms/'' @ ad_realm A @ rest"

definition realm_url :: "'w admin_client \<Rightarrow> string \<Rightarrow> string" where
  "realm_url A realm = ad_base A @ ''/admin/realms/'' @ realm"

definition TokenForRegistration :: "'w admin_client \<Rightarrow> 'w \<Rightarrow> (err + string) \<times> 'w" where
  "TokenForRegistration A w =
     (case kc_call (ad_web A) ''failed to create initial access token request'' ''failed to request initial access token''
             (kc_send POST (admin_realm_url A ''/clients-initial-access'') (JObj [])) w of
        (Inl e, w1) \<Rightarrow> (Inl e, w1)
      | (Inr r, w1) \<Rightarrow>
          (if ks_status r \<noteq> 200 \<and> ks_status r \<noteq> 201 then Inl (readErrorResponse r ''create initial access token'')
           else read_body ''failed to parse initial access token response'' (\<lambda>j. json_str j ''token'') r, w1))"

record client_entry =
  ce_id :: string
  ce_client_id :: string
  ce_name :: string
  ce_secret :: string

definition read_client :: "json \<Rightarrow> err + client_entry" where
  "read_client j =
     (case (json_str j ''id'', json_str j ''clientId'', json_str j ''name'', json_str j ''secret'') of
        (Inr i, Inr c, Inr n, Inr s) \<Rightarrow> Inr \<lparr>ce_id = i, ce_client_id = c, ce_name = n, ce_secret = s\<rparr>
      | _ \<Rightarrow> Inl (errorf ''json: cannot unmarshal''))"

definition ListClients :: "'w admin_client \<Rightarrow> 'w \<Rightarrow> (err + client_entry list) \<times> 'w" where
  "ListClients A w =
     (case kc_call (ad_web A) ''failed to create get clients request'' ''failed to get clients'' (kc_get (admin_realm_url A ''/clients'')) w of
        (Inl e, w1) \<Rightarrow> (Inl e, w1)
      | (Inr r, w1) \<Rightarrow>
          (if ks_status r \<noteq> 200 then Inl (readErrorResponse r ''get clients'')
           else read_body ''failed to parse clients response'' (read_list read_client) r, w1))"

definition GetClientByName :: "'w admin_client \<Rightarrow> string \<Rightarrow> 'w \<Rightarrow> (err + client_entry option) \<times> 'w" where
  "GetClientByName A name w =
     (case ListClients A w of
        (Inl e, w1) \<Rightarrow> (Inl e, w1)
      | (Inr cs, w1) \<Rightarrow> (Inr (find (\<lambda>c. ce_name c = name) cs), w1))"

definition resolveClientUUID :: "'w admin_client \<Rightarrow> string \<Rightarrow> 'w \<Rightarrow> (err + string) \<times> 'w" where
  "resolveClientUUID A client_id w =
     (case ListClients A w of
        (Inl e, w1) \<Rightarrow> (Inl e, w1)
      | (Inr cs, w1) \<Rightarrow>
          (case find (\<lambda>c. ce_client_id c = client_id) cs of
             Some c \<Rightarrow> (Inr (ce_id c), w1)
           | None \<Rightarrow> (Inl (errorf (''client with client_id '' @ quoted client_id @ '' not found'')), w1)))"

definition RefreshToken :: "'w admin_client \<Rightarrow> string \<Rightarrow> 'w \<Rightarrow> (err + string) \<times> 'w" where
  "RefreshToken A client_id w =
     (case resolveClientUUID A client_id w of
        (Inl e, w1) \<Rightarrow> (Inl e, w1)
      | (Inr uuid, w1) \<Rightarrow>
          (case kc_call (ad_web A) ''failed to create token regeneration request'' ''failed to request token regeneration''
                  \<lparr>kq_method = POST, kq_url = admin_realm_url A (''/clients/'' @ uuid @ ''/registration-access-token''),
                   kq_body = None, kq_auth = None\<rparr> w1 of
             (Inl e, w2) \<Rightarrow> (Inl e, w2)
           | (Inr r, w2) \<Rightarrow>
               (if ks_status r \<noteq> 200 \<and> ks_status r \<noteq> 201 then Inl (readErrorResponse r ''regenerate registration access token'')
                else read_body ''failed to parse token regeneration response'' (\<lambda>j. json_str j ''registrationAccessToken'') r, w2)))"

definition RegistrationEndpoint :: "'w admin_client \<Rightarrow> string" where
  "RegistrationEndpoint A = ad_base A @ ''/realms/'' @ ad_realm A @ ''/clients-registrations/openid-connect''"

definition RealmExists :: "'w admin_client \<Rightarrow> string \<Rightarrow> 'w \<Rightarrow> (err + bool) \<times> 'w" where
  "RealmExists A realm w =
     (case kc_call (ad_web A) ''failed to create get realm request'' (''failed to get realm '' @ quoted realm) (kc_get (realm_url A realm)) w of
        (Inl e, w1) \<Rightarrow> (Inl e, w1)
      | (Inr r, w1) \<Rightarrow>
          (if ks_status r = 200 then Inr True else if ks_status r = 404 then Inr False
           else Inl (readErrorResponse r ''get realm''), w1))"

record smtp_config =
  sm_host :: string
  sm_port :: string
  sm_from :: string
  sm_ssl :: bool
  sm_starttls :: bool
  sm_auth :: bool
  sm_user :: string
  sm_password :: string

record realm_config =
  rc_realm :: string
  rc_display :: string
  rc_enabled :: bool
  rc_login_email :: bool
  rc_email_username :: bool
  rc_registration :: bool
  rc_idle :: int
  rc_lifespan :: int
  rc_smtp :: "smtp_config option"

definition smtp_json :: "smtp_config \<Rightarrow> json" where
  "smtp_json s = JObj (opt_str ''host'' (sm_host s) @ opt_str ''port'' (sm_port s) @ opt_str ''from'' (sm_from s) @
     opt_bool ''ssl'' (sm_ssl s) @ opt_bool ''starttls'' (sm_starttls s) @ opt_bool ''auth'' (sm_auth s) @
     opt_str ''user'' (sm_user s) @ opt_str ''password'' (sm_password s))"

definition realm_json :: "realm_config \<Rightarrow> json" where
  "realm_json c = JObj ([(''realm'', JStr (rc_realm c))] @ opt_str ''displayName'' (rc_display c) @
     [(''enabled'', JBool (rc_enabled c))] @ opt_bool ''loginWithEmailAllowed'' (rc_login_email c) @
     opt_bool ''registrationEmailAsUsername'' (rc_email_username c) @ opt_bool ''registrationAllowed'' (rc_registration c) @
     opt_int ''ssoSessionIdleTimeout'' (rc_idle c) @ opt_int ''accessTokenLifespan'' (rc_lifespan c) @
     (case rc_smtp c of None \<Rightarrow> [] | Some s \<Rightarrow> [(''smtpServer'', smtp_json s)]))"

definition updateRealm :: "'w admin_client \<Rightarrow> string \<Rightarrow> json \<Rightarrow> 'w \<Rightarrow> err option \<times> 'w" where
  "updateRealm A realm body w =
     (case kc_call (ad_web A) ''failed to create realm update request'' ''failed to update realm'' (kc_send PUT (realm_url A realm) body) w of
        (Inl e, w1) \<Rightarrow> (Some e, w1)
      | (Inr r, w1) \<Rightarrow>
          (if ks_status r \<noteq> 204 \<and> ks_status r \<noteq> 200 then Some (readErrorResponse r ''update realm'') else None, w1))"

definition CreateOrUpdateRealm :: "'w admin_client \<Rightarrow> realm_config \<Rightarrow> 'w \<Rightarrow> (err + bool) \<times> 'w" where
  "CreateOrUpdateRealm A c w =
     (case kc_call (ad_web A) ''failed to create realm request'' ''failed to create realm''
             (kc_send POST (ad_base A @ ''/admin/realms'') (realm_json c)) w of
        (Inl e, w1) \<Rightarrow> (Inl e, w1)
      | (Inr r, w1) \<Rightarrow>
          (if ks_status r = 201 then (Inr True, w1)
           else if ks_status r = 409 then
             (case updateRealm A (rc_realm c) (realm_json c) w1 of (Some e, w2) \<Rightarrow> (Inl e, w2) | (None, w2) \<Rightarrow> (Inr False, w2))
           else (Inl (readErrorResponse r ''create realm''), w1)))"

definition DeleteRealm :: "'w admin_client \<Rightarrow> string \<Rightarrow> 'w \<Rightarrow> err option \<times> 'w" where
  "DeleteRealm A realm w =
     (case kc_call (ad_web A) ''failed to create realm delete request'' ''failed to delete realm''
             \<lparr>kq_method = DELETE, kq_url = realm_url A realm, kq_body = None, kq_auth = None\<rparr> w of
        (Inl e, w1) \<Rightarrow> (Some e, w1)
      | (Inr r, w1) \<Rightarrow>
          (if ks_status r \<noteq> 204 \<and> ks_status r \<noteq> 200 \<and> ks_status r \<noteq> 404 then Some (readErrorResponse r ''delete realm'') else None, w1))"

subsection \<open>Service accounts\<close>

record service_account_client =
  sa_client_id :: string
  sa_name :: string
  sa_enabled :: bool
  sa_accounts_enabled :: bool
  sa_public :: bool

definition service_account_json :: "service_account_client \<Rightarrow> json" where
  "service_account_json c = JObj ([(''clientId'', JStr (sa_client_id c))] @ opt_str ''name'' (sa_name c) @
     [(''enabled'', JBool (sa_enabled c)), (''serviceAccountsEnabled'', JBool (sa_accounts_enabled c)), (''publicClient'', JBool (sa_public c))])"

definition CreateServiceAccountClient :: "'w admin_client \<Rightarrow> service_account_client \<Rightarrow> 'w \<Rightarrow> (err + client_entry) \<times> 'w" where
  "CreateServiceAccountClient A c w =
     (case kc_call (ad_web A) ''failed to create client request'' ''failed to create client''
             (kc_send POST (admin_realm_url A ''/clients'') (service_account_json c)) w of
        (Inl e, w1) \<Rightarrow> (Inl e, w1)
      | (Inr r, w1) \<Rightarrow>
          (if ks_status r \<noteq> 201 then Inl (readErrorResponse r ''create client'')
           else if ks_location r = [] then Inl (errorf ''no location header in create client response'')
           else Inr \<lparr>ce_id = last (split_on (CHR ''/'') (ks_location r)), ce_client_id = sa_client_id c, ce_name = sa_name c, ce_secret = []\<rparr>, w1))"

definition GetClientSecret :: "'w admin_client \<Rightarrow> string \<Rightarrow> 'w \<Rightarrow> (err + string) \<times> 'w" where
  "GetClientSecret A uuid w =
     (case kc_call (ad_web A) ''failed to create get client secret request'' ''failed to get client secret''
             (kc_get (admin_realm_url A (''/clients/'' @ uuid @ ''/client-secret''))) w of
        (Inl e, w1) \<Rightarrow> (Inl e, w1)
      | (Inr r, w1) \<Rightarrow>
          (if ks_status r \<noteq> 200 then Inl (readErrorResponse r ''get client secret'')
           else read_body ''failed to parse client secret response'' (\<lambda>j. json_str j ''value'') r, w1))"

text \<open>Users and roles are read as their identifier and their name.\<close>

definition read_pair :: "string \<Rightarrow> json \<Rightarrow> err + string \<times> string" where
  "read_pair k j = (case (json_str j ''id'', json_str j k) of (Inr i, Inr n) \<Rightarrow> Inr (i, n) | _ \<Rightarrow> Inl (errorf ''json: cannot unmarshal''))"

definition GetServiceAccountUser :: "'w admin_client \<Rightarrow> string \<Rightarrow> 'w \<Rightarrow> (err + string \<times> string) \<times> 'w" where
  "GetServiceAccountUser A uuid w =
     (case kc_call (ad_web A) ''failed to create get service account user request'' ''failed to get service account user''
             (kc_get (admin_realm_url A (''/clients/'' @ uuid @ ''/service-account-user''))) w of
        (Inl e, w1) \<Rightarrow> (Inl e, w1)
      | (Inr r, w1) \<Rightarrow>
          (if ks_status r \<noteq> 200 then Inl (readErrorResponse r ''get service account user'')
           else read_body ''failed to parse service account user response'' (read_pair ''username'') r, w1))"

definition GetRealmRole :: "'w admin_client \<Rightarrow> string \<Rightarrow> 'w \<Rightarrow> (err + (string \<times> string) option) \<times> 'w" where
  "GetRealmRole A name w =
     (case kc_call (ad_web A) ''failed to create get role request'' ''failed to get role'' (kc_get (admin_realm_url A (''/roles/'' @ name))) w of
        (Inl e, w1) \<Rightarrow> (Inl e, w1)
      | (Inr r, w1) \<Rightarrow>
          (if ks_status r = 404 then Inr None
           else if ks_status r \<noteq> 200 then Inl (readErrorResponse r ''get role'')
           else map_sum id Some (read_body ''failed to parse role response'' (read_pair ''name'') r), w1))"

definition AssignRealmRoleToUser :: "'w admin_client \<Rightarrow> string \<Rightarrow> string \<times> string \<Rightarrow> 'w \<Rightarrow> err option \<times> 'w" where
  "AssignRealmRoleToUser A user role w =
     (case kc_call (ad_web A) ''failed to create assign role request'' ''failed to assign role''
             (kc_send POST (admin_realm_url A (''/users/'' @ user @ ''/role-mappings/realm''))
                (JArr [JObj [(''id'', JStr (fst role)), (''name'', JStr (snd role))]])) w of
        (Inl e, w1) \<Rightarrow> (Some e, w1)
      | (Inr r, w1) \<Rightarrow>
          (if ks_status r \<noteq> 204 \<and> ks_status r \<noteq> 200 then Some (readErrorResponse r ''assign role to user'') else None, w1))"

subsection \<open>Client registration\<close>

record client_metadata =
  cm_client_id :: string
  cm_client_name :: string
  cm_redirects :: "string list"
  cm_grants :: "string list"
  cm_auth_method :: string
  cm_logouts :: "string list"

text \<open>The fields that the operator sets; the others stay empty and are not written.\<close>

definition metadata_json :: "client_metadata \<Rightarrow> json" where
  "metadata_json m = JObj (opt_str ''client_id'' (cm_client_id m) @ opt_str ''client_name'' (cm_client_name m) @
     opt_strs ''redirect_uris'' (cm_redirects m) @ opt_strs ''grant_types'' (cm_grants m) @
     opt_str ''token_endpoint_auth_method'' (cm_auth_method m) @ opt_strs ''post_logout_redirect_uris'' (cm_logouts m))"

record client_information =
  cl_id :: string
  cl_secret :: string
  cl_token :: string
  cl_uri :: string

definition read_information :: "json \<Rightarrow> err + client_information" where
  "read_information j =
     (case (json_str j ''client_id'', json_str j ''client_secret'', json_str j ''registration_access_token'',
            json_str j ''registration_client_uri'') of
        (Inr i, Inr s, Inr t, Inr u) \<Rightarrow> Inr \<lparr>cl_id = i, cl_secret = s, cl_token = t, cl_uri = u\<rparr>
      | _ \<Rightarrow> Inl (errorf ''json: cannot unmarshal''))"

datatype reg_error = HTTPError int string | ErrNoTokenProvider | ErrNoRegistrationURI | RegError err

definition reg_err :: "string \<Rightarrow> reg_error \<Rightarrow> err" where
  "reg_err operation e =
     (case e of
        HTTPError status body \<Rightarrow>
          errorf (''oidc '' @ operation @ '' failed: HTTP '' @ itoa status @ (if body = [] then [] else '': '' @ body))
      | ErrNoTokenProvider \<Rightarrow> errorf ''oidc: token provider is required for this operation''
      | ErrNoRegistrationURI \<Rightarrow> errorf ''oidc: registration client URI is required''
      | RegError x \<Rightarrow> x)"

definition reg_not_found :: "reg_error \<Rightarrow> bool" where
  "reg_not_found e = (case e of HTTPError status body \<Rightarrow> status = 404 | _ \<Rightarrow> False)"

definition reg_unauthorized :: "reg_error \<Rightarrow> bool" where
  "reg_unauthorized e = (case e of HTTPError status body \<Rightarrow> status = 401 | _ \<Rightarrow> False)"

text \<open>
  \<^verbatim>\<open>RoundTrip\<close>: a refused request of a known client is sent once more with a fresh token. The client is that of
  the context, empty when there is none. \<^verbatim>\<open>GetBody\<close> of a body in memory does not fail.
\<close>

definition RoundTrip :: "'w transport \<Rightarrow> (string \<Rightarrow> 'w \<Rightarrow> (err + string) \<times> 'w) option \<Rightarrow> string \<Rightarrow> 'w transport" where
  "RoundTrip base refresher client_id q w =
     (case base q w of
        (Inl e, w1) \<Rightarrow> (Inl e, w1)
      | (Inr r, w1) \<Rightarrow>
          (case refresher of
             None \<Rightarrow> (Inr r, w1)
           | Some refresh \<Rightarrow>
               if ks_status r \<noteq> 401 \<or> client_id = [] then (Inr r, w1)
               else (case refresh client_id w1 of
                  (Inl e, w2) \<Rightarrow> (Inr r, w2)
                | (Inr token, w2) \<Rightarrow> base (q\<lparr>kq_auth := Some token\<rparr>) w2)))"

text \<open>\<open>rg_do\<close> is the client's HTTP with the client of the context; \<open>rg_tokens\<close> its token provider.\<close>

record 'w reg_client =
  rg_url :: "string \<Rightarrow> err option"
  rg_do :: "string \<Rightarrow> 'w transport"
  rg_tokens :: "('w \<Rightarrow> (err + string) \<times> 'w) option"

definition reg_call :: "'w reg_client \<Rightarrow> string \<Rightarrow> kc_request \<Rightarrow> 'w \<Rightarrow> (reg_error + kc_response) \<times> 'w" where
  "reg_call C client_id q w =
     (case rg_url C (kq_url q) of
        Some e \<Rightarrow> (Inl (RegError (wrap ''failed to create request'' e)), w)
      | None \<Rightarrow>
          (case rg_do C client_id q w of
             (Inl e, w1) \<Rightarrow> (Inl (RegError (wrap ''failed to execute request'' e)), w1)
           | (Inr r, w1) \<Rightarrow> (Inr r, w1)))"

definition reg_answer :: "int \<Rightarrow> kc_response \<Rightarrow> reg_error + client_information" where
  "reg_answer status r =
     (if ks_status r \<noteq> status then Inl (HTTPError (ks_status r) (ks_text r))
      else map_sum RegError id (read_body ''failed to parse response'' read_information r))"

definition reg_exchange ::
  "'w reg_client \<Rightarrow> string \<Rightarrow> int \<Rightarrow> kc_request \<Rightarrow> 'w \<Rightarrow> (reg_error + client_information) \<times> 'w" where
  "reg_exchange C client_id status q w =
     (case reg_call C client_id q w of (Inl e, w1) \<Rightarrow> (Inl e, w1) | (Inr r, w1) \<Rightarrow> (reg_answer status r, w1))"

definition doRegister :: "'w reg_client \<Rightarrow> string \<Rightarrow> string \<Rightarrow> client_metadata \<Rightarrow> 'w \<Rightarrow> (reg_error + client_information) \<times> 'w" where
  "doRegister C endpoint token m =
     reg_exchange C [] 201 \<lparr>kq_method = POST, kq_url = endpoint, kq_body = Some (metadata_json m), kq_auth = Some token\<rparr>"

definition Register_client :: "'w reg_client \<Rightarrow> string \<Rightarrow> client_metadata \<Rightarrow> 'w \<Rightarrow> (reg_error + client_information) \<times> 'w" where
  "Register_client C endpoint m w =
     (case rg_tokens C of
        None \<Rightarrow> (Inl ErrNoTokenProvider, w)
      | Some provide \<Rightarrow>
          (case provide w of
             (Inl e, w1) \<Rightarrow> (Inl (RegError (wrap ''failed to get registration token'' e)), w1)
           | (Inr token, w1) \<Rightarrow> doRegister C endpoint token m w1))"

definition Read_client :: "'w reg_client \<Rightarrow> string \<Rightarrow> string \<Rightarrow> string \<Rightarrow> 'w \<Rightarrow> (reg_error + client_information) \<times> 'w" where
  "Read_client C client_id uri token w =
     (if uri = [] then (Inl ErrNoRegistrationURI, w)
      else reg_exchange C client_id 200 \<lparr>kq_method = GET, kq_url = uri, kq_body = None, kq_auth = Some token\<rparr> w)"

definition Update_client ::
  "'w reg_client \<Rightarrow> string \<Rightarrow> string \<Rightarrow> client_metadata \<Rightarrow> 'w \<Rightarrow> (reg_error + client_information) \<times> 'w" where
  "Update_client C uri token m w =
     (if uri = [] then (Inl ErrNoRegistrationURI, w)
      else reg_exchange C (cm_client_id m) 200
             \<lparr>kq_method = PUT, kq_url = uri, kq_body = Some (metadata_json m), kq_auth = Some token\<rparr> w)"

definition Delete_client :: "'w reg_client \<Rightarrow> string \<Rightarrow> string \<Rightarrow> string \<Rightarrow> 'w \<Rightarrow> reg_error option \<times> 'w" where
  "Delete_client C client_id uri token w =
     (if uri = [] then (Some ErrNoRegistrationURI, w)
      else case reg_call C client_id \<lparr>kq_method = DELETE, kq_url = uri, kq_body = None, kq_auth = Some token\<rparr> w of
        (Inl e, w1) \<Rightarrow> (Some e, w1)
      | (Inr r, w1) \<Rightarrow> (if ks_status r \<noteq> 204 then Some (HTTPError (ks_status r) (ks_text r)) else None, w1))"

end
