(* ===== verification/Idp_Config.thy ===== *)
theory Idp_Config
  imports Keycloak_Client
begin

text \<open>
  The controller of IdentityProviderConfigurations (\<^verbatim>\<open>internal/subroutine/idp/subroutine.go\<close>): the realm of an
  organization in Keycloak with its clients, whose secrets are kept in \<^verbatim>\<open>root:orgs\<close>.
\<close>

subsection \<open>The resource\<close>

datatype idp_client_type = Confidential | Public | OtherClientType string

type_synonym secret_ref = "string \<times> string"

text \<open>A reference is a namespace and a name.\<close>

record idp_client_config =
  ic_type :: idp_client_type
  ic_name :: string
  ic_redirects :: "string list"
  ic_logouts :: "string list"
  ic_secret :: secret_ref

record managed_client =
  mc_id :: string
  mc_uri :: string
  mc_secret :: secret_ref

record idp_spec =
  is_registration :: bool
  is_clients :: "idp_client_config list"

record idp_status =
  is_conditions :: "condition list"
  is_managed :: "string \<rightharpoonup> managed_client"

record idp_config =
  idp_meta :: objmeta
  idp_spec_of :: idp_spec
  idp_status_of :: idp_status

definition idp_conditions :: "idp_config cond_accessor" where
  "idp_conditions =
     \<lparr>get_conditions = (\<lambda>x. is_conditions (idp_status_of x)),
      set_conditions = (\<lambda>cs x. x\<lparr>idp_status_of := (idp_status_of x)\<lparr>is_conditions := cs\<rparr>\<rparr>)\<rparr>"

definition idp_iface ::
  "(idp_config \<Rightarrow> err + json) \<Rightarrow> (json \<Rightarrow> idp_config \<Rightarrow> err option \<times> idp_config) \<Rightarrow> idp_config obj_iface" where
  "idp_iface = typed_iface idp_meta idp_meta_update (Some idp_conditions) None"

interpretation idp_obj: object_laws "idp_iface tu fu" for tu fu
  unfolding idp_iface_def by (rule object_laws_typed) (auto simp: idp_conditions_def)

definition idp_name :: "idp_config \<Rightarrow> string" where
  "idp_name x = m_name (idp_meta x)"

text \<open>A managed client that is not in the map reads as one of empty fields.\<close>

definition managed_of :: "idp_config \<Rightarrow> string \<Rightarrow> managed_client" where
  "managed_of x name =
     (case is_managed (idp_status_of x) name of None \<Rightarrow> \<lparr>mc_id = [], mc_uri = [], mc_secret = ([], [])\<rparr> | Some m \<Rightarrow> m)"

subsection \<open>Secrets\<close>

record client_secret =
  cs_ref :: secret_ref
  cs_labels :: "string \<rightharpoonup> string"
  cs_data :: "(string \<rightharpoonup> string) option"
  cs_type :: string

record 'w idp_env =
  id_orgs :: "'w \<Rightarrow> err + (client_secret, 'w) kind_client"
  id_put_secret :: "(client_secret, 'w) put"
  id_from_context :: "string option \<Rightarrow> 'w \<Rightarrow> err option"
  id_patch_status :: "idp_config \<Rightarrow> idp_config \<Rightarrow> 'w \<Rightarrow> err option \<times> idp_config \<times> 'w"
  id_web :: "'w web"
  id_base :: string
  id_registration :: "'w transport"
  id_order :: "(string \<rightharpoonup> managed_client) \<Rightarrow> string list"
  id_smtp :: "smtp_config option"
  id_lifespan :: int
  id_not_engaged :: "err \<Rightarrow> bool"

text \<open>
  \<open>id_orgs\<close> are the secrets of \<^verbatim>\<open>root:orgs\<close>; \<open>id_from_context\<close> finds the cluster of the context; \<open>id_web\<close> is the admin's HTTP client and \<open>id_registration\<close>
  the plain transport below the retrying one; \<open>id_order\<close> the names of a map in the order it is ranged over;
  \<open>id_smtp\<close> host, port, sender, protocols and credentials of the configuration; \<open>id_not_engaged\<close> recognises
  \<^verbatim>\<open>ErrClusterNotFound\<close>.
\<close>

definition clusterNotReadyRequeue :: duration where
  "clusterNotReadyRequeue = seconds 5"

definition pendingIfClusterNotReady :: "'w idp_env \<Rightarrow> outcome \<Rightarrow> outcome" where
  "pendingIfClusterNotReady R out =
     (case out of
        Ret r (Some e) \<Rightarrow>
          if id_not_engaged R e
          then ret_pending clusterNotReadyRequeue (''waiting for cluster to be engaged by the multicluster provider'')
          else out
      | _ \<Rightarrow> out)"

definition newOIDCClient :: "'w idp_env \<Rightarrow> string \<Rightarrow> 'w reg_client \<times> 'w admin_client" where
  "newOIDCClient R realm =
     (let A = NewAdminClient (id_web R) (id_base R) realm in
      (\<lparr>rg_url = wb_url (id_web R), rg_do = RoundTrip (id_registration R) (Some (RefreshToken A)),
        rg_tokens = Some (TokenForRegistration A)\<rparr>, A))"

definition readRegistrationAccessToken :: "'w idp_env \<Rightarrow> secret_ref \<Rightarrow> 'w \<Rightarrow> err + string" where
  "readRegistrationAccessToken R ref w =
     (case id_orgs R w of
        Inl e \<Rightarrow> Inl (wrap ''getting orgs client'' e)
      | Inr K \<Rightarrow>
          (case k_get K ref w of
             Inl e \<Rightarrow> Inl e
           | Inr s \<Rightarrow> Inr (case cs_data s of None \<Rightarrow> [] | Some d \<Rightarrow> (case d ''registration_access_token'' of None \<Rightarrow> [] | Some t \<Rightarrow> t))))"

definition empty_secret :: "secret_ref \<Rightarrow> client_secret" where
  "empty_secret ref = \<lparr>cs_ref = ref, cs_labels = Map.empty, cs_data = None, cs_type = []\<rparr>"

definition delete_secret :: "'w idp_env \<Rightarrow> string \<Rightarrow> secret_ref \<Rightarrow> 'w \<Rightarrow> err option \<times> 'w" where
  "delete_secret R what ref w =
     (case id_orgs R w of
        Inl e \<Rightarrow> (Some (wrap ''getting orgs client'' e), w)
      | Inr K \<Rightarrow>
          (case k_delete K (empty_secret ref) w of (Some e, w1) \<Rightarrow> (Some (wrap what e), w1) | (None, w1) \<Rightarrow> (None, w1)))"

definition secret_mutation :: "client_information \<Rightarrow> client_secret \<Rightarrow> err + client_secret" where
  "secret_mutation info s =
     (let d = (case cs_data s of None \<Rightarrow> Map.empty | Some d \<Rightarrow> d);
          d1 = (if cl_secret info \<noteq> [] then d(''client_secret'' \<mapsto> cl_secret info) else d);
          d2 = (if cl_token info \<noteq> [] then d1(''registration_access_token'' \<mapsto> cl_token info) else d1) in
      Inr (s\<lparr>cs_data := Some d2, cs_type := ''Opaque''\<rparr>))"

definition createOrUpdateSecret :: "'w idp_env \<Rightarrow> idp_client_config \<Rightarrow> client_information \<Rightarrow> string \<Rightarrow> 'w \<Rightarrow> err option \<times> 'w" where
  "createOrUpdateSecret R c info idp w =
     (case id_orgs R w of
        Inl e \<Rightarrow> (Some (wrap ''getting orgs client'' e), w)
      | Inr K \<Rightarrow>
          id_put_secret R (secret_mutation info)
            ((empty_secret (ic_secret c))\<lparr>cs_labels := [''core.platform-mesh.io/idp-name'' \<mapsto> idp, ''core.platform-mesh.io/client-name'' \<mapsto> ic_name c]\<rparr>) w)"

subsection \<open>Processing\<close>

definition desired_realm :: "'w idp_env \<Rightarrow> string \<Rightarrow> bool \<Rightarrow> realm_config" where
  "desired_realm R realm registration =
     \<lparr>rc_realm = realm, rc_display = realm, rc_enabled = True, rc_login_email = True, rc_email_username = True,
      rc_registration = registration, rc_idle = id_lifespan R, rc_lifespan = id_lifespan R,
      rc_smtp =
        (case id_smtp R of
           None \<Rightarrow> None
         | Some s \<Rightarrow>
             Some (if sm_user s \<noteq> [] then s\<lparr>sm_auth := True\<rparr>
                   else s\<lparr>sm_auth := False, sm_user := [], sm_password := []\<rparr>))\<rparr>"

definition ensureRealm :: "'w idp_env \<Rightarrow> 'w admin_client \<Rightarrow> string \<Rightarrow> bool \<Rightarrow> 'w \<Rightarrow> err option \<times> 'w" where
  "ensureRealm R A realm registration w =
     (case CreateOrUpdateRealm A (desired_realm R realm registration) w of
        (Inl e, w1) \<Rightarrow> (Some (wrap ''failed to create or update realm'' e), w1)
      | (Inr _, w1) \<Rightarrow> (None, w1))"

text \<open>Deleting one managed client that the spec does not name any more.\<close>

definition delete_removed :: "'w idp_env \<Rightarrow> 'w reg_client \<Rightarrow> string \<Rightarrow> managed_client \<Rightarrow> 'w \<Rightarrow> err option \<times> 'w" where
  "delete_removed R C name m w =
     (case readRegistrationAccessToken R (mc_secret m) w of
        Inl e \<Rightarrow>
          if is_not_found e then (None, w) else (Some (wrap ''failed to get registration access token from secret'' e), w)
      | Inr token \<Rightarrow>
          (case Delete_client C (mc_id m) (mc_uri m) token w of
             (e, w1) \<Rightarrow>
               if \<exists>x. e = Some x \<and> \<not> reg_not_found x
               then (Some (wrap (''failed to delete client '' @ name) (reg_err ''delete'' (the e))), w1)
               else delete_secret R (''failed to delete client secret '' @ snd (mc_secret m)) (mc_secret m) w1))"

fun delete_each_removed ::
  "'w idp_env \<Rightarrow> 'w reg_client \<Rightarrow> idp_config \<Rightarrow> string list \<Rightarrow> 'w \<Rightarrow> err option \<times> 'w" where
  "delete_each_removed R C x [] w = (None, w)"
| "delete_each_removed R C x (name # names) w =
     (if name \<in> ic_name ` set (is_clients (idp_spec_of x)) then delete_each_removed R C x names w
      else case delete_removed R C name (managed_of x name) w of
        (Some e, w1) \<Rightarrow> (Some e, w1)
      | (None, w1) \<Rightarrow> delete_each_removed R C x names w1)"

definition deleteRemovedClients :: "'w idp_env \<Rightarrow> 'w reg_client \<Rightarrow> idp_config \<Rightarrow> 'w \<Rightarrow> err option \<times> 'w" where
  "deleteRemovedClients R C x = delete_each_removed R C x (id_order R (is_managed (idp_status_of x)))"

definition client_metadata_of :: "idp_client_config \<Rightarrow> client_metadata" where
  "client_metadata_of c =
     \<lparr>cm_client_id = [], cm_client_name = ic_name c, cm_redirects = ic_redirects c,
      cm_grants = [''authorization_code'', ''refresh_token''],
      cm_auth_method = (if ic_type c = Public then ''none'' else ''client_secret_basic''), cm_logouts = ic_logouts c\<rparr>"

definition registerOrUpdateClient ::
  "'w idp_env \<Rightarrow> 'w reg_client \<Rightarrow> 'w admin_client \<Rightarrow> idp_config \<Rightarrow> idp_client_config \<Rightarrow> string \<Rightarrow> 'w \<Rightarrow>
   (err + client_information) \<times> 'w" where
  "registerOrUpdateClient R C A x c realm w =
     (case GetClientByName A (ic_name c) w of
        (Inl e, w1) \<Rightarrow> (Inl (wrap ''failed to check if client exists'' e), w1)
      | (Inr None, w1) \<Rightarrow>
          (case Register_client C (RegistrationEndpoint A) (client_metadata_of c) w1 of
             (Inl e, w2) \<Rightarrow> (Inl (reg_err ''register'' e), w2) | (Inr i, w2) \<Rightarrow> (Inr i, w2))
      | (Inr (Some existing), w1) \<Rightarrow>
          (let m = managed_of x (ic_name c);
               uri = (if mc_uri m = [] then id_base R @ ''/realms/'' @ realm @ ''/clients-registrations/openid-connect/'' @ ce_client_id existing
                      else mc_uri m);
               cid = (if mc_id m = [] then ce_client_id existing else mc_id m) in
           case readRegistrationAccessToken R (ic_secret c) w1 of
             Inl e \<Rightarrow>
               if is_not_found e
               then (case Update_client C uri [] ((client_metadata_of c)\<lparr>cm_client_id := cid\<rparr>) w1 of
                       (Inl e, w2) \<Rightarrow> (Inl (reg_err ''update'' e), w2) | (Inr i, w2) \<Rightarrow> (Inr i, w2))
               else (Inl (wrap ''failed to get registration access token from secret'' e), w1)
           | Inr token \<Rightarrow>
               (case Update_client C uri token ((client_metadata_of c)\<lparr>cm_client_id := cid\<rparr>) w1 of
                  (Inl e, w2) \<Rightarrow> (Inl (reg_err ''update'' e), w2) | (Inr i, w2) \<Rightarrow> (Inr i, w2))))"

fun process_clients ::
  "'w idp_env \<Rightarrow> 'w reg_client \<Rightarrow> 'w admin_client \<Rightarrow> idp_config \<Rightarrow> (string \<rightharpoonup> managed_client) \<Rightarrow> idp_client_config list \<Rightarrow> 'w \<Rightarrow>
   (err + (string \<rightharpoonup> managed_client)) \<times> 'w" where
  "process_clients R C A x managed [] w = (Inr managed, w)"
| "process_clients R C A x managed (c # cs) w =
     (case registerOrUpdateClient R C A x c (idp_name x) w of
        (Inl e, w1) \<Rightarrow> (Inl (wrap (''failed to process client '' @ ic_name c) e), w1)
      | (Inr info, w1) \<Rightarrow>
          (case createOrUpdateSecret R c info (idp_name x) w1 of
             (Some e, w2) \<Rightarrow> (Inl (wrap ''failed to create or update kubernetes secret'' e), w2)
           | (None, w2) \<Rightarrow>
               process_clients R C A x (managed(ic_name c \<mapsto> \<lparr>mc_id = cl_id info, mc_uri = cl_uri info, mc_secret = ic_secret c\<rparr>)) cs w2))"

definition with_managed :: "(string \<rightharpoonup> managed_client) \<Rightarrow> idp_config \<Rightarrow> idp_config" where
  "with_managed m x = x\<lparr>idp_status_of := (idp_status_of x)\<lparr>is_managed := m\<rparr>\<rparr>"

text \<open>The status patch may return any object; the chain works on with the metadata the engine knows.\<close>

definition idp_process_body :: "'w idp_env \<Rightarrow> ('cl, 'v) ctx \<Rightarrow> idp_config \<Rightarrow> 'w \<Rightarrow> outcome \<times> idp_config \<times> 'w" where
  "idp_process_body R c x w =
     (case id_from_context R (ctx_cluster c) w of
        Some e \<Rightarrow> (ret_err (wrap ''failed to get cluster from context'' e), x, w)
      | None \<Rightarrow>
     (case newOIDCClient R (idp_name x) of
        (C, A) \<Rightarrow>
     (case ensureRealm R A (idp_name x) (is_registration (idp_spec_of x)) w of
        (Some e, w1) \<Rightarrow> (ret_err e, x, w1)
      | (None, w1) \<Rightarrow>
     (case deleteRemovedClients R C x w1 of
        (Some e, w2) \<Rightarrow> (ret_err e, x, w2)
      | (None, w2) \<Rightarrow>
     (case process_clients R C A x Map.empty (is_clients (idp_spec_of x)) w2 of
        (Inl e, w3) \<Rightarrow> (ret_err e, x, w3)
      | (Inr managed, w3) \<Rightarrow>
     (case id_patch_status R (with_managed managed x) x w3 of
        (Some e, y, w4) \<Rightarrow> (ret_err (wrap ''failed to patch IDP status'' e), y, w4)
      | (None, y, w4) \<Rightarrow> (ret OK, y, w4)))))))"

definition idp_process :: "'w idp_env \<Rightarrow> ('cl, 'v) ctx \<Rightarrow> idp_config \<Rightarrow> 'w \<Rightarrow> outcome \<times> idp_config \<times> 'w" where
  "idp_process R c x w = (case idp_process_body R c x w of (out, y, w1) \<Rightarrow> (pendingIfClusterNotReady R out, y, w1))"

subsection \<open>Finalizing\<close>

definition finalize_client :: "'w idp_env \<Rightarrow> 'w reg_client \<Rightarrow> idp_config \<Rightarrow> idp_client_config \<Rightarrow> 'w \<Rightarrow> err option \<times> 'w" where
  "finalize_client R C x c w =
     (case readRegistrationAccessToken R (ic_secret c) w of
        Inl e \<Rightarrow>
          if is_not_found e then (None, w) else (Some (wrap ''failed to get registration access token from secret'' e), w)
      | Inr token \<Rightarrow>
          (let m = managed_of x (ic_name c) in
           if mc_id m = [] then (None, w)
           else if mc_uri m = [] then (None, w)
           else case Delete_client C (mc_id m) (mc_uri m) token w of
             (e, w1) \<Rightarrow>
               if \<exists>y. e = Some y \<and> \<not> reg_not_found y
               then (Some (wrap ''failed to delete oidc client'' (reg_err ''delete'' (the e))), w1)
               else delete_secret R ''failed to delete client secret'' (ic_secret c) w1))"

fun finalize_clients :: "'w idp_env \<Rightarrow> 'w reg_client \<Rightarrow> idp_config \<Rightarrow> idp_client_config list \<Rightarrow> 'w \<Rightarrow> err option \<times> 'w" where
  "finalize_clients R C x [] w = (None, w)"
| "finalize_clients R C x (c # cs) w =
     (case finalize_client R C x c w of (Some e, w1) \<Rightarrow> (Some e, w1) | (None, w1) \<Rightarrow> finalize_clients R C x cs w1)"

definition idp_finalize_body :: "'w idp_env \<Rightarrow> ('cl, 'v) ctx \<Rightarrow> idp_config \<Rightarrow> 'w \<Rightarrow> outcome \<times> idp_config \<times> 'w" where
  "idp_finalize_body R c x w =
     (case newOIDCClient R (idp_name x) of
        (C, A) \<Rightarrow>
          (case finalize_clients R C x (is_clients (idp_spec_of x)) w of
             (Some e, w1) \<Rightarrow> (ret_err e, x, w1)
           | (None, w1) \<Rightarrow>
               (case DeleteRealm A (idp_name x) w1 of
                  (Some e, w2) \<Rightarrow> (ret_err (wrap ''failed to delete realm'' e), x, w2)
                | (None, w2) \<Rightarrow> (ret OK, x, w2))))"

definition idp_finalize :: "'w idp_env \<Rightarrow> ('cl, 'v) ctx \<Rightarrow> idp_config \<Rightarrow> 'w \<Rightarrow> outcome \<times> idp_config \<times> 'w" where
  "idp_finalize R c x w = (case idp_finalize_body R c x w of (out, y, w1) \<Rightarrow> (pendingIfClusterNotReady R out, y, w1))"

definition IdpFinalizer :: string where
  "IdpFinalizer = ''core.platform-mesh.io/idp-finalizer''"

definition idp_subroutine :: "'w idp_env \<Rightarrow> ('cl, 'v, idp_config, 'w) subroutine" where
  "idp_subroutine R =
     \<lparr>sub_name = ''IdentityProviderConfiguration'', as_processor = Some (idp_process R),
      as_finalizer = Some \<lparr>Finalize = idp_finalize R, Finalizers = (\<lambda>_. [IdpFinalizer])\<rparr>,
      as_initializer = None, as_terminator = None\<rparr>"

definition idp_controller ::
  "meta_api \<Rightarrow> idp_config obj_iface \<Rightarrow> ('cl, idp_config, 'w) engine_api \<Rightarrow> (json option \<Rightarrow> json option \<Rightarrow> bool) \<Rightarrow>
   (('cl, 'v) ctx \<Rightarrow> err + 'cl) \<Rightarrow> 'w idp_env \<Rightarrow> ('cl, 'v, idp_config, 'w) lifecycle option" where
  "idp_controller N I api deep_equal cluster_client R =
     with_conditions (conditions_manager N I) (new_lifecycle I api deep_equal cluster_client [idp_subroutine R])"

end
