(* ===== verification/Invite_User.thy ===== *)
theory Invite_User
  imports Keycloak_Client
begin

text \<open>
  The controller of Invites (\<^verbatim>\<open>internal/subroutine/invite/subroutine.go\<close>): a user of the organization's realm is created
  and sent the mail to complete the account. Queries are texts whose parameters \<^verbatim>\<open>url.Values\<close> encodes.
\<close>

record invite_user =
  iu_meta :: objmeta
  iu_email :: string
  iu_conditions :: "condition list"

definition invite_user_conditions :: "invite_user cond_accessor" where
  "invite_user_conditions = \<lparr>get_conditions = iu_conditions, set_conditions = (\<lambda>cs x. x\<lparr>iu_conditions := cs\<rparr>)\<rparr>"

definition invite_iface ::
  "(invite_user \<Rightarrow> err + json) \<Rightarrow> (json \<Rightarrow> invite_user \<Rightarrow> err option \<times> invite_user) \<Rightarrow> invite_user obj_iface" where
  "invite_iface = typed_iface iu_meta iu_meta_update (Some invite_user_conditions) None"

interpretation invite_obj: object_laws "invite_iface tu fu" for tu fu
  unfolding invite_iface_def by (rule object_laws_typed) (auto simp: invite_user_conditions_def)

record realm_user =
  ku_id :: string
  ku_email :: string
  ku_actions :: "string list"
  ku_enabled :: bool
  ku_credentials :: "(string \<times> string \<times> bool) list"

definition user_json :: "realm_user \<Rightarrow> json" where
  "user_json u = JObj (opt_str ''id'' (ku_id u) @ opt_str ''email'' (ku_email u) @ opt_strs ''requiredActions'' (ku_actions u) @
     opt_bool ''enabled'' (ku_enabled u) @
     (if ku_credentials u = [] then []
      else [(''credentials'', JArr (map (\<lambda>(t, v, b). JObj [(''type'', JStr t), (''value'', JStr v), (''temporary'', JBool b)]) (ku_credentials u)))]))"

text \<open>Of the users and clients in an answer the texts are read; only the identifier of a user is used.\<close>

definition read_user_id :: "json \<Rightarrow> err + string" where
  "read_user_id j =
     (case (json_str j ''id'', json_str j ''email'') of (Inr i, Inr e) \<Rightarrow> Inr i | _ \<Rightarrow> Inl (errorf ''json: cannot unmarshal''))"

definition read_client_id :: "json \<Rightarrow> err + string" where
  "read_client_id j =
     (case (json_str j ''id'', json_str j ''clientId'') of (Inr i, Inr c) \<Rightarrow> Inr i | _ \<Rightarrow> Inl (errorf ''json: cannot unmarshal''))"

text \<open>
  \<open>iv_cluster\<close> finds the client of a logical cluster; \<open>iv_query\<close> is \<^verbatim>\<open>url.Values.Encode\<close>; \<open>iv_status\<close> the text of a status;
  \<open>iv_web\<close> the HTTP client with the operator's credentials, whose errors are passed on as they are.
\<close>

record 'w invite_env =
  iv_infos :: "string \<Rightarrow> 'w \<Rightarrow> err + (platform_info, 'w) kind_client"
  iv_web :: "'w web"
  iv_base :: string
  iv_domain :: string
  iv_query :: "(string \<times> string) list \<Rightarrow> string"
  iv_status :: "int \<Rightarrow> string"
  iv_default_password :: bool
  iv_limiter :: "(invite_user, 'w) requeue_limiter"

definition iv_call :: "'w invite_env \<Rightarrow> kc_request \<Rightarrow> 'w \<Rightarrow> (err + kc_response) \<times> 'w" where
  "iv_call R q w = (case wb_url (iv_web R) (kq_url q) of Some e \<Rightarrow> (Inl e, w) | None \<Rightarrow> wb_do (iv_web R) q w)"

definition realm_part :: "'w invite_env \<Rightarrow> string \<Rightarrow> string \<Rightarrow> string" where
  "realm_part R realm rest = iv_base R @ ''/admin/realms/'' @ realm @ rest"

definition email_query :: "string \<Rightarrow> (string \<times> string) list" where
  "email_query email = [(''briefRepresentation'', ''true''), (''email'', email), (''max'', ''1'')]"

definition new_realm_user :: "'w invite_env \<Rightarrow> string \<Rightarrow> realm_user" where
  "new_realm_user R email =
     (if iv_default_password R
      then \<lparr>ku_id = [], ku_email = email, ku_actions = [''UPDATE_PASSWORD''], ku_enabled = True,
            ku_credentials = [(''password'', ''password'', True)]\<rparr>
      else \<lparr>ku_id = [], ku_email = email, ku_actions = [''UPDATE_PASSWORD'', ''VERIFY_EMAIL''], ku_enabled = True, ku_credentials = []\<rparr>)"

text \<open>A query that must answer 200; the answers are decoded.\<close>

definition iv_list ::
  "'w invite_env \<Rightarrow> (json \<Rightarrow> err + 'a) \<Rightarrow> string \<Rightarrow> string \<Rightarrow> 'w \<Rightarrow> (err + 'a list) \<times> 'w" where
  "iv_list R read failure url w =
     (case iv_call R (kc_get url) w of
        (Inl e, w1) \<Rightarrow> (Inl e, w1)
      | (Inr r, w1) \<Rightarrow>
          (if ks_status r \<noteq> 200 then Inl (errorf (failure @ '': '' @ iv_status R (ks_status r)))
           else case ks_json r of
             Inl e \<Rightarrow> Inl e
           | Inr j \<Rightarrow> read_list read j, w1))"

definition query_users :: "'w invite_env \<Rightarrow> string \<Rightarrow> string \<Rightarrow> 'w \<Rightarrow> (err + string list) \<times> 'w" where
  "query_users R realm email w =
     iv_list R read_user_id ''failed to query users'' (realm_part R realm (''/users?'' @ iv_query R (email_query email))) w"

text \<open>Sending the mail to a user.\<close>

definition send_invite :: "'w invite_env \<Rightarrow> string \<Rightarrow> string \<Rightarrow> string \<Rightarrow> 'w \<Rightarrow> err option \<times> 'w" where
  "send_invite R realm client_id uid w =
     (case iv_call R \<lparr>kq_method = PUT, kq_url = realm_part R realm (''/users/'' @ uid @ ''/execute-actions-email?'' @
                iv_query R [(''client_id'', client_id), (''redirect_uri'', ''https://'' @ realm @ ''.'' @ iv_domain R @ ''/'')]),
                kq_body = None, kq_auth = None\<rparr> w of
        (Inl e, w1) \<Rightarrow> (Some e, w1)
      | (Inr r, w1) \<Rightarrow>
          (if ks_status r \<noteq> 204 then Some (errorf (''failed to send invite email: '' @ iv_status R (ks_status r))) else None, w1))"

text \<open>Creating the user; the second query must find it, its first answer is taken without looking.\<close>

definition create_and_mail :: "'w invite_env \<Rightarrow> string \<Rightarrow> string \<Rightarrow> invite_user \<Rightarrow> 'w \<Rightarrow> outcome \<times> 'w" where
  "create_and_mail R realm client_id x w =
     (case iv_call R (kc_send POST (realm_part R realm ''/users'') (user_json (new_realm_user R (iu_email x)))) w of
        (Inl e, w1) \<Rightarrow> (ret_err (wrap ''posting to Keycloak to create user'' e), w1)
      | (Inr r, w1) \<Rightarrow>
     (if ks_status r \<noteq> 201 then (ret_err (errorf (''keycloak returned non-201 status code: '' @ iv_status R (ks_status r))), w1)
      else case query_users R realm (iu_email x) w1 of
        (Inl e, w2) \<Rightarrow> (ret_err e, w2)
      | (Inr [], w2) \<Rightarrow> (Panic ''index out of range'', w2)
      | (Inr (uid # _), w2) \<Rightarrow>
          (case send_invite R realm client_id uid w2 of
             (Some e, w3) \<Rightarrow> (ret_err e, w3)
           | (None, w3) \<Rightarrow> (ret OK, rq_forget (iv_limiter R) x w3))))"

definition invite_realm :: "'w invite_env \<Rightarrow> string option \<Rightarrow> 'w \<Rightarrow> err + string \<times> platform_info" where
  "invite_realm R cluster w =
     (case cluster of
        None \<Rightarrow> Inl (errorf ''failed to get cluster from context'')
      | Some n \<Rightarrow>
     (case iv_infos R n w of
        Inl e \<Rightarrow> Inl (wrap (''failed to get client for cluster '' @ quoted n) e)
      | Inr K \<Rightarrow>
     (case k_get K ([], DefaultAccountInfoName) w of
        Inl e \<Rightarrow> Inl e
      | Inr info \<Rightarrow>
          (let realm = al_name (pa_organization info) in
           if realm = [] then Inl (errorf ''organization name is empty in AccountInfo'') else Inr (realm, info)))))"

definition invite_process :: "'w invite_env \<Rightarrow> ('cl, 'v) ctx \<Rightarrow> invite_user \<Rightarrow> 'w \<Rightarrow> outcome \<times> invite_user \<times> 'w" where
  "invite_process R c x w =
     (case invite_realm R (ctx_cluster c) w of
        Inl e \<Rightarrow> (ret_err e, x, w)
      | Inr (realm, info) \<Rightarrow>
     (case query_users R realm (iu_email x) w of
        (Inl e, w1) \<Rightarrow> (ret_err e, x, w1)
      | (Inr users, w1) \<Rightarrow>
     (if users \<noteq> [] then (ret OK, x, rq_forget (iv_limiter R) x w1)
      else case pa_oidc info of
        None \<Rightarrow> (ret_err (errorf ''AccountInfo OIDC is not configured yet''), x, w1)
      | Some oidc \<Rightarrow>
     (case oi_clients oidc realm of
        None \<Rightarrow> (ret_err (errorf (''failed to get oidc client for organization '' @ realm)), x, w1)
      | Some oc \<Rightarrow>
     (case iv_list R read_client_id ''failed to verify client exists''
             (realm_part R realm (''/clients?'' @ iv_query R [(''clientId'', ci_client_id oc)])) w1 of
        (Inl e, w2) \<Rightarrow> (ret_err e, x, w2)
      | (Inr [], w2) \<Rightarrow> wait_for (iv_limiter R) ''client does not exist yet'' x w2
      | (Inr (_ # _), w2) \<Rightarrow>
          (case create_and_mail R realm (ci_client_id oc) x w2 of (out, w3) \<Rightarrow> (out, x, w3)))))))"

definition invite_subroutine :: "'w invite_env \<Rightarrow> ('cl, 'v, invite_user, 'w) subroutine" where
  "invite_subroutine R =
     \<lparr>sub_name = ''Invite'', as_processor = Some (invite_process R), as_finalizer = None, as_initializer = None,
      as_terminator = None\<rparr>"

definition invite_controller ::
  "meta_api \<Rightarrow> invite_user obj_iface \<Rightarrow> ('cl, invite_user, 'w) engine_api \<Rightarrow> (json option \<Rightarrow> json option \<Rightarrow> bool) \<Rightarrow>
   (('cl, 'v) ctx \<Rightarrow> err + 'cl) \<Rightarrow> 'w invite_env \<Rightarrow> ('cl, 'v, invite_user, 'w) lifecycle option" where
  "invite_controller N I api deep_equal cluster_client R =
     with_conditions (conditions_manager N I) (new_lifecycle I api deep_equal cluster_client [invite_subroutine R])"

end
