(* ===== verification/Org_Setup.thy ===== *)
theory Org_Setup
  imports Idp_Config Invite_User Fga_Accounts
begin

text \<open>
  Setting up an organization's workspace (\<^verbatim>\<open>internal/subroutine\<close> of the security operator): its Store
  (\<^verbatim>\<open>workspace_initializer.go\<close>), identity provider (\<^verbatim>\<open>idp.go\<close>), the invitation of its creator (\<^verbatim>\<open>invite.go\<close>), the
  authentication of its workspaces (\<^verbatim>\<open>workspace_authorization.go\<close>), what Terminate deletes again, and the finalizer of
  AccountInfos. The puts, patches and clients are those of kcp.
\<close>

subsection \<open>Names\<close>

record org_cluster = logical_cluster +
  lc_meta :: objmeta
  lc_owner_name :: string
  lc_initializers :: "string list"
  lc_terminators :: "string list"

definition org_iface ::
  "(org_cluster \<Rightarrow> err + json) \<Rightarrow> (json \<Rightarrow> org_cluster \<Rightarrow> err option \<times> org_cluster) \<Rightarrow> org_cluster obj_iface" where
  "org_iface = typed_iface lc_meta lc_meta_update None None"

interpretation org_obj: object_laws "org_iface tu fu" for tu fu
  unfolding org_iface_def by (rule object_laws_typed) auto

definition getWorkspaceName :: "org_cluster \<Rightarrow> string" where
  "getWorkspaceName lc =
     (case lc_annotations lc ''kcp.io/path'' of
        None \<Rightarrow> []
      | Some path \<Rightarrow> (let parts = split_on (CHR '':'') path in parts ! (length parts - 1)))"

definition generateStoreName :: "org_cluster \<Rightarrow> string" where
  "generateStoreName lc =
     (case lc_annotations lc ''kcp.io/path'' of
        None \<Rightarrow> []
      | Some path \<Rightarrow> (let parts = split_on (CHR '':'') path in parts ! (length parts - 1)))"

definition OrgsClusterPath :: string where
  "OrgsClusterPath = ''root:orgs''"

text \<open>The first condition of a type counts, as in \<^verbatim>\<open>meta.IsStatusConditionTrue\<close>.\<close>

definition condition_true :: "condition list \<Rightarrow> string \<Rightarrow> bool" where
  "condition_true cs t = (case find (\<lambda>c. cond_type c = t) cs of None \<Rightarrow> False | Some c \<Rightarrow> cond_status c = CTrue)"

subsection \<open>What is written\<close>

record claim_mapping =
  cp_claim :: string
  cp_prefix :: "string option"
  cp_expression :: string

record jwt_authenticator =
  ja_issuer :: string
  ja_match :: string
  ja_audiences :: "string list"
  ja_authority :: string
  ja_groups :: claim_mapping
  ja_username :: claim_mapping
  ja_rules :: "(string \<times> string) list"

record auth_config =
  au_meta :: objmeta
  au_jwt :: "jwt_authenticator list"

text \<open>A workspace type of an organization, with the authentication configurations it refers to.\<close>

record auth_type =
  at_name :: string
  at_configs :: "string list"

subsection \<open>Clients\<close>

datatype put_result = PutCreated | PutUpdated | PutUnchanged

record 'w orgs_clients =
  oc_accounts :: "(account, 'w) kind_client"
  oc_idps :: "(idp_config, 'w) kind_client"
  oc_put_idp :: "(idp_config, 'w) put"
  oc_stores :: "(store, 'w) kind_client"
  oc_put_store :: "(store \<Rightarrow> err + store) \<Rightarrow> store \<Rightarrow> 'w \<Rightarrow> (err + put_result \<times> store) \<times> 'w"
  oc_auths :: "(auth_config, 'w) kind_client"
  oc_put_auth :: "(auth_config, 'w) put"
  oc_types :: "string \<Rightarrow> 'w \<Rightarrow> err + auth_type list"
  oc_patch_type :: "auth_type \<Rightarrow> auth_type \<Rightarrow> 'w \<Rightarrow> err option \<times> 'w"

text \<open>A patch takes the object and the original it is computed against.\<close>

record 'w workspace_clients =
  wc_infos :: "(platform_info, 'w) kind_client"
  wc_patch_info :: "platform_info \<Rightarrow> platform_info \<Rightarrow> 'w \<Rightarrow> err option \<times> 'w"
  wc_invites :: "(invite_user, 'w) kind_client"
  wc_put_invite :: "(invite_user, 'w) put"
  wc_bindings :: "'w \<Rightarrow> err + string list list"

text \<open>
  \<open>su_from_context\<close> is the cluster of the context as the manager knows it, \<open>su_client\<close> the client that the getter makes
  for it. \<open>su_ca\<close> is the data of the CA secret, \<open>su_order\<close> the names of a map in the order it is ranged over,
  \<open>su_backoff\<close> is \<^verbatim>\<open>wait.ExponentialBackoffWithContext\<close>. Of the bindings (\<open>wc_bindings\<close>) only the finalizers are used.
\<close>

record 'w setup_env =
  su_orgs :: "'w \<Rightarrow> err + 'w orgs_clients"
  su_from_context :: "string option \<Rightarrow> 'w \<Rightarrow> err + 'w workspace_clients"
  su_client :: "string option \<Rightarrow> 'w \<Rightarrow> err + 'w workspace_clients"
  su_ca :: "'w \<Rightarrow> err + (string \<rightharpoonup> string)"
  su_order :: "(string \<rightharpoonup> client_info) \<Rightarrow> string list"
  su_backoff :: "('w \<Rightarrow> err + bool) \<Rightarrow> 'w \<Rightarrow> err option \<times> 'w"
  su_idp_limiter :: "(idp_config, 'w) requeue_limiter"
  su_invite_limiter :: "(org_cluster, 'w) requeue_limiter"

record setup_config =
  sg_domain :: string
  sg_redirects :: "string list"
  sg_kubectl_redirects :: "string list"
  sg_registration :: bool
  sg_ca_lookup :: bool
  sg_audiences :: "string list"
  sg_group_claim :: string
  sg_user_claim :: string
  sg_unverified :: bool
  sg_core_module :: string
  sg_creator_relation :: string
  sg_object_type :: string
  sg_member_tuples :: bool
  sg_initializer_on :: bool
  sg_idp_on :: bool
  sg_invite_on :: bool
  sg_auth_on :: bool
  sg_rekey_on :: bool

subsection \<open>Deleting in \<^verbatim>\<open>root:orgs\<close>\<close>

definition orgResourceDeleteRequeue :: duration where
  "orgResourceDeleteRequeue = seconds 5"

definition deleteOrgResource :: "('o \<Rightarrow> objmeta) \<Rightarrow> ('o, 'w) kind_client \<Rightarrow> string \<Rightarrow> 'w \<Rightarrow> (err + bool) \<times> 'w" where
  "deleteOrgResource meta K name w =
     (case k_get K ([], name) w of
        Inl e \<Rightarrow> (if is_not_found e \<or> is_no_match e then Inr False else Inl e, w)
      | Inr x \<Rightarrow>
          (if m_deletion (meta x) \<noteq> None then (Inr True, w)
           else case k_delete K x w of
             (Some e, w1) \<Rightarrow> (if is_not_found e then Inr True else Inl e, w1)
           | (None, w1) \<Rightarrow> (Inr True, w1)))"

text \<open>What the three Terminate methods share: the client and the deletion; the third argument is whether to wait.\<close>

definition terminate_resource ::
  "'w setup_env \<Rightarrow> ('o \<Rightarrow> objmeta) \<Rightarrow> bool \<Rightarrow> ('w orgs_clients \<Rightarrow> ('o, 'w) kind_client) \<Rightarrow> string \<Rightarrow> string \<Rightarrow> 'w \<Rightarrow> outcome \<times> 'w" where
  "terminate_resource R meta waits kind what name w =
     (case su_orgs R w of
        Inl e \<Rightarrow> (ret_err (wrap ''getting orgs client'' e), w)
      | Inr O1 \<Rightarrow>
          (case deleteOrgResource meta (kind O1) name w of
             (Inl e, w1) \<Rightarrow> (ret_err (wrap (''deleting '' @ what @ '' '' @ name) e), w1)
           | (Inr pending, w1) \<Rightarrow>
               (if pending \<and> waits
                then (ret (StopWithRequeue orgResourceDeleteRequeue (''waiting for '' @ what @ '' to be deleted'')), w1)
                else (ret OK, w1))))"

subsection \<open>The Store of the organization\<close>

definition five :: duration where
  "five = seconds 5"

definition member_tuples :: "setup_config \<Rightarrow> org_cluster \<Rightarrow> string + tuple list" where
  "member_tuples G lc =
     (if \<not> sg_member_tuples G then Inr []
      else case lc_owner lc of
        None \<Rightarrow> Inl ''nil pointer dereference''
      | Some owner \<Rightarrow>
          Inr [\<lparr>tp_object = ''role:authenticated'', tp_relation = ''assignee'', tp_user = ''user:*''\<rparr>,
               \<lparr>tp_object = ''core_platform-mesh_io_account:'' @ owner @ ''/'' @ lc_owner_name lc, tp_relation = ''member'',
                tp_user = ''role:authenticated#assignee''\<rparr>])"

definition organization_tuples :: "setup_config \<Rightarrow> platform_info \<Rightarrow> string \<Rightarrow> err + tuple list" where
  "organization_tuples G ai creator =
     TuplesForOrganization
       \<lparr>bt_creator = creator, bt_origin = al_origin (pa_account ai), bt_name = al_name (pa_account ai),
        bt_creator_relation = sg_creator_relation G, bt_object_type = sg_object_type G\<rparr>"

definition named_store :: "string \<Rightarrow> store" where
  "named_store name =
     \<lparr>store_meta = new_meta name, store_core_module = [], store_tuples = [],
      store_status = \<lparr>ss_conditions = [], st_store_id = [], st_model_id = [], st_managed = []\<rparr>\<rparr>"

definition store_mutation :: "setup_config \<Rightarrow> tuple list \<Rightarrow> store \<Rightarrow> err + store" where
  "store_mutation G tuples s = Inr (s\<lparr>store_core_module := sg_core_module G, store_tuples := tuples\<rparr>)"

text \<open>The store is put and must then hold the tuples and have an identifier.\<close>

definition put_org_store :: "setup_config \<Rightarrow> 'w orgs_clients \<Rightarrow> string \<Rightarrow> tuple list \<Rightarrow> 'w \<Rightarrow> outcome \<times> 'w" where
  "put_org_store G O1 name tuples w =
     (case oc_put_store O1 (store_mutation G tuples) (named_store name) w of
        (Inl e, w1) \<Rightarrow> (ret_err (wrap ''unable to create/update store'' e), w1)
      | (Inr (r, s), w1) \<Rightarrow>
          (if r = PutCreated \<or> r = PutUpdated then ret (StopWithRequeue five ''store needed to be updated, requeuing'')
           else if \<exists>t \<in> set tuples. t \<notin> set (st_managed (store_status s))
           then ret (StopWithRequeue five ''store does not yet contain all specified tuples, requeuing'')
           else if st_store_id (store_status s) = [] then ret (StopWithRequeue five ''store id is empty'')
           else ret OK, w1))"

definition store_setup :: "setup_config \<Rightarrow> 'w setup_env \<Rightarrow> ('cl, 'v) ctx \<Rightarrow> org_cluster \<Rightarrow> 'w \<Rightarrow> outcome \<times> org_cluster \<times> 'w" where
  "store_setup G R c lc w =
     (case su_from_context R (ctx_cluster c) w of
        Inl e \<Rightarrow> (ret_err (wrap ''failed to get cluster from context'' e), lc, w)
      | Inr K \<Rightarrow>
     (case k_get (wc_infos K) ([], ''account'') w of
        Inl e \<Rightarrow>
          (if is_not_found e then ret (StopWithRequeue five ''AccountInfo not found yet, requeuing'')
           else ret_err (wrap ''getting AccountInfo for LogicalCluster'' e), lc, w)
      | Inr ai \<Rightarrow>
     (case su_orgs R w of
        Inl e \<Rightarrow> (ret_err (wrap ''getting orgs client'' e), lc, w)
      | Inr O1 \<Rightarrow>
     (case k_get (oc_accounts O1) ([], al_name (pa_account ai)) w of
        Inl e \<Rightarrow> (ret_err (wrap ''getting Account in platform-mesh-system'' e), lc, w)
      | Inr a \<Rightarrow>
     (case aspec_creator (acc_spec a) of
        None \<Rightarrow> (ret_err (errorf ''account creator is nil or empty''), lc, w)
      | Some creator \<Rightarrow>
     (if creator = [] then (ret_err (errorf ''account creator is nil or empty''), lc, w)
      else case organization_tuples G ai creator of
        Inl e \<Rightarrow> (ret_err (wrap ''building tuples for organization'' e), lc, w)
      | Inr tuples \<Rightarrow>
     (case member_tuples G lc of
        Inl panic \<Rightarrow> (Panic panic, lc, w)
      | Inr extra \<Rightarrow>
          (case put_org_store G O1 (generateStoreName lc) (tuples @ extra) w of (out, w1) \<Rightarrow> (out, lc, w1)))))))))"

definition store_terminate :: "'w setup_env \<Rightarrow> ('cl, 'v) ctx \<Rightarrow> org_cluster \<Rightarrow> 'w \<Rightarrow> outcome \<times> org_cluster \<times> 'w" where
  "store_terminate R c lc w =
     (if generateStoreName lc = [] then (ret_err (errorf ''failed to get workspace name''), lc, w)
      else case terminate_resource R store_meta True oc_stores ''Store'' (generateStoreName lc) w of (out, w1) \<Rightarrow> (out, lc, w1))"

definition store_setup_subroutine :: "setup_config \<Rightarrow> 'w setup_env \<Rightarrow> ('cl, 'v, org_cluster, 'w) subroutine" where
  "store_setup_subroutine G R =
     \<lparr>sub_name = ''WorkspaceInitializer'', as_processor = Some (store_setup G R), as_finalizer = None,
      as_initializer = Some (store_setup G R), as_terminator = Some (store_terminate R)\<rparr>"

subsection \<open>The identity provider\<close>

text \<open>The first client of the name is changed in its place, otherwise the client is appended.\<close>

fun ensureClient :: "idp_client_config list \<Rightarrow> idp_client_config \<Rightarrow> idp_client_config list" where
  "ensureClient [] d = [d]"
| "ensureClient (c # cs) d =
     (if ic_name c = ic_name d
      then c\<lparr>ic_type := ic_type d, ic_redirects := ic_redirects d, ic_logouts := ic_logouts d, ic_secret := ic_secret d\<rparr> # cs
      else c # ensureClient cs d)"

definition desired_clients :: "setup_config \<Rightarrow> string \<Rightarrow> idp_client_config list" where
  "desired_clients G ws =
     [\<lparr>ic_type = Confidential, ic_name = ws, ic_redirects = sg_redirects G @ [''https://'' @ ws @ ''.'' @ sg_domain G @ ''/*''],
       ic_logouts = [''https://'' @ ws @ ''.'' @ sg_domain G @ ''/logout*''],
       ic_secret = (''default'', ''portal-client-secret-'' @ ws @ ''-'' @ ws)\<rparr>,
      \<lparr>ic_type = Public, ic_name = ''kubectl'', ic_redirects = sg_kubectl_redirects G, ic_logouts = [],
       ic_secret = (''default'', ''portal-client-secret-'' @ ws @ ''-kubectl'')\<rparr>]"

definition idp_mutation :: "setup_config \<Rightarrow> string \<Rightarrow> idp_config \<Rightarrow> err + idp_config" where
  "idp_mutation G ws x =
     Inr (x\<lparr>idp_spec_of := \<lparr>is_registration = sg_registration G,
                            is_clients = foldl ensureClient (is_clients (idp_spec_of x)) (desired_clients G ws)\<rparr>\<rparr>)"

definition named_idp :: "string \<Rightarrow> idp_config" where
  "named_idp name =
     \<lparr>idp_meta = new_meta name, idp_spec_of = \<lparr>is_registration = False, is_clients = []\<rparr>,
      idp_status_of = \<lparr>is_conditions = [], is_managed = Map.empty\<rparr>\<rparr>"

text \<open>What every client of the spec must have in the status.\<close>

fun check_managed :: "idp_config \<Rightarrow> idp_client_config list \<Rightarrow> err option" where
  "check_managed x [] = None"
| "check_managed x (c # cs) =
     (case is_managed (idp_status_of x) (ic_name c) of
        None \<Rightarrow> Some (errorf (''managed client '' @ ic_name c @ '' not found in IdentityProviderConfiguration status''))
      | Some m \<Rightarrow>
          if mc_id m = []
          then Some (errorf (''managed client '' @ ic_name c @ '' has empty ClientID in IdentityProviderConfiguration status''))
          else check_managed x cs)"

definition realm_issuer :: "setup_config \<Rightarrow> string \<Rightarrow> string" where
  "realm_issuer G ws = ''https://'' @ sg_domain G @ ''/keycloak/realms/'' @ ws"

definition desired_oidc :: "setup_config \<Rightarrow> string \<Rightarrow> idp_config \<Rightarrow> oidc_info" where
  "desired_oidc G ws x =
     \<lparr>oi_issuer = realm_issuer G ws,
      oi_clients = (\<lambda>n. map_option (\<lambda>m. \<lparr>ci_client_id = mc_id m\<rparr>) (is_managed (idp_status_of x) n))\<rparr>"

definition patchAccountInfo :: "setup_config \<Rightarrow> 'w workspace_clients \<Rightarrow> string \<Rightarrow> idp_config \<Rightarrow> 'w \<Rightarrow> err option \<times> 'w" where
  "patchAccountInfo G K ws x w =
     (case k_get (wc_infos K) ([], ''account'') w of
        Inl e \<Rightarrow> (Some (wrap ''failed to get accountInfo'' e), w)
      | Inr ai \<Rightarrow>
          (if pa_oidc ai = Some (desired_oidc G ws x) then (None, w)
           else case wc_patch_info K (ai\<lparr>pa_oidc := Some (desired_oidc G ws x)\<rparr>) ai w of
             (Some e, w1) \<Rightarrow> (Some (wrap ''failed to patch accountInfo'' e), w1)
           | (None, w1) \<Rightarrow> (None, w1)))"

text \<open>The part after the account is known to be an organization.\<close>

definition put_idp :: "setup_config \<Rightarrow> 'w setup_env \<Rightarrow> 'w orgs_clients \<Rightarrow> 'w workspace_clients \<Rightarrow> string \<Rightarrow> 'w \<Rightarrow> outcome \<times> 'w" where
  "put_idp G R O1 K ws w =
     (case oc_put_idp O1 (idp_mutation G ws) (named_idp ws) w of
        (Some e, w1) \<Rightarrow> (ret_err (wrap ''failed to create idp resource'' e), w1)
      | (None, w1) \<Rightarrow>
     (case k_get (oc_idps O1) ([], ws) w1 of
        Inl e \<Rightarrow> (ret_err (wrap ''failed to get idp resource'' e), w1)
      | Inr x \<Rightarrow>
     (if \<not> condition_true (is_conditions (idp_status_of x)) ''Ready''
      then (case rq_when (su_idp_limiter R) x w1 of (d, w2) \<Rightarrow> (ret (StopWithRequeue d ''idp resource is not ready yet''), w2))
      else if is_clients (idp_spec_of x) = [] \<or> is_managed (idp_status_of x) = Map.empty
      then (ret_err (errorf (''IdentityProviderConfiguration '' @ ws @ '' has no clients in spec or status'')), w1)
      else case check_managed x (is_clients (idp_spec_of x)) of
        Some e \<Rightarrow> (ret_err e, w1)
      | None \<Rightarrow>
          (case patchAccountInfo G K ws x (rq_forget (su_idp_limiter R) x w1) of
             (Some e, w2) \<Rightarrow> (ret_err (wrap ''unable to update accountInfo'' e), w2)
           | (None, w2) \<Rightarrow> (ret OK, w2)))))"

definition idp_setup :: "setup_config \<Rightarrow> 'w setup_env \<Rightarrow> ('cl, 'v) ctx \<Rightarrow> org_cluster \<Rightarrow> 'w \<Rightarrow> outcome \<times> org_cluster \<times> 'w" where
  "idp_setup G R c lc w =
     (let ws = getWorkspaceName lc in
      if ws = [] then (ret_err (errorf ''failed to get workspace name''), lc, w)
      else case su_from_context R (ctx_cluster c) w of
        Inl e \<Rightarrow> (ret_err (wrap ''failed to get cluster from context'' e), lc, w)
      | Inr K \<Rightarrow>
     (case su_orgs R w of
        Inl e \<Rightarrow> (ret_err (wrap ''getting orgs client'' e), lc, w)
      | Inr O1 \<Rightarrow>
     (case k_get (oc_accounts O1) ([], ws) w of
        Inl e \<Rightarrow> (ret_err (wrap ''failed to get account resource'' e), lc, w)
      | Inr a \<Rightarrow>
          (if aspec_type (acc_spec a) \<noteq> AccountTypeOrg then (ret OK, lc, w)
           else case put_idp G R O1 K ws w of (out, w1) \<Rightarrow> (out, lc, w1)))))"

definition idp_terminate :: "'w setup_env \<Rightarrow> ('cl, 'v) ctx \<Rightarrow> org_cluster \<Rightarrow> 'w \<Rightarrow> outcome \<times> org_cluster \<times> 'w" where
  "idp_terminate R c lc w =
     (if getWorkspaceName lc = [] then (ret_err (errorf ''failed to get workspace name''), lc, w)
      else case terminate_resource R idp_meta True oc_idps ''IdentityProviderConfiguration'' (getWorkspaceName lc) w of
        (out, w1) \<Rightarrow> (out, lc, w1))"

definition idp_setup_subroutine :: "setup_config \<Rightarrow> 'w setup_env \<Rightarrow> ('cl, 'v, org_cluster, 'w) subroutine" where
  "idp_setup_subroutine G R =
     \<lparr>sub_name = ''IDPSubroutine'', as_processor = Some (idp_setup G R), as_finalizer = None,
      as_initializer = Some (idp_setup G R), as_terminator = Some (idp_terminate R)\<rparr>"

subsection \<open>The invitation of the creator\<close>

definition named_invite :: "string \<Rightarrow> invite_user" where
  "named_invite name = \<lparr>iu_meta = new_meta name, iu_email = [], iu_conditions = []\<rparr>"

definition invite_ready :: "'w workspace_clients \<Rightarrow> string \<Rightarrow> 'w \<Rightarrow> err + bool" where
  "invite_ready K ws w =
     (case k_get (wc_invites K) ([], ws) w of Inl e \<Rightarrow> Inl e | Inr x \<Rightarrow> Inr (condition_true (iu_conditions x) ''Ready''))"

definition invite_setup :: "'w setup_env \<Rightarrow> ('cl, 'v) ctx \<Rightarrow> org_cluster \<Rightarrow> 'w \<Rightarrow> outcome \<times> org_cluster \<times> 'w" where
  "invite_setup R c lc w =
     (let ws = getWorkspaceName lc in
      if ws = [] then (ret_err (errorf ''failed to get workspace name''), lc, w)
      else case su_client R (ctx_cluster c) w of
        Inl e \<Rightarrow> (ret_err (wrap ''getting client'' e), lc, w)
      | Inr K \<Rightarrow>
     (case su_orgs R w of
        Inl e \<Rightarrow> (ret_err (wrap ''getting orgs client'' e), lc, w)
      | Inr O1 \<Rightarrow>
     (case k_get (oc_accounts O1) ([], ws) w of
        Inl e \<Rightarrow> (ret_err (wrap ''failed to get account resource'' e), lc, w)
      | Inr a \<Rightarrow>
     (if aspec_type (acc_spec a) \<noteq> AccountTypeOrg then (ret OK, lc, w)
      else case aspec_creator (acc_spec a) of
        None \<Rightarrow> (ret OK, lc, w)
      | Some creator \<Rightarrow>
     (case wc_put_invite K (\<lambda>x. Inr (x\<lparr>iu_email := creator\<rparr>)) (named_invite ws) w of
        (Some e, w1) \<Rightarrow> (ret_err (wrap ''failed to create invite resource'' e), lc, w1)
      | (None, w1) \<Rightarrow>
          (case su_backoff R (invite_ready K ws) w1 of
             (Some e, w2) \<Rightarrow> wait_for (su_invite_limiter R) ''invite resource is not ready yet'' lc w2
           | (None, w2) \<Rightarrow> (ret OK, lc, rq_forget (su_invite_limiter R) lc w2)))))))"

definition invite_setup_subroutine :: "'w setup_env \<Rightarrow> ('cl, 'v, org_cluster, 'w) subroutine" where
  "invite_setup_subroutine R =
     \<lparr>sub_name = ''InviteInitializationSubroutine'', as_processor = Some (invite_setup R), as_finalizer = None,
      as_initializer = Some (invite_setup R), as_terminator = None\<rparr>"

subsection \<open>Authentication of the workspaces\<close>

text \<open>The identifiers of the clients, or the first client without one.\<close>

fun client_audiences :: "(string \<rightharpoonup> client_info) \<Rightarrow> string list \<Rightarrow> err + string list" where
  "client_audiences m [] = Inr []"
| "client_audiences m (n # ns) =
     (case m n of
        None \<Rightarrow> client_audiences m ns
      | Some ci \<Rightarrow>
          if ci_client_id ci = [] then Inl (errorf (''OIDC client '' @ n @ '' has empty ClientID in AccountInfo''))
          else case client_audiences m ns of Inl e \<Rightarrow> Inl e | Inr as \<Rightarrow> Inr (ci_client_id ci # as))"

definition jwt_of :: "setup_config \<Rightarrow> string \<Rightarrow> string list \<Rightarrow> jwt_authenticator" where
  "jwt_of G ws audiences =
     \<lparr>ja_issuer = realm_issuer G ws, ja_match = ''MatchAny'', ja_audiences = audiences @ sg_audiences G, ja_authority = [],
      ja_groups = \<lparr>cp_claim = sg_group_claim G, cp_prefix = Some [], cp_expression = []\<rparr>,
      ja_username =
        (if \<not> sg_unverified G then \<lparr>cp_claim = sg_user_claim G, cp_prefix = Some [], cp_expression = []\<rparr>
         else \<lparr>cp_claim = [], cp_prefix = None, cp_expression = ''claims.email''\<rparr>),
      ja_rules =
        (if \<not> sg_unverified G then []
         else [(''claims.?email_verified.orValue(true) == true || claims.?email_verified.orValue(true) == false'',
                ''Allowing both verified and unverified emails'')])\<rparr>"

definition named_auth :: "string \<Rightarrow> auth_config" where
  "named_auth name = \<lparr>au_meta = new_meta name, au_jwt = []\<rparr>"

definition auth_mutation :: "jwt_authenticator \<Rightarrow> string option \<Rightarrow> auth_config \<Rightarrow> err + auth_config" where
  "auth_mutation j ca x =
     Inr (x\<lparr>au_jwt := [case ca of None \<Rightarrow> j | Some cert \<Rightarrow> j\<lparr>ja_authority := cert\<rparr>]\<rparr>)"

fun patch_types :: "'w orgs_clients \<Rightarrow> string \<Rightarrow> auth_type list \<Rightarrow> 'w \<Rightarrow> err option \<times> 'w" where
  "patch_types O1 ws [] w = (None, w)"
| "patch_types O1 ws (t # ts) w =
     (if at_configs t = [ws] then patch_types O1 ws ts w
      else case oc_patch_type O1 (t\<lparr>at_configs := [ws]\<rparr>) t w of
        (Some e, w1) \<Rightarrow> (Some (wrap (''failed to patch WorkspaceType '' @ at_name t) e), w1)
      | (None, w1) \<Rightarrow> patch_types O1 ws ts w1)"

definition patchWorkspaceTypes :: "'w orgs_clients \<Rightarrow> string \<Rightarrow> 'w \<Rightarrow> err option \<times> 'w" where
  "patchWorkspaceTypes O1 ws w =
     (case oc_types O1 ws w of
        Inl e \<Rightarrow> (Some (wrap ''failed to list WorkspaceTypes'' e), w)
      | Inr ts \<Rightarrow> patch_types O1 ws ts w)"

text \<open>Writing the configuration and the types.\<close>

definition put_auth :: "'w setup_env \<Rightarrow> string \<Rightarrow> jwt_authenticator \<Rightarrow> string option \<Rightarrow> 'w \<Rightarrow> outcome \<times> 'w" where
  "put_auth R ws j ca w =
     (case su_orgs R w of
        Inl e \<Rightarrow> (ret_err (wrap ''getting orgs client'' e), w)
      | Inr O1 \<Rightarrow>
     (case oc_put_auth O1 (auth_mutation j ca) (named_auth ws) w of
        (Some e, w1) \<Rightarrow> (ret_err (wrap ''failed to create WorkspaceAuthConfiguration resource'' e), w1)
      | (None, w1) \<Rightarrow>
          (case patchWorkspaceTypes O1 ws w1 of
             (Some e, w2) \<Rightarrow> (ret_err (wrap ''failed to patch workspace types'' e), w2)
           | (None, w2) \<Rightarrow> (ret OK, w2))))"

definition domain_ca :: "setup_config \<Rightarrow> 'w setup_env \<Rightarrow> 'w \<Rightarrow> err + string option" where
  "domain_ca G R w =
     (if \<not> sg_ca_lookup G then Inr None
      else case su_ca R w of
        Inl e \<Rightarrow> Inl (wrap ''failed to get domain CA secret'' e)
      | Inr d \<Rightarrow> Inr (Some (case d ''tls.crt'' of None \<Rightarrow> [] | Some cert \<Rightarrow> cert)))"

definition auth_setup :: "setup_config \<Rightarrow> 'w setup_env \<Rightarrow> ('cl, 'v) ctx \<Rightarrow> org_cluster \<Rightarrow> 'w \<Rightarrow> outcome \<times> org_cluster \<times> 'w" where
  "auth_setup G R c lc w =
     (let ws = getWorkspaceName lc in
      if ws = [] then (ret_err (errorf ''failed to get workspace path''), lc, w)
      else case domain_ca G R w of
        Inl e \<Rightarrow> (ret_err e, lc, w)
      | Inr ca \<Rightarrow>
     (case su_from_context R (ctx_cluster c) w of
        Inl e \<Rightarrow> (ret_err (wrap ''failed to get cluster from context'' e), lc, w)
      | Inr K \<Rightarrow>
     (case k_get (wc_infos K) ([], ''account'') w of
        Inl e \<Rightarrow> (ret_err (wrap ''failed to get AccountInfo'' e), lc, w)
      | Inr ai \<Rightarrow>
     (case pa_oidc ai of
        None \<Rightarrow> (ret_err (errorf (''AccountInfo '' @ ws @ '' has no OIDC clients'')), lc, w)
      | Some oidc \<Rightarrow>
     (if oi_clients oidc = Map.empty then (ret_err (errorf (''AccountInfo '' @ ws @ '' has no OIDC clients'')), lc, w)
      else case client_audiences (oi_clients oidc) (su_order R (oi_clients oidc)) of
        Inl e \<Rightarrow> (ret_err e, lc, w)
      | Inr audiences \<Rightarrow>
          (case put_auth R ws (jwt_of G ws audiences) ca w of (out, w1) \<Rightarrow> (out, lc, w1)))))))"

definition auth_terminate :: "'w setup_env \<Rightarrow> ('cl, 'v) ctx \<Rightarrow> org_cluster \<Rightarrow> 'w \<Rightarrow> outcome \<times> org_cluster \<times> 'w" where
  "auth_terminate R c lc w =
     (if getWorkspaceName lc = [] then (ret_err (errorf ''failed to get workspace path''), lc, w)
      else case terminate_resource R au_meta False oc_auths ''WorkspaceAuthenticationConfiguration'' (getWorkspaceName lc) w of
        (out, w1) \<Rightarrow> (out, lc, w1))"

definition auth_setup_subroutine :: "setup_config \<Rightarrow> 'w setup_env \<Rightarrow> ('cl, 'v, org_cluster, 'w) subroutine" where
  "auth_setup_subroutine G R =
     \<lparr>sub_name = ''workspaceAuthConfiguration'', as_processor = Some (auth_setup G R), as_finalizer = None,
      as_initializer = Some (auth_setup G R), as_terminator = Some (auth_terminate R)\<rparr>"

subsection \<open>The controller\<close>

text \<open>The subroutine that re-keys tuples is given; \<open>Fga_Rekey\<close> models its reconciliation.\<close>

definition org_subroutines ::
  "setup_config \<Rightarrow> 'w setup_env \<Rightarrow> ('cl, 'v, org_cluster, 'w) subroutine \<Rightarrow> ('cl, 'v, org_cluster, 'w) subroutine list" where
  "org_subroutines G R rekey =
     (if sg_initializer_on G then [store_setup_subroutine G R] else []) @
     (if sg_idp_on G then [idp_setup_subroutine G R] else []) @
     (if sg_invite_on G then [invite_setup_subroutine R] else []) @
     (if sg_auth_on G then [auth_setup_subroutine G R] else []) @
     (if sg_rekey_on G then [rekey] else [])"

definition org_controller ::
  "org_cluster obj_iface \<Rightarrow> ('cl, org_cluster, 'w) engine_api \<Rightarrow> (json option \<Rightarrow> json option \<Rightarrow> bool) \<Rightarrow>
   (('cl, 'v) ctx \<Rightarrow> err + 'cl) \<Rightarrow> setup_config \<Rightarrow> 'w setup_env \<Rightarrow> ('cl, 'v, org_cluster, 'w) subroutine \<Rightarrow>
   string \<Rightarrow> string \<Rightarrow> ('cl, 'v, org_cluster, 'w) lifecycle" where
  "org_controller I api deep_equal cluster_client G R rekey initializer terminator =
     (let L = new_lifecycle I api deep_equal cluster_client (org_subroutines G R rekey);
          L1 = (if initializer \<noteq> [] then with_initializer initializer L else L) in
      if terminator \<noteq> [] then with_terminator terminator L1 else L1)"

subsection \<open>The finalizer of AccountInfos\<close>

definition APIBindingFinalizer :: string where
  "APIBindingFinalizer = ''core.platform-mesh.io/apibinding-finalizer''"

definition SecurityAccountInfoFinalizer :: string where
  "SecurityAccountInfoFinalizer = ''security.platform-mesh.io/accountinfo-finalizer''"

definition info_bindings_finalize :: "'w setup_env \<Rightarrow> ('cl, 'v) ctx \<Rightarrow> platform_info \<Rightarrow> 'w \<Rightarrow> outcome \<times> platform_info \<times> 'w" where
  "info_bindings_finalize R c i w =
     (case su_from_context R (ctx_cluster c) w of
        Inl e \<Rightarrow> (ret_err e, i, w)
      | Inr K \<Rightarrow>
          (case wc_bindings K w of
             Inl e \<Rightarrow> (ret_err e, i, w)
           | Inr bs \<Rightarrow>
               (if \<exists>fs \<in> set bs. APIBindingFinalizer \<in> set fs
                then ret (StopWithRequeue five ''APIBinding still has finalizer, requeuing AccountInfo deletion'')
                else ret OK, i, w)))"

definition info_bindings_subroutine :: "'w setup_env \<Rightarrow> ('cl, 'v, platform_info, 'w) subroutine" where
  "info_bindings_subroutine R =
     \<lparr>sub_name = ''AccountInfoFinalizer'', as_processor = None,
      as_finalizer = Some \<lparr>Finalize = info_bindings_finalize R, Finalizers = (\<lambda>_. [SecurityAccountInfoFinalizer])\<rparr>,
      as_initializer = None, as_terminator = None\<rparr>"

definition security_accountinfo_controller ::
  "platform_info obj_iface \<Rightarrow> ('cl, platform_info, 'w) engine_api \<Rightarrow> (json option \<Rightarrow> json option \<Rightarrow> bool) \<Rightarrow>
   (('cl, 'v) ctx \<Rightarrow> err + 'cl) \<Rightarrow> 'w setup_env \<Rightarrow> ('cl, 'v, platform_info, 'w) lifecycle" where
  "security_accountinfo_controller I api deep_equal cluster_client R =
     new_lifecycle I api deep_equal cluster_client [info_bindings_subroutine R]"

end
