(* ===== verification/Setup_Laws.thy ===== *)
theory Setup_Laws
  imports Org_Setup Account_Laws
begin

text \<open>
  What holds of the set-up of organizations: which tokens a stored authentication configuration accepts, what a
  finished set-up has written, and what is gone when a deletion has finished.
\<close>

subsection \<open>Tokens\<close>

text \<open>A token has an issuer and an audience; one matching audience is enough.\<close>

definition accepts :: "auth_config \<Rightarrow> string \<Rightarrow> string \<Rightarrow> bool" where
  "accepts x iss aud \<longleftrightarrow> (\<exists>j \<in> set (au_jwt x). ja_issuer j = iss \<and> aud \<in> set (ja_audiences j))"

lemma realm_issuer_inject: "realm_issuer G a = realm_issuer G b \<longleftrightarrow> a = b"
  by (simp add: realm_issuer_def)

subsection \<open>The cluster of the organizations\<close>

text \<open>
  \<open>A\<close> are the stored authentication configurations, \<open>Ty\<close> the workspace types by the label of their organization with the
  configurations they refer to, \<open>N\<close> the AccountInfos of the clusters.
\<close>

record 'w setup_view =
  sv_auth :: "'w \<Rightarrow> string \<rightharpoonup> auth_config"
  sv_types :: "'w \<Rightarrow> string \<Rightarrow> string \<rightharpoonup> string list"
  sv_infos :: "'w \<Rightarrow> string \<rightharpoonup> platform_info"

text \<open>A successful put has stored the mutation.\<close>

definition put_stores :: "('o \<Rightarrow> 'c) \<Rightarrow> ('w \<Rightarrow> 'k \<rightharpoonup> 'o) \<Rightarrow> 'k \<Rightarrow> ('o, 'w) put \<Rightarrow> 'o \<Rightarrow> bool" where
  "put_stores core view k put x \<longleftrightarrow>
     (\<forall>f w w'. put f x w = (None, w') \<longrightarrow> (\<exists>j0 j j'. f j0 = Inr j \<and> view w' k = Some j' \<and> core j' = core j))"

definition auth_laws :: "'w orgs_clients \<Rightarrow> 'w setup_view \<Rightarrow> bool" where
  "auth_laws O1 V \<longleftrightarrow>
     (\<forall>ws. put_law au_jwt (sv_auth V) ws (oc_put_auth O1) (named_auth ws) \<and>
           put_stores au_jwt (sv_auth V) ws (oc_put_auth O1) (named_auth ws)) \<and>
     (\<forall>x w. sv_auth V (snd (k_delete (oc_auths O1) x w)) \<subseteq>\<^sub>m sv_auth V w) \<and>
     (\<forall>t' t w. sv_auth V (snd (oc_patch_type O1 t' t w)) = sv_auth V w)"

text \<open>
  The types. A list is current and names each type once. A patch is a merge patch: it sends the difference between the
  object and the original it is computed against, so the new value is stored when the original has the stored one,
  and nothing is known of the value otherwise.
\<close>

definition org_type_laws :: "'w orgs_clients \<Rightarrow> 'w setup_view \<Rightarrow> bool" where
  "org_type_laws O1 V \<longleftrightarrow>
     (\<forall>ws w ts. oc_types O1 ws w = Inr ts \<longrightarrow>
        distinct (map at_name ts) \<and> sv_types V w ws = map_of (map (\<lambda>t. (at_name t, at_configs t)) ts)) \<and>
     (\<forall>t' t w w' o1. oc_patch_type O1 t' t w = (None, w') \<longrightarrow>
        (\<forall>n. n \<noteq> at_name t' \<longrightarrow> sv_types V w' o1 n = sv_types V w o1 n) \<and>
        (sv_types V w o1 (at_name t') = Some (at_configs t) \<longrightarrow> sv_types V w' o1 (at_name t') = Some (at_configs t')))"

definition orgs_laws :: "'w setup_env \<Rightarrow> 'w setup_view \<Rightarrow> bool" where
  "orgs_laws R V \<longleftrightarrow> (\<forall>w O1. su_orgs R w = Inr O1 \<longrightarrow> auth_laws O1 V \<and> org_type_laws O1 V)"

subsection \<open>Configurations name the realm of their organization\<close>

definition own_realm :: "setup_config \<Rightarrow> string \<Rightarrow> auth_config \<Rightarrow> bool" where
  "own_realm G ws x \<longleftrightarrow> (\<forall>j \<in> set (au_jwt x). ja_issuer j = realm_issuer G ws)"

definition own_realms :: "setup_config \<Rightarrow> (string \<rightharpoonup> auth_config) \<Rightarrow> bool" where
  "own_realms G v \<longleftrightarrow> (\<forall>ws x. v ws = Some x \<longrightarrow> own_realm G ws x)"

lemma own_realms_sub: "own_realms G v \<Longrightarrow> v' \<subseteq>\<^sub>m v \<Longrightarrow> own_realms G v'"
  by (auto simp: own_realms_def map_le_def dom_def)

lemma patch_types_auth:
  assumes "auth_laws O1 V"
  shows "sv_auth V (snd (patch_types O1 ws ts w)) = sv_auth V w"
proof (induction ts arbitrary: w)
  case (Cons t ts)
  have "sv_auth V (snd (oc_patch_type O1 t' u x)) = sv_auth V x" for t' u x using assms by (simp add: auth_laws_def)
  then have step: "sv_auth V x' = sv_auth V x" if "oc_patch_type O1 t' u x = (e, x')" for t' u x e x' using that by (metis snd_conv)
  show ?case using Cons.IH step by (auto split: prod.splits option.splits)
qed simp

lemma patchWorkspaceTypes_auth:
  assumes "auth_laws O1 V"
  shows "sv_auth V (snd (patchWorkspaceTypes O1 ws w)) = sv_auth V w"
  using patch_types_auth [OF assms] by (auto simp: patchWorkspaceTypes_def split: sum.split)

lemma auth_mutation_issuer:
  assumes "auth_mutation j ca x0 = Inr x"
  shows "own_realm G ws x \<longleftrightarrow> ja_issuer j = realm_issuer G ws" and "accepts x iss aud \<longleftrightarrow> ja_issuer j = iss \<and> aud \<in> set (ja_audiences j)"
  using assms by (auto simp: auth_mutation_def own_realm_def accepts_def split: option.splits)

lemma put_auth_own:
  assumes "orgs_laws R V" and "own_realms G (sv_auth V w)" and "put_auth R ws (jwt_of G ws as) ca w = (out, w')"
  shows "own_realms G (sv_auth V w')"
proof (cases "su_orgs R w")
  case (Inl e)
  then show ?thesis using assms(2,3) by (simp add: put_auth_def)
next
  case (Inr O1)
  then have laws: "auth_laws O1 V" and law: "put_law au_jwt (sv_auth V) ws (oc_put_auth O1) (named_auth ws)"
    using assms(1) by (simp_all add: orgs_laws_def auth_laws_def)
  obtain e w1 where p: "oc_put_auth O1 (auth_mutation (jwt_of G ws as) ca) (named_auth ws) w = (e, w1)" by fastforce
  have "sv_auth V w' = sv_auth V w1"
    using assms(3) Inr p patchWorkspaceTypes_auth [OF laws, of ws w1]
    by (auto simp: put_auth_def split: option.splits prod.splits)
  moreover have "own_realms G (sv_auth V w1)"
  proof (rule put_lawE [OF law p])
    assume "sv_auth V w1 = sv_auth V w"
    then show ?thesis using assms(2) by simp
  next
    fix j0 j j'
    assume m: "auth_mutation (jwt_of G ws as) ca j0 = Inr j" "au_jwt j' = au_jwt j" "sv_auth V w1 = (sv_auth V w)(ws \<mapsto> j')"
    have "own_realm G ws j'"
      using auth_mutation_issuer(1) [OF m(1), of G ws] m(2) by (simp add: own_realm_def jwt_of_def)
    then show ?thesis using assms(2) m(3) by (simp add: own_realms_def)
  qed
  ultimately show ?thesis by simp
qed

lemma auth_setup_own:
  assumes "orgs_laws R V" and "own_realms G (sv_auth V w)" and "auth_setup G R c lc w = (out, lc', w')"
  shows "own_realms G (sv_auth V w')"
  using assms(2,3) put_auth_own [OF assms(1,2)]
  by (auto simp: auth_setup_def Let_def split: if_splits sum.splits option.splits prod.splits)

lemma deleteOrgResource_world:
  "snd (deleteOrgResource meta K name w) = w \<or> (\<exists>x. snd (deleteOrgResource meta K name w) = snd (k_delete K x w))"
proof (cases "k_get K ([], name) w")
  case (Inr x)
  have "snd (case k_delete K x w of (None, w1) \<Rightarrow> (Inr True, w1)
      | (Some e, w1) \<Rightarrow> (if is_not_found e then Inr True else Inl e, w1)) = snd (k_delete K x w)"
    by (auto split: prod.split option.split)
  then show ?thesis using Inr by (auto simp: deleteOrgResource_def)
qed (simp add: deleteOrgResource_def)

lemma auth_terminate_own:
  assumes "orgs_laws R V" and "own_realms G (sv_auth V w)" and "auth_terminate R c lc w = (out, lc', w')"
  shows "own_realms G (sv_auth V w')"
proof -
  have sub: "sv_auth V w1 \<subseteq>\<^sub>m sv_auth V w"
    if "su_orgs R w = Inr O1" "deleteOrgResource au_meta (oc_auths O1) name w = (r, w1)" for O1 name r w1
    using deleteOrgResource_world [of au_meta "oc_auths O1" name w] that assms(1) by (auto simp: orgs_laws_def auth_laws_def)
  then show ?thesis
    using assms(2,3) own_realms_sub [OF assms(2)]
    by (auto simp: auth_terminate_def terminate_resource_def split: if_splits sum.splits prod.splits)
qed

text \<open>
  A step is the set-up or the deletion of a configuration, for any workspace, or anything else that leaves to the
  configurations their authenticators.
\<close>

inductive auth_step :: "setup_config \<Rightarrow> 'w setup_env \<Rightarrow> 'w setup_view \<Rightarrow> 'w \<Rightarrow> 'w \<Rightarrow> bool" for G R V where
  sets_up: "auth_setup G R (c :: (unit, unit) ctx) lc w = (out, lc', w') \<Longrightarrow> auth_step G R V w w'"
| terminates: "auth_terminate R (c :: (unit, unit) ctx) lc w = (out, lc', w') \<Longrightarrow> auth_step G R V w w'"
| others: "(\<forall>n x. sv_auth V w' n = Some x \<longrightarrow> (\<exists>y. sv_auth V w n = Some y \<and> au_jwt x = au_jwt y)) \<Longrightarrow> auth_step G R V w w'"

lemma auth_step_own:
  assumes "auth_step G R V w w'" and "orgs_laws R V" and "own_realms G (sv_auth V w)"
  shows "own_realms G (sv_auth V w')"
  using assms
proof cases
  case sets_up
  then show ?thesis using auth_setup_own [OF assms(2,3)] by blast
next
  case terminates
  then show ?thesis using auth_terminate_own [OF assms(2,3)] by blast
next
  case others
  then show ?thesis using assms(3) unfolding own_realms_def own_realm_def by metis
qed

subsection \<open>What a finished set-up has written\<close>

definition types_refer :: "string \<Rightarrow> (string \<rightharpoonup> string list) \<Rightarrow> bool" where
  "types_refer ws v \<longleftrightarrow> (\<forall>n cs. v n = Some cs \<longrightarrow> cs = [ws])"

lemma patch_types_refer:
  assumes "org_type_laws O1 V" and "patch_types O1 ws ts w = (None, w')" and "distinct (map at_name ts)"
    and "\<forall>t \<in> set ts. sv_types V w ws (at_name t) = Some (at_configs t)"
  shows "sv_types V w' ws n = (if n \<in> at_name ` set ts then Some [ws] else sv_types V w ws n)"
  using assms(2-4)
proof (induction ts arbitrary: w)
  case (Cons t ts)
  have rest: "at_name u \<noteq> at_name t" if "u \<in> set ts" for u using Cons.prems(2) that by (simp add: image_iff) metis
  show ?case
  proof (cases "at_configs t = [ws]")
    case True
    then show ?thesis using Cons rest by auto
  next
    case False
    then obtain w1 where p: "oc_patch_type O1 (t\<lparr>at_configs := [ws]\<rparr>) t w = (None, w1)" and r: "patch_types O1 ws ts w1 = (None, w')"
      using Cons.prems by (auto split: prod.splits option.splits)
    have other: "sv_types V w1 ws n = sv_types V w ws n" if "n \<noteq> at_name t" for n
      using assms(1) p that unfolding org_type_laws_def by fastforce
    have "sv_types V w1 ws (at_name (t\<lparr>at_configs := [ws]\<rparr>)) = Some (at_configs (t\<lparr>at_configs := [ws]\<rparr>))"
    proof -
      have "sv_types V w ws (at_name (t\<lparr>at_configs := [ws]\<rparr>)) = Some (at_configs t)" using Cons.prems(3) by simp
      then show ?thesis using assms(1) p unfolding org_type_laws_def by blast
    qed
    then have this_one: "sv_types V w1 ws (at_name t) = Some [ws]" by simp
    have "\<forall>u \<in> set ts. sv_types V w1 ws (at_name u) = Some (at_configs u)" using Cons.prems(3) other rest by simp
    from Cons.IH [OF r _ this] Cons.prems(2) this_one other show ?thesis by auto
  qed
qed simp

lemma patchWorkspaceTypes_refer:
  assumes "org_type_laws O1 V" and "patchWorkspaceTypes O1 ws w = (None, w')"
  shows "types_refer ws (sv_types V w' ws)"
proof -
  obtain ts where ts: "oc_types O1 ws w = Inr ts" and p: "patch_types O1 ws ts w = (None, w')"
    using assms(2) by (auto simp: patchWorkspaceTypes_def split: sum.splits)
  have d: "distinct (map at_name ts)" and v: "sv_types V w ws = map_of (map (\<lambda>t. (at_name t, at_configs t)) ts)"
    using assms(1) ts unfolding org_type_laws_def by blast+
  have "map_of (map (\<lambda>t. (at_name t, at_configs t)) ts) (at_name t) = Some (at_configs t)" if "t \<in> set ts" for t
    by (rule map_of_is_SomeI) (use d that in \<open>auto simp: comp_def\<close>)
  then have cur: "\<forall>t \<in> set ts. sv_types V w ws (at_name t) = Some (at_configs t)" by (simp add: v)
  have "n \<in> at_name ` set ts" if "sv_types V w ws n = Some cs" for n cs
    using map_of_SomeD [OF that [unfolded v]] by auto
  then show ?thesis
    unfolding types_refer_def patch_types_refer [OF assms(1) p d cur] by (auto split: if_splits)
qed

lemma put_auth_writes:
  assumes "orgs_laws R V" and "put_auth R ws j ca w = (out, w')" and "out = ret OK"
  shows "\<exists>x. sv_auth V w' ws = Some x \<and> (\<forall>iss aud. accepts x iss aud \<longleftrightarrow> ja_issuer j = iss \<and> aud \<in> set (ja_audiences j))"
    and "types_refer ws (sv_types V w' ws)"
proof -
  obtain O1 w1 where o1: "su_orgs R w = Inr O1" and p: "oc_put_auth O1 (auth_mutation j ca) (named_auth ws) w = (None, w1)"
    and t: "patchWorkspaceTypes O1 ws w1 = (None, w')"
    using assms(2,3) by (auto simp: put_auth_def ret_def ret_err_def split: sum.splits prod.splits option.splits)
  have laws: "auth_laws O1 V" "org_type_laws O1 V" using assms(1) o1 by (simp_all add: orgs_laws_def)
  obtain j0 y y' where y: "auth_mutation j ca j0 = Inr y" "sv_auth V w1 ws = Some y'" "au_jwt y' = au_jwt y"
    using laws(1) p unfolding auth_laws_def put_stores_def by blast
  have "sv_auth V w' = sv_auth V w1" using patchWorkspaceTypes_auth [OF laws(1), of ws w1] t by simp
  moreover have "accepts y' iss aud \<longleftrightarrow> accepts y iss aud" for iss aud by (simp add: accepts_def y(3))
  ultimately show "\<exists>x. sv_auth V w' ws = Some x \<and> (\<forall>iss aud. accepts x iss aud \<longleftrightarrow> ja_issuer j = iss \<and> aud \<in> set (ja_audiences j))"
    using y(2) auth_mutation_issuer(2) [OF y(1)] by auto
  show "types_refer ws (sv_types V w' ws)" by (rule patchWorkspaceTypes_refer [OF laws(2) t])
qed

text \<open>
  The AccountInfos: \<open>id_of\<close> is the cluster a context stands for. Reads of them are current, as if the manager's client
  did not read from a cache. A patch is a merge patch: the new OIDC section is stored when the original it is computed
  against has the stored one; nothing is known of it otherwise. The maps of API objects are finite and
  ranged over completely.
\<close>

definition context_laws :: "'w setup_env \<Rightarrow> 'w setup_view \<Rightarrow> (string option \<Rightarrow> string) \<Rightarrow> bool" where
  "context_laws R V id_of \<longleftrightarrow>
     limiter_laws (su_idp_limiter R) (sv_infos V) \<and>
     (\<forall>m. finite (dom m) \<longrightarrow> set (su_order R m) = dom m) \<and>
     (\<forall>w O1 k w' x. su_orgs R w = Inr O1 \<longrightarrow> k_get (oc_idps O1) k w' = Inr x \<longrightarrow> finite (dom (is_managed (idp_status_of x)))) \<and>
     (\<forall>n w K. su_from_context R n w = Inr K \<longrightarrow>
        (\<forall>w' i. k_get (wc_infos K) ([], ''account'') w' = Inr i \<longrightarrow> sv_infos V w' (id_of n) = Some i) \<and>
        (\<forall>i' i j w' w''. wc_patch_info K i' i w' = (None, w'') \<longrightarrow> sv_infos V w' (id_of n) = Some j \<longrightarrow> pa_oidc j = pa_oidc i \<longrightarrow>
           (\<exists>j'. sv_infos V w'' (id_of n) = Some j' \<and> pa_oidc j' = pa_oidc i')))"

lemma client_audiences_set:
  assumes "client_audiences m ns = Inr as" and "set ns = dom m"
  shows "set as = {ci_client_id ci |n ci. m n = Some ci}" and "\<forall>n ci. m n = Some ci \<longrightarrow> ci_client_id ci \<noteq> []"
proof -
  have step: "set as = {ci_client_id ci |n ci. n \<in> set ns \<and> m n = Some ci} \<and> (\<forall>n ci. n \<in> set ns \<longrightarrow> m n = Some ci \<longrightarrow> ci_client_id ci \<noteq> [])"
    using assms(1)
  proof (induction ns arbitrary: as)
    case (Cons n ns)
    show ?case
    proof (cases "m n")
      case None
      then show ?thesis using Cons by auto
    next
      case (Some ci)
      then obtain as' where as': "client_audiences m ns = Inr as'" "as = ci_client_id ci # as'" "ci_client_id ci \<noteq> []"
        using Cons.prems by (auto split: if_splits sum.splits)
      from Cons.IH [OF as'(1)] as'(2,3) Some show ?thesis by auto
    qed
  qed simp
  then show "set as = {ci_client_id ci |n ci. m n = Some ci}" and "\<forall>n ci. m n = Some ci \<longrightarrow> ci_client_id ci \<noteq> []"
    using assms(2) by (auto simp: dom_def)
qed

lemma patchAccountInfo_writes:
  assumes "context_laws R V id_of" and "su_from_context R n w0 = Inr K" and "patchAccountInfo G K ws x w = (None, w')"
  shows "\<exists>j. sv_infos V w' (id_of n) = Some j \<and> pa_oidc j = Some (desired_oidc G ws x)"
proof -
  obtain ai where g: "k_get (wc_infos K) ([], ''account'') w = Inr ai"
    using assms(3) by (auto simp: patchAccountInfo_def split: sum.splits)
  have read: "sv_infos V w (id_of n) = Some ai" using assms(1,2) g unfolding context_laws_def by blast
  show ?thesis
  proof (cases "pa_oidc ai = Some (desired_oidc G ws x)")
    case True
    then have "w' = w" using assms(3) g by (simp add: patchAccountInfo_def)
    then show ?thesis using read True by simp
  next
    case False
    have "wc_patch_info K (ai\<lparr>pa_oidc := Some (desired_oidc G ws x)\<rparr>) ai w = (None, w')"
      using assms(3) g False by (auto simp: patchAccountInfo_def split: prod.splits option.splits)
    then obtain j where "sv_infos V w' (id_of n) = Some j" "pa_oidc j = pa_oidc (ai\<lparr>pa_oidc := Some (desired_oidc G ws x)\<rparr>)"
      using assms(1,2) read unfolding context_laws_def by blast
    then show ?thesis by simp
  qed
qed

text \<open>The configuration that a finished set-up of the identity provider has seen.\<close>

definition idp_complete :: "idp_config \<Rightarrow> bool" where
  "idp_complete x \<longleftrightarrow>
     condition_true (is_conditions (idp_status_of x)) ''Ready'' \<and> is_clients (idp_spec_of x) \<noteq> [] \<and>
     (\<forall>c \<in> set (is_clients (idp_spec_of x)). \<exists>m. is_managed (idp_status_of x) (ic_name c) = Some m \<and> mc_id m \<noteq> [])"

lemma check_managed_None:
  "check_managed x cs = None \<longleftrightarrow> (\<forall>c \<in> set cs. \<exists>m. is_managed (idp_status_of x) (ic_name c) = Some m \<and> mc_id m \<noteq> [])"
  by (induction cs) (auto split: option.splits)

lemma put_idp_writes:
  assumes "context_laws R V id_of" and "su_from_context R n w0 = Inr K" and "put_idp G R O1 K ws w = (out, w')" and "out = ret OK"
  shows "\<exists>x w1 j. k_get (oc_idps O1) ([], ws) w1 = Inr x \<and> idp_complete x \<and> sv_infos V w' (id_of n) = Some j \<and>
    pa_oidc j = Some (desired_oidc G ws x)"
proof -
  obtain w1 x where put: "oc_put_idp O1 (idp_mutation G ws) (named_idp ws) w = (None, w1)"
    and g: "k_get (oc_idps O1) ([], ws) w1 = Inr x"
    using assms(3,4) by (auto simp: put_idp_def ret_def ret_err_def split: sum.splits prod.splits option.splits)
  have ready: "condition_true (is_conditions (idp_status_of x)) ''Ready''"
    using assms(3,4) by (auto simp: put_idp_def put g ret_def OK_def StopWithRequeue_def zero_result_def split: prod.splits if_splits)
  have cs: "is_clients (idp_spec_of x) \<noteq> []" and chk: "check_managed x (is_clients (idp_spec_of x)) = None"
    and p: "patchAccountInfo G K ws x (rq_forget (su_idp_limiter R) x w1) = (None, w')"
    using assms(3,4) by (auto simp: put_idp_def put g ready ret_def ret_err_def split: prod.splits option.splits if_splits)
  have "idp_complete x" using ready cs chk by (simp add: idp_complete_def check_managed_None)
  then show ?thesis using g patchAccountInfo_writes [OF assms(1,2) p] by blast
qed

lemma idp_setup_writes:
  assumes "context_laws R V id_of" and "idp_setup G R c lc w = (out, lc', w')" and "out = ret OK"
    and "su_orgs R w = Inr O1" and "k_get (oc_accounts O1) ([], getWorkspaceName lc) w = Inr a" and "aspec_type (acc_spec a) = AccountTypeOrg"
  shows "\<exists>x w1 j. k_get (oc_idps O1) ([], getWorkspaceName lc) w1 = Inr x \<and> idp_complete x \<and>
    sv_infos V w' (id_of (ctx_cluster c)) = Some j \<and> pa_oidc j = Some (desired_oidc G (getWorkspaceName lc) x)"
proof -
  obtain K where k: "su_from_context R (ctx_cluster c) w = Inr K"
    and p: "put_idp G R O1 K (getWorkspaceName lc) w = (out, w')"
    using assms(2-6) by (auto simp: idp_setup_def Let_def ret_def ret_err_def split: if_splits sum.splits prod.splits)
  show ?thesis using put_idp_writes [OF assms(1) k p assms(3)] .
qed

lemma auth_setup_writes:
  assumes "orgs_laws R V" and "context_laws R V id_of" and "auth_setup G R c lc w = (out, lc', w')" and "out = ret OK"
    and "sv_infos V w (id_of (ctx_cluster c)) = Some j" and "pa_oidc j = Some (desired_oidc G (getWorkspaceName lc) x)"
    and "finite (dom (is_managed (idp_status_of x)))"
  shows "\<exists>cfg. sv_auth V w' (getWorkspaceName lc) = Some cfg \<and>
    (\<forall>iss aud. accepts cfg iss aud \<longleftrightarrow> iss = realm_issuer G (getWorkspaceName lc) \<and>
       (aud \<in> set (sg_audiences G) \<or> (\<exists>n m. is_managed (idp_status_of x) n = Some m \<and> mc_id m = aud)))"
    and "types_refer (getWorkspaceName lc) (sv_types V w' (getWorkspaceName lc))"
proof -
  let ?ws = "getWorkspaceName lc"
  let ?m = "oi_clients (desired_oidc G ?ws x)"
  obtain K ai oidc as ca where k: "su_from_context R (ctx_cluster c) w = Inr K"
    and g: "k_get (wc_infos K) ([], ''account'') w = Inr ai" and o1: "pa_oidc ai = Some oidc"
    and as: "client_audiences (oi_clients oidc) (su_order R (oi_clients oidc)) = Inr as"
    and p: "put_auth R ?ws (jwt_of G ?ws as) ca w = (out, w')"
    using assms(3,4) by (auto simp: auth_setup_def Let_def ret_def ret_err_def split: if_splits sum.splits prod.splits option.splits)
  have "sv_infos V w (id_of (ctx_cluster c)) = Some ai" using assms(2) k g unfolding context_laws_def by blast
  then have oidc: "oidc = desired_oidc G ?ws x" using assms(5,6) o1 by simp
  have "dom ?m = dom (is_managed (idp_status_of x))" by (auto simp: desired_oidc_def)
  then have ord: "set (su_order R ?m) = dom ?m" using assms(2,7) unfolding context_laws_def by metis
  have as_set: "set as = {mc_id m |n m. is_managed (idp_status_of x) n = Some m}"
    using client_audiences_set(1) [OF as [unfolded oidc] ord] by (force simp: desired_oidc_def)
  have j: "ja_issuer (jwt_of G ?ws as) = realm_issuer G ?ws" "set (ja_audiences (jwt_of G ?ws as)) = set as \<union> set (sg_audiences G)"
    by (simp_all add: jwt_of_def)
  show "\<exists>cfg. sv_auth V w' ?ws = Some cfg \<and>
    (\<forall>iss aud. accepts cfg iss aud \<longleftrightarrow> iss = realm_issuer G ?ws \<and>
       (aud \<in> set (sg_audiences G) \<or> (\<exists>n m. is_managed (idp_status_of x) n = Some m \<and> mc_id m = aud)))"
  proof -
    obtain cfg where cfg: "sv_auth V w' ?ws = Some cfg"
      "\<And>iss aud. accepts cfg iss aud \<longleftrightarrow> realm_issuer G ?ws = iss \<and>
         aud \<in> {mc_id m |n m. is_managed (idp_status_of x) n = Some m} \<union> set (sg_audiences G)"
      using put_auth_writes(1) [OF assms(1) p assms(4)] unfolding j as_set by blast
    have "accepts cfg iss aud \<longleftrightarrow> iss = realm_issuer G ?ws \<and>
       (aud \<in> set (sg_audiences G) \<or> (\<exists>n m. is_managed (idp_status_of x) n = Some m \<and> mc_id m = aud))" for iss aud
      unfolding cfg(2) by blast
    then show ?thesis using cfg(1) by blast
  qed
  show "types_refer ?ws (sv_types V w' ?ws)" by (rule put_auth_writes(2) [OF assms(1) p assms(4)])
qed

end
