(* ===== verification/Setup_Release.thy ===== *)
theory Setup_Release
  imports Setup_Laws Account_Safety
begin

text \<open>
  Deletions of the security operator: an IdentityProviderConfiguration goes only when its realm is gone, and the
  LogicalCluster of an organization only when its Store and its IdentityProviderConfiguration were seen gone.
\<close>

subsection \<open>A deletion pass runs no Process\<close>

definition no_process :: "('cl, 'v, 'o, 'w) subroutine \<Rightarrow> ('cl, 'v, 'o, 'w) subroutine" where
  "no_process s = s\<lparr>as_processor := None\<rparr>"

definition deletions_of :: "('cl, 'v, 'o, 'w) lifecycle \<Rightarrow> ('cl, 'v, 'o, 'w) lifecycle" where
  "deletions_of L = L\<lparr>lc_subroutines := map no_process (lc_subroutines L)\<rparr>"

lemma no_process_simps [simp]:
  "sub_name (no_process s) = sub_name s" "as_finalizer (no_process s) = as_finalizer s"
  "as_terminator (no_process s) = as_terminator s" "sub_name \<circ> no_process = sub_name"
  by (simp_all add: no_process_def fun_eq_iff)

lemma deletions_of_simps [simp]:
  "lc_iface (deletions_of L) = lc_iface L" "lc_conditions (deletions_of L) = lc_conditions L"
  "lc_terminator (deletions_of L) = lc_terminator L" "lc_reporters (deletions_of L) = lc_reporters L"
  "lc_subroutines (deletions_of L) = map no_process (lc_subroutines L)"
  by (simp_all add: deletions_of_def)

lemmas deletion_parts =
  resolve_action_def finalize_action_def on_error_def on_result_def set_sub_condition_def drop_finalizers_def
  deletions_of_simps no_process_simps list.map_comp map_is_Nil_conv

lemma deletions_of_parts:
  "resolve_action (deletions_of L) (no_process s) ob True = resolve_action L s ob True"
  "on_error (deletions_of L) = on_error L"
  "on_result (deletions_of L) (no_process s) (map no_process rest) = on_result L s rest"
  by (simp_all only: fun_eq_iff deletion_parts if_True simp_thms)

lemma run_sub_deletions:
  "run_sub (deletions_of L) c True (no_process s) (map no_process rest) st = run_sub L c True s rest st"
  unfolding run_sub_def deletions_of_parts no_process_simps by (rule refl)

lemma run_subs_deletions:
  "run_subs (deletions_of L) c True (map no_process subs) st = run_subs L c True subs st"
  by (induction subs arbitrary: st) (simp_all add: run_sub_deletions split: prod.splits bool.splits)

lemma run_phase_deletions: "run_phase (deletions_of L) c True ob w = run_phase L c True ob w"
proof -
  have "rev (lc_subroutines (deletions_of L)) = map no_process (rev (lc_subroutines L))" by (simp add: rev_map)
  then show ?thesis by (simp add: run_phase_def run_subs_deletions split: option.split)
qed

subsection \<open>Realms\<close>

lemma idp_finalize_object: "fst (snd (idp_finalize R c x w)) = x"
  by (auto simp: idp_finalize_def idp_finalize_body_def split: prod.splits option.splits)

lemma idp_controller_Some:
  "idp_controller N (idp_iface tu fu) api de cc R =
     Some ((new_lifecycle (idp_iface tu fu) api de cc [idp_subroutine R])\<lparr>lc_conditions := Some (conditions_manager N (idp_iface tu fu))\<rparr>)"
  by (simp add: idp_controller_def with_conditions_def new_lifecycle_def idp_iface_def typed_iface_def)

interpretation idps: engine "idp_iface tu fu" "deletions_of (the (idp_controller N (idp_iface tu fu) api de cc R))"
  for tu fu N api de cc R
  by (intro engine.intro engine_axioms.intro idp_obj.object_laws_axioms)
    (auto simp: idp_controller_Some new_lifecycle_def idp_obj.conditions_manager_frame idp_subroutine_def no_process_def deletions_of_def
      sub_keeps_finalizers_def keeps_finalizers_def idp_finalize_object)

lemma idp_iface_finalizers: "obj_finalizers (idp_iface tu fu) x = m_finalizers (idp_meta x)"
  by (simp add: idp_iface_def typed_iface_def)

text \<open>What the finalization reads of an object, which the engine does not change.\<close>

definition idp_id :: "idp_config \<Rightarrow> string \<times> idp_spec \<times> (string \<rightharpoonup> managed_client)" where
  "idp_id x = (idp_name x, idp_spec_of x, is_managed (idp_status_of x))"

lemma idp_id_init: "idp_id (cm_init (conditions_manager N (idp_iface tu fu)) x ns) = idp_id x"
proof -
  have set: "idp_id (set_conditions idp_conditions cs x) = idp_id x" for cs x
    by (simp add: idp_conditions_def idp_id_def idp_name_def)
  have e: "idp_id (ensure_condition N idp_conditions y n g) = idp_id y" for y n g
    by (simp add: ensure_condition_def Let_def set)
  then have "idp_id (foldl (\<lambda>x n. ensure_condition N idp_conditions x n g) y ns) = idp_id y" for y g
    by (induction ns arbitrary: y) simp_all
  with e show ?thesis
    by (simp add: conditions_manager_def init_unknown_conditions_def idp_iface_def typed_iface_def Let_def)
qed

text \<open>
  \<open>S\<close> are the secrets of \<^verbatim>\<open>root:orgs\<close>, \<open>Rm\<close> the realms of Keycloak. HTTP creates no secrets; a realm whose deletion was
  answered with one of the codes of success, or with 404, is not there.
\<close>

definition idp_laws :: "'w idp_env \<Rightarrow> ('w \<Rightarrow> secret_ref set) \<Rightarrow> ('w \<Rightarrow> string set) \<Rightarrow> bool" where
  "idp_laws R S Rm \<longleftrightarrow>
     (\<forall>w e. id_orgs R w = Inl e \<longrightarrow> \<not> is_not_found e) \<and>
     (\<forall>w K. id_orgs R w = Inr K \<longrightarrow>
        (\<forall>ref w' e. k_get K ref w' = Inl e \<longrightarrow> is_not_found e \<longrightarrow> ref \<notin> S w') \<and>
        (\<forall>s w'. S (snd (k_delete K s w')) \<subseteq> S w') \<and>
        (\<forall>s w' w''. k_delete K s w' = (None, w'') \<longrightarrow> cs_ref s \<notin> S w'')) \<and>
     (\<forall>q w. S (snd (wb_do (id_web R) q w)) \<subseteq> S w \<and> S (snd (id_registration R q w)) \<subseteq> S w) \<and>
     (\<forall>realm q w r w'. wb_do (id_web R) q w = (Inr r, w') \<longrightarrow> kq_method q = DELETE \<longrightarrow>
        kq_url q = trim_suffix (id_base R) ''/'' @ ''/admin/realms/'' @ realm \<longrightarrow> ks_status r \<in> {200, 204, 404} \<longrightarrow> realm \<notin> Rm w')"

lemma idp_lawsD:
  assumes "idp_laws R S Rm"
  shows "id_orgs R w = Inl e \<Longrightarrow> \<not> is_not_found e"
    and "id_orgs R w = Inr K \<Longrightarrow> k_get K ref w' = Inl e \<Longrightarrow> is_not_found e \<Longrightarrow> ref \<notin> S w'"
    and "id_orgs R w = Inr K \<Longrightarrow> k_delete K s w' = (r, w'') \<Longrightarrow> S w'' \<subseteq> S w'"
    and "id_orgs R w = Inr K \<Longrightarrow> k_delete K s w' = (None, w'') \<Longrightarrow> cs_ref s \<notin> S w''"
    and "wb_do (id_web R) q w = (a, w') \<Longrightarrow> S w' \<subseteq> S w"
    and "id_registration R q w = (a, w') \<Longrightarrow> S w' \<subseteq> S w"
  using assms unfolding idp_laws_def by (metis, metis, metis snd_conv, metis, metis snd_conv, metis snd_conv)

text \<open>A client of the spec that the status knows completely.\<close>

definition registered_client :: "idp_config \<Rightarrow> idp_client_config \<Rightarrow> bool" where
  "registered_client x c \<longleftrightarrow> mc_id (managed_of x (ic_name c)) \<noteq> [] \<and> mc_uri (managed_of x (ic_name c)) \<noteq> []"

lemma kc_call_secrets:
  assumes "idp_laws R S Rm"
  shows "S (snd (kc_call (id_web R) a b q w)) \<subseteq> S w"
proof -
  have "S w' \<subseteq> S x" if "wb_do (id_web R) q' x = (r, w')" for q' x r w'
    using assms that unfolding idp_laws_def by (metis snd_conv)
  then show ?thesis by (auto simp: kc_call_def split: option.split prod.split sum.split)
qed

lemma RefreshToken_secrets:
  assumes "idp_laws R S Rm" and "ad_web A = id_web R"
  shows "S (snd (RefreshToken A cid w)) \<subseteq> S w"
proof -
  have call: "S w' \<subseteq> S x" if "kc_call (ad_web A) a b q x = (r, w')" for a b q x r w'
    using kc_call_secrets [OF assms(1), of a b q x] that assms(2) by simp
  have l: "S w' \<subseteq> S x" if "resolveClientUUID A cid x = (r, w')" for x r w'
    using that call by (auto simp: resolveClientUUID_def ListClients_def split: prod.splits sum.splits option.splits if_splits)
  show ?thesis
    by (auto simp: RefreshToken_def split: prod.split sum.split dest!: l call)
qed

lemma newOIDCClient_parts:
  "snd (newOIDCClient R realm) = NewAdminClient (id_web R) (id_base R) realm"
  "rg_do (fst (newOIDCClient R realm)) = RoundTrip (id_registration R) (Some (RefreshToken (NewAdminClient (id_web R) (id_base R) realm)))"
  by (simp_all add: newOIDCClient_def Let_def)

lemma Delete_client_secrets:
  assumes "idp_laws R S Rm"
  shows "S (snd (Delete_client (fst (newOIDCClient R realm)) cid uri token w)) \<subseteq> S w"
proof -
  have reg: "S x' \<subseteq> S x" if "id_registration R q x = (r, x')" for q x r x'
    using assms that unfolding idp_laws_def by (metis snd_conv)
  have refresh: "S x' \<subseteq> S x" if "RefreshToken (NewAdminClient (id_web R) (id_base R) realm) cid' x = (r, x')" for cid' x r x'
    using RefreshToken_secrets [OF assms, of "NewAdminClient (id_web R) (id_base R) realm" cid' x] that by (simp add: NewAdminClient_def)
  have trip: "S x' \<subseteq> S x" if "rg_do (fst (newOIDCClient R realm)) cid' q x = (r, x')" for cid' q x r x'
    using that unfolding newOIDCClient_parts RoundTrip_def
    by (auto split: prod.splits sum.splits if_splits dest!: reg refresh)
  show ?thesis
    by (auto simp: Delete_client_def reg_call_def split: prod.split sum.split option.split dest!: trip)
qed

lemma delete_secret_gone:
  assumes "idp_laws R S Rm" and "delete_secret R what ref w = (e, w')"
  shows "S w' \<subseteq> S w" and "e = None \<Longrightarrow> ref \<notin> S w'"
proof -
  have sub: "S x' \<subseteq> S x" if "id_orgs R v = Inr K" "k_delete K s x = (r, x')" for v K s x r x'
    using assms(1) that unfolding idp_laws_def by (metis snd_conv)
  have del: "ref \<notin> S x'" if "id_orgs R v = Inr K" "k_delete K (empty_secret ref) x = (None, x')" for v K x x'
  proof -
    have "cs_ref (empty_secret ref) \<notin> S x'" using assms(1) that unfolding idp_laws_def by blast
    then show ?thesis by (simp add: empty_secret_def)
  qed
  show "S w' \<subseteq> S w" using assms(2) by (auto simp: delete_secret_def split: sum.splits prod.splits option.splits dest!: sub)
  show "ref \<notin> S w'" if "e = None" using assms(2) that del by (auto simp: delete_secret_def split: sum.splits prod.splits option.splits)
qed

lemma finalize_client_gone:
  assumes "idp_laws R S Rm" and "finalize_client R (fst (newOIDCClient R realm)) x c w = (e, w')"
  shows "S w' \<subseteq> S w" and "e = None \<Longrightarrow> registered_client x c \<Longrightarrow> ic_secret c \<notin> S w'"
proof -
  let ?C = "fst (newOIDCClient R realm)" and ?m = "managed_of x (ic_name c)"
  have missing: "ic_secret c \<notin> S w" if "readRegistrationAccessToken R (ic_secret c) w = Inl e" "is_not_found e" for e
  proof (cases "id_orgs R w")
    case (Inl e1)
    then have "\<not> is_not_found e1" by (rule idp_lawsD(1) [OF assms(1)])
    then show ?thesis using that Inl by (auto simp: readRegistrationAccessToken_def)
  next
    case (Inr K)
    then have "k_get K (ic_secret c) w = Inl e" using that(1) by (auto simp: readRegistrationAccessToken_def split: sum.splits)
    then show ?thesis by (rule idp_lawsD(2) [OF assms(1) Inr _ that(2)])
  qed
  have "S w' \<subseteq> S w \<and> (e = None \<longrightarrow> registered_client x c \<longrightarrow> ic_secret c \<notin> S w')"
  proof (cases "readRegistrationAccessToken R (ic_secret c) w")
    case (Inl e1)
    then show ?thesis using assms(2) missing by (auto simp: finalize_client_def split: if_splits)
  next
    case (Inr token)
    obtain r w1 where d: "Delete_client ?C (mc_id ?m) (mc_uri ?m) token w = (r, w1)" by fastforce
    have s1: "S w1 \<subseteq> S w" using Delete_client_secrets [OF assms(1), of realm "mc_id ?m" "mc_uri ?m" token w] d by simp
    obtain e2 w2 where s: "delete_secret R ''failed to delete client secret'' (ic_secret c) w1 = (e2, w2)" by fastforce
    note s2 = delete_secret_gone [OF assms(1) s]
    show ?thesis using assms(2) Inr d s s1 s2
      by (auto simp: finalize_client_def registered_client_def Let_def split: if_splits)
  qed
  then show "S w' \<subseteq> S w" and "e = None \<Longrightarrow> registered_client x c \<Longrightarrow> ic_secret c \<notin> S w'" by blast+
qed

lemma finalize_clients_gone:
  assumes "idp_laws R S Rm" and "finalize_clients R (fst (newOIDCClient R realm)) x cs w = (None, w')"
  shows "S w' \<subseteq> S w" and "\<forall>c \<in> set cs. registered_client x c \<longrightarrow> ic_secret c \<notin> S w'"
proof -
  have "S w' \<subseteq> S w \<and> (\<forall>c \<in> set cs. registered_client x c \<longrightarrow> ic_secret c \<notin> S w')"
    using assms(2)
  proof (induction cs arbitrary: w)
    case (Cons c cs)
    obtain w1 where c: "finalize_client R (fst (newOIDCClient R realm)) x c w = (None, w1)"
      and r: "finalize_clients R (fst (newOIDCClient R realm)) x cs w1 = (None, w')"
      using Cons.prems by (auto split: prod.splits option.splits)
    note one = finalize_client_gone [OF assms(1) c]
    show ?case using one Cons.IH [OF r] by auto
  qed simp
  then show "S w' \<subseteq> S w" and "\<forall>c \<in> set cs. registered_client x c \<longrightarrow> ic_secret c \<notin> S w'" by blast+
qed

lemma DeleteRealm_gone:
  assumes "idp_laws R S Rm" and "DeleteRealm (NewAdminClient (id_web R) (id_base R) realm') realm w = (None, w')"
  shows "realm \<notin> Rm w'" and "S w' \<subseteq> S w"
proof -
  let ?A = "NewAdminClient (id_web R) (id_base R) realm'"
  let ?q = "\<lparr>kq_method = DELETE, kq_url = realm_url ?A realm, kq_body = None, kq_auth = None\<rparr>"
  obtain r where r: "wb_do (id_web R) ?q w = (Inr r, w')" and st: "ks_status r \<in> {200, 204, 404}"
    using assms(2) by (auto simp: DeleteRealm_def kc_call_def NewAdminClient_def split: prod.splits sum.splits option.splits if_splits)
  have "kq_url ?q = trim_suffix (id_base R) ''/'' @ ''/admin/realms/'' @ realm" by (simp add: realm_url_def NewAdminClient_def)
  moreover have "kq_method ?q = DELETE" by simp
  ultimately show "realm \<notin> Rm w'" using assms(1) r st unfolding idp_laws_def by blast
  show "S w' \<subseteq> S w" using assms(1) r unfolding idp_laws_def by (metis snd_conv)
qed

lemma idp_finalize_done:
  assumes "idp_laws R S Rm" and "idp_finalize R c x w = (out, y, w')" and "finalize_done ActionFinalize out"
  shows "idp_name x \<notin> Rm w'" and "\<forall>cl \<in> set (is_clients (idp_spec_of x)). registered_client x cl \<longrightarrow> ic_secret cl \<notin> S w'"
proof -
  let ?C = "fst (newOIDCClient R (idp_name x))"
  obtain out0 y0 where b: "idp_finalize_body R c x w = (out0, y0, w')" and o0: "out = pendingIfClusterNotReady R out0"
    using assms(2) by (auto simp: idp_finalize_def split: prod.splits)
  have "\<not> is_continue r" if "ret_pending d m = Ret r None" for d m r
    using that by (auto simp: ret_pending_def Pending_def is_continue_def split: sum.splits if_splits)
  then have "\<exists>r. out0 = Ret r None"
    using assms(3) o0 by (auto simp: pendingIfClusterNotReady_def finalize_done_def split: outcome.splits option.splits if_splits)
  then obtain w1 where f: "finalize_clients R ?C x (is_clients (idp_spec_of x)) w = (None, w1)"
    and d: "DeleteRealm (NewAdminClient (id_web R) (id_base R) (idp_name x)) (idp_name x) w1 = (None, w')"
    using b by (auto simp: idp_finalize_body_def newOIDCClient_def ret_err_def Let_def split: prod.splits option.splits)
  show "idp_name x \<notin> Rm w'" by (rule DeleteRealm_gone(1) [OF assms(1) d])
  show "\<forall>cl \<in> set (is_clients (idp_spec_of x)). registered_client x cl \<longrightarrow> ic_secret cl \<notin> S w'"
    using finalize_clients_gone(2) [OF assms(1) f] DeleteRealm_gone(2) [OF assms(1) d] by blast
qed

lemma idp_deletion_finalizers:
  assumes "L = the (idp_controller N (idp_iface tu fu) api de cc R)" and "IdpFinalizer \<in> set (m_finalizers (idp_meta x))"
  shows "\<exists>y. idp_id y = idp_id x \<and> rs_world (run_phase L c True x w) = snd (snd (idp_finalize R c y w)) \<and>
    m_finalizers (idp_meta (rs_obj (run_phase L c True x w))) =
      (if finalize_done ActionFinalize (fst (idp_finalize R c y w)) then filter (\<lambda>g. g \<noteq> IdpFinalizer) (m_finalizers (idp_meta x))
       else m_finalizers (idp_meta x))"
proof -
  let ?I = "idp_iface tu fu" and ?D = "deletions_of L" and ?s = "no_process (idp_subroutine R :: ('a, 'b, idp_config, 'c) subroutine)"
  define y where "y = cm_init (conditions_manager N ?I) x [sub_name (idp_subroutine R :: ('a, 'b, idp_config, 'c) subroutine)]"
  have eng: "engine ?I ?D" unfolding assms(1) by (rule idps.engine_axioms)
  have L: "lc_iface L = ?I" "lc_conditions L = Some (conditions_manager N ?I)" "lc_subroutines L = [idp_subroutine R]"
    "lc_terminator L = []" "lc_reporters L = []"
    by (simp_all add: assms(1) idp_controller_Some new_lifecycle_def)
  have y: "obj_finalizers ?I y = m_finalizers (idp_meta x)"
    using idp_obj.std_conditions.finalizers_init by (simp add: idp_iface_finalizers y_def)
  have act: "resolve_action ?D ?s y True = Some (idp_finalize R, ActionFinalize)"
    using assms(2) y by (auto simp: resolve_action_def finalize_action_def L idp_subroutine_def no_process_def has_any_finalizer_def)
  obtain st' go where r: "run_sub ?D c True ?s [] (start_run y w) = (st', go)" by fastforce
  have "run_phase ?D c True x w = st'" by (cases go) (simp_all add: run_phase_def L y_def [symmetric] r)
  then have st: "run_phase L c True x w = st'" by (simp add: run_phase_deletions)
  obtain ob where fins: "obj_finalizers ?I (rs_obj st') =
      (if finalize_done ActionFinalize (fst (idp_finalize R c (rs_obj (start_run y w)) (rs_world (start_run y w))))
       then filter (\<lambda>g. g \<notin> set (sub_finalizers ?s ob)) (obj_finalizers ?I (rs_obj (start_run y w)))
       else obj_finalizers ?I (rs_obj (start_run y w)))"
    using engine.run_sub_finalizers [OF eng _ _ r, of "idp_finalize R" ActionFinalize] by (auto simp: L act start_run_def)
  have sf: "sub_finalizers ?s ob = [IdpFinalizer]" by (simp add: sub_finalizers_def idp_subroutine_def no_process_def)
  have id: "idp_id y = idp_id x" unfolding y_def by (rule idp_id_init)
  have "rs_world st' = snd (snd (idp_finalize R c y w))"
    using run_sub_world [OF _ _ r] act by (simp add: start_run_def L)
  then show ?thesis
    using st y id fins sf by (intro exI [of _ y]) (simp add: start_run_def idp_iface_finalizers)
qed

lemma idp_deletion_pass:
  assumes "L = the (idp_controller N (idp_iface tu fu) api de cc R)"
    and "IdpFinalizer \<in> set (m_finalizers (idp_meta x))"
    and "IdpFinalizer \<notin> set (m_finalizers (idp_meta (rs_obj (run_phase L c True x w))))"
  shows "\<exists>y out z w'. idp_id y = idp_id x \<and> idp_finalize R c y w = (out, z, w') \<and> finalize_done ActionFinalize out \<and>
    w' = rs_world (run_phase L c True x w)"
  using idp_deletion_finalizers [OF assms(1,2), of c w] assms(2,3) by (metis prod.collapse)

subsection \<open>The organization's resources\<close>

text \<open>A resource was asked for and is not served.\<close>

definition seen_gone :: "('o, 'w) kind_client \<Rightarrow> string \<Rightarrow> 'w \<Rightarrow> bool" where
  "seen_gone K name w \<longleftrightarrow> (\<exists>e. k_get K ([], name) w = Inl e \<and> (is_not_found e \<or> is_no_match e))"

lemma deleteOrgResource_gone:
  "deleteOrgResource meta K name w = (Inr False, w') \<Longrightarrow> seen_gone K name w"
  by (auto simp: deleteOrgResource_def seen_gone_def split: sum.splits prod.splits option.splits if_splits)

lemma terminate_resource_gone:
  assumes "terminate_resource R meta True kind what name w = (out, w')" and "continues out"
  shows "\<exists>O1. su_orgs R w = Inr O1 \<and> seen_gone (kind O1) name w"
proof -
  have wait: "\<not> continues (ret (StopWithRequeue orgResourceDeleteRequeue m))" for m
    by (simp add: continues_def ret_def StopWithRequeue_def is_stop_with_requeue_def orgResourceDeleteRequeue_def seconds_def second_def zero_result_def)
  have err: "\<not> continues (ret_err e)" for e by (simp add: continues_def ret_err_def)
  obtain O1 where o1: "su_orgs R w = Inr O1" using assms err by (auto simp: terminate_resource_def split: sum.splits)
  obtain r w1 where d: "deleteOrgResource meta (kind O1) name w = (r, w1)" by fastforce
  have "r = Inr False"
  proof (cases r)
    case (Inr pending)
    then show ?thesis using assms o1 d wait by (cases pending) (auto simp: terminate_resource_def)
  qed (use assms o1 d err in \<open>auto simp: terminate_resource_def\<close>)
  then have "seen_gone (kind O1) name w" using d by (auto intro: deleteOrgResource_gone)
  then show ?thesis using o1 by blast
qed

text \<open>In a pass that came to its end without an error every Terminate went through, on the object as it was.\<close>

definition ended_cleanly :: "('o, 'w) run_state \<Rightarrow> bool" where
  "ended_cleanly st \<longleftrightarrow> rs_err st = None \<and> \<not> rs_stopped st \<and> \<not> rs_skip_all st \<and> rs_panic st = None"

definition terminates_only :: "('cl, 'v, 'o, 'w) subroutine \<Rightarrow> bool" where
  "terminates_only s \<longleftrightarrow> as_finalizer s = None \<and> (\<forall>t c x w. as_terminator s = Some t \<longrightarrow> fst (snd (t c x w)) = x)"

lemma run_sub_terminates:
  assumes "lc_conditions L = None" and "terminates_only s" and "lc_terminator L \<noteq> []"
    and "has_marker_in_status (lc_iface L) (rs_obj st) statusFieldTerminators (lc_terminator L)"
    and "run_sub L c True s rest st = (st', go)"
  shows "rs_obj st' = rs_obj st"
    and "as_terminator s = Some t \<Longrightarrow> go \<longleftrightarrow> continues (fst (t c (rs_obj st) (rs_world st)))"
    and "\<not> go \<Longrightarrow> \<not> ended_cleanly st'"
proof -
  have act: "resolve_action L s (rs_obj st) True = map_option (\<lambda>t. (t, ActionTerminate)) (as_terminator s)"
    using assms(2-4) by (auto simp: resolve_action_def finalize_action_def terminates_only_def split: option.split)
  have keep: "x' = rs_obj st" if "as_terminator s = Some t" "t c (rs_obj st) (rs_world st) = (out, x', w')" for t out x' w'
    using assms(2) that unfolding terminates_only_def by (metis fst_conv snd_conv)
  show "rs_obj st' = rs_obj st"
    using assms(1,2,5) keep
    by (auto simp: run_sub_def act on_result_def on_error_def set_sub_condition_def drop_finalizers_def terminates_only_def Let_def
        split: option.splits prod.splits outcome.splits if_splits)
  show "go \<longleftrightarrow> continues (fst (t c (rs_obj st) (rs_world st)))" if "as_terminator s = Some t"
    using run_sub_flags(1) [OF _ refl assms(5), of t ActionTerminate] that act by simp
  show "\<not> ended_cleanly st'" if "\<not> go"
    using assms(5) that
    by (auto simp: run_sub_def on_result_def on_error_def ended_cleanly_def Let_def split: option.splits prod.splits outcome.splits if_splits)
qed

lemma run_subs_terminate:
  assumes "lc_conditions L = None" and "\<forall>s \<in> set subs. terminates_only s" and "lc_terminator L \<noteq> []"
    and "has_marker_in_status (lc_iface L) (rs_obj st) statusFieldTerminators (lc_terminator L)"
    and "ended_cleanly (run_subs L c True subs st)" and "s \<in> set subs" and "as_terminator s = Some t"
  shows "\<exists>w. continues (fst (t c (rs_obj st) w))"
  using assms(2,4-6)
proof (induction subs arbitrary: st)
  case (Cons u rest)
  obtain st' go where r: "run_sub L c True u rest st = (st', go)" by fastforce
  note one = run_sub_terminates [OF assms(1) _ assms(3) Cons.prems(2) r]
  have u: "terminates_only u" using Cons.prems(1) by simp
  have go using Cons.prems(3) r one(3) [OF u] by (cases go) auto
  show ?case
  proof (cases "s = u")
    case True
    then show ?thesis using one(2) [OF u] assms(7) \<open>go\<close> by blast
  next
    case False
    have "\<exists>w. continues (fst (t c (rs_obj st') w))"
      by (rule Cons.IH) (use Cons.prems r \<open>go\<close> one(1) [OF u] False in auto)
    then show ?thesis using one(1) [OF u] by simp
  qed
qed simp

lemma setup_subroutines_terminate:
  "terminates_only (store_setup_subroutine G R)" "terminates_only (idp_setup_subroutine G R)"
  "terminates_only (invite_setup_subroutine R)" "terminates_only (auth_setup_subroutine G R)"
  by (auto simp: terminates_only_def store_setup_subroutine_def idp_setup_subroutine_def invite_setup_subroutine_def
      auth_setup_subroutine_def store_terminate_def idp_terminate_def auth_terminate_def split: prod.split)

lemma org_deletion_ends:
  assumes "L = org_controller I api de cc G R rekey ini term" and "term \<noteq> []" and "terminates_only rekey"
    and "has_marker_in_status I lc statusFieldTerminators term" and "ended_cleanly (run_phase L c True lc w)"
    and "s \<in> set (org_subroutines G R rekey)" and "as_terminator s = Some t"
  shows "\<exists>w. continues (fst (t c lc w))"
proof -
  have L: "lc_iface L = I" "lc_conditions L = None" "lc_terminator L = term" "lc_subroutines L = org_subroutines G R rekey"
    using assms(2) by (simp_all add: assms(1) org_controller_def new_lifecycle_def with_initializer_def with_terminator_def Let_def)
  have "ended_cleanly (run_subs L c True (rev (org_subroutines G R rekey)) (start_run lc w))"
    using assms(5) by (simp add: run_phase_def L)
  moreover have "\<forall>s \<in> set (rev (org_subroutines G R rekey)). terminates_only s"
    using assms(3) setup_subroutines_terminate by (auto simp: org_subroutines_def)
  ultimately have "\<exists>w'. continues (fst (t c (rs_obj (start_run lc w)) w'))"
    using run_subs_terminate [of L "rev (org_subroutines G R rekey)" "start_run lc w" c s t] assms(2,4,6,7)
    by (simp add: L start_run_def)
  then show ?thesis by (simp add: start_run_def)
qed

lemma setup_terminates_gone:
  assumes "continues (fst (store_terminate R c lc w))"
  shows "\<exists>O1. su_orgs R w = Inr O1 \<and> seen_gone (oc_stores O1) (generateStoreName lc) w"
  using assms terminate_resource_gone [where kind = oc_stores and R = R and w = w]
  by (auto simp: store_terminate_def continues_def ret_err_def split: if_splits prod.splits)

lemma idp_terminates_gone:
  assumes "continues (fst (idp_terminate R c lc w))"
  shows "\<exists>O1. su_orgs R w = Inr O1 \<and> seen_gone (oc_idps O1) (getWorkspaceName lc) w"
  using assms terminate_resource_gone [where kind = oc_idps and R = R and w = w]
  by (auto simp: idp_terminate_def continues_def ret_err_def split: if_splits prod.splits)

end
