(* ===== verification/Setup_Example.thy ===== *)
theory Setup_Example
  imports Setup_Release Account_Example "HOL-Library.List_Lexorder" "HOL-Library.Char_ord"
begin

text \<open>
  A small installation: the organization acme with one type of workspaces, an identity provider that is Ready, and a
  Keycloak that answers every deletion of a realm with success.
\<close>

record small_orgs =
  so_auth :: "string \<rightharpoonup> auth_config"
  so_types :: "string \<rightharpoonup> string list"
  so_info :: platform_info
  so_secrets :: "secret_ref set"
  so_realms :: "string set"

definition view_client :: "(string \<times> string \<Rightarrow> 'w \<Rightarrow> err + 'o) \<Rightarrow> ('o \<Rightarrow> 'w \<Rightarrow> err option \<times> 'w) \<Rightarrow> ('o, 'w) kind_client" where
  "view_client get del =
     \<lparr>k_get = get, k_list = (\<lambda>w. Inr []), k_create = (\<lambda>x w. (None, x, w)), k_update = (\<lambda>x w. (None, x, w)),
      k_status_update = (\<lambda>x w. (None, x, w)), k_delete = del\<rparr>"

lemma view_client_simps [simp]: "k_get (view_client get del) = get" "k_delete (view_client get del) = del"
  by (simp_all add: view_client_def)

definition put_auth_config :: "(auth_config, small_orgs) put" where
  "put_auth_config f x w =
     (case f (case so_auth w (m_name (au_meta x)) of None \<Rightarrow> x | Some y \<Rightarrow> y) of
        Inl e \<Rightarrow> (Some e, w)
      | Inr y \<Rightarrow> (None, w\<lparr>so_auth := (so_auth w)(m_name (au_meta x) \<mapsto> y)\<rparr>))"

definition acme_idp :: idp_config where
  "acme_idp =
     \<lparr>idp_meta = (new_meta ''acme'')\<lparr>m_finalizers := [IdpFinalizer]\<rparr>,
      idp_spec_of = \<lparr>is_registration = False,
        is_clients = [\<lparr>ic_type = Confidential, ic_name = ''acme'', ic_redirects = [], ic_logouts = [], ic_secret = (''default'', ''acme'')\<rparr>]\<rparr>,
      idp_status_of =
        \<lparr>is_conditions = [\<lparr>cond_type = ''Ready'', cond_status = CTrue, cond_reason = ''Complete'', cond_message = [], cond_generation = 0\<rparr>],
         is_managed = [''acme'' \<mapsto> \<lparr>mc_id = ''c1'', mc_uri = ''https://kc/c1'', mc_secret = (''default'', ''acme'')\<rparr>]\<rparr>\<rparr>"

text \<open>\<open>there\<close> says whether the resources of the organization still exist.\<close>

definition small_orgs_clients :: "bool \<Rightarrow> small_orgs orgs_clients" where
  "small_orgs_clients there =
     \<lparr>oc_accounts = view_client (\<lambda>k w. Inr acme) (\<lambda>x w. (None, w)),
      oc_idps = view_client (\<lambda>k w. if there then Inr acme_idp else Inl gone) (\<lambda>x w. (None, w)),
      oc_put_idp = (\<lambda>f x w. (None, w)),
      oc_stores = view_client (\<lambda>k w. Inl gone) (\<lambda>x w. (None, w)),
      oc_put_store = (\<lambda>f x w. (Inr (PutUnchanged, x), w)),
      oc_auths = view_client (\<lambda>k w. case so_auth w (snd k) of None \<Rightarrow> Inl gone | Some x \<Rightarrow> Inr x)
        (\<lambda>x w. (None, w\<lparr>so_auth := (so_auth w)(m_name (au_meta x) := None)\<rparr>)),
      oc_put_auth = put_auth_config,
      oc_types = (\<lambda>ws w. Inr (case so_types w ws of None \<Rightarrow> [] | Some cs \<Rightarrow> [\<lparr>at_name = ''type'', at_configs = cs\<rparr>])),
      oc_patch_type = (\<lambda>t' t w. (None, w\<lparr>so_types := (\<lambda>ws. if at_name t' = ''type'' \<and> at_configs t' \<noteq> at_configs t then map_option (\<lambda>_. at_configs t') (so_types w ws) else so_types w ws)\<rparr>))\<rparr>"

definition small_workspace_clients :: "small_orgs workspace_clients" where
  "small_workspace_clients =
     \<lparr>wc_infos = view_client (\<lambda>k w. Inr (so_info w)) (\<lambda>x w. (None, w)),
      wc_patch_info = (\<lambda>i' i w. (None, if pa_oidc i' = pa_oidc i then w else w\<lparr>so_info := (so_info w)\<lparr>pa_oidc := pa_oidc i'\<rparr>\<rparr>)),
      wc_invites = view_client (\<lambda>k w. Inl gone) (\<lambda>x w. (None, w)), wc_put_invite = (\<lambda>f x w. (None, w)),
      wc_bindings = (\<lambda>w. Inr [])\<rparr>"

definition five_seconds :: "('o, 'w) requeue_limiter" where
  "five_seconds = \<lparr>rq_when = (\<lambda>x w. (five, w)), rq_forget = (\<lambda>x w. w)\<rparr>"

definition small_setup :: "bool \<Rightarrow> small_orgs setup_env" where
  "small_setup there =
     \<lparr>su_orgs = (\<lambda>w. Inr (small_orgs_clients there)), su_from_context = (\<lambda>n w. Inr small_workspace_clients),
      su_client = (\<lambda>n w. Inr small_workspace_clients), su_ca = (\<lambda>w. Inr Map.empty),
      su_order = (\<lambda>m. sorted_list_of_set (dom m)), su_backoff = (\<lambda>f w. (None, w)),
      su_idp_limiter = five_seconds, su_invite_limiter = five_seconds\<rparr>"

definition small_setup_view :: "small_orgs setup_view" where
  "small_setup_view =
     \<lparr>sv_auth = so_auth,
      sv_types = (\<lambda>w ws. case so_types w ws of None \<Rightarrow> Map.empty | Some cs \<Rightarrow> [''type'' \<mapsto> cs]),
      sv_infos = (\<lambda>w n. Some (so_info w))\<rparr>"

lemma small_orgs_laws: "orgs_laws (small_setup there) small_setup_view"
proof -
  have put: "put_law au_jwt so_auth ws put_auth_config (named_auth ws)" for ws
    unfolding put_law_def
  proof (intro allI)
    fix f :: "auth_config \<Rightarrow> err + auth_config" and w
    show "so_auth (snd (put_auth_config f (named_auth ws) w)) = so_auth w \<or>
        (\<exists>j0 j j'. f j0 = Inr j \<and> (so_auth w ws = Some j0 \<or> so_auth w ws = None \<and> j0 = named_auth ws) \<and> au_jwt j' = au_jwt j \<and>
           so_auth (snd (put_auth_config f (named_auth ws) w)) = (so_auth w)(ws \<mapsto> j'))"
      by (cases "f (case so_auth w ws of None \<Rightarrow> named_auth ws | Some y \<Rightarrow> y)"; cases "so_auth w ws")
        (auto simp: put_auth_config_def named_auth_def new_meta_def)
  qed
  have stores: "put_stores au_jwt so_auth ws put_auth_config (named_auth ws)" for ws
    by (fastforce simp: put_stores_def put_auth_config_def named_auth_def new_meta_def split: sum.splits)
  show ?thesis
    using put stores
    by (auto simp: orgs_laws_def auth_laws_def org_type_laws_def small_setup_def small_setup_view_def small_orgs_clients_def map_le_def
        fun_eq_iff split: option.split)
qed

lemma small_context_laws: "context_laws (small_setup there) small_setup_view (\<lambda>n. [])"
  by (auto simp: context_laws_def small_setup_def small_setup_view_def limiter_laws_def five_seconds_def five_def seconds_def second_def
      small_orgs_clients_def small_workspace_clients_def acme_idp_def split: if_splits)

subsection \<open>Setting up acme\<close>

definition small_setup_config :: setup_config where
  "small_setup_config =
     \<lparr>sg_domain = ''mesh'', sg_redirects = [], sg_kubectl_redirects = [], sg_registration = False, sg_ca_lookup = False,
      sg_audiences = [''cli''], sg_group_claim = ''groups'', sg_user_claim = ''email'', sg_unverified = False, sg_core_module = [],
      sg_creator_relation = ''owner'', sg_object_type = ''account'', sg_member_tuples = False, sg_initializer_on = True,
      sg_idp_on = True, sg_invite_on = True, sg_auth_on = True, sg_rekey_on = False\<rparr>"

definition acme_cluster :: org_cluster where
  "acme_cluster =
     \<lparr>lc_annotations = [''kcp.io/path'' \<mapsto> ''root:orgs:acme''], lc_owner = Some ''orgs'', lc_meta = new_meta ''cluster'',
      lc_owner_name = ''acme'', lc_initializers = [], lc_terminators = [''root:security'']\<rparr>"

lemma acme_cluster_name [simp]: "getWorkspaceName acme_cluster = ''acme''" "generateStoreName acme_cluster = ''acme''"
  by (simp_all add: getWorkspaceName_def generateStoreName_def acme_cluster_def)

definition acme_new :: small_orgs where
  "acme_new =
     \<lparr>so_auth = Map.empty, so_types = [''acme'' \<mapsto> []], so_info = new_info, so_secrets = {(''default'', ''acme'')}, so_realms = {''acme''}\<rparr>"

definition acme_with_idp :: small_orgs where
  "acme_with_idp = acme_new\<lparr>so_info := new_info\<lparr>pa_oidc := Some (desired_oidc small_setup_config ''acme'' acme_idp)\<rparr>\<rparr>"

definition acme_auth :: auth_config where
  "acme_auth = (named_auth ''acme'')\<lparr>au_jwt := [jwt_of small_setup_config ''acme'' [''c1'']]\<rparr>"

definition acme_ready :: small_orgs where
  "acme_ready = acme_with_idp\<lparr>so_auth := [''acme'' \<mapsto> acme_auth], so_types := [''acme'' \<mapsto> [''acme'']]\<rparr>"

lemma acme_idp_setup:
  "idp_setup small_setup_config (small_setup True) (in_cluster ''c'') acme_cluster acme_new = (ret OK, acme_cluster, acme_with_idp)"
proof -
  have chk: "check_managed acme_idp (is_clients (idp_spec_of acme_idp)) = None"
    and cs: "is_clients (idp_spec_of acme_idp) \<noteq> []" "is_managed (idp_status_of acme_idp) \<noteq> Map.empty"
      "condition_true (is_conditions (idp_status_of acme_idp)) ''Ready''"
    by (simp_all add: acme_idp_def condition_true_def)
  have p: "patchAccountInfo small_setup_config small_workspace_clients ''acme'' acme_idp acme_new = (None, acme_with_idp)"
    by (simp add: patchAccountInfo_def small_workspace_clients_def acme_new_def acme_with_idp_def new_info_def)
  have "put_idp small_setup_config (small_setup True) (small_orgs_clients True) small_workspace_clients ''acme'' acme_new = (ret OK, acme_with_idp)"
    unfolding put_idp_def by (simp add: small_orgs_clients_def chk cs p small_setup_def five_seconds_def)
  moreover have "aspec_type (acc_spec acme) = AccountTypeOrg" by (simp add: acme_def an_account_def)
  ultimately show ?thesis by (simp add: idp_setup_def) (simp add: small_setup_def small_orgs_clients_def)
qed

lemma acme_auth_setup:
  "auth_setup small_setup_config (small_setup True) (in_cluster ''c'') acme_cluster acme_with_idp = (ret OK, acme_cluster, acme_ready)"
proof -
  have cl: "oi_clients (desired_oidc small_setup_config ''acme'' acme_idp) = [''acme'' \<mapsto> \<lparr>ci_client_id = ''c1''\<rparr>]"
    by (auto simp: desired_oidc_def acme_idp_def)
  have a: "client_audiences [''acme'' \<mapsto> \<lparr>ci_client_id = ''c1''\<rparr>] (su_order (small_setup True) [''acme'' \<mapsto> \<lparr>ci_client_id = ''c1''\<rparr>]) = Inr [''c1'']"
    by (simp add: small_setup_def)
  have p: "put_auth (small_setup True) ''acme'' (jwt_of small_setup_config ''acme'' [''c1'']) None acme_with_idp = (ret OK, acme_ready)"
    by (simp add: put_auth_def small_setup_def small_orgs_clients_def put_auth_config_def auth_mutation_def named_auth_def new_meta_def
        patchWorkspaceTypes_def acme_with_idp_def acme_new_def acme_ready_def acme_auth_def fun_eq_iff)
  have d: "domain_ca small_setup_config R w = Inr None" for R :: "small_orgs setup_env" and w by (simp add: domain_ca_def small_setup_config_def)
  have k: "su_from_context (small_setup True) n w = Inr small_workspace_clients"
    "k_get (wc_infos small_workspace_clients) key w = Inr (so_info w)" for n w key
    by (simp_all add: small_setup_def small_workspace_clients_def)
  have i: "pa_oidc (so_info acme_with_idp) = Some (desired_oidc small_setup_config ''acme'' acme_idp)" by (simp add: acme_with_idp_def)
  show ?thesis by (simp add: auth_setup_def d k i cl a p)
qed

subsection \<open>Releasing acme\<close>

definition terminators_json :: "org_cluster \<Rightarrow> err + json" where
  "terminators_json x = Inr (JObj [(''status'', JObj [(''terminators'', JArr (map JStr (lc_terminators x)))])])"

definition read_terminators :: "json \<Rightarrow> org_cluster \<Rightarrow> err option \<times> org_cluster" where
  "read_terminators j x =
     (None, case json_get j ''status'' of
        Some st \<Rightarrow> (case json_get st ''terminators'' of None \<Rightarrow> x\<lparr>lc_terminators := []\<rparr> | Some _ \<Rightarrow> x)
      | None \<Rightarrow> x\<lparr>lc_terminators := []\<rparr>)"

definition cluster_iface :: "org_cluster obj_iface" where
  "cluster_iface = org_iface terminators_json read_terminators"

definition no_rekey :: "(unit, unit, org_cluster, small_orgs) subroutine" where
  "no_rekey = \<lparr>sub_name = [], as_processor = None, as_finalizer = None, as_initializer = None, as_terminator = None\<rparr>"

definition idle_cluster_api :: "(unit, org_cluster, small_orgs) engine_api" where
  "idle_cluster_api =
     \<lparr>api_get = (\<lambda>_ _ w. Inl gone), api_patch = (\<lambda>_ _ x w. (None, x, w)),
      api_status_patch = (\<lambda>_ _ x w. (None, x, w))\<rparr>"

definition releasing :: "(unit, unit, org_cluster, small_orgs) lifecycle" where
  "releasing = org_controller cluster_iface idle_cluster_api (=) (\<lambda>_. Inr ()) small_setup_config (small_setup False) no_rekey []
     ''root:security''"

lemma acme_marked: "has_marker_in_status cluster_iface acme_cluster statusFieldTerminators ''root:security''"
  by (simp add: has_marker_in_status_def cluster_iface_def org_iface_def typed_iface_def terminators_json_def statusFieldTerminators_def
      marker_present_def acme_cluster_def)

lemma releasing_simps:
  "lc_iface releasing = cluster_iface" "lc_conditions releasing = None" "lc_terminator releasing = ''root:security''"
  "lc_initializer releasing = []"
  "lc_subroutines releasing = [store_setup_subroutine small_setup_config (small_setup False),
     idp_setup_subroutine small_setup_config (small_setup False), invite_setup_subroutine (small_setup False),
     auth_setup_subroutine small_setup_config (small_setup False)]"
  by (simp_all add: releasing_def org_controller_def new_lifecycle_def with_terminator_def Let_def org_subroutines_def small_setup_config_def)

lemma releasing_step:
  assumes "as_terminator s = Some t" and "t c acme_cluster w = (ret OK, acme_cluster, w')"
  shows "run_sub releasing c True s rest (start_run acme_cluster w) = (start_run acme_cluster w', True)"
  using assms acme_marked
  by (simp add: run_sub_def resolve_action_def releasing_simps start_run_def ret_def on_result_def set_sub_condition_def drop_finalizers_def
      OK_def zero_result_def is_stop_with_requeue_def is_stop_def is_skip_all_def is_pending_def min_requeue_def Let_def)

lemma releasing_skip:
  assumes "as_terminator s = None" and "as_finalizer s = None"
  shows "run_sub releasing c True s rest (start_run acme_cluster w) = (start_run acme_cluster w, True)"
  using assms acme_marked by (simp add: run_sub_def resolve_action_def finalize_action_def releasing_simps start_run_def)

lemma acme_terminates:
  "store_terminate (small_setup False) c acme_cluster w = (ret OK, acme_cluster, w)"
  "idp_terminate (small_setup False) c acme_cluster w = (ret OK, acme_cluster, w)"
  "so_auth w ''acme'' = None \<Longrightarrow> auth_terminate (small_setup False) c acme_cluster w = (ret OK, acme_cluster, w)"
  by (simp_all add: store_terminate_def idp_terminate_def auth_terminate_def terminate_resource_def small_setup_def
      small_orgs_clients_def deleteOrgResource_def gone_def is_not_found_def)

lemma releasing_run: "run_phase releasing c True acme_cluster acme_new = start_run acme_cluster acme_new"
proof -
  have auth: "run_sub releasing c True (auth_setup_subroutine small_setup_config (small_setup False)) rest (start_run acme_cluster acme_new) =
      (start_run acme_cluster acme_new, True)" for rest
    by (rule releasing_step [of _ "auth_terminate (small_setup False)"]) (simp_all add: auth_setup_subroutine_def acme_terminates acme_new_def)
  have idp: "run_sub releasing c True (idp_setup_subroutine small_setup_config (small_setup False)) rest (start_run acme_cluster acme_new) =
      (start_run acme_cluster acme_new, True)" for rest
    by (rule releasing_step [of _ "idp_terminate (small_setup False)"]) (simp_all add: idp_setup_subroutine_def acme_terminates)
  have store: "run_sub releasing c True (store_setup_subroutine small_setup_config (small_setup False)) rest (start_run acme_cluster acme_new) =
      (start_run acme_cluster acme_new, True)" for rest
    by (rule releasing_step [of _ "store_terminate (small_setup False)"]) (simp_all add: store_setup_subroutine_def acme_terminates)
  have invite: "run_sub releasing c True (invite_setup_subroutine (small_setup False)) rest (start_run acme_cluster acme_new) =
      (start_run acme_cluster acme_new, True)" for rest
    by (rule releasing_skip) (simp_all add: invite_setup_subroutine_def)
  show ?thesis by (simp add: run_phase_def releasing_simps auth idp store invite)
qed

lemma acme_released:
  "rs_panic (start_run acme_cluster acme_new) = None"
  "remove_markers releasing True (start_run acme_cluster acme_new) \<noteq> rs_obj (start_run acme_cluster acme_new)"
  by (simp_all add: start_run_def remove_markers_def releasing_simps remove_marker_from_status_def cluster_iface_def org_iface_def typed_iface_def
      terminators_json_def read_terminators_def acme_cluster_def strip_marker_def statusFieldTerminators_def obj_delete_def)

subsection \<open>Deleting the identity provider\<close>

definition small_secrets :: "(client_secret, small_orgs) kind_client" where
  "small_secrets = view_client
     (\<lambda>k w. if k \<in> so_secrets w then Inr ((empty_secret k)\<lparr>cs_data := Some [''registration_access_token'' \<mapsto> ''t'']\<rparr>) else Inl gone)
     (\<lambda>s w. (None, w\<lparr>so_secrets := so_secrets w - {cs_ref s}\<rparr>))"

definition no_content :: kc_response where
  "no_content = \<lparr>ks_status = 204, ks_json = Inr JNull, ks_text = [], ks_location = []\<rparr>"

definition small_keycloak_web :: "small_orgs web" where
  "small_keycloak_web =
     \<lparr>wb_url = (\<lambda>_. None),
      wb_do = (\<lambda>q w. (Inr no_content, if kq_method q = DELETE
         then w\<lparr>so_realms := {r \<in> so_realms w. kq_url q \<noteq> ''https://kc/admin/realms/'' @ r}\<rparr> else w))\<rparr>"

definition small_idp_env :: "small_orgs idp_env" where
  "small_idp_env =
     \<lparr>id_orgs = (\<lambda>w. Inr small_secrets), id_put_secret = (\<lambda>f x w. (None, w)), id_from_context = (\<lambda>n w. None),
      id_patch_status = (\<lambda>x y w. (None, x, w)), id_web = small_keycloak_web, id_base = ''https://kc'',
      id_registration = (\<lambda>q w. (Inr no_content, w)), id_order = (\<lambda>m. []), id_smtp = None, id_lifespan = 0, id_not_engaged = (\<lambda>e. False)\<rparr>"

lemma kc_base: "trim_suffix ''https://kc'' ''/'' = ''https://kc''"
  by (simp add: trim_suffix_def has_suffix_def has_prefix_def)

lemma small_idp_laws: "idp_laws small_idp_env so_secrets so_realms"
  by (auto simp: idp_laws_def small_idp_env_def small_secrets_def small_keycloak_web_def kc_base gone_def is_not_found_def split: if_splits)

lemma acme_idp_finalize:
  assumes "idp_id y = idp_id acme_idp"
  shows "fst (idp_finalize small_idp_env c y acme_new) = ret OK"
proof -
  have y: "idp_name y = ''acme''" "is_clients (idp_spec_of y) = is_clients (idp_spec_of acme_idp)"
    "managed_of y ''acme'' = \<lparr>mc_id = ''c1'', mc_uri = ''https://kc/c1'', mc_secret = (''default'', ''acme'')\<rparr>"
    using assms by (simp_all add: idp_id_def acme_idp_def managed_of_def idp_name_def new_meta_def)
  let ?C = "fst (newOIDCClient small_idp_env ''acme'')" and ?A = "snd (newOIDCClient small_idp_env ''acme'')"
  have token: "readRegistrationAccessToken small_idp_env (''default'', ''acme'') acme_new = Inr ''t''"
    by (simp add: readRegistrationAccessToken_def small_idp_env_def small_secrets_def acme_new_def empty_secret_def)
  have del: "Delete_client ?C ''c1'' ''https://kc/c1'' ''t'' w = (None, w)" for w
    by (simp add: Delete_client_def reg_call_def newOIDCClient_def small_idp_env_def small_keycloak_web_def RoundTrip_def no_content_def Let_def)
  have sec: "fst (delete_secret small_idp_env what ref w) = None" for what ref w
    by (simp add: delete_secret_def small_idp_env_def small_secrets_def)
  have "fst (finalize_clients small_idp_env ?C y (is_clients (idp_spec_of acme_idp)) acme_new) = None"
    using sec by (simp add: acme_idp_def finalize_client_def token y(3) del Let_def split: prod.split option.split)
      (metis fst_conv option.distinct(1))
  then obtain w1 where f: "finalize_clients small_idp_env ?C y (is_clients (idp_spec_of acme_idp)) acme_new = (None, w1)"
    by (metis prod.collapse)
  obtain C A where ca: "newOIDCClient small_idp_env ''acme'' = (C, A)" by fastforce
  have "fst (DeleteRealm ?A ''acme'' w1) = None"
    by (simp add: DeleteRealm_def kc_call_def newOIDCClient_def NewAdminClient_def small_idp_env_def small_keycloak_web_def no_content_def Let_def)
  then obtain w2 where "DeleteRealm ?A ''acme'' w1 = (None, w2)" by (metis prod.collapse)
  then have "fst (idp_finalize_body small_idp_env c y acme_new) = ret OK"
    using f by (simp add: idp_finalize_body_def y ca)
  then show ?thesis
    by (cases "idp_finalize_body small_idp_env c y acme_new") (simp add: idp_finalize_def pendingIfClusterNotReady_def ret_def)
qed

definition idle_idp_api :: "(unit, idp_config, small_orgs) engine_api" where
  "idle_idp_api = \<lparr>api_get = (\<lambda>_ _ w. Inl gone), api_patch = (\<lambda>_ _ x w. (None, x, w)), api_status_patch = (\<lambda>_ _ x w. (None, x, w))\<rparr>"

lemma acme_idp_released:
  assumes "L = the (idp_controller N (idp_iface tu fu) api de cc small_idp_env)"
  shows "IdpFinalizer \<notin> set (m_finalizers (idp_meta (rs_obj (run_phase L c True acme_idp acme_new))))"
proof -
  have "IdpFinalizer \<in> set (m_finalizers (idp_meta acme_idp))" by (simp add: acme_idp_def)
  then obtain y where y: "idp_id y = idp_id acme_idp" "m_finalizers (idp_meta (rs_obj (run_phase L c True acme_idp acme_new))) =
      (if finalize_done ActionFinalize (fst (idp_finalize small_idp_env c y acme_new)) then filter (\<lambda>g. g \<noteq> IdpFinalizer) (m_finalizers (idp_meta acme_idp))
       else m_finalizers (idp_meta acme_idp))"
    using idp_deletion_finalizers [OF assms] by blast
  have "finalize_done ActionFinalize (ret OK)"
    by (simp add: finalize_done_def ret_def OK_def zero_result_def is_continue_def)
  then show ?thesis by (simp add: y acme_idp_finalize)
qed

end
