(* ===== verification/Setup_Props.thy ===== *)
theory Setup_Props
  imports Setup_Example Lifecycle_Props
begin

text \<open>The properties of the identity providers, the authentication of workspaces and the release of organizations.\<close>

subsection \<open>Authentication\<close>

text \<open>
  C37. Through any sequence of set-ups and deletions, for any workspaces and with anything in between that leaves the
  authenticators alone, a stored authentication configuration accepts only tokens of the realm of its own
  organization, and that realm is no other organization's.
\<close>

theorem tokens_stay_in_organization:
  assumes "orgs_laws R V" and "own_realms G (sv_auth V w)" and "(auth_step G R V)\<^sup>*\<^sup>* w w'"
    and "sv_auth V w' ws = Some cfg" and "accepts cfg iss aud"
  shows "iss = realm_issuer G ws \<and> (\<forall>other. iss = realm_issuer G other \<longrightarrow> other = ws)"
proof -
  from assms(3) have "own_realms G (sv_auth V w')"
  proof (induction rule: rtranclp_induct)
    case (step y z)
    then show ?case using auth_step_own [OF _ assms(1)] by blast
  qed (rule assms(2))
  then have "own_realm G ws cfg" using assms(4) by (simp add: own_realms_def)
  then have "iss = realm_issuer G ws" using assms(5) by (auto simp: own_realm_def accepts_def)
  then show ?thesis by (simp add: realm_issuer_inject)
qed

theorem tokens_stay_in_organization_witness:
  "so_auth acme_ready ''acme'' = Some acme_auth \<and> accepts acme_auth (realm_issuer small_setup_config ''acme'') ''c1'' \<and>
   \<not> accepts acme_auth (realm_issuer small_setup_config ''beta'') ''c1''"
proof -
  let ?G = small_setup_config and ?R = "small_setup True"
  have own: "own_realms ?G (sv_auth small_setup_view acme_with_idp)"
    by (simp add: own_realms_def small_setup_view_def acme_with_idp_def acme_new_def)
  have run: "(auth_step ?G ?R small_setup_view)\<^sup>*\<^sup>* acme_with_idp acme_ready"
    using auth_step.sets_up [OF acme_auth_setup] by blast
  have cfg: "sv_auth small_setup_view acme_ready ''acme'' = Some acme_auth" by (simp add: small_setup_view_def acme_ready_def)
  have "accepts acme_auth (realm_issuer ?G ''acme'') ''c1''" by (simp add: accepts_def acme_auth_def jwt_of_def)
  moreover have "\<not> accepts acme_auth (realm_issuer ?G ''beta'') ''c1''"
    using tokens_stay_in_organization [OF small_orgs_laws own run cfg, of "realm_issuer ?G ''beta''" "''c1''"] by (auto simp: realm_issuer_inject)
  ultimately show ?thesis by (simp add: acme_ready_def)
qed

text \<open>
  C38. When the set-up of the identity provider has finished for an organization, the AccountInfo was not changed
  since and the set-up of the authentication has finished too, then the stored configuration accepts exactly the
  tokens of the organization's realm for one of the clients its Ready identity provider manages or for an audience
  of the configuration, and every workspace type of the organization refers to it and to no other. Reads are taken
  to be current, not from a cache that lags behind; a patch stores what it differs in from the original it is
  computed against, and is of use only when that original is what is stored.
\<close>

theorem setup_accepts_own_clients:
  assumes "orgs_laws R V" and "context_laws R V id_of" and "idp_setup G R c lc w = (ret OK, lc1, w1)"
    and "su_orgs R w = Inr O1" and "k_get (oc_accounts O1) ([], getWorkspaceName lc) w = Inr a" and "aspec_type (acc_spec a) = AccountTypeOrg"
    and "sv_infos V w2 = sv_infos V w1" and "auth_setup G R c lc w2 = (ret OK, lc2, w3)"
  shows "\<exists>x w0 cfg. k_get (oc_idps O1) ([], getWorkspaceName lc) w0 = Inr x \<and> idp_complete x \<and>
    sv_auth V w3 (getWorkspaceName lc) = Some cfg \<and> types_refer (getWorkspaceName lc) (sv_types V w3 (getWorkspaceName lc)) \<and>
    (\<forall>iss aud. accepts cfg iss aud \<longleftrightarrow> iss = realm_issuer G (getWorkspaceName lc) \<and>
       (aud \<in> set (sg_audiences G) \<or> (\<exists>n m. is_managed (idp_status_of x) n = Some m \<and> mc_id m = aud)))"
proof -
  obtain x w0 j where x: "k_get (oc_idps O1) ([], getWorkspaceName lc) w0 = Inr x" "idp_complete x"
    and j: "sv_infos V w1 (id_of (ctx_cluster c)) = Some j" "pa_oidc j = Some (desired_oidc G (getWorkspaceName lc) x)"
    using idp_setup_writes [OF assms(2,3) refl assms(4-6)] by blast
  have fin: "finite (dom (is_managed (idp_status_of x)))" using assms(2,4) x(1) unfolding context_laws_def by blast
  note auth_setup_writes [OF assms(1,2,8) refl j(1) [folded assms(7)] j(2) fin]
  then show ?thesis using x by blast
qed

theorem setup_accepts_own_clients_witness:
  "\<exists>cfg. so_auth acme_ready ''acme'' = Some cfg \<and> accepts cfg (realm_issuer small_setup_config ''acme'') ''c1'' \<and>
    accepts cfg (realm_issuer small_setup_config ''acme'') ''cli'' \<and> \<not> accepts cfg (realm_issuer small_setup_config ''acme'') ''other'' \<and>
    so_types acme_ready ''acme'' = Some [''acme'']"
proof -
  let ?O = "small_orgs_clients True"
  have o1: "su_orgs (small_setup True) acme_new = Inr ?O" by (simp add: small_setup_def)
  have a: "k_get (oc_accounts ?O) ([], getWorkspaceName acme_cluster) acme_new = Inr acme" "aspec_type (acc_spec acme) = AccountTypeOrg"
    by (simp_all add: small_orgs_clients_def acme_def an_account_def)
  have idp: "x = acme_idp" if "k_get (oc_idps ?O) k w = Inr x" for k w x using that by (simp add: small_orgs_clients_def)
  obtain x w0 cfg where "k_get (oc_idps ?O) ([], ''acme'') w0 = Inr x" and cfg: "so_auth acme_ready ''acme'' = Some cfg"
    and acc: "\<forall>iss aud. accepts cfg iss aud \<longleftrightarrow> iss = realm_issuer small_setup_config ''acme'' \<and>
       (aud \<in> set (sg_audiences small_setup_config) \<or> (\<exists>n m. is_managed (idp_status_of x) n = Some m \<and> mc_id m = aud))"
    using setup_accepts_own_clients [OF small_orgs_laws small_context_laws acme_idp_setup o1 a refl acme_auth_setup]
    unfolding acme_cluster_name small_setup_view_def setup_view.simps by blast
  then have x: "x = acme_idp" using idp by blast
  have "is_managed (idp_status_of x) n = Some m \<longleftrightarrow> n = ''acme'' \<and> m = \<lparr>mc_id = ''c1'', mc_uri = ''https://kc/c1'', mc_secret = (''default'', ''acme'')\<rparr>" for n m
    by (auto simp: x acme_idp_def)
  moreover have "sg_audiences small_setup_config = [''cli'']" by (simp add: small_setup_config_def)
  ultimately have "accepts cfg (realm_issuer small_setup_config ''acme'') aud \<longleftrightarrow> aud = ''cli'' \<or> aud = ''c1''" for aud
    using acc by auto
  then show ?thesis using cfg by (auto simp: acme_ready_def)
qed

subsection \<open>Release\<close>

text \<open>
  C39. When a deletion pass over the LogicalCluster of an organization takes the operator's mark away, so that kcp may
  delete the workspace, the Store and the IdentityProviderConfiguration of the organization were seen gone.
\<close>

theorem organization_released_last:
  assumes "L = org_controller I api de cc G R rekey ini mark" and "mark \<noteq> []" and "terminates_only rekey"
    and "sg_initializer_on G" and "sg_idp_on G" and "has_marker_in_status I lc statusFieldTerminators mark"
    and "st = run_phase L c True lc w" and "rs_panic st = None" and "remove_markers L True st \<noteq> rs_obj st"
  shows "(\<exists>w1 O1. su_orgs R w1 = Inr O1 \<and> seen_gone (oc_stores O1) (generateStoreName lc) w1) \<and>
    (\<exists>w2 O2. su_orgs R w2 = Inr O2 \<and> seen_gone (oc_idps O2) (getWorkspaceName lc) w2)"
proof -
  have clean: "ended_cleanly (run_phase L c True lc w)"
    using assms(7-9) by (auto simp: remove_markers_def ended_cleanly_def split: if_splits)
  note ends = org_deletion_ends [OF assms(1-3,6) clean]
  obtain w1 where "continues (fst (store_terminate R c lc w1))"
    using ends [of "store_setup_subroutine G R" "store_terminate R"] by (auto simp: org_subroutines_def assms(4) store_setup_subroutine_def)
  moreover obtain w2 where "continues (fst (idp_terminate R c lc w2))"
    using ends [of "idp_setup_subroutine G R" "idp_terminate R"] by (auto simp: org_subroutines_def assms(5) idp_setup_subroutine_def)
  ultimately show ?thesis using setup_terminates_gone [of R c lc w1] idp_terminates_gone [of R c lc w2] by blast
qed

theorem organization_released_last_witness:
  "remove_markers releasing True (run_phase releasing (in_cluster ''c'') True acme_cluster acme_new) \<noteq> acme_cluster \<and>
   (\<exists>w1 O1. su_orgs (small_setup False) w1 = Inr O1 \<and> seen_gone (oc_stores O1) ''acme'' w1) \<and>
   (\<exists>w2 O2. su_orgs (small_setup False) w2 = Inr O2 \<and> seen_gone (oc_idps O2) ''acme'' w2)"
proof -
  have c: "''root:security'' \<noteq> []" "terminates_only no_rekey" "sg_initializer_on small_setup_config" "sg_idp_on small_setup_config"
    by (simp_all add: terminates_only_def no_rekey_def small_setup_config_def)
  have "remove_markers releasing True (start_run acme_cluster acme_new) \<noteq> acme_cluster"
    using acme_released(2) by (simp add: start_run_def)
  then show ?thesis
    using organization_released_last [OF releasing_def c acme_marked releasing_run [symmetric] acme_released]
    unfolding releasing_run acme_cluster_name by blast
qed

text \<open>
  C40. When a deletion pass takes the finalizer off an IdentityProviderConfiguration, its realm is gone from Keycloak, and
  so are the secrets of the clients that its spec names and its status knows. A client that the status still
  manages but that left the spec before the last Process keeps its secret: Finalize does not look at it.
\<close>

theorem realm_gone_before_finalizer:
  assumes "L = the (idp_controller N (idp_iface tu fu) api de cc R)" and "idp_laws R S Rm"
    and "IdpFinalizer \<in> set (m_finalizers (idp_meta x))"
    and "IdpFinalizer \<notin> set (m_finalizers (idp_meta (rs_obj (run_phase L c True x w))))"
  shows "idp_name x \<notin> Rm (rs_world (run_phase L c True x w)) \<and>
    (\<forall>cl \<in> set (is_clients (idp_spec_of x)). registered_client x cl \<longrightarrow> ic_secret cl \<notin> S (rs_world (run_phase L c True x w)))"
proof -
  obtain y out z where y: "idp_id y = idp_id x" "finalize_done ActionFinalize out"
    and f: "idp_finalize R c y w = (out, z, rs_world (run_phase L c True x w))"
    using idp_deletion_pass [OF assms(1,3,4)] by blast
  have "idp_name y = idp_name x" "idp_spec_of y = idp_spec_of x" "registered_client y = registered_client x"
    using y(1) by (simp_all add: idp_id_def registered_client_def managed_of_def fun_eq_iff)
  then show ?thesis using idp_finalize_done [OF assms(2) f y(2)] by simp
qed

theorem realm_gone_before_finalizer_witness:
  "let L = the (idp_controller list_meta (idp_iface (\<lambda>_. Inr JNull) (\<lambda>_ x. (None, x))) idle_idp_api (=) (\<lambda>_. Inr ()) small_idp_env);
       w = rs_world (run_phase L (in_cluster ''c'') True acme_idp acme_new) in
   ''acme'' \<in> so_realms acme_new \<and> ''acme'' \<notin> so_realms w \<and> (''default'', ''acme'') \<notin> so_secrets w"
proof -
  have f: "IdpFinalizer \<in> set (m_finalizers (idp_meta acme_idp))" by (simp add: acme_idp_def)
  let ?c = "\<lparr>ic_type = Confidential, ic_name = ''acme'', ic_redirects = [], ic_logouts = [], ic_secret = (''default'', ''acme'')\<rparr>"
  have cl: "?c \<in> set (is_clients (idp_spec_of acme_idp))" "registered_client acme_idp ?c"
    by (simp_all add: acme_idp_def registered_client_def managed_of_def)
  have n: "idp_name acme_idp = ''acme''" by (simp add: idp_name_def acme_idp_def new_meta_def)
  let ?L = "the (idp_controller list_meta (idp_iface (\<lambda>_. Inr JNull) (\<lambda>_ x. (None, x))) idle_idp_api (=) (\<lambda>_. Inr ()) small_idp_env)"
  let ?w = "rs_world (run_phase ?L (in_cluster ''c'') True acme_idp acme_new)"
  have fin: "IdpFinalizer \<notin> set (m_finalizers (idp_meta (rs_obj (run_phase ?L (in_cluster ''c'') True acme_idp acme_new))))"
    by (rule acme_idp_released [OF refl])
  have "''acme'' \<notin> so_realms ?w" "ic_secret ?c \<notin> so_secrets ?w"
    using realm_gone_before_finalizer [OF refl small_idp_laws f fin] cl unfolding n by blast+
  moreover have "''acme'' \<in> so_realms acme_new" by (simp add: acme_new_def)
  ultimately show ?thesis unfolding Let_def by simp
qed

end
