(* ===== verification/Spec2Isabelle.thy ===== *)
theory Spec2Isabelle
  imports Lifecycle_Props Broker_Props Broker_Cleanup Template_Props Rebac_Props Fga_Props
    Search_Props Search_Index Search_Client Iam_Props Account_Props Backup_Props Setup_Props
begin

text \<open>
  Platform Mesh: the subroutine lifecycle engine, the resource broker, the security operator and the account
  operator built on it, the authorization webhook, and the search and IAM services.

  \<^bold>\<open>The program.\<close> Every operator of the repository reconciles objects with the engine of
  \<^verbatim>\<open>subroutines/\<close>: a chain of subroutines is run on an object (backwards when it is being deleted),
  their results steer the chain, and finalizers, conditions, initializer markers and the spread of
  reconcile times are kept on the object. The resource broker
  (\<^verbatim>\<open>operators/resource-broker\<close>) is the largest client: it assigns consumer objects to providers whose
  AcceptAPI takes them, stages a copy in a workspace of its own, brings status and related resources
  back, and migrates a copy from one provider to another in stages. The security operator
  (\<^verbatim>\<open>operators/security-operator\<close>) keeps the relations of OpenFGA in step with accounts, stores and API
  export policies and generates the authorization models; the authorization webhook
  (\<^verbatim>\<open>services/rebac-authz-webhook\<close>) answers the access reviews of kcp from those relations. The two share no
  code, only the names of stores, objects and relations they ask OpenFGA about. The search service
  (\<^verbatim>\<open>services/search-service\<close>) answers full-text searches of an organization over OpenSearch and shows a caller
  only the hits that OpenFGA grants. The IAM service (\<^verbatim>\<open>services/iam-service\<close>) lists, assigns and removes the roles of
  users, which are tuples in the organization's store. The account operator (\<^verbatim>\<open>operators/account-operator\<close>) gives every
  Account a workspace of a type of its organization and an AccountInfo, which the other parts read. The security
  operator also sets up the identity provider of an organization, a realm of Keycloak, with its clients, invitations and the
  authentication of its workspaces. The backup operator (\<^verbatim>\<open>operators/backup-operator\<close>) compares the topology of a
  backup with that of the platform it is restored to.

  \<^bold>\<open>The theories.\<close>
  \<^item> \<open>Prelude\<close>: errors with their API reasons, durations, the string functions of Go's library
    that are used, sorted string sets, JSON trees.
  \<^item> \<open>Objects\<close>: metadata and the interface of an object the engine can work on (locale
    \<open>object_laws\<close>: reading a part back after writing it, frame conditions).
  \<^item> \<open>Subroutines\<close> (\<^verbatim>\<open>result.go\<close>, \<^verbatim>\<open>context.go\<close>, \<^verbatim>\<open>subroutine.go\<close>), \<open>Conditions\<close>
    (\<^verbatim>\<open>conditions/manager.go\<close>), \<open>Spread\<close> (\<^verbatim>\<open>spread/manager.go\<close>), \<open>Lifecycle\<close>
    (\<^verbatim>\<open>lifecycle/lifecycle.go\<close>): the engine, one definition per function, the chain as a fold over an
    explicit run state.
  \<^item> \<open>Engine\<close>: the abstract view of a run, the trace of (subroutine, action, outcome), and the
    locale \<open>engine\<close> of controllers whose subroutines leave the finalizers alone; the facts about
    finalizers are proved there and interpreted on the broker's three controllers.
  \<^item> \<open>Api_Types\<close>: the custom resources (\<^verbatim>\<open>apis/broker\<close>, \<^verbatim>\<open>apis/coordbroker\<close>, \<^verbatim>\<open>apis/core\<close>) and
    \<^verbatim>\<open>AcceptAPI.AppliesTo\<close>.
  \<^item> \<open>Clients\<close>: the typed client of one kind, the finalizer library and the laws of
    \<^verbatim>\<open>RetryOnConflict\<close> (locale \<open>retry_laws\<close>).
  \<^item> \<open>Broker_Options\<close>, \<open>Broker_Assignment\<close>, \<open>Broker_Copy\<close>: the brokered-resource controller with
    \<^verbatim>\<open>assignment.go\<close>, \<^verbatim>\<open>copy.go\<close>, \<^verbatim>\<open>related_resources.go\<close> and \<^verbatim>\<open>golang-commons/controller/transfer\<close>.
  \<^item> \<open>Broker_Staging\<close>: the StagingWorkspace controller. \<open>Broker_Migration\<close> and \<open>Templates\<close>: the Migration
    controller and the interpolation of its templates.
  \<^item> \<open>Lifecycle_Props\<close>, \<open>Broker_Props\<close>, \<open>Broker_Cleanup\<close>, \<open>Template_Props\<close>: the properties.
    \<open>Broker_Example\<close> is the small world their closed instances run in.
  \<^item> \<open>Rebac_Names\<close>, \<open>Rebac_Authz\<close>, \<open>Rebac_Cache\<close>, \<open>Rebac_Server\<close>: the webhook. The names of groups, relations
    and objects in OpenFGA; the handlers of one review (non-resource attributes, the organisation
    workspace, contextual requests, priviledged groups) and their union; the cluster cache with its
    resolvers; the HTTP endpoint, the batch request and the delayed answers. \<open>Rebac_Props\<close> holds
    their properties.
  \<^item> \<open>Fga_Types\<close>, \<open>Fga_Tuples\<close>, \<open>Fga_Laws\<close>: the tuples, stores and accounts of the security operator, the tuple
    manager (\<^verbatim>\<open>pkg/fga/tuples.go\<close>) and the laws of its writers and of paging (locale \<open>tuple_writer\<close>).
    \<open>Fga_Rekey\<close>, \<open>Fga_Accounts\<close>, \<open>Fga_Stores\<close>, \<open>Fga_Policies\<close>, \<open>Fga_Model\<close>: the subroutines of
    \<^verbatim>\<open>internal/subroutine\<close>, one theory each; \<open>Fga_Policies\<close> states what both directions of a policy share
    (locale \<open>grant_writer\<close>). \<open>Fga_Controllers\<close> runs them on the engine and interprets its locale on the
    store and the model controller. \<open>Fga_Example\<close> is a small OpenFGA server, \<open>Fga_Props\<close> the properties.
  \<^item> \<open>Search_Types\<close>, \<open>Search_Cursor\<close>, \<open>Search_Service\<close> (\<^verbatim>\<open>internal/service/search\<close>): requests, hits, cursors with their
    base64, and the search that fetches and filters pages; the filter is the locale \<open>hit_filter\<close>.
    \<open>Search_Auth\<close> (\<^verbatim>\<open>clients/fga\<close>) provides it with batch checks of OpenFGA and interprets the locale; \<open>Search_Index\<close>,
    \<open>Search_Client\<close> (\<^verbatim>\<open>clients/kcp\<close>, \<^verbatim>\<open>clients/opensearch\<close>) resolve indices and build the query;
    \<open>Search_Http\<close> is the router and the middleware. \<open>Search_Laws\<close> relates the paged scan to one scan over the
    whole ranking, \<open>Search_Hash\<close> the hash in a cursor to the filters it stands for, \<open>Search_Errors\<close> compares
    backends that differ in their error texts, \<open>Search_Example\<close> is a small installation and \<open>Search_Props\<close> holds
    the properties.
  \<^item> \<open>Iam_Types\<close>, \<open>Iam_Roles\<close> (\<^verbatim>\<open>pkg/roles\<close>): the vocabulary of the IAM service and its two sources of roles, a file
    and the cache that informer events on ProviderPermissions keep. \<open>Iam_Fga\<close> (\<^verbatim>\<open>pkg/fga\<close>): listing, assigning and removing
    roles, invitations, the store helper. \<open>Iam_Users\<close> (\<^verbatim>\<open>pkg/keycloak\<close>, \<^verbatim>\<open>pkg/sorter\<close>, \<^verbatim>\<open>pkg/pager\<close>, \<^verbatim>\<open>pkg/resolver/transformer\<close>):
    users, their order and pages. \<open>Iam_Auth\<close> (\<^verbatim>\<open>pkg/directive\<close>, \<^verbatim>\<open>pkg/middleware\<close>, \<^verbatim>\<open>pkg/resolver\<close>): the directive that asks
    OpenFGA, the context of a request, the resolvers. \<open>Iam_Laws\<close> and \<open>Iam_Access\<close> say what they do to the tuples,
    \<open>Iam_Example\<close> is a small installation and \<open>Iam_Props\<close> holds the properties.
  \<^item> \<open>Rate_Limiter\<close> (\<^verbatim>\<open>golang-commons/controller/lifecycle/ratelimiter\<close>): its configuration and state, and runs of calls.
    \<open>Account_Types\<close>, \<open>Account_Workspace\<close>, \<open>Account_Info\<close> (\<^verbatim>\<open>operators/account-operator/pkg/subroutines\<close>): the clusters of kcp
    with their clients, the workspace types, workspaces and AccountInfos of accounts, and the two controllers.
    \<open>Account_Laws\<close> interprets the locale of the engine on them and follows the organization through AccountInfos;
    \<open>Account_Safety\<close> follows workspaces, types and deletion passes; \<open>Account_Example\<close> is a small kcp and
    \<open>Account_Props\<close> holds the properties.
  \<^item> \<open>Keycloak_Client\<close> (\<^verbatim>\<open>security-operator/pkg/clientreg\<close>): the admin API of Keycloak and the registration of clients over
    an HTTP transport. \<open>Idp_Config\<close>, \<open>Invite_User\<close> (\<^verbatim>\<open>internal/subroutine/idp\<close>, \<^verbatim>\<open>internal/subroutine/invite\<close>): the controllers of
    IdentityProviderConfigurations and Invites. \<open>Org_Setup\<close>: the subroutines that set up an organization's workspace and
    undo it, and their controller. \<open>Setup_Laws\<close> says which tokens the stored configurations accept, \<open>Setup_Release\<close> follows
    deletion passes, with the locale of the engine interpreted on them; \<open>Setup_Example\<close> is a small installation and
    \<open>Setup_Props\<close> holds the properties.
  \<^item> \<open>Backup_Topology\<close> (\<^verbatim>\<open>operators/backup-operator/pkg/topology\<close>): the manifest of a platform with its schema, the comparison and
    the digest; \<open>Backup_Props\<close> holds its property.

  \<^bold>\<open>How state is modelled.\<close> A controller is a function of the world, which stays abstract: every API call
  is a field of a record of clients that takes the world and returns the answer with the world
  after it, so the order of calls is visible in the terms and any server behaviour, conflicts and
  failures included, is an instance. Objects are records; the conditions, finalizers and status an
  operation changes in memory are returned with it. An error is a value with the reason that
  \<^verbatim>\<open>apierrors\<close> reads off it. A panic of the code is the outcome \<open>Panic\<close>, and
  \<^verbatim>\<open>RetryOnConflict\<close> is any function that obeys \<open>retry_laws\<close>. OpenFGA is a record of calls; what the code relies on is
  stated by \<open>fga_writes\<close> (a write adds the tuples it is given or changes nothing, and a delete likewise) and
  \<open>fga_reads\<close> (the pages of a store hold its tuples and end). The cluster cache of the webhook is a state
  machine whose steps are the critical sections of the code, so every interleaving of
  engagements, attempts and cancellations is a run of it. Iterations over Go maps take
  the entries in the order of the list they are given, so theorems hold for every order.

  \<^bold>\<open>What is shown.\<close> The flags of a run are the summary of its trace; finalizers are added before any
  work and leave only after their Finalize is done; Ready, the conditions and the spread window say
  what happened. For the broker: who may be assigned, what a copy holds, when workspaces, copies
  and Assignments are released and in which order, that a migration only moves forward and through its
  stages in order, and that no controller built from validated options panics. For the templates: the scanner
  recognises exactly the well-formed expressions, and interpolation is the rendering of the template.
  For the webhook: a request is allowed exactly when a configured prefix or the answer of OpenFGA to its own
  question grants it, single and in batches; every request is answered, retries are bounded, and the
  cache stays consistent. For the security operator: account keys round-trip, re-keying loses no tuple,
  termination removes exactly the tuples about the account, the stores hold exactly what the policies
  grant, a store in use survives its deletion, and the generated models define the relations the webhook
  asks for, for the groups, names and verbs that both sides spell alike. For the search: a page is the window of the authorized hits that its number or cursor names, the cursors
  reach every hit, a cursor is bound to its search (\<open>Search_Hash\<close> says for which filters), only
  granted hits and values are shown, and no text of a backend error is. For IAM: roles change only with the
  permission to manage them and only in the caller's organization, an assignment grants what was asked for and
  no more and is what the list then shows, a removal takes one membership, the roles on offer are among those of
  the ProviderPermissions and, while no two objects share a role, all of them, pages partition the sorted users,
  and the walk over a realm finds every user. For the account operator: the AccountInfos name the organization
  at the root, workspaces get a type of it that is Ready, these types keep organizations apart, and neither
  types nor AccountInfos go while something needs them; the requeue delays of its limiter grow and stay in their
  bounds. For the set-up of organizations: a workspace accepts only tokens of its organization's realm, exactly
  those for its clients, and neither the organization nor its identity provider goes before what was made for
  them (of the clients, those that the spec still names). For the backup: manifests round-trip, and the
  comparison accepts only targets that hold what the source needs.

  \<^bold>\<open>Bounds.\<close> Most recursion needs no fuel: the chain, the stages and the values are finite, the loop of
  \<^verbatim>\<open>interpolateString\<close> ends because every round shortens the rest of the string, and chunking ends because
  every round takes at least one tuple. The scan of a search ends because a page that does not end it counts towards
  the scan limit. A client that follows cursors (\<open>follow_cursors\<close>) has fuel; one unit per ranked hit and one more
  are enough. Three loops may run forever, and are partial functions into \<open>option\<close>
  where \<open>None\<close> is not returning: \<open>write_response\<close>, which encodes an error about an error that cannot be
  encoded, \<open>read_pages\<close>, which follows continuation tokens, and \<open>fetch_pages\<close>, which walks the users of a realm and
  skips pages that fail (\<open>fetchAllUsers_loops\<close> shows that it does run forever while all pages fail). That they return
  is part of the claims about them, under the hypothesis that an error can be encoded, that the pages of a store
  end and that pages answer. Counters of the retry tracker are 64-bit words; the offsets of the pages of users are
  computed modulo 64 bits, and the claim about them holds while page times limit stays in range. Durations are integers.

  \<^bold>\<open>Not modelled.\<close> Logging, tracing, metrics and error reports, which no decision depends on; back-off
  delays; the registration of controllers and watches; the clients, OpenFGA, the caches with expiry, CEL, SHA-256 and JSON conversion, which are
  parameters. The generated GraphQL server and Keycloak client, the decoding of arguments, and that the IAM service changes
  users of its cache in place. Of kcp what the hypotheses say: a put stores the mutation of what is there
  (\<open>put_law\<close>), a patch stores the difference to its original (\<open>context_laws\<close>, \<open>org_type_laws\<close>, which also take reads
  to be current), and the cluster of a workspace belongs to the account it was made for (\<open>workspace_tree\<close>).
  The other operators and services of the repository are listed in the manifest.
\<close>

end
